(* ===== verification/Prelude.thy ===== *)
theory Prelude
  imports Complex_Main "HOL-Library.Multiset"
begin

text \<open>
  Shared vocabulary of the development: Go's strings (byte sequences), the integer
  conversions the code writes, the functions of Go's \<open>strings\<close> and \<open>fmt\<close> packages that the
  code calls, the gRPC status values every handler returns, the error values the packages
  compare against, and the driver values that travel to and from the database.
\<close>

named_theorems go_simps \<open>unfolding rules for small Go library functions\<close>

section \<open>Strings and numbers of Go\<close>

text \<open>\<open>strings.Join\<close>, \<open>strings.HasPrefix\<close>, \<open>strings.TrimPrefix\<close>, \<open>strings.CutPrefix\<close>,
  \<open>strings.HasSuffix\<close> and \<open>strings.SplitN(s, sep, 2)\<close> for a one-byte separator.\<close>

fun Join :: "string list \<Rightarrow> string \<Rightarrow> string" where
  "Join [] sep = []"
| "Join [x] sep = x"
| "Join (x # y # xs) sep = x @ sep @ Join (y # xs) sep"

definition HasPrefix :: "string \<Rightarrow> string \<Rightarrow> bool" where
  "HasPrefix s p = (take (length p) s = p)"

definition TrimPrefix :: "string \<Rightarrow> string \<Rightarrow> string" where
  "TrimPrefix s p = (if HasPrefix s p then drop (length p) s else s)"

definition CutPrefix :: "string \<Rightarrow> string \<Rightarrow> string \<times> bool" where
  "CutPrefix s p = (if HasPrefix s p then (drop (length p) s, True) else (s, False))"

definition HasSuffix :: "string \<Rightarrow> string \<Rightarrow> bool" where
  "HasSuffix s p = (length p \<le> length s \<and> drop (length s - length p) s = p)"

definition SplitN2 :: "string \<Rightarrow> char \<Rightarrow> string list" where
  "SplitN2 s c =
     (if c \<in> set s
      then [takeWhile (\<lambda>x. x \<noteq> c) s, tl (dropWhile (\<lambda>x. x \<noteq> c) s)]
      else [s])"

text \<open>\<open>fmt\<close>'s \<open>%d\<close>, zero padding (\<open>%04d\<close>, \<open>%02d\<close>) and \<open>%x\<close> of a byte slice.\<close>

definition digit :: "nat \<Rightarrow> char" where
  "digit d = char_of (48 + d)"

fun nat_str :: "nat \<Rightarrow> string" where
  "nat_str n = (if n < 10 then [digit n] else nat_str (n div 10) @ [digit (n mod 10)])"

declare nat_str.simps [simp del]

definition itoa :: "int \<Rightarrow> string" where
  "itoa i = (if i < 0 then CHR ''-'' # nat_str (nat (- i)) else nat_str (nat i))"

definition pad0 :: "nat \<Rightarrow> int \<Rightarrow> string" where
  "pad0 w i =
     (if i < 0 then CHR ''-'' # replicate (w - 1 - length (nat_str (nat (- i)))) (CHR ''0'') @ nat_str (nat (- i))
      else replicate (w - length (nat_str (nat i))) (CHR ''0'') @ nat_str (nat i))"

text \<open>\<open>strconv.ParseInt(s, 10, 64)\<close>, its range check apart.\<close>

definition num_of :: "string \<Rightarrow> nat" where
  "num_of s = foldl (\<lambda>n c. 10 * n + (of_char c - 48)) 0 s"

definition is_digit :: "char \<Rightarrow> bool" where
  "is_digit c = (48 \<le> (of_char c :: nat) \<and> (of_char c :: nat) \<le> 57)"

definition parse_int :: "string \<Rightarrow> int option" where
  "parse_int s =
     (case s of
        [] \<Rightarrow> None
      | c # cs \<Rightarrow>
          (if c = CHR ''+'' then (if cs \<noteq> [] \<and> list_all is_digit cs then Some (int (num_of cs)) else None)
           else if c = CHR ''-'' then (if cs \<noteq> [] \<and> list_all is_digit cs then Some (- int (num_of cs)) else None)
           else if list_all is_digit s then Some (int (num_of s)) else None))"

lemma num_of_append: "num_of (s @ [c]) = 10 * num_of s + (of_char c - 48)"
  by (simp add: num_of_def)

lemma of_char_digit: "d < 10 \<Longrightarrow> of_char (digit d) = (48 + d :: nat)"
  by (simp add: digit_def)

lemma num_of_nat_str [simp]: "num_of (nat_str n) = n"
proof (induction n rule: nat_str.induct)
  case (1 n)
  show ?case
  proof (cases "n < 10")
    case True
    then show ?thesis by (subst nat_str.simps) (simp add: num_of_def of_char_digit)
  next
    case False
    then show ?thesis using 1 by (subst nat_str.simps) (simp add: num_of_append of_char_digit)
  qed
qed

lemma nat_str_digits: "list_all is_digit (nat_str n)"
proof (induction n rule: nat_str.induct)
  case (1 n)
  have "is_digit (digit d)" if "d < 10" for d using that by (simp add: is_digit_def of_char_digit)
  then show ?case using 1 by (subst nat_str.simps) simp
qed

lemma nat_str_ne [simp]: "nat_str n \<noteq> []"
  by (subst nat_str.simps) simp

lemma length_nat_str: "0 < k \<Longrightarrow> n < 10 ^ k \<Longrightarrow> length (nat_str n) \<le> k"
proof (induction k arbitrary: n)
  case (Suc k)
  show ?case
  proof (cases "n < 10")
    case True
    then show ?thesis by (subst nat_str.simps) simp
  next
    case False
    then have "0 < k" using Suc.prems by (cases k) auto
    moreover have "n div 10 < 10 ^ k" using Suc.prems by (simp add: less_mult_imp_div_less mult.commute)
    ultimately have "length (nat_str (n div 10)) \<le> k" by (rule Suc.IH)
    then show ?thesis using False by (subst nat_str.simps) simp
  qed
qed simp

lemma parse_int_itoa [simp]: "parse_int (itoa i) = Some i"
proof (cases "i < 0")
  case True
  then show ?thesis using nat_str_digits by (simp add: parse_int_def itoa_def)
next
  case False
  obtain c cs where c: "nat_str (nat i) = c # cs" by (cases "nat_str (nat i)") auto
  then have "c \<noteq> CHR ''-''" "c \<noteq> CHR ''+''" using nat_str_digits [of "nat i"] by (auto simp: is_digit_def)
  then show ?thesis using False c nat_str_digits [of "nat i"] num_of_nat_str [of "nat i"]
    by (simp add: parse_int_def itoa_def)
qed

text \<open>The UTF-8 bytes of the non-ASCII literals of the source.\<close>

definition utf8 :: "nat list \<Rightarrow> string" where
  "utf8 bs = map char_of bs"

text \<open>Go's integer conversions \<open>int32(x)\<close> and \<open>int64(x)\<close> keep the low bits and read them as
  two's complement; \<open>int\<close> is 64 bits wide.\<close>

definition int32_conv :: "int \<Rightarrow> int" where
  "int32_conv x = (x + 2 ^ 31) mod 2 ^ 32 - 2 ^ 31"

definition int64_conv :: "int \<Rightarrow> int" where
  "int64_conv x = (x + 2 ^ 63) mod 2 ^ 64 - 2 ^ 63"

definition is_int32 :: "int \<Rightarrow> bool" where
  "is_int32 x = (- (2 ^ 31) \<le> x \<and> x < 2 ^ 31)"

definition is_int64 :: "int \<Rightarrow> bool" where
  "is_int64 x = (- (2 ^ 63) \<le> x \<and> x < 2 ^ 63)"

lemma int32_conv_id [simp]: "is_int32 x \<Longrightarrow> int32_conv x = x"
  by (simp add: int32_conv_def is_int32_def)

lemma int64_conv_id [simp]: "is_int64 x \<Longrightarrow> int64_conv x = x"
  by (simp add: int64_conv_def is_int64_def)

section \<open>Errors and statuses\<close>

text \<open>The error values the packages compare against with \<open>errors.Is\<close> / \<open>errors.As\<close>; every other
  error is its message.\<close>

datatype goerr =
    ErrNoRows
  | ErrNotFound
  | MySQLError int string
  | RedisNil
  | ErrTokenExpired
  | ErrTokenIllegal
  | ErrorNoAuth
  | Errorf string

text \<open>The gRPC status codes (\<open>google.golang.org/grpc/codes\<close>), a status and a handler's result.\<close>

datatype code =
    OK | Canceled | Unknown | InvalidArgument | DeadlineExceeded | NotFound | AlreadyExists
  | PermissionDenied | ResourceExhausted | FailedPrecondition | Aborted | OutOfRange
  | Unimplemented | Internal | Unavailable | DataLoss | Unauthenticated

datatype status = Status code string

primrec status_code :: "status \<Rightarrow> code" where
  "status_code (Status c m) = c"

primrec status_message :: "status \<Rightarrow> string" where
  "status_message (Status c m) = m"

section \<open>Driver values\<close>

text \<open>Values that \<open>database/sql\<close> passes to the driver or hands back from a row: integers, text,
  \<open>float64\<close> parameters (as the rational number they denote), fixed-point columns (in
  hundredths), booleans, NULL and, with the DSN's \<open>parseTime=True\<close>, dates (year, month, day and
  the zone suffix that RFC 3339 gives the connection's location).\<close>

datatype sqlval =
    VNull | VInt int | VStr string | VFloat rat | VDec int | VBool bool | VDate int int int string

section \<open>Generic lemmas\<close>

lemma takeWhile_append_stop:
  "\<forall>x \<in> set xs. P x \<Longrightarrow> \<not> P y \<Longrightarrow> takeWhile P (xs @ y # ys) = xs"
  by (induction xs) auto

lemma dropWhile_append_stop:
  "\<forall>x \<in> set xs. P x \<Longrightarrow> \<not> P y \<Longrightarrow> dropWhile P (xs @ y # ys) = y # ys"
  by (induction xs) auto

lemma HasPrefix_append [simp]: "HasPrefix (p @ s) p"
  by (simp add: HasPrefix_def)

lemma TrimPrefix_append [simp]: "TrimPrefix (p @ s) p = s"
  by (simp add: TrimPrefix_def)

lemma map_of_perm_distinct:
  "distinct (map fst xs) \<Longrightarrow> mset xs = mset ys \<Longrightarrow> map_of xs = map_of ys"
proof -
  assume d: "distinct (map fst xs)" and m: "mset xs = mset ys"
  have "mset (map fst xs) = mset (map fst ys)" using m by simp
  then have d': "distinct (map fst ys)" using d by (metis mset_eq_imp_distinct_iff)
  have s: "set xs = set ys" using m by (rule mset_eq_setD)
  show "map_of xs = map_of ys"
    by (rule map_of_inject_set [THEN iffD2, OF d d' s])
qed

lemma mset_filter_comp: "mset xs = mset ys \<Longrightarrow> mset (filter P xs) = mset (filter P ys)"
  by (metis mset_filter)

lemma sorted_wrt_unique:
  assumes "mset xs = mset ys" "sorted_wrt P xs" "sorted_wrt P ys"
    and "\<forall>x \<in> set xs. \<forall>y \<in> set xs. P x y \<longrightarrow> P y x \<longrightarrow> x = y"
  shows "xs = ys"
  using assms
proof (induction xs arbitrary: ys)
  case (Cons x xs)
  then obtain y ys' where ys: "ys = y # ys'" by (cases ys) auto
  have "set (x # xs) = set (y # ys')" using Cons.prems(1) ys by (metis mset_eq_setD)
  then have "x = y" using Cons.prems(2-4) ys by (metis list.set_intros(1) set_ConsD sorted_wrt.simps(2))
  then show ?case using Cons ys by auto
qed simp

end
