(* ===== verification/SqlUtil.thy ===== *)
theory SqlUtil
  imports Prelude
begin

text \<open>
  The query builder \<open>lib/sqlutil\<close>: conditions and the text they print (\<open>eq.go\<close>, \<open>not_eq.go\<close>,
  \<open>gt.go\<close>, \<open>lt.go\<close>, \<open>in.go\<close>, \<open>not_in.go\<close>, \<open>null.go\<close>, \<open>not_null.go\<close>, \<open>between_and.go\<close>,
  \<open>parentheses.go\<close>, \<open>order_by.go\<close>), the fluent builders \<open>Query\<close>, \<open>Insert\<close>, \<open>Update\<close> and
  \<open>Delete\<close> (\<open>api_*.go\<close>) and the map-driven functions of \<open>api_raw.go\<close>. The database connection is
  the interface \<open>Exec\<close> of \<open>lib/db/mysql/client.go\<close>: a record of functions over an arbitrary
  database state, the parameter of everything that runs a statement. A Go map that is ranged
  over is an association list with distinct keys, in the (arbitrary) iteration order.
\<close>

section \<open>The connection interface\<close>

text \<open>\<open>ExecContext\<close> returns \<open>LastInsertId\<close> and \<open>RowsAffected\<close>; \<open>QueryContext\<close> returns the rows the
  cursor delivers and what \<open>rows.Err()\<close> reports at the end; \<open>QueryRowContext\<close> returns the first
  row, if any.\<close>

record 'db Exec =
  ExecContext :: "'db \<Rightarrow> string \<Rightarrow> sqlval list \<Rightarrow> (goerr + int \<times> int) \<times> 'db"
  QueryContext :: "'db \<Rightarrow> string \<Rightarrow> sqlval list \<Rightarrow> goerr + (sqlval list list \<times> goerr option)"
  QueryRowContext :: "'db \<Rightarrow> string \<Rightarrow> sqlval list \<Rightarrow> goerr + sqlval list option"

text \<open>\<open>sql.Row.Scan\<close> and the loop \<open>for rows.Next() { Scan; append }\<close>.\<close>

definition row_scan :: "(sqlval list \<Rightarrow> goerr + 'a) \<Rightarrow> sqlval list option \<Rightarrow> goerr + 'a" where
  "row_scan f row = (case row of None \<Rightarrow> Inl ErrNoRows | Some vs \<Rightarrow> f vs)"

fun rows_scan :: "(sqlval list \<Rightarrow> goerr + 'a) \<Rightarrow> sqlval list list \<Rightarrow> goerr + 'a list" where
  "rows_scan f [] = Inr []"
| "rows_scan f (r # rs) =
     (case f r of Inl e \<Rightarrow> Inl e
      | Inr x \<Rightarrow> (case rows_scan f rs of Inl e \<Rightarrow> Inl e | Inr xs \<Rightarrow> Inr (x # xs)))"

section \<open>Conditions\<close>

type_synonym Type = int

definition AND :: Type where "AND = 0"

definition OR :: Type where "OR = 1"

definition Type_String :: "Type \<Rightarrow> string" where
  "Type_String t = (if t = AND then '' AND '' else if t = OR then '' OR '' else '' AND '')"

datatype condition =
    CEq Type string sqlval
  | CNotEq Type string sqlval
  | CGt Type string sqlval
  | CLt Type string sqlval
  | CIn Type string "sqlval list"
  | CNotIn Type string "sqlval list"
  | CNull Type string
  | CNotNull Type string
  | CBetweenAnd Type string "sqlval list"
  | CParentheses Type "condition list"

definition WithEq :: "string \<Rightarrow> sqlval \<Rightarrow> condition" where
  "WithEq expr value = CEq AND expr value"

definition WithNotEq :: "string \<Rightarrow> sqlval \<Rightarrow> condition" where
  "WithNotEq expr value = CNotEq AND expr value"

definition WithGt :: "string \<Rightarrow> sqlval \<Rightarrow> condition" where
  "WithGt expr value = CGt AND expr value"

definition WithLt :: "string \<Rightarrow> sqlval \<Rightarrow> condition" where
  "WithLt expr value = CLt AND expr value"

definition WithIn :: "string \<Rightarrow> sqlval list \<Rightarrow> condition" where
  "WithIn expr values = CIn AND expr values"

definition WithNotIn :: "string \<Rightarrow> sqlval list \<Rightarrow> condition" where
  "WithNotIn expr values = CNotIn AND expr values"

definition WithNull :: "string \<Rightarrow> condition" where
  "WithNull expr = CNull AND expr"

definition WithNotNull :: "string \<Rightarrow> condition" where
  "WithNotNull expr = CNotNull AND expr"

definition WithBetweenAnd :: "string \<Rightarrow> sqlval \<Rightarrow> sqlval \<Rightarrow> condition" where
  "WithBetweenAnd expr value1 value2 = CBetweenAnd AND expr [value1, value2]"

definition WithParentheses :: "condition list \<Rightarrow> condition" where
  "WithParentheses conditions = CParentheses AND conditions"

definition trim_first :: "string \<Rightarrow> string" where
  "trim_first w = TrimPrefix (TrimPrefix w (Type_String AND)) (Type_String OR)"

text \<open>The \<open>SQL()\<close> methods of the condition types, one per file; \<open>cond_SQL\<close> is the interface's dynamic
  dispatch (\<open>parentheses\<close> calls it on its parts).\<close>

definition eq_SQL :: "Type \<Rightarrow> string \<Rightarrow> sqlval \<Rightarrow> string \<times> sqlval list" where
  [simp]: "eq_SQL prefix expr value = (Type_String prefix @ expr @ '' = ?'', [value])"

definition notEq_SQL :: "Type \<Rightarrow> string \<Rightarrow> sqlval \<Rightarrow> string \<times> sqlval list" where
  [simp]: "notEq_SQL prefix expr value = (Type_String prefix @ expr @ '' != ?'', [value])"

definition gt_SQL :: "Type \<Rightarrow> string \<Rightarrow> sqlval \<Rightarrow> string \<times> sqlval list" where
  [simp]: "gt_SQL prefix expr value = (Type_String prefix @ expr @ '' > ?'', [value])"

definition lt_SQL :: "Type \<Rightarrow> string \<Rightarrow> sqlval \<Rightarrow> string \<times> sqlval list" where
  [simp]: "lt_SQL prefix expr value = (Type_String prefix @ expr @ '' < ?'', [value])"

definition in_SQL :: "Type \<Rightarrow> string \<Rightarrow> sqlval list \<Rightarrow> string \<times> sqlval list" where
  [simp]: "in_SQL prefix expr values =
     (Type_String prefix @ expr @ '' IN ('' @ Join (map (\<lambda>_. ''?'') values) '','' @ '')'', values)"

definition notIn_SQL :: "Type \<Rightarrow> string \<Rightarrow> sqlval list \<Rightarrow> string \<times> sqlval list" where
  [simp]: "notIn_SQL prefix expr values =
     (Type_String prefix @ expr @ '' NOT IN ('' @ Join (map (\<lambda>_. ''?'') values) '','' @ '')'', values)"

definition null_SQL :: "Type \<Rightarrow> string \<Rightarrow> string \<times> sqlval list" where
  [simp]: "null_SQL prefix expr = (Type_String prefix @ expr @ '' IS NULL'', [])"

definition notNull_SQL :: "Type \<Rightarrow> string \<Rightarrow> string \<times> sqlval list" where
  [simp]: "notNull_SQL prefix expr = (Type_String prefix @ expr @ '' IS NOT NULL'', [])"

definition betweenAnd_SQL :: "Type \<Rightarrow> string \<Rightarrow> sqlval list \<Rightarrow> string \<times> sqlval list" where
  [simp]: "betweenAnd_SQL prefix expr values = (Type_String prefix @ expr @ '' BETWEEN ? AND ?'', values)"

fun cond_SQL :: "condition \<Rightarrow> string \<times> sqlval list" where
  "cond_SQL (CEq p expr v) = eq_SQL p expr v"
| "cond_SQL (CNotEq p expr v) = notEq_SQL p expr v"
| "cond_SQL (CGt p expr v) = gt_SQL p expr v"
| "cond_SQL (CLt p expr v) = lt_SQL p expr v"
| "cond_SQL (CIn p expr vs) = in_SQL p expr vs"
| "cond_SQL (CNotIn p expr vs) = notIn_SQL p expr vs"
| "cond_SQL (CNull p expr) = null_SQL p expr"
| "cond_SQL (CNotNull p expr) = notNull_SQL p expr"
| "cond_SQL (CBetweenAnd p expr vs) = betweenAnd_SQL p expr vs"
| "cond_SQL (CParentheses p cs) =
     (Type_String p @ ''('' @ trim_first (concat (map (\<lambda>c. fst (cond_SQL c)) cs)) @ '')'',
      concat (map (\<lambda>c. snd (cond_SQL c)) cs))"

fun SetPrefix :: "condition \<Rightarrow> Type \<Rightarrow> condition" where
  "SetPrefix (CEq _ e v) p = CEq p e v"
| "SetPrefix (CNotEq _ e v) p = CNotEq p e v"
| "SetPrefix (CGt _ e v) p = CGt p e v"
| "SetPrefix (CLt _ e v) p = CLt p e v"
| "SetPrefix (CIn _ e vs) p = CIn p e vs"
| "SetPrefix (CNotIn _ e vs) p = CNotIn p e vs"
| "SetPrefix (CNull _ e) p = CNull p e"
| "SetPrefix (CNotNull _ e) p = CNotNull p e"
| "SetPrefix (CBetweenAnd _ e vs) p = CBetweenAnd p e vs"
| "SetPrefix (CParentheses _ cs) p = CParentheses p cs"

definition order_SQL :: "string \<times> string \<Rightarrow> string" where
  "order_SQL o1 = fst o1 @ '' '' @ snd o1"

definition DESC :: "string \<Rightarrow> string \<times> string" where
  "DESC name = (name, ''DESC'')"

definition ASC :: "string \<Rightarrow> string \<times> string" where
  "ASC name = (name, ''ASC'')"

text \<open>The loop over the conditions that the four builders share: the texts are concatenated, the
  arguments appended.\<close>

definition where_text :: "condition list \<Rightarrow> string" where
  "where_text cs = concat (map (\<lambda>c. fst (cond_SQL c)) cs)"

definition where_args :: "condition list \<Rightarrow> sqlval list" where
  "where_args cs = concat (map (\<lambda>c. snd (cond_SQL c)) cs)"

definition add_where :: "string \<Rightarrow> condition list \<Rightarrow> string" where
  "add_where sql cs =
     (if where_text cs \<noteq> [] then sql @ '' WHERE '' @ trim_first (where_text cs) else sql)"

section \<open>Query\<close>

record query =
  q_table :: string
  q_columns :: "string list"
  q_conditions :: "condition list"
  q_groupby :: "string list"
  q_orderby :: "string list"
  q_limit :: "int list"

definition NewQuery :: query where
  "NewQuery = \<lparr>q_table = [], q_columns = [], q_conditions = [], q_groupby = [], q_orderby = [], q_limit = []\<rparr>"

definition query_Columns :: "string list \<Rightarrow> query \<Rightarrow> query" where
  "query_Columns columns h = h\<lparr>q_columns := columns\<rparr>"

definition query_Table :: "string \<Rightarrow> query \<Rightarrow> query" where
  "query_Table name h = h\<lparr>q_table := name\<rparr>"

definition query_Where :: "condition list \<Rightarrow> query \<Rightarrow> query" where
  "query_Where conditions h = h\<lparr>q_conditions := q_conditions h @ conditions\<rparr>"

definition query_GroupBy :: "string list \<Rightarrow> query \<Rightarrow> query" where
  "query_GroupBy gropuBy h = h\<lparr>q_groupby := gropuBy\<rparr>"

definition query_OrderBy :: "(string \<times> string) list \<Rightarrow> query \<Rightarrow> query" where
  "query_OrderBy orderBy h = h\<lparr>q_orderby := q_orderby h @ map order_SQL orderBy\<rparr>"

definition query_Limit :: "int \<Rightarrow> int \<Rightarrow> query \<Rightarrow> query" where
  "query_Limit offset cnt h = h\<lparr>q_limit := [offset, cnt]\<rparr>"

text \<open>\<open>QueryOneCtx\<close> and \<open>QueryCtx\<close> build the same text and arguments before they call the driver.\<close>

definition query_sql :: "query \<Rightarrow> string \<times> sqlval list" where
  "query_sql h =
     (let column = (if q_columns h \<noteq> [] then Join (q_columns h) '', '' else ''*'');
          groupby = (if q_groupby h \<noteq> [] then Join (q_groupby h) '','' else []);
          orderby = (if q_orderby h \<noteq> [] then Join (q_orderby h) '','' else []);
          sql1 = add_where (''SELECT '' @ column @ '' FROM '' @ q_table h) (q_conditions h);
          sql2 = (if groupby \<noteq> [] then sql1 @ '' GROUP BY '' @ groupby else sql1);
          sql3 = (if orderby \<noteq> [] then sql2 @ '' ORDER BY '' @ orderby else sql2)
      in if length (q_limit h) = 2
         then (sql3 @ '' LIMIT ?, ?'', where_args (q_conditions h) @ map VInt (q_limit h))
         else (sql3, where_args (q_conditions h)))"

definition QueryOneCtx ::
  "'db Exec \<Rightarrow> 'db \<Rightarrow> query \<Rightarrow> (sqlval list option \<Rightarrow> goerr + 'a) \<Rightarrow> goerr + 'a" where
  "QueryOneCtx exec db h f =
     (if q_table h = [] then Inl (Errorf ''table is invalid'')
      else case QueryRowContext exec db (fst (query_sql h)) (snd (query_sql h)) of
             Inl e \<Rightarrow> Inl e
           | Inr row \<Rightarrow> f row)"

definition QueryCtx ::
  "'db Exec \<Rightarrow> 'db \<Rightarrow> query \<Rightarrow> (sqlval list list \<Rightarrow> goerr + 'a) \<Rightarrow> goerr + 'a" where
  "QueryCtx exec db h f =
     (if q_table h = [] then Inl (Errorf ''table is invalid'')
      else case QueryContext exec db (fst (query_sql h)) (snd (query_sql h)) of
             Inl e \<Rightarrow> Inl e
           | Inr (rows, _) \<Rightarrow> f rows)"

section \<open>Insert, Update, Delete\<close>

definition insert_sql :: "string \<Rightarrow> (string \<times> sqlval) list \<Rightarrow> string" where
  "insert_sql table value =
     ''INSERT INTO '' @ table @ ''('' @ Join (map fst value) '', '' @ '') VALUES ('' @
     Join (map (\<lambda>_. ''?'') value) '', '' @ '')''"

definition InsertCtx ::
  "'db Exec \<Rightarrow> 'db \<Rightarrow> string \<Rightarrow> (string \<times> sqlval) list \<Rightarrow> (goerr + int) \<times> 'db" where
  "InsertCtx exec db table value =
     (if table = [] then (Inl (Errorf ''table is invalid''), db)
      else if length value = 0 then (Inl (Errorf ''value is invalid''), db)
      else case ExecContext exec db (insert_sql table value) (map snd value) of
             (Inl e, db') \<Rightarrow> (Inl e, db')
           | (Inr (lastId, affected), db') \<Rightarrow> (Inr lastId, db'))"

fun batch_row :: "string list \<Rightarrow> (string \<times> sqlval) list \<Rightarrow> goerr + sqlval list" where
  "batch_row [] value = Inr []"
| "batch_row (c # cs) value =
     (case map_of value c of
        None \<Rightarrow> Inl (Errorf (''not found column with ['' @ c @ '']''))
      | Some v \<Rightarrow> (case batch_row cs value of Inl e \<Rightarrow> Inl e | Inr vs \<Rightarrow> Inr (v # vs)))"

fun batch_args :: "string list \<Rightarrow> (string \<times> sqlval) list list \<Rightarrow> goerr + sqlval list" where
  "batch_args cols [] = Inr []"
| "batch_args cols (value # values) =
     (case batch_row cols value of Inl e \<Rightarrow> Inl e
      | Inr vs \<Rightarrow> (case batch_args cols values of Inl e \<Rightarrow> Inl e | Inr ws \<Rightarrow> Inr (vs @ ws)))"

definition batch_sql :: "string \<Rightarrow> string list \<Rightarrow> nat \<Rightarrow> string" where
  "batch_sql table columns n =
     ''insert into '' @ table @ '' ('' @ Join columns '','' @ '') values '' @
     Join (replicate n (''('' @ Join (map (\<lambda>_. ''?'') columns) '', '' @ '')'')) '',''"

definition InsertBatchCtx ::
  "'db Exec \<Rightarrow> 'db \<Rightarrow> string \<Rightarrow> string list \<Rightarrow> (string \<times> sqlval) list list \<Rightarrow> (goerr + int) \<times> 'db" where
  "InsertBatchCtx exec db table columns values =
     (if table = [] then (Inl (Errorf ''table is invalid''), db)
      else if length columns = 0 then (Inl (Errorf ''columns is invalid''), db)
      else if length values = 0 then (Inl (Errorf ''values is invalid''), db)
      else case batch_args columns values of
             Inl e \<Rightarrow> (Inl e, db)
           | Inr args \<Rightarrow>
               (case ExecContext exec db (batch_sql table columns (length values)) args of
                  (Inl e, db') \<Rightarrow> (Inl e, db')
                | (Inr (lastId, affected), db') \<Rightarrow> (Inr affected, db')))"

definition update_sql :: "string \<Rightarrow> (string \<times> sqlval) list \<Rightarrow> condition list \<Rightarrow> string" where
  "update_sql table flds conditions =
     add_where (''UPDATE '' @ table @ '' SET '' @ Join (map (\<lambda>kv. fst kv @ '' = ?'') flds) '','') conditions"

definition UpdateCtx ::
  "'db Exec \<Rightarrow> 'db \<Rightarrow> string \<Rightarrow> (string \<times> sqlval) list \<Rightarrow> condition list \<Rightarrow> (goerr + int) \<times> 'db" where
  "UpdateCtx exec db table flds conditions =
     (if table = [] then (Inl (Errorf ''table is invalid''), db)
      else if length flds = 0 then (Inl (Errorf ''fields is invalid''), db)
      else case ExecContext exec db (update_sql table flds conditions)
                  (map snd flds @ where_args conditions) of
             (Inl e, db') \<Rightarrow> (Inl e, db')
           | (Inr (lastId, affected), db') \<Rightarrow> (Inr affected, db'))"

definition delete_sql :: "string \<Rightarrow> condition list \<Rightarrow> string" where
  "delete_sql table conditions = add_where (''DELETE FROM '' @ table) conditions"

definition DeleteCtx ::
  "'db Exec \<Rightarrow> 'db \<Rightarrow> string \<Rightarrow> condition list \<Rightarrow> (goerr + int) \<times> 'db" where
  "DeleteCtx exec db table conditions =
     (if table = [] then (Inl (Errorf ''table is invalid''), db)
      else case ExecContext exec db (delete_sql table conditions) (where_args conditions) of
             (Inl e, db') \<Rightarrow> (Inl e, db')
           | (Inr (lastId, affected), db') \<Rightarrow> (Inr affected, db'))"

section \<open>The map-driven functions of api\_raw.go\<close>

definition eq_fields :: "(string \<times> sqlval) list \<Rightarrow> string list" where
  "eq_fields m = map (\<lambda>kv. fst kv @ '' = ?'') m"

definition exec_affected :: "(goerr + int \<times> int) \<times> 'db \<Rightarrow> (goerr + int) \<times> 'db" where
  "exec_affected r =
     (case r of (Inl e, db') \<Rightarrow> (Inl e, db') | (Inr (lastId, affected), db') \<Rightarrow> (Inr affected, db'))"

definition TableWithDelete ::
  "'db Exec \<Rightarrow> 'db \<Rightarrow> string \<Rightarrow> (string \<times> sqlval) list \<Rightarrow> (goerr + int) \<times> 'db" where
  "TableWithDelete exec db table wh =
     (if table = [] then (Inl (Errorf ''invalid table''), db)
      else if length wh = 0 then (Inl (Errorf ''invalid where''), db)
      else exec_affected (ExecContext exec db
             (''delete from '' @ table @ '' where '' @ Join (eq_fields wh) '' and '') (map snd wh)))"

definition TableWithUpdate ::
  "'db Exec \<Rightarrow> 'db \<Rightarrow> string \<Rightarrow> (string \<times> sqlval) list \<Rightarrow> (string \<times> sqlval) list \<Rightarrow> (goerr + int) \<times> 'db" where
  "TableWithUpdate exec db table value wh =
     (if table = [] then (Inl (Errorf ''invalid table''), db)
      else if length value = 0 then (Inl (Errorf ''invalid value''), db)
      else if length wh = 0 then (Inl (Errorf ''invalid where''), db)
      else exec_affected (ExecContext exec db
             (''update '' @ table @ '' set '' @ Join (eq_fields value @ [''modify_timestamp = now()'']) '', '' @
              '' where '' @ Join (eq_fields wh) '' and '') (map snd value @ map snd wh)))"

definition TableWithInsertMany ::
  "'db Exec \<Rightarrow> 'db \<Rightarrow> string \<Rightarrow> string list \<Rightarrow> (string \<times> sqlval) list list \<Rightarrow> (goerr + int) \<times> 'db" where
  "TableWithInsertMany exec db table columns values =
     (if table = [] then (Inl (Errorf ''invalid table''), db)
      else if length columns = 0 then (Inl (Errorf ''invalid columns''), db)
      else if length values = 0 then (Inl (Errorf ''invalid values''), db)
      else case batch_args columns values of
             Inl e \<Rightarrow> (Inl e, db)
           | Inr args \<Rightarrow> exec_affected (ExecContext exec db (batch_sql table columns (length values)) args))"

definition TableWithInsertOne ::
  "'db Exec \<Rightarrow> 'db \<Rightarrow> string \<Rightarrow> (string \<times> sqlval) list \<Rightarrow> (goerr + int) \<times> 'db" where
  "TableWithInsertOne exec db table value =
     (if table = [] then (Inl (Errorf ''invalid table''), db)
      else if length value = 0 then (Inl (Errorf ''invalid value''), db)
      else exec_affected (ExecContext exec db
             (''insert into '' @ table @ ''('' @ Join (map fst value) '', '' @ '') values ('' @
              Join (map (\<lambda>_. ''?'') value) '', '' @ '')'') (map snd value)))"

definition where_clause :: "(string \<times> sqlval) list \<Rightarrow> string" where
  "where_clause wh = (if length wh \<noteq> 0 then '' where '' @ Join (eq_fields wh) '' and '' else [])"

definition order_clause :: "(string \<times> string) list \<Rightarrow> string" where
  "order_clause ord = (if length ord \<noteq> 0 then '' order by '' @ Join (map order_SQL ord) '', '' else [])"

definition TableWithSelectOne ::
  "'db Exec \<Rightarrow> 'db \<Rightarrow> string \<Rightarrow> string list \<Rightarrow> (string \<times> sqlval) list \<Rightarrow>
   (sqlval list option \<Rightarrow> goerr + 'a) \<Rightarrow> goerr + 'a" where
  "TableWithSelectOne exec db table column wh f =
     (if table = [] then Inl (Errorf ''invalid table'')
      else if length column = 0 then Inl (Errorf ''invalid column'')
      else if length wh = 0 then Inl (Errorf ''invalid where'')
      else case QueryRowContext exec db
                  (''select '' @ Join column '', '' @ '' from '' @ table @ where_clause wh) (map snd wh) of
             Inl e \<Rightarrow> Inl e | Inr row \<Rightarrow> f row)"

definition finish_rows :: "goerr option \<Rightarrow> goerr + 'a \<Rightarrow> goerr + 'a" where
  "finish_rows eo r = (case r of Inl e \<Rightarrow> Inl e | Inr x \<Rightarrow> (case eo of Some e \<Rightarrow> Inl e | None \<Rightarrow> Inr x))"

definition TableWithSelectMany ::
  "'db Exec \<Rightarrow> 'db \<Rightarrow> string \<Rightarrow> string list \<Rightarrow> (string \<times> sqlval) list \<Rightarrow> (string \<times> string) list \<Rightarrow>
   (sqlval list list \<Rightarrow> goerr + 'a) \<Rightarrow> goerr + 'a" where
  "TableWithSelectMany exec db table column wh order f =
     (if table = [] then Inl (Errorf ''invalid table'')
      else if length column = 0 then Inl (Errorf ''invalid column'')
      else case QueryContext exec db
                  (''select '' @ Join column '', '' @ '' from '' @ table @ where_clause wh @ order_clause order)
                  (map snd wh) of
             Inl e \<Rightarrow> Inl e | Inr (rows, eo) \<Rightarrow> finish_rows eo (f rows))"

definition TableWithSelectRange ::
  "'db Exec \<Rightarrow> 'db \<Rightarrow> string \<Rightarrow> string list \<Rightarrow> (string \<times> sqlval) list \<Rightarrow> (string \<times> string) list \<Rightarrow>
   int \<Rightarrow> int \<Rightarrow> (sqlval list list \<Rightarrow> goerr + 'a) \<Rightarrow> goerr + 'a" where
  "TableWithSelectRange exec db table column wh order offset limit f =
     (if table = [] then Inl (Errorf ''invalid table'')
      else if length column = 0 then Inl (Errorf ''invalid column'')
      else case QueryContext exec db
                  (''select '' @ Join column '', '' @ '' from '' @ table @ where_clause wh @ order_clause order @
                   '' limit ?, ?'') (map snd wh @ [VInt offset, VInt limit]) of
             Inl e \<Rightarrow> Inl e | Inr (rows, eo) \<Rightarrow> f rows)"

definition scan_int :: "sqlval \<Rightarrow> goerr + int" where
  "scan_int v =
     (case v of
        VInt i \<Rightarrow> Inr i
      | VStr s \<Rightarrow>
          (case parse_int s of
             Some i \<Rightarrow> (if is_int64 i then Inr i else Inl (Errorf ''sql: Scan error''))
           | None \<Rightarrow> Inl (Errorf ''sql: Scan error''))
      | _ \<Rightarrow> Inl (Errorf ''sql: Scan error''))"

definition TableWithCount ::
  "'db Exec \<Rightarrow> 'db \<Rightarrow> string \<Rightarrow> (string \<times> sqlval) list \<Rightarrow> goerr + int" where
  "TableWithCount exec db table wh =
     (if table = [] then Inl (Errorf ''invalid table'')
      else case QueryRowContext exec db
                  (''select count(1) as count from '' @ table @ where_clause wh) (map snd wh) of
             Inl e \<Rightarrow> Inl e
           | Inr row \<Rightarrow> row_scan (\<lambda>vs. case vs of [v] \<Rightarrow> scan_int v | _ \<Rightarrow> Inl (Errorf ''sql: Scan error'')) row)"

definition ExecQueryMany ::
  "'db Exec \<Rightarrow> 'db \<Rightarrow> string \<Rightarrow> sqlval list \<Rightarrow> (sqlval list list \<Rightarrow> goerr + 'a) \<Rightarrow> goerr + 'a" where
  "ExecQueryMany exec db sql args f =
     (case QueryContext exec db sql args of
        Inl e \<Rightarrow> Inl e | Inr (rows, eo) \<Rightarrow> finish_rows eo (f rows))"

definition ExecQueryOne ::
  "'db Exec \<Rightarrow> 'db \<Rightarrow> string \<Rightarrow> sqlval list \<Rightarrow> (sqlval list option \<Rightarrow> goerr + 'a) \<Rightarrow> goerr + 'a" where
  "ExecQueryOne exec db sql args f =
     (case QueryRowContext exec db sql args of Inl e \<Rightarrow> Inl e | Inr row \<Rightarrow> f row)"

section \<open>Placeholders and arguments\<close>

abbreviation qmarks :: "string \<Rightarrow> nat" where
  "qmarks s \<equiv> count_list s (CHR ''?'')"

lemma qmarks_Join: "qmarks sep = 0 \<Longrightarrow> qmarks (Join xs sep) = sum_list (map qmarks xs)"
  by (induction xs sep rule: Join.induct) auto

lemma qmarks_concat: "qmarks (concat xs) = sum_list (map qmarks xs)"
  by (induction xs) auto

lemma qmarks_drop_eq: "HasPrefix s p \<Longrightarrow> qmarks p = 0 \<Longrightarrow> qmarks (drop (length p) s) = qmarks s"
  by (metis HasPrefix_def append_take_drop_id count_list_append add_0)

lemma qmarks_TrimPrefix: "qmarks p = 0 \<Longrightarrow> qmarks (TrimPrefix s p) = qmarks s"
  by (simp add: TrimPrefix_def qmarks_drop_eq)

lemma qmarks_Type_String [simp]: "qmarks (Type_String t) = 0"
  by (simp add: Type_String_def)

lemma qmarks_trim_first [simp]: "qmarks (trim_first w) = qmarks w"
  by (simp add: trim_first_def qmarks_TrimPrefix)

lemma sum_list_const_one: "sum_list (map (\<lambda>_. Suc 0) xs) = length xs"
  by (induction xs) auto

lemma length_concat_sum: "length (concat (map f xs)) = sum_list (map (\<lambda>x. length (f x)) xs)"
  by (induction xs) auto

text \<open>A condition whose expressions hold no question mark (and whose BETWEEN has its two bounds).\<close>

fun plain_cond :: "condition \<Rightarrow> bool" where
  "plain_cond (CEq p e v) = (CHR ''?'' \<notin> set e)"
| "plain_cond (CNotEq p e v) = (CHR ''?'' \<notin> set e)"
| "plain_cond (CGt p e v) = (CHR ''?'' \<notin> set e)"
| "plain_cond (CLt p e v) = (CHR ''?'' \<notin> set e)"
| "plain_cond (CIn p e vs) = (CHR ''?'' \<notin> set e)"
| "plain_cond (CNotIn p e vs) = (CHR ''?'' \<notin> set e)"
| "plain_cond (CNull p e) = (CHR ''?'' \<notin> set e)"
| "plain_cond (CNotNull p e) = (CHR ''?'' \<notin> set e)"
| "plain_cond (CBetweenAnd p e vs) = (CHR ''?'' \<notin> set e \<and> length vs = 2)"
| "plain_cond (CParentheses p cs) = (\<forall>c \<in> set cs. plain_cond c)"

lemma sum_list_map_cong: "(\<And>x. x \<in> set xs \<Longrightarrow> f x = g x) \<Longrightarrow> sum_list (map f xs) = sum_list (map g xs)"
  by (induction xs) auto

lemma cond_SQL_placeholders: "plain_cond c \<Longrightarrow> qmarks (fst (cond_SQL c)) = length (snd (cond_SQL c))"
proof (induction c rule: cond_SQL.induct)
  case (10 p cs)
  have "qmarks (concat (map (\<lambda>c. fst (cond_SQL c)) cs)) = sum_list (map (\<lambda>c. qmarks (fst (cond_SQL c))) cs)"
    by (simp add: qmarks_concat comp_def)
  also have "\<dots> = sum_list (map (\<lambda>c. length (snd (cond_SQL c))) cs)"
    using "10" by (intro sum_list_map_cong) auto
  finally show ?case by (simp add: length_concat_sum)
qed (auto simp: qmarks_Join comp_def sum_list_const_one)

lemma where_placeholders:
  "list_all plain_cond cs \<Longrightarrow> qmarks (where_text cs) = length (where_args cs)"
  by (induction cs) (auto simp: where_text_def where_args_def cond_SQL_placeholders)

lemma add_where_placeholders:
  "list_all plain_cond cs \<Longrightarrow> qmarks (add_where sql cs) = qmarks sql + length (where_args cs)"
  by (auto simp: add_where_def where_placeholders dest: where_placeholders)

end
