(* ===== verification/SqlSem.thy ===== *)
theory SqlSem
  imports SqlUtil
begin

text \<open>
  What the code relies on of MySQL, stated on the statement text it receives. A tokenizer and a
  parser give the grammar of the statements the application sends (one-table \<open>SELECT\<close>,
  \<open>INSERT\<close> with an optional \<open>ON DUPLICATE KEY UPDATE\<close>, \<open>UPDATE\<close>, \<open>DELETE\<close>, with a conjunction of
  comparisons as the \<open>WHERE\<close> clause); the definitions of the second section give the documented
  effect of such a statement on the tables, which the locale \<open>mysql\<close> of the theory \<open>MySql\<close> states
  of the server. The lemmas of the last section are the tokenizer's laws that the theory
  \<open>SqlRoundtrip\<close> builds on.
\<close>

section \<open>Grammar\<close>

datatype cmpop = KEq | KNe | KGt | KLt

datatype wcond = WCmp cmpop string | WBetween string

datatype stmt =
    SSelect "string list" string "wcond list" "(string \<times> bool) list" bool
  | SInsert string "string list" "string list"
  | SUpdate string "string list" "wcond list"
  | SDelete string "wcond list"

definition flush :: "string \<Rightarrow> string list" where
  "flush acc = (if acc = [] then [] else [acc])"

fun tok :: "string \<Rightarrow> string \<Rightarrow> string list" where
  "tok acc [] = flush acc"
| "tok acc (c # cs) =
     (if c = CHR '' '' then flush acc @ tok [] cs
      else if c = CHR ''('' \<or> c = CHR '')'' \<or> c = CHR '','' then flush acc @ [c] # tok [] cs
      else tok (acc @ [c]) cs)"

definition tokens :: "string \<Rightarrow> string list" where
  "tokens s = tok [] s"

fun split_commas :: "string list \<Rightarrow> string list list" where
  "split_commas [] = [[]]"
| "split_commas (t # ts) =
     (if t = '','' then [] # split_commas ts
      else (case split_commas ts of [] \<Rightarrow> [[t]] | g # gs \<Rightarrow> (t # g) # gs))"

definition cmp_of :: "string \<Rightarrow> cmpop option" where
  "cmp_of s = (if s = ''='' then Some KEq else if s = ''!='' then Some KNe
               else if s = ''>'' then Some KGt else if s = ''<'' then Some KLt else None)"

fun parse_conds :: "string list \<Rightarrow> wcond list option" where
  "parse_conds (c # op1 # q # rest) =
     (case cmp_of op1 of
        Some k \<Rightarrow>
          (if q = ''?'' then
             (case rest of
                [] \<Rightarrow> Some [WCmp k c]
              | a # rest' \<Rightarrow> (if a = ''AND'' then map_option ((#) (WCmp k c)) (parse_conds rest') else None))
           else None)
      | None \<Rightarrow>
          (if op1 = ''BETWEEN'' \<and> q = ''?'' then
             (case rest of
                a # q2 # rest' \<Rightarrow>
                  (if a = ''AND'' \<and> q2 = ''?'' then
                     (case rest' of
                        [] \<Rightarrow> Some [WBetween c]
                      | b # rest'' \<Rightarrow>
                          (if b = ''AND'' then map_option ((#) (WBetween c)) (parse_conds rest'') else None))
                   else None)
              | _ \<Rightarrow> None)
           else None))"
| "parse_conds _ = None"

definition parse_where :: "string list \<Rightarrow> wcond list option" where
  "parse_where ts =
     (case ts of [] \<Rightarrow> Some [] | w # ws \<Rightarrow> (if w = ''WHERE'' then parse_conds ws else None))"

definition parse_order_item :: "string list \<Rightarrow> (string \<times> bool) option" where
  "parse_order_item ts =
     (case ts of
        [c, d] \<Rightarrow> (if d = ''ASC'' then Some (c, True) else if d = ''DESC'' then Some (c, False) else None)
      | _ \<Rightarrow> None)"

definition parse_order :: "string list \<Rightarrow> (string \<times> bool) list option" where
  "parse_order ts =
     (case ts of
        [] \<Rightarrow> Some []
      | t # ts' \<Rightarrow>
          (if t = ''ORDER'' then
             (case ts' of
                b # items \<Rightarrow>
                  (if b = ''BY'' then those (map parse_order_item (split_commas items)) else None)
              | [] \<Rightarrow> None)
           else None))"

definition parse_limit :: "string list \<Rightarrow> bool option" where
  "parse_limit ts =
     (if ts = [] then Some False
      else if ts = [''LIMIT'', ''?'', '','', ''?''] then Some True else None)"

definition parse_set_item :: "string list \<Rightarrow> string option" where
  "parse_set_item ts = (case ts of [c, e, q] \<Rightarrow> (if e = ''='' \<and> q = ''?'' then Some c else None) | _ \<Rightarrow> None)"

definition parse_sets :: "string list \<Rightarrow> string list option" where
  "parse_sets ts = those (map parse_set_item (split_commas ts))"

definition parse_select :: "string list \<Rightarrow> stmt option" where
  "parse_select ts =
     (let cols = map concat (split_commas (takeWhile (\<lambda>t. t \<noteq> ''FROM'') ts)) in
      case dropWhile (\<lambda>t. t \<noteq> ''FROM'') ts of
        f # t # rest \<Rightarrow>
          (let wh = takeWhile (\<lambda>x. x \<noteq> ''ORDER'' \<and> x \<noteq> ''LIMIT'') rest;
               rest1 = dropWhile (\<lambda>x. x \<noteq> ''ORDER'' \<and> x \<noteq> ''LIMIT'') rest;
               od = takeWhile (\<lambda>x. x \<noteq> ''LIMIT'') rest1;
               lm = dropWhile (\<lambda>x. x \<noteq> ''LIMIT'') rest1
           in case parse_where wh of None \<Rightarrow> None
              | Some ws \<Rightarrow> (case parse_order od of None \<Rightarrow> None
                | Some os \<Rightarrow> (case parse_limit lm of None \<Rightarrow> None
                  | Some l \<Rightarrow> Some (SSelect cols t ws os l))))
      | _ \<Rightarrow> None)"

definition parse_insert :: "string list \<Rightarrow> stmt option" where
  "parse_insert ts =
     (case ts of
        t # p # rest \<Rightarrow>
          (let cols = map concat (split_commas (takeWhile (\<lambda>x. x \<noteq> '')'') rest)) in
           case dropWhile (\<lambda>x. x \<noteq> '')'') rest of
             c # v # q # rest1 \<Rightarrow>
               (let vals = split_commas (takeWhile (\<lambda>x. x \<noteq> '')'') rest1) in
                if p = ''('' \<and> v = ''VALUES'' \<and> q = ''('' \<and> vals = replicate (length cols) [''?''] then
                  (case dropWhile (\<lambda>x. x \<noteq> '')'') rest1 of
                     [] \<Rightarrow> None
                   | c2 # rest2 \<Rightarrow>
                       (if rest2 = [] then Some (SInsert t cols [])
                        else if take 4 rest2 = [''ON'', ''DUPLICATE'', ''KEY'', ''UPDATE''] then
                          map_option (SInsert t cols) (parse_sets (drop 4 rest2))
                        else None))
                else None)
           | _ \<Rightarrow> None)
      | _ \<Rightarrow> None)"

definition parse_update :: "string list \<Rightarrow> stmt option" where
  "parse_update ts =
     (case ts of
        t # s # rest \<Rightarrow>
          (if s = ''SET'' then
             (case parse_sets (takeWhile (\<lambda>x. x \<noteq> ''WHERE'') rest) of None \<Rightarrow> None
              | Some cols \<Rightarrow>
                  map_option (SUpdate t cols) (parse_where (dropWhile (\<lambda>x. x \<noteq> ''WHERE'') rest)))
           else None)
      | _ \<Rightarrow> None)"

definition parse_stmt :: "string list \<Rightarrow> stmt option" where
  "parse_stmt ts =
     (case ts of
        [] \<Rightarrow> None
      | k # rest \<Rightarrow>
          (if k = ''SELECT'' then parse_select rest
           else if k = ''INSERT'' then
             (case rest of i # rest1 \<Rightarrow> (if i = ''INTO'' then parse_insert rest1 else None) | [] \<Rightarrow> None)
           else if k = ''UPDATE'' then parse_update rest
           else if k = ''DELETE'' then
             (case rest of
                f # t # rest1 \<Rightarrow> (if f = ''FROM'' then map_option (SDelete t) (parse_where rest1) else None)
              | _ \<Rightarrow> None)
           else None))"

definition parse :: "string \<Rightarrow> stmt option" where
  "parse sql = parse_stmt (tokens sql)"

section \<open>Effect of a statement on the tables\<close>

type_synonym row = "string \<Rightarrow> sqlval"

definition cmp_holds :: "(sqlval \<Rightarrow> sqlval \<Rightarrow> bool) \<Rightarrow> cmpop \<Rightarrow> sqlval \<Rightarrow> sqlval \<Rightarrow> bool" where
  "cmp_holds le k a b =
     (case k of KEq \<Rightarrow> le a b \<and> le b a | KNe \<Rightarrow> \<not> (le a b \<and> le b a)
      | KGt \<Rightarrow> \<not> le a b | KLt \<Rightarrow> \<not> le b a)"

fun wmatch :: "(sqlval \<Rightarrow> sqlval \<Rightarrow> bool) \<Rightarrow> wcond list \<Rightarrow> sqlval list \<Rightarrow> row \<Rightarrow> bool" where
  "wmatch le [] [] r = True"
| "wmatch le (WCmp k c # ws) (a # as) r = (cmp_holds le k (r c) a \<and> wmatch le ws as r)"
| "wmatch le (WBetween c # ws) (a # b # as) r = (le a (r c) \<and> le (r c) b \<and> wmatch le ws as r)"
| "wmatch le _ _ r = False"

fun ord_le :: "(sqlval \<Rightarrow> sqlval \<Rightarrow> bool) \<Rightarrow> (string \<times> bool) list \<Rightarrow> row \<Rightarrow> row \<Rightarrow> bool" where
  "ord_le le [] r s = True"
| "ord_le le ((c, asc) # os) r s =
     ((if asc then \<not> le (s c) (r c) else \<not> le (r c) (s c)) \<or>
      (le (r c) (s c) \<and> le (s c) (r c) \<and> ord_le le os r s))"

definition proj :: "string list \<Rightarrow> row \<Rightarrow> sqlval list" where
  "proj cols r = map r cols"

definition select_result ::
  "(sqlval \<Rightarrow> sqlval \<Rightarrow> bool) \<Rightarrow> (string \<Rightarrow> row list) \<Rightarrow> string list \<Rightarrow> string \<Rightarrow> wcond list \<Rightarrow>
   (string \<times> bool) list \<Rightarrow> bool \<Rightarrow> sqlval list \<Rightarrow> sqlval list list \<Rightarrow> bool" where
  "select_result le tb cols t ws os lmt args out \<longleftrightarrow>
     (\<exists>wargs xs. mset xs = mset (filter (wmatch le ws wargs) (tb t)) \<and> sorted_wrt (ord_le le os) xs \<and>
        (if lmt then
           (\<exists>off cnt. args = wargs @ [VInt off, VInt cnt] \<and>
              out = map (proj cols) (take (nat cnt) (drop (nat off) xs)))
         else args = wargs \<and>
              out = (if cols = [''COUNT(*)''] then [[VInt (int (length xs))]] else map (proj cols) xs)))"

definition inserted ::
  "(string \<Rightarrow> string \<Rightarrow> sqlval \<Rightarrow> sqlval) \<Rightarrow> (string \<Rightarrow> string \<Rightarrow> sqlval) \<Rightarrow> string \<Rightarrow>
   (string \<times> sqlval) list \<Rightarrow> int \<Rightarrow> row" where
  "inserted conv dflt t fs i =
     (\<lambda>c. if c = ''id'' then VInt i
          else case map_of fs c of Some v \<Rightarrow> conv t c v | None \<Rightarrow> dflt t c)"

definition updated ::
  "(string \<Rightarrow> string \<Rightarrow> sqlval \<Rightarrow> sqlval) \<Rightarrow> string \<Rightarrow> (string \<times> sqlval) list \<Rightarrow> row \<Rightarrow> row" where
  "updated conv t fs r = (\<lambda>c. case map_of fs c of Some v \<Rightarrow> conv t c v | None \<Rightarrow> r c)"

definition same_key :: "(sqlval \<Rightarrow> sqlval \<Rightarrow> bool) \<Rightarrow> string list \<Rightarrow> row \<Rightarrow> row \<Rightarrow> bool" where
  "same_key le ks r s = (\<forall>c \<in> set ks. le (r c) (s c) \<and> le (s c) (r c))"

definition conflicts :: "(sqlval \<Rightarrow> sqlval \<Rightarrow> bool) \<Rightarrow> string list list \<Rightarrow> row list \<Rightarrow> row \<Rightarrow> bool" where
  "conflicts le uks rows r = (\<exists>ks \<in> set uks. \<exists>s \<in> set rows. same_key le ks s r)"

text \<open>Every table has the auto-increment primary key \<open>id\<close>.\<close>

definition keys_ok :: "row list \<Rightarrow> bool" where
  "keys_ok rows = distinct (map (\<lambda>r. r ''id'') rows)"

section \<open>The builder's text parses back\<close>

abbreviation breaker :: "char \<Rightarrow> bool" where
  "breaker c \<equiv> c = CHR '' '' \<or> c = CHR ''('' \<or> c = CHR '')'' \<or> c = CHR '',''"

definition word_ok :: "string \<Rightarrow> bool" where
  "word_ok s = (s \<noteq> [] \<and> (\<forall>c \<in> set s. \<not> breaker c))"

definition ident :: "string \<Rightarrow> bool" where
  "ident s = (word_ok s \<and> s \<notin> {''FROM'', ''WHERE'', ''ORDER'', ''LIMIT'', ''AND''})"

lemma tok_word: "\<forall>c \<in> set w. \<not> breaker c \<Longrightarrow> tok acc (w @ s) = tok (acc @ w) s"
  by (induction w arbitrary: acc) auto

lemma tok_break: "s = [] \<or> breaker (hd s) \<Longrightarrow> tok acc (u @ s) = tok acc u @ tok [] s"
proof (induction u arbitrary: acc)
  case Nil
  then show ?case by (cases s) (auto simp: flush_def)
next
  case (Cons c u)
  then show ?case by (auto simp: flush_def)
qed

lemma tokens_split: "s = [] \<or> breaker (hd s) \<Longrightarrow> tokens (u @ s) = tokens u @ tokens s"
  by (simp add: tokens_def tok_break)

lemma tokens_split_after: "breaker c \<Longrightarrow> tokens (u @ c # s) = tokens (u @ [c]) @ tokens s"
proof -
  assume c: "breaker c"
  have "tokens (u @ c # s) = tokens u @ tokens (c # s)" by (rule tokens_split) (use c in auto)
  also have "tokens (c # s) = tokens [c] @ tokens s" using c by (auto simp: tokens_def flush_def)
  also have "tokens u @ tokens [c] @ tokens s = tokens (u @ [c]) @ tokens s"
    using c by (subst tokens_split [of "[c]" u]) auto
  finally show ?thesis .
qed

lemma tokens_word [simp]: "word_ok w \<Longrightarrow> tokens w = [w]"
  using tok_word [of w "[]" "[]"] by (auto simp: word_ok_def tokens_def flush_def)

lemma ident_word [simp]: "ident s \<Longrightarrow> word_ok s"
  by (simp add: ident_def)

lemma tokens_space: "tokens (CHR '' '' # s) = tokens s"
  by (simp add: tokens_def flush_def)

lemma tokens_punct: "c = CHR ''('' \<or> c = CHR '')'' \<or> c = CHR '','' \<Longrightarrow> tokens (c # s) = [c] # tokens s"
  by (auto simp: tokens_def flush_def)

lemma tokens_word_space: "word_ok w \<Longrightarrow> tokens (w @ CHR '' '' # s) = w # tokens s"
  by (subst tokens_split) (auto simp: tokens_space)

lemma tokens_word_punct:
  "word_ok w \<Longrightarrow> c = CHR ''('' \<or> c = CHR '')'' \<or> c = CHR '','' \<Longrightarrow> tokens (w @ c # s) = w # [c] # tokens s"
  by (subst tokens_split) (auto simp: tokens_punct)

text \<open>Token lists of a comma-separated list.\<close>

fun comma_sep :: "string list list \<Rightarrow> string list" where
  "comma_sep [] = []"
| "comma_sep [g] = g"
| "comma_sep (g # h # gs) = g @ '','' # comma_sep (h # gs)"

lemma split_commas_ne: "split_commas ts \<noteq> []"
  by (induction ts) (auto split: list.splits)

lemma split_commas_group:
  "'','' \<notin> set g \<Longrightarrow> split_commas (g @ '','' # ts) = g # split_commas ts"
  by (induction g) auto

lemma split_commas_last: "'','' \<notin> set g \<Longrightarrow> split_commas g = [g]"
  by (induction g) auto

lemma split_commas_comma_sep:
  "gs \<noteq> [] \<Longrightarrow> \<forall>g \<in> set gs. '','' \<notin> set g \<Longrightarrow> split_commas (comma_sep gs) = gs"
  by (induction gs rule: comma_sep.induct) (auto simp: split_commas_group split_commas_last)

lemma set_comma_sep: "set (comma_sep gs) \<subseteq> insert '','' (\<Union> (set ` set gs))"
  by (induction gs rule: comma_sep.induct) auto

lemma tokens_comma: "tokens (u @ '','' @ v) = tokens u @ '','' # tokens v"
  by (subst tokens_split) (auto simp: tokens_punct)

lemma tokens_comma_space: "tokens (u @ '', '' @ v) = tokens u @ '','' # tokens v"
  by (subst tokens_split) (auto simp: tokens_punct tokens_space)

lemma tokens_Join: "tokens (Join xs '','') = comma_sep (map tokens xs)"
  by (induction xs "'',''" rule: Join.induct) (auto simp: tokens_comma [simplified] tokens_def [of "[]"] flush_def)

lemma tokens_Join_space: "tokens (Join xs '', '') = comma_sep (map tokens xs)"
  by (induction xs "'', ''" rule: Join.induct) (auto simp: tokens_comma_space [simplified] tokens_def [of "[]"] flush_def)

lemma those_map_Some: "(\<And>x. x \<in> set xs \<Longrightarrow> f x = Some (g x)) \<Longrightarrow> those (map f xs) = Some (map g xs)"
  by (induction xs) auto

end
