(* ===== verification/SqlRoundtrip.thy ===== *)
theory SqlRoundtrip
  imports SqlSem
begin

text \<open>
  The text printed by the builder of \<open>lib/sqlutil\<close> parses back to the statement it was built
  from: the columns, the table, the comparisons of the WHERE clause in order, the ordering and
  the limit. The lemmas hold for every table, column and condition list of the fragment.
\<close>

text \<open>The conditions of the fragment: AND-joined comparisons and BETWEEN on a column.\<close>

fun simple_cond :: "condition \<Rightarrow> bool" where
  "simple_cond (CEq p e v) = (p = AND \<and> ident e)"
| "simple_cond (CNotEq p e v) = (p = AND \<and> ident e)"
| "simple_cond (CGt p e v) = (p = AND \<and> ident e)"
| "simple_cond (CLt p e v) = (p = AND \<and> ident e)"
| "simple_cond (CBetweenAnd p e vs) = (p = AND \<and> ident e \<and> length vs = 2)"
| "simple_cond _ = False"

fun watom :: "condition \<Rightarrow> wcond" where
  "watom (CEq p e v) = WCmp KEq e"
| "watom (CNotEq p e v) = WCmp KNe e"
| "watom (CGt p e v) = WCmp KGt e"
| "watom (CLt p e v) = WCmp KLt e"
| "watom (CBetweenAnd p e vs) = WBetween e"
| "watom c = WBetween []"

fun ctoks :: "condition \<Rightarrow> string list" where
  "ctoks (CEq p e v) = [e, ''='', ''?'']"
| "ctoks (CNotEq p e v) = [e, ''!='', ''?'']"
| "ctoks (CGt p e v) = [e, ''>'', ''?'']"
| "ctoks (CLt p e v) = [e, ''<'', ''?'']"
| "ctoks (CBetweenAnd p e vs) = [e, ''BETWEEN'', ''?'', ''AND'', ''?'']"
| "ctoks c = []"

fun ctext :: "condition \<Rightarrow> string" where
  "ctext (CEq p e v) = e @ '' = ?''"
| "ctext (CNotEq p e v) = e @ '' != ?''"
| "ctext (CGt p e v) = e @ '' > ?''"
| "ctext (CLt p e v) = e @ '' < ?''"
| "ctext (CBetweenAnd p e vs) = e @ '' BETWEEN ? AND ?''"
| "ctext c = []"

lemma cond_SQL_text: "simple_cond c \<Longrightarrow> fst (cond_SQL c) = '' AND '' @ ctext c"
  by (cases c) (auto simp: Type_String_def)

lemma tokens_literals:
  "tokens ''= ?'' = [''='', ''?'']" "tokens ''!= ?'' = [''!='', ''?'']"
  "tokens ''> ?'' = [''>'', ''?'']" "tokens ''< ?'' = [''<'', ''?'']"
  "tokens ''BETWEEN ? AND ?'' = [''BETWEEN'', ''?'', ''AND'', ''?'']"
  by (simp_all add: tokens_def flush_def)

lemma tokens_ctext: "simple_cond c \<Longrightarrow> tokens (ctext c) = ctoks c"
  by (cases c) (auto simp: tokens_word_space tokens_literals)

lemma where_text_Cons: "where_text (c # cs) = fst (cond_SQL c) @ where_text cs"
  by (simp add: where_text_def)

lemma where_text_break: "list_all simple_cond cs \<Longrightarrow> where_text cs = [] \<or> breaker (hd (where_text cs))"
  by (cases cs) (auto simp: where_text_Cons cond_SQL_text, simp add: where_text_def)

lemma tokens_where_text:
  "list_all simple_cond cs \<Longrightarrow> tokens (where_text cs) = concat (map (\<lambda>c. ''AND'' # ctoks c) cs)"
proof (induction cs)
  case Nil
  then show ?case by (simp add: where_text_def tokens_def flush_def)
next
  case (Cons c cs)
  have sp: "tokens ('' AND '' @ ctext c) = ''AND'' # tokens (ctext c)"
    by (simp add: tokens_def flush_def)
  have "tokens (where_text (c # cs)) = tokens (fst (cond_SQL c)) @ tokens (where_text cs)"
    unfolding where_text_Cons by (rule tokens_split) (use Cons.prems where_text_break in auto)
  then show ?case using Cons sp by (simp add: cond_SQL_text tokens_ctext)
qed

lemma ident_Cons: "ident e \<Longrightarrow> \<exists>a t. e = a # t \<and> a \<noteq> CHR '' ''"
  by (cases e) (simp_all add: ident_def word_ok_def)

lemma no_OR_prefix: "ident e \<Longrightarrow> \<not> HasPrefix (e @ s) '' OR ''"
  using ident_Cons [of e] by (auto simp: HasPrefix_def)

lemma ctext_no_OR: "simple_cond c \<Longrightarrow> \<not> HasPrefix (ctext c @ s) '' OR ''"
  by (cases c) (simp_all add: no_OR_prefix)

lemma trim_first_where:
  assumes "simple_cond c" shows "trim_first (where_text (c # cs)) = ctext c @ where_text cs"
proof -
  have "TrimPrefix (where_text (c # cs)) (Type_String AND) = ctext c @ where_text cs"
    using TrimPrefix_append [of "'' AND ''" "ctext c @ where_text cs"] assms
    by (simp add: where_text_Cons cond_SQL_text Type_String_def)
  then show ?thesis using ctext_no_OR [OF assms, of "where_text cs"]
    by (simp add: trim_first_def Type_String_def AND_def OR_def TrimPrefix_def)
qed

fun wtoks :: "condition list \<Rightarrow> string list" where
  "wtoks [] = []"
| "wtoks (c # cs) = ctoks c @ concat (map (\<lambda>c. ''AND'' # ctoks c) cs)"

lemma tokens_trim_where:
  "list_all simple_cond cs \<Longrightarrow> cs \<noteq> [] \<Longrightarrow> tokens (trim_first (where_text cs)) = wtoks cs"
proof (induction cs rule: wtoks.induct)
  case (2 c cs)
  then have "tokens (ctext c @ where_text cs) = tokens (ctext c) @ tokens (where_text cs)"
    by (intro tokens_split where_text_break) simp
  with 2 show ?case by (simp add: trim_first_where tokens_ctext tokens_where_text)
qed simp

lemma where_text_Nil_iff: "list_all simple_cond cs \<Longrightarrow> where_text cs = [] \<longleftrightarrow> cs = []"
  by (cases cs) (auto simp: where_text_Cons cond_SQL_text, simp add: where_text_def)

lemma tokens_add_where:
  assumes "list_all simple_cond cs"
  shows "tokens (add_where sql cs) = tokens sql @ (if cs = [] then [] else ''WHERE'' # wtoks cs)"
proof (cases "cs = []")
  case True
  then show ?thesis by (simp add: add_where_def where_text_def)
next
  case False
  have "tokens (sql @ '' WHERE '' @ w) = tokens sql @ ''WHERE'' # tokens w" for w
    by (subst tokens_split) (auto simp: tokens_def flush_def)
  with False assms show ?thesis
    by (simp add: add_where_def where_text_Nil_iff tokens_trim_where)
qed

lemma parse_conds_wtoks:
  "list_all simple_cond (c # cs) \<Longrightarrow> parse_conds (wtoks (c # cs)) = Some (map watom (c # cs))"
proof (induction cs arbitrary: c)
  case Nil
  then show ?case by (cases c) (auto simp: cmp_of_def)
next
  case (Cons d cs)
  then have "parse_conds (ctoks d @ concat (map (\<lambda>c. ''AND'' # ctoks c) cs)) = Some (map watom (d # cs))"
    by simp
  with Cons.prems show ?case by (cases c) (auto simp: cmp_of_def)
qed

lemma parse_where_toks:
  "list_all simple_cond cs \<Longrightarrow>
   parse_where (if cs = [] then [] else ''WHERE'' # wtoks cs) = Some (map watom cs)"
  using parse_conds_wtoks by (cases cs) (auto simp: parse_where_def)

lemma ctoks_keywords:
  "simple_cond c \<Longrightarrow> t \<in> set (ctoks c) \<Longrightarrow> t \<noteq> ''ORDER'' \<and> t \<noteq> ''LIMIT'' \<and> t \<noteq> ''FROM'' \<and> t \<noteq> ''WHERE''"
  by (cases c) (auto simp: ident_def)

lemma wtoks_keywords:
  "list_all simple_cond cs \<Longrightarrow> t \<in> set (wtoks cs) \<Longrightarrow> t \<noteq> ''ORDER'' \<and> t \<noteq> ''LIMIT'' \<and> t \<noteq> ''FROM''"
  by (cases cs) (auto simp: list_all_iff dest: ctoks_keywords split: if_splits)

subsection \<open>UPDATE, DELETE, INSERT\<close>

lemma tokens_sets:
  assumes "\<forall>kv \<in> set flds. ident (fst kv)"
  shows "tokens (Join (map (\<lambda>kv. fst kv @ '' = ?'') flds) '','') =
         comma_sep (map (\<lambda>kv. [fst kv, ''='', ''?'']) flds)"
proof -
  have "map (\<lambda>kv. tokens (fst kv @ '' = ?'')) flds = map (\<lambda>kv. [fst kv, ''='', ''?'']) flds"
    using assms tokens_ctext [of "CEq AND _ VNull"] by (intro map_cong) auto
  then show ?thesis unfolding tokens_Join map_map comp_def by (rule arg_cong)
qed

lemma word_ok_comma: "\<not> word_ok '',''"
  by (simp add: word_ok_def)

lemma ident_not_comma: "ident s \<Longrightarrow> s \<noteq> '',''"
  using word_ok_comma ident_word by blast

lemma parse_sets_toks:
  assumes "flds \<noteq> []" "\<forall>kv \<in> set flds. ident (fst kv)"
  shows "parse_sets (comma_sep (map (\<lambda>kv. [fst kv, ''='', ''?'']) flds)) = Some (map fst flds)"
proof -
  have "\<forall>kv \<in> set flds. fst kv \<noteq> '',''" using assms(2) ident_not_comma by blast
  then have "split_commas (comma_sep (map (\<lambda>kv. [fst kv, ''='', ''?'']) flds)) = map (\<lambda>kv. [fst kv, ''='', ''?'']) flds"
    using assms(1) by (intro split_commas_comma_sep) auto
  then show ?thesis
    using those_map_Some [of flds "\<lambda>kv. parse_set_item [fst kv, ''='', ''?'']" fst]
    by (simp add: parse_sets_def parse_set_item_def comp_def)
qed

lemma sets_no_where:
  assumes "\<forall>kv \<in> set flds. ident (fst kv)"
  shows "\<forall>t \<in> set (comma_sep (map (\<lambda>kv. [fst kv, ''='', ''?'']) flds)). t \<noteq> ''WHERE''"
  using set_comma_sep [of "map (\<lambda>kv. [fst kv, ''='', ''?'']) flds"] assms
  by (fastforce simp: ident_def)

lemma takeWhile_all: "\<forall>x \<in> set xs. P x \<Longrightarrow> takeWhile P (xs @ (if b then [] else y # ys)) =
   (if b \<or> \<not> P y then xs else xs @ y # takeWhile P ys)"
  by (induction xs) auto

lemma dropWhile_all: "\<forall>x \<in> set xs. P x \<Longrightarrow> \<not> P y \<Longrightarrow> dropWhile P (xs @ (if b then [] else y # ys)) =
   (if b then [] else y # ys)"
  by (induction xs) auto

lemma parse_update_sql:
  assumes "word_ok table" "flds \<noteq> []" "\<forall>kv \<in> set flds. ident (fst kv)" "list_all simple_cond cs"
  shows "parse (update_sql table flds cs) = Some (SUpdate table (map fst flds) (map watom cs))"
proof -
  let ?sets = "comma_sep (map (\<lambda>kv. [fst kv, ''='', ''?'']) flds)"
  have "tokens (''UPDATE '' @ table @ '' SET '' @ s) = ''UPDATE'' # table # ''SET'' # tokens s" for s
    using assms(1) tokens_word_space [of table "''SET '' @ s"]
    by (simp add: tokens_def flush_def)
  then have "tokens (update_sql table flds cs) =
      ''UPDATE'' # table # ''SET'' # ?sets @ (if cs = [] then [] else ''WHERE'' # wtoks cs)"
    using assms by (simp add: update_sql_def tokens_add_where tokens_sets)
  then show ?thesis
    using assms takeWhile_all [OF sets_no_where [OF assms(3)], of "cs = []" "''WHERE''" "wtoks cs"]
      dropWhile_all [OF sets_no_where [OF assms(3)], of "''WHERE''" "cs = []" "wtoks cs"]
    by (simp add: parse_def parse_stmt_def parse_update_def parse_sets_toks parse_where_toks)
qed

lemma parse_delete_sql:
  assumes "word_ok table" "list_all simple_cond cs"
  shows "parse (delete_sql table cs) = Some (SDelete table (map watom cs))"
proof -
  have "tokens (''DELETE FROM '' @ table) = [''DELETE'', ''FROM'', table]"
    using assms(1) tokens_word [of table] by (simp add: tokens_def flush_def)
  then have "tokens (delete_sql table cs) =
      ''DELETE'' # ''FROM'' # table # (if cs = [] then [] else ''WHERE'' # wtoks cs)"
    using assms by (simp add: delete_sql_def tokens_add_where)
  then show ?thesis using assms by (simp add: parse_def parse_stmt_def parse_where_toks)
qed

lemma tokens_mid: "breaker c \<Longrightarrow> tokens (u @ c # s) = tokens u @ tokens (c # s)"
  by (rule tokens_split) simp

lemma tokens_Join_words:
  assumes "\<forall>x \<in> set xs. word_ok x"
  shows "tokens (Join xs '', '') = comma_sep (map (\<lambda>x. [x]) xs)"
proof -
  have "map tokens xs = map (\<lambda>x. [x]) xs" using assms by (intro map_cong) auto
  then show ?thesis unfolding tokens_Join_space by (rule arg_cong)
qed

lemma tokens_qmarks: "tokens (Join (map (\<lambda>_. ''?'') xs) '', '') = comma_sep (replicate (length xs) [''?''])"
proof -
  have "\<forall>x \<in> set (map (\<lambda>_. ''?'') xs). word_ok x" by (auto simp: word_ok_def)
  from tokens_Join_words [OF this] show ?thesis by (simp add: comp_def map_replicate_const)
qed

lemma comma_sep_words_paren:
  assumes "\<forall>x \<in> set xs. word_ok x"
  shows "\<forall>t \<in> set (comma_sep (map (\<lambda>x. [x]) xs)). t \<noteq> '')''"
proof -
  have "\<not> word_ok '')''" by (simp add: word_ok_def)
  then have "\<forall>x \<in> set xs. x \<noteq> '')''" using assms by blast
  then show ?thesis using set_comma_sep [of "map (\<lambda>x. [x]) xs"] by fastforce
qed

lemma comma_sep_replicate_paren: "\<forall>t \<in> set (comma_sep (replicate n [''?''])). t \<noteq> '')''"
  using set_comma_sep [of "replicate n [''?'']"] by (auto split: if_splits)

lemma split_words:
  assumes "xs \<noteq> []" "\<forall>x \<in> set xs. word_ok x"
  shows "map concat (split_commas (comma_sep (map (\<lambda>x. [x]) xs))) = xs"
proof -
  have "\<forall>x \<in> set xs. x \<noteq> '',''" using assms(2) word_ok_comma by blast
  then have "split_commas (comma_sep (map (\<lambda>x. [x]) xs)) = map (\<lambda>x. [x]) xs"
    using assms(1) by (intro split_commas_comma_sep) auto
  then show ?thesis by (simp add: comp_def)
qed

lemma parse_insert_sql:
  assumes "word_ok table" "vs \<noteq> []" "\<forall>kv \<in> set vs. word_ok (fst kv)"
  shows "parse (insert_sql table vs) = Some (SInsert table (map fst vs) [])"
proof -
  let ?ks = "comma_sep (map (\<lambda>x. [x]) (map fst vs))"
  let ?qs = "comma_sep (replicate (length vs) [''?''])"
  have ks: "\<forall>x \<in> set (map fst vs). word_ok x" using assms(3) by auto
  have t1: "tokens (''INSERT INTO '' @ s) = ''INSERT'' # ''INTO'' # tokens s" for s
    by (simp add: tokens_def flush_def)
  have t2: "tokens (u @ '') VALUES ('' @ s) = tokens u @ '')'' # ''VALUES'' # ''('' # tokens s" for u s
    by (simp add: tokens_mid) (simp add: tokens_def flush_def)
  have t3: "tokens (u @ '')'') = tokens u @ ['')'']" for u
    by (simp add: tokens_mid) (simp add: tokens_def flush_def)
  have "tokens (insert_sql table vs) =
      ''INSERT'' # ''INTO'' # table # ''('' # ?ks @ '')'' # ''VALUES'' # ''('' # ?qs @ ['')'']"
    using assms(1) t2 [of "Join (map fst vs) '', ''"] t3 tokens_word_punct [of table "CHR ''(''"]
      tokens_Join_words [OF ks] tokens_qmarks [of vs]
    by (simp add: insert_sql_def t1 [simplified])
  moreover have "split_commas ?qs = replicate (length vs) [''?'']"
    using assms(2) by (intro split_commas_comma_sep) auto
  ultimately show ?thesis
    using assms(2) split_words [OF _ ks] comma_sep_words_paren [OF ks] comma_sep_replicate_paren [of "length vs"]
    by (simp add: parse_def parse_stmt_def parse_insert_def takeWhile_append_stop dropWhile_append_stop)
qed

subsection \<open>SELECT\<close>

text \<open>A column of the select list: tokens that join to the text again, none of them \<open>FROM\<close> or a
  comma (a plain name, or \<open>COUNT(*)\<close>).\<close>

definition col_ok :: "string \<Rightarrow> bool" where
  "col_ok c = (concat (tokens c) = c \<and> '','' \<notin> set (tokens c) \<and> ''FROM'' \<notin> set (tokens c))"

lemma ident_col_ok: "ident c \<Longrightarrow> col_ok c"
  using ident_not_comma [of c] by (auto simp: col_ok_def ident_def)

definition simple_order :: "string \<times> string \<Rightarrow> bool" where
  "simple_order o1 = (ident (fst o1) \<and> (snd o1 = ''ASC'' \<or> snd o1 = ''DESC''))"

lemma tokens_order:
  assumes "\<forall>o1 \<in> set os. simple_order o1"
  shows "tokens (Join (map order_SQL os) '','') = comma_sep (map (\<lambda>o1. [fst o1, snd o1]) os)"
proof -
  have "tokens (order_SQL o1) = [fst o1, snd o1]" if "simple_order o1" for o1
    using that tokens_word_space [of "fst o1" "snd o1"] tokens_word [of "snd o1"]
    by (auto simp: order_SQL_def simple_order_def word_ok_def [of "''ASC''"] word_ok_def [of "''DESC''"])
  then have "map (\<lambda>o1. tokens (order_SQL o1)) os = map (\<lambda>o1. [fst o1, snd o1]) os"
    using assms by (intro map_cong) auto
  then show ?thesis unfolding tokens_Join map_map comp_def by (rule arg_cong)
qed

lemma parse_order_toks:
  assumes "os \<noteq> []" "\<forall>o1 \<in> set os. simple_order o1"
  shows "parse_order (''ORDER'' # ''BY'' # comma_sep (map (\<lambda>o1. [fst o1, snd o1]) os)) =
         Some (map (\<lambda>o1. (fst o1, snd o1 = ''ASC'')) os)"
proof -
  have "\<forall>o1 \<in> set os. fst o1 \<noteq> '','' \<and> snd o1 \<noteq> '',''"
    using assms(2) ident_not_comma by (auto simp: simple_order_def)
  then have "split_commas (comma_sep (map (\<lambda>o1. [fst o1, snd o1]) os)) = map (\<lambda>o1. [fst o1, snd o1]) os"
    using assms(1) by (intro split_commas_comma_sep) auto
  moreover have "parse_order_item [fst o1, snd o1] = Some (fst o1, snd o1 = ''ASC'')" if "o1 \<in> set os" for o1
    using assms(2) that by (auto simp: parse_order_item_def simple_order_def)
  ultimately show ?thesis
    using those_map_Some [of os "\<lambda>o1. parse_order_item [fst o1, snd o1]" "\<lambda>o1. (fst o1, snd o1 = ''ASC'')"]
    by (simp add: parse_order_def comp_def)
qed

lemma order_no_limit:
  assumes "\<forall>o1 \<in> set os. simple_order o1"
  shows "\<forall>t \<in> set (comma_sep (map (\<lambda>o1. [fst o1, snd o1]) os)). t \<noteq> ''LIMIT''"
proof -
  have "\<forall>o1 \<in> set os. fst o1 \<noteq> ''LIMIT'' \<and> snd o1 \<noteq> ''LIMIT''"
    using assms by (auto simp: simple_order_def ident_def)
  then show ?thesis using set_comma_sep [of "map (\<lambda>o1. [fst o1, snd o1]) os"] by fastforce
qed

text \<open>The token list of a whole query.\<close>

lemma tokens_cols:
  assumes "cols \<noteq> []" "\<forall>c \<in> set cols. col_ok c"
  shows "map concat (split_commas (comma_sep (map tokens cols))) = cols"
proof -
  have "split_commas (comma_sep (map tokens cols)) = map tokens cols"
    using assms by (intro split_commas_comma_sep) (auto simp: col_ok_def)
  moreover have "map (concat \<circ> tokens) cols = map id cols"
    using assms(2) by (intro map_cong) (auto simp: col_ok_def)
  ultimately show ?thesis by simp
qed

lemma cols_no_from: "\<forall>c \<in> set cols. col_ok c \<Longrightarrow> \<forall>t \<in> set (comma_sep (map tokens cols)). t \<noteq> ''FROM''"
  using set_comma_sep [of "map tokens cols"] by (fastforce simp: col_ok_def)

lemma tokens_select_head:
  assumes "word_ok table"
  shows "tokens (''SELECT '' @ Join cols '', '' @ '' FROM '' @ table) =
         ''SELECT'' # comma_sep (map tokens cols) @ [''FROM'', table]"
proof -
  have a: "tokens (''SELECT '' @ u) = ''SELECT'' # tokens u" for u
    by (simp add: tokens_def flush_def)
  have b: "tokens (u @ '' FROM '' @ v) = tokens u @ ''FROM'' # tokens v" for u v
    by (simp add: tokens_mid) (simp add: tokens_def flush_def)
  have "tokens (Join cols '', '' @ '' FROM '' @ table) = comma_sep (map tokens cols) @ [''FROM'', table]"
    unfolding b tokens_Join_space using assms by simp
  then show ?thesis unfolding a by simp
qed

lemma tokens_suffix_order: "tokens (u @ '' ORDER BY '' @ v) = tokens u @ ''ORDER'' # ''BY'' # tokens v"
  by (simp add: tokens_mid) (simp add: tokens_def flush_def)

lemma tokens_suffix_limit: "tokens (u @ '' LIMIT ?, ?'') = tokens u @ [''LIMIT'', ''?'', '','', ''?'']"
  by (simp add: tokens_mid) (simp add: tokens_def flush_def)

definition order_part :: "(string \<times> string) list \<Rightarrow> string list" where
  "order_part os = (if os = [] then [] else ''ORDER'' # ''BY'' # comma_sep (map (\<lambda>o1. [fst o1, snd o1]) os))"

definition limit_part :: "int list \<Rightarrow> string list" where
  "limit_part l = (if length l = 2 then [''LIMIT'', ''?'', '','', ''?''] else [])"

lemma Join_order_ne: "os \<noteq> [] \<Longrightarrow> Join (map order_SQL os) '','' \<noteq> []"
  by (cases os; cases "tl os") (auto simp: order_SQL_def)

definition query_tail :: "string \<Rightarrow> string list \<Rightarrow> int list \<Rightarrow> string" where
  "query_tail s os l =
     (let s3 = (if os = [] then s else s @ '' ORDER BY '' @ Join os '','')
      in if length l = 2 then s3 @ '' LIMIT ?, ?'' else s3)"

lemma tokens_limit:
  "tokens (if length l = 2 then u @ '' LIMIT ?, ?'' else u) = tokens u @ limit_part l"
  by (cases "length l = 2") (simp_all only: refl if_True if_False tokens_suffix_limit limit_part_def append_Nil2)

lemma tokens_order_by:
  assumes "\<forall>o1 \<in> set os. simple_order o1"
  shows "tokens (if map order_SQL os = [] then u else u @ '' ORDER BY '' @ Join (map order_SQL os) '','') =
         tokens u @ order_part os"
proof (cases "os = []")
  case False
  then show ?thesis
    unfolding tokens_suffix_order tokens_order [OF assms] by (simp add: order_part_def tokens_suffix_order [simplified] tokens_order [OF assms])
qed (simp add: order_part_def)

lemma tokens_query_tail:
  assumes "\<forall>o1 \<in> set os. simple_order o1"
  shows "tokens (query_tail s (map order_SQL os) l) = tokens s @ order_part os @ limit_part l"
  unfolding query_tail_def Let_def tokens_limit tokens_order_by [OF assms] by (rule append_assoc)

lemma query_sql_tail:
  assumes "q_columns h \<noteq> []" "q_groupby h = []" "q_orderby h = map order_SQL os"
  shows "fst (query_sql h) =
    query_tail (add_where (''SELECT '' @ Join (q_columns h) '', '' @ '' FROM '' @ q_table h) (q_conditions h))
      (map order_SQL os) (q_limit h)"
  using assms Join_order_ne [of os] by (simp add: query_sql_def query_tail_def Let_def)

lemma tokens_query_sql:
  assumes "word_ok (q_table h)" "q_columns h \<noteq> []" "list_all simple_cond (q_conditions h)"
    and "q_groupby h = []" "q_orderby h = map order_SQL os" "\<forall>o1 \<in> set os. simple_order o1"
  shows "tokens (fst (query_sql h)) = ''SELECT'' # comma_sep (map tokens (q_columns h)) @
      ''FROM'' # q_table h # (if q_conditions h = [] then [] else ''WHERE'' # wtoks (q_conditions h)) @
      order_part os @ limit_part (q_limit h)"
  unfolding query_sql_tail [OF assms(2,4,5)] tokens_query_tail [OF assms(6)]
    tokens_add_where [OF assms(3)] tokens_select_head [OF assms(1)]
  by simp

lemma takeWhile_order_stop:
  "\<forall>x \<in> set xs. x \<noteq> ''ORDER'' \<and> x \<noteq> ''LIMIT'' \<Longrightarrow>
   takeWhile (\<lambda>x. x \<noteq> ''ORDER'' \<and> x \<noteq> ''LIMIT'') (xs @ order_part os @ limit_part l) = xs"
  by (induction xs) (simp_all add: order_part_def limit_part_def)

lemma dropWhile_order_stop:
  "\<forall>x \<in> set xs. x \<noteq> ''ORDER'' \<and> x \<noteq> ''LIMIT'' \<Longrightarrow>
   dropWhile (\<lambda>x. x \<noteq> ''ORDER'' \<and> x \<noteq> ''LIMIT'') (xs @ order_part os @ limit_part l) = order_part os @ limit_part l"
  by (induction xs) (simp_all add: order_part_def limit_part_def)

lemma takeWhile_limit_stop:
  "\<forall>x \<in> set xs. x \<noteq> ''LIMIT'' \<Longrightarrow> takeWhile (\<lambda>x. x \<noteq> ''LIMIT'') (xs @ limit_part l) = xs"
  by (induction xs) (simp_all add: limit_part_def)

lemma dropWhile_limit_stop:
  "\<forall>x \<in> set xs. x \<noteq> ''LIMIT'' \<Longrightarrow> dropWhile (\<lambda>x. x \<noteq> ''LIMIT'') (xs @ limit_part l) = limit_part l"
  by (induction xs) (simp_all add: limit_part_def)

lemma parse_query_sql:
  assumes "word_ok (q_table h)" "q_columns h \<noteq> []" "\<forall>c \<in> set (q_columns h). col_ok c"
    and "list_all simple_cond (q_conditions h)"
    and "q_groupby h = []" "q_orderby h = map order_SQL os" "\<forall>o1 \<in> set os. simple_order o1"
  shows "parse (fst (query_sql h)) =
      Some (SSelect (q_columns h) (q_table h) (map watom (q_conditions h))
              (map (\<lambda>o1. (fst o1, snd o1 = ''ASC'')) os) (length (q_limit h) = 2))"
proof -
  let ?w = "(if q_conditions h = [] then [] else ''WHERE'' # wtoks (q_conditions h))"
  have w: "\<forall>x \<in> set ?w. x \<noteq> ''ORDER'' \<and> x \<noteq> ''LIMIT''"
    using wtoks_keywords [OF assms(4)] by auto
  have od: "\<forall>x \<in> set (order_part os). x \<noteq> ''LIMIT''"
    using order_no_limit [OF assms(7)] by (auto simp: order_part_def)
  have po: "parse_order (order_part os) = Some (map (\<lambda>o1. (fst o1, snd o1 = ''ASC'')) os)"
    using parse_order_toks [OF _ assms(7)] by (simp add: order_part_def) (simp add: parse_order_def)
  have pl: "parse_limit (limit_part (q_limit h)) = Some (length (q_limit h) = 2)"
    by (simp add: parse_limit_def limit_part_def)
  show ?thesis
    unfolding parse_def parse_stmt_def tokens_query_sql [OF assms(1,2,4-7)]
    using cols_no_from [OF assms(3)] tokens_cols [OF assms(2,3)] parse_where_toks [OF assms(4)] po pl
      takeWhile_order_stop [OF w] dropWhile_order_stop [OF w] takeWhile_limit_stop [OF od] dropWhile_limit_stop [OF od]
    by (simp add: parse_select_def Let_def takeWhile_append_stop dropWhile_append_stop)
qed

end
