(* ===== verification/Money.thy ===== *)
theory Money
  imports Prelude "HOL-Library.Log_Nat"
begin

text \<open>
  Amounts. The services keep an amount as an \<open>int64\<close> number of hundredths, send it to the database
  as \<open>float64(amount) / 100.0\<close>, store it in a \<open>DECIMAL(15,2)\<close> column and read it back as
  \<open>int64(math.Round(x * 100))\<close>. \<open>fl64\<close> is IEEE 754 rounding to nearest, ties to even, with a
  53-bit significand, on the rational number an operation denotes (exponents stay in range for
  every amount of 64 bits, so overflow and subnormals are not modelled).
\<close>

section \<open>Rounding to float64\<close>

text \<open>The binary exponent of a non-zero rational: \<open>2^e \<le> \<bar>x\<bar> < 2^(e+1)\<close>.\<close>

definition exponent :: "rat \<Rightarrow> int" where
  "exponent x =
     (let pq = quotient_of \<bar>x\<bar>;
          e = int (floorlog 2 (nat (fst pq))) - int (floorlog 2 (nat (snd pq)))
      in if 2 powi e \<le> \<bar>x\<bar> then e else e - 1)"

definition round_even :: "rat \<Rightarrow> int" where
  "round_even y =
     (let f = \<lfloor>y\<rfloor>; d = y - of_int f
      in if d < 1 / 2 then f else if d > 1 / 2 then f + 1 else if even f then f else f + 1)"

definition fl64 :: "rat \<Rightarrow> rat" where
  "fl64 x = (if x = 0 then 0
             else let u = 2 powi (exponent x - 52) in of_int (round_even (x / u)) * u)"

text \<open>\<open>math.Round\<close> (half away from zero) and the conversion \<open>int64(x)\<close> of a float (towards zero).\<close>

definition math_Round :: "rat \<Rightarrow> rat" where
  "math_Round x = (if x < 0 then - of_int \<lfloor>- x + 1 / 2\<rfloor> else of_int \<lfloor>x + 1 / 2\<rfloor>)"

definition int64_of_float :: "rat \<Rightarrow> int" where
  "int64_of_float x = (if x < 0 then - \<lfloor>- x\<rfloor> else \<lfloor>x\<rfloor>)"

text \<open>\<open>float64(amount) / 100.0\<close>; the \<open>float64\<close> that \<open>Scan\<close> reads from the decimal text of a
  fixed-point column; \<open>int64(math.Round(x * 100))\<close>; and the \<open>int64(x*100 + 0.5)\<close> of \<open>scanConfig\<close>.\<close>

definition to_yuan :: "int \<Rightarrow> rat" where
  "to_yuan amount = fl64 (fl64 (of_int amount) / 100)"

definition scan_decimal :: "int \<Rightarrow> rat" where
  "scan_decimal c = fl64 (of_int c / 100)"

definition to_cents :: "rat \<Rightarrow> int" where
  "to_cents x = int64_of_float (math_Round (fl64 (x * 100)))"

definition to_cents_trunc :: "rat \<Rightarrow> int" where
  "to_cents_trunc x = int64_of_float (fl64 (fl64 (x * 100) + 1 / 2))"

section \<open>Error bounds\<close>

lemma pow_bound:
  assumes "2 ^ (a - 1) \<le> p" "p < 2 ^ a" "0 < a"
  shows "(2::rat) powi (int a - 1) \<le> of_nat p" "of_nat p < (2::rat) powi int a"
proof -
  have "of_nat (2 ^ (a - 1)) \<le> (of_nat p :: rat)" "(of_nat p :: rat) < of_nat (2 ^ a)"
    using assms unfolding of_nat_le_iff of_nat_less_iff by simp_all
  moreover have "int a - 1 = int (a - 1)" using assms by simp
  ultimately show "(2::rat) powi (int a - 1) \<le> of_nat p" "of_nat p < (2::rat) powi int a"
    by (simp_all only: power_int_of_nat of_nat_power of_nat_numeral)
qed

lemma floorlog_rat:
  assumes "0 < p" "0 < q"
  shows "2 powi (int (floorlog 2 p) - int (floorlog 2 q) - 1) \<le> (of_nat p / of_nat q :: rat)"
    and "(of_nat p / of_nat q :: rat) < 2 powi (int (floorlog 2 p) - int (floorlog 2 q) + 1)"
proof -
  let ?a = "floorlog 2 p" and ?b = "floorlog 2 q"
  have b: "2 ^ (?a - 1) \<le> p" "p < 2 ^ ?a" "2 ^ (?b - 1) \<le> q" "q < 2 ^ ?b"
    using floorlog_bounds [of p 2] floorlog_bounds [of q 2] assms by auto
  have ab: "0 < ?a" "0 < ?b" using assms by (auto simp: floorlog_eq_zero_iff intro: Nat.gr0I)
  have P: "(2::rat) powi (int ?a - 1) \<le> of_nat p" "of_nat p < (2::rat) powi int ?a"
    and Q: "(2::rat) powi (int ?b - 1) \<le> of_nat q" "of_nat q < (2::rat) powi int ?b"
    using pow_bound [OF b(1,2) ab(1)] pow_bound [OF b(3,4) ab(2)] .
  have "2 powi (int ?a - int ?b - 1) = (2::rat) powi (int ?a - 1) / 2 powi int ?b"
    by (subst power_int_diff [symmetric]) (simp_all add: algebra_simps)
  also have "\<dots> \<le> of_nat p / of_nat q"
    using P Q assms by (intro frac_le) auto
  finally show "2 powi (int ?a - int ?b - 1) \<le> (of_nat p / of_nat q :: rat)" .
  have "of_nat p / of_nat q < (2::rat) powi int ?a / 2 powi (int ?b - 1)"
    using P Q assms by (intro frac_less) auto
  also have "\<dots> = 2 powi (int ?a - int ?b + 1)"
    by (subst power_int_diff [symmetric]) (simp_all add: algebra_simps)
  finally show "(of_nat p / of_nat q :: rat) < 2 powi (int ?a - int ?b + 1)" .
qed

lemma exponent_bounds:
  assumes "x \<noteq> 0"
  shows "2 powi exponent x \<le> \<bar>x\<bar>" "\<bar>x\<bar> < 2 powi (exponent x + 1)"
proof -
  obtain p q where pq: "quotient_of \<bar>x\<bar> = (p, q)" by (cases "quotient_of \<bar>x\<bar>")
  have q: "0 < q" using quotient_of_denom_pos [OF pq] .
  have x: "\<bar>x\<bar> = of_int p / of_int q" using quotient_of_div [OF pq] .
  have "0 < of_int p / (of_int q :: rat)" using assms x by (metis zero_less_abs_iff)
  then have p: "0 < p" using q by (simp add: zero_less_divide_iff)
  have e: "\<bar>x\<bar> = of_nat (nat p) / of_nat (nat q)" using x p q by simp
  note b = floorlog_rat [of "nat p" "nat q"]
  show "2 powi exponent x \<le> \<bar>x\<bar>" "\<bar>x\<bar> < 2 powi (exponent x + 1)"
    using b p q unfolding e [symmetric] by (auto simp: exponent_def pq Let_def)
qed

lemma round_even_close: "\<bar>of_int (round_even y) - y\<bar> \<le> 1 / 2"
proof -
  obtain f where f: "f = \<lfloor>y\<rfloor>" by simp
  have "of_int f \<le> y" "y < of_int f + 1" unfolding f by linarith+
  then show ?thesis unfolding round_even_def Let_def f [symmetric] by (auto simp: abs_if)
qed

lemma round_even_int [simp]: "round_even (of_int i) = i"
  by (simp add: round_even_def Let_def)

text \<open>The relative error of one operation is at most \<open>2^-53\<close>.\<close>

lemma fl64_error: "\<bar>fl64 x - x\<bar> \<le> \<bar>x\<bar> / 2 ^ 53"
proof (cases "x = 0")
  case True
  then show ?thesis by (simp add: fl64_def)
next
  case False
  let ?u = "(2::rat) powi (exponent x - 52)"
  have u: "0 < ?u" by simp
  have "\<bar>of_int (round_even (x / ?u)) * ?u - x\<bar> = \<bar>of_int (round_even (x / ?u)) - x / ?u\<bar> * ?u"
  proof -
    have "of_int (round_even (x / ?u)) * ?u - x = (of_int (round_even (x / ?u)) - x / ?u) * ?u"
      using u by (simp add: left_diff_distrib)
    then show ?thesis using u by (simp only: abs_mult abs_of_pos)
  qed
  also have "\<dots> \<le> 1 / 2 * ?u" using round_even_close u by (intro mult_right_mono) auto
  also have "\<dots> = 2 powi exponent x / 2 ^ 53"
    by (simp add: power_int_diff)
  also have "\<dots> \<le> \<bar>x\<bar> / 2 ^ 53" using exponent_bounds(1) [OF False] by (intro divide_right_mono) auto
  finally show ?thesis using False by (simp add: fl64_def Let_def)
qed

text \<open>Integers of at most 53 bits are exact.\<close>

lemma fl64_int:
  assumes "\<bar>i\<bar> < 2 ^ 53" shows "fl64 (of_int i) = of_int i"
proof (cases "i = 0")
  case False
  have "2 powi exponent (of_int i) \<le> (of_int \<bar>i\<bar> :: rat)" using exponent_bounds(1) [of "of_int i"] False by simp
  also have "\<dots> < 2 powi 53" using assms by (metis of_int_less_iff of_int_numeral of_int_power power_int_numeral)
  finally have "exponent (of_int i) < 53"
    using power_int_increasing [of 53 "exponent (of_int i)" "2::rat"] by (meson leI not_less one_le_numeral)
  then obtain k where k: "exponent (of_int i) - 52 = - int k"
    by (metis add.inverse_inverse diff_le_0_iff_le nat_0_le neg_0_le_iff_le zle_add1_eq_le numeral_plus_one one_plus_numeral
        add_num_simps zless_imp_add1_zle)
  have "of_int i / (2 powi (- int k) :: rat) = of_int (i * 2 ^ k)" by (simp add: power_int_minus divide_inverse)
  then have "round_even (of_int i / (2 powi (- int k) :: rat)) = i * 2 ^ k" by (simp only: round_even_int)
  then show ?thesis using False by (simp add: fl64_def Let_def k power_int_minus)
qed (simp add: fl64_def)

section \<open>The way to the database and back\<close>

lemma math_Round_close: "\<bar>x - of_int c\<bar> < 1 / 2 \<Longrightarrow> math_Round x = of_int c"
proof -
  assume "\<bar>x - of_int c\<bar> < 1 / 2"
  then have "\<lfloor>x + 1 / 2\<rfloor> = c" "\<lfloor>- x + 1 / 2\<rfloor> = - c" by (auto simp: floor_eq_iff abs_if split: if_splits)
  then show ?thesis by (simp add: math_Round_def)
qed

lemma int64_of_float_int [simp]: "int64_of_float (of_int c) = c"
  by (simp add: int64_of_float_def flip: of_int_minus)

lemma fl64_error_le: "\<bar>x\<bar> \<le> 2 ^ 50 \<Longrightarrow> \<bar>fl64 x - x\<bar> \<le> 1 / 8"
  using fl64_error [of x] by (simp add: field_simps)

text \<open>The amounts that fit a \<open>DECIMAL(15,2)\<close> column, in hundredths.\<close>

definition dec_ok :: "int \<Rightarrow> bool" where
  "dec_ok c = (\<bar>c\<bar> < 10 ^ 15)"

lemma dec_ok_rat: "dec_ok c \<Longrightarrow> \<bar>of_int c :: rat\<bar> < 10 ^ 15"
  unfolding dec_ok_def by (metis of_int_abs of_int_less_iff of_int_numeral of_int_power)

lemma to_yuan_scan: "dec_ok a \<Longrightarrow> to_yuan a = scan_decimal a"
proof -
  assume "dec_ok a"
  then have "\<bar>a\<bar> < 2 ^ 53" by (simp add: dec_ok_def)
  then show ?thesis by (simp add: to_yuan_def scan_decimal_def fl64_int)
qed

lemma scan_decimal_close: "dec_ok c \<Longrightarrow> \<bar>scan_decimal c * 100 - of_int c\<bar> \<le> 1 / 8"
  using fl64_error [of "of_int c / 100"] dec_ok_rat [of c]
  by (simp add: scan_decimal_def abs_if split: if_splits)

lemma to_yuan_close: "dec_ok a \<Longrightarrow> \<bar>to_yuan a * 100 - of_int a\<bar> < 1 / 2"
  using scan_decimal_close [of a] by (simp add: to_yuan_scan)

lemma cents_close:
  assumes "dec_ok c" shows "\<bar>fl64 (scan_decimal c * 100) - of_int c\<bar> \<le> 1 / 4"
proof -
  have "\<bar>scan_decimal c * 100\<bar> \<le> 2 ^ 50"
    using scan_decimal_close [OF assms] dec_ok_rat [OF assms] by (simp add: abs_if split: if_splits)
  then show ?thesis using fl64_error_le [of "scan_decimal c * 100"] scan_decimal_close [OF assms]
    by (simp add: abs_if split: if_splits)
qed

lemma to_cents_scan [simp]: "dec_ok c \<Longrightarrow> to_cents (scan_decimal c) = c"
  using cents_close [of c] math_Round_close [of "fl64 (scan_decimal c * 100)" c]
  by (simp add: to_cents_def)

lemma cents_trunc_close:
  assumes "dec_ok c"
  shows "of_int c + 1 / 8 \<le> fl64 (fl64 (scan_decimal c * 100) + 1 / 2)"
    and "fl64 (fl64 (scan_decimal c * 100) + 1 / 2) \<le> of_int c + 7 / 8"
proof -
  let ?z = "fl64 (scan_decimal c * 100)"
  have "\<bar>?z + 1 / 2\<bar> \<le> 2 ^ 50"
    using cents_close [OF assms] dec_ok_rat [OF assms] by (simp add: abs_if split: if_splits)
  from fl64_error_le [OF this] cents_close [OF assms]
  show "of_int c + 1 / 8 \<le> fl64 (?z + 1 / 2)" "fl64 (?z + 1 / 2) \<le> of_int c + 7 / 8"
    by (simp_all add: abs_if split: if_splits)
qed

lemma to_cents_trunc_scan:
  assumes "dec_ok c"
  shows "to_cents_trunc (scan_decimal c) = (if c < 0 then c + 1 else c)"
proof -
  let ?w = "fl64 (fl64 (scan_decimal c * 100) + 1 / 2)"
  note w = cents_trunc_close [OF assms]
  show ?thesis
  proof (cases "c < 0")
    case True
    then have "(of_int c :: rat) \<le> - 1" by (metis of_int_le_iff of_int_1 of_int_minus zle_diff1_eq diff_0 minus_one_mult_self)
    then have "?w < 0" using w by simp
    moreover have "\<lfloor>- ?w\<rfloor> = - c - 1" using w by (simp add: floor_eq_iff)
    ultimately show ?thesis using True by (simp add: to_cents_trunc_def int64_of_float_def)
  next
    case False
    then have "(0::rat) \<le> of_int c" by simp
    then have "\<not> ?w < 0" using w by simp
    moreover have "\<lfloor>?w\<rfloor> = c" using w by (simp add: floor_eq_iff)
    ultimately show ?thesis using False by (simp add: to_cents_trunc_def int64_of_float_def)
  qed
qed

end
