(* ===== verification/MySql.thy ===== *)
theory MySql
  imports SqlRoundtrip Money
begin

text \<open>
  The server contract. The first sections hold what \<open>database/sql\<close> does with a row (\<open>Scan\<close>), the
  calendar functions of package \<open>time\<close> that the code calls, and the schema of the two databases
  (\<open>apps/*/scripts/init-sql\<close>). The locale \<open>mysql\<close> states what the code relies on of the server and
  the driver; its lemmas lift the builder of \<open>lib/sqlutil\<close> to tables: what a successful insert,
  update or query means for the rows. Nothing is assumed about when the server succeeds.
\<close>

section \<open>Scanning a row\<close>

definition bind_res :: "goerr + 'a \<Rightarrow> ('a \<Rightarrow> goerr + 'b) \<Rightarrow> goerr + 'b" where
  "bind_res r f = (case r of Inl e \<Rightarrow> Inl e | Inr x \<Rightarrow> f x)"

lemma bind_res_simps [simp]: "bind_res (Inl e) f = Inl e" "bind_res (Inr x) f = f x"
  by (simp_all add: bind_res_def)

lemma bind_res_ok: "bind_res r f = Inr y \<longleftrightarrow> (\<exists>x. r = Inr x \<and> f x = Inr y)"
  by (cases r) auto

definition scan_error :: goerr where
  "scan_error = Errorf ''sql: Scan error''"

text \<open>\<open>convertAssign\<close> for the destinations the code uses: an integer column scans into a string as
  its decimal text, a date as RFC 3339 text; a NULL never scans.\<close>

definition scan_str :: "sqlval \<Rightarrow> goerr + string" where
  "scan_str v =
     (case v of
        VStr s \<Rightarrow> Inr s
      | VInt i \<Rightarrow> Inr (itoa i)
      | VDate y m d z \<Rightarrow> Inr (pad0 4 y @ ''-'' @ pad0 2 m @ ''-'' @ pad0 2 d @ ''T00:00:00'' @ z)
      | _ \<Rightarrow> Inl scan_error)"

definition scan_f64 :: "sqlval \<Rightarrow> goerr + rat" where
  "scan_f64 v =
     (case v of VDec c \<Rightarrow> Inr (scan_decimal c) | VFloat x \<Rightarrow> Inr x | VInt i \<Rightarrow> Inr (fl64 (of_int i))
      | _ \<Rightarrow> Inl scan_error)"

definition scan_bool :: "sqlval \<Rightarrow> goerr + bool" where
  "scan_bool v =
     (case v of VInt i \<Rightarrow> (if i = 1 then Inr True else if i = 0 then Inr False else Inl scan_error)
      | VBool b \<Rightarrow> Inr b | _ \<Rightarrow> Inl scan_error)"

lemma scan_simps [simp]:
  "scan_int (VInt i) = Inr i" "scan_str (VStr s) = Inr s" "scan_str (VInt i) = Inr (itoa i)"
  "scan_f64 (VDec c) = Inr (scan_decimal c)"
  by (simp_all add: scan_int_def scan_str_def scan_f64_def)

section \<open>Dates\<close>

definition date_text :: "int \<Rightarrow> int \<Rightarrow> int \<Rightarrow> string" where
  "date_text y m d = pad0 4 y @ ''-'' @ pad0 2 m @ ''-'' @ pad0 2 d"

definition is_leap :: "int \<Rightarrow> bool" where
  "is_leap y = (y mod 4 = 0 \<and> (y mod 100 \<noteq> 0 \<or> y mod 400 = 0))"

definition days_in :: "int \<Rightarrow> int \<Rightarrow> int" where
  "days_in y m =
     (if m = 2 then (if is_leap y then 29 else 28)
      else if m = 4 \<or> m = 6 \<or> m = 9 \<or> m = 11 then 30 else 31)"

definition valid_date :: "int \<Rightarrow> int \<Rightarrow> int \<Rightarrow> bool" where
  "valid_date y m d = (0 \<le> y \<and> y \<le> 9999 \<and> 1 \<le> m \<and> m \<le> 12 \<and> 1 \<le> d \<and> d \<le> days_in y m)"

definition date_le :: "int \<times> int \<times> int \<Rightarrow> int \<times> int \<times> int \<Rightarrow> bool" where
  "date_le a b = (case a of (y, m, d) \<Rightarrow> case b of (y', m', d') \<Rightarrow>
     y < y' \<or> (y = y' \<and> (m < m' \<or> (m = m' \<and> d \<le> d'))))"

section \<open>The schema\<close>

datatype coltype = CTInt | CTText | CTDec | CTDate

text \<open>Column types of the tables of \<open>personal-auth\<close> and \<open>personal-core\<close>: BIGINT, INT and TINYINT
  columns, VARCHAR and TEXT, DECIMAL(15,2), DATE. Every column is NOT NULL.\<close>

definition schema :: "(string \<times> (string \<times> coltype) list) list" where
  "schema =
    [(''accounts'', [(''id'', CTInt), (''account_id'', CTText), (''role'', CTText), (''status'', CTInt),
        (''password_hash'', CTText), (''salt'', CTText), (''deleted_at'', CTInt), (''created_at'', CTInt),
        (''updated_at'', CTInt)]),
     (''account_auths'', [(''id'', CTInt), (''account_id'', CTText), (''auth_type'', CTText),
        (''identifier'', CTText), (''status'', CTInt), (''verified'', CTInt), (''deleted_at'', CTInt),
        (''created_at'', CTInt), (''updated_at'', CTInt)]),
     (''login_history'', [(''id'', CTInt), (''account_id'', CTText), (''auth_type'', CTText),
        (''identifier'', CTText), (''ip_address'', CTText), (''user_agent'', CTText), (''status'', CTInt),
        (''failure_reason'', CTText), (''created_at'', CTInt)]),
     (''categories'', [(''id'', CTInt), (''account_id'', CTText), (''name'', CTText), (''type'', CTInt),
        (''sort_order'', CTInt), (''date'', CTText), (''deleted_at'', CTInt), (''created_at'', CTInt),
        (''updated_at'', CTInt)]),
     (''transactions'', [(''id'', CTInt), (''account_id'', CTText), (''category_id'', CTInt), (''type'', CTInt),
        (''name'', CTText), (''amount'', CTDec), (''date'', CTDate), (''note'', CTText), (''sort_order'', CTInt),
        (''deleted_at'', CTInt), (''created_at'', CTInt), (''updated_at'', CTInt)]),
     (''balance_sheet_items'', [(''id'', CTInt), (''account_id'', CTText), (''section'', CTInt),
        (''category'', CTText), (''name'', CTText), (''amount'', CTDec), (''note'', CTText), (''date'', CTText),
        (''sort_order'', CTInt), (''deleted_at'', CTInt), (''created_at'', CTInt), (''updated_at'', CTInt)]),
     (''positions'', [(''id'', CTInt), (''account_id'', CTText), (''code'', CTText), (''name'', CTText),
        (''type'', CTInt), (''direction'', CTInt), (''initial_qty'', CTInt), (''current_price'', CTDec),
        (''margin_ratio'', CTInt), (''sort_order'', CTInt), (''archived'', CTInt), (''closed_pnl'', CTDec),
        (''deleted_at'', CTInt), (''created_at'', CTInt), (''updated_at'', CTInt)]),
     (''trades'', [(''id'', CTInt), (''account_id'', CTText), (''position_id'', CTInt), (''type'', CTInt),
        (''date'', CTDate), (''price'', CTDec), (''quantity'', CTInt), (''fee'', CTDec), (''note'', CTText),
        (''deleted_at'', CTInt), (''created_at'', CTInt), (''updated_at'', CTInt)]),
     (''value_snapshots'', [(''id'', CTInt), (''account_id'', CTText), (''date'', CTDate),
        (''total_value'', CTDec), (''created_at'', CTInt)]),
     (''portfolio_config'', [(''id'', CTInt), (''account_id'', CTText), (''total_capital'', CTDec),
        (''updated_at'', CTInt)]),
     (''profiles'', [(''id'', CTInt), (''account_id'', CTText), (''nickname'', CTText), (''email'', CTText),
        (''bio'', CTText), (''avatar_url'', CTText), (''created_at'', CTInt), (''updated_at'', CTInt),
        (''deleted_at'', CTInt)])]"

definition coltype_of :: "string \<Rightarrow> string \<Rightarrow> coltype option" where
  "coltype_of t c = (case map_of schema t of None \<Rightarrow> None | Some cs \<Rightarrow> map_of cs c)"

definition uniq_of :: "string \<Rightarrow> string list list" where
  "uniq_of t =
     (if t = ''accounts'' then [[''account_id'']]
      else if t = ''account_auths'' then [[''auth_type'', ''identifier'']]
      else if t = ''value_snapshots'' then [[''account_id'', ''date'']]
      else if t = ''portfolio_config'' then [[''account_id'']]
      else if t = ''profiles'' then [[''account_id'', ''deleted_at'']]
      else [])"

text \<open>A value of a column's type, as the driver delivers it.\<close>

definition has_type :: "coltype \<Rightarrow> sqlval \<Rightarrow> bool" where
  "has_type ct v =
     (case ct of
        CTInt \<Rightarrow> (case v of VInt _ \<Rightarrow> True | _ \<Rightarrow> False)
      | CTText \<Rightarrow> (case v of VStr _ \<Rightarrow> True | _ \<Rightarrow> False)
      | CTDec \<Rightarrow> (case v of VDec c \<Rightarrow> dec_ok c | _ \<Rightarrow> False)
      | CTDate \<Rightarrow> (case v of VDate y m d _ \<Rightarrow> valid_date y m d | _ \<Rightarrow> False))"

definition typed_row :: "string \<Rightarrow> row \<Rightarrow> bool" where
  "typed_row t r =
     (case map_of schema t of None \<Rightarrow> False | Some cs \<Rightarrow> list_all (\<lambda>ct. has_type (snd ct) (r (fst ct))) cs)"

section \<open>The contract\<close>

text \<open>\<open>tab\<close> reads the tables of a database state as the driver would deliver their values, \<open>wf\<close>
  holds of the states the server keeps (typed columns, a unique \<open>id\<close>, unique keys), \<open>le\<close> is the
  server's comparison of values (collations included), \<open>conv\<close> what a column stores of a parameter
  the server accepts (strict SQL mode), \<open>dflt\<close> a column's default. The affected-row count of an
  UPDATE is the number of rows it changed, as the driver reports it without \<open>clientFoundRows\<close>.
  Statements are atomic (InnoDB): one that reports an error has either left the tables as they were,
  or taken its whole effect and only its answer is lost, as after a timeout or a broken
  connection.\<close>

definition row_changed ::
  "(string \<Rightarrow> string \<Rightarrow> sqlval \<Rightarrow> sqlval) \<Rightarrow> string \<Rightarrow> (string \<times> sqlval) list \<Rightarrow> row \<Rightarrow> bool" where
  "row_changed conv t fs r = list_ex (\<lambda>c. updated conv t fs r c \<noteq> r c) (map fst fs)"

text \<open>\<open>INSERT\<close> with or without \<open>ON DUPLICATE KEY UPDATE\<close>, \<open>UPDATE\<close> and \<open>DELETE\<close>: the tables after
  one statement, the id \<open>i\<close> of the row it inserted and the number \<open>n\<close> of rows it affected.\<close>

definition args_fit :: "stmt \<Rightarrow> sqlval list \<Rightarrow> bool" where
  "args_fit st args =
     (case st of
        SInsert t cols ucols \<Rightarrow> length args = length cols + length ucols
      | SUpdate t cols ws \<Rightarrow> length cols \<le> length args
      | SDelete t ws \<Rightarrow> True
      | SSelect cols t ws os lmt \<Rightarrow> False)"

definition insert_effect ::
  "(sqlval \<Rightarrow> sqlval \<Rightarrow> bool) \<Rightarrow> string \<Rightarrow> row \<Rightarrow> int \<Rightarrow> (string \<Rightarrow> row list) \<Rightarrow> (string \<Rightarrow> row list) \<Rightarrow> bool" where
  "insert_effect le t r i T T' =
     (0 < i \<and> VInt i \<notin> (\<lambda>r. r ''id'') ` set (T t) \<and> \<not> conflicts le (uniq_of t) (T t) r \<and>
      T' = T(t := T t @ [r]))"

definition upsert_effect ::
  "(sqlval \<Rightarrow> sqlval \<Rightarrow> bool) \<Rightarrow> string \<Rightarrow> row \<Rightarrow> (row \<Rightarrow> row) \<Rightarrow> (string \<Rightarrow> row list) \<Rightarrow> (string \<Rightarrow> row list) \<Rightarrow> bool" where
  "upsert_effect le t r f T T' =
     (conflicts le (uniq_of t) (T t) r \<and>
      T' = T(t := map (\<lambda>s. if \<exists>ks \<in> set (uniq_of t). same_key le ks s r then f s else s) (T t)))"

definition update_effect ::
  "string \<Rightarrow> (row \<Rightarrow> bool) \<Rightarrow> (row \<Rightarrow> row) \<Rightarrow> (row \<Rightarrow> bool) \<Rightarrow> int \<Rightarrow> (string \<Rightarrow> row list) \<Rightarrow> (string \<Rightarrow> row list) \<Rightarrow> bool" where
  "update_effect t P f changed n T T' =
     (T' = T(t := map (\<lambda>r. if P r then f r else r) (T t)) \<and>
      n = int (length (filter (\<lambda>r. P r \<and> changed r) (T t))))"

definition delete_effect ::
  "string \<Rightarrow> (row \<Rightarrow> bool) \<Rightarrow> int \<Rightarrow> (string \<Rightarrow> row list) \<Rightarrow> (string \<Rightarrow> row list) \<Rightarrow> bool" where
  "delete_effect t P n T T' =
     (T' = T(t := filter (\<lambda>r. \<not> P r) (T t)) \<and> n = int (length (filter P (T t))))"

definition stmt_effect ::
  "(sqlval \<Rightarrow> sqlval \<Rightarrow> bool) \<Rightarrow> (string \<Rightarrow> string \<Rightarrow> sqlval \<Rightarrow> sqlval) \<Rightarrow> (string \<Rightarrow> string \<Rightarrow> sqlval) \<Rightarrow>
   stmt \<Rightarrow> sqlval list \<Rightarrow> int \<Rightarrow> int \<Rightarrow> (string \<Rightarrow> row list) \<Rightarrow> (string \<Rightarrow> row list) \<Rightarrow> bool" where
  "stmt_effect le conv dflt st args i n T T' =
     (args_fit st args \<and>
      (case st of
         SInsert t cols ucols \<Rightarrow>
           insert_effect le t (inserted conv dflt t (zip cols args) i) i T T' \<or>
           ucols \<noteq> [] \<and> upsert_effect le t (inserted conv dflt t (zip cols args) i)
             (updated conv t (zip ucols (drop (length cols) args))) T T'
       | SUpdate t cols ws \<Rightarrow>
           update_effect t (wmatch le ws (drop (length cols) args)) (updated conv t (zip cols args))
             (row_changed conv t (zip cols args)) n T T'
       | SDelete t ws \<Rightarrow> delete_effect t (wmatch le ws args) n T T'
       | SSelect cols t ws os lmt \<Rightarrow> False))"

locale mysql =
  fixes exec :: "'db Exec"
    and wf :: "'db \<Rightarrow> bool"
    and tab :: "'db \<Rightarrow> string \<Rightarrow> row list"
    and le :: "sqlval \<Rightarrow> sqlval \<Rightarrow> bool"
    and conv :: "string \<Rightarrow> string \<Rightarrow> sqlval \<Rightarrow> sqlval"
    and dflt :: "string \<Rightarrow> string \<Rightarrow> sqlval"
  assumes le_refl: "a \<noteq> VNull \<Longrightarrow> le a a"
    and le_text_trans: "le (VStr s) (VStr s') \<Longrightarrow> le (VStr s') (VStr s'') \<Longrightarrow> le (VStr s) (VStr s'')"
    and le_int: "le (VInt i) (VInt j) \<longleftrightarrow> i \<le> j"
    and le_date: "valid_date y m d \<Longrightarrow> valid_date y' m' d' \<Longrightarrow>
      le (VDate y m d z) (VStr (date_text y' m' d')) \<longleftrightarrow> date_le (y, m, d) (y', m', d')"
    and le_date_rev: "valid_date y m d \<Longrightarrow> valid_date y' m' d' \<Longrightarrow>
      le (VStr (date_text y' m' d')) (VDate y m d z) \<longleftrightarrow> date_le (y', m', d') (y, m, d)"
    and le_dates: "valid_date y m d \<Longrightarrow> valid_date y' m' d' \<Longrightarrow>
      le (VDate y m d z) (VDate y' m' d' z') \<longleftrightarrow> date_le (y, m, d) (y', m', d')"
    and conv_int: "coltype_of t c = Some CTInt \<Longrightarrow> conv t c (VInt i) = VInt i"
    and conv_int_text: "coltype_of t c = Some CTInt \<Longrightarrow> conv t c (VStr (itoa i)) = VInt i"
    and conv_bool: "coltype_of t c = Some CTInt \<Longrightarrow> conv t c (VBool b) = VInt (if b then 1 else 0)"
    and conv_text: "coltype_of t c = Some CTText \<Longrightarrow> conv t c (VStr s) = VStr s"
    and conv_dec: "coltype_of t c = Some CTDec \<Longrightarrow> dec_ok k \<Longrightarrow> \<bar>x * 100 - of_int k\<bar> < 1 / 2 \<Longrightarrow>
      conv t c (VFloat x) = VDec k"
    and conv_date: "coltype_of t c = Some CTDate \<Longrightarrow> valid_date y m d \<Longrightarrow>
      \<exists>z. conv t c (VStr (date_text y m d)) = VDate y m d z"
    and wf_exec: "wf db \<Longrightarrow> wf (snd (ExecContext exec db sql args))"
    and wf_typed: "wf db \<Longrightarrow> r \<in> set (tab db t) \<Longrightarrow> typed_row t r"
    and wf_keys: "wf db \<Longrightarrow> keys_ok (tab db t)"
    and wf_uniq: "wf db \<Longrightarrow> ks \<in> set (uniq_of t) \<Longrightarrow> r \<in> set (tab db t) \<Longrightarrow> r' \<in> set (tab db t) \<Longrightarrow>
      same_key le ks r r' \<Longrightarrow> r = r'"
    and exec_ok: "wf db \<Longrightarrow> parse sql = Some st \<Longrightarrow> args_fit st args \<Longrightarrow>
      ExecContext exec db sql args = (Inr (i, n), db') \<Longrightarrow> stmt_effect le conv dflt st args i n (tab db) (tab db')"
    and exec_error: "wf db \<Longrightarrow> parse sql = Some st \<Longrightarrow> args_fit st args \<Longrightarrow>
      ExecContext exec db sql args = (Inl e, db') \<Longrightarrow>
      tab db' = tab db \<or> (\<exists>i n. stmt_effect le conv dflt st args i n (tab db) (tab db'))"
    and query_rows:
      "wf db \<Longrightarrow> parse sql = Some (SSelect cols t ws os lmt) \<Longrightarrow>
       QueryContext exec db sql args = Inr (rows, eo) \<Longrightarrow>
         \<exists>full. select_result le (tab db) cols t ws os lmt args full \<and>
                (if eo = None then rows = full else (\<exists>k. rows = take k full))"
    and query_row:
      "wf db \<Longrightarrow> parse sql = Some (SSelect cols t ws os lmt) \<Longrightarrow>
       QueryRowContext exec db sql args = Inr ro \<Longrightarrow>
         \<exists>full. select_result le (tab db) cols t ws os lmt args full \<and>
                ro = (case full of [] \<Rightarrow> None | r # _ \<Rightarrow> Some r)"
    and query_row_error: "QueryRowContext exec db sql args = Inl e \<Longrightarrow> e \<noteq> ErrNoRows \<and> e \<noteq> ErrNotFound"

text \<open>No cursor breaks off while it is read (\<open>rows.Err()\<close> is nil).\<close>

definition cursor_ok :: "'db Exec \<Rightarrow> 'db \<Rightarrow> bool" where
  "cursor_ok exec db = (\<forall>sql args rows eo. QueryContext exec db sql args = Inr (rows, eo) \<longrightarrow> eo = None)"

text \<open>A statement took its effect, whole, and was reported as an error.\<close>

definition lost_answer ::
  "'db Exec \<Rightarrow> (sqlval \<Rightarrow> sqlval \<Rightarrow> bool) \<Rightarrow> (string \<Rightarrow> string \<Rightarrow> sqlval \<Rightarrow> sqlval) \<Rightarrow> (string \<Rightarrow> string \<Rightarrow> sqlval) \<Rightarrow>
   ('db \<Rightarrow> string \<Rightarrow> row list) \<Rightarrow> 'db \<Rightarrow> 'db \<Rightarrow> bool" where
  "lost_answer exec le conv dflt tab db db' =
     (\<exists>sql st args e i n. parse sql = Some st \<and> ExecContext exec db sql args = (Inl e, db') \<and>
        stmt_effect le conv dflt st args i n (tab db) (tab db'))"

lemma zip_append_left: "length xs = length cols \<Longrightarrow> zip cols (xs @ ys) = zip cols xs"
  by (simp add: zip_append2)

lemma insert_upsert_effect:
  assumes "length vals = length cols" "length uvals = length ucols" "ucols \<noteq> []"
    and "stmt_effect le conv dflt (SInsert t cols ucols) (vals @ uvals) i n T T'"
  shows "if conflicts le (uniq_of t) (T t) (inserted conv dflt t (zip cols vals) i)
     then T' = T(t := map (\<lambda>r. if \<exists>ks \<in> set (uniq_of t). same_key le ks r (inserted conv dflt t (zip cols vals) i)
                                then updated conv t (zip ucols uvals) r else r) (T t))
     else 0 < i \<and> VInt i \<notin> (\<lambda>r. r ''id'') ` set (T t) \<and> T' = T(t := T t @ [inserted conv dflt t (zip cols vals) i])"
  using assms by (auto simp: stmt_effect_def insert_effect_def upsert_effect_def zip_append_left)

context mysql
begin

lemma exec_insert:
  assumes "wf db" "parse sql = Some (SInsert t cols [])" "length args = length cols"
    and "ExecContext exec db sql args = (Inr (i, n), db')"
  shows "insert_effect le t (inserted conv dflt t (zip cols args) i) i (tab db) (tab db')"
  using exec_ok [OF assms(1,2) _ assms(4)] assms(3) by (simp add: args_fit_def stmt_effect_def)

lemma exec_upsert:
  assumes "wf db" "parse sql = Some (SInsert t cols ucols)" "ucols \<noteq> []" "length vals = length cols" "length uvals = length ucols"
    and "ExecContext exec db sql (vals @ uvals) = (Inr (i, n), db')"
  shows "if conflicts le (uniq_of t) (tab db t) (inserted conv dflt t (zip cols vals) i)
     then tab db' = (tab db)(t :=
            map (\<lambda>r. if \<exists>ks \<in> set (uniq_of t). same_key le ks r (inserted conv dflt t (zip cols vals) i)
                     then updated conv t (zip ucols uvals) r else r) (tab db t))
     else 0 < i \<and> VInt i \<notin> (\<lambda>r. r ''id'') ` set (tab db t) \<and>
          tab db' = (tab db)(t := tab db t @ [inserted conv dflt t (zip cols vals) i])"
  using exec_ok [OF assms(1,2) _ assms(6)] insert_upsert_effect [OF assms(4,5,3)] assms(4,5) by (simp add: args_fit_def)

lemma exec_update:
  assumes "wf db" "parse sql = Some (SUpdate t cols ws)" "length svals = length cols"
    and "ExecContext exec db sql (svals @ wargs) = (Inr (i, n), db')"
  shows "update_effect t (wmatch le ws wargs) (updated conv t (zip cols svals)) (row_changed conv t (zip cols svals)) n
    (tab db) (tab db')"
  using exec_ok [OF assms(1,2) _ assms(4)] assms(3) by (simp add: args_fit_def stmt_effect_def zip_append_left)

lemma exec_delete:
  assumes "wf db" "parse sql = Some (SDelete t ws)" "ExecContext exec db sql wargs = (Inr (i, n), db')"
  shows "delete_effect t (wmatch le ws wargs) n (tab db) (tab db')"
  using exec_ok [OF assms(1,2) _ assms(3)] by (simp add: args_fit_def stmt_effect_def)

lemma exec_lost:
  assumes "wf db" "parse sql = Some st" "args_fit st args" "ExecContext exec db sql args = (Inl e, db')"
  shows "tab db' = tab db \<or> lost_answer exec le conv dflt tab db db' \<and> (\<exists>i n. stmt_effect le conv dflt st args i n (tab db) (tab db'))"
  using exec_error [OF assms] assms(2,4) unfolding lost_answer_def by blast

end

section \<open>Conditions on rows\<close>

fun cond_holds :: "(sqlval \<Rightarrow> sqlval \<Rightarrow> bool) \<Rightarrow> row \<Rightarrow> condition \<Rightarrow> bool" where
  "cond_holds le r (CEq p e v) = (le (r e) v \<and> le v (r e))"
| "cond_holds le r (CNotEq p e v) = (\<not> (le (r e) v \<and> le v (r e)))"
| "cond_holds le r (CGt p e v) = (\<not> le (r e) v)"
| "cond_holds le r (CLt p e v) = (\<not> le v (r e))"
| "cond_holds le r (CBetweenAnd p e vs) = (le (vs ! 0) (r e) \<and> le (r e) (vs ! 1))"
| "cond_holds le r c = False"

lemma wmatch_holds:
  "list_all simple_cond cs \<Longrightarrow> wmatch le (map watom cs) (where_args cs) r = list_all (cond_holds le r) cs"
proof (induction cs)
  case (Cons c cs)
  then show ?case
  proof (cases c)
    case (CBetweenAnd p e vs)
    then obtain a b where "vs = [a, b]" using Cons.prems by (auto simp: length_Suc_conv numeral_2_eq_2)
    then show ?thesis using Cons CBetweenAnd by (simp add: where_args_def)
  qed (auto simp: where_args_def cmp_holds_def)
qed (simp add: where_args_def)

lemma wmatch_fun:
  "list_all simple_cond cs \<Longrightarrow> wmatch le (map watom cs) (where_args cs) = (\<lambda>r. list_all (cond_holds le r) cs)"
  by (rule ext) (rule wmatch_holds)

definition matching :: "(sqlval \<Rightarrow> sqlval \<Rightarrow> bool) \<Rightarrow> condition list \<Rightarrow> row list \<Rightarrow> row list" where
  "matching le cs rows = filter (\<lambda>r. list_all (cond_holds le r) cs) rows"

definition ord_spec :: "(string \<times> string) list \<Rightarrow> (string \<times> bool) list" where
  "ord_spec os = map (\<lambda>o1. (fst o1, snd o1 = ''ASC'')) os"

text \<open>The rows a query delivers: the matching rows in an order that respects ORDER BY.\<close>

definition delivers ::
  "(sqlval \<Rightarrow> sqlval \<Rightarrow> bool) \<Rightarrow> row list \<Rightarrow> condition list \<Rightarrow> (string \<times> string) list \<Rightarrow> row list \<Rightarrow> bool" where
  "delivers le rows cs os xs =
     (mset xs = mset (matching le cs rows) \<and> sorted_wrt (ord_le le (ord_spec os)) xs)"

lemma delivers_set: "delivers le rows cs os xs \<Longrightarrow> set xs = set (matching le cs rows)"
  by (metis delivers_def mset_eq_setD)

definition query_fine :: "query \<Rightarrow> (string \<times> string) list \<Rightarrow> bool" where
  "query_fine h os =
     (word_ok (q_table h) \<and> q_columns h \<noteq> [] \<and> list_all col_ok (q_columns h) \<and>
      list_all simple_cond (q_conditions h) \<and> q_groupby h = [] \<and> q_orderby h = map order_SQL os \<and>
      list_all simple_order os)"

lemma parse_query_fine:
  "query_fine h os \<Longrightarrow> parse (fst (query_sql h)) =
     Some (SSelect (q_columns h) (q_table h) (map watom (q_conditions h)) (ord_spec os) (length (q_limit h) = 2))"
  unfolding query_fine_def ord_spec_def list_all_iff
  by (elim conjE, rule parse_query_sql) (auto simp: list_all_iff)

lemma snd_query_sql:
  "snd (query_sql h) = where_args (q_conditions h) @ (if length (q_limit h) = 2 then map VInt (q_limit h) else [])"
  by (simp add: query_sql_def Let_def)

lemma select_result_plain:
  assumes "list_all simple_cond cs" "cols \<noteq> [''COUNT(*)'']"
  shows "select_result le tb cols t (map watom cs) (ord_spec os) False (where_args cs) out \<longleftrightarrow>
    (\<exists>xs. delivers le (tb t) cs os xs \<and> out = map (proj cols) xs)"
  using assms by (auto simp: select_result_def delivers_def matching_def wmatch_fun)

lemma select_result_count:
  assumes "list_all simple_cond cs"
  shows "select_result le tb [''COUNT(*)''] t (map watom cs) (ord_spec os) False (where_args cs) out \<longleftrightarrow>
    (\<exists>xs. delivers le (tb t) cs os xs \<and> out = [[VInt (int (length xs))]])"
  using assms by (auto simp: select_result_def delivers_def matching_def wmatch_fun)

lemma select_result_limit:
  assumes "list_all simple_cond cs"
  shows "select_result le tb cols t (map watom cs) (ord_spec os) True (where_args cs @ [VInt off, VInt cnt]) out \<longleftrightarrow>
    (\<exists>xs. delivers le (tb t) cs os xs \<and> out = map (proj cols) (take (nat cnt) (drop (nat off) xs)))"
  using assms by (auto simp: select_result_def delivers_def matching_def wmatch_fun)

section \<open>The builder on tables\<close>

definition fields_fine :: "(string \<times> sqlval) list \<Rightarrow> bool" where
  "fields_fine fs = (fs \<noteq> [] \<and> list_all (\<lambda>kv. ident (fst kv)) fs)"

lemma word_ok_ne [simp]: "word_ok t \<Longrightarrow> t \<noteq> []"
  by (simp add: word_ok_def)

lemma InsertCtx_cases:
  assumes "word_ok t" "fs \<noteq> []" "InsertCtx exec db t fs = (res, db')"
  shows "(\<exists>e. res = Inl e \<and> ExecContext exec db (insert_sql t fs) (map snd fs) = (Inl e, db')) \<or>
         (\<exists>i n. res = Inr i \<and> ExecContext exec db (insert_sql t fs) (map snd fs) = (Inr (i, n), db'))"
  using assms by (auto simp: InsertCtx_def split: prod.splits sum.splits)

lemma UpdateCtx_cases:
  assumes "word_ok t" "fs \<noteq> []" "UpdateCtx exec db t fs cs = (res, db')"
  shows "(\<exists>e. res = Inl e \<and>
            ExecContext exec db (update_sql t fs cs) (map snd fs @ where_args cs) = (Inl e, db')) \<or>
         (\<exists>i n. res = Inr n \<and>
            ExecContext exec db (update_sql t fs cs) (map snd fs @ where_args cs) = (Inr (i, n), db'))"
  using assms by (auto simp: UpdateCtx_def split: prod.splits sum.splits)

context mysql
begin

lemma wf_step: "wf db \<Longrightarrow> ExecContext exec db sql args = (r, db') \<Longrightarrow> wf db'"
  using wf_exec [of db sql args] by simp

lemma wf_InsertCtx: "wf db \<Longrightarrow> wf (snd (InsertCtx exec db t fs))"
  by (auto simp: InsertCtx_def split: prod.splits sum.splits dest: wf_step)

lemma wf_UpdateCtx: "wf db \<Longrightarrow> wf (snd (UpdateCtx exec db t fs cs))"
  by (auto simp: UpdateCtx_def split: prod.splits sum.splits dest: wf_step)

lemma InsertCtx_ok:
  assumes "wf db" "word_ok t" "fields_fine fs" "InsertCtx exec db t fs = (Inr i, db')"
  shows "0 < i" "VInt i \<notin> (\<lambda>r. r ''id'') ` set (tab db t)"
    "\<not> conflicts le (uniq_of t) (tab db t) (inserted conv dflt t fs i)"
    "tab db' = (tab db)(t := tab db t @ [inserted conv dflt t fs i])"
proof -
  have fs: "fs \<noteq> []" "\<forall>kv \<in> set fs. word_ok (fst kv)"
    using assms(3) by (auto simp: fields_fine_def list_all_iff)
  obtain n where n: "ExecContext exec db (insert_sql t fs) (map snd fs) = (Inr (i, n), db')"
    using InsertCtx_cases [OF assms(2) fs(1) assms(4)] by auto
  note ins = exec_insert [OF assms(1) parse_insert_sql [OF assms(2) fs] _ n, simplified zip_map_fst_snd]
  show "0 < i" "VInt i \<notin> (\<lambda>r. r ''id'') ` set (tab db t)"
    "\<not> conflicts le (uniq_of t) (tab db t) (inserted conv dflt t fs i)"
    "tab db' = (tab db)(t := tab db t @ [inserted conv dflt t fs i])"
    using ins by (simp_all add: insert_effect_def)
qed

lemma InsertCtx_err:
  assumes "wf db" "word_ok t" "fields_fine fs" "InsertCtx exec db t fs = (Inl e, db')"
  shows "tab db' = tab db \<or> lost_answer exec le conv dflt tab db db' \<and>
    (\<exists>i. tab db' = (tab db)(t := tab db t @ [inserted conv dflt t fs i]))"
proof -
  have fs: "fs \<noteq> []" "\<forall>kv \<in> set fs. word_ok (fst kv)"
    using assms(3) by (auto simp: fields_fine_def list_all_iff)
  have e: "ExecContext exec db (insert_sql t fs) (map snd fs) = (Inl e, db')"
    using InsertCtx_cases [OF assms(2) fs(1) assms(4)] by auto
  show ?thesis using exec_lost [OF assms(1) parse_insert_sql [OF assms(2) fs] _ e]
    by (auto simp: args_fit_def stmt_effect_def insert_effect_def zip_map_fst_snd)
qed

lemma UpdateCtx_ok:
  assumes "wf db" "word_ok t" "fields_fine fs" "list_all simple_cond cs"
    and "UpdateCtx exec db t fs cs = (Inr n, db')"
  shows "tab db' = (tab db)(t :=
           map (\<lambda>r. if list_all (cond_holds le r) cs then updated conv t fs r else r) (tab db t))"
    "n = int (length (filter (row_changed conv t fs) (matching le cs (tab db t))))"
proof -
  have fs: "fs \<noteq> []" "\<forall>kv \<in> set fs. ident (fst kv)"
    using assms(3) by (auto simp: fields_fine_def list_all_iff)
  obtain i where i: "ExecContext exec db (update_sql t fs cs) (map snd fs @ where_args cs) = (Inr (i, n), db')"
    using UpdateCtx_cases [OF assms(2) fs(1) assms(5)] by auto
  note upd = exec_update [OF assms(1) parse_update_sql [OF assms(2) fs assms(4)] _ i,
      simplified zip_map_fst_snd wmatch_fun [OF assms(4)]]
  show "tab db' = (tab db)(t :=
      map (\<lambda>r. if list_all (cond_holds le r) cs then updated conv t fs r else r) (tab db t))"
    using upd by (simp add: update_effect_def)
  show "n = int (length (filter (row_changed conv t fs) (matching le cs (tab db t))))"
    using upd by (simp add: update_effect_def matching_def conj_commute)
qed

lemma UpdateCtx_err:
  assumes "wf db" "word_ok t" "fields_fine fs" "list_all simple_cond cs" "UpdateCtx exec db t fs cs = (Inl e, db')"
  shows "tab db' = tab db \<or> lost_answer exec le conv dflt tab db db' \<and> tab db' = (tab db)(t :=
           map (\<lambda>r. if list_all (cond_holds le r) cs then updated conv t fs r else r) (tab db t))"
proof -
  have fs: "fs \<noteq> []" "\<forall>kv \<in> set fs. ident (fst kv)"
    using assms(3) by (auto simp: fields_fine_def list_all_iff)
  have e: "ExecContext exec db (update_sql t fs cs) (map snd fs @ where_args cs) = (Inl e, db')"
    using UpdateCtx_cases [OF assms(2) fs(1) assms(5)] by auto
  show ?thesis using exec_lost [OF assms(1) parse_update_sql [OF assms(2) fs assms(4)] _ e]
    by (auto simp: args_fit_def stmt_effect_def update_effect_def zip_append_left zip_map_fst_snd wmatch_fun [OF assms(4)])
qed

lemma QueryOneCtx_cases:
  assumes "wf db" "query_fine h os" "q_limit h = []" "q_columns h \<noteq> [''COUNT(*)'']"
    and "QueryOneCtx exec db h f = res"
  shows "(\<exists>e. res = Inl e \<and> e \<noteq> ErrNoRows \<and> e \<noteq> ErrNotFound) \<or>
    (\<exists>xs. delivers le (tab db (q_table h)) (q_conditions h) os xs \<and>
       f (case xs of [] \<Rightarrow> None | r # _ \<Rightarrow> Some (proj (q_columns h) r)) = res)"
proof (cases "QueryRowContext exec db (fst (query_sql h)) (snd (query_sql h))")
  case (Inl e)
  then show ?thesis using assms(2,5) query_row_error by (auto simp: QueryOneCtx_def query_fine_def)
next
  case (Inr ro)
  have f: "f ro = res" using assms(2,5) Inr by (auto simp: QueryOneCtx_def query_fine_def)
  have cs: "list_all simple_cond (q_conditions h)" using assms(2) by (simp add: query_fine_def)
  from query_row [OF assms(1) parse_query_fine [OF assms(2)] Inr] obtain full where
    "select_result le (tab db) (q_columns h) (q_table h) (map watom (q_conditions h)) (ord_spec os) False
       (where_args (q_conditions h)) full" "ro = (case full of [] \<Rightarrow> None | r # _ \<Rightarrow> Some r)"
    using assms(3) by (auto simp: snd_query_sql)
  then show ?thesis using f by (auto simp: select_result_plain [OF cs assms(4)] split: list.splits)
qed

lemma QueryOneCtx_ok:
  assumes "wf db" "query_fine h os" "q_limit h = []" "q_columns h \<noteq> [''COUNT(*)'']"
    and "QueryOneCtx exec db h f = Inr x"
  shows "\<exists>xs. delivers le (tab db (q_table h)) (q_conditions h) os xs \<and>
    f (case xs of [] \<Rightarrow> None | r # _ \<Rightarrow> Some (proj (q_columns h) r)) = Inr x"
  using QueryOneCtx_cases [OF assms] by simp

lemma QueryOneCtx_count:
  assumes "wf db" "query_fine h os" "q_limit h = []" "q_columns h = [''COUNT(*)'']"
    and "QueryOneCtx exec db h f = Inr x"
  shows "f (Some [VInt (int (length (matching le (q_conditions h) (tab db (q_table h)))))]) = Inr x"
proof -
  obtain ro where ro: "QueryRowContext exec db (fst (query_sql h)) (snd (query_sql h)) = Inr ro" "f ro = Inr x"
    using assms(2,5) by (auto simp: QueryOneCtx_def query_fine_def split: sum.splits if_splits)
  have cs: "list_all simple_cond (q_conditions h)" using assms(2) by (simp add: query_fine_def)
  from query_row [OF assms(1) parse_query_fine [OF assms(2)] ro(1)] obtain full where
    "select_result le (tab db) [''COUNT(*)''] (q_table h) (map watom (q_conditions h)) (ord_spec os) False
       (where_args (q_conditions h)) full" "ro = (case full of [] \<Rightarrow> None | r # _ \<Rightarrow> Some r)"
    using assms(3,4) by (auto simp: snd_query_sql)
  then obtain xs where xs: "delivers le (tab db (q_table h)) (q_conditions h) os xs"
    "ro = Some [VInt (int (length xs))]" using select_result_count [OF cs] by auto
  have "length xs = length (matching le (q_conditions h) (tab db (q_table h)))"
    using xs(1) unfolding delivers_def by (metis size_mset)
  then show ?thesis using xs ro by simp
qed

lemma QueryCtx_ok:
  assumes "wf db" "query_fine h os" "q_limit h = []" "q_columns h \<noteq> [''COUNT(*)'']"
    and "QueryCtx exec db h f = Inr x"
  shows "\<exists>xs k. delivers le (tab db (q_table h)) (q_conditions h) os xs \<and>
    f (map (proj (q_columns h)) (take k xs)) = Inr x \<and> (cursor_ok exec db \<longrightarrow> length xs \<le> k)"
proof -
  obtain rows eo where ro: "QueryContext exec db (fst (query_sql h)) (snd (query_sql h)) = Inr (rows, eo)"
    "f rows = Inr x"
    using assms(2,5) by (auto simp: QueryCtx_def query_fine_def split: sum.splits if_splits)
  have cs: "list_all simple_cond (q_conditions h)" using assms(2) by (simp add: query_fine_def)
  from query_rows [OF assms(1) parse_query_fine [OF assms(2)] ro(1)] obtain full where
    f: "select_result le (tab db) (q_columns h) (q_table h) (map watom (q_conditions h)) (ord_spec os) False
       (where_args (q_conditions h)) full" "if eo = None then rows = full else (\<exists>k. rows = take k full)"
    using assms(3) by (auto simp: snd_query_sql)
  from f(1) obtain xs where xs: "delivers le (tab db (q_table h)) (q_conditions h) os xs"
    "full = map (proj (q_columns h)) xs" by (auto simp: select_result_plain [OF cs assms(4)])
  show ?thesis
  proof (cases "eo = None")
    case True
    then show ?thesis using f xs ro by (intro exI [of _ xs] exI [of _ "length xs"]) simp
  next
    case False
    then obtain k where "rows = take k full" using f(2) by auto
    then show ?thesis using False xs ro
      by (intro exI [of _ xs] exI [of _ k]) (auto simp: cursor_ok_def take_map)
  qed
qed

lemma QueryCtx_limit:
  assumes "wf db" "query_fine h os" "q_limit h = [off, cnt]"
    and "QueryCtx exec db h f = Inr x"
  shows "\<exists>xs k. delivers le (tab db (q_table h)) (q_conditions h) os xs \<and>
    f (map (proj (q_columns h)) (take k (take (nat cnt) (drop (nat off) xs)))) = Inr x \<and>
    (cursor_ok exec db \<longrightarrow> length xs \<le> k)"
proof -
  obtain rows eo where ro: "QueryContext exec db (fst (query_sql h)) (snd (query_sql h)) = Inr (rows, eo)"
    "f rows = Inr x"
    using assms(2,4) by (auto simp: QueryCtx_def query_fine_def split: sum.splits if_splits)
  have cs: "list_all simple_cond (q_conditions h)" using assms(2) by (simp add: query_fine_def)
  from query_rows [OF assms(1) parse_query_fine [OF assms(2)] ro(1)] obtain full where
    f: "select_result le (tab db) (q_columns h) (q_table h) (map watom (q_conditions h)) (ord_spec os) True
       (where_args (q_conditions h) @ [VInt off, VInt cnt]) full"
      "if eo = None then rows = full else (\<exists>k. rows = take k full)"
    using assms(3) by (auto simp: snd_query_sql)
  from f(1) obtain xs where xs: "delivers le (tab db (q_table h)) (q_conditions h) os xs"
    "full = map (proj (q_columns h)) (take (nat cnt) (drop (nat off) xs))" by (auto simp: select_result_limit [OF cs])
  show ?thesis
  proof (cases "eo = None")
    case True
    then show ?thesis using f xs ro by (intro exI [of _ xs] exI [of _ "length xs + nat cnt"]) simp
  next
    case False
    then obtain k where "rows = take k full" using f(2) by auto
    then show ?thesis using False xs ro
      by (intro exI [of _ xs] exI [of _ k]) (auto simp: cursor_ok_def take_map)
  qed
qed

end

end
