(* ===== verification/Entity.thy ===== *)
theory Entity
  imports MySql
begin

text \<open>
  What the entities of \<open>personal-core\<close> share: the account taken from the request context, the
  conditions of the \<open>...ByID\<close> functions of the model layer, soft deletion, and ownership of rows.
  The locale \<open>entity\<close> is the interface between the model layer and the service layer: select,
  update and soft delete one live row by its id. Its lemmas (an owner's update or delete leaves
  the rows of every other account alone, a deleted row is no longer found) are proved once and
  reach the model functions of categories, transactions, balance-sheet items, positions and
  trades through the sublocale declarations of their theories.
\<close>

section \<open>The request context\<close>

definition internal_error :: status where
  "internal_error = Status Internal ''internal server error''"

definition accountIDFromCtx :: "string option \<Rightarrow> status + string" where
  "accountIDFromCtx ctx =
     (case ctx of
        None \<Rightarrow> Inl (Status Unauthenticated ''missing account_id'')
      | Some rid \<Rightarrow> (if rid = [] then Inl (Status Unauthenticated ''missing account_id'') else Inr rid))"

lemma accountIDFromCtx_ok: "accountIDFromCtx ctx = Inr a \<longleftrightarrow> ctx = Some a \<and> a \<noteq> []"
  by (auto simp: accountIDFromCtx_def split: option.splits)

section \<open>The functions that name a row by its id\<close>

text \<open>\<open>if errors.Is(err, sql.ErrNoRows) { return nil, ErrNotFound }\<close>\<close>

definition no_rows :: "goerr + 'a \<Rightarrow> goerr + 'a" where
  "no_rows r = (case r of Inl e \<Rightarrow> (if e = ErrNoRows then Inl ErrNotFound else Inl e) | Inr x \<Rightarrow> Inr x)"

lemma no_rows_ok [simp]: "no_rows r = Inr x \<longleftrightarrow> r = Inr x"
  by (cases r) (auto simp: no_rows_def)

text \<open>\<open>Where(sqlutil.WithEq("id", id), sqlutil.WithEq("deleted_at", 0))\<close>\<close>

definition by_id :: "int \<Rightarrow> condition list" where
  "by_id rid = [WithEq ''id'' (VInt rid), WithEq ''deleted_at'' (VInt 0)]"

definition live_row :: "int \<Rightarrow> row \<Rightarrow> bool" where
  "live_row rid r = (r ''id'' = VInt rid \<and> r ''deleted_at'' = VInt 0)"

definition soft_delete :: "int \<Rightarrow> (string \<times> sqlval) list" where
  "soft_delete n = [(''deleted_at'', VInt n), (''updated_at'', VInt n)]"

section \<open>Ownership\<close>

definition owned :: "(sqlval \<Rightarrow> sqlval \<Rightarrow> bool) \<Rightarrow> string \<Rightarrow> row \<Rightarrow> bool" where
  "owned le acc r = (le (r ''account_id'') (VStr acc) \<and> le (VStr acc) (r ''account_id''))"

text \<open>The rows of every table that belong to other accounts.\<close>

definition foreign :: "(sqlval \<Rightarrow> sqlval \<Rightarrow> bool) \<Rightarrow> string \<Rightarrow> (string \<Rightarrow> row list) \<Rightarrow> string \<Rightarrow> row list" where
  "foreign le acc T = (\<lambda>t. filter (\<lambda>r. \<not> owned le acc r) (T t))"

lemma foreign_upd: "foreign le acc (T(t := rows)) = (foreign le acc T)(t := filter (\<lambda>r. \<not> owned le acc r) rows)"
  by (auto simp: foreign_def)

lemma foreign_append_owned:
  "owned le acc r \<Longrightarrow> foreign le acc (T(t := T t @ [r])) = foreign le acc T"
  by (auto simp: foreign_def)

lemma updated_other: "c \<notin> fst ` set fs \<Longrightarrow> updated conv t fs r c = r c"
  by (simp add: updated_def map_of_eq_None_iff [THEN iffD2])

lemma filter_map_kept:
  "(\<And>r. r \<in> set xs \<Longrightarrow> P r \<Longrightarrow> Q (f r) \<longleftrightarrow> Q r) \<Longrightarrow> (\<And>r. r \<in> set xs \<Longrightarrow> P r \<Longrightarrow> \<not> Q r) \<Longrightarrow>
   filter Q (map (\<lambda>r. if P r then f r else r) xs) = filter Q xs"
  by (induction xs) auto

text \<open>An update that touches only owned rows, and not their owner, leaves every other row alone.\<close>

lemma foreign_update:
  assumes "\<And>r. r \<in> set (T t) \<Longrightarrow> P r \<Longrightarrow> owned le acc r" "''account_id'' \<notin> fst ` set fs"
  shows "foreign le acc (T(t := map (\<lambda>r. if P r then updated conv t fs r else r) (T t))) = foreign le acc T"
proof -
  have o: "owned le acc (updated conv t fs r) = owned le acc r" for r
    using updated_other [OF assms(2)] by (simp add: owned_def)
  have "filter (\<lambda>r. \<not> owned le acc r) (map (\<lambda>r. if P r then updated conv t fs r else r) (T t)) =
        filter (\<lambda>r. \<not> owned le acc r) (T t)"
    by (rule filter_map_kept) (use assms(1) o in auto)
  then show ?thesis unfolding foreign_upd by (simp add: foreign_def fun_upd_idem)
qed

text \<open>Soft-deleted rows stay, and stay as they are.\<close>

definition tombs_kept :: "(string \<Rightarrow> row list) \<Rightarrow> (string \<Rightarrow> row list) \<Rightarrow> bool" where
  "tombs_kept T T' = (\<forall>t r. coltype_of t ''deleted_at'' = Some CTInt \<longrightarrow> r \<in> set (T t) \<longrightarrow>
     r ''deleted_at'' \<noteq> VInt 0 \<longrightarrow> r \<in> set (T' t))"

lemma tombs_kept_refl [simp]: "tombs_kept T T"
  by (simp add: tombs_kept_def)

lemma tombs_kept_trans: "tombs_kept T T' \<Longrightarrow> tombs_kept T' T'' \<Longrightarrow> tombs_kept T T''"
  by (auto simp: tombs_kept_def)

lemma tombs_kept_append: "tombs_kept T (T(t := T t @ xs))"
  by (simp add: tombs_kept_def)

lemma tombs_kept_update:
  assumes "\<And>r. r \<in> set (T t) \<Longrightarrow> P r \<Longrightarrow> r ''deleted_at'' = VInt 0"
  shows "tombs_kept T (T(t := map (\<lambda>r. if P r then f r else r) (T t)))"
proof -
  have "r \<in> (\<lambda>r. if P r then f r else r) ` set (T t)" if "r \<in> set (T t)" "r ''deleted_at'' \<noteq> VInt 0" for r
    by (rule image_eqI [of _ _ r]) (use assms that in auto)
  then show ?thesis by (simp add: tombs_kept_def)
qed

lemma tombs_kept_other: "coltype_of t ''deleted_at'' \<noteq> Some CTInt \<Longrightarrow> tombs_kept T (T(t := rows))"
  by (auto simp: tombs_kept_def)

text \<open>What every request of account \<open>acc\<close> guarantees: the database stays well-formed, the rows of
  the other accounts stay as they are, soft-deleted rows are frozen, and a request that reports
  an error has changed nothing, or only what one statement did whose own answer was lost.\<close>

definition fair_step ::
  "('db \<Rightarrow> bool) \<Rightarrow> ('db \<Rightarrow> string \<Rightarrow> row list) \<Rightarrow> (sqlval \<Rightarrow> sqlval \<Rightarrow> bool) \<Rightarrow> ('db \<Rightarrow> 'db \<Rightarrow> bool) \<Rightarrow>
   string \<Rightarrow> 'db \<Rightarrow> bool \<Rightarrow> 'db \<Rightarrow> bool" where
  "fair_step ok tab le lost acc db failed db' =
     (ok db' \<and> foreign le acc (tab db') = foreign le acc (tab db) \<and> tombs_kept (tab db) (tab db') \<and>
      (failed \<longrightarrow> tab db' = tab db \<or> lost db db'))"

lemma fair_same [simp]: "ok db \<Longrightarrow> fair_step ok tab le lost acc db failed db"
  by (simp add: fair_step_def)

text \<open>A write that answered has its effect \<open>T\<close>; one that reported an error has none, or the answer
  of a statement that took effect was lost.\<close>

definition applied ::
  "('db \<Rightarrow> 'db \<Rightarrow> bool) \<Rightarrow> ('db \<Rightarrow> string \<Rightarrow> row list) \<Rightarrow> goerr + 'a \<Rightarrow> 'db \<Rightarrow> 'db \<Rightarrow> (string \<Rightarrow> row list) \<Rightarrow> bool" where
  "applied lost tab res db db' T =
     (case res of Inl _ \<Rightarrow> tab db' = tab db \<or> (lost db db' \<and> tab db' = T) | Inr _ \<Rightarrow> tab db' = T)"

lemma applied_ok [simp]: "applied lost tab (Inr x) db db' T \<longleftrightarrow> tab db' = T"
  by (simp add: applied_def)

lemma applied_cases: "applied lost tab res db db' T \<Longrightarrow> (tab db' = tab db \<Longrightarrow> P) \<Longrightarrow> (tab db' = T \<Longrightarrow> P) \<Longrightarrow> P"
  by (auto simp: applied_def split: sum.splits)

lemma applied_fair:
  assumes "applied lost tab res db db' T" "ok db'" "foreign le acc T = foreign le acc (tab db)" "tombs_kept (tab db) T"
  shows "fair_step ok tab le lost acc db (isl res) db'"
  using assms by (auto simp: applied_def fair_step_def split: sum.splits)

section \<open>The interface of the model layer\<close>

locale entity =
  fixes wf :: "'db \<Rightarrow> bool"
    and tab :: "'db \<Rightarrow> string \<Rightarrow> row list"
    and le :: "sqlval \<Rightarrow> sqlval \<Rightarrow> bool"
    and conv :: "string \<Rightarrow> string \<Rightarrow> sqlval \<Rightarrow> sqlval"
    and lost :: "'db \<Rightarrow> 'db \<Rightarrow> bool"
    and table :: string
    and selectByID :: "'db \<Rightarrow> int \<Rightarrow> goerr + 'a"
    and updateByID :: "'db \<Rightarrow> int \<Rightarrow> (string \<times> sqlval) list \<Rightarrow> (goerr + int) \<times> 'db"
    and softDeleteByID :: "'db \<Rightarrow> int \<Rightarrow> int \<Rightarrow> (goerr + int) \<times> 'db"
    and scan_row :: "row \<Rightarrow> goerr + 'a"
    and accountOf :: "'a \<Rightarrow> string"
  assumes select_found: "wf db \<Longrightarrow> selectByID db rid = Inr x \<Longrightarrow>
      \<exists>r \<in> set (tab db table). live_row rid r \<and> scan_row r = Inr x"
    and select_missing: "wf db \<Longrightarrow> selectByID db rid = Inl ErrNotFound \<Longrightarrow>
      r \<in> set (tab db table) \<Longrightarrow> \<not> live_row rid r"
    and update_done: "wf db \<Longrightarrow> fields_fine fs \<Longrightarrow> updateByID db rid fs = (res, db') \<Longrightarrow>
      wf db' \<and> applied lost tab res db db' ((tab db)(table :=
             map (\<lambda>r. if live_row rid r then updated conv table fs r else r) (tab db table)))"
    and delete_done: "wf db \<Longrightarrow> softDeleteByID db rid n = (res, db') \<Longrightarrow>
      wf db' \<and> applied lost tab res db db' ((tab db)(table :=
             map (\<lambda>r. if live_row rid r then updated conv table (soft_delete n) r else r) (tab db table)))"
    and keys: "wf db \<Longrightarrow> keys_ok (tab db table)"
    and scan_account: "wf db \<Longrightarrow> r \<in> set (tab db table) \<Longrightarrow> scan_row r = Inr x \<Longrightarrow>
      r ''account_id'' = VStr (accountOf x)"
    and deleted_at_stored: "conv table ''deleted_at'' (VInt n) = VInt n"
    and own_refl: "le (VStr s) (VStr s)"
begin

text \<open>The live row with a given id is unique.\<close>

lemma live_unique:
  assumes "wf db" "r \<in> set (tab db table)" "s \<in> set (tab db table)" "live_row rid r" "live_row rid s"
  shows "r = s"
proof -
  have "distinct (map (\<lambda>r. r ''id'') (tab db table))" using keys [OF assms(1)] by (simp add: keys_ok_def)
  then have "inj_on (\<lambda>r. r ''id'') (set (tab db table))" by (simp add: distinct_map)
  then show ?thesis using assms by (auto simp: live_row_def inj_on_def)
qed

lemma select_owned:
  assumes "wf db" "selectByID db rid = Inr x" "r \<in> set (tab db table)" "live_row rid r"
  shows "scan_row r = Inr x" "owned le (accountOf x) r"
proof -
  obtain s where s: "s \<in> set (tab db table)" "live_row rid s" "scan_row s = Inr x"
    using select_found [OF assms(1,2)] by blast
  then have "r = s" using live_unique assms by blast
  then show "scan_row r = Inr x" "owned le (accountOf x) r"
    using s scan_account [OF assms(1) s(1,3)] own_refl by (auto simp: owned_def)
qed

lemma update_isolated:
  assumes "wf db" "selectByID db rid = Inr x" "fields_fine fs" "''account_id'' \<notin> fst ` set fs"
  shows "foreign le (accountOf x) (tab (snd (updateByID db rid fs))) = foreign le (accountOf x) (tab db)"
proof -
  obtain res db' where u: "updateByID db rid fs = (res, db')" by fastforce
  show ?thesis using update_done [OF assms(1,3) u] foreign_update [OF _ assms(4), of "tab db" table]
      select_owned(2) [OF assms(1,2)] u
    by (auto elim: applied_cases)
qed

lemma delete_isolated:
  assumes "wf db" "selectByID db rid = Inr x"
  shows "foreign le (accountOf x) (tab (snd (softDeleteByID db rid n))) = foreign le (accountOf x) (tab db)"
proof -
  obtain res db' where u: "softDeleteByID db rid n = (res, db')" by fastforce
  have a: "''account_id'' \<notin> fst ` set (soft_delete n)" by (simp add: soft_delete_def)
  show ?thesis using delete_done [OF assms(1) u] foreign_update [OF _ a, of "tab db" table]
      select_owned(2) [OF assms] u
    by (auto elim: applied_cases)
qed

lemma update_fair:
  assumes "wf db" "selectByID db rid = Inr x" "fields_fine fs" "''account_id'' \<notin> fst ` set fs"
    and "updateByID db rid fs = (res, db')"
  shows "fair_step wf tab le lost (accountOf x) db (isl res) db'"
proof (rule applied_fair)
  show "applied lost tab res db db' ((tab db)(table :=
      map (\<lambda>r. if live_row rid r then updated conv table fs r else r) (tab db table)))" "wf db'"
    using update_done [OF assms(1,3,5)] by simp_all
qed (use select_owned(2) [OF assms(1,2)] assms(4) in
      \<open>auto simp: live_row_def intro!: foreign_update tombs_kept_update\<close>)

lemma delete_fair:
  assumes "wf db" "selectByID db rid = Inr x" "softDeleteByID db rid n = (res, db')"
  shows "fair_step wf tab le lost (accountOf x) db (isl res) db'"
proof (rule applied_fair)
  show "applied lost tab res db db' ((tab db)(table :=
      map (\<lambda>r. if live_row rid r then updated conv table (soft_delete n) r else r) (tab db table)))" "wf db'"
    using delete_done [OF assms(1,3)] by simp_all
qed (use select_owned(2) [OF assms(1,2)] in
      \<open>auto simp: live_row_def soft_delete_def intro!: foreign_update tombs_kept_update\<close>)

lemma update_wf: "wf db \<Longrightarrow> fields_fine fs \<Longrightarrow> wf (snd (updateByID db rid fs))"
  by (cases "updateByID db rid fs") (auto dest: update_done)

lemma delete_wf: "wf db \<Longrightarrow> wf (snd (softDeleteByID db rid n))"
  by (cases "softDeleteByID db rid n") (auto dest: delete_done)

text \<open>Once a delete has succeeded, the row is no longer found.\<close>

lemma delete_hides:
  assumes "wf db" "softDeleteByID db rid n = (Inr k, db')" "n \<noteq> 0"
  shows "selectByID db' rid \<noteq> Inr x"
proof
  assume "selectByID db' rid = Inr x"
  then obtain s where s: "s \<in> set (tab db' table)" "live_row rid s"
    using select_found delete_done [OF assms(1,2)] by blast
  have d: "updated conv table (soft_delete n) r ''deleted_at'' = VInt n" for r
    using deleted_at_stored by (simp add: updated_def soft_delete_def)
  show False using s delete_done [OF assms(1,2)] d assms(3) by (auto simp: live_row_def split: if_splits)
qed

text \<open>An update never makes a row disappear or changes its id (unless it is told to).\<close>

lemma update_others:
  assumes "wf db" "fields_fine fs" "updateByID db rid fs = (res, db')" "r \<in> set (tab db table)" "r ''id'' \<noteq> VInt rid"
  shows "r \<in> set (tab db' table)"
  using update_done [OF assms(1-3)] assms(4,5)
  by (auto simp: live_row_def image_iff elim!: applied_cases intro!: bexI [of _ r])

text \<open>What a reader finds after an update: the row with the new values.\<close>

lemma update_then_select:
  assumes "wf db" "fields_fine fs" "''id'' \<notin> fst ` set fs" "''deleted_at'' \<notin> fst ` set fs"
    and "selectByID db rid = Inr x" "updateByID db rid fs = (Inr k, db')" "selectByID db' rid = Inr y"
  shows "\<exists>r \<in> set (tab db table). live_row rid r \<and> scan_row r = Inr x \<and> scan_row (updated conv table fs r) = Inr y"
proof -
  obtain r where r: "r \<in> set (tab db table)" "live_row rid r" "scan_row r = Inr x"
    using select_found [OF assms(1,5)] by blast
  have wf': "wf db'" and t: "tab db' table = map (\<lambda>r. if live_row rid r then updated conv table fs r else r) (tab db table)"
    using update_done [OF assms(1,2,6)] by simp_all
  have l: "live_row rid (updated conv table fs r)"
    using r(2) assms(3,4) by (simp add: live_row_def updated_other)
  have "updated conv table fs r \<in> set (tab db' table)" using r t by auto
  then have "scan_row (updated conv table fs r) = Inr y" using select_owned(1) [OF wf' assms(7)] l by blast
  then show ?thesis using r by blast
qed

end

section \<open>The server fulfils the interface\<close>

text \<open>A scan that names its row's account, and the three by-id statements on a table with an
  account, an rid and a deletion time.\<close>

definition by_id_table :: "string \<Rightarrow> bool" where
  "by_id_table t = (word_ok t \<and> coltype_of t ''id'' = Some CTInt \<and> coltype_of t ''deleted_at'' = Some CTInt \<and>
     coltype_of t ''account_id'' = Some CTText)"

lemma typed_col: "typed_row t r \<Longrightarrow> coltype_of t c = Some ct \<Longrightarrow> has_type ct (r c)"
  by (auto simp: typed_row_def coltype_of_def list_all_iff split: option.splits dest!: map_of_SomeD)

lemma has_type_int: "has_type CTInt v \<longleftrightarrow> (\<exists>i. v = VInt i)"
  by (cases v) (simp_all add: has_type_def)

lemma has_type_text: "has_type CTText v \<longleftrightarrow> (\<exists>s. v = VStr s)"
  by (cases v) (simp_all add: has_type_def)

lemma has_type_dec: "has_type CTDec v \<longleftrightarrow> (\<exists>c. v = VDec c \<and> dec_ok c)"
  by (cases v) (simp_all add: has_type_def)

lemma has_type_date: "has_type CTDate v \<longleftrightarrow> (\<exists>y m d z. v = VDate y m d z \<and> valid_date y m d)"
  by (cases v) (simp_all add: has_type_def)

lemma by_id_simple: "list_all simple_cond (by_id rid)"
  by (simp add: by_id_def WithEq_def ident_def word_ok_def)

lemma soft_delete_fine: "fields_fine (soft_delete n)"
  by (simp add: soft_delete_def fields_fine_def ident_def word_ok_def)

definition by_id_query :: "string \<Rightarrow> string list \<Rightarrow> int \<Rightarrow> query" where
  "by_id_query t cols rid = query_Where (by_id rid) (query_Table t (query_Columns cols NewQuery))"

lemmas query_defs = NewQuery_def query_Columns_def query_Table_def query_Where_def query_OrderBy_def query_Limit_def

context mysql
begin

lemma int_eq: "le (VInt i) (VInt j) \<and> le (VInt j) (VInt i) \<longleftrightarrow> i = j"
  using le_int by auto

lemma by_id_match:
  assumes "wf db" "by_id_table t" "r \<in> set (tab db t)"
  shows "list_all (cond_holds le r) (by_id rid) \<longleftrightarrow> live_row rid r"
proof -
  obtain i d where "r ''id'' = VInt i" "r ''deleted_at'' = VInt d"
    using typed_col [OF wf_typed [OF assms(1,3)], of "''id''" CTInt]
      typed_col [OF wf_typed [OF assms(1,3)], of "''deleted_at''" CTInt] assms(2)
    by (auto simp: by_id_table_def has_type_int)
  then show ?thesis using int_eq by (auto simp: by_id_def WithEq_def live_row_def)
qed

lemma select_by_id:
  assumes "wf db" "by_id_table t" "query_fine (by_id_query t cols rid) []" "cols \<noteq> [''COUNT(*)'']"
    and "QueryOneCtx exec db (by_id_query t cols rid) (row_scan f) = Inr x"
  shows "\<exists>r \<in> set (tab db t). live_row rid r \<and> f (proj cols r) = Inr x"
proof -
  have q: "q_table (by_id_query t cols rid) = t" "q_conditions (by_id_query t cols rid) = by_id rid"
    "q_columns (by_id_query t cols rid) = cols" "q_limit (by_id_query t cols rid) = []"
    by (simp_all add: by_id_query_def query_defs)
  from QueryOneCtx_ok [OF assms(1,3) q(4) _ assms(5), unfolded q, OF assms(4)] obtain xs where
    xs: "delivers le (tab db t) (by_id rid) [] xs"
      "row_scan f (case xs of [] \<Rightarrow> None | r # _ \<Rightarrow> Some (proj cols r)) = Inr x"
    by blast
  then obtain r rs where r: "xs = r # rs" "f (proj cols r) = Inr x"
    by (cases xs) (auto simp: row_scan_def)
  then have "r \<in> set (matching le (by_id rid) (tab db t))" using delivers_set [OF xs(1)] by auto
  then show ?thesis using r by_id_match [OF assms(1,2)] by (auto simp: matching_def)
qed

lemma select_by_id_none:
  assumes "wf db" "by_id_table t" "query_fine (by_id_query t cols rid) []" "cols \<noteq> [''COUNT(*)'']"
    and "no_rows (QueryOneCtx exec db (by_id_query t cols rid) (row_scan f)) = Inl ErrNotFound"
    and "\<And>vs. f vs \<noteq> Inl ErrNoRows \<and> f vs \<noteq> Inl ErrNotFound" "r \<in> set (tab db t)"
  shows "\<not> live_row rid r"
proof -
  have q: "q_table (by_id_query t cols rid) = t" "q_conditions (by_id_query t cols rid) = by_id rid"
    "q_columns (by_id_query t cols rid) = cols" "q_limit (by_id_query t cols rid) = []"
    by (simp_all add: by_id_query_def query_defs)
  obtain e where e: "QueryOneCtx exec db (by_id_query t cols rid) (row_scan f) = Inl e"
    "e = ErrNoRows \<or> e = ErrNotFound"
    using assms(5) by (auto simp: no_rows_def split: sum.splits if_splits)
  from QueryOneCtx_cases [OF assms(1,3) q(4) _ e(1), unfolded q, OF assms(4)] e(2) obtain xs where
    xs: "delivers le (tab db t) (by_id rid) [] xs"
      "row_scan f (case xs of [] \<Rightarrow> None | r # _ \<Rightarrow> Some (proj cols r)) = Inl e"
    by blast
  then have "xs = []" using assms(6) e(2) by (cases xs) (auto simp: row_scan_def)
  then have "set (matching le (by_id rid) (tab db t)) = {}" using delivers_set [OF xs(1)] by simp
  then show ?thesis using assms(7) by_id_match [OF assms(1,2,7)] by (auto simp: matching_def filter_empty_conv)
qed

abbreviation lost where "lost \<equiv> lost_answer exec le conv dflt tab"

abbreviation fair where "fair \<equiv> fair_step wf tab le lost"

lemma UpdateCtx_applied:
  assumes "wf db" "word_ok t" "fields_fine fs" "list_all simple_cond cs" "UpdateCtx exec db t fs cs = (res, db')"
  shows "applied lost tab res db db' ((tab db)(t :=
           map (\<lambda>r. if list_all (cond_holds le r) cs then updated conv t fs r else r) (tab db t)))"
  using UpdateCtx_ok(1) [OF assms(1-4)] UpdateCtx_err [OF assms(1-4)] assms(5) by (cases res) (auto simp: applied_def)

lemma update_by_id:
  assumes "wf db" "by_id_table t" "fields_fine fs" "UpdateCtx exec db t fs (by_id rid) = (res, db')"
  shows "wf db' \<and> applied lost tab res db db'
    ((tab db)(t := map (\<lambda>r. if live_row rid r then updated conv t fs r else r) (tab db t)))"
proof -
  have t: "word_ok t" using assms(2) by (simp add: by_id_table_def)
  have wf': "wf db'" using wf_UpdateCtx [OF assms(1), of t fs "by_id rid"] assms(4) by simp
  have m: "map (\<lambda>r. if list_all (cond_holds le r) (by_id rid) then updated conv t fs r else r) (tab db t) =
     map (\<lambda>r. if live_row rid r then updated conv t fs r else r) (tab db t)"
    using by_id_match [OF assms(1,2)] by (intro map_cong) auto
  show ?thesis using wf' UpdateCtx_applied [OF assms(1) t assms(3) by_id_simple assms(4)] m by simp
qed

lemma delete_by_id:
  assumes "wf db" "by_id_table t" "UpdateCtx exec db t (soft_delete n) (by_id rid) = (res, db')"
  shows "wf db' \<and> applied lost tab res db db'
    ((tab db)(t := map (\<lambda>r. if live_row rid r then updated conv t (soft_delete n) r else r) (tab db t)))"
  using update_by_id [OF assms(1,2) soft_delete_fine assms(3)] .

text \<open>Inserting a row with its owner's account leaves the other accounts' rows alone.\<close>

lemma insert_fair:
  assumes "wf db" "word_ok t" "fields_fine fs" "coltype_of t ''account_id'' = Some CTText"
    and "map_of fs ''account_id'' = Some (VStr acc)" "InsertCtx exec db t fs = (res, db')"
  shows "fair acc db (isl res) db'"
proof -
  have wf': "wf db'" using wf_InsertCtx [OF assms(1), of t fs] assms(6) by simp
  have o: "owned le acc (inserted conv dflt t fs i)" for i
    using assms(4,5) by (simp add: inserted_def conv_text owned_def le_refl)
  have "\<exists>i. applied lost tab res db db' ((tab db)(t := tab db t @ [inserted conv dflt t fs i]))"
    using InsertCtx_ok(4) [OF assms(1-3)] InsertCtx_err [OF assms(1-3)] assms(6) by (cases res) (auto simp: applied_def)
  then show ?thesis using foreign_append_owned [OF o] tombs_kept_append wf' by (blast intro: applied_fair)
qed

end

context mysql
begin

lemma upsert_fair:
  assumes w: "wf db" and p: "parse sql = Some (SInsert t cols ucols)" "ucols \<noteq> []" "length vals = length cols"
      "length uvals = length ucols"
    and a: "coltype_of t ''account_id'' = Some CTText" "map_of (zip cols vals) ''account_id'' = Some (VStr acc)"
      "''account_id'' \<notin> set ucols" "\<forall>ks \<in> set (uniq_of t). ''account_id'' \<in> set ks"
      "coltype_of t ''deleted_at'' \<noteq> Some CTInt"
    and e: "ExecContext exec db sql (vals @ uvals) = (res, db')"
  shows "fair acc db (isl res) db'"
proof -
  let ?r = "\<lambda>i. inserted conv dflt t (zip cols vals) i"
  let ?T = "\<lambda>i. if conflicts le (uniq_of t) (tab db t) (?r i)
     then (tab db)(t := map (\<lambda>r. if \<exists>ks \<in> set (uniq_of t). same_key le ks r (?r i)
                                 then updated conv t (zip ucols uvals) r else r) (tab db t))
     else (tab db)(t := tab db t @ [?r i])"
  have wf': "wf db'" using wf_step [OF w e] .
  have fit: "args_fit (SInsert t cols ucols) (vals @ uvals)" using p by (simp add: args_fit_def)
  have "\<exists>i. applied lost tab res db db' (?T i)"
  proof (cases res)
    case (Inl x)
    from exec_lost [OF w p(1) fit e [unfolded Inl]] show ?thesis
    proof (elim disjE conjE exE)
      fix i n assume l: "lost db db'" "stmt_effect le conv dflt (SInsert t cols ucols) (vals @ uvals) i n (tab db) (tab db')"
      have "tab db' = ?T i" using insert_upsert_effect [OF p(3,4,2) l(2)] by (simp split: if_splits)
      then show ?thesis using l(1) Inl by (intro exI [of _ i]) (simp add: applied_def)
    qed (simp add: applied_def Inl)
  next
    case (Inr y)
    obtain i n where y: "y = (i, n)" by fastforce
    show ?thesis using exec_upsert [OF w p, of i n db'] e Inr y by (intro exI [of _ i]) (auto split: if_splits)
  qed
  then obtain i where i: "applied lost tab res db db' (?T i)" by blast
  have ra: "?r i ''account_id'' = VStr acc" using a(1,2) by (simp add: inserted_def conv_text)
  have o: "owned le acc (?r i)" using ra by (simp add: owned_def le_refl)
  have k: "owned le acc r" if h: "\<exists>ks \<in> set (uniq_of t). same_key le ks r (?r i)" for r
  proof -
    obtain ks where "ks \<in> set (uniq_of t)" "same_key le ks r (?r i)" using h by blast
    then have "le (r ''account_id'') (?r i ''account_id'') \<and> le (?r i ''account_id'') (r ''account_id'')"
      using a(4) by (simp add: same_key_def)
    then show ?thesis unfolding ra owned_def .
  qed
  have u: "''account_id'' \<notin> fst ` set (zip ucols uvals)" using a(3) by (auto dest: set_zip_leftD)
  have "foreign le acc (?T i) = foreign le acc (tab db)"
    using foreign_append_owned [OF o] foreign_update [of "tab db" t "\<lambda>r. \<exists>ks \<in> set (uniq_of t). same_key le ks r (?r i)" le acc, OF k u]
    by simp
  moreover have "tombs_kept (tab db) (?T i)" using tombs_kept_other [OF a(5)] by simp
  ultimately show ?thesis using applied_fair [where ok = wf and le = le and acc = acc, OF i] wf' by blast
qed

end

section \<open>Rows as the code reads them\<close>

definition val_int :: "sqlval \<Rightarrow> int" where
  "val_int v = (case v of VInt i \<Rightarrow> i | _ \<Rightarrow> 0)"

definition val_str :: "sqlval \<Rightarrow> string" where
  "val_str v = (case scan_str v of Inr s \<Rightarrow> s | Inl _ \<Rightarrow> [])"

definition val_cents :: "sqlval \<Rightarrow> int" where
  "val_cents v = (case v of VDec c \<Rightarrow> c | _ \<Rightarrow> 0)"

lemma val_simps [simp]: "val_int (VInt i) = i" "val_str (VStr s) = s" "val_cents (VDec c) = c"
  by (simp_all add: val_int_def val_str_def val_cents_def)

lemma scan_typed:
  "has_type CTInt v \<Longrightarrow> scan_int v = Inr (val_int v)"
  "has_type CTText v \<Longrightarrow> scan_str v = Inr (val_str v)"
  "has_type CTInt v \<Longrightarrow> scan_str v = Inr (val_str v)"
  "has_type CTDate v \<Longrightarrow> scan_str v = Inr (val_str v)"
  "has_type CTDec v \<Longrightarrow> scan_f64 v = Inr (scan_decimal (val_cents v))"
  "has_type CTDec v \<Longrightarrow> to_cents (scan_decimal (val_cents v)) = val_cents v"
  by (auto simp: has_type_int has_type_text has_type_date has_type_dec val_str_def scan_str_def)

lemma rows_scan_ok:
  "(\<And>r. r \<in> set rs \<Longrightarrow> f (g r) = Inr (h r)) \<Longrightarrow> rows_scan f (map g rs) = Inr (map h rs)"
  by (induction rs) auto

text \<open>Scan errors are never the sentinels \<open>sql.ErrNoRows\<close> and \<open>model.ErrNotFound\<close>.\<close>

definition plain_err :: "goerr + 'a \<Rightarrow> bool" where
  "plain_err r = (r \<noteq> Inl ErrNoRows \<and> r \<noteq> Inl ErrNotFound)"

lemma plain_err_bind: "plain_err r \<Longrightarrow> (\<And>x. plain_err (f x)) \<Longrightarrow> plain_err (bind_res r f)"
  by (cases r) (auto simp: plain_err_def)

lemma plain_err_basic [simp]:
  "plain_err (Inr x)" "plain_err (Inl scan_error)" "plain_err (scan_int v)" "plain_err (scan_str v)"
  "plain_err (scan_f64 v)" "plain_err (scan_bool v)"
  by (auto simp: plain_err_def scan_int_def scan_str_def scan_f64_def scan_bool_def scan_error_def split: sqlval.splits option.splits)

lemmas plain_err_intros = plain_err_bind plain_err_basic

lemma list_all_ident_col_ok: "list_all ident cols \<Longrightarrow> list_all col_ok cols"
  by (auto simp: list_all_iff ident_col_ok)

lemma query_fineI:
  assumes "word_ok (q_table h)" "q_columns h \<noteq> []" "list_all ident (q_columns h)"
    and "list_all simple_cond (q_conditions h)" "q_groupby h = []" "q_orderby h = map order_SQL os"
    and "list_all simple_order os"
  shows "query_fine h os"
  using assms list_all_ident_col_ok by (simp add: query_fine_def)

lemmas name_defs = ident_def word_ok_def

text \<open>One proof for every table: the by-id functions of the model layer, built on the query builder,
  fulfil the entity interface.\<close>

context mysql
begin

lemma entity_by_id:
  assumes t: "by_id_table t" and fine: "\<And>rid. query_fine (by_id_query t cols rid) []" and cols: "cols \<noteq> [''COUNT(*)'']"
    and acct: "\<forall>r x. typed_row t r \<longrightarrow> f (proj cols r) = Inr x \<longrightarrow> acct x = val_str (r ''account_id'')"
    and plain: "\<And>vs. plain_err (f vs)"
  shows "entity wf tab le conv lost t (\<lambda>db rid. no_rows (QueryOneCtx exec db (by_id_query t cols rid) (row_scan f)))
    (\<lambda>db rid fs. UpdateCtx exec db t fs (by_id rid)) (\<lambda>db rid n. UpdateCtx exec db t (soft_delete n) (by_id rid))
    (\<lambda>r. f (proj cols r)) acct"
proof (unfold_locales, goal_cases)
  case (1 db rid x)
  then show ?case using select_by_id [OF 1(1) t fine cols, of rid f x] by auto
next
  case (2 db rid r)
  show ?case using select_by_id_none [OF 2(1) t fine cols 2(2) _ 2(3)] plain by (simp add: plain_err_def)
next
  case (3 db fs rid res db')
  then show ?case using update_by_id [OF 3(1) t 3(2,3)] by simp
next
  case (4 db rid n res db')
  then show ?case using delete_by_id [OF 4(1) t 4(2)] by simp
next
  case (5 db)
  then show ?case by (rule wf_keys)
next
  case (6 db r x)
  have "coltype_of t ''account_id'' = Some CTText" using t by (simp add: by_id_table_def)
  from typed_col [OF wf_typed [OF 6(1,2)] this] acct wf_typed [OF 6(1,2)] 6(3)
  show ?case by (auto simp: has_type_text)
next
  case (7 n)
  show ?case using t by (intro conv_int) (simp add: by_id_table_def)
next
  case (8 s)
  show ?case by (simp add: le_refl)
qed

end

section \<open>By account\<close>

definition by_account :: "string \<Rightarrow> condition list" where
  "by_account acc = [WithEq ''account_id'' (VStr acc), WithEq ''deleted_at'' (VInt 0)]"

lemma by_account_simple: "list_all simple_cond (by_account acc)"
  by (simp add: by_account_def WithEq_def name_defs)

end
