(* ===== verification/CashFlow.thy ===== *)
theory CashFlow
  imports Entity
begin

text \<open>
  Categories and transactions of \<open>personal-core\<close>: the model layer
  (\<open>pkg/model/category.go\<close>, \<open>pkg/model/transaction.go\<close>) and the gRPC service
  (\<open>pkg/service/cash_flow.go\<close>). A handler takes the connection, the database, the account of the
  request context (as \<open>lib/auth/context.go\<close> returns it), the time and the request, and returns the
  status or the response with the new database state.
\<close>

section \<open>model/category.go\<close>

record Category =
  cat_ID :: int
  cat_AccountID :: string
  cat_Name :: string
  cat_Type :: int
  cat_SortOrder :: int
  cat_Date :: string
  cat_DeletedAt :: int
  cat_CreatedAt :: int
  cat_UpdatedAt :: int

definition TableNameCategories :: string where "TableNameCategories = ''categories''"

definition CategoryColumnsWithID :: "string list" where
  "CategoryColumnsWithID =
     [''id'', ''account_id'', ''name'', ''type'', ''sort_order'', ''date'', ''deleted_at'', ''created_at'', ''updated_at'']"

definition scanCategory :: "sqlval list \<Rightarrow> goerr + Category" where
  "scanCategory vs =
     (case vs of
        [v1, v2, v3, v4, v5, v6, v7, v8, v9] \<Rightarrow>
          bind_res (scan_int v1) (\<lambda>i. bind_res (scan_str v2) (\<lambda>a. bind_res (scan_str v3) (\<lambda>n.
          bind_res (scan_int v4) (\<lambda>ty. bind_res (scan_int v5) (\<lambda>so. bind_res (scan_str v6) (\<lambda>d.
          bind_res (scan_int v7) (\<lambda>del. bind_res (scan_int v8) (\<lambda>cr. bind_res (scan_int v9) (\<lambda>up.
            Inr \<lparr>cat_ID = i, cat_AccountID = a, cat_Name = n, cat_Type = ty, cat_SortOrder = so,
                 cat_Date = d, cat_DeletedAt = del, cat_CreatedAt = cr, cat_UpdatedAt = up\<rparr>)))))))))
      | _ \<Rightarrow> Inl scan_error)"

definition scanCategories :: "sqlval list list \<Rightarrow> goerr + Category list" where
  "scanCategories rows = rows_scan scanCategory rows"

definition category_fields :: "Category \<Rightarrow> (string \<times> sqlval) list" where
  "category_fields c =
     [(''account_id'', VStr (cat_AccountID c)), (''name'', VStr (cat_Name c)), (''type'', VInt (cat_Type c)),
      (''sort_order'', VInt (cat_SortOrder c)), (''date'', VStr (cat_Date c)), (''deleted_at'', VInt (cat_DeletedAt c)),
      (''created_at'', VInt (cat_CreatedAt c)), (''updated_at'', VInt (cat_UpdatedAt c))]"

definition InsertCategory :: "'db Exec \<Rightarrow> 'db \<Rightarrow> Category \<Rightarrow> (goerr + int) \<times> 'db" where
  "InsertCategory exec db c = InsertCtx exec db TableNameCategories (category_fields c)"

definition SelectCategoriesByAccountID :: "'db Exec \<Rightarrow> 'db \<Rightarrow> string \<Rightarrow> goerr + Category list" where
  "SelectCategoriesByAccountID exec db accountID =
     QueryCtx exec db
       (query_OrderBy [ASC ''sort_order'']
        (query_Where [WithEq ''account_id'' (VStr accountID), WithEq ''deleted_at'' (VInt 0)]
         (query_Table TableNameCategories (query_Columns CategoryColumnsWithID NewQuery))))
       scanCategories"

definition SelectCategoriesByAccountIDAndDate ::
  "'db Exec \<Rightarrow> 'db \<Rightarrow> string \<Rightarrow> string \<Rightarrow> goerr + Category list" where
  "SelectCategoriesByAccountIDAndDate exec db accountID date =
     QueryCtx exec db
       (query_OrderBy [ASC ''sort_order'']
        (query_Where [WithEq ''account_id'' (VStr accountID), WithEq ''date'' (VStr date), WithEq ''deleted_at'' (VInt 0)]
         (query_Table TableNameCategories (query_Columns CategoryColumnsWithID NewQuery))))
       scanCategories"

definition SelectCategoryByID :: "'db Exec \<Rightarrow> 'db \<Rightarrow> int \<Rightarrow> goerr + Category" where
  "SelectCategoryByID exec db rid =
     no_rows (QueryOneCtx exec db
       (query_Where [WithEq ''id'' (VInt rid), WithEq ''deleted_at'' (VInt 0)]
        (query_Table TableNameCategories (query_Columns CategoryColumnsWithID NewQuery)))
       (row_scan scanCategory))"

definition UpdateCategoryByID ::
  "'db Exec \<Rightarrow> 'db \<Rightarrow> int \<Rightarrow> (string \<times> sqlval) list \<Rightarrow> (goerr + int) \<times> 'db" where
  "UpdateCategoryByID exec db rid updates =
     UpdateCtx exec db TableNameCategories updates [WithEq ''id'' (VInt rid), WithEq ''deleted_at'' (VInt 0)]"

definition SoftDeleteCategoryByID :: "'db Exec \<Rightarrow> 'db \<Rightarrow> int \<Rightarrow> int \<Rightarrow> (goerr + int) \<times> 'db" where
  "SoftDeleteCategoryByID exec db rid deletedAt =
     UpdateCtx exec db TableNameCategories [(''deleted_at'', VInt deletedAt), (''updated_at'', VInt deletedAt)]
       [WithEq ''id'' (VInt rid), WithEq ''deleted_at'' (VInt 0)]"

section \<open>model/transaction.go\<close>

record Transaction =
  tx_ID :: int
  tx_AccountID :: string
  tx_CategoryID :: int
  tx_Type :: int
  tx_Name :: string
  tx_Amount :: int
  tx_Date :: string
  tx_Note :: string
  tx_SortOrder :: int
  tx_DeletedAt :: int
  tx_CreatedAt :: int
  tx_UpdatedAt :: int

record TransactionFilter =
  tf_AccountID :: string
  tf_Year :: int
  tf_Month :: int
  tf_CategoryID :: int
  tf_Page :: int
  tf_PageSize :: int

definition TableNameTransactions :: string where "TableNameTransactions = ''transactions''"

definition TransactionColumnsWithID :: "string list" where
  "TransactionColumnsWithID =
     [''id'', ''account_id'', ''category_id'', ''type'', ''name'', ''amount'', ''date'', ''note'', ''sort_order'',
      ''deleted_at'', ''created_at'', ''updated_at'']"

definition scanTransaction :: "sqlval list \<Rightarrow> goerr + Transaction" where
  "scanTransaction vs =
     (case vs of
        [v1, v2, v3, v4, v5, v6, v7, v8, v9, v10, v11, v12] \<Rightarrow>
          bind_res (scan_int v1) (\<lambda>i. bind_res (scan_str v2) (\<lambda>a. bind_res (scan_int v3) (\<lambda>ca.
          bind_res (scan_int v4) (\<lambda>ty. bind_res (scan_str v5) (\<lambda>n. bind_res (scan_f64 v6) (\<lambda>amountDec.
          bind_res (scan_str v7) (\<lambda>d. bind_res (scan_str v8) (\<lambda>no. bind_res (scan_int v9) (\<lambda>so.
          bind_res (scan_int v10) (\<lambda>del. bind_res (scan_int v11) (\<lambda>cr. bind_res (scan_int v12) (\<lambda>up.
            Inr \<lparr>tx_ID = i, tx_AccountID = a, tx_CategoryID = ca, tx_Type = ty, tx_Name = n,
                 tx_Amount = to_cents amountDec, tx_Date = d, tx_Note = no, tx_SortOrder = so,
                 tx_DeletedAt = del, tx_CreatedAt = cr, tx_UpdatedAt = up\<rparr>))))))))))))
      | _ \<Rightarrow> Inl scan_error)"

definition scanTransactions :: "sqlval list list \<Rightarrow> goerr + Transaction list" where
  "scanTransactions rows = rows_scan scanTransaction rows"

definition transaction_fields :: "Transaction \<Rightarrow> (string \<times> sqlval) list" where
  "transaction_fields t =
     [(''account_id'', VStr (tx_AccountID t)), (''category_id'', VInt (tx_CategoryID t)), (''type'', VInt (tx_Type t)),
      (''name'', VStr (tx_Name t)), (''amount'', VFloat (to_yuan (tx_Amount t))), (''date'', VStr (tx_Date t)),
      (''note'', VStr (tx_Note t)), (''sort_order'', VInt (tx_SortOrder t)), (''deleted_at'', VInt (tx_DeletedAt t)),
      (''created_at'', VInt (tx_CreatedAt t)), (''updated_at'', VInt (tx_UpdatedAt t))]"

definition InsertTransaction :: "'db Exec \<Rightarrow> 'db \<Rightarrow> Transaction \<Rightarrow> (goerr + int) \<times> 'db" where
  "InsertTransaction exec db t = InsertCtx exec db TableNameTransactions (transaction_fields t)"

text \<open>\<open>fmt.Sprintf("%04d-%02d-01", year, month)\<close> and
  \<open>time.Date(year, month+1, 0, ...).Format("2006-01-02")\<close>: \<open>time.Date\<close> normalizes the month into
  the year and day 0 into the last day of the month before.\<close>

definition firstDay :: "int \<Rightarrow> int \<Rightarrow> string" where
  "firstDay year month = pad0 4 year @ ''-'' @ pad0 2 month @ ''-01''"

definition lastDay :: "int \<Rightarrow> int \<Rightarrow> string" where
  "lastDay year month =
     (let y = year + month div 12; m = month mod 12 in
      if m = 0 then date_text (y - 1) 12 (days_in (y - 1) 12) else date_text y m (days_in y m))"

definition buildTransactionFilter :: "TransactionFilter \<Rightarrow> condition list" where
  "buildTransactionFilter flt =
     [WithEq ''account_id'' (VStr (tf_AccountID flt)), WithEq ''deleted_at'' (VInt 0)] @
     (if tf_Year flt > 0 \<and> tf_Month flt > 0
      then [WithBetweenAnd ''date'' (VStr (firstDay (tf_Year flt) (tf_Month flt)))
              (VStr (lastDay (tf_Year flt) (tf_Month flt)))]
      else []) @
     (if tf_CategoryID flt > 0 then [WithEq ''category_id'' (VInt (tf_CategoryID flt))] else [])"

definition scan_one_int :: "sqlval list \<Rightarrow> goerr + int" where
  "scan_one_int vs = (case vs of [v] \<Rightarrow> scan_int v | _ \<Rightarrow> Inl scan_error)"

definition SelectTransactions ::
  "'db Exec \<Rightarrow> 'db \<Rightarrow> TransactionFilter \<Rightarrow> goerr + Transaction list \<times> int" where
  "SelectTransactions exec db flt =
     (let conds = buildTransactionFilter flt in
      case QueryOneCtx exec db
             (query_Where conds (query_Table TableNameTransactions (query_Columns [''COUNT(*)''] NewQuery)))
             (row_scan scan_one_int) of
        Inl e \<Rightarrow> Inl e
      | Inr tot \<Rightarrow>
          (let q = query_OrderBy [ASC ''sort_order'', DESC ''date'', DESC ''id'']
                     (query_Where conds (query_Table TableNameTransactions (query_Columns TransactionColumnsWithID NewQuery)));
               q = (if tf_PageSize flt > 0
                    then let offset = (tf_Page flt - 1) * tf_PageSize flt in
                         query_Limit (if offset < 0 then 0 else offset) (tf_PageSize flt) q
                    else q)
           in case QueryCtx exec db q scanTransactions of
                Inl e \<Rightarrow> Inl e
              | Inr list \<Rightarrow> Inr (list, tot)))"

definition SelectTransactionByID :: "'db Exec \<Rightarrow> 'db \<Rightarrow> int \<Rightarrow> goerr + Transaction" where
  "SelectTransactionByID exec db rid =
     no_rows (QueryOneCtx exec db
       (query_Where [WithEq ''id'' (VInt rid), WithEq ''deleted_at'' (VInt 0)]
        (query_Table TableNameTransactions (query_Columns TransactionColumnsWithID NewQuery)))
       (row_scan scanTransaction))"

definition UpdateTransactionByID ::
  "'db Exec \<Rightarrow> 'db \<Rightarrow> int \<Rightarrow> (string \<times> sqlval) list \<Rightarrow> (goerr + int) \<times> 'db" where
  "UpdateTransactionByID exec db rid updates =
     UpdateCtx exec db TableNameTransactions updates [WithEq ''id'' (VInt rid), WithEq ''deleted_at'' (VInt 0)]"

definition SoftDeleteTransactionByID :: "'db Exec \<Rightarrow> 'db \<Rightarrow> int \<Rightarrow> int \<Rightarrow> (goerr + int) \<times> 'db" where
  "SoftDeleteTransactionByID exec db rid deletedAt =
     UpdateCtx exec db TableNameTransactions [(''deleted_at'', VInt deletedAt), (''updated_at'', VInt deletedAt)]
       [WithEq ''id'' (VInt rid), WithEq ''deleted_at'' (VInt 0)]"

definition SoftDeleteTransactionsByCategoryID ::
  "'db Exec \<Rightarrow> 'db \<Rightarrow> string \<Rightarrow> int \<Rightarrow> int \<Rightarrow> (goerr + int) \<times> 'db" where
  "SoftDeleteTransactionsByCategoryID exec db accountID categoryID deletedAt =
     UpdateCtx exec db TableNameTransactions [(''deleted_at'', VInt deletedAt), (''updated_at'', VInt deletedAt)]
       [WithEq ''account_id'' (VStr accountID), WithEq ''category_id'' (VInt categoryID), WithEq ''deleted_at'' (VInt 0)]"

section \<open>service/cash\_flow.go\<close>

text \<open>Messages of \<open>adapter/pb\<close>; \<open>CashFlowType\<close> is an open enum (an \<open>int32\<close>).\<close>

definition INCOME :: int where "INCOME = 1"

definition EXPENSE :: int where "EXPENSE = 2"

record PbCategory =
  pc_Id :: int
  pc_AccountId :: string
  pc_Name :: string
  pc_Type :: int
  pc_SortOrder :: int
  pc_Date :: string
  pc_CreatedAt :: int
  pc_UpdatedAt :: int

record PbTransaction =
  pt_Id :: int
  pt_AccountId :: string
  pt_CategoryId :: int
  pt_Type :: int
  pt_Name :: string
  pt_Amount :: int
  pt_Date :: string
  pt_Note :: string
  pt_SortOrder :: int
  pt_CreatedAt :: int
  pt_UpdatedAt :: int

record CategoryRequest =
  rc_Id :: int
  rc_Name :: string
  rc_Type :: int
  rc_SortOrder :: int
  rc_Date :: string

record TransactionRequest =
  rt_Id :: int
  rt_CategoryId :: int
  rt_Type :: int
  rt_Name :: string
  rt_Amount :: int
  rt_Date :: string
  rt_Note :: string
  rt_SortOrder :: int

record ListTransactionsRequest =
  lt_Year :: int
  lt_Month :: int
  lt_CategoryId :: int
  lt_Page :: int
  lt_PageSize :: int

definition category_to_pb :: "Category \<Rightarrow> PbCategory" where
  "category_to_pb c =
     \<lparr>pc_Id = cat_ID c, pc_AccountId = cat_AccountID c, pc_Name = cat_Name c, pc_Type = int32_conv (cat_Type c),
      pc_SortOrder = int32_conv (cat_SortOrder c), pc_Date = cat_Date c, pc_CreatedAt = cat_CreatedAt c,
      pc_UpdatedAt = cat_UpdatedAt c\<rparr>"

definition transaction_to_pb :: "Transaction \<Rightarrow> PbTransaction" where
  "transaction_to_pb t =
     \<lparr>pt_Id = tx_ID t, pt_AccountId = tx_AccountID t, pt_CategoryId = tx_CategoryID t,
      pt_Type = int32_conv (tx_Type t), pt_Name = tx_Name t, pt_Amount = tx_Amount t, pt_Date = tx_Date t,
      pt_Note = tx_Note t, pt_SortOrder = int32_conv (tx_SortOrder t), pt_CreatedAt = tx_CreatedAt t,
      pt_UpdatedAt = tx_UpdatedAt t\<rparr>"

definition ListCategories ::
  "'db Exec \<Rightarrow> 'db \<Rightarrow> string option \<Rightarrow> int \<Rightarrow> int \<Rightarrow> status + PbCategory list" where
  "ListCategories exec db ctx year month =
     (case accountIDFromCtx ctx of
        Inl st \<Rightarrow> Inl st
      | Inr accountID \<Rightarrow>
          (case (if year > 0 \<and> month > 0
                 then SelectCategoriesByAccountIDAndDate exec db accountID (pad0 4 year @ ''-'' @ pad0 2 month)
                 else SelectCategoriesByAccountID exec db accountID) of
             Inl e \<Rightarrow> Inl internal_error
           | Inr cats \<Rightarrow> Inr (map category_to_pb cats)))"

definition CreateCategory ::
  "'db Exec \<Rightarrow> 'db \<Rightarrow> string option \<Rightarrow> int \<Rightarrow> CategoryRequest \<Rightarrow> (status + PbCategory) \<times> 'db" where
  "CreateCategory exec db ctx n req =
     (case accountIDFromCtx ctx of
        Inl st \<Rightarrow> (Inl st, db)
      | Inr accountID \<Rightarrow>
          (if rc_Name req = [] then (Inl (Status InvalidArgument ''name is required''), db)
           else if length (rc_Name req) > 64 then (Inl (Status InvalidArgument ''name too long''), db)
           else if rc_Type req \<noteq> INCOME \<and> rc_Type req \<noteq> EXPENSE
             then (Inl (Status InvalidArgument ''invalid type''), db)
           else if rc_Date req = [] then (Inl (Status InvalidArgument ''date is required''), db)
           else
             (let c = \<lparr>cat_ID = 0, cat_AccountID = accountID, cat_Name = rc_Name req, cat_Type = rc_Type req,
                       cat_SortOrder = rc_SortOrder req, cat_Date = rc_Date req, cat_DeletedAt = 0,
                       cat_CreatedAt = n, cat_UpdatedAt = n\<rparr>
              in case InsertCategory exec db c of
                   (Inl e, db') \<Rightarrow> (Inl internal_error, db')
                 | (Inr i, db') \<Rightarrow> (Inr (category_to_pb (c\<lparr>cat_ID := i\<rparr>)), db'))))"

definition category_updates :: "CategoryRequest \<Rightarrow> int \<Rightarrow> (string \<times> sqlval) list" where
  "category_updates req n =
     [(''name'', VStr (rc_Name req)), (''type'', VInt (rc_Type req)), (''sort_order'', VInt (rc_SortOrder req)),
      (''updated_at'', VInt n)] @
     (if rc_Date req \<noteq> [] then [(''date'', VStr (rc_Date req))] else [])"

definition UpdateCategory ::
  "'db Exec \<Rightarrow> 'db \<Rightarrow> string option \<Rightarrow> int \<Rightarrow> CategoryRequest \<Rightarrow> (status + PbCategory) \<times> 'db" where
  "UpdateCategory exec db ctx n req =
     (case accountIDFromCtx ctx of
        Inl st \<Rightarrow> (Inl st, db)
      | Inr accountID \<Rightarrow>
          (if rc_Id req = 0 then (Inl (Status InvalidArgument ''id is required''), db)
           else if rc_Name req = [] then (Inl (Status InvalidArgument ''name is required''), db)
           else if length (rc_Name req) > 64 then (Inl (Status InvalidArgument ''name too long''), db)
           else if rc_Type req \<noteq> INCOME \<and> rc_Type req \<noteq> EXPENSE
             then (Inl (Status InvalidArgument ''invalid type''), db)
           else case SelectCategoryByID exec db (rc_Id req) of
             Inl e \<Rightarrow> (Inl (if e = ErrNotFound then Status NotFound ''category not found'' else internal_error), db)
           | Inr existing \<Rightarrow>
               (if cat_AccountID existing \<noteq> accountID then (Inl (Status NotFound ''category not found''), db)
                else case UpdateCategoryByID exec db (rc_Id req) (category_updates req n) of
                  (Inl e, db') \<Rightarrow> (Inl internal_error, db')
                | (Inr k, db') \<Rightarrow>
                    (Inr (category_to_pb (existing\<lparr>cat_Name := rc_Name req, cat_Type := rc_Type req,
                            cat_SortOrder := rc_SortOrder req, cat_UpdatedAt := n,
                            cat_Date := (if rc_Date req \<noteq> [] then rc_Date req else cat_Date existing)\<rparr>)), db'))))"

definition DeleteCategory ::
  "'db Exec \<Rightarrow> 'db \<Rightarrow> string option \<Rightarrow> int \<Rightarrow> int \<Rightarrow> (status + unit) \<times> 'db" where
  "DeleteCategory exec db ctx n rid =
     (case accountIDFromCtx ctx of
        Inl st \<Rightarrow> (Inl st, db)
      | Inr accountID \<Rightarrow>
          (case SelectCategoryByID exec db rid of
             Inl e \<Rightarrow> ((if e = ErrNotFound then Inr () else Inl internal_error), db)
           | Inr existing \<Rightarrow>
               (if cat_AccountID existing \<noteq> accountID then (Inr (), db)
                else case SoftDeleteCategoryByID exec db rid n of
                  (Inl e, db1) \<Rightarrow> (Inl internal_error, db1)
                | (Inr k, db1) \<Rightarrow>
                    (case SoftDeleteTransactionsByCategoryID exec db1 accountID rid n of
                       (_, db2) \<Rightarrow> (Inr (), db2)))))"

definition list_filter :: "string \<Rightarrow> ListTransactionsRequest \<Rightarrow> TransactionFilter" where
  "list_filter accountID req =
     \<lparr>tf_AccountID = accountID, tf_Year = lt_Year req, tf_Month = lt_Month req, tf_CategoryID = lt_CategoryId req,
      tf_Page = (if lt_Page req < 1 then 1 else lt_Page req),
      tf_PageSize = (if lt_PageSize req < 1 then 0 else lt_PageSize req)\<rparr>"

definition ListTransactions ::
  "'db Exec \<Rightarrow> 'db \<Rightarrow> string option \<Rightarrow> ListTransactionsRequest \<Rightarrow> status + PbTransaction list \<times> int" where
  "ListTransactions exec db ctx req =
     (case accountIDFromCtx ctx of
        Inl st \<Rightarrow> Inl st
      | Inr accountID \<Rightarrow>
          (case SelectTransactions exec db (list_filter accountID req) of
             Inl e \<Rightarrow> Inl internal_error
           | Inr (list, tot) \<Rightarrow> Inr (map transaction_to_pb list, int32_conv tot)))"

definition CreateTransaction ::
  "'db Exec \<Rightarrow> 'db \<Rightarrow> string option \<Rightarrow> int \<Rightarrow> TransactionRequest \<Rightarrow> (status + PbTransaction) \<times> 'db" where
  "CreateTransaction exec db ctx n req =
     (case accountIDFromCtx ctx of
        Inl st \<Rightarrow> (Inl st, db)
      | Inr accountID \<Rightarrow>
          (if rt_Name req = [] then (Inl (Status InvalidArgument ''name is required''), db)
           else if length (rt_Name req) > 128 then (Inl (Status InvalidArgument ''name too long''), db)
           else if length (rt_Note req) > 256 then (Inl (Status InvalidArgument ''note too long''), db)
           else if rt_Amount req \<le> 0 then (Inl (Status InvalidArgument ''amount must be positive''), db)
           else if rt_Date req = [] then (Inl (Status InvalidArgument ''date is required''), db)
           else if rt_Type req \<noteq> INCOME \<and> rt_Type req \<noteq> EXPENSE
             then (Inl (Status InvalidArgument ''invalid type''), db)
           else
             (let t = \<lparr>tx_ID = 0, tx_AccountID = accountID, tx_CategoryID = rt_CategoryId req, tx_Type = rt_Type req,
                       tx_Name = rt_Name req, tx_Amount = rt_Amount req, tx_Date = rt_Date req,
                       tx_Note = rt_Note req, tx_SortOrder = rt_SortOrder req, tx_DeletedAt = 0,
                       tx_CreatedAt = n, tx_UpdatedAt = n\<rparr>
              in case InsertTransaction exec db t of
                   (Inl e, db') \<Rightarrow> (Inl internal_error, db')
                 | (Inr i, db') \<Rightarrow> (Inr (transaction_to_pb (t\<lparr>tx_ID := i\<rparr>)), db'))))"

definition transaction_updates :: "TransactionRequest \<Rightarrow> int \<Rightarrow> (string \<times> sqlval) list" where
  "transaction_updates req n =
     [(''category_id'', VInt (rt_CategoryId req)), (''type'', VInt (rt_Type req)), (''name'', VStr (rt_Name req)),
      (''amount'', VFloat (to_yuan (rt_Amount req))), (''date'', VStr (rt_Date req)), (''note'', VStr (rt_Note req)),
      (''sort_order'', VInt (rt_SortOrder req)), (''updated_at'', VInt n)]"

definition UpdateTransaction ::
  "'db Exec \<Rightarrow> 'db \<Rightarrow> string option \<Rightarrow> int \<Rightarrow> TransactionRequest \<Rightarrow> (status + PbTransaction) \<times> 'db" where
  "UpdateTransaction exec db ctx n req =
     (case accountIDFromCtx ctx of
        Inl st \<Rightarrow> (Inl st, db)
      | Inr accountID \<Rightarrow>
          (if rt_Id req = 0 then (Inl (Status InvalidArgument ''id is required''), db)
           else if rt_Name req = [] then (Inl (Status InvalidArgument ''name is required''), db)
           else if length (rt_Name req) > 128 then (Inl (Status InvalidArgument ''name too long''), db)
           else if length (rt_Note req) > 256 then (Inl (Status InvalidArgument ''note too long''), db)
           else if rt_Amount req \<le> 0 then (Inl (Status InvalidArgument ''amount must be positive''), db)
           else if rt_Type req \<noteq> INCOME \<and> rt_Type req \<noteq> EXPENSE
             then (Inl (Status InvalidArgument ''invalid type''), db)
           else case SelectTransactionByID exec db (rt_Id req) of
             Inl e \<Rightarrow> (Inl (if e = ErrNotFound then Status NotFound ''transaction not found'' else internal_error), db)
           | Inr existing \<Rightarrow>
               (if tx_AccountID existing \<noteq> accountID then (Inl (Status NotFound ''transaction not found''), db)
                else case UpdateTransactionByID exec db (rt_Id req) (transaction_updates req n) of
                  (Inl e, db') \<Rightarrow> (Inl internal_error, db')
                | (Inr k, db') \<Rightarrow>
                    (Inr \<lparr>pt_Id = tx_ID existing, pt_AccountId = tx_AccountID existing,
                          pt_CategoryId = rt_CategoryId req, pt_Type = int32_conv (tx_Type existing),
                          pt_Name = rt_Name req, pt_Amount = rt_Amount req, pt_Date = rt_Date req,
                          pt_Note = rt_Note req, pt_SortOrder = int32_conv (rt_SortOrder req),
                          pt_CreatedAt = tx_CreatedAt existing, pt_UpdatedAt = n\<rparr>, db'))))"

definition DeleteTransaction ::
  "'db Exec \<Rightarrow> 'db \<Rightarrow> string option \<Rightarrow> int \<Rightarrow> int \<Rightarrow> (status + unit) \<times> 'db" where
  "DeleteTransaction exec db ctx n rid =
     (case accountIDFromCtx ctx of
        Inl st \<Rightarrow> (Inl st, db)
      | Inr accountID \<Rightarrow>
          (case SelectTransactionByID exec db rid of
             Inl e \<Rightarrow> ((if e = ErrNotFound then Inr () else Inl internal_error), db)
           | Inr existing \<Rightarrow>
               (if tx_AccountID existing \<noteq> accountID then (Inr (), db)
                else case SoftDeleteTransactionByID exec db rid n of
                  (Inl e, db') \<Rightarrow> (Inl internal_error, db')
                | (Inr k, db') \<Rightarrow> (Inr (), db'))))"

section \<open>The model layer fulfils the entity interface\<close>

definition category_of :: "row \<Rightarrow> Category" where
  "category_of r =
     \<lparr>cat_ID = val_int (r ''id''), cat_AccountID = val_str (r ''account_id''), cat_Name = val_str (r ''name''),
      cat_Type = val_int (r ''type''), cat_SortOrder = val_int (r ''sort_order''), cat_Date = val_str (r ''date''),
      cat_DeletedAt = val_int (r ''deleted_at''), cat_CreatedAt = val_int (r ''created_at''),
      cat_UpdatedAt = val_int (r ''updated_at'')\<rparr>"

definition transaction_of :: "row \<Rightarrow> Transaction" where
  "transaction_of r =
     \<lparr>tx_ID = val_int (r ''id''), tx_AccountID = val_str (r ''account_id''), tx_CategoryID = val_int (r ''category_id''),
      tx_Type = val_int (r ''type''), tx_Name = val_str (r ''name''), tx_Amount = val_cents (r ''amount''),
      tx_Date = val_str (r ''date''), tx_Note = val_str (r ''note''), tx_SortOrder = val_int (r ''sort_order''),
      tx_DeletedAt = val_int (r ''deleted_at''), tx_CreatedAt = val_int (r ''created_at''),
      tx_UpdatedAt = val_int (r ''updated_at'')\<rparr>"

lemma category_columns: "CategoryColumnsWithID \<noteq> []" "CategoryColumnsWithID \<noteq> [''COUNT(*)'']"
  "list_all ident CategoryColumnsWithID"
  by (simp_all add: CategoryColumnsWithID_def name_defs)

lemma transaction_columns: "TransactionColumnsWithID \<noteq> []" "TransactionColumnsWithID \<noteq> [''COUNT(*)'']"
  "list_all ident TransactionColumnsWithID"
  by (simp_all add: TransactionColumnsWithID_def name_defs)

lemma category_schema: "map_of schema TableNameCategories =
  Some [(''id'', CTInt), (''account_id'', CTText), (''name'', CTText), (''type'', CTInt),
        (''sort_order'', CTInt), (''date'', CTText), (''deleted_at'', CTInt), (''created_at'', CTInt),
        (''updated_at'', CTInt)]"
  by (simp add: schema_def TableNameCategories_def)

lemma transaction_schema: "map_of schema TableNameTransactions =
  Some [(''id'', CTInt), (''account_id'', CTText), (''category_id'', CTInt), (''type'', CTInt),
        (''name'', CTText), (''amount'', CTDec), (''date'', CTDate), (''note'', CTText), (''sort_order'', CTInt),
        (''deleted_at'', CTInt), (''created_at'', CTInt), (''updated_at'', CTInt)]"
  by (simp add: schema_def TableNameTransactions_def)

lemma by_id_categories: "by_id_table TableNameCategories"
  by (simp add: by_id_table_def coltype_of_def category_schema) (simp add: TableNameCategories_def word_ok_def)

lemma by_id_transactions: "by_id_table TableNameTransactions"
  by (simp add: by_id_table_def coltype_of_def transaction_schema) (simp add: TableNameTransactions_def word_ok_def)

lemma scanCategory_typed:
  "typed_row TableNameCategories r \<Longrightarrow> scanCategory (proj CategoryColumnsWithID r) = Inr (category_of r)"
  by (simp add: typed_row_def category_schema CategoryColumnsWithID_def proj_def scanCategory_def scan_typed category_of_def)

lemma scanTransaction_typed:
  "typed_row TableNameTransactions r \<Longrightarrow> scanTransaction (proj TransactionColumnsWithID r) = Inr (transaction_of r)"
  by (simp add: typed_row_def transaction_schema TransactionColumnsWithID_def proj_def scanTransaction_def scan_typed
      transaction_of_def)

lemma scanCategory_plain: "plain_err (scanCategory vs)"
  unfolding scanCategory_def by (auto intro!: plain_err_intros split: list.split)

lemma scanTransaction_plain: "plain_err (scanTransaction vs)"
  unfolding scanTransaction_def by (auto intro!: plain_err_intros split: list.split)

lemma category_by_id_fine: "query_fine (by_id_query TableNameCategories CategoryColumnsWithID rid) []"
  using category_columns by_id_simple
  by (intro query_fineI) (simp_all add: by_id_query_def query_defs by_id_table_def TableNameCategories_def word_ok_def)

lemma transaction_by_id_fine: "query_fine (by_id_query TableNameTransactions TransactionColumnsWithID rid) []"
  using transaction_columns by_id_simple
  by (intro query_fineI) (simp_all add: by_id_query_def query_defs by_id_table_def TableNameTransactions_def word_ok_def)

lemmas category_model_defs = SelectCategoryByID_def UpdateCategoryByID_def SoftDeleteCategoryByID_def

lemmas transaction_model_defs = SelectTransactionByID_def UpdateTransactionByID_def SoftDeleteTransactionByID_def

lemma category_account:
  "\<forall>r x. typed_row TableNameCategories r \<longrightarrow> scanCategory (proj CategoryColumnsWithID r) = Inr x \<longrightarrow>
   cat_AccountID x = val_str (r ''account_id'')"
  by (auto simp: scanCategory_typed category_of_def)

lemma transaction_account:
  "\<forall>r x. typed_row TableNameTransactions r \<longrightarrow> scanTransaction (proj TransactionColumnsWithID r) = Inr x \<longrightarrow>
   tx_AccountID x = val_str (r ''account_id'')"
  by (auto simp: scanTransaction_typed transaction_of_def)

sublocale mysql \<subseteq> cat: entity wf tab le conv lost TableNameCategories "SelectCategoryByID exec"
  "UpdateCategoryByID exec" "SoftDeleteCategoryByID exec" "\<lambda>r. scanCategory (proj CategoryColumnsWithID r)" cat_AccountID
  using entity_by_id [where f = scanCategory and acct = cat_AccountID,
      OF by_id_categories category_by_id_fine category_columns(2) category_account scanCategory_plain]
  by (simp add: by_id_query_def by_id_def soft_delete_def category_model_defs [abs_def])

sublocale mysql \<subseteq> tx: entity wf tab le conv lost TableNameTransactions "SelectTransactionByID exec"
  "UpdateTransactionByID exec" "SoftDeleteTransactionByID exec" "\<lambda>r. scanTransaction (proj TransactionColumnsWithID r)" tx_AccountID
  using entity_by_id [where f = scanTransaction and acct = tx_AccountID,
      OF by_id_transactions transaction_by_id_fine transaction_columns(2) transaction_account scanTransaction_plain]
  by (simp add: by_id_query_def by_id_def soft_delete_def transaction_model_defs [abs_def])

section \<open>The handlers respect accounts and errors\<close>

lemma category_fields_fine: "fields_fine (category_fields c)"
  by (simp add: category_fields_def fields_fine_def name_defs)

lemma category_updates_fine: "fields_fine (category_updates req n)" "''account_id'' \<notin> fst ` set (category_updates req n)"
  "''id'' \<notin> fst ` set (category_updates req n)" "''deleted_at'' \<notin> fst ` set (category_updates req n)"
  by (cases "rc_Date req = []"; simp add: category_updates_def fields_fine_def name_defs)+

lemma transaction_fields_fine: "fields_fine (transaction_fields t)"
  by (simp add: transaction_fields_def fields_fine_def name_defs)

lemma transaction_updates_fine:
  "fields_fine (transaction_updates req n)" "''account_id'' \<notin> fst ` set (transaction_updates req n)"
  "''id'' \<notin> fst ` set (transaction_updates req n)" "''deleted_at'' \<notin> fst ` set (transaction_updates req n)"
  by (simp_all add: transaction_updates_def fields_fine_def name_defs)

lemma category_table: "word_ok TableNameCategories" "coltype_of TableNameCategories ''account_id'' = Some CTText"
  using by_id_categories by (simp_all add: by_id_table_def)

lemma transaction_table: "word_ok TableNameTransactions" "coltype_of TableNameTransactions ''account_id'' = Some CTText"
  using by_id_transactions by (simp_all add: by_id_table_def)

lemma category_conds_simple:
  "list_all simple_cond [WithEq ''account_id'' (VStr a), WithEq ''category_id'' (VInt i), WithEq ''deleted_at'' (VInt 0)]"
  by (simp add: WithEq_def name_defs)

context mysql
begin

lemma InsertCategory_fair:
  assumes "wf db" "InsertCategory exec db c = (res, db')"
  shows "fair (cat_AccountID c) db (isl res) db'"
  using insert_fair [OF assms(1) category_table(1) category_fields_fine category_table(2), of c] assms(2)
  by (simp add: InsertCategory_def category_fields_def)

lemma InsertTransaction_fair:
  assumes "wf db" "InsertTransaction exec db t = (res, db')"
  shows "fair (tx_AccountID t) db (isl res) db'"
  using insert_fair [OF assms(1) transaction_table(1) transaction_fields_fine transaction_table(2), of t] assms(2)
  by (simp add: InsertTransaction_def transaction_fields_def)

lemma CreateCategory_fair:
  assumes "wf db" "CreateCategory exec db (Some acc) n req = (res, db')"
  shows "fair acc db (isl res) db'"
  using assms(2) InsertCategory_fair [OF assms(1)] assms(1)
  by (fastforce simp: CreateCategory_def Let_def accountIDFromCtx_def split: if_splits prod.splits sum.splits)

lemma CreateTransaction_fair:
  assumes "wf db" "CreateTransaction exec db (Some acc) n req = (res, db')"
  shows "fair acc db (isl res) db'"
  using assms(2) InsertTransaction_fair [OF assms(1)] assms(1)
  by (fastforce simp: CreateTransaction_def Let_def accountIDFromCtx_def split: if_splits prod.splits sum.splits)

lemma UpdateCategory_fair:
  assumes "wf db" "UpdateCategory exec db (Some acc) n req = (res, db')"
  shows "fair acc db (isl res) db'"
  using assms(2) cat.update_fair [OF assms(1) _ category_updates_fine(1,2)] assms(1)
  by (fastforce simp: UpdateCategory_def accountIDFromCtx_def split: if_splits prod.splits sum.splits)

lemma UpdateTransaction_fair:
  assumes "wf db" "UpdateTransaction exec db (Some acc) n req = (res, db')"
  shows "fair acc db (isl res) db'"
  using assms(2) tx.update_fair [OF assms(1) _ transaction_updates_fine(1,2)] assms(1)
  by (fastforce simp: UpdateTransaction_def accountIDFromCtx_def split: if_splits prod.splits sum.splits)

lemma DeleteTransaction_fair:
  assumes "wf db" "DeleteTransaction exec db (Some acc) n rid = (res, db')"
  shows "fair acc db (isl res) db'"
  using assms(2) tx.delete_fair [OF assms(1)] assms(1)
  by (fastforce simp: DeleteTransaction_def accountIDFromCtx_def split: if_splits prod.splits sum.splits)

text \<open>The cascade of \<open>DeleteCategory\<close>: the transactions it touches all belong to the account.\<close>

lemma cascade_fair:
  assumes "wf db" "SoftDeleteTransactionsByCategoryID exec db acc cid n = (res, db')"
  shows "fair acc db (isl res) db'"
proof -
  let ?cs = "[WithEq ''account_id'' (VStr acc), WithEq ''category_id'' (VInt cid), WithEq ''deleted_at'' (VInt 0)]"
  have u: "UpdateCtx exec db TableNameTransactions (soft_delete n) ?cs = (res, db')"
    using assms(2) by (simp add: SoftDeleteTransactionsByCategoryID_def soft_delete_def)
  have "wf db'" using wf_UpdateCtx [OF assms(1), of TableNameTransactions "soft_delete n" ?cs] u by simp
  moreover have "r ''deleted_at'' = VInt 0" if r: "r \<in> set (tab db TableNameTransactions)" "list_all (cond_holds le r) ?cs" for r
  proof -
    obtain d where "r ''deleted_at'' = VInt d"
      using typed_col [OF wf_typed [OF assms(1) r(1)], of "''deleted_at''" CTInt] by_id_transactions
      by (auto simp: by_id_table_def has_type_int)
    then show ?thesis using r(2) int_eq by (simp add: WithEq_def)
  qed
  ultimately show ?thesis
    by (intro applied_fair [OF UpdateCtx_applied [OF assms(1) transaction_table(1) soft_delete_fine category_conds_simple u]]
          foreign_update tombs_kept_update) (simp_all add: WithEq_def owned_def soft_delete_def)
qed

lemma DeleteCategory_fair:
  assumes "wf db" "DeleteCategory exec db (Some acc) n rid = (res, db')"
  shows "fair acc db (isl res) db'"
proof (cases "SelectCategoryByID exec db rid")
  case (Inl e)
  then show ?thesis using assms by (auto simp: DeleteCategory_def accountIDFromCtx_def split: if_splits)
next
  case (Inr c)
  obtain r1 db1 where d1: "SoftDeleteCategoryByID exec db rid n = (r1, db1)" by fastforce
  obtain r2 db2 where d2: "SoftDeleteTransactionsByCategoryID exec db1 acc rid n = (r2, db2)" by fastforce
  have f1: "fair (cat_AccountID c) db (isl r1) db1" using cat.delete_fair [OF assms(1) Inr d1] .
  then have f2: "fair acc db1 (isl r2) db2" using cascade_fair [OF _ d2] by (simp add: fair_step_def)
  show ?thesis using assms Inr d1 d2 f1 f2
    by (cases r1) (auto simp: DeleteCategory_def accountIDFromCtx_def fair_step_def split: if_splits intro: tombs_kept_trans)
qed

end

end
