(* ===== verification/BalanceSheet.thy ===== *)
theory BalanceSheet
  imports Entity
begin

text \<open>
  The balance sheet of \<open>personal-core\<close>: \<open>pkg/model/balance_sheet.go\<close> and
  \<open>pkg/service/balance_sheet.go\<close>. An item's section follows from its category
  (\<open>categoryToSection\<close>); the monthly summaries are one aggregate query whose result the code
  truncates to the last months.
\<close>

section \<open>model/balance\_sheet.go\<close>

record BalanceSheetItem =
  bsi_ID :: int
  bsi_AccountID :: string
  bsi_Section :: int
  bsi_Category :: string
  bsi_Name :: string
  bsi_Amount :: int
  bsi_Note :: string
  bsi_Date :: string
  bsi_SortOrder :: int
  bsi_DeletedAt :: int
  bsi_CreatedAt :: int
  bsi_UpdatedAt :: int

definition TableNameBalanceSheetItems :: string where "TableNameBalanceSheetItems = ''balance_sheet_items''"

definition BalanceSheetItemColumnsWithID :: "string list" where
  "BalanceSheetItemColumnsWithID =
     [''id'', ''account_id'', ''section'', ''category'', ''name'', ''amount'', ''note'', ''date'', ''sort_order'',
      ''deleted_at'', ''created_at'', ''updated_at'']"

definition scanBSItem :: "sqlval list \<Rightarrow> goerr + BalanceSheetItem" where
  "scanBSItem vs =
     (case vs of
        [v1, v2, v3, v4, v5, v6, v7, v8, v9, v10, v11, v12] \<Rightarrow>
          bind_res (scan_int v1) (\<lambda>i. bind_res (scan_str v2) (\<lambda>a. bind_res (scan_int v3) (\<lambda>sec.
          bind_res (scan_str v4) (\<lambda>ca. bind_res (scan_str v5) (\<lambda>n. bind_res (scan_f64 v6) (\<lambda>amountDec.
          bind_res (scan_str v7) (\<lambda>no. bind_res (scan_str v8) (\<lambda>d. bind_res (scan_int v9) (\<lambda>so.
          bind_res (scan_int v10) (\<lambda>del. bind_res (scan_int v11) (\<lambda>cr. bind_res (scan_int v12) (\<lambda>up.
            Inr \<lparr>bsi_ID = i, bsi_AccountID = a, bsi_Section = sec, bsi_Category = ca, bsi_Name = n,
                 bsi_Amount = to_cents amountDec, bsi_Note = no, bsi_Date = d, bsi_SortOrder = so,
                 bsi_DeletedAt = del, bsi_CreatedAt = cr, bsi_UpdatedAt = up\<rparr>))))))))))))
      | _ \<Rightarrow> Inl scan_error)"

definition scanBSItems :: "sqlval list list \<Rightarrow> goerr + BalanceSheetItem list" where
  "scanBSItems rows = rows_scan scanBSItem rows"

definition bsi_fields :: "BalanceSheetItem \<Rightarrow> (string \<times> sqlval) list" where
  "bsi_fields item =
     [(''account_id'', VStr (bsi_AccountID item)), (''section'', VInt (bsi_Section item)),
      (''category'', VStr (bsi_Category item)), (''name'', VStr (bsi_Name item)),
      (''amount'', VFloat (to_yuan (bsi_Amount item))), (''note'', VStr (bsi_Note item)),
      (''date'', VStr (bsi_Date item)), (''sort_order'', VInt (bsi_SortOrder item)),
      (''deleted_at'', VInt (bsi_DeletedAt item)), (''created_at'', VInt (bsi_CreatedAt item)),
      (''updated_at'', VInt (bsi_UpdatedAt item))]"

definition InsertBalanceSheetItem :: "'db Exec \<Rightarrow> 'db \<Rightarrow> BalanceSheetItem \<Rightarrow> (goerr + int) \<times> 'db" where
  "InsertBalanceSheetItem exec db item = InsertCtx exec db TableNameBalanceSheetItems (bsi_fields item)"

definition SelectBalanceSheetItems ::
  "'db Exec \<Rightarrow> 'db \<Rightarrow> string \<Rightarrow> int \<Rightarrow> int \<Rightarrow> goerr + BalanceSheetItem list" where
  "SelectBalanceSheetItems exec db accountID year month =
     QueryCtx exec db
       (query_OrderBy [ASC ''section'', ASC ''sort_order'']
        (query_Where
          ([WithEq ''account_id'' (VStr accountID), WithEq ''deleted_at'' (VInt 0)] @
           (if year > 0 \<and> month > 0 then [WithEq ''date'' (VStr (pad0 4 year @ ''-'' @ pad0 2 month))] else []))
         (query_Table TableNameBalanceSheetItems (query_Columns BalanceSheetItemColumnsWithID NewQuery))))
       scanBSItems"

definition SelectBalanceSheetItemByID :: "'db Exec \<Rightarrow> 'db \<Rightarrow> int \<Rightarrow> goerr + BalanceSheetItem" where
  "SelectBalanceSheetItemByID exec db rid =
     no_rows (QueryOneCtx exec db
       (query_Where [WithEq ''id'' (VInt rid), WithEq ''deleted_at'' (VInt 0)]
        (query_Table TableNameBalanceSheetItems (query_Columns BalanceSheetItemColumnsWithID NewQuery)))
       (row_scan scanBSItem))"

record MonthlySummary =
  ms_Date :: string
  ms_TotalAssets :: int
  ms_TotalLiabilities :: int
  ms_TotalEquity :: int

definition scanMonthlySummary :: "sqlval list \<Rightarrow> goerr + MonthlySummary" where
  "scanMonthlySummary vs =
     (case vs of
        [v1, v2, v3, v4] \<Rightarrow>
          bind_res (scan_str v1) (\<lambda>d. bind_res (scan_int v2) (\<lambda>a. bind_res (scan_int v3) (\<lambda>l.
          bind_res (scan_int v4) (\<lambda>e.
            Inr \<lparr>ms_Date = d, ms_TotalAssets = a, ms_TotalLiabilities = l, ms_TotalEquity = e\<rparr>))))
      | _ \<Rightarrow> Inl scan_error)"

definition newline_indent :: string where "newline_indent = [CHR 0x0A, CHR 0x09, CHR 0x09]"

definition monthly_query :: string where
  "monthly_query =
     Join [''SELECT date,'',
       ''ROUND(SUM(CASE WHEN section = 1 THEN amount ELSE 0 END) * 100) AS total_assets,'',
       ''ROUND(SUM(CASE WHEN section = 2 THEN amount ELSE 0 END) * 100) AS total_liabilities,'',
       ''ROUND(SUM(CASE WHEN section = 3 THEN amount ELSE 0 END) * 100) AS total_equity'',
       ''FROM '' @ TableNameBalanceSheetItems,
       ''WHERE account_id = ? AND deleted_at = 0'',
       ''GROUP BY date'',
       ''ORDER BY date ASC''] newline_indent"

definition last_months :: "int \<Rightarrow> 'a list \<Rightarrow> 'a list" where
  "last_months months list =
     (if months > 0 \<and> int (length list) > months then drop (length list - nat months) list else list)"

definition SelectBalanceSheetMonthlySummaries ::
  "'db Exec \<Rightarrow> 'db \<Rightarrow> string \<Rightarrow> int \<Rightarrow> goerr + MonthlySummary list" where
  "SelectBalanceSheetMonthlySummaries exec db accountID months =
     (case ExecQueryMany exec db monthly_query [VStr accountID] (rows_scan scanMonthlySummary) of
        Inl e \<Rightarrow> Inl e
      | Inr list \<Rightarrow> Inr (last_months months list))"

definition UpdateBalanceSheetItemByID ::
  "'db Exec \<Rightarrow> 'db \<Rightarrow> int \<Rightarrow> (string \<times> sqlval) list \<Rightarrow> (goerr + int) \<times> 'db" where
  "UpdateBalanceSheetItemByID exec db rid updates =
     UpdateCtx exec db TableNameBalanceSheetItems updates [WithEq ''id'' (VInt rid), WithEq ''deleted_at'' (VInt 0)]"

definition SoftDeleteBalanceSheetItemByID :: "'db Exec \<Rightarrow> 'db \<Rightarrow> int \<Rightarrow> int \<Rightarrow> (goerr + int) \<times> 'db" where
  "SoftDeleteBalanceSheetItemByID exec db rid deletedAt =
     UpdateCtx exec db TableNameBalanceSheetItems [(''deleted_at'', VInt deletedAt), (''updated_at'', VInt deletedAt)]
       [WithEq ''id'' (VInt rid), WithEq ''deleted_at'' (VInt 0)]"

section \<open>service/balance\_sheet.go\<close>

text \<open>\<open>BalanceSheetSection\<close>: unspecified 0, asset 1, liability 2, equity 3. The category names are
  the UTF-8 bytes of the source's literals (current assets, fixed assets, current liabilities,
  non-current liabilities, equity).\<close>

definition CurrentAssets :: string where
  "CurrentAssets = utf8 [230, 181, 129, 229, 138, 168, 232, 181, 132, 228, 186, 167]"

definition FixedAssets :: string where
  "FixedAssets = utf8 [229, 155, 186, 229, 174, 154, 232, 181, 132, 228, 186, 167]"

definition CurrentLiabilities :: string where
  "CurrentLiabilities = utf8 [230, 181, 129, 229, 138, 168, 232, 180, 159, 229, 128, 186]"

definition NonCurrentLiabilities :: string where
  "NonCurrentLiabilities = utf8 [233, 157, 158, 230, 181, 129, 229, 138, 168, 232, 180, 159, 229, 128, 186]"

definition Equity :: string where
  "Equity = utf8 [230, 157, 131, 231, 155, 138]"

definition categoryToSection :: "string \<Rightarrow> status + int" where
  "categoryToSection category =
     (if category = CurrentAssets \<or> category = FixedAssets then Inr 1
      else if category = CurrentLiabilities \<or> category = NonCurrentLiabilities then Inr 2
      else if category = Equity then Inr 3
      else Inl (Status InvalidArgument ''invalid category''))"

record PbItem =
  pi_Id :: int
  pi_AccountId :: string
  pi_Section :: int
  pi_Category :: string
  pi_Name :: string
  pi_Amount :: int
  pi_Note :: string
  pi_Date :: string
  pi_SortOrder :: int
  pi_CreatedAt :: int
  pi_UpdatedAt :: int

record ItemRequest =
  ri_Id :: int
  ri_Category :: string
  ri_Name :: string
  ri_Amount :: int
  ri_Note :: string
  ri_Date :: string
  ri_SortOrder :: int

definition item_to_pb :: "BalanceSheetItem \<Rightarrow> PbItem" where
  "item_to_pb item =
     \<lparr>pi_Id = bsi_ID item, pi_AccountId = bsi_AccountID item, pi_Section = int32_conv (bsi_Section item),
      pi_Category = bsi_Category item, pi_Name = bsi_Name item, pi_Amount = bsi_Amount item,
      pi_Note = bsi_Note item, pi_Date = bsi_Date item, pi_SortOrder = int32_conv (bsi_SortOrder item),
      pi_CreatedAt = bsi_CreatedAt item, pi_UpdatedAt = bsi_UpdatedAt item\<rparr>"

definition ListItems ::
  "'db Exec \<Rightarrow> 'db \<Rightarrow> string option \<Rightarrow> int \<Rightarrow> int \<Rightarrow> status + PbItem list" where
  "ListItems exec db ctx year month =
     (case accountIDFromCtx ctx of
        Inl st \<Rightarrow> Inl st
      | Inr accountID \<Rightarrow>
          (case SelectBalanceSheetItems exec db accountID year month of
             Inl e \<Rightarrow> Inl internal_error
           | Inr list \<Rightarrow> Inr (map item_to_pb list)))"

definition CreateItem ::
  "'db Exec \<Rightarrow> 'db \<Rightarrow> string option \<Rightarrow> int \<Rightarrow> ItemRequest \<Rightarrow> (status + PbItem) \<times> 'db" where
  "CreateItem exec db ctx n req =
     (case accountIDFromCtx ctx of
        Inl st \<Rightarrow> (Inl st, db)
      | Inr accountID \<Rightarrow>
          (if ri_Name req = [] then (Inl (Status InvalidArgument ''name is required''), db)
           else if length (ri_Name req) > 128 then (Inl (Status InvalidArgument ''name too long''), db)
           else if length (ri_Note req) > 256 then (Inl (Status InvalidArgument ''note too long''), db)
           else if ri_Amount req \<le> 0 then (Inl (Status InvalidArgument ''amount must be positive''), db)
           else if ri_Date req = [] then (Inl (Status InvalidArgument ''date is required''), db)
           else case categoryToSection (ri_Category req) of
             Inl st \<Rightarrow> (Inl st, db)
           | Inr section \<Rightarrow>
             (let item = \<lparr>bsi_ID = 0, bsi_AccountID = accountID, bsi_Section = section,
                          bsi_Category = ri_Category req, bsi_Name = ri_Name req, bsi_Amount = ri_Amount req,
                          bsi_Note = ri_Note req, bsi_Date = ri_Date req, bsi_SortOrder = ri_SortOrder req,
                          bsi_DeletedAt = 0, bsi_CreatedAt = n, bsi_UpdatedAt = n\<rparr>
              in case InsertBalanceSheetItem exec db item of
                   (Inl e, db') \<Rightarrow> (Inl internal_error, db')
                 | (Inr i, db') \<Rightarrow> (Inr (item_to_pb (item\<lparr>bsi_ID := i\<rparr>)), db'))))"

definition item_updates :: "ItemRequest \<Rightarrow> int \<Rightarrow> int \<Rightarrow> (string \<times> sqlval) list" where
  "item_updates req section n =
     [(''section'', VInt section), (''category'', VStr (ri_Category req)), (''name'', VStr (ri_Name req)),
      (''amount'', VFloat (to_yuan (ri_Amount req))), (''note'', VStr (ri_Note req)), (''date'', VStr (ri_Date req)),
      (''sort_order'', VInt (ri_SortOrder req)), (''updated_at'', VInt n)]"

definition UpdateItem ::
  "'db Exec \<Rightarrow> 'db \<Rightarrow> string option \<Rightarrow> int \<Rightarrow> ItemRequest \<Rightarrow> (status + PbItem) \<times> 'db" where
  "UpdateItem exec db ctx n req =
     (case accountIDFromCtx ctx of
        Inl st \<Rightarrow> (Inl st, db)
      | Inr accountID \<Rightarrow>
          (if ri_Id req = 0 then (Inl (Status InvalidArgument ''id is required''), db)
           else if ri_Name req = [] then (Inl (Status InvalidArgument ''name is required''), db)
           else if length (ri_Name req) > 128 then (Inl (Status InvalidArgument ''name too long''), db)
           else if length (ri_Note req) > 256 then (Inl (Status InvalidArgument ''note too long''), db)
           else if ri_Amount req \<le> 0 then (Inl (Status InvalidArgument ''amount must be positive''), db)
           else case SelectBalanceSheetItemByID exec db (ri_Id req) of
             Inl e \<Rightarrow> (Inl (if e = ErrNotFound then Status NotFound ''item not found'' else internal_error), db)
           | Inr existing \<Rightarrow>
               (if bsi_AccountID existing \<noteq> accountID then (Inl (Status NotFound ''item not found''), db)
                else case categoryToSection (ri_Category req) of
                  Inl st \<Rightarrow> (Inl st, db)
                | Inr section \<Rightarrow>
                  (case UpdateBalanceSheetItemByID exec db (ri_Id req) (item_updates req section n) of
                     (Inl e, db') \<Rightarrow> (Inl internal_error, db')
                   | (Inr k, db') \<Rightarrow>
                      (Inr \<lparr>pi_Id = bsi_ID existing, pi_AccountId = bsi_AccountID existing, pi_Section = section,
                            pi_Category = ri_Category req, pi_Name = ri_Name req, pi_Amount = ri_Amount req,
                            pi_Note = ri_Note req, pi_Date = ri_Date req,
                            pi_SortOrder = int32_conv (ri_SortOrder req),
                            pi_CreatedAt = bsi_CreatedAt existing, pi_UpdatedAt = n\<rparr>, db')))))"

definition ListMonthlySummaries ::
  "'db Exec \<Rightarrow> 'db \<Rightarrow> string option \<Rightarrow> int \<Rightarrow> status + MonthlySummary list" where
  "ListMonthlySummaries exec db ctx months =
     (case accountIDFromCtx ctx of
        Inl st \<Rightarrow> Inl st
      | Inr accountID \<Rightarrow>
          (case SelectBalanceSheetMonthlySummaries exec db accountID months of
             Inl e \<Rightarrow> Inl internal_error
           | Inr list \<Rightarrow> Inr list))"

definition DeleteItem ::
  "'db Exec \<Rightarrow> 'db \<Rightarrow> string option \<Rightarrow> int \<Rightarrow> int \<Rightarrow> (status + unit) \<times> 'db" where
  "DeleteItem exec db ctx n rid =
     (case accountIDFromCtx ctx of
        Inl st \<Rightarrow> (Inl st, db)
      | Inr accountID \<Rightarrow>
          (case SelectBalanceSheetItemByID exec db rid of
             Inl e \<Rightarrow> ((if e = ErrNotFound then Inr () else Inl internal_error), db)
           | Inr existing \<Rightarrow>
               (if bsi_AccountID existing \<noteq> accountID then (Inr (), db)
                else case SoftDeleteBalanceSheetItemByID exec db rid n of
                  (Inl e, db') \<Rightarrow> (Inl internal_error, db')
                | (Inr k, db') \<Rightarrow> (Inr (), db'))))"

section \<open>The model layer fulfils the entity interface\<close>

definition item_of :: "row \<Rightarrow> BalanceSheetItem" where
  "item_of r =
     \<lparr>bsi_ID = val_int (r ''id''), bsi_AccountID = val_str (r ''account_id''), bsi_Section = val_int (r ''section''),
      bsi_Category = val_str (r ''category''), bsi_Name = val_str (r ''name''), bsi_Amount = val_cents (r ''amount''),
      bsi_Note = val_str (r ''note''), bsi_Date = val_str (r ''date''), bsi_SortOrder = val_int (r ''sort_order''),
      bsi_DeletedAt = val_int (r ''deleted_at''), bsi_CreatedAt = val_int (r ''created_at''),
      bsi_UpdatedAt = val_int (r ''updated_at'')\<rparr>"

lemma item_columns: "BalanceSheetItemColumnsWithID \<noteq> []" "BalanceSheetItemColumnsWithID \<noteq> [''COUNT(*)'']"
  "list_all ident BalanceSheetItemColumnsWithID"
  by (simp_all add: BalanceSheetItemColumnsWithID_def name_defs)

lemma item_schema: "map_of schema TableNameBalanceSheetItems =
  Some [(''id'', CTInt), (''account_id'', CTText), (''section'', CTInt),
        (''category'', CTText), (''name'', CTText), (''amount'', CTDec), (''note'', CTText), (''date'', CTText),
        (''sort_order'', CTInt), (''deleted_at'', CTInt), (''created_at'', CTInt), (''updated_at'', CTInt)]"
  by (simp add: schema_def TableNameBalanceSheetItems_def)

lemma by_id_items: "by_id_table TableNameBalanceSheetItems"
  by (simp add: by_id_table_def coltype_of_def item_schema) (simp add: TableNameBalanceSheetItems_def word_ok_def)

lemma item_table: "word_ok TableNameBalanceSheetItems" "coltype_of TableNameBalanceSheetItems ''account_id'' = Some CTText"
  using by_id_items by (simp_all add: by_id_table_def)

lemma scanBSItem_typed:
  "typed_row TableNameBalanceSheetItems r \<Longrightarrow> scanBSItem (proj BalanceSheetItemColumnsWithID r) = Inr (item_of r)"
  by (simp add: typed_row_def item_schema BalanceSheetItemColumnsWithID_def proj_def scanBSItem_def scan_typed item_of_def)

lemma scanBSItem_plain: "plain_err (scanBSItem vs)"
  unfolding scanBSItem_def by (auto intro!: plain_err_intros split: list.split)

lemma item_by_id_fine: "query_fine (by_id_query TableNameBalanceSheetItems BalanceSheetItemColumnsWithID rid) []"
  using item_columns by_id_simple item_table(1) by (intro query_fineI) (simp_all add: by_id_query_def query_defs)

lemma item_account:
  "\<forall>r x. typed_row TableNameBalanceSheetItems r \<longrightarrow> scanBSItem (proj BalanceSheetItemColumnsWithID r) = Inr x \<longrightarrow>
   bsi_AccountID x = val_str (r ''account_id'')"
  by (auto simp: scanBSItem_typed item_of_def)

lemmas item_model_defs =
  SelectBalanceSheetItemByID_def UpdateBalanceSheetItemByID_def SoftDeleteBalanceSheetItemByID_def

sublocale mysql \<subseteq> bsi: entity wf tab le conv lost TableNameBalanceSheetItems "SelectBalanceSheetItemByID exec"
  "UpdateBalanceSheetItemByID exec" "SoftDeleteBalanceSheetItemByID exec" "\<lambda>r. scanBSItem (proj BalanceSheetItemColumnsWithID r)" bsi_AccountID
  using entity_by_id [where f = scanBSItem and acct = bsi_AccountID,
      OF by_id_items item_by_id_fine item_columns(2) item_account scanBSItem_plain]
  by (simp add: by_id_query_def by_id_def soft_delete_def item_model_defs [abs_def])

section \<open>The handlers respect accounts and errors\<close>

lemma bsi_fields_fine: "fields_fine (bsi_fields item)"
  by (simp add: bsi_fields_def fields_fine_def name_defs)

lemma item_updates_fine: "fields_fine (item_updates req sec n)" "''account_id'' \<notin> fst ` set (item_updates req sec n)"
  "''id'' \<notin> fst ` set (item_updates req sec n)" "''deleted_at'' \<notin> fst ` set (item_updates req sec n)"
  by (simp_all add: item_updates_def fields_fine_def name_defs)

context mysql
begin

lemma InsertBalanceSheetItem_fair:
  assumes "wf db" "InsertBalanceSheetItem exec db item = (res, db')"
  shows "fair (bsi_AccountID item) db (isl res) db'"
  using insert_fair [OF assms(1) item_table(1) bsi_fields_fine item_table(2), of item] assms(2)
  by (simp add: InsertBalanceSheetItem_def bsi_fields_def)

lemma CreateItem_fair:
  assumes "wf db" "CreateItem exec db (Some acc) n req = (res, db')"
  shows "fair acc db (isl res) db'"
  using assms(2) InsertBalanceSheetItem_fair [OF assms(1)] assms(1)
  by (fastforce simp: CreateItem_def Let_def accountIDFromCtx_def split: if_splits prod.splits sum.splits)

lemma UpdateItem_fair:
  assumes "wf db" "UpdateItem exec db (Some acc) n req = (res, db')"
  shows "fair acc db (isl res) db'"
  using assms(2) bsi.update_fair [OF assms(1) _ item_updates_fine(1,2)] assms(1)
  by (fastforce simp: UpdateItem_def accountIDFromCtx_def split: if_splits prod.splits sum.splits)

lemma DeleteItem_fair:
  assumes "wf db" "DeleteItem exec db (Some acc) n rid = (res, db')"
  shows "fair acc db (isl res) db'"
  using assms(2) bsi.delete_fair [OF assms(1)] assms(1)
  by (fastforce simp: DeleteItem_def accountIDFromCtx_def split: if_splits prod.splits sum.splits)

end

end
