(* ===== verification/Portfolio.thy ===== *)
theory Portfolio
  imports Entity
begin

text \<open>
  The portfolio of \<open>personal-core\<close>: positions, trades, value snapshots and the account's capital
  (\<open>pkg/model/portfolio_position.go\<close>, \<open>portfolio_trade.go\<close>, \<open>portfolio_snapshot.go\<close>,
  \<open>portfolio_config.go\<close>) and the service \<open>pkg/service/portfolio.go\<close>.
\<close>

section \<open>model/portfolio\_position.go\<close>

record Position =
  pos_ID :: int
  pos_AccountID :: string
  pos_Code :: string
  pos_Name :: string
  pos_Type :: int
  pos_Direction :: string
  pos_InitialQty :: int
  pos_CurrentPrice :: int
  pos_MarginRatio :: int
  pos_SortOrder :: int
  pos_Archived :: bool
  pos_ClosedPnl :: int
  pos_DeletedAt :: int
  pos_CreatedAt :: int
  pos_UpdatedAt :: int

definition TableNamePositions :: string where "TableNamePositions = ''positions''"

definition PositionColumnsWithID :: "string list" where
  "PositionColumnsWithID =
     [''id'', ''account_id'', ''code'', ''name'', ''type'', ''direction'', ''initial_qty'', ''current_price'',
      ''margin_ratio'', ''sort_order'', ''archived'', ''closed_pnl'', ''deleted_at'', ''created_at'', ''updated_at'']"

definition scanPosition :: "sqlval list \<Rightarrow> goerr + Position" where
  "scanPosition vs =
     (case vs of
        [v1, v2, v3, v4, v5, v6, v7, v8, v9, v10, v11, v12, v13, v14, v15] \<Rightarrow>
          bind_res (scan_int v1) (\<lambda>i. bind_res (scan_str v2) (\<lambda>a. bind_res (scan_str v3) (\<lambda>co.
          bind_res (scan_str v4) (\<lambda>n. bind_res (scan_int v5) (\<lambda>ty. bind_res (scan_str v6) (\<lambda>dir.
          bind_res (scan_int v7) (\<lambda>q. bind_res (scan_f64 v8) (\<lambda>currentPriceDec. bind_res (scan_int v9) (\<lambda>mr.
          bind_res (scan_int v10) (\<lambda>so. bind_res (scan_bool v11) (\<lambda>ar. bind_res (scan_f64 v12) (\<lambda>closedPnlDec.
          bind_res (scan_int v13) (\<lambda>del. bind_res (scan_int v14) (\<lambda>cr. bind_res (scan_int v15) (\<lambda>up.
            Inr \<lparr>pos_ID = i, pos_AccountID = a, pos_Code = co, pos_Name = n, pos_Type = ty, pos_Direction = dir,
                 pos_InitialQty = q, pos_CurrentPrice = to_cents currentPriceDec, pos_MarginRatio = mr,
                 pos_SortOrder = so, pos_Archived = ar, pos_ClosedPnl = to_cents closedPnlDec,
                 pos_DeletedAt = del, pos_CreatedAt = cr, pos_UpdatedAt = up\<rparr>)))))))))))))))
      | _ \<Rightarrow> Inl scan_error)"

definition scanPositions :: "sqlval list list \<Rightarrow> goerr + Position list" where
  "scanPositions rows = rows_scan scanPosition rows"

definition position_fields :: "Position \<Rightarrow> (string \<times> sqlval) list" where
  "position_fields p =
     [(''account_id'', VStr (pos_AccountID p)), (''code'', VStr (pos_Code p)), (''name'', VStr (pos_Name p)),
      (''type'', VInt (pos_Type p)), (''direction'', VStr (pos_Direction p)), (''initial_qty'', VInt (pos_InitialQty p)),
      (''current_price'', VFloat (to_yuan (pos_CurrentPrice p))), (''margin_ratio'', VInt (pos_MarginRatio p)),
      (''sort_order'', VInt (pos_SortOrder p)), (''archived'', VBool (pos_Archived p)),
      (''closed_pnl'', VFloat (to_yuan (pos_ClosedPnl p))), (''deleted_at'', VInt (pos_DeletedAt p)),
      (''created_at'', VInt (pos_CreatedAt p)), (''updated_at'', VInt (pos_UpdatedAt p))]"

definition InsertPosition :: "'db Exec \<Rightarrow> 'db \<Rightarrow> Position \<Rightarrow> (goerr + int) \<times> 'db" where
  "InsertPosition exec db p = InsertCtx exec db TableNamePositions (position_fields p)"

definition SelectPositionsByAccountID :: "'db Exec \<Rightarrow> 'db \<Rightarrow> string \<Rightarrow> goerr + Position list" where
  "SelectPositionsByAccountID exec db accountID =
     QueryCtx exec db
       (query_OrderBy [ASC ''sort_order'']
        (query_Where [WithEq ''account_id'' (VStr accountID), WithEq ''deleted_at'' (VInt 0)]
         (query_Table TableNamePositions (query_Columns PositionColumnsWithID NewQuery))))
       scanPositions"

definition SelectPositionByID :: "'db Exec \<Rightarrow> 'db \<Rightarrow> int \<Rightarrow> goerr + Position" where
  "SelectPositionByID exec db rid =
     no_rows (QueryOneCtx exec db
       (query_Where [WithEq ''id'' (VInt rid), WithEq ''deleted_at'' (VInt 0)]
        (query_Table TableNamePositions (query_Columns PositionColumnsWithID NewQuery)))
       (row_scan scanPosition))"

definition UpdatePositionByID ::
  "'db Exec \<Rightarrow> 'db \<Rightarrow> int \<Rightarrow> (string \<times> sqlval) list \<Rightarrow> (goerr + int) \<times> 'db" where
  "UpdatePositionByID exec db rid updates =
     UpdateCtx exec db TableNamePositions updates [WithEq ''id'' (VInt rid), WithEq ''deleted_at'' (VInt 0)]"

definition SoftDeletePositionByID :: "'db Exec \<Rightarrow> 'db \<Rightarrow> int \<Rightarrow> int \<Rightarrow> (goerr + int) \<times> 'db" where
  "SoftDeletePositionByID exec db rid deletedAt =
     UpdateCtx exec db TableNamePositions [(''deleted_at'', VInt deletedAt), (''updated_at'', VInt deletedAt)]
       [WithEq ''id'' (VInt rid), WithEq ''deleted_at'' (VInt 0)]"

section \<open>model/portfolio\_trade.go\<close>

record Trade =
  trd_ID :: int
  trd_AccountID :: string
  trd_PositionID :: int
  trd_Type :: int
  trd_Date :: string
  trd_Price :: int
  trd_Quantity :: int
  trd_Fee :: int
  trd_Note :: string
  trd_DeletedAt :: int
  trd_CreatedAt :: int
  trd_UpdatedAt :: int

definition TableNameTrades :: string where "TableNameTrades = ''trades''"

definition TradeColumnsWithID :: "string list" where
  "TradeColumnsWithID =
     [''id'', ''account_id'', ''position_id'', ''type'', ''date'', ''price'', ''quantity'', ''fee'', ''note'',
      ''deleted_at'', ''created_at'', ''updated_at'']"

definition scanTrade :: "sqlval list \<Rightarrow> goerr + Trade" where
  "scanTrade vs =
     (case vs of
        [v1, v2, v3, v4, v5, v6, v7, v8, v9, v10, v11, v12] \<Rightarrow>
          bind_res (scan_int v1) (\<lambda>i. bind_res (scan_str v2) (\<lambda>a. bind_res (scan_int v3) (\<lambda>p.
          bind_res (scan_int v4) (\<lambda>ty. bind_res (scan_str v5) (\<lambda>d. bind_res (scan_f64 v6) (\<lambda>priceDec.
          bind_res (scan_int v7) (\<lambda>q. bind_res (scan_f64 v8) (\<lambda>feeDec. bind_res (scan_str v9) (\<lambda>no.
          bind_res (scan_int v10) (\<lambda>del. bind_res (scan_int v11) (\<lambda>cr. bind_res (scan_int v12) (\<lambda>up.
            Inr \<lparr>trd_ID = i, trd_AccountID = a, trd_PositionID = p, trd_Type = ty, trd_Date = d,
                 trd_Price = to_cents priceDec, trd_Quantity = q, trd_Fee = to_cents feeDec, trd_Note = no,
                 trd_DeletedAt = del, trd_CreatedAt = cr, trd_UpdatedAt = up\<rparr>))))))))))))
      | _ \<Rightarrow> Inl scan_error)"

definition scanTrades :: "sqlval list list \<Rightarrow> goerr + Trade list" where
  "scanTrades rows = rows_scan scanTrade rows"

definition trade_fields :: "Trade \<Rightarrow> (string \<times> sqlval) list" where
  "trade_fields t =
     [(''account_id'', VStr (trd_AccountID t)), (''position_id'', VInt (trd_PositionID t)), (''type'', VInt (trd_Type t)),
      (''date'', VStr (trd_Date t)), (''price'', VFloat (to_yuan (trd_Price t))), (''quantity'', VInt (trd_Quantity t)),
      (''fee'', VFloat (to_yuan (trd_Fee t))), (''note'', VStr (trd_Note t)), (''deleted_at'', VInt (trd_DeletedAt t)),
      (''created_at'', VInt (trd_CreatedAt t)), (''updated_at'', VInt (trd_UpdatedAt t))]"

definition InsertTrade :: "'db Exec \<Rightarrow> 'db \<Rightarrow> Trade \<Rightarrow> (goerr + int) \<times> 'db" where
  "InsertTrade exec db t = InsertCtx exec db TableNameTrades (trade_fields t)"

definition SelectTradesByPositionID :: "'db Exec \<Rightarrow> 'db \<Rightarrow> int \<Rightarrow> goerr + Trade list" where
  "SelectTradesByPositionID exec db positionID =
     QueryCtx exec db
       (query_OrderBy [DESC ''date'']
        (query_Where [WithEq ''position_id'' (VInt positionID), WithEq ''deleted_at'' (VInt 0)]
         (query_Table TableNameTrades (query_Columns TradeColumnsWithID NewQuery))))
       scanTrades"

definition SelectTradeByID :: "'db Exec \<Rightarrow> 'db \<Rightarrow> int \<Rightarrow> goerr + Trade" where
  "SelectTradeByID exec db rid =
     no_rows (QueryOneCtx exec db
       (query_Where [WithEq ''id'' (VInt rid), WithEq ''deleted_at'' (VInt 0)]
        (query_Table TableNameTrades (query_Columns TradeColumnsWithID NewQuery)))
       (row_scan scanTrade))"

definition UpdateTradeByID ::
  "'db Exec \<Rightarrow> 'db \<Rightarrow> int \<Rightarrow> (string \<times> sqlval) list \<Rightarrow> (goerr + int) \<times> 'db" where
  "UpdateTradeByID exec db rid updates =
     UpdateCtx exec db TableNameTrades updates [WithEq ''id'' (VInt rid), WithEq ''deleted_at'' (VInt 0)]"

definition SoftDeleteTradeByID :: "'db Exec \<Rightarrow> 'db \<Rightarrow> int \<Rightarrow> int \<Rightarrow> (goerr + int) \<times> 'db" where
  "SoftDeleteTradeByID exec db rid deletedAt =
     UpdateCtx exec db TableNameTrades [(''deleted_at'', VInt deletedAt), (''updated_at'', VInt deletedAt)]
       [WithEq ''id'' (VInt rid), WithEq ''deleted_at'' (VInt 0)]"

definition SoftDeleteTradesByPositionID :: "'db Exec \<Rightarrow> 'db \<Rightarrow> int \<Rightarrow> int \<Rightarrow> (goerr + int) \<times> 'db" where
  "SoftDeleteTradesByPositionID exec db positionID deletedAt =
     UpdateCtx exec db TableNameTrades [(''deleted_at'', VInt deletedAt), (''updated_at'', VInt deletedAt)]
       [WithEq ''position_id'' (VInt positionID), WithEq ''deleted_at'' (VInt 0)]"

section \<open>model/portfolio\_snapshot.go\<close>

record ValueSnapshot =
  snap_ID :: int
  snap_AccountID :: string
  snap_Date :: string
  snap_TotalValue :: int
  snap_CreatedAt :: int

definition TableNameValueSnapshots :: string where "TableNameValueSnapshots = ''value_snapshots''"

definition SnapshotColumnsWithID :: "string list" where
  "SnapshotColumnsWithID = [''id'', ''account_id'', ''date'', ''total_value'', ''created_at'']"

definition scanSnapshot :: "sqlval list \<Rightarrow> goerr + ValueSnapshot" where
  "scanSnapshot vs =
     (case vs of
        [v1, v2, v3, v4, v5] \<Rightarrow>
          bind_res (scan_int v1) (\<lambda>i. bind_res (scan_str v2) (\<lambda>a. bind_res (scan_str v3) (\<lambda>d.
          bind_res (scan_f64 v4) (\<lambda>totalDec. bind_res (scan_int v5) (\<lambda>cr.
            Inr \<lparr>snap_ID = i, snap_AccountID = a, snap_Date = d, snap_TotalValue = to_cents totalDec,
                 snap_CreatedAt = cr\<rparr>)))))
      | _ \<Rightarrow> Inl scan_error)"

definition scanSnapshots :: "sqlval list list \<Rightarrow> goerr + ValueSnapshot list" where
  "scanSnapshots rows = rows_scan scanSnapshot rows"

definition SelectSnapshotsByAccountID :: "'db Exec \<Rightarrow> 'db \<Rightarrow> string \<Rightarrow> goerr + ValueSnapshot list" where
  "SelectSnapshotsByAccountID exec db accountID =
     QueryCtx exec db
       (query_OrderBy [ASC ''date'']
        (query_Where [WithEq ''account_id'' (VStr accountID)]
         (query_Table TableNameValueSnapshots (query_Columns SnapshotColumnsWithID NewQuery))))
       scanSnapshots"

definition upsert_snapshot_sql :: string where
  "upsert_snapshot_sql =
     ''INSERT INTO '' @ TableNameValueSnapshots @
     '' (account_id, date, total_value, created_at) VALUES (?, ?, ?, ?) ON DUPLICATE KEY UPDATE total_value = ?''"

definition model_UpsertSnapshot :: "'db Exec \<Rightarrow> 'db \<Rightarrow> ValueSnapshot \<Rightarrow> (goerr + unit) \<times> 'db" where
  "model_UpsertSnapshot exec db s =
     (case ExecContext exec db upsert_snapshot_sql
             [VStr (snap_AccountID s), VStr (snap_Date s), VFloat (to_yuan (snap_TotalValue s)),
              VInt (snap_CreatedAt s), VFloat (to_yuan (snap_TotalValue s))] of
        (Inl e, db') \<Rightarrow> (Inl e, db')
      | (Inr _, db') \<Rightarrow> (Inr (), db'))"

section \<open>model/portfolio\_config.go\<close>

record PortfolioConfig =
  cfg_ID :: int
  cfg_AccountID :: string
  cfg_TotalCapital :: int
  cfg_UpdatedAt :: int

definition TableNamePortfolioConfig :: string where "TableNamePortfolioConfig = ''portfolio_config''"

definition ConfigColumnsWithID :: "string list" where
  "ConfigColumnsWithID = [''id'', ''account_id'', ''total_capital'', ''updated_at'']"

definition scanConfig :: "sqlval list \<Rightarrow> goerr + PortfolioConfig" where
  "scanConfig vs =
     (case vs of
        [v1, v2, v3, v4] \<Rightarrow>
          bind_res (scan_int v1) (\<lambda>i. bind_res (scan_str v2) (\<lambda>a. bind_res (scan_f64 v3) (\<lambda>capitalDec.
          bind_res (scan_int v4) (\<lambda>up.
            Inr \<lparr>cfg_ID = i, cfg_AccountID = a, cfg_TotalCapital = to_cents_trunc capitalDec, cfg_UpdatedAt = up\<rparr>))))
      | _ \<Rightarrow> Inl scan_error)"

definition SelectConfigByAccountID :: "'db Exec \<Rightarrow> 'db \<Rightarrow> string \<Rightarrow> goerr + PortfolioConfig" where
  "SelectConfigByAccountID exec db accountID =
     no_rows (QueryOneCtx exec db
       (query_Where [WithEq ''account_id'' (VStr accountID)]
        (query_Table TableNamePortfolioConfig (query_Columns ConfigColumnsWithID NewQuery)))
       (row_scan scanConfig))"

definition upsert_config_sql :: string where
  "upsert_config_sql =
     ''INSERT INTO '' @ TableNamePortfolioConfig @
     '' (account_id, total_capital, updated_at) VALUES (?, ?, ?) ON DUPLICATE KEY UPDATE total_capital = ?, updated_at = ?''"

definition UpsertConfig :: "'db Exec \<Rightarrow> 'db \<Rightarrow> string \<Rightarrow> int \<Rightarrow> int \<Rightarrow> (goerr + unit) \<times> 'db" where
  "UpsertConfig exec db accountID totalCapital updatedAt =
     (case ExecContext exec db upsert_config_sql
             [VStr accountID, VFloat (to_yuan totalCapital), VInt updatedAt,
              VFloat (to_yuan totalCapital), VInt updatedAt] of
        (Inl e, db') \<Rightarrow> (Inl e, db')
      | (Inr _, db') \<Rightarrow> (Inr (), db'))"

section \<open>service/portfolio.go\<close>

text \<open>The two directions, long and short, as the UTF-8 bytes of the source's literals.\<close>

definition Long :: string where "Long = utf8 [229, 129, 154, 229, 164, 154]"

definition Short :: string where "Short = utf8 [229, 129, 154, 231, 169, 186]"

definition directionToDB :: "string \<rightharpoonup> string" where
  "directionToDB = map_of [(Long, ''1''), (Short, ''2'')]"

definition directionFromDB :: "string \<rightharpoonup> string" where
  "directionFromDB = map_of [(''1'', Long), (''2'', Short)]"

definition dirToString :: "string \<Rightarrow> string" where
  "dirToString s = (case directionToDB s of Some v \<Rightarrow> v | None \<Rightarrow> s)"

definition dirFromString :: "string \<Rightarrow> string" where
  "dirFromString s = (case directionFromDB s of Some v \<Rightarrow> v | None \<Rightarrow> s)"

record PbPosition =
  pp_Id :: int
  pp_AccountId :: string
  pp_Code :: string
  pp_Name :: string
  pp_Type :: int
  pp_Direction :: string
  pp_InitialQty :: int
  pp_CurrentPrice :: int
  pp_MarginRatio :: int
  pp_SortOrder :: int
  pp_Archived :: bool
  pp_ClosedPnl :: int
  pp_CreatedAt :: int
  pp_UpdatedAt :: int

record PositionRequest =
  rp_Id :: int
  rp_Code :: string
  rp_Name :: string
  rp_Type :: int
  rp_Direction :: string
  rp_InitialQty :: int
  rp_CurrentPrice :: int
  rp_MarginRatio :: int
  rp_SortOrder :: int
  rp_Archived :: bool
  rp_ClosedPnl :: int

record PbTrade =
  ptr_Id :: int
  ptr_AccountId :: string
  ptr_PositionId :: int
  ptr_Type :: int
  ptr_Date :: string
  ptr_Price :: int
  ptr_Quantity :: int
  ptr_Fee :: int
  ptr_Note :: string
  ptr_CreatedAt :: int
  ptr_UpdatedAt :: int

record TradeRequest =
  rtr_Id :: int
  rtr_PositionId :: int
  rtr_Type :: int
  rtr_Date :: string
  rtr_Price :: int
  rtr_Quantity :: int
  rtr_Fee :: int
  rtr_Note :: string

record PbValueSnapshot =
  ps_Date :: string
  ps_TotalValue :: int

definition positionToProto :: "Position \<Rightarrow> PbPosition" where
  "positionToProto p =
     \<lparr>pp_Id = pos_ID p, pp_AccountId = pos_AccountID p, pp_Code = pos_Code p, pp_Name = pos_Name p,
      pp_Type = int32_conv (pos_Type p), pp_Direction = dirFromString (pos_Direction p),
      pp_InitialQty = int32_conv (pos_InitialQty p), pp_CurrentPrice = pos_CurrentPrice p,
      pp_MarginRatio = int32_conv (pos_MarginRatio p), pp_SortOrder = int32_conv (pos_SortOrder p),
      pp_Archived = pos_Archived p, pp_ClosedPnl = pos_ClosedPnl p, pp_CreatedAt = pos_CreatedAt p,
      pp_UpdatedAt = pos_UpdatedAt p\<rparr>"

definition tradeToProto :: "Trade \<Rightarrow> PbTrade" where
  "tradeToProto t =
     \<lparr>ptr_Id = trd_ID t, ptr_AccountId = trd_AccountID t, ptr_PositionId = trd_PositionID t,
      ptr_Type = int32_conv (trd_Type t), ptr_Date = trd_Date t, ptr_Price = trd_Price t,
      ptr_Quantity = int32_conv (trd_Quantity t), ptr_Fee = trd_Fee t, ptr_Note = trd_Note t,
      ptr_CreatedAt = trd_CreatedAt t, ptr_UpdatedAt = trd_UpdatedAt t\<rparr>"

definition ListPositions :: "'db Exec \<Rightarrow> 'db \<Rightarrow> string option \<Rightarrow> status + PbPosition list" where
  "ListPositions exec db ctx =
     (case accountIDFromCtx ctx of
        Inl st \<Rightarrow> Inl st
      | Inr accountID \<Rightarrow>
          (case SelectPositionsByAccountID exec db accountID of
             Inl e \<Rightarrow> Inl internal_error
           | Inr list \<Rightarrow> Inr (map positionToProto list)))"

definition CreatePosition ::
  "'db Exec \<Rightarrow> 'db \<Rightarrow> string option \<Rightarrow> int \<Rightarrow> PositionRequest \<Rightarrow> (status + PbPosition) \<times> 'db" where
  "CreatePosition exec db ctx n req =
     (case accountIDFromCtx ctx of
        Inl st \<Rightarrow> (Inl st, db)
      | Inr accountID \<Rightarrow>
          (if rp_Code req = [] \<or> rp_Name req = []
             then (Inl (Status InvalidArgument ''code and name are required''), db)
           else if rp_CurrentPrice req \<le> 0
             then (Inl (Status InvalidArgument ''current_price must be positive''), db)
           else
             (let p = \<lparr>pos_ID = 0, pos_AccountID = accountID, pos_Code = rp_Code req, pos_Name = rp_Name req,
                       pos_Type = rp_Type req, pos_Direction = dirToString (rp_Direction req),
                       pos_InitialQty = rp_InitialQty req, pos_CurrentPrice = rp_CurrentPrice req,
                       pos_MarginRatio = rp_MarginRatio req, pos_SortOrder = rp_SortOrder req,
                       pos_Archived = False, pos_ClosedPnl = 0, pos_DeletedAt = 0,
                       pos_CreatedAt = n, pos_UpdatedAt = n\<rparr>
              in case InsertPosition exec db p of
                   (Inl e, db') \<Rightarrow> (Inl internal_error, db')
                 | (Inr i, db') \<Rightarrow> (Inr (positionToProto (p\<lparr>pos_ID := i\<rparr>)), db'))))"

definition position_updates :: "PositionRequest \<Rightarrow> int \<Rightarrow> (string \<times> sqlval) list" where
  "position_updates req n =
     [(''code'', VStr (rp_Code req)), (''name'', VStr (rp_Name req)), (''type'', VInt (rp_Type req)),
      (''direction'', VStr (dirToString (rp_Direction req))), (''initial_qty'', VInt (rp_InitialQty req)),
      (''current_price'', VFloat (to_yuan (rp_CurrentPrice req))), (''margin_ratio'', VInt (rp_MarginRatio req)),
      (''sort_order'', VInt (rp_SortOrder req)), (''archived'', VBool (rp_Archived req)),
      (''closed_pnl'', VFloat (to_yuan (rp_ClosedPnl req))), (''updated_at'', VInt n)]"

definition UpdatePosition ::
  "'db Exec \<Rightarrow> 'db \<Rightarrow> string option \<Rightarrow> int \<Rightarrow> PositionRequest \<Rightarrow> (status + PbPosition) \<times> 'db" where
  "UpdatePosition exec db ctx n req =
     (case accountIDFromCtx ctx of
        Inl st \<Rightarrow> (Inl st, db)
      | Inr accountID \<Rightarrow>
          (if rp_Id req = 0 then (Inl (Status InvalidArgument ''id is required''), db)
           else case SelectPositionByID exec db (rp_Id req) of
             Inl e \<Rightarrow> (Inl (if e = ErrNotFound then Status NotFound ''position not found'' else internal_error), db)
           | Inr existing \<Rightarrow>
               (if pos_AccountID existing \<noteq> accountID then (Inl (Status NotFound ''position not found''), db)
                else case UpdatePositionByID exec db (rp_Id req) (position_updates req n) of
                  (Inl e, db') \<Rightarrow> (Inl internal_error, db')
                | (Inr k, db') \<Rightarrow>
                    (Inr (positionToProto (existing\<lparr>pos_Code := rp_Code req, pos_Name := rp_Name req,
                            pos_Type := rp_Type req, pos_Direction := dirToString (rp_Direction req),
                            pos_InitialQty := rp_InitialQty req, pos_CurrentPrice := rp_CurrentPrice req,
                            pos_MarginRatio := rp_MarginRatio req, pos_SortOrder := rp_SortOrder req,
                            pos_Archived := rp_Archived req, pos_ClosedPnl := rp_ClosedPnl req,
                            pos_UpdatedAt := n\<rparr>)), db'))))"

definition DeletePosition ::
  "'db Exec \<Rightarrow> 'db \<Rightarrow> string option \<Rightarrow> int \<Rightarrow> int \<Rightarrow> (status + unit) \<times> 'db" where
  "DeletePosition exec db ctx n rid =
     (case accountIDFromCtx ctx of
        Inl st \<Rightarrow> (Inl st, db)
      | Inr accountID \<Rightarrow>
          (case SelectPositionByID exec db rid of
             Inl e \<Rightarrow> ((if e = ErrNotFound then Inr () else Inl internal_error), db)
           | Inr existing \<Rightarrow>
               (if pos_AccountID existing \<noteq> accountID then (Inr (), db)
                else case SoftDeletePositionByID exec db rid n of
                  (Inl e, db') \<Rightarrow> (Inl internal_error, db')
                | (Inr k, db') \<Rightarrow> (Inr (), db'))))"

definition ListTrades :: "'db Exec \<Rightarrow> 'db \<Rightarrow> string option \<Rightarrow> int \<Rightarrow> status + PbTrade list" where
  "ListTrades exec db ctx positionId =
     (case accountIDFromCtx ctx of
        Inl st \<Rightarrow> Inl st
      | Inr accountID \<Rightarrow>
          (case SelectTradesByPositionID exec db positionId of
             Inl e \<Rightarrow> Inl internal_error
           | Inr list \<Rightarrow> Inr (map tradeToProto (filter (\<lambda>t. trd_AccountID t = accountID) list))))"

definition CreateTrade ::
  "'db Exec \<Rightarrow> 'db \<Rightarrow> string option \<Rightarrow> int \<Rightarrow> TradeRequest \<Rightarrow> (status + PbTrade) \<times> 'db" where
  "CreateTrade exec db ctx n req =
     (case accountIDFromCtx ctx of
        Inl st \<Rightarrow> (Inl st, db)
      | Inr accountID \<Rightarrow>
          (if rtr_Price req \<le> 0 \<or> rtr_Quantity req \<le> 0
             then (Inl (Status InvalidArgument ''price and quantity must be positive''), db)
           else if rtr_Date req = [] then (Inl (Status InvalidArgument ''date is required''), db)
           else
             (let t = \<lparr>trd_ID = 0, trd_AccountID = accountID, trd_PositionID = rtr_PositionId req,
                       trd_Type = rtr_Type req, trd_Date = rtr_Date req, trd_Price = rtr_Price req,
                       trd_Quantity = rtr_Quantity req, trd_Fee = rtr_Fee req, trd_Note = rtr_Note req,
                       trd_DeletedAt = 0, trd_CreatedAt = n, trd_UpdatedAt = n\<rparr>
              in case InsertTrade exec db t of
                   (Inl e, db') \<Rightarrow> (Inl internal_error, db')
                 | (Inr i, db') \<Rightarrow> (Inr (tradeToProto (t\<lparr>trd_ID := i\<rparr>)), db'))))"

definition trade_updates :: "TradeRequest \<Rightarrow> int \<Rightarrow> (string \<times> sqlval) list" where
  "trade_updates req n =
     [(''type'', VInt (rtr_Type req)), (''date'', VStr (rtr_Date req)), (''price'', VFloat (to_yuan (rtr_Price req))),
      (''quantity'', VInt (rtr_Quantity req)), (''fee'', VFloat (to_yuan (rtr_Fee req))), (''note'', VStr (rtr_Note req)),
      (''updated_at'', VInt n)]"

definition UpdateTrade ::
  "'db Exec \<Rightarrow> 'db \<Rightarrow> string option \<Rightarrow> int \<Rightarrow> TradeRequest \<Rightarrow> (status + PbTrade) \<times> 'db" where
  "UpdateTrade exec db ctx n req =
     (case accountIDFromCtx ctx of
        Inl st \<Rightarrow> (Inl st, db)
      | Inr accountID \<Rightarrow>
          (if rtr_Id req = 0 then (Inl (Status InvalidArgument ''id is required''), db)
           else case SelectTradeByID exec db (rtr_Id req) of
             Inl e \<Rightarrow> (Inl (if e = ErrNotFound then Status NotFound ''trade not found'' else internal_error), db)
           | Inr existing \<Rightarrow>
               (if trd_AccountID existing \<noteq> accountID then (Inl (Status NotFound ''trade not found''), db)
                else case UpdateTradeByID exec db (rtr_Id req) (trade_updates req n) of
                  (Inl e, db') \<Rightarrow> (Inl internal_error, db')
                | (Inr k, db') \<Rightarrow>
                    (Inr (tradeToProto (existing\<lparr>trd_Type := rtr_Type req, trd_Date := rtr_Date req,
                            trd_Price := rtr_Price req, trd_Quantity := rtr_Quantity req,
                            trd_Fee := rtr_Fee req, trd_Note := rtr_Note req, trd_UpdatedAt := n\<rparr>)), db'))))"

definition DeleteTrade ::
  "'db Exec \<Rightarrow> 'db \<Rightarrow> string option \<Rightarrow> int \<Rightarrow> int \<Rightarrow> (status + unit) \<times> 'db" where
  "DeleteTrade exec db ctx n rid =
     (case accountIDFromCtx ctx of
        Inl st \<Rightarrow> (Inl st, db)
      | Inr accountID \<Rightarrow>
          (case SelectTradeByID exec db rid of
             Inl e \<Rightarrow> ((if e = ErrNotFound then Inr () else Inl internal_error), db)
           | Inr existing \<Rightarrow>
               (if trd_AccountID existing \<noteq> accountID then (Inr (), db)
                else case SoftDeleteTradeByID exec db rid n of
                  (Inl e, db') \<Rightarrow> (Inl internal_error, db')
                | (Inr k, db') \<Rightarrow> (Inr (), db'))))"

definition ListSnapshots :: "'db Exec \<Rightarrow> 'db \<Rightarrow> string option \<Rightarrow> status + PbValueSnapshot list" where
  "ListSnapshots exec db ctx =
     (case accountIDFromCtx ctx of
        Inl st \<Rightarrow> Inl st
      | Inr accountID \<Rightarrow>
          (case SelectSnapshotsByAccountID exec db accountID of
             Inl e \<Rightarrow> Inl internal_error
           | Inr list \<Rightarrow> Inr (map (\<lambda>s. \<lparr>ps_Date = snap_Date s, ps_TotalValue = snap_TotalValue s\<rparr>) list)))"

definition UpsertSnapshot ::
  "'db Exec \<Rightarrow> 'db \<Rightarrow> string option \<Rightarrow> int \<Rightarrow> string \<Rightarrow> int \<Rightarrow> (status + PbValueSnapshot) \<times> 'db" where
  "UpsertSnapshot exec db ctx n date totalValue =
     (case accountIDFromCtx ctx of
        Inl st \<Rightarrow> (Inl st, db)
      | Inr accountID \<Rightarrow>
          (if date = [] then (Inl (Status InvalidArgument ''date is required''), db)
           else case model_UpsertSnapshot exec db
                       \<lparr>snap_ID = 0, snap_AccountID = accountID, snap_Date = date, snap_TotalValue = totalValue,
                        snap_CreatedAt = n\<rparr> of
             (Inl e, db') \<Rightarrow> (Inl internal_error, db')
           | (Inr u, db') \<Rightarrow> (Inr \<lparr>ps_Date = date, ps_TotalValue = totalValue\<rparr>, db')))"

definition GetConfig :: "'db Exec \<Rightarrow> 'db \<Rightarrow> string option \<Rightarrow> status + int" where
  "GetConfig exec db ctx =
     (case accountIDFromCtx ctx of
        Inl st \<Rightarrow> Inl st
      | Inr accountID \<Rightarrow>
          (case SelectConfigByAccountID exec db accountID of
             Inl e \<Rightarrow> (if e = ErrNotFound then Inr 0 else Inl internal_error)
           | Inr cfg \<Rightarrow> Inr (cfg_TotalCapital cfg)))"

definition UpdateConfig ::
  "'db Exec \<Rightarrow> 'db \<Rightarrow> string option \<Rightarrow> int \<Rightarrow> int \<Rightarrow> (status + int) \<times> 'db" where
  "UpdateConfig exec db ctx n totalCapital =
     (case accountIDFromCtx ctx of
        Inl st \<Rightarrow> (Inl st, db)
      | Inr accountID \<Rightarrow>
          (case UpsertConfig exec db accountID totalCapital n of
             (Inl e, db') \<Rightarrow> (Inl internal_error, db')
           | (Inr u, db') \<Rightarrow> (Inr totalCapital, db')))"

section \<open>The model layer fulfils the entity interface\<close>

lemma position_columns: "PositionColumnsWithID \<noteq> []" "PositionColumnsWithID \<noteq> [''COUNT(*)'']"
  "list_all ident PositionColumnsWithID"
  by (simp_all add: PositionColumnsWithID_def name_defs)

lemma trade_columns: "TradeColumnsWithID \<noteq> []" "TradeColumnsWithID \<noteq> [''COUNT(*)'']"
  "list_all ident TradeColumnsWithID"
  by (simp_all add: TradeColumnsWithID_def name_defs)

lemma position_schema: "map_of schema TableNamePositions =
  Some [(''id'', CTInt), (''account_id'', CTText), (''code'', CTText), (''name'', CTText),
        (''type'', CTInt), (''direction'', CTInt), (''initial_qty'', CTInt), (''current_price'', CTDec),
        (''margin_ratio'', CTInt), (''sort_order'', CTInt), (''archived'', CTInt), (''closed_pnl'', CTDec),
        (''deleted_at'', CTInt), (''created_at'', CTInt), (''updated_at'', CTInt)]"
  by (simp add: schema_def TableNamePositions_def)

lemma trade_schema: "map_of schema TableNameTrades =
  Some [(''id'', CTInt), (''account_id'', CTText), (''position_id'', CTInt), (''type'', CTInt),
        (''date'', CTDate), (''price'', CTDec), (''quantity'', CTInt), (''fee'', CTDec), (''note'', CTText),
        (''deleted_at'', CTInt), (''created_at'', CTInt), (''updated_at'', CTInt)]"
  by (simp add: schema_def TableNameTrades_def)

lemma by_id_positions: "by_id_table TableNamePositions"
  by (simp add: by_id_table_def coltype_of_def position_schema) (simp add: TableNamePositions_def word_ok_def)

lemma by_id_trades: "by_id_table TableNameTrades"
  by (simp add: by_id_table_def coltype_of_def trade_schema) (simp add: TableNameTrades_def word_ok_def)

lemma position_table: "word_ok TableNamePositions" "coltype_of TableNamePositions ''account_id'' = Some CTText"
  using by_id_positions by (simp_all add: by_id_table_def)

lemma trade_table: "word_ok TableNameTrades" "coltype_of TableNameTrades ''account_id'' = Some CTText"
  using by_id_trades by (simp_all add: by_id_table_def)

text \<open>A position whose \<open>archived\<close> column is neither 0 nor 1 does not scan into a Go \<open>bool\<close>.\<close>

definition position_of :: "row \<Rightarrow> Position" where
  "position_of r =
     \<lparr>pos_ID = val_int (r ''id''), pos_AccountID = val_str (r ''account_id''), pos_Code = val_str (r ''code''),
      pos_Name = val_str (r ''name''), pos_Type = val_int (r ''type''), pos_Direction = val_str (r ''direction''),
      pos_InitialQty = val_int (r ''initial_qty''), pos_CurrentPrice = val_cents (r ''current_price''),
      pos_MarginRatio = val_int (r ''margin_ratio''), pos_SortOrder = val_int (r ''sort_order''),
      pos_Archived = (r ''archived'' = VInt 1), pos_ClosedPnl = val_cents (r ''closed_pnl''),
      pos_DeletedAt = val_int (r ''deleted_at''), pos_CreatedAt = val_int (r ''created_at''),
      pos_UpdatedAt = val_int (r ''updated_at'')\<rparr>"

definition trade_of :: "row \<Rightarrow> Trade" where
  "trade_of r =
     \<lparr>trd_ID = val_int (r ''id''), trd_AccountID = val_str (r ''account_id''), trd_PositionID = val_int (r ''position_id''),
      trd_Type = val_int (r ''type''), trd_Date = val_str (r ''date''), trd_Price = val_cents (r ''price''),
      trd_Quantity = val_int (r ''quantity''), trd_Fee = val_cents (r ''fee''), trd_Note = val_str (r ''note''),
      trd_DeletedAt = val_int (r ''deleted_at''), trd_CreatedAt = val_int (r ''created_at''),
      trd_UpdatedAt = val_int (r ''updated_at'')\<rparr>"

lemma scan_bool_typed: "has_type CTInt v \<Longrightarrow> scan_bool v = Inr b \<Longrightarrow> b = (v = VInt 1)"
  by (auto simp: has_type_int scan_bool_def split: if_splits)

lemma scanPosition_typed:
  assumes "typed_row TableNamePositions r" "scanPosition (proj PositionColumnsWithID r) = Inr x"
  shows "x = position_of r"
proof -
  have t: "has_type CTInt (r ''archived'')" using assms(1) by (simp add: typed_row_def position_schema)
  obtain b where b: "scan_bool (r ''archived'') = Inr b"
    using assms by (cases "scan_bool (r ''archived'')")
      (auto simp: typed_row_def position_schema PositionColumnsWithID_def proj_def scanPosition_def scan_typed)
  show ?thesis using assms b scan_bool_typed [OF t b]
    by (simp add: typed_row_def position_schema PositionColumnsWithID_def proj_def scanPosition_def scan_typed position_of_def)
qed

lemma scanTrade_typed:
  "typed_row TableNameTrades r \<Longrightarrow> scanTrade (proj TradeColumnsWithID r) = Inr (trade_of r)"
  by (simp add: typed_row_def trade_schema TradeColumnsWithID_def proj_def scanTrade_def scan_typed trade_of_def)

lemma position_account:
  "\<forall>r x. typed_row TableNamePositions r \<longrightarrow> scanPosition (proj PositionColumnsWithID r) = Inr x \<longrightarrow>
   pos_AccountID x = val_str (r ''account_id'')"
  by (auto dest!: scanPosition_typed simp: position_of_def)

lemma trade_account:
  "\<forall>r x. typed_row TableNameTrades r \<longrightarrow> scanTrade (proj TradeColumnsWithID r) = Inr x \<longrightarrow>
   trd_AccountID x = val_str (r ''account_id'')"
  by (auto simp: scanTrade_typed trade_of_def)

lemma scanPosition_plain: "plain_err (scanPosition vs)"
  unfolding scanPosition_def by (auto intro!: plain_err_intros split: list.split)

lemma scanTrade_plain: "plain_err (scanTrade vs)"
  unfolding scanTrade_def by (auto intro!: plain_err_intros split: list.split)

lemma position_by_id_fine: "query_fine (by_id_query TableNamePositions PositionColumnsWithID rid) []"
  using position_columns by_id_simple position_table(1) by (intro query_fineI) (simp_all add: by_id_query_def query_defs)

lemma trade_by_id_fine: "query_fine (by_id_query TableNameTrades TradeColumnsWithID rid) []"
  using trade_columns by_id_simple trade_table(1) by (intro query_fineI) (simp_all add: by_id_query_def query_defs)

lemmas position_model_defs = SelectPositionByID_def UpdatePositionByID_def SoftDeletePositionByID_def

lemmas trade_model_defs = SelectTradeByID_def UpdateTradeByID_def SoftDeleteTradeByID_def

sublocale mysql \<subseteq> pos: entity wf tab le conv lost TableNamePositions "SelectPositionByID exec"
  "UpdatePositionByID exec" "SoftDeletePositionByID exec" "\<lambda>r. scanPosition (proj PositionColumnsWithID r)" pos_AccountID
  using entity_by_id [where f = scanPosition and acct = pos_AccountID,
      OF by_id_positions position_by_id_fine position_columns(2) position_account scanPosition_plain]
  by (simp add: by_id_query_def by_id_def soft_delete_def position_model_defs [abs_def])

sublocale mysql \<subseteq> trd: entity wf tab le conv lost TableNameTrades "SelectTradeByID exec"
  "UpdateTradeByID exec" "SoftDeleteTradeByID exec" "\<lambda>r. scanTrade (proj TradeColumnsWithID r)" trd_AccountID
  using entity_by_id [where f = scanTrade and acct = trd_AccountID,
      OF by_id_trades trade_by_id_fine trade_columns(2) trade_account scanTrade_plain]
  by (simp add: by_id_query_def by_id_def soft_delete_def trade_model_defs [abs_def])

section \<open>The handlers respect accounts and errors\<close>

lemma position_fields_fine: "fields_fine (position_fields p)"
  by (simp add: position_fields_def fields_fine_def name_defs)

lemma trade_fields_fine: "fields_fine (trade_fields t)"
  by (simp add: trade_fields_def fields_fine_def name_defs)

lemma position_updates_fine: "fields_fine (position_updates req n)" "''account_id'' \<notin> fst ` set (position_updates req n)"
  "''id'' \<notin> fst ` set (position_updates req n)" "''deleted_at'' \<notin> fst ` set (position_updates req n)"
  by (simp_all add: position_updates_def fields_fine_def name_defs)

lemma trade_updates_fine: "fields_fine (trade_updates req n)" "''account_id'' \<notin> fst ` set (trade_updates req n)"
  "''id'' \<notin> fst ` set (trade_updates req n)" "''deleted_at'' \<notin> fst ` set (trade_updates req n)"
  by (simp_all add: trade_updates_def fields_fine_def name_defs)

lemma parse_upsert_snapshot:
  "parse upsert_snapshot_sql =
     Some (SInsert TableNameValueSnapshots [''account_id'', ''date'', ''total_value'', ''created_at''] [''total_value''])"
  by code_simp

lemma parse_upsert_config:
  "parse upsert_config_sql =
     Some (SInsert TableNamePortfolioConfig [''account_id'', ''total_capital'', ''updated_at''] [''total_capital'', ''updated_at''])"
  by code_simp

lemma snapshot_keys: "uniq_of TableNameValueSnapshots = [[''account_id'', ''date'']]"
  by (simp add: uniq_of_def TableNameValueSnapshots_def)

lemma config_keys: "uniq_of TableNamePortfolioConfig = [[''account_id'']]"
  by (simp add: uniq_of_def TableNamePortfolioConfig_def)

lemma snapshot_schema: "map_of schema TableNameValueSnapshots =
  Some [(''id'', CTInt), (''account_id'', CTText), (''date'', CTDate), (''total_value'', CTDec), (''created_at'', CTInt)]"
  by (simp add: schema_def TableNameValueSnapshots_def)

lemma config_schema: "map_of schema TableNamePortfolioConfig =
  Some [(''id'', CTInt), (''account_id'', CTText), (''total_capital'', CTDec), (''updated_at'', CTInt)]"
  by (simp add: schema_def TableNamePortfolioConfig_def)

context mysql
begin

lemma InsertPosition_fair:
  assumes "wf db" "InsertPosition exec db p = (res, db')"
  shows "fair (pos_AccountID p) db (isl res) db'"
  using insert_fair [OF assms(1) position_table(1) position_fields_fine position_table(2), of p] assms(2)
  by (simp add: InsertPosition_def position_fields_def)

lemma InsertTrade_fair:
  assumes "wf db" "InsertTrade exec db t = (res, db')"
  shows "fair (trd_AccountID t) db (isl res) db'"
  using insert_fair [OF assms(1) trade_table(1) trade_fields_fine trade_table(2), of t] assms(2)
  by (simp add: InsertTrade_def trade_fields_def)

lemma CreatePosition_fair:
  assumes "wf db" "CreatePosition exec db (Some acc) n req = (res, db')"
  shows "fair acc db (isl res) db'"
  using assms(2) InsertPosition_fair [OF assms(1)] assms(1)
  by (fastforce simp: CreatePosition_def Let_def accountIDFromCtx_def split: if_splits prod.splits sum.splits)

lemma CreateTrade_fair:
  assumes "wf db" "CreateTrade exec db (Some acc) n req = (res, db')"
  shows "fair acc db (isl res) db'"
  using assms(2) InsertTrade_fair [OF assms(1)] assms(1)
  by (fastforce simp: CreateTrade_def Let_def accountIDFromCtx_def split: if_splits prod.splits sum.splits)

lemma UpdatePosition_fair:
  assumes "wf db" "UpdatePosition exec db (Some acc) n req = (res, db')"
  shows "fair acc db (isl res) db'"
  using assms(2) pos.update_fair [OF assms(1) _ position_updates_fine(1,2)] assms(1)
  by (fastforce simp: UpdatePosition_def accountIDFromCtx_def split: if_splits prod.splits sum.splits)

lemma UpdateTrade_fair:
  assumes "wf db" "UpdateTrade exec db (Some acc) n req = (res, db')"
  shows "fair acc db (isl res) db'"
  using assms(2) trd.update_fair [OF assms(1) _ trade_updates_fine(1,2)] assms(1)
  by (fastforce simp: UpdateTrade_def accountIDFromCtx_def split: if_splits prod.splits sum.splits)

lemma DeletePosition_fair:
  assumes "wf db" "DeletePosition exec db (Some acc) n rid = (res, db')"
  shows "fair acc db (isl res) db'"
  using assms(2) pos.delete_fair [OF assms(1)] assms(1)
  by (fastforce simp: DeletePosition_def accountIDFromCtx_def split: if_splits prod.splits sum.splits)

lemma DeleteTrade_fair:
  assumes "wf db" "DeleteTrade exec db (Some acc) n rid = (res, db')"
  shows "fair acc db (isl res) db'"
  using assms(2) trd.delete_fair [OF assms(1)] assms(1)
  by (fastforce simp: DeleteTrade_def accountIDFromCtx_def split: if_splits prod.splits sum.splits)

lemma model_UpsertSnapshot_fair:
  assumes "wf db" "model_UpsertSnapshot exec db s = (res, db')"
  shows "fair (snap_AccountID s) db (isl res) db'"
proof -
  obtain r where r: "ExecContext exec db upsert_snapshot_sql
      ([VStr (snap_AccountID s), VStr (snap_Date s), VFloat (to_yuan (snap_TotalValue s)), VInt (snap_CreatedAt s)] @
       [VFloat (to_yuan (snap_TotalValue s))]) = (r, db')" "isl r = isl res"
    using assms(2) by (auto simp: model_UpsertSnapshot_def split: prod.splits sum.splits)
  show ?thesis using upsert_fair [OF assms(1) parse_upsert_snapshot _ _ _ _ _ _ _ _ r(1)] r(2)
    by (simp add: snapshot_keys coltype_of_def snapshot_schema)
qed

lemma UpsertConfig_fair:
  assumes "wf db" "UpsertConfig exec db acc c n = (res, db')"
  shows "fair acc db (isl res) db'"
proof -
  obtain r where r: "ExecContext exec db upsert_config_sql
      ([VStr acc, VFloat (to_yuan c), VInt n] @ [VFloat (to_yuan c), VInt n]) = (r, db')" "isl r = isl res"
    using assms(2) by (auto simp: UpsertConfig_def split: prod.splits sum.splits)
  show ?thesis using upsert_fair [OF assms(1) parse_upsert_config _ _ _ _ _ _ _ _ r(1)] r(2)
    by (simp add: config_keys coltype_of_def config_schema)
qed

lemma UpsertSnapshot_fair:
  assumes "wf db" "UpsertSnapshot exec db (Some acc) n date v = (res, db')"
  shows "fair acc db (isl res) db'"
  using assms(2) model_UpsertSnapshot_fair [OF assms(1)] assms(1)
  by (fastforce simp: UpsertSnapshot_def accountIDFromCtx_def split: if_splits prod.splits sum.splits)

lemma UpdateConfig_fair:
  assumes "wf db" "UpdateConfig exec db (Some acc) n c = (res, db')"
  shows "fair acc db (isl res) db'"
  using assms(2) UpsertConfig_fair [OF assms(1)] assms(1)
  by (fastforce simp: UpdateConfig_def accountIDFromCtx_def split: if_splits prod.splits sum.splits)

end

end
