(* ===== verification/Profile.thy ===== *)
theory Profile
  imports Entity
begin

text \<open>
  User profiles of \<open>personal-core\<close>: \<open>pkg/model/profile.go\<close> and \<open>pkg/service/profile.go\<close>. The
  profile is created on the first read; an update writes the non-empty fields and reads the row
  back.
\<close>

section \<open>model/profile.go\<close>

record ProfileRow =
  prof_ID :: int
  prof_AccountID :: string
  prof_Nickname :: string
  prof_Email :: string
  prof_Bio :: string
  prof_AvatarURL :: string
  prof_DeletedAt :: int
  prof_CreatedAt :: int
  prof_UpdatedAt :: int

definition TableNameProfiles :: string where "TableNameProfiles = ''profiles''"

definition ProfileColumnsWithID :: "string list" where
  "ProfileColumnsWithID =
     [''id'', ''account_id'', ''nickname'', ''email'', ''bio'', ''avatar_url'', ''deleted_at'', ''created_at'', ''updated_at'']"

definition scanProfile :: "sqlval list \<Rightarrow> goerr + ProfileRow" where
  "scanProfile vs =
     (case vs of
        [v1, v2, v3, v4, v5, v6, v7, v8, v9] \<Rightarrow>
          bind_res (scan_int v1) (\<lambda>i. bind_res (scan_str v2) (\<lambda>a. bind_res (scan_str v3) (\<lambda>n.
          bind_res (scan_str v4) (\<lambda>em. bind_res (scan_str v5) (\<lambda>b. bind_res (scan_str v6) (\<lambda>av.
          bind_res (scan_int v7) (\<lambda>del. bind_res (scan_int v8) (\<lambda>cr. bind_res (scan_int v9) (\<lambda>up.
            Inr \<lparr>prof_ID = i, prof_AccountID = a, prof_Nickname = n, prof_Email = em, prof_Bio = b,
                 prof_AvatarURL = av, prof_DeletedAt = del, prof_CreatedAt = cr, prof_UpdatedAt = up\<rparr>)))))))))
      | _ \<Rightarrow> Inl scan_error)"

definition profile_fields :: "ProfileRow \<Rightarrow> (string \<times> sqlval) list" where
  "profile_fields p =
     [(''account_id'', VStr (prof_AccountID p)), (''nickname'', VStr (prof_Nickname p)), (''email'', VStr (prof_Email p)),
      (''bio'', VStr (prof_Bio p)), (''avatar_url'', VStr (prof_AvatarURL p)), (''deleted_at'', VInt (prof_DeletedAt p)),
      (''created_at'', VInt (prof_CreatedAt p)), (''updated_at'', VInt (prof_UpdatedAt p))]"

definition InsertProfile :: "'db Exec \<Rightarrow> 'db \<Rightarrow> ProfileRow \<Rightarrow> (goerr + int) \<times> 'db" where
  "InsertProfile exec db p = InsertCtx exec db TableNameProfiles (profile_fields p)"

definition SelectProfileByAccountID :: "'db Exec \<Rightarrow> 'db \<Rightarrow> string \<Rightarrow> goerr + ProfileRow" where
  "SelectProfileByAccountID exec db accountID =
     no_rows (QueryOneCtx exec db
       (query_Where [WithEq ''account_id'' (VStr accountID), WithEq ''deleted_at'' (VInt 0)]
        (query_Table TableNameProfiles (query_Columns ProfileColumnsWithID NewQuery)))
       (row_scan scanProfile))"

definition UpdateProfileByAccountID ::
  "'db Exec \<Rightarrow> 'db \<Rightarrow> string \<Rightarrow> (string \<times> sqlval) list \<Rightarrow> (goerr + int) \<times> 'db" where
  "UpdateProfileByAccountID exec db accountID updates =
     UpdateCtx exec db TableNameProfiles updates
       [WithEq ''account_id'' (VStr accountID), WithEq ''deleted_at'' (VInt 0)]"

section \<open>service/profile.go\<close>

record ProfileInfo =
  inf_Id :: int
  inf_AccountId :: string
  inf_Nickname :: string
  inf_Email :: string
  inf_Bio :: string
  inf_AvatarUrl :: string
  inf_CreatedAt :: int
  inf_UpdatedAt :: int

record UpdateProfileRequest =
  rpf_Nickname :: string
  rpf_Email :: string
  rpf_Bio :: string
  rpf_AvatarUrl :: string

definition profileToPB :: "ProfileRow \<Rightarrow> ProfileInfo" where
  "profileToPB p =
     \<lparr>inf_Id = prof_ID p, inf_AccountId = prof_AccountID p, inf_Nickname = prof_Nickname p, inf_Email = prof_Email p,
      inf_Bio = prof_Bio p, inf_AvatarUrl = prof_AvatarURL p, inf_CreatedAt = prof_CreatedAt p,
      inf_UpdatedAt = prof_UpdatedAt p\<rparr>"

definition GetProfile ::
  "'db Exec \<Rightarrow> 'db \<Rightarrow> string option \<Rightarrow> int \<Rightarrow> (status + ProfileInfo) \<times> 'db" where
  "GetProfile exec db ctx n =
     (case accountIDFromCtx ctx of
        Inl st \<Rightarrow> (Inl st, db)
      | Inr accountID \<Rightarrow>
          (case SelectProfileByAccountID exec db accountID of
             Inl e \<Rightarrow>
               (if e = ErrNotFound then
                  (let p = \<lparr>prof_ID = 0, prof_AccountID = accountID, prof_Nickname = [], prof_Email = [], prof_Bio = [],
                            prof_AvatarURL = [], prof_DeletedAt = 0, prof_CreatedAt = n, prof_UpdatedAt = n\<rparr>
                   in case InsertProfile exec db p of
                        (Inl e', db') \<Rightarrow> (Inl internal_error, db')
                      | (Inr i, db') \<Rightarrow> (Inr (profileToPB p), db'))
                else (Inl internal_error, db))
           | Inr p \<Rightarrow> (Inr (profileToPB p), db)))"

definition profile_updates :: "UpdateProfileRequest \<Rightarrow> int \<Rightarrow> (string \<times> sqlval) list" where
  "profile_updates req n =
     [(''updated_at'', VInt n)] @
     (if rpf_Nickname req \<noteq> [] then [(''nickname'', VStr (rpf_Nickname req))] else []) @
     (if rpf_Email req \<noteq> [] then [(''email'', VStr (rpf_Email req))] else []) @
     (if rpf_Bio req \<noteq> [] then [(''bio'', VStr (rpf_Bio req))] else []) @
     (if rpf_AvatarUrl req \<noteq> [] then [(''avatar_url'', VStr (rpf_AvatarUrl req))] else [])"

definition UpdateProfile ::
  "'db Exec \<Rightarrow> 'db \<Rightarrow> string option \<Rightarrow> int \<Rightarrow> UpdateProfileRequest \<Rightarrow> (status + ProfileInfo) \<times> 'db" where
  "UpdateProfile exec db ctx n req =
     (case accountIDFromCtx ctx of
        Inl st \<Rightarrow> (Inl st, db)
      | Inr accountID \<Rightarrow>
          (case UpdateProfileByAccountID exec db accountID (profile_updates req n) of
             (Inl e, db') \<Rightarrow> (Inl internal_error, db')
           | (Inr k, db') \<Rightarrow>
               (case SelectProfileByAccountID exec db' accountID of
                  Inl e \<Rightarrow> (Inl internal_error, db')
                | Inr p \<Rightarrow> (Inr (profileToPB p), db'))))"

section \<open>Rows and queries\<close>

definition profile_of :: "row \<Rightarrow> ProfileRow" where
  "profile_of r =
     \<lparr>prof_ID = val_int (r ''id''), prof_AccountID = val_str (r ''account_id''), prof_Nickname = val_str (r ''nickname''),
      prof_Email = val_str (r ''email''), prof_Bio = val_str (r ''bio''), prof_AvatarURL = val_str (r ''avatar_url''),
      prof_DeletedAt = val_int (r ''deleted_at''), prof_CreatedAt = val_int (r ''created_at''),
      prof_UpdatedAt = val_int (r ''updated_at'')\<rparr>"

lemma profile_columns: "ProfileColumnsWithID \<noteq> []" "ProfileColumnsWithID \<noteq> [''COUNT(*)'']"
  "list_all ident ProfileColumnsWithID"
  by (simp_all add: ProfileColumnsWithID_def name_defs)

lemma profile_schema: "map_of schema TableNameProfiles =
  Some [(''id'', CTInt), (''account_id'', CTText), (''nickname'', CTText), (''email'', CTText),
        (''bio'', CTText), (''avatar_url'', CTText), (''created_at'', CTInt), (''updated_at'', CTInt),
        (''deleted_at'', CTInt)]"
  by (simp add: schema_def TableNameProfiles_def)

lemma profile_keys: "uniq_of TableNameProfiles = [[''account_id'', ''deleted_at'']]"
  by (simp add: uniq_of_def TableNameProfiles_def)

lemma profile_table: "word_ok TableNameProfiles" "coltype_of TableNameProfiles ''account_id'' = Some CTText"
  "coltype_of TableNameProfiles ''deleted_at'' = Some CTInt"
  by (simp_all add: coltype_of_def profile_schema) (simp_all add: TableNameProfiles_def word_ok_def)

lemma scanProfile_typed:
  "typed_row TableNameProfiles r \<Longrightarrow> scanProfile (proj ProfileColumnsWithID r) = Inr (profile_of r)"
  by (simp add: typed_row_def profile_schema ProfileColumnsWithID_def proj_def scanProfile_def scan_typed profile_of_def)

lemma scanProfile_plain: "plain_err (scanProfile vs)"
  unfolding scanProfile_def by (auto intro!: plain_err_intros split: list.split)

definition profile_query :: "string \<Rightarrow> query" where
  "profile_query acc = query_Where (by_account acc) (query_Table TableNameProfiles (query_Columns ProfileColumnsWithID NewQuery))"

lemma profile_query_fine: "query_fine (profile_query acc) []"
  using profile_columns by_account_simple profile_table(1) by (intro query_fineI) (simp_all add: profile_query_def query_defs)

lemma profile_fields_fine: "fields_fine (profile_fields p)"
  by (simp add: profile_fields_def fields_fine_def name_defs)

lemma profile_updates_fine: "fields_fine (profile_updates req n)" "''account_id'' \<notin> fst ` set (profile_updates req n)"
  "''deleted_at'' \<notin> fst ` set (profile_updates req n)" "''id'' \<notin> fst ` set (profile_updates req n)"
  "''created_at'' \<notin> fst ` set (profile_updates req n)"
  by (auto simp: profile_updates_def fields_fine_def name_defs)

text \<open>The live profile of an account: the row it reads.\<close>

definition live_profile :: "(sqlval \<Rightarrow> sqlval \<Rightarrow> bool) \<Rightarrow> string \<Rightarrow> row \<Rightarrow> bool" where
  "live_profile le acc r = (owned le acc r \<and> r ''deleted_at'' = VInt 0)"

section \<open>The handlers respect accounts and errors\<close>

context mysql
begin

lemma by_account_match:
  assumes "wf db" "r \<in> set (tab db TableNameProfiles)"
  shows "list_all (cond_holds le r) (by_account acc) \<longleftrightarrow> live_profile le acc r"
proof -
  obtain d where "r ''deleted_at'' = VInt d"
    using typed_col [OF wf_typed [OF assms] profile_table(3)] by (auto simp: has_type_int)
  then show ?thesis using int_eq by (auto simp: by_account_def WithEq_def live_profile_def owned_def)
qed

lemma profile_select_cases:
  assumes "wf db" "SelectProfileByAccountID exec db acc = res"
  shows "(\<exists>r \<in> set (tab db TableNameProfiles). live_profile le acc r \<and> res = Inr (profile_of r)) \<or>
    (res = Inl ErrNotFound \<and> (\<forall>r \<in> set (tab db TableNameProfiles). \<not> live_profile le acc r)) \<or>
    (\<exists>e. res = Inl e \<and> e \<noteq> ErrNotFound)"
proof -
  let ?h = "profile_query acc"
  have q: "q_table ?h = TableNameProfiles" "q_conditions ?h = by_account acc" "q_columns ?h = ProfileColumnsWithID"
    "q_limit ?h = []" by (simp_all add: profile_query_def query_defs)
  have sel: "SelectProfileByAccountID exec db acc = no_rows (QueryOneCtx exec db ?h (row_scan scanProfile))"
    by (simp add: SelectProfileByAccountID_def profile_query_def by_account_def)
  from QueryOneCtx_cases [OF assms(1) profile_query_fine q(4) _ refl, unfolded q, OF profile_columns(2)]
  consider (err) e where "QueryOneCtx exec db ?h (row_scan scanProfile) = Inl e" "e \<noteq> ErrNoRows" "e \<noteq> ErrNotFound"
    | (rows) xs where "delivers le (tab db TableNameProfiles) (by_account acc) [] xs"
        "row_scan scanProfile (case xs of [] \<Rightarrow> None | r # _ \<Rightarrow> Some (proj ProfileColumnsWithID r)) =
         QueryOneCtx exec db ?h (row_scan scanProfile)"
    by blast
  then show ?thesis
  proof cases
    case err
    then show ?thesis using sel assms(2) by (simp add: no_rows_def)
  next
    case rows
    note d = delivers_set [OF rows(1)]
    show ?thesis
    proof (cases xs)
      case Nil
      then have "\<forall>r \<in> set (tab db TableNameProfiles). \<not> live_profile le acc r"
        using d by_account_match [OF assms(1)] by (auto simp: matching_def filter_empty_conv)
      moreover have "res = Inl ErrNotFound" using rows(2) [symmetric] Nil sel assms(2) by (simp add: row_scan_def no_rows_def)
      ultimately show ?thesis by blast
    next
      case (Cons r rs)
      then have "r \<in> set (matching le (by_account acc) (tab db TableNameProfiles))" using d by auto
      then have r: "r \<in> set (tab db TableNameProfiles)" "live_profile le acc r"
        using by_account_match [OF assms(1)] by (auto simp: matching_def)
      then have "res = Inr (profile_of r)"
        using rows(2) [symmetric] Cons sel assms(2) scanProfile_typed [OF wf_typed [OF assms(1) r(1)]]
        by (simp add: row_scan_def no_rows_def)
      then show ?thesis using r by blast
    qed
  qed
qed

lemma InsertProfile_fair:
  assumes "wf db" "InsertProfile exec db p = (res, db')"
  shows "fair (prof_AccountID p) db (isl res) db'"
  using insert_fair [OF assms(1) profile_table(1) profile_fields_fine profile_table(2), of p] assms(2)
  by (simp add: InsertProfile_def profile_fields_def)

lemma GetProfile_fair:
  assumes "wf db" "GetProfile exec db (Some acc) n = (res, db')"
  shows "fair acc db (isl res) db'"
  using assms(2) InsertProfile_fair [OF assms(1)] assms(1)
  by (fastforce simp: GetProfile_def Let_def accountIDFromCtx_def split: if_splits prod.splits sum.splits)

lemma UpdateProfileByAccountID_done:
  assumes "wf db" "fields_fine fs" "UpdateProfileByAccountID exec db acc fs = (res, db')"
  shows "wf db' \<and> applied lost tab res db db' ((tab db)(TableNameProfiles :=
        map (\<lambda>r. if live_profile le acc r then updated conv TableNameProfiles fs r else r) (tab db TableNameProfiles)))"
proof -
  have u: "UpdateCtx exec db TableNameProfiles fs (by_account acc) = (res, db')"
    using assms(3) by (simp add: UpdateProfileByAccountID_def by_account_def)
  have wf': "wf db'" using wf_UpdateCtx [OF assms(1), of TableNameProfiles fs "by_account acc"] u by simp
  have m: "map (\<lambda>r. if list_all (cond_holds le r) (by_account acc) then updated conv TableNameProfiles fs r else r)
      (tab db TableNameProfiles) =
    map (\<lambda>r. if live_profile le acc r then updated conv TableNameProfiles fs r else r) (tab db TableNameProfiles)"
    using by_account_match [OF assms(1)] by (intro map_cong) auto
  show ?thesis using wf' UpdateCtx_applied [OF assms(1) profile_table(1) assms(2) by_account_simple u] m by simp
qed

text \<open>\<open>UpdateProfile\<close> reports an error also when only its second statement, the read-back, fails:
  its effect is then in the database.\<close>

lemma UpdateProfile_isolated:
  assumes "wf db" "UpdateProfile exec db (Some acc) n req = (res, db')"
  shows "fair acc db False db'"
proof (cases "acc = []")
  case True
  then show ?thesis using assms by (simp add: UpdateProfile_def accountIDFromCtx_def)
next
  case False
  obtain r db1 where u: "UpdateProfileByAccountID exec db acc (profile_updates req n) = (r, db1)" by fastforce
  have "db' = db1" using assms(2) u False
    by (auto simp: UpdateProfile_def accountIDFromCtx_def split: sum.splits)
  moreover note upd = UpdateProfileByAccountID_done [OF assms(1) profile_updates_fine(1) u]
  moreover have "foreign le acc (tab db1) = foreign le acc (tab db)"
    using upd foreign_update [of "tab db" TableNameProfiles "live_profile le acc" le acc, OF _ profile_updates_fine(2)]
    by (auto simp: live_profile_def elim: applied_cases)
  moreover have "tombs_kept (tab db) (tab db1)"
    using upd tombs_kept_update [of "tab db" TableNameProfiles "live_profile le acc"]
    by (auto simp: live_profile_def elim: applied_cases)
  ultimately show ?thesis by (simp add: fair_step_def)
qed

end

end
