(* ===== verification/RefDb.thy ===== *)
theory RefDb
  imports MySql "HOL-Library.Product_Lexorder"
begin

text \<open>
  A reference database engine: it parses the statement it is sent, evaluates it on tables held as
  lists of rows and refuses a statement that would break a column type, the primary key or a
  unique key. The interpretation at the end shows that it fulfils the contract \<open>mysql\<close>, so the
  contract is consistent, and gives the theorems about the services a database to run on.
\<close>

section \<open>Dates in text\<close>

definition parse_date :: "string \<Rightarrow> (int \<times> int \<times> int) option" where
  "parse_date s =
     (let y = int (num_of (take 4 s)); m = int (num_of (take 2 (drop 5 s))); d = int (num_of (take 2 (drop 8 s)))
      in if s = date_text y m d \<and> valid_date y m d then Some (y, m, d) else None)"

lemma num_of_zeros: "num_of (replicate k (CHR ''0'') @ s) = num_of s"
  by (induction k) (simp_all add: num_of_def)

lemma pad0_num: "0 \<le> i \<Longrightarrow> num_of (pad0 w i) = nat i"
  by (simp add: pad0_def num_of_zeros)

lemma pad0_length: "0 \<le> i \<Longrightarrow> 0 < w \<Longrightarrow> nat i < 10 ^ w \<Longrightarrow> length (pad0 w i) = w"
  using length_nat_str [of w "nat i"] by (simp add: pad0_def)

lemma parse_date_text [simp]:
  assumes "valid_date y m d" shows "parse_date (date_text y m d) = Some (y, m, d)"
proof -
  have b: "0 \<le> y" "y \<le> 9999" "1 \<le> m" "m \<le> 12" "1 \<le> d" "d \<le> 31"
    using assms by (auto simp: valid_date_def days_in_def split: if_splits)
  have l: "length (pad0 4 y) = 4" "length (pad0 2 m) = 2" "length (pad0 2 d) = 2"
    using b by (auto intro!: pad0_length)
  have "take 4 (date_text y m d) = pad0 4 y" "take 2 (drop 5 (date_text y m d)) = pad0 2 m"
    "take 2 (drop 8 (date_text y m d)) = pad0 2 d"
    using l by (simp_all add: date_text_def)
  then show ?thesis using assms b by (simp add: parse_date_def pad0_num Let_def)
qed

lemma parse_date_Some: "parse_date s = Some (y, m, d) \<Longrightarrow> valid_date y m d \<and> s = date_text y m d"
  by (auto simp: parse_date_def Let_def split: if_splits)

section \<open>Comparison, conversion, defaults\<close>

fun codes_le :: "nat list \<Rightarrow> nat list \<Rightarrow> bool" where
  "codes_le [] ys = True"
| "codes_le (x # xs) [] = False"
| "codes_le (x # xs) (y # ys) = (x < y \<or> (x = y \<and> codes_le xs ys))"

lemma codes_le_refl: "codes_le xs xs"
  by (induction xs) auto

lemma codes_le_total: "codes_le xs ys \<or> codes_le ys xs"
  by (induction xs ys rule: codes_le.induct) auto

lemma codes_le_trans: "codes_le xs ys \<Longrightarrow> codes_le ys zs \<Longrightarrow> codes_le xs zs"
proof (induction xs ys arbitrary: zs rule: codes_le.induct)
  case (3 x xs y ys)
  then show ?case by (cases zs) auto
qed auto

text \<open>Numbers compare as numbers, dates (and texts that are dates) as dates, other texts by their
  bytes.\<close>

definition date_num :: "int \<times> int \<times> int \<Rightarrow> rat" where
  "date_num d = (case d of (y, m, dd) \<Rightarrow> of_int (y * 10000 + m * 100 + dd))"

fun ref_key :: "sqlval \<Rightarrow> nat \<times> rat" where
  "ref_key VNull = (0, 0)"
| "ref_key (VInt i) = (1, of_int i)"
| "ref_key (VDec c) = (1, of_int c / 100)"
| "ref_key (VFloat x) = (1, x)"
| "ref_key (VBool b) = (1, if b then 1 else 0)"
| "ref_key (VDate y m d z) = (2, date_num (y, m, d))"
| "ref_key (VStr s) = (case parse_date s of Some d \<Rightarrow> (2, date_num d) | None \<Rightarrow> (3, 0))"

fun ref_codes :: "sqlval \<Rightarrow> nat list" where
  "ref_codes (VStr s) = (case parse_date s of Some d \<Rightarrow> [] | None \<Rightarrow> map of_char s)"
| "ref_codes v = []"

definition ref_le :: "sqlval \<Rightarrow> sqlval \<Rightarrow> bool" where
  "ref_le a b = (ref_key a < ref_key b \<or> (ref_key a = ref_key b \<and> codes_le (ref_codes a) (ref_codes b)))"

lemma ref_le_refl: "ref_le a a"
  by (simp add: ref_le_def codes_le_refl)

lemma ref_le_total: "ref_le a b \<or> ref_le b a"
  using codes_le_total by (auto simp: ref_le_def)

lemma lex_trans:
  fixes x y z :: "'a :: order"
  assumes "x < y \<or> (x = y \<and> P)" "y < z \<or> (y = z \<and> Q)" "P \<Longrightarrow> Q \<Longrightarrow> R"
  shows "x < z \<or> (x = z \<and> R)"
  using assms by auto

lemma ref_le_trans: "ref_le a b \<Longrightarrow> ref_le b c \<Longrightarrow> ref_le a c"
  unfolding ref_le_def by (erule lex_trans, assumption, rule codes_le_trans)

lemma date_num_le:
  assumes "valid_date y m d" "valid_date y' m' d'"
  shows "date_num (y, m, d) \<le> date_num (y', m', d') \<longleftrightarrow> date_le (y, m, d) (y', m', d')"
proof -
  have "1 \<le> m" "m \<le> 12" "1 \<le> d" "d \<le> 31" "1 \<le> m'" "m' \<le> 12" "1 \<le> d'" "d' \<le> 31"
    using assms by (auto simp: valid_date_def days_in_def split: if_splits)
  then show ?thesis unfolding date_num_def date_le_def prod.case of_int_le_iff
    by (cases y y' rule: linorder_cases; cases m m' rule: linorder_cases) auto
qed

definition ref_conv :: "string \<Rightarrow> string \<Rightarrow> sqlval \<Rightarrow> sqlval" where
  "ref_conv t c v =
     (case coltype_of t c of
        None \<Rightarrow> v
      | Some ct \<Rightarrow>
          (case v of
             VBool b \<Rightarrow> (if ct = CTInt then VInt (if b then 1 else 0) else VNull)
           | VFloat x \<Rightarrow> (if ct = CTDec then VDec \<lfloor>x * 100 + 1 / 2\<rfloor> else VNull)
           | VStr s \<Rightarrow>
               (if ct = CTInt then (case parse_int s of Some i \<Rightarrow> VInt i | None \<Rightarrow> VNull)
                else if ct = CTDate then (case parse_date s of Some (y, m, d) \<Rightarrow> VDate y m d ''Z'' | None \<Rightarrow> VNull)
                else v)
           | _ \<Rightarrow> v))"

definition ref_dflt :: "string \<Rightarrow> string \<Rightarrow> sqlval" where
  "ref_dflt t c =
     (if t = ''accounts'' \<and> c = ''role'' then VStr ''user''
      else if c = ''status'' \<and> t \<noteq> ''login_history'' then VInt 1
      else case coltype_of t c of
             Some CTInt \<Rightarrow> VInt 0 | Some CTText \<Rightarrow> VStr [] | Some CTDec \<Rightarrow> VDec 0 | _ \<Rightarrow> VNull)"

section \<open>The engine\<close>

record refdb =
  rd_tabs :: "string \<Rightarrow> row list"
  rd_next :: int

definition ref_empty :: refdb where
  "ref_empty = \<lparr>rd_tabs = (\<lambda>_. []), rd_next = 1\<rparr>"

fun insort_row :: "(string \<times> bool) list \<Rightarrow> row \<Rightarrow> row list \<Rightarrow> row list" where
  "insort_row os r [] = [r]"
| "insort_row os r (s # ss) = (if ord_le ref_le os r s then r # s # ss else s # insort_row os r ss)"

definition sort_rows :: "(string \<times> bool) list \<Rightarrow> row list \<Rightarrow> row list" where
  "sort_rows os rs = foldr (insort_row os) rs []"

definition ref_select ::
  "refdb \<Rightarrow> string list \<Rightarrow> string \<Rightarrow> wcond list \<Rightarrow> (string \<times> bool) list \<Rightarrow> bool \<Rightarrow> sqlval list \<Rightarrow> sqlval list list option" where
  "ref_select db cols t ws os lmt args =
     (if lmt then
        (let wargs = take (length args - 2) args;
             xs = sort_rows os (filter (wmatch ref_le ws wargs) (rd_tabs db t))
         in case drop (length args - 2) args of
              [VInt off, VInt cnt] \<Rightarrow> Some (map (proj cols) (take (nat cnt) (drop (nat off) xs)))
            | _ \<Rightarrow> None)
      else
        (let xs = sort_rows os (filter (wmatch ref_le ws args) (rd_tabs db t))
         in Some (if cols = [''COUNT(*)''] then [[VInt (int (length xs))]] else map (proj cols) xs)))"

definition uniq_ok :: "string \<Rightarrow> row list \<Rightarrow> bool" where
  "uniq_ok t rows = list_all (\<lambda>ks. sorted_wrt (\<lambda>r s. \<not> same_key ref_le ks r s) rows) (uniq_of t)"

definition id_below :: "int \<Rightarrow> sqlval \<Rightarrow> bool" where
  "id_below n v = (case v of VInt i \<Rightarrow> i < n | _ \<Rightarrow> False)"

definition rows_ok :: "int \<Rightarrow> string \<Rightarrow> row list \<Rightarrow> bool" where
  "rows_ok n t rows =
     (list_all (typed_row t) rows \<and> keys_ok rows \<and> uniq_ok t rows \<and> list_all (\<lambda>r. id_below n (r ''id'')) rows)"

definition ref_wf :: "refdb \<Rightarrow> bool" where
  "ref_wf db = (0 < rd_next db \<and> (\<forall>t. rows_ok (rd_next db) t (rd_tabs db t)))"

text \<open>A statement's new table is installed only when it respects the constraints.\<close>

definition ref_commit ::
  "refdb \<Rightarrow> string \<Rightarrow> row list \<Rightarrow> int \<Rightarrow> int \<Rightarrow> int \<Rightarrow> (goerr + int \<times> int) \<times> refdb" where
  "ref_commit db t rows next i n =
     (if rows_ok next t rows
      then (Inr (i, n), \<lparr>rd_tabs = (rd_tabs db)(t := rows), rd_next = next\<rparr>)
      else (Inl (MySQLError 1366 ''constraint violated''), db))"

definition ref_stmt :: "refdb \<Rightarrow> stmt \<Rightarrow> sqlval list \<Rightarrow> (goerr + int \<times> int) \<times> refdb" where
  "ref_stmt db st args =
     (case st of
        SInsert t cols ucols \<Rightarrow>
          (let vals = take (length cols) args; uvals = drop (length cols) args;
               i = rd_next db; r = inserted ref_conv ref_dflt t (zip cols vals) i in
           if conflicts ref_le (uniq_of t) (rd_tabs db t) r then
             (if ucols = [] then (Inl (MySQLError 1062 ''Duplicate entry''), db)
              else ref_commit db t
                (map (\<lambda>s. if \<exists>ks \<in> set (uniq_of t). same_key ref_le ks s r
                          then updated ref_conv t (zip ucols uvals) s else s) (rd_tabs db t)) i i 2)
           else ref_commit db t (rd_tabs db t @ [r]) (i + 1) i 1)
      | SUpdate t cols ws \<Rightarrow>
          (let fs = zip cols (take (length cols) args); wargs = drop (length cols) args in
           ref_commit db t
             (map (\<lambda>r. if wmatch ref_le ws wargs r then updated ref_conv t fs r else r) (rd_tabs db t))
             (rd_next db) 0
             (int (length (filter (\<lambda>r. wmatch ref_le ws wargs r \<and> row_changed ref_conv t fs r) (rd_tabs db t)))))
      | SDelete t ws \<Rightarrow>
          ref_commit db t (filter (\<lambda>r. \<not> wmatch ref_le ws args r) (rd_tabs db t)) (rd_next db) 0
            (int (length (filter (wmatch ref_le ws args) (rd_tabs db t))))
      | SSelect cols t ws os lmt \<Rightarrow> (Inr (0, 0), db))"

definition syntax_error :: goerr where
  "syntax_error = MySQLError 1064 ''You have an error in your SQL syntax''"

definition ref_exec :: "refdb Exec" where
  "ref_exec =
     \<lparr>ExecContext = (\<lambda>db sql args.
        case parse sql of None \<Rightarrow> (Inl syntax_error, db) | Some st \<Rightarrow> ref_stmt db st args),
      QueryContext = (\<lambda>db sql args.
        case parse sql of
          Some (SSelect cols t ws os lmt) \<Rightarrow>
            (case ref_select db cols t ws os lmt args of None \<Rightarrow> Inl syntax_error | Some rows \<Rightarrow> Inr (rows, None))
        | _ \<Rightarrow> Inl syntax_error),
      QueryRowContext = (\<lambda>db sql args.
        case parse sql of
          Some (SSelect cols t ws os lmt) \<Rightarrow>
            (case ref_select db cols t ws os lmt args of
               None \<Rightarrow> Inl syntax_error
             | Some rows \<Rightarrow> Inr (case rows of [] \<Rightarrow> None | r # _ \<Rightarrow> Some r))
        | _ \<Rightarrow> Inl syntax_error)\<rparr>"

section \<open>The engine fulfils the contract\<close>

lemma ord_le_total: "ord_le ref_le os r s \<or> ord_le ref_le os s r"
  by (induction os) (use ref_le_total in auto)

text \<open>\<open>ord_le\<close> as a lexicographic order: strictly before, or equal and ordered by the rest.\<close>

lemma ord_le_trans: "ord_le ref_le os r s \<Longrightarrow> ord_le ref_le os s u \<Longrightarrow> ord_le ref_le os r u"
proof (induction os)
  case (Cons o1 os)
  obtain c asc where o1: "o1 = (c, asc)" by fastforce
  define lt where "lt = (\<lambda>a b :: row. if asc then \<not> ref_le (b c) (a c) else \<not> ref_le (a c) (b c))"
  define eqv where "eqv = (\<lambda>a b :: row. ref_le (a c) (b c) \<and> ref_le (b c) (a c))"
  have ol: "ord_le ref_le (o1 # os) a b \<longleftrightarrow> lt a b \<or> (eqv a b \<and> ord_le ref_le os a b)" for a b
    by (simp add: o1 lt_def eqv_def)
  have ll: "lt r s \<Longrightarrow> lt s u \<Longrightarrow> lt r u" and le: "lt r s \<Longrightarrow> eqv s u \<Longrightarrow> lt r u"
    and el: "eqv r s \<Longrightarrow> lt s u \<Longrightarrow> lt r u" and ee: "eqv r s \<Longrightarrow> eqv s u \<Longrightarrow> eqv r u"
    unfolding lt_def eqv_def by (metis ref_le_trans ref_le_total)+
  show ?case using Cons ll le el ee unfolding ol by blast
qed simp

lemma mset_insort_row: "mset (insort_row os r ss) = add_mset r (mset ss)"
  by (induction ss) auto

lemma mset_sort_rows: "mset (sort_rows os rs) = mset rs"
  by (induction rs) (simp_all add: sort_rows_def mset_insort_row)

lemma sorted_insort_row:
  "sorted_wrt (ord_le ref_le os) ss \<Longrightarrow> sorted_wrt (ord_le ref_le os) (insort_row os r ss)"
proof (induction ss)
  case (Cons s ss)
  have set: "set (insort_row os r ss) = insert r (set ss)"
    using mset_insort_row [of os r ss] by (metis set_mset_add_mset_insert set_mset_mset)
  show ?case using Cons ord_le_total [of os r s] by (auto simp: set intro: ord_le_trans)
qed simp

lemma sorted_sort_rows: "sorted_wrt (ord_le ref_le os) (sort_rows os rs)"
  by (induction rs) (simp_all add: sort_rows_def sorted_insort_row)

lemma ref_select_ok:
  "ref_select db cols t ws os lmt args = Some rows \<Longrightarrow> select_result ref_le (rd_tabs db) cols t ws os lmt args rows"
proof -
  assume r: "ref_select db cols t ws os lmt args = Some rows"
  let ?s = "\<lambda>wargs. sort_rows os (filter (wmatch ref_le ws wargs) (rd_tabs db t))"
  show ?thesis
  proof (cases lmt)
    case True
    let ?w = "take (length args - 2) args"
    obtain off cnt where oc: "drop (length args - 2) args = [VInt off, VInt cnt]"
      "rows = map (proj cols) (take (nat cnt) (drop (nat off) (?s ?w)))"
      using r True by (auto simp: ref_select_def Let_def split: list.splits sqlval.splits)
    have "args = ?w @ [VInt off, VInt cnt]" using oc(1) by (metis append_take_drop_id)
    then show ?thesis using True oc unfolding select_result_def
      by (intro exI [of _ ?w] exI [of _ "?s ?w"]) (auto simp: mset_sort_rows sorted_sort_rows)
  next
    case False
    then show ?thesis using r unfolding select_result_def
      by (intro exI [of _ args] exI [of _ "?s args"]) (auto simp: ref_select_def Let_def mset_sort_rows sorted_sort_rows)
  qed
qed

lemma sorted_wrt_in:
  assumes "sorted_wrt P xs" "x \<in> set xs" "y \<in> set xs" "x \<noteq> y" shows "P x y \<or> P y x"
proof -
  obtain i j where "i < length xs" "j < length xs" "x = xs ! i" "y = xs ! j"
    using assms(2,3) by (auto simp: in_set_conv_nth)
  then show ?thesis using assms(1,4) sorted_wrt_nth_less [of P xs i j] sorted_wrt_nth_less [of P xs j i]
    by (cases i j rule: linorder_cases) auto
qed

lemma same_key_sym: "same_key le ks r s \<Longrightarrow> same_key le ks s r"
  by (auto simp: same_key_def)

lemma ref_commit_cases:
  "ref_commit db t rows nx i n = (Inr (i', n'), db') \<Longrightarrow>
     i' = i \<and> n' = n \<and> rows_ok nx t rows \<and> rd_tabs db' = (rd_tabs db)(t := rows) \<and> rd_next db' = nx"
  "ref_commit db t rows nx i n = (Inl e, db') \<Longrightarrow> db' = db"
  by (auto simp: ref_commit_def split: if_splits)

lemma id_below_mono: "id_below n v \<Longrightarrow> n \<le> m \<Longrightarrow> id_below m v"
  by (auto simp: id_below_def split: sqlval.splits)

lemma rows_ok_mono: "rows_ok n t rows \<Longrightarrow> n \<le> m \<Longrightarrow> rows_ok m t rows"
  by (auto simp: rows_ok_def list_all_iff intro: id_below_mono)

lemma ref_commit_wf: "ref_wf db \<Longrightarrow> rd_next db \<le> nx \<Longrightarrow> ref_wf (snd (ref_commit db t rows nx i n))"
  by (auto simp: ref_commit_def ref_wf_def intro: rows_ok_mono)

lemma ref_stmt_wf: "ref_wf db \<Longrightarrow> ref_wf (snd (ref_stmt db st args))"
  by (cases st) (simp_all add: ref_stmt_def Let_def ref_commit_wf)

lemma ref_stmt_err: "ref_stmt db st args = (Inl e, db') \<Longrightarrow> db' = db"
  by (cases st) (auto simp: ref_stmt_def Let_def split: if_splits dest: ref_commit_cases)

lemma ref_exec_simps:
  "ExecContext ref_exec db sql args =
     (case parse sql of None \<Rightarrow> (Inl syntax_error, db) | Some st \<Rightarrow> ref_stmt db st args)"
  by (simp add: ref_exec_def)

lemma ref_fresh:
  assumes "ref_wf db" shows "VInt (rd_next db) \<notin> (\<lambda>r. r ''id'') ` set (rd_tabs db t)"
proof
  assume "VInt (rd_next db) \<in> (\<lambda>r. r ''id'') ` set (rd_tabs db t)"
  then obtain r where "r \<in> set (rd_tabs db t)" "r ''id'' = VInt (rd_next db)" by auto
  moreover have "rows_ok (rd_next db) t (rd_tabs db t)" using assms by (simp add: ref_wf_def)
  ultimately show False by (auto simp: rows_ok_def list_all_iff id_below_def)
qed

lemma ref_uniq:
  assumes "ref_wf db" "ks \<in> set (uniq_of t)" "r \<in> set (rd_tabs db t)" "s \<in> set (rd_tabs db t)" "same_key ref_le ks r s"
  shows "r = s"
proof (rule ccontr)
  assume "r \<noteq> s"
  have "rows_ok (rd_next db) t (rd_tabs db t)" using assms(1) by (simp add: ref_wf_def)
  then have "sorted_wrt (\<lambda>r s. \<not> same_key ref_le ks r s) (rd_tabs db t)"
    using assms(2) by (auto simp: rows_ok_def uniq_ok_def list_all_iff)
  from sorted_wrt_in [OF this assms(3,4) \<open>r \<noteq> s\<close>] show False using assms(5) same_key_sym by auto
qed

lemma ref_dec: "\<bar>x * 100 - of_int k\<bar> < 1 / 2 \<Longrightarrow> \<lfloor>x * 100 + 1 / 2\<rfloor> = (k :: int)" for x :: rat
  by (auto simp: floor_eq_iff abs_if split: if_splits)

lemma ref_le_date:
  assumes "valid_date y m d" "valid_date y' m' d'"
  shows "ref_le (VDate y m d z) (VStr (date_text y' m' d')) \<longleftrightarrow> date_le (y, m, d) (y', m', d')"
    and "ref_le (VStr (date_text y' m' d')) (VDate y m d z) \<longleftrightarrow> date_le (y', m', d') (y, m, d)"
  using assms date_num_le [OF assms] date_num_le [OF assms(2,1)] by (auto simp: ref_le_def)

lemma ref_insert:
  assumes "ref_wf db" "length args = length cols" "ref_stmt db (SInsert t cols []) args = (Inr (i, n), db')"
  shows "0 < i \<and> VInt i \<notin> (\<lambda>r. r ''id'') ` set (rd_tabs db t) \<and>
    \<not> conflicts ref_le (uniq_of t) (rd_tabs db t) (inserted ref_conv ref_dflt t (zip cols args) i) \<and>
    rd_tabs db' = (rd_tabs db)(t := rd_tabs db t @ [inserted ref_conv ref_dflt t (zip cols args) i])"
  using assms ref_fresh [OF assms(1), of t]
  by (auto simp: ref_stmt_def Let_def ref_wf_def split: if_splits dest!: ref_commit_cases)

lemma ref_upsert:
  assumes "ref_wf db" "ucols \<noteq> []" "length vals = length cols" "length uvals = length ucols"
    and "ref_stmt db (SInsert t cols ucols) (vals @ uvals) = (Inr (i, n), db')"
  shows "if conflicts ref_le (uniq_of t) (rd_tabs db t) (inserted ref_conv ref_dflt t (zip cols vals) i)
          then rd_tabs db' = (rd_tabs db)(t :=
                 map (\<lambda>r. if \<exists>ks \<in> set (uniq_of t). same_key ref_le ks r (inserted ref_conv ref_dflt t (zip cols vals) i)
                          then updated ref_conv t (zip ucols uvals) r else r) (rd_tabs db t))
          else 0 < i \<and> VInt i \<notin> (\<lambda>r. r ''id'') ` set (rd_tabs db t) \<and>
               rd_tabs db' = (rd_tabs db)(t := rd_tabs db t @ [inserted ref_conv ref_dflt t (zip cols vals) i])"
  using assms ref_fresh [OF assms(1), of t]
  by (auto simp: ref_stmt_def Let_def ref_wf_def split: if_splits dest!: ref_commit_cases)

lemma ref_stmt_effect:
  assumes "ref_wf db" "args_fit st args" "ref_stmt db st args = (Inr (i, n), db')"
  shows "stmt_effect ref_le ref_conv ref_dflt st args i n (rd_tabs db) (rd_tabs db')"
proof (cases st)
  case (SInsert t cols ucols)
  define vals where "vals = take (length cols) args"
  define uvals where "uvals = drop (length cols) args"
  have l: "args = vals @ uvals" "length vals = length cols" "length uvals = length ucols"
    using assms(2) SInsert by (simp_all add: vals_def uvals_def args_fit_def)
  show ?thesis
  proof (cases "ucols = []")
    case True
    then show ?thesis using ref_insert [OF assms(1), of args cols t i n db'] assms l SInsert
      by (simp add: stmt_effect_def insert_effect_def args_fit_def)
  next
    case False
    have d: "drop (length cols) (vals @ uvals) = uvals" using l(2) by simp
    from ref_upsert [OF assms(1) False l(2,3), of t i n db'] assms(2,3) l(1) SInsert False
    show ?thesis
      by (simp add: stmt_effect_def insert_effect_def upsert_effect_def zip_append_left [OF l(2)] d del: drop_append cong: if_cong split: if_splits)
  qed
next
  case (SUpdate t cols ws)
  have z: "zip cols (take (length cols) args) = zip cols args"
    using take_zip [of "length cols" cols args] by simp
  show ?thesis using assms SUpdate
    by (auto simp: ref_stmt_def Let_def stmt_effect_def update_effect_def z dest!: ref_commit_cases)
next
  case (SDelete t ws)
  then show ?thesis using assms
    by (auto simp: ref_stmt_def Let_def stmt_effect_def delete_effect_def dest!: ref_commit_cases)
qed (use assms in \<open>simp add: args_fit_def\<close>)

interpretation refdb: mysql ref_exec ref_wf rd_tabs ref_le ref_conv ref_dflt
proof (unfold_locales, goal_cases)
  case (1 a)
  show ?case by (rule ref_le_refl)
next
  case (2 s s' s'')
  then show ?case by (rule ref_le_trans)
next
  case (3 i j)
  show ?case by (auto simp: ref_le_def)
next
  case (4 y m d y' m' d' z)
  then show ?case by (rule ref_le_date)
next
  case (5 y m d y' m' d' z)
  then show ?case by (rule ref_le_date)
next
  case (6 y m d y' m' d' z z')
  then show ?case using date_num_le [OF 6] by (auto simp: ref_le_def)
next
  case (7 t c i)
  then show ?case by (simp add: ref_conv_def)
next
  case (8 t c i)
  then show ?case by (simp add: ref_conv_def)
next
  case (9 t c b)
  then show ?case by (simp add: ref_conv_def)
next
  case (10 t c s)
  then show ?case by (simp add: ref_conv_def)
next
  case (11 t c k x)
  then show ?case using ref_dec [OF 11(3)] by (simp add: ref_conv_def)
next
  case (12 t c y m d)
  then show ?case by (simp add: ref_conv_def)
next
  case (13 db sql args)
  then show ?case by (auto simp: ref_exec_simps ref_stmt_wf split: option.splits)
next
  case (14 db r t)
  then have "rows_ok (rd_next db) t (rd_tabs db t)" by (simp add: ref_wf_def)
  then show ?case using 14 by (simp add: rows_ok_def list_all_iff)
next
  case (15 db t)
  then have "rows_ok (rd_next db) t (rd_tabs db t)" by (simp add: ref_wf_def)
  then show ?case by (simp add: rows_ok_def)
next
  case (16 db ks t r r')
  then show ?case by (rule ref_uniq)
next
  case (17 db sql st args i n db')
  then show ?case using ref_stmt_effect [OF 17(1,3)] by (simp add: ref_exec_simps)
next
  case (18 db sql st args e db')
  then show ?case by (auto simp: ref_exec_simps dest: ref_stmt_err)
next
  case (19 db sql cols t ws os lmt args rows eo)
  then show ?case using ref_select_ok by (auto simp: ref_exec_def split: option.splits)
next
  case (20 db sql cols t ws os lmt args ro)
  then obtain full where "ref_select db cols t ws os lmt args = Some full"
    "ro = (case full of [] \<Rightarrow> None | r # _ \<Rightarrow> Some r)"
    by (auto simp: ref_exec_def split: option.splits)
  then show ?case using ref_select_ok by blast
next
  case (21 db sql args e)
  then show ?case by (auto simp: ref_exec_def syntax_error_def split: option.splits stmt.splits)
qed

lemma ref_empty_wf: "ref_wf ref_empty"
  by (simp add: ref_wf_def ref_empty_def rows_ok_def keys_ok_def uniq_ok_def list_all_iff)

lemma ref_cursor_ok: "cursor_ok ref_exec db"
  by (auto simp: cursor_ok_def ref_exec_def split: option.splits stmt.splits)

section \<open>The builder on the engine\<close>

text \<open>On the engine the builder's functions compute: what a query returns, and when a write is
  accepted.\<close>

lemma ref_QueryCtx:
  assumes "query_fine h os" "q_limit h = []" "q_columns h \<noteq> [''COUNT(*)'']"
  shows "QueryCtx ref_exec db h f =
    f (map (proj (q_columns h)) (sort_rows (ord_spec os) (matching ref_le (q_conditions h) (rd_tabs db (q_table h)))))"
  using assms(1) parse_query_fine [OF assms(1)] assms(2,3)
  by (simp add: QueryCtx_def ref_exec_def snd_query_sql ref_select_def query_fine_def matching_def wmatch_fun)

lemma ref_QueryCtx_limit:
  assumes "query_fine h os" "q_limit h = [off, cnt]"
  shows "QueryCtx ref_exec db h f =
    f (map (proj (q_columns h)) (take (nat cnt) (drop (nat off)
        (sort_rows (ord_spec os) (matching ref_le (q_conditions h) (rd_tabs db (q_table h)))))))"
  using assms(1) parse_query_fine [OF assms(1)] assms(2)
  by (simp add: QueryCtx_def ref_exec_def snd_query_sql ref_select_def query_fine_def matching_def wmatch_fun)

lemma ref_QueryOneCtx:
  assumes "query_fine h os" "q_limit h = []" "q_columns h \<noteq> [''COUNT(*)'']"
  shows "QueryOneCtx ref_exec db h f =
    f (case sort_rows (ord_spec os) (matching ref_le (q_conditions h) (rd_tabs db (q_table h))) of
         [] \<Rightarrow> None | r # _ \<Rightarrow> Some (proj (q_columns h) r))"
  using assms(1) parse_query_fine [OF assms(1)] assms(2,3)
  by (simp add: QueryOneCtx_def ref_exec_def snd_query_sql ref_select_def query_fine_def matching_def wmatch_fun
      split: list.split)

lemma ref_QueryOneCtx_count:
  assumes "query_fine h os" "q_limit h = []" "q_columns h = [''COUNT(*)'']"
  shows "QueryOneCtx ref_exec db h f =
    f (Some [VInt (int (length (matching ref_le (q_conditions h) (rd_tabs db (q_table h)))))])"
proof -
  have l: "length (sort_rows os' rs) = length rs" for os' rs using mset_sort_rows [of os' rs] by (metis size_mset)
  show ?thesis using assms(1) parse_query_fine [OF assms(1)] assms(2,3)
    by (simp add: QueryOneCtx_def ref_exec_def snd_query_sql ref_select_def query_fine_def matching_def wmatch_fun l)
qed

lemma ref_InsertCtx:
  assumes "word_ok t" "fields_fine fs"
    and "rows_ok (rd_next db + 1) t (rd_tabs db t @ [inserted ref_conv ref_dflt t fs (rd_next db)])"
    and "uniq_of t = []"
  shows "InsertCtx ref_exec db t fs = (Inr (rd_next db),
    \<lparr>rd_tabs = (rd_tabs db)(t := rd_tabs db t @ [inserted ref_conv ref_dflt t fs (rd_next db)]), rd_next = rd_next db + 1\<rparr>)"
proof -
  have fs: "fs \<noteq> []" "\<forall>kv \<in> set fs. word_ok (fst kv)" using assms(2) by (auto simp: fields_fine_def list_all_iff)
  have "ExecContext ref_exec db (insert_sql t fs) (map snd fs) = (Inr (rd_next db, 1),
    \<lparr>rd_tabs = (rd_tabs db)(t := rd_tabs db t @ [inserted ref_conv ref_dflt t fs (rd_next db)]), rd_next = rd_next db + 1\<rparr>)"
    using assms(3,4) parse_insert_sql [OF assms(1) fs]
    by (simp add: ref_exec_def ref_stmt_def ref_commit_def zip_map_fst_snd conflicts_def Let_def)
  then show ?thesis using assms(1) fs(1) by (simp add: InsertCtx_def)
qed

lemma ref_UpdateCtx:
  assumes "word_ok t" "fields_fine fs" "list_all simple_cond cs"
    and "rows_ok (rd_next db) t (map (\<lambda>r. if list_all (cond_holds ref_le r) cs then updated ref_conv t fs r else r) (rd_tabs db t))"
  shows "UpdateCtx ref_exec db t fs cs =
    (Inr (int (length (filter (\<lambda>r. list_all (cond_holds ref_le r) cs \<and> row_changed ref_conv t fs r) (rd_tabs db t)))),
     \<lparr>rd_tabs = (rd_tabs db)(t :=
        map (\<lambda>r. if list_all (cond_holds ref_le r) cs then updated ref_conv t fs r else r) (rd_tabs db t)),
      rd_next = rd_next db\<rparr>)"
proof -
  have fs: "fs \<noteq> []" "\<forall>kv \<in> set fs. ident (fst kv)" using assms(2) by (auto simp: fields_fine_def list_all_iff)
  show ?thesis using assms(1,4) fs(1) parse_update_sql [OF assms(1) fs assms(3)]
    by (simp add: UpdateCtx_def ref_exec_def ref_stmt_def ref_commit_def zip_map_fst_snd wmatch_fun [OF assms(3)])
qed

text \<open>Tables given by their columns, for concrete states.\<close>

definition mk_row :: "(string \<times> sqlval) list \<Rightarrow> row" where
  "mk_row cvs = (\<lambda>c. case map_of cvs c of Some v \<Rightarrow> v | None \<Rightarrow> VNull)"

definition one_table :: "string \<Rightarrow> row list \<Rightarrow> int \<Rightarrow> refdb" where
  "one_table t rows next = \<lparr>rd_tabs = (\<lambda>_. [])(t := rows), rd_next = next\<rparr>"

lemma one_table_wf: "0 < next \<Longrightarrow> rows_ok next t rows \<Longrightarrow> ref_wf (one_table t rows next)"
  by (simp add: ref_wf_def one_table_def rows_ok_def keys_ok_def uniq_ok_def list_all_iff)

end
