(* ===== verification/CoreRun.thy ===== *)
theory CoreRun
  imports CashFlow BalanceSheet Portfolio Profile RefDb
begin

text \<open>
  The gRPC surface of \<open>personal-core\<close> as a state machine: one constructor per method of the four
  services, one dispatcher, and the runs of requests by a set of accounts. The theorems say what
  every run keeps: the rows of accounts that sent no request, soft-deleted rows, the database on a
  request that carries no account, and what a request can leave that fails.
\<close>

section \<open>Requests\<close>

datatype core_request =
    RListCategories int int
  | RCreateCategory CategoryRequest
  | RUpdateCategory CategoryRequest
  | RDeleteCategory int
  | RListTransactions ListTransactionsRequest
  | RCreateTransaction TransactionRequest
  | RUpdateTransaction TransactionRequest
  | RDeleteTransaction int
  | RListItems int int
  | RCreateItem ItemRequest
  | RUpdateItem ItemRequest
  | RListMonthlySummaries int
  | RDeleteItem int
  | RListPositions
  | RCreatePosition PositionRequest
  | RUpdatePosition PositionRequest
  | RDeletePosition int
  | RListTrades int
  | RCreateTrade TradeRequest
  | RUpdateTrade TradeRequest
  | RDeleteTrade int
  | RListSnapshots
  | RUpsertSnapshot string int
  | RGetConfig
  | RUpdateConfig int
  | RGetProfile
  | RUpdateProfile UpdateProfileRequest

definition failure :: "status + 'a \<Rightarrow> status option" where
  "failure r = (case r of Inl st \<Rightarrow> Some st | Inr _ \<Rightarrow> None)"

definition read_only :: "'db \<Rightarrow> status + 'a \<Rightarrow> status option \<times> 'db" where
  "read_only db r = (failure r, db)"

definition written :: "(status + 'a) \<times> 'db \<Rightarrow> status option \<times> 'db" where
  "written r = (failure (fst r), snd r)"

text \<open>The dispatcher: the status of the answer (none when the method succeeds) and the database
  afterwards.\<close>

fun core_handle ::
  "'db Exec \<Rightarrow> 'db \<Rightarrow> string option \<Rightarrow> int \<Rightarrow> core_request \<Rightarrow> status option \<times> 'db" where
  "core_handle exec db ctx n (RListCategories y m) = read_only db (ListCategories exec db ctx y m)"
| "core_handle exec db ctx n (RCreateCategory req) = written (CreateCategory exec db ctx n req)"
| "core_handle exec db ctx n (RUpdateCategory req) = written (UpdateCategory exec db ctx n req)"
| "core_handle exec db ctx n (RDeleteCategory rid) = written (DeleteCategory exec db ctx n rid)"
| "core_handle exec db ctx n (RListTransactions req) = read_only db (ListTransactions exec db ctx req)"
| "core_handle exec db ctx n (RCreateTransaction req) = written (CreateTransaction exec db ctx n req)"
| "core_handle exec db ctx n (RUpdateTransaction req) = written (UpdateTransaction exec db ctx n req)"
| "core_handle exec db ctx n (RDeleteTransaction rid) = written (DeleteTransaction exec db ctx n rid)"
| "core_handle exec db ctx n (RListItems y m) = read_only db (ListItems exec db ctx y m)"
| "core_handle exec db ctx n (RCreateItem req) = written (CreateItem exec db ctx n req)"
| "core_handle exec db ctx n (RUpdateItem req) = written (UpdateItem exec db ctx n req)"
| "core_handle exec db ctx n (RListMonthlySummaries m) = read_only db (ListMonthlySummaries exec db ctx m)"
| "core_handle exec db ctx n (RDeleteItem rid) = written (DeleteItem exec db ctx n rid)"
| "core_handle exec db ctx n RListPositions = read_only db (ListPositions exec db ctx)"
| "core_handle exec db ctx n (RCreatePosition req) = written (CreatePosition exec db ctx n req)"
| "core_handle exec db ctx n (RUpdatePosition req) = written (UpdatePosition exec db ctx n req)"
| "core_handle exec db ctx n (RDeletePosition rid) = written (DeletePosition exec db ctx n rid)"
| "core_handle exec db ctx n (RListTrades pid) = read_only db (ListTrades exec db ctx pid)"
| "core_handle exec db ctx n (RCreateTrade req) = written (CreateTrade exec db ctx n req)"
| "core_handle exec db ctx n (RUpdateTrade req) = written (UpdateTrade exec db ctx n req)"
| "core_handle exec db ctx n (RDeleteTrade rid) = written (DeleteTrade exec db ctx n rid)"
| "core_handle exec db ctx n RListSnapshots = read_only db (ListSnapshots exec db ctx)"
| "core_handle exec db ctx n (RUpsertSnapshot d v) = written (UpsertSnapshot exec db ctx n d v)"
| "core_handle exec db ctx n RGetConfig = read_only db (GetConfig exec db ctx)"
| "core_handle exec db ctx n (RUpdateConfig c) = written (UpdateConfig exec db ctx n c)"
| "core_handle exec db ctx n RGetProfile = written (GetProfile exec db ctx n)"
| "core_handle exec db ctx n (RUpdateProfile req) = written (UpdateProfile exec db ctx n req)"

text \<open>The unary interceptor of \<open>server.go\<close>: the account is the first value of the metadata key
  \<open>account_id\<close>, when it is not empty.\<close>

definition core_interceptor :: "string list \<Rightarrow> string option" where
  "core_interceptor vals = (case vals of v # _ \<Rightarrow> (if v \<noteq> [] then Some v else None) | [] \<Rightarrow> None)"

definition core_serve ::
  "'db Exec \<Rightarrow> 'db \<Rightarrow> string list \<Rightarrow> int \<Rightarrow> core_request \<Rightarrow> status option \<times> 'db" where
  "core_serve exec db vals n q = core_handle exec db (core_interceptor vals) n q"

definition is_update_profile :: "core_request \<Rightarrow> bool" where
  "is_update_profile q = (case q of RUpdateProfile _ \<Rightarrow> True | _ \<Rightarrow> False)"

text \<open>Runs: any number of requests, each with no account or with an account of the set \<open>A\<close>, at
  any times.\<close>

inductive core_runs :: "'db Exec \<Rightarrow> string set \<Rightarrow> 'db \<Rightarrow> 'db \<Rightarrow> bool" for exec A where
  runs_start: "core_runs exec A db db"
| runs_step: "core_runs exec A db db1 \<Longrightarrow> (\<forall>a. ctx = Some a \<longrightarrow> a \<in> A) \<Longrightarrow>
    core_handle exec db1 ctx n q = (out, db2) \<Longrightarrow> core_runs exec A db db2"

inductive_cases core_runs_cases: "core_runs exec A db db'"

section \<open>One request\<close>

definition no_account :: "string option \<Rightarrow> bool" where
  "no_account ctx = (ctx = None \<or> ctx = Some [])"

lemma no_account_ctx: "no_account ctx \<Longrightarrow> accountIDFromCtx ctx = Inl (Status Unauthenticated ''missing account_id'')"
  by (auto simp: no_account_def accountIDFromCtx_def)

lemmas handler_defs =
  ListCategories_def CreateCategory_def UpdateCategory_def DeleteCategory_def
  ListTransactions_def CreateTransaction_def UpdateTransaction_def DeleteTransaction_def
  ListItems_def CreateItem_def UpdateItem_def ListMonthlySummaries_def DeleteItem_def
  ListPositions_def CreatePosition_def UpdatePosition_def DeletePosition_def
  ListTrades_def CreateTrade_def UpdateTrade_def DeleteTrade_def
  ListSnapshots_def UpsertSnapshot_def GetConfig_def UpdateConfig_def GetProfile_def UpdateProfile_def

lemma unauthenticated_handle:
  "no_account ctx \<Longrightarrow>
   core_handle exec db ctx n q = (Some (Status Unauthenticated ''missing account_id''), db)"
  by (cases q) (simp_all add: no_account_ctx handler_defs read_only_def written_def failure_def)

lemma written_eq: "written r = (out, db') \<longleftrightarrow> out = failure (fst r) \<and> db' = snd r"
  by (auto simp: written_def)

lemma failure_isl: "(\<exists>st. failure r = Some st) \<longleftrightarrow> isl r"
  by (cases r) (auto simp: failure_def)

context mysql
begin

lemma written_fair:
  assumes "written f = (out, db')" "\<And>res db'. f = (res, db') \<Longrightarrow> fair acc db (isl res) db'"
  shows "fair acc db (out \<noteq> None) db'"
proof -
  obtain res db1 where f: "f = (res, db1)" by fastforce
  then show ?thesis using assms by (cases res) (auto simp: written_def failure_def)
qed

lemmas handler_fair =
  CreateCategory_fair UpdateCategory_fair DeleteCategory_fair CreateTransaction_fair UpdateTransaction_fair
  DeleteTransaction_fair CreateItem_fair UpdateItem_fair DeleteItem_fair CreatePosition_fair UpdatePosition_fair
  DeletePosition_fair CreateTrade_fair UpdateTrade_fair DeleteTrade_fair UpsertSnapshot_fair UpdateConfig_fair
  GetProfile_fair

lemma core_handle_fair:
  assumes "wf db" "core_handle exec db (Some acc) n q = (out, db')"
  shows "fair acc db (out \<noteq> None \<and> \<not> is_update_profile q) db'"
proof (cases "is_update_profile q")
  case True
  then obtain req where q: "q = RUpdateProfile req" by (auto simp: is_update_profile_def split: core_request.splits)
  show ?thesis using UpdateProfile_isolated [OF assms(1)] assms(2) True
    by (cases "UpdateProfile exec db (Some acc) n req") (auto simp: q written_def)
next
  case False
  then have "fair acc db (out \<noteq> None) db'"
    using assms(2) assms(1)
    by (cases q; simp add: read_only_def is_update_profile_def del: not_None_eq)
       (erule written_fair, erule (1) handler_fair | auto)+
  then show ?thesis using False by simp
qed

end

section \<open>Runs\<close>

definition same_account :: "(sqlval \<Rightarrow> sqlval \<Rightarrow> bool) \<Rightarrow> string \<Rightarrow> string \<Rightarrow> bool" where
  "same_account le a b = (le (VStr a) (VStr b) \<and> le (VStr b) (VStr a))"

definition rows_of :: "(sqlval \<Rightarrow> sqlval \<Rightarrow> bool) \<Rightarrow> string \<Rightarrow> (string \<Rightarrow> row list) \<Rightarrow> string \<Rightarrow> row list" where
  "rows_of le b T = (\<lambda>t. filter (owned le b) (T t))"

lemma schema_accounts: "list_all (\<lambda>tc. map_of (snd tc) ''account_id'' = Some CTText) schema"
  by code_simp

lemma typed_account: "typed_row t r \<Longrightarrow> \<exists>s. r ''account_id'' = VStr s"
proof -
  assume r: "typed_row t r"
  then obtain cs where cs: "map_of schema t = Some cs" by (auto simp: typed_row_def split: option.splits)
  then have "map_of cs ''account_id'' = Some CTText"
    using schema_accounts map_of_SomeD [OF cs] by (auto simp: list_all_iff)
  then have "coltype_of t ''account_id'' = Some CTText" using cs by (simp add: coltype_of_def)
  from typed_col [OF r this] show ?thesis by (simp add: has_type_text)
qed

lemma core_handle_none: "core_handle exec db None n q = (out, db') \<Longrightarrow> db' = db"
  using unauthenticated_handle [of None exec db n q] by (simp add: no_account_def)

context mysql
begin

lemma owned_apart:
  assumes "typed_row t r" "owned le a r" "owned le b r" shows "same_account le a b"
proof -
  obtain s where "r ''account_id'' = VStr s" using typed_account [OF assms(1)] by blast
  then show ?thesis using assms(2,3) le_text_trans by (auto simp: owned_def same_account_def)
qed

lemma rows_of_foreign:
  assumes "wf db" "\<not> same_account le a b"
  shows "rows_of le b (tab db) t = filter (owned le b) (foreign le a (tab db) t)"
proof -
  have "\<not> owned le a r" if "r \<in> set (tab db t)" "owned le b r" for r
    using owned_apart [OF wf_typed [OF assms(1) that(1)] _ that(2), of a] assms(2) by blast
  then show ?thesis by (auto simp: rows_of_def foreign_def intro!: filter_cong)
qed

lemma fair_step_rows_of:
  assumes "wf db" "fair a db failed db'" "\<not> same_account le a b"
  shows "rows_of le b (tab db') = rows_of le b (tab db)"
proof
  fix t
  have "wf db'" "foreign le a (tab db') = foreign le a (tab db)" using assms(2) by (simp_all add: fair_step_def)
  then show "rows_of le b (tab db') t = rows_of le b (tab db) t"
    using rows_of_foreign [OF _ assms(3)] assms(1) by simp
qed

text \<open>A request seen from another account, and the invariants of a run, by induction on the run.\<close>

lemma handle_step:
  assumes "wf db" "core_handle exec db ctx n q = (out, db')"
  shows "wf db'" "tombs_kept (tab db) (tab db')"
    "(\<forall>a. ctx = Some a \<longrightarrow> \<not> same_account le a b) \<Longrightarrow> rows_of le b (tab db') = rows_of le b (tab db)"
proof -
  have "wf db' \<and> tombs_kept (tab db) (tab db') \<and>
      ((\<forall>a. ctx = Some a \<longrightarrow> \<not> same_account le a b) \<longrightarrow> rows_of le b (tab db') = rows_of le b (tab db))"
  proof (cases ctx)
    case None
    then have "db' = db" using core_handle_none [of exec db n q out db'] assms(2) by simp
    then show ?thesis using assms(1) by simp
  next
    case (Some a)
    note f = core_handle_fair [OF assms(1), of a n q out db']
    show ?thesis using f fair_step_rows_of [OF assms(1), of a] assms(2) Some by (auto simp: fair_step_def)
  qed
  then show "wf db'" "tombs_kept (tab db) (tab db')"
    "(\<forall>a. ctx = Some a \<longrightarrow> \<not> same_account le a b) \<Longrightarrow> rows_of le b (tab db') = rows_of le b (tab db)"
    by auto
qed

lemma runs_wf_tombs: "core_runs exec A db db' \<Longrightarrow> wf db \<Longrightarrow> wf db' \<and> tombs_kept (tab db) (tab db')"
  by (induction rule: core_runs.induct) (auto dest: handle_step intro: tombs_kept_trans)

lemma runs_rows_of:
  assumes "core_runs exec A db db'" "wf db" "\<forall>a \<in> A. \<not> same_account le a b"
  shows "rows_of le b (tab db') = rows_of le b (tab db)"
  using assms
proof (induction rule: core_runs.induct)
  case (runs_step db db1 ctx n q out db2)
  have "wf db1" using runs_wf_tombs [OF runs_step(1)] runs_step.prems by blast
  then have "rows_of le b (tab db2) = rows_of le b (tab db1)"
    using handle_step(3) [OF _ runs_step(3), of b] runs_step(2) runs_step.prems by blast
  then show ?case using runs_step by simp
qed simp

end

section \<open>Properties of the service\<close>

text \<open>C1. Account isolation over whole runs: whatever requests the accounts of a set \<open>A\<close> send to
  \<open>personal-core\<close>, in any order and at any times, the rows of an account \<open>b\<close> outside \<open>A\<close> (as the
  database compares account ids) are the same in every table after the run as before.\<close>

theorem core_runs_isolated:
  assumes "mysql exec ok tab le conv dflt" "ok db" "core_runs exec A db db'"
    and "\<forall>a \<in> A. \<not> same_account le a b"
  shows "rows_of le b (tab db') = rows_of le b (tab db)"
  by (rule mysql.runs_rows_of [OF assms(1,3,2,4)])

definition food :: core_request where
  "food = RCreateCategory \<lparr>rc_Id = 0, rc_Name = ''Food'', rc_Type = 2, rc_SortOrder = 1, rc_Date = ''2024-05''\<rparr>"

definition two_accounts :: refdb where
  "two_accounts = snd (core_handle ref_exec (snd (core_handle ref_exec ref_empty (Some ''8'') 5 food)) (Some ''7'') 6 food)"

lemma eight_wf: "ref_wf (snd (core_handle ref_exec ref_empty (Some ''8'') 5 food))"
  using refdb.handle_step(1) [OF ref_empty_wf, of "Some ''8''" 5 food] by (metis prod.collapse)

lemma seven_runs:
  "core_runs ref_exec {''7''} (snd (core_handle ref_exec ref_empty (Some ''8'') 5 food)) two_accounts"
  unfolding two_accounts_def
  by (rule runs_step [OF runs_start, of "Some ''7''" _ _ _ 6 food]) (auto simp: prod_eq_iff)

theorem core_runs_isolated_witness:
  "rows_of ref_le ''8'' (rd_tabs two_accounts) =
     rows_of ref_le ''8'' (rd_tabs (snd (core_handle ref_exec ref_empty (Some ''8'') 5 food))) \<and>
   map (\<lambda>r. r ''name'') (rows_of ref_le ''8'' (rd_tabs two_accounts) ''categories'') = [VStr ''Food''] \<and>
   length (rd_tabs two_accounts ''categories'') = 2"
proof -
  have "\<forall>a \<in> {''7''}. \<not> same_account ref_le a ''8''" by code_simp
  from core_runs_isolated [OF refdb.mysql_axioms, OF eight_wf seven_runs this]
  have "rows_of ref_le ''8'' (rd_tabs two_accounts) =
     rows_of ref_le ''8'' (rd_tabs (snd (core_handle ref_exec ref_empty (Some ''8'') 5 food)))" .
  moreover have "map (\<lambda>r. r ''name'') (rows_of ref_le ''8'' (rd_tabs two_accounts) ''categories'') = [VStr ''Food'']"
    by code_simp
  moreover have "length (rd_tabs two_accounts ''categories'') = 2" by code_simp
  ultimately show ?thesis by blast
qed

text \<open>C2. A request that fails leaves no partial work: when a method of \<open>personal-core\<close> answers with an
  error status, every table is as it was before, or the tables are those after one statement of
  the account's own whose effect is complete and whose answer alone was an error (a timeout, a broken
  connection); the rows of every other account are the same either way. So no error of a method
  follows a statement that was answered, and none leaves a part of its work behind. (\<open>UpdateProfile\<close>
  is the exception: it can report the failure of the read-back after its update took effect.)\<close>

theorem core_failure_atomic:
  assumes "mysql exec ok tab le conv dflt" "ok db" "core_handle exec db ctx n q = (Some st, db')"
    and "\<not> is_update_profile q"
  shows "tab db' = tab db \<or>
    (\<exists>acc. ctx = Some acc \<and> foreign le acc (tab db') = foreign le acc (tab db)) \<and>
    (\<exists>sql stm args e i k. parse sql = Some stm \<and> ExecContext exec db sql args = (Inl e, db') \<and>
       stmt_effect le conv dflt stm args i k (tab db) (tab db'))"
proof (cases ctx)
  case None
  then show ?thesis using core_handle_none [of exec db n q "Some st" db'] assms(3) by simp
next
  case (Some a)
  from mysql.core_handle_fair [OF assms(1,2), of a n q "Some st" db'] assms(3,4) Some
  show ?thesis by (simp add: fair_step_def lost_answer_def)
qed

text \<open>The reference engine on a connection that breaks after every write: the effect is there, the
  answer is an error.\<close>

definition lossy_exec :: "refdb Exec" where
  "lossy_exec = ref_exec\<lparr>ExecContext := (\<lambda>db sql args.
     case ExecContext ref_exec db sql args of
       (Inr _, db') \<Rightarrow> (Inl (Errorf ''invalid connection''), db') | (Inl e, db') \<Rightarrow> (Inl e, db'))\<rparr>"

lemma lossy_simps:
  "QueryContext lossy_exec = QueryContext ref_exec" "QueryRowContext lossy_exec = QueryRowContext ref_exec"
  "ExecContext lossy_exec db sql args = (Inr r, db') \<longleftrightarrow> False"
  "snd (ExecContext lossy_exec db sql args) = snd (ExecContext ref_exec db sql args)"
  by (auto simp: lossy_exec_def split: prod.splits sum.splits)

lemma lossy_lost:
  assumes "ref_wf db" "parse sql = Some st" "args_fit st args" "ExecContext lossy_exec db sql args = (Inl e, db')"
  shows "rd_tabs db' = rd_tabs db \<or> (\<exists>i n. stmt_effect ref_le ref_conv ref_dflt st args i n (rd_tabs db) (rd_tabs db'))"
proof (cases "ExecContext ref_exec db sql args")
  case (Pair res db1)
  then have d: "db' = db1" using lossy_simps(4) [of db sql args] assms(4) by simp
  show ?thesis
  proof (cases res)
    case (Inl e1)
    then show ?thesis using refdb.exec_error [OF assms(1-3), of e1 db1] Pair d by simp
  next
    case (Inr y)
    then show ?thesis using refdb.exec_ok [OF assms(1-3), of "fst y" "snd y" db1] Pair d by auto
  qed
qed

interpretation lossy: mysql lossy_exec ref_wf rd_tabs ref_le ref_conv ref_dflt
proof (unfold_locales, unfold lossy_simps, goal_cases)
  case (18 db sql st args e db')
  then show ?case by (rule lossy_lost)
qed ((fact refdb.le_refl refdb.le_text_trans refdb.le_int refdb.le_date refdb.le_date_rev refdb.le_dates refdb.conv_int
    refdb.conv_int_text refdb.conv_bool refdb.conv_text refdb.conv_dec refdb.conv_date refdb.wf_exec refdb.wf_typed
    refdb.wf_keys refdb.wf_uniq refdb.query_rows refdb.query_row refdb.query_row_error) | simp)+

theorem core_failure_atomic_witness:
  "\<exists>st db'. core_handle lossy_exec ref_empty (Some ''8'') 5 food = (Some st, db') \<and>
     map (\<lambda>r. r ''name'') (rd_tabs db' ''categories'') = [VStr ''Food''] \<and>
     (\<exists>sql stm args e i k. parse sql = Some stm \<and> ExecContext lossy_exec ref_empty sql args = (Inl e, db') \<and>
        stmt_effect ref_le ref_conv ref_dflt stm args i k (rd_tabs ref_empty) (rd_tabs db'))"
proof -
  have f: "fst (core_handle lossy_exec ref_empty (Some ''8'') 5 food) = Some internal_error" by code_simp
  then obtain st db' where h: "core_handle lossy_exec ref_empty (Some ''8'') 5 food = (Some st, db')" by (metis prod.collapse)
  have "map (\<lambda>r. r ''name'') (rd_tabs (snd (core_handle lossy_exec ref_empty (Some ''8'') 5 food)) ''categories'') =
    [VStr ''Food'']" by code_simp
  then have n: "map (\<lambda>r. r ''name'') (rd_tabs db' ''categories'') = [VStr ''Food'']" using h by simp
  then have "rd_tabs db' \<noteq> rd_tabs ref_empty" by (auto simp: ref_empty_def)
  moreover have "\<not> is_update_profile food" by (simp add: food_def is_update_profile_def)
  ultimately have "\<exists>sql stm args e i k. parse sql = Some stm \<and> ExecContext lossy_exec ref_empty sql args = (Inl e, db') \<and>
      stmt_effect ref_le ref_conv ref_dflt stm args i k (rd_tabs ref_empty) (rd_tabs db')"
    using core_failure_atomic [OF lossy.mysql_axioms, OF ref_empty_wf h] by blast
  then show ?thesis using h n by (intro exI [of _ st] exI [of _ db'] conjI)
qed

text \<open>C3. Soft deletion is final: no run of requests, by whatever accounts, changes or removes a row
  that has been deleted, in any table with a \<open>deleted_at\<close> column.\<close>

theorem core_runs_keep_deleted:
  assumes "mysql exec ok tab le conv dflt" "ok db" "core_runs exec A db db'"
    and "coltype_of t ''deleted_at'' = Some CTInt" "r \<in> set (tab db t)" "r ''deleted_at'' \<noteq> VInt 0"
  shows "r \<in> set (tab db' t)"
  using mysql.runs_wf_tombs [OF assms(1,3,2)] assms(4-6) by (simp add: tombs_kept_def)

definition deleted_food :: refdb where
  "deleted_food = snd (core_handle ref_exec (snd (core_handle ref_exec ref_empty (Some ''8'') 5 food))
     (Some ''8'') 6 (RDeleteCategory 1))"

definition after_food :: refdb where
  "after_food = snd (core_handle ref_exec deleted_food (Some ''8'') 7 (RDeleteCategory 1))"

lemma deleted_food_wf: "ref_wf deleted_food"
  unfolding deleted_food_def using refdb.handle_step(1) [OF eight_wf, of "Some ''8''" 6 "RDeleteCategory 1"]
  by (metis prod.collapse)

lemma deleted_food_runs: "core_runs ref_exec {''8''} deleted_food after_food"
  unfolding after_food_def
  by (rule runs_step [OF runs_start, of "Some ''8''" _ _ _ 7 "RDeleteCategory 1"]) (auto simp: prod_eq_iff)

lemma deleted_food_rows: "map (\<lambda>r. r ''deleted_at'') (rd_tabs deleted_food ''categories'') = [VInt 6]"
  by code_simp

theorem core_runs_keep_deleted_witness:
  "\<exists>r. r \<in> set (rd_tabs deleted_food ''categories'') \<and> r ''deleted_at'' = VInt 6 \<and>
     r \<in> set (rd_tabs after_food ''categories'')"
proof -
  obtain r where r: "r \<in> set (rd_tabs deleted_food ''categories'')" "r ''deleted_at'' = VInt 6"
    using deleted_food_rows by (auto simp: map_eq_Cons_conv)
  have c: "coltype_of ''categories'' ''deleted_at'' = Some CTInt" by code_simp
  have "r \<in> set (rd_tabs after_food ''categories'')"
    using core_runs_keep_deleted [OF refdb.mysql_axioms, OF deleted_food_wf deleted_food_runs c r(1)] r(2) by simp
  then show ?thesis using r by blast
qed

text \<open>C4. A call whose metadata carries no account, or an empty first one, is answered
  \<open>Unauthenticated\<close> by every method of \<open>personal-core\<close> and reaches no statement: the database is
  the same.\<close>

theorem core_requires_account:
  assumes "vals = [] \<or> hd vals = []"
  shows "core_serve exec db vals n q = (Some (Status Unauthenticated ''missing account_id''), db)"
  unfolding core_serve_def
  by (rule unauthenticated_handle) (use assms in \<open>auto simp: no_account_def core_interceptor_def split: list.split\<close>)

theorem core_requires_account_witness:
  "core_serve ref_exec ref_empty [[], ''8''] 5 food = (Some (Status Unauthenticated ''missing account_id''), ref_empty)"
  by (rule core_requires_account) simp

end
