(* ===== verification/SqlReader.thy ===== *)
theory SqlReader
  imports SqlRoundtrip
begin

text \<open>
  A reader for every \<open>SELECT\<close> the builder of \<open>lib/sqlutil\<close> prints: all ten kinds of condition with
  either connective, parentheses to any depth, \<open>GROUP BY\<close>, \<open>ORDER BY\<close> and \<open>LIMIT\<close>. It works on the
  tokens of \<open>SqlSem\<close> and knows nothing of the builder; its recursion is bounded by twice the number
  of tokens, which is always enough. The lemmas show that it gives back what was built.
\<close>

section \<open>The reader\<close>

text \<open>Conditions as they are read; in a list each comes with its connective (true for \<open>OR\<close>; that of
  the first means nothing and is false).\<close>

datatype wtree =
    TCmp cmpop string
  | TBetween string
  | TIn string nat
  | TNotIn string nat
  | TNull string
  | TNotNull string
  | TGroup "(bool \<times> wtree) list"

definition read_marks :: "string list \<Rightarrow> (nat \<times> string list) option" where
  "read_marks ts =
     (let body = takeWhile (\<lambda>t. t \<noteq> '')'') ts; n = length (filter (\<lambda>t. t = ''?'') body) in
      case dropWhile (\<lambda>t. t \<noteq> '')'') ts of
        [] \<Rightarrow> None
      | _ # rest \<Rightarrow> (if body = comma_sep (replicate n [''?'']) then Some (n, rest) else None))"

definition read_atom :: "string \<Rightarrow> string list \<Rightarrow> (wtree \<times> string list) option" where
  "read_atom c ts =
     (case ts of
        op1 # q # rest \<Rightarrow>
          (case cmp_of op1 of
             Some k \<Rightarrow> (if q = ''?'' then Some (TCmp k c, rest) else None)
           | None \<Rightarrow>
               (if op1 = ''BETWEEN'' \<and> q = ''?'' then
                  (if take 2 rest = [''AND'', ''?''] then Some (TBetween c, drop 2 rest) else None)
                else if op1 = ''IN'' \<and> q = ''('' then map_option (\<lambda>(n, r). (TIn c n, r)) (read_marks rest)
                else if op1 = ''NOT'' \<and> q = ''IN'' then
                  (case rest of [] \<Rightarrow> None
                   | p # rest1 \<Rightarrow> (if p = ''('' then map_option (\<lambda>(n, r). (TNotIn c n, r)) (read_marks rest1) else None))
                else if op1 = ''IS'' \<and> q = ''NULL'' then Some (TNull c, rest)
                else if op1 = ''IS'' \<and> q = ''NOT'' then
                  (case rest of [] \<Rightarrow> None | p # rest1 \<Rightarrow> (if p = ''NULL'' then Some (TNotNull c, rest1) else None))
                else None))
      | _ \<Rightarrow> None)"

fun read_cond :: "nat \<Rightarrow> string list \<Rightarrow> (wtree \<times> string list) option"
  and read_items :: "nat \<Rightarrow> string list \<Rightarrow> ((bool \<times> wtree) list \<times> string list) option" where
  "read_cond 0 ts = None"
| "read_cond (Suc n) ts =
     (case ts of
        [] \<Rightarrow> None
      | t # rest \<Rightarrow>
          (if t = ''('' then
             (case read_items n (''AND'' # rest) of
                Some (l, u # r) \<Rightarrow> (if u = '')'' then Some (TGroup l, r) else None)
              | _ \<Rightarrow> None)
           else read_atom t rest))"
| "read_items 0 ts = None"
| "read_items (Suc n) ts =
     (case ts of
        [] \<Rightarrow> Some ([], [])
      | t # rest \<Rightarrow>
          (if t = ''AND'' \<or> t = ''OR'' then
             (case read_cond n rest of
                None \<Rightarrow> None
              | Some (x, r1) \<Rightarrow>
                  (case read_items n r1 of None \<Rightarrow> None | Some (l, r2) \<Rightarrow> Some ((t = ''OR'', x) # l, r2)))
           else Some ([], ts)))"

definition read_where :: "string list \<Rightarrow> ((bool \<times> wtree) list \<times> string list) option" where
  "read_where ts =
     (case ts of
        [] \<Rightarrow> Some ([], [])
      | t # rest \<Rightarrow> (if t = ''WHERE'' then read_items (2 * length rest + 3) (''AND'' # rest) else Some ([], ts)))"

definition read_groupby :: "string list \<Rightarrow> string list \<times> string list" where
  "read_groupby ts =
     (if take 2 ts = [''GROUP'', ''BY''] then
        (map concat (split_commas (takeWhile (\<lambda>x. x \<noteq> ''ORDER'' \<and> x \<noteq> ''LIMIT'') (drop 2 ts))),
         dropWhile (\<lambda>x. x \<noteq> ''ORDER'' \<and> x \<noteq> ''LIMIT'') (drop 2 ts))
      else ([], ts))"

record select_text =
  st_columns :: "string list"
  st_table :: string
  st_where :: "(bool \<times> wtree) list"
  st_groupby :: "string list"
  st_orderby :: "(string \<times> bool) list"
  st_limit :: bool

definition read_select :: "string \<Rightarrow> select_text option" where
  "read_select sql =
     (case tokens sql of
        [] \<Rightarrow> None
      | s # ts \<Rightarrow>
          (if s \<noteq> ''SELECT'' then None
           else case dropWhile (\<lambda>t. t \<noteq> ''FROM'') ts of
             f # t # rest \<Rightarrow>
               (case read_where rest of
                  None \<Rightarrow> None
                | Some (ws, r1) \<Rightarrow>
                    (case read_groupby r1 of
                       (gs, r2) \<Rightarrow>
                         (case parse_order (takeWhile (\<lambda>x. x \<noteq> ''LIMIT'') r2) of
                            None \<Rightarrow> None
                          | Some os \<Rightarrow>
                              (case parse_limit (dropWhile (\<lambda>x. x \<noteq> ''LIMIT'') r2) of
                                 None \<Rightarrow> None
                               | Some l \<Rightarrow>
                                   Some \<lparr>st_columns = map concat (split_commas (takeWhile (\<lambda>t. t \<noteq> ''FROM'') ts)), st_table = t,
                                     st_where = ws, st_groupby = gs, st_orderby = os, st_limit = l\<rparr>))))
           | _ \<Rightarrow> None))"

section \<open>What was built\<close>

fun prefix :: "condition \<Rightarrow> Type" where
  "prefix (CEq p e v) = p"
| "prefix (CNotEq p e v) = p"
| "prefix (CGt p e v) = p"
| "prefix (CLt p e v) = p"
| "prefix (CIn p e vs) = p"
| "prefix (CNotIn p e vs) = p"
| "prefix (CNull p e) = p"
| "prefix (CNotNull p e) = p"
| "prefix (CBetweenAnd p e vs) = p"
| "prefix (CParentheses p cs) = p"

text \<open>Conditions on words, with no empty pair of parentheses.\<close>

fun cond_fine :: "condition \<Rightarrow> bool" where
  "cond_fine (CEq p e v) = word_ok e"
| "cond_fine (CNotEq p e v) = word_ok e"
| "cond_fine (CGt p e v) = word_ok e"
| "cond_fine (CLt p e v) = word_ok e"
| "cond_fine (CIn p e vs) = word_ok e"
| "cond_fine (CNotIn p e vs) = word_ok e"
| "cond_fine (CNull p e) = word_ok e"
| "cond_fine (CNotNull p e) = word_ok e"
| "cond_fine (CBetweenAnd p e vs) = word_ok e"
| "cond_fine (CParentheses p cs) = (cs \<noteq> [] \<and> list_all cond_fine cs)"

definition joined :: "('a \<Rightarrow> bool) \<Rightarrow> ('a \<Rightarrow> 'b) \<Rightarrow> 'a list \<Rightarrow> (bool \<times> 'b) list" where
  "joined isor f cs = (case cs of [] \<Rightarrow> [] | c # cs' \<Rightarrow> (False, f c) # map (\<lambda>c. (isor c, f c)) cs')"

lemma joined_cong [fundef_cong]:
  "cs = ds \<Longrightarrow> (\<And>c. c \<in> set ds \<Longrightarrow> f c = g c) \<Longrightarrow> joined isor f cs = joined isor g ds"
  by (cases ds) (auto simp: joined_def)

fun shape :: "condition \<Rightarrow> wtree" where
  "shape (CEq p e v) = TCmp KEq e"
| "shape (CNotEq p e v) = TCmp KNe e"
| "shape (CGt p e v) = TCmp KGt e"
| "shape (CLt p e v) = TCmp KLt e"
| "shape (CIn p e vs) = TIn e (length vs)"
| "shape (CNotIn p e vs) = TNotIn e (length vs)"
| "shape (CNull p e) = TNull e"
| "shape (CNotNull p e) = TNotNull e"
| "shape (CBetweenAnd p e vs) = TBetween e"
| "shape (CParentheses p cs) = TGroup (joined (\<lambda>c. prefix c = OR) shape cs)"

definition shapes :: "condition list \<Rightarrow> (bool \<times> wtree) list" where
  "shapes cs = joined (\<lambda>c. prefix c = OR) shape cs"

section \<open>Tokens of conditions\<close>

definition conn :: "condition \<Rightarrow> string" where
  "conn c = (if prefix c = OR then ''OR'' else ''AND'')"

fun utext :: "condition \<Rightarrow> string" where
  "utext (CIn p e vs) = e @ '' IN ('' @ Join (map (\<lambda>_. ''?'') vs) '','' @ '')''"
| "utext (CNotIn p e vs) = e @ '' NOT IN ('' @ Join (map (\<lambda>_. ''?'') vs) '','' @ '')''"
| "utext (CNull p e) = e @ '' IS NULL''"
| "utext (CNotNull p e) = e @ '' IS NOT NULL''"
| "utext (CParentheses p cs) = ''('' @ trim_first (where_text cs) @ '')''"
| "utext c = ctext c"

lemma cond_SQL_utext: "fst (cond_SQL c) = Type_String (prefix c) @ utext c"
  by (cases c) (simp_all add: where_text_def)

fun utoks :: "condition \<Rightarrow> string list" where
  "utoks (CIn p e vs) = [e, ''IN'', ''(''] @ comma_sep (replicate (length vs) [''?'']) @ ['')'']"
| "utoks (CNotIn p e vs) = [e, ''NOT'', ''IN'', ''(''] @ comma_sep (replicate (length vs) [''?'']) @ ['')'']"
| "utoks (CNull p e) = [e, ''IS'', ''NULL'']"
| "utoks (CNotNull p e) = [e, ''IS'', ''NOT'', ''NULL'']"
| "utoks (CParentheses p cs) = ''('' # tl (concat (map (\<lambda>c. conn c # utoks c) cs)) @ ['')'']"
| "utoks c = ctoks c"

definition items :: "condition list \<Rightarrow> string list" where
  "items cs = concat (map (\<lambda>c. conn c # utoks c) cs)"

lemma items_simps [simp]: "items [] = []" "items (c # cs) = conn c # utoks c @ items cs"
  by (simp_all add: items_def)

lemma utoks_group: "utoks (CParentheses p cs) = ''('' # tl (items cs) @ ['')'']"
  by (simp add: items_def)

lemma tokens_prefix: "tokens (Type_String (prefix c) @ s) = conn c # tokens s"
  by (simp add: Type_String_def conn_def AND_def OR_def tokens_def flush_def)

lemma where_text_breaks: "where_text cs = [] \<or> breaker (hd (where_text cs))"
  by (cases cs) (simp_all add: where_text_Cons cond_SQL_utext Type_String_def, simp add: where_text_def)

lemma tokens_items:
  "(\<And>c. c \<in> set cs \<Longrightarrow> tokens (utext c) = utoks c) \<Longrightarrow> tokens (where_text cs) = items cs"
proof (induction cs)
  case (Cons c cs)
  have "tokens (where_text (c # cs)) = conn c # tokens (utext c @ where_text cs)"
    by (simp add: where_text_Cons cond_SQL_utext tokens_prefix)
  also have "tokens (utext c @ where_text cs) = tokens (utext c) @ tokens (where_text cs)"
    by (rule tokens_split [OF where_text_breaks])
  finally show ?case using Cons by simp
qed (simp add: where_text_def tokens_def flush_def)

lemma word_no_OR: "word_ok e \<Longrightarrow> \<not> HasPrefix (e @ s) '' OR ''"
  by (cases e) (auto simp: word_ok_def HasPrefix_def)

lemma utext_no_OR: "cond_fine c \<Longrightarrow> \<not> HasPrefix (utext c @ s) '' OR ''"
  by (cases c) (simp_all add: word_no_OR HasPrefix_def [of "CHR ''('' # _"])

lemma trim_where: "cond_fine c \<Longrightarrow> trim_first (where_text (c # cs)) = utext c @ where_text cs"
proof -
  assume c: "cond_fine c"
  let ?u = "utext c @ where_text cs"
  have w: "where_text (c # cs) = Type_String (prefix c) @ ?u" by (simp add: where_text_Cons cond_SQL_utext)
  show ?thesis
  proof (cases "prefix c = OR")
    case True
    have "TrimPrefix ('' OR '' @ ?u) '' AND '' = '' OR '' @ ?u" by (simp add: TrimPrefix_def HasPrefix_def)
    then show ?thesis using TrimPrefix_append [of "'' OR ''" ?u] True
      by (simp add: w trim_first_def Type_String_def AND_def OR_def)
  next
    case False
    then have "Type_String (prefix c) = '' AND ''" by (simp add: Type_String_def)
    then show ?thesis using TrimPrefix_append [of "'' AND ''" ?u] utext_no_OR [OF c, of "where_text cs"]
      by (simp add: w trim_first_def Type_String_def AND_def OR_def TrimPrefix_def [of _ "'' OR ''"])
  qed
qed

lemma tokens_trim:
  assumes "cs \<noteq> []" "list_all cond_fine cs" "\<And>c. c \<in> set cs \<Longrightarrow> tokens (utext c) = utoks c"
  shows "tokens (trim_first (where_text cs)) = tl (items cs)"
proof (cases cs)
  case (Cons c ds)
  have "tokens (utext c @ where_text ds) = tokens (utext c) @ tokens (where_text ds)"
    by (rule tokens_split [OF where_text_breaks])
  then show ?thesis using assms tokens_items [of ds] trim_where [of c ds] by (simp add: Cons)
qed (use assms in simp)

lemma tokens_marks: "tokens (Join (map (\<lambda>_. ''?'') vs) '','') = comma_sep (replicate (length vs) [''?''])"
proof -
  have "map tokens (map (\<lambda>_. ''?'') vs) = replicate (length vs) [''?'']"
    by (induction vs) (simp_all add: tokens_def flush_def)
  then show ?thesis unfolding tokens_Join by simp
qed

lemma tokens_closed: "tokens (u @ '')'') = tokens u @ ['')'']"
  by (simp add: tokens_mid) (simp add: tokens_def flush_def)

lemma tokens_utext: "cond_fine c \<Longrightarrow> tokens (utext c) = utoks c"
proof (induction c rule: cond_SQL.induct)
  case (5 p e vs)
  have "tokens (e @ '' IN ('' @ u) = e # ''IN'' # ''('' # tokens u" for u
    using 5 tokens_word_space [of e "''IN ('' @ u"] by (simp add: tokens_def [of "CHR ''I'' # _"] flush_def) (simp add: tokens_def)
  then show ?case using tokens_closed [of "Join (map (\<lambda>_. ''?'') vs) '',''"] by (simp add: tokens_marks)
next
  case (6 p e vs)
  have "tokens (e @ '' NOT IN ('' @ u) = e # ''NOT'' # ''IN'' # ''('' # tokens u" for u
    using 6 tokens_word_space [of e "''NOT IN ('' @ u"] by (simp add: tokens_def [of "CHR ''N'' # _"] flush_def) (simp add: tokens_def)
  then show ?case using tokens_closed [of "Join (map (\<lambda>_. ''?'') vs) '',''"] by (simp add: tokens_marks)
next
  case (7 p e)
  then show ?case using tokens_word_space [of e "''IS NULL''"] by (simp add: tokens_def [of "CHR ''I'' # _"] flush_def)
next
  case (8 p e)
  then show ?case using tokens_word_space [of e "''IS NOT NULL''"] by (simp add: tokens_def [of "CHR ''I'' # _"] flush_def)
next
  case (10 p cs)
  then have "tokens (trim_first (where_text cs)) = tl (items cs)" by (intro tokens_trim) (auto simp: list_all_iff)
  then show ?case using tokens_closed [of "trim_first (where_text cs)"]
    by (simp add: items_def [symmetric] tokens_punct)
qed (simp_all add: tokens_word_space tokens_literals)

section \<open>Reading them back\<close>

lemma read_marks_ok: "read_marks (comma_sep (replicate n [''?'']) @ '')'' # rest) = Some (n, rest)"
proof -
  have p: "\<forall>t \<in> set (comma_sep (replicate n [''?''])). t \<noteq> '')''" by (rule comma_sep_replicate_paren)
  have "length (filter (\<lambda>t. t = ''?'') (comma_sep (replicate n [''?'']))) = n" for n
  proof (induction n)
    case (Suc m)
    then show ?case by (cases m) simp_all
  qed simp
  then show ?thesis using p by (simp add: read_marks_def Let_def takeWhile_append_stop dropWhile_append_stop)
qed

definition stops :: "string list \<Rightarrow> bool" where
  "stops ts \<longleftrightarrow> ts = [] \<or> hd ts \<noteq> ''AND'' \<and> hd ts \<noteq> ''OR''"

lemma read_items_ok:
  assumes "\<And>c n rest. c \<in> set cs \<Longrightarrow> 2 * length (utoks c) \<le> n \<Longrightarrow> read_cond n (utoks c @ rest) = Some (shape c, rest)"
    and "stops rest" "2 * length (items cs) < n"
  shows "read_items n (items cs @ rest) = Some (map (\<lambda>c. (prefix c = OR, shape c)) cs, rest)"
  using assms
proof (induction cs arbitrary: n)
  case Nil
  then show ?case by (cases n; cases rest) (auto simp: stops_def)
next
  case (Cons c cs)
  obtain m where n: "n = Suc m" using Cons.prems(3) by (cases n) auto
  have "read_cond m (utoks c @ items cs @ rest) = Some (shape c, items cs @ rest)"
    using Cons.prems(1,3) by (simp add: n)
  moreover have "read_items m (items cs @ rest) = Some (map (\<lambda>c. (prefix c = OR, shape c)) cs, rest)"
    using Cons.prems by (intro Cons.IH) (auto simp: n)
  ultimately show ?case by (simp add: n conn_def)
qed

lemma read_joined:
  assumes "\<And>c n rest. c \<in> set cs \<Longrightarrow> 2 * length (utoks c) \<le> n \<Longrightarrow> read_cond n (utoks c @ rest) = Some (shape c, rest)"
    and "cs \<noteq> []" "stops rest" "2 * length (items cs) < n"
  shows "read_items n (''AND'' # tl (items cs) @ rest) = Some (shapes cs, rest)"
proof -
  obtain c ds m where c: "cs = c # ds" "n = Suc m" using assms(2,4) by (cases cs; cases n) auto
  have "read_cond m (utoks c @ items ds @ rest) = Some (shape c, items ds @ rest)"
    using assms(1,4) by (simp add: c)
  moreover have "read_items m (items ds @ rest) = Some (map (\<lambda>c. (prefix c = OR, shape c)) ds, rest)"
    using assms by (intro read_items_ok) (auto simp: c)
  ultimately show ?thesis by (simp add: c shapes_def joined_def)
qed

lemma word_not_open: "word_ok e \<Longrightarrow> e \<noteq> ''(''"
  using word_ok_def [of "''(''"] by (cases "e = ''(''") simp_all

lemma read_cond_atom: "word_ok e \<Longrightarrow> 2 \<le> n \<Longrightarrow> read_cond n (e # ts) = read_atom e ts"
  by (cases n) (auto simp: word_not_open)

lemma read_atom_ok:
  "read_atom e (''='' # ''?'' # r) = Some (TCmp KEq e, r)" "read_atom e (''!='' # ''?'' # r) = Some (TCmp KNe e, r)"
  "read_atom e (''>'' # ''?'' # r) = Some (TCmp KGt e, r)" "read_atom e (''<'' # ''?'' # r) = Some (TCmp KLt e, r)"
  "read_atom e (''BETWEEN'' # ''?'' # ''AND'' # ''?'' # r) = Some (TBetween e, r)"
  "read_atom e (''IS'' # ''NULL'' # r) = Some (TNull e, r)" "read_atom e (''IS'' # ''NOT'' # ''NULL'' # r) = Some (TNotNull e, r)"
  "read_atom e (''IN'' # ''('' # comma_sep (replicate n [''?'']) @ '')'' # r) = Some (TIn e n, r)"
  "read_atom e (''NOT'' # ''IN'' # ''('' # comma_sep (replicate n [''?'']) @ '')'' # r) = Some (TNotIn e n, r)"
  by (simp_all add: read_atom_def cmp_of_def read_marks_ok)

lemma read_cond_ok: "cond_fine c \<Longrightarrow> 2 * length (utoks c) \<le> n \<Longrightarrow> read_cond n (utoks c @ rest) = Some (shape c, rest)"
proof (induction c arbitrary: n rest rule: cond_SQL.induct)
  case (10 p cs)
  obtain m where n: "n = Suc m" using "10.prems"(2) by (cases n) auto
  have "items cs \<noteq> []" using "10.prems"(1) by (cases cs) auto
  then have "length (items cs) = Suc (length (tl (items cs)))" by (cases "items cs") auto
  then have "2 * length (items cs) < m" using "10.prems"(2) unfolding utoks_group n by simp
  then have "read_items m (''AND'' # tl (items cs) @ '')'' # rest) = Some (shapes cs, '')'' # rest)"
    using 10 by (intro read_joined) (auto simp: list_all_iff stops_def)
  then show ?case unfolding utoks_group n by (simp add: shapes_def)
qed (simp_all add: read_cond_atom read_atom_ok)

lemma read_where_ok:
  assumes "cs \<noteq> []" "list_all cond_fine cs" "stops rest"
  shows "read_where (''WHERE'' # tl (items cs) @ rest) = Some (shapes cs, rest)"
proof -
  have "2 * length (items cs) < 2 * length (tl (items cs) @ rest) + 3" by (cases "items cs") auto
  then show ?thesis using assms read_cond_ok by (auto simp: read_where_def list_all_iff intro!: read_joined)
qed

section \<open>A whole query\<close>

lemma where_text_empty: "where_text cs = [] \<longleftrightarrow> cs = []"
  by (cases cs) (simp_all add: where_text_Cons cond_SQL_utext Type_String_def, simp add: where_text_def)

lemma tokens_where:
  assumes "list_all cond_fine cs"
  shows "tokens (add_where sql cs) = tokens sql @ (if cs = [] then [] else ''WHERE'' # tl (items cs))"
proof -
  have "tokens (sql @ '' WHERE '' @ w) = tokens sql @ ''WHERE'' # tokens w" for w
    by (subst tokens_split) (auto simp: tokens_def flush_def)
  then show ?thesis using assms tokens_utext tokens_trim [of cs]
    by (auto simp: add_where_def where_text_empty list_all_iff)
qed

definition group_part :: "string list \<Rightarrow> string list" where
  "group_part gs = (if gs = [] then [] else ''GROUP'' # ''BY'' # comma_sep (map (\<lambda>g. [g]) gs))"

lemma Join_words_empty: "list_all word_ok gs \<Longrightarrow> Join gs s = [] \<longleftrightarrow> gs = []"
  by (cases "(gs, s)" rule: Join.cases) (auto simp: word_ok_def)

lemma tokens_group:
  assumes "list_all word_ok gs"
  shows "tokens (if gs = [] then u else u @ '' GROUP BY '' @ Join gs '','') = tokens u @ group_part gs"
proof (cases "gs = []")
  case False
  have "map tokens gs = map (\<lambda>g. [g]) gs" using assms by (intro map_cong) (auto simp: list_all_iff)
  then have "tokens (Join gs '','') = comma_sep (map (\<lambda>g. [g]) gs)" unfolding tokens_Join by (rule arg_cong)
  moreover have "tokens (u @ '' GROUP BY '' @ v) = tokens u @ ''GROUP'' # ''BY'' # tokens v" for v
    by (simp add: tokens_mid) (simp add: tokens_def flush_def)
  ultimately show ?thesis using False by (simp add: group_part_def)
qed (simp add: group_part_def)

definition shown_columns :: "query \<Rightarrow> string list" where
  "shown_columns h = (if q_columns h = [] then [''*''] else q_columns h)"

definition query_fits :: "query \<Rightarrow> (string \<times> string) list \<Rightarrow> bool" where
  "query_fits h os \<longleftrightarrow> word_ok (q_table h) \<and> list_all col_ok (q_columns h) \<and> list_all cond_fine (q_conditions h) \<and>
     list_all ident (q_groupby h) \<and> q_orderby h = map order_SQL os \<and> list_all simple_order os"

lemma query_sql_parts:
  assumes "query_fits h os"
  shows "fst (query_sql h) = query_tail
    (let u = add_where (''SELECT '' @ Join (shown_columns h) '', '' @ '' FROM '' @ q_table h) (q_conditions h)
     in if q_groupby h = [] then u else u @ '' GROUP BY '' @ Join (q_groupby h) '','') (map order_SQL os) (q_limit h)"
proof -
  have "list_all word_ok (q_groupby h)" using assms by (auto simp: query_fits_def list_all_iff)
  from Join_words_empty [OF this, of "'',''"] show ?thesis using assms Join_order_ne [of os]
    by (cases "q_columns h = []"; cases "q_groupby h = []"; cases "os = []")
       (simp_all add: query_fits_def query_sql_def query_tail_def shown_columns_def Let_def)
qed

lemma tokens_query:
  assumes "query_fits h os"
  shows "tokens (fst (query_sql h)) = ''SELECT'' # comma_sep (map tokens (shown_columns h)) @ ''FROM'' # q_table h #
    (if q_conditions h = [] then [] else ''WHERE'' # tl (items (q_conditions h))) @
    group_part (q_groupby h) @ order_part os @ limit_part (q_limit h)"
proof -
  have a: "\<forall>o1 \<in> set os. simple_order o1" "list_all word_ok (q_groupby h)" "list_all cond_fine (q_conditions h)" "word_ok (q_table h)"
    using assms by (auto simp: query_fits_def list_all_iff)
  show ?thesis
    unfolding query_sql_parts [OF assms] tokens_query_tail [OF a(1)] Let_def tokens_group [OF a(2)] tokens_where [OF a(3)]
      tokens_select_head [OF a(4)] by simp
qed

lemma stops_tail: "stops (group_part gs @ order_part os @ limit_part l)"
  by (auto simp: stops_def group_part_def order_part_def limit_part_def)

lemma read_groupby_ok:
  assumes "list_all ident gs"
  shows "read_groupby (group_part gs @ order_part os @ limit_part l) = (gs, order_part os @ limit_part l)"
proof (cases "gs = []")
  case False
  let ?ts = "comma_sep (map (\<lambda>g. [g]) gs)"
  have "\<forall>g \<in> set gs. g \<noteq> ''ORDER'' \<and> g \<noteq> ''LIMIT''" "\<forall>g \<in> set gs. word_ok g" using assms by (auto simp: list_all_iff ident_def)
  then have "\<forall>x \<in> set ?ts. x \<noteq> ''ORDER'' \<and> x \<noteq> ''LIMIT''" "map concat (split_commas ?ts) = gs"
    using set_comma_sep [of "map (\<lambda>g. [g]) gs"] split_words [OF False] by fastforce+
  then show ?thesis using False takeWhile_order_stop dropWhile_order_stop by (simp add: read_groupby_def group_part_def)
qed (simp add: read_groupby_def group_part_def order_part_def limit_part_def)

lemma read_select_query:
  assumes "query_fits h os"
  shows "read_select (fst (query_sql h)) =
    Some \<lparr>st_columns = shown_columns h, st_table = q_table h, st_where = shapes (q_conditions h), st_groupby = q_groupby h,
      st_orderby = map (\<lambda>o1. (fst o1, snd o1 = ''ASC'')) os, st_limit = (length (q_limit h) = 2)\<rparr>"
proof -
  let ?l = "limit_part (q_limit h)"
  have os: "\<forall>o1 \<in> set os. simple_order o1" and gs: "list_all ident (q_groupby h)" and cs: "list_all cond_fine (q_conditions h)"
    using assms by (auto simp: query_fits_def list_all_iff)
  have star: "col_ok ''*''" by (simp add: col_ok_def tokens_def flush_def)
  have cols: "shown_columns h \<noteq> []" "\<forall>c \<in> set (shown_columns h). col_ok c"
    using assms star by (auto simp: shown_columns_def query_fits_def list_all_iff)
  have od: "\<forall>x \<in> set (order_part os). x \<noteq> ''LIMIT''" using order_no_limit [OF os] by (auto simp: order_part_def)
  have po: "parse_order (order_part os) = Some (map (\<lambda>o1. (fst o1, snd o1 = ''ASC'')) os)"
    using parse_order_toks [OF _ os] by (simp add: order_part_def) (simp add: parse_order_def)
  have pl: "parse_limit ?l = Some (length (q_limit h) = 2)" by (simp add: parse_limit_def limit_part_def)
  let ?t = "group_part (q_groupby h) @ order_part os @ ?l"
  have w: "read_where ((if q_conditions h = [] then [] else ''WHERE'' # tl (items (q_conditions h))) @ ?t) = Some (shapes (q_conditions h), ?t)"
  proof (cases "q_conditions h = []")
    case True
    have "read_where ?t = Some ([], ?t)" by (simp add: read_where_def group_part_def order_part_def limit_part_def)
    then show ?thesis using True by (simp add: shapes_def joined_def)
  next
    case False
    then show ?thesis using read_where_ok [OF False cs stops_tail] by simp
  qed
  show ?thesis
    unfolding read_select_def tokens_query [OF assms]
    using cols_no_from [OF cols(2)] tokens_cols [OF cols] w read_groupby_ok [OF gs] po pl
      takeWhile_limit_stop [OF od] dropWhile_limit_stop [OF od]
    by (simp add: takeWhile_append_stop dropWhile_append_stop)
qed

end
