(* ===== verification/SqlProps.thy ===== *)
theory SqlProps
  imports RefDb Entity SqlReader
begin

text \<open>
  What the query builder guarantees to every caller: the text has one placeholder per argument,
  it reads back as the statement that was built (queries by the reader of \<open>SqlReader\<close>), it does not depend on the values bound, and on
  a server that fulfils the contract \<open>mysql\<close> the iteration order of a field map does not matter.
  The last theorem records what \<open>QueryCtx\<close> does with a cursor that breaks off.
\<close>

section \<open>Text and arguments\<close>

lemma qmarks_columns: "list_all (\<lambda>c. CHR ''?'' \<notin> set c) cols \<Longrightarrow> qmarks (Join cols '', '') = 0"
  by (simp add: qmarks_Join list_all_iff)

lemma qmarks_assign: "list_all (\<lambda>kv. CHR ''?'' \<notin> set (fst kv)) flds \<Longrightarrow>
  sum_list (map (qmarks \<circ> (\<lambda>kv. fst kv @ '' = ?'')) flds) = length flds"
  by (induction flds) auto

text \<open>Every text the fluent builders print (\<open>SELECT\<close> with its optional clauses, \<open>INSERT\<close>,
  \<open>UPDATE\<close>, \<open>DELETE\<close>) holds exactly as many question marks as arguments are passed with it, when
  no table, column, expression, grouping or ordering name holds a question mark: no argument
  shifts onto another condition.\<close>

theorem builder_placeholders:
  assumes "CHR ''?'' \<notin> set (q_table h)" "list_all (\<lambda>c. CHR ''?'' \<notin> set c) (q_columns h)"
    and "list_all plain_cond (q_conditions h)" "list_all (\<lambda>c. CHR ''?'' \<notin> set c) (q_groupby h)"
    and "list_all (\<lambda>c. CHR ''?'' \<notin> set c) (q_orderby h)"
    and "CHR ''?'' \<notin> set table" "list_all (\<lambda>kv. CHR ''?'' \<notin> set (fst kv)) flds" "list_all plain_cond cs"
  shows "qmarks (fst (query_sql h)) = length (snd (query_sql h)) \<and>
    qmarks (insert_sql table flds) = length (map snd flds) \<and>
    qmarks (update_sql table flds cs) = length (map snd flds @ where_args cs) \<and>
    qmarks (delete_sql table cs) = length (where_args cs)"
proof (intro conjI)
  have g: "qmarks (Join (q_groupby h) '','') = 0" "qmarks (Join (q_orderby h) '','') = 0"
    using assms(4,5) by (simp_all add: qmarks_Join list_all_iff)
  show "qmarks (fst (query_sql h)) = length (snd (query_sql h))"
    using assms(1,2,3) g qmarks_columns [OF assms(2)]
    by (simp add: query_sql_def Let_def add_where_placeholders)
  have k: "qmarks (Join (map fst flds) '', '') = 0"
    using assms(7) by (simp add: qmarks_Join list_all_iff)
  show "qmarks (insert_sql table flds) = length (map snd flds)"
    using assms(6) k by (simp add: insert_sql_def qmarks_Join comp_def sum_list_const_one)
  show "qmarks (update_sql table flds cs) = length (map snd flds @ where_args cs)"
    using assms(6,8) qmarks_assign [OF assms(7)] by (simp add: update_sql_def add_where_placeholders qmarks_Join)
  show "qmarks (delete_sql table cs) = length (where_args cs)"
    using assms(6,8) by (simp add: delete_sql_def add_where_placeholders)
qed

definition sample_query :: query where
  "sample_query =
     query_Limit 0 10 (query_OrderBy [DESC ''id'']
       (query_Where [WithEq ''a'' (VInt 1), SetPrefix (WithIn ''b'' [VInt 2, VInt 3]) OR]
         (query_Table ''t'' (query_Columns [''a'', ''b''] NewQuery))))"

theorem builder_placeholders_witness:
  "qmarks (fst (query_sql sample_query)) = length (snd (query_sql sample_query)) \<and>
   fst (query_sql sample_query) = ''SELECT a, b FROM t WHERE a = ? OR b IN (?,?) ORDER BY id DESC LIMIT ?, ?'' \<and>
   snd (query_sql sample_query) = [VInt 1, VInt 2, VInt 3, VInt 0, VInt 10]"
proof -
  have "qmarks (fst (query_sql sample_query)) = length (snd (query_sql sample_query))"
    by (rule builder_placeholders [where table = "''t''" and flds = "[]" and cs = "[]", THEN conjunct1])
       (simp_all add: sample_query_def query_defs WithEq_def WithIn_def DESC_def order_SQL_def)
  moreover have "fst (query_sql sample_query) = ''SELECT a, b FROM t WHERE a = ? OR b IN (?,?) ORDER BY id DESC LIMIT ?, ?''"
    by code_simp
  moreover have "snd (query_sql sample_query) = [VInt 1, VInt 2, VInt 3, VInt 0, VInt 10]" by code_simp
  ultimately show ?thesis by blast
qed

text \<open>C39. The text of a query round-trips: reading what \<open>QueryCtx\<close> sends with \<open>read_select\<close>, which knows nothing of the
  builder, gives back the columns (\<open>*\<close> where none are named), the table, the tree of the conditions, the grouping, the
  ordering and whether there is a limit. All ten kinds of condition are covered (comparisons, \<open>IN\<close> and \<open>NOT IN\<close> with the
  number of their values, \<open>IS NULL\<close>, \<open>IS NOT NULL\<close>, \<open>BETWEEN\<close>, parentheses to any depth), with either connective: the
  one in front of the first condition of a list, which the builder trims, is the only thing that is lost. Conditions are
  on words without blanks, commas and parentheses, and no pair of parentheses is empty.\<close>

theorem query_text_roundtrip:
  assumes "word_ok (q_table h)" "list_all col_ok (q_columns h)" "list_all cond_fine (q_conditions h)"
    and "list_all ident (q_groupby h)" "q_orderby h = map order_SQL os" "list_all simple_order os"
  shows "read_select (fst (query_sql h)) =
    Some \<lparr>st_columns = (if q_columns h = [] then [''*''] else q_columns h), st_table = q_table h,
      st_where = shapes (q_conditions h), st_groupby = q_groupby h,
      st_orderby = map (\<lambda>o1. (fst o1, snd o1 = ''ASC'')) os, st_limit = (length (q_limit h) = 2)\<rparr>"
  using read_select_query [of h os] assms by (simp add: query_fits_def shown_columns_def)

definition page_query :: query where
  "page_query =
     query_Limit 20 10 (query_OrderBy [ASC ''kind'', DESC ''n''] (query_GroupBy [''kind'']
       (query_Where [WithEq ''owner'' (VStr ''7''),
          WithParentheses [WithIn ''kind'' [VInt 1, VInt 2], SetPrefix (WithNull ''kind'') OR, SetPrefix (WithNotIn ''n'' [VInt 9]) OR],
          SetPrefix (WithBetweenAnd ''day'' (VInt 1) (VInt 31)) OR]
         (query_Table ''entries'' NewQuery))))"

theorem query_text_roundtrip_witness:
  "fst (query_sql page_query) =
     ''SELECT * FROM entries WHERE owner = ? AND (kind IN (?,?) OR kind IS NULL OR n NOT IN (?)) OR day BETWEEN ? AND ?'' @
     '' GROUP BY kind ORDER BY kind ASC,n DESC LIMIT ?, ?'' \<and>
   read_select (fst (query_sql page_query)) =
    Some \<lparr>st_columns = [''*''], st_table = ''entries'',
      st_where = [(False, TCmp KEq ''owner''),
        (False, TGroup [(False, TIn ''kind'' 2), (True, TNull ''kind''), (True, TNotIn ''n'' 1)]), (True, TBetween ''day'')],
      st_groupby = [''kind''], st_orderby = [(''kind'', True), (''n'', False)], st_limit = True\<rparr>"
proof -
  have "read_select (fst (query_sql page_query)) =
    Some \<lparr>st_columns = (if q_columns page_query = [] then [''*''] else q_columns page_query), st_table = q_table page_query,
      st_where = shapes (q_conditions page_query), st_groupby = q_groupby page_query,
      st_orderby = map (\<lambda>o1. (fst o1, snd o1 = ''ASC'')) [ASC ''kind'', DESC ''n''], st_limit = (length (q_limit page_query) = 2)\<rparr>"
    by (rule query_text_roundtrip)
       (simp_all add: page_query_def query_defs query_GroupBy_def simple_order_def ident_def word_ok_def WithEq_def WithIn_def WithNotIn_def WithNull_def
         WithBetweenAnd_def WithParentheses_def ASC_def DESC_def)
  moreover have "shapes (q_conditions page_query) = [(False, TCmp KEq ''owner''),
        (False, TGroup [(False, TIn ''kind'' 2), (True, TNull ''kind''), (True, TNotIn ''n'' 1)]), (True, TBetween ''day'')]"
    by code_simp
  moreover have "fst (query_sql page_query) =
     ''SELECT * FROM entries WHERE owner = ? AND (kind IN (?,?) OR kind IS NULL OR n NOT IN (?)) OR day BETWEEN ? AND ?'' @
     '' GROUP BY kind ORDER BY kind ASC,n DESC LIMIT ?, ?''" by code_simp
  ultimately show ?thesis by (simp add: page_query_def query_defs query_GroupBy_def ASC_def DESC_def)
qed

text \<open>The writing statements, in the grammar the server contract uses: an \<open>INSERT\<close>, \<open>UPDATE\<close> or \<open>DELETE\<close> text parses back to
  its table, its columns in order and its conditions.\<close>

theorem write_text_roundtrip:
  assumes "word_ok table" "flds \<noteq> []" "list_all (\<lambda>kv. ident (fst kv)) flds" "list_all simple_cond cs"
  shows "parse (insert_sql table flds) = Some (SInsert table (map fst flds) []) \<and>
    parse (update_sql table flds cs) = Some (SUpdate table (map fst flds) (map watom cs)) \<and>
    parse (delete_sql table cs) = Some (SDelete table (map watom cs))"
proof (intro conjI)
  have w: "\<forall>kv \<in> set flds. word_ok (fst kv)" and i: "\<forall>kv \<in> set flds. ident (fst kv)"
    using assms(3) by (auto simp: list_all_iff)
  show "parse (insert_sql table flds) = Some (SInsert table (map fst flds) [])"
    by (rule parse_insert_sql [OF assms(1,2) w])
  show "parse (update_sql table flds cs) = Some (SUpdate table (map fst flds) (map watom cs))"
    by (rule parse_update_sql [OF assms(1,2) i assms(4)])
  show "parse (delete_sql table cs) = Some (SDelete table (map watom cs))"
    by (rule parse_delete_sql [OF assms(1,4)])
qed

theorem write_text_roundtrip_witness:
  "parse (update_sql ''categories'' [(''name'', VStr ''x''), (''updated_at'', VInt 3)] [WithEq ''id'' (VInt 1)]) =
     Some (SUpdate ''categories'' [''name'', ''updated_at''] [WCmp KEq ''id''])"
  using write_text_roundtrip [of "''categories''" "[(''name'', VStr ''x''), (''updated_at'', VInt 3)]" "[WithEq ''id'' (VInt 1)]"]
  by (simp add: name_defs WithEq_def)

section \<open>Values never reach the text\<close>

text \<open>A condition with its values blanked out.\<close>

fun erase :: "condition \<Rightarrow> condition" where
  "erase (CEq p e v) = CEq p e VNull"
| "erase (CNotEq p e v) = CNotEq p e VNull"
| "erase (CGt p e v) = CGt p e VNull"
| "erase (CLt p e v) = CLt p e VNull"
| "erase (CIn p e vs) = CIn p e (map (\<lambda>_. VNull) vs)"
| "erase (CNotIn p e vs) = CNotIn p e (map (\<lambda>_. VNull) vs)"
| "erase (CNull p e) = CNull p e"
| "erase (CNotNull p e) = CNotNull p e"
| "erase (CBetweenAnd p e vs) = CBetweenAnd p e (map (\<lambda>_. VNull) vs)"
| "erase (CParentheses p cs) = CParentheses p (map erase cs)"

lemma erase_text: "fst (cond_SQL (erase c)) = fst (cond_SQL c)"
proof (induction c rule: cond_SQL.induct)
  case (10 p cs)
  then have "map (\<lambda>c. fst (cond_SQL (erase c))) cs = map (\<lambda>c. fst (cond_SQL c)) cs" by (intro map_cong) auto
  then show ?case by (simp only: cond_SQL.simps erase.simps map_map comp_def fst_conv)
qed (simp_all add: comp_def)

lemma where_text_erase: "where_text (map erase cs) = where_text cs"
  unfolding where_text_def by (simp add: comp_def erase_text)

lemma where_text_shape: "map erase cs = map erase ds \<Longrightarrow> where_text cs = where_text ds"
  by (metis where_text_erase)

text \<open>Values are bound, never spliced: two queries whose conditions differ only in their values
  (strings of any content included) are sent with the same text; so are two updates and two
  inserts whose maps have the same keys.\<close>

theorem text_independent_of_values:
  assumes "map erase (q_conditions h) = map erase (q_conditions h')"
    and "q_table h = q_table h'" "q_columns h = q_columns h'" "q_groupby h = q_groupby h'"
    and "q_orderby h = q_orderby h'" "length (q_limit h) = length (q_limit h')"
    and "map erase cs = map erase cs'" "map fst flds = map fst flds'"
  shows "fst (query_sql h) = fst (query_sql h') \<and>
    update_sql table flds cs = update_sql table flds' cs' \<and>
    insert_sql table flds = insert_sql table flds'"
proof (intro conjI)
  show "fst (query_sql h) = fst (query_sql h')"
    using assms(2-6) where_text_shape [OF assms(1)] by (simp add: query_sql_def Let_def add_where_def)
  have m: "map (\<lambda>kv. fst kv @ '' = ?'') flds = map (\<lambda>kv. fst kv @ '' = ?'') flds'"
  proof -
    have "map (\<lambda>kv. fst kv @ s) xs = map (\<lambda>k. k @ s) (map fst xs)" for s and xs :: "(string \<times> sqlval) list" by simp
    then show ?thesis by (simp only: assms(8))
  qed
  then show "update_sql table flds cs = update_sql table flds' cs'"
    using where_text_shape [OF assms(7)] by (simp add: update_sql_def add_where_def)
  have "length flds = length flds'" using assms(8) by (rule map_eq_imp_length_eq)
  then have "map (\<lambda>_. ''?'') flds = map (\<lambda>_. ''?'') flds'" by (simp add: map_replicate_const)
  then show "insert_sql table flds = insert_sql table flds'"
    unfolding insert_sql_def by (simp only: assms(8))
qed

theorem text_independent_of_values_witness:
  "update_sql ''accounts'' [(''role'', VStr ''user'')] [WithEq ''account_id'' (VStr ''1'')] =
   update_sql ''accounts'' [(''role'', VStr ''x'')] [WithEq ''account_id'' (VStr ''1; DROP TABLE accounts'')]"
  by (rule text_independent_of_values [of NewQuery NewQuery, THEN conjunct2, THEN conjunct1]) (simp_all add: WithEq_def NewQuery_def)

section \<open>Maps\<close>

text \<open>C40. Go ranges over a field map in an arbitrary order, and so orders the columns of an \<open>UPDATE\<close>.
  On a server that fulfils the contract, two orders of the same map change the tables in the
  same way and report the same number of changed rows.\<close>

theorem update_order_irrelevant:
  assumes "mysql exec ok tab le conv dflt" "ok db" "word_ok t" "fields_fine fs" "list_all simple_cond cs"
    and "mset fs = mset fs'" "distinct (map fst fs)"
    and "UpdateCtx exec db t fs cs = (Inr n, db1)" "UpdateCtx exec db t fs' cs = (Inr n', db2)"
  shows "tab db1 = tab db2 \<and> n = n'"
proof -
  have m: "map_of fs = map_of fs'" using map_of_perm_distinct assms(6,7) by blast
  then have u: "updated conv t fs = updated conv t fs'" by (intro ext) (simp add: updated_def)
  have s: "set fs = set fs'" using assms(6) by (rule mset_eq_setD)
  have f': "fields_fine fs'" using assms(4,6) s by (auto simp: fields_fine_def list_all_iff)
  have c: "row_changed conv t fs = row_changed conv t fs'"
    by (intro ext) (simp add: row_changed_def u list_ex_iff s)
  show ?thesis
    using mysql.UpdateCtx_ok [OF assms(1-3) assms(4,5,8)] mysql.UpdateCtx_ok [OF assms(1-3) f' assms(5,9)]
    unfolding u c by simp
qed

definition one_category :: refdb where
  "one_category = snd (InsertCtx ref_exec ref_empty ''categories'' [(''account_id'', VStr ''7''), (''name'', VStr ''Food'')])"

theorem update_order_irrelevant_witness:
  "rd_tabs (snd (UpdateCtx ref_exec one_category ''categories'' [(''name'', VStr ''x''), (''type'', VInt 1)] [WithEq ''id'' (VInt 1)])) =
   rd_tabs (snd (UpdateCtx ref_exec one_category ''categories'' [(''type'', VInt 1), (''name'', VStr ''x'')] [WithEq ''id'' (VInt 1)]))"
proof -
  let ?u = "\<lambda>fs. UpdateCtx ref_exec one_category ''categories'' fs [WithEq ''id'' (VInt 1)]"
  let ?f = "[(''name'', VStr ''x''), (''type'', VInt 1)]" and ?g = "[(''type'', VInt 1), (''name'', VStr ''x'')]"
  have w: "ref_wf one_category" unfolding one_category_def by (rule refdb.wf_InsertCtx [OF ref_empty_wf])
  have f: "fst (?u ?f) = Inr 1" and g: "fst (?u ?g) = Inr 1" by code_simp+
  have "rd_tabs (snd (?u ?f)) = rd_tabs (snd (?u ?g)) \<and> (1::int) = 1"
    by (rule update_order_irrelevant [OF refdb.mysql_axioms, OF w, of "''categories''" ?f "[WithEq ''id'' (VInt 1)]" ?g])
       (simp_all add: name_defs fields_fine_def WithEq_def prod_eq_iff f g [unfolded WithEq_def] f [unfolded WithEq_def])
  then show ?thesis by blast
qed

section \<open>Cursors\<close>

text \<open>\<open>QueryCtx\<close> never looks at \<open>rows.Err()\<close>: when the cursor breaks off after some rows, it hands
  those rows to the callback and reports success, as if the result were complete, while
  \<open>TableWithSelectMany\<close> and \<open>ExecQueryMany\<close> of the same package report the error.\<close>

theorem cursor_error_lost:
  assumes "QueryContext exec db (fst (query_sql h)) (snd (query_sql h)) = Inr (rows, Some e)" "q_table h \<noteq> []"
    and "f rows = Inr x"
  shows "QueryCtx exec db h f = Inr x \<and>
    ExecQueryMany exec db (fst (query_sql h)) (snd (query_sql h)) f = Inl e"
  using assms by (simp_all add: QueryCtx_def ExecQueryMany_def finish_rows_def)

definition broken_exec :: "unit Exec" where
  "broken_exec =
     \<lparr>ExecContext = (\<lambda>db sql args. (Inl (Errorf ''bad connection''), db)),
      QueryContext = (\<lambda>db sql args. Inr ([[VInt 1]], Some (Errorf ''bad connection''))),
      QueryRowContext = (\<lambda>db sql args. Inl (Errorf ''bad connection''))\<rparr>"

theorem cursor_error_lost_witness:
  "QueryCtx broken_exec () sample_query (\<lambda>rows. Inr (length rows)) = Inr 1"
  by (rule cursor_error_lost [of _ _ _ "[[VInt 1]]" "Errorf ''bad connection''", THEN conjunct1])
     (simp_all add: broken_exec_def sample_query_def query_defs)

end
