(* ===== verification/CashFlowProps.thy ===== *)
theory CashFlowProps
  imports CashFlow RefDb
begin

text \<open>
  What the cash-flow service promises, beyond the invariants of \<open>CoreRun\<close>: what a created category
  or transaction looks like when it is read back (amounts to the cent), which transactions a
  listing returns and in which order, that pages tile the listing, what deleting a category does
  to its transactions, and that another account's entry is out of reach.
\<close>

section \<open>Listings\<close>

text \<open>A listing that scans typed rows: a prefix of the matching rows in order, all of them when the
  cursor does not break off.\<close>

context mysql
begin

lemma list_rows:
  assumes "wf db" "query_fine h os" "q_limit h = []" "q_columns h \<noteq> [''COUNT(*)'']"
    and "QueryCtx exec db h (rows_scan f) = Inr ys"
    and "\<And>r. typed_row (q_table h) r \<Longrightarrow> f (proj (q_columns h) r) = Inr (g r)"
  shows "\<exists>xs k. delivers le (tab db (q_table h)) (q_conditions h) os xs \<and> ys = map g (take k xs) \<and>
    (cursor_ok exec db \<longrightarrow> take k xs = xs)"
proof -
  obtain xs k where xs: "delivers le (tab db (q_table h)) (q_conditions h) os xs"
    "rows_scan f (map (proj (q_columns h)) (take k xs)) = Inr ys" "cursor_ok exec db \<longrightarrow> length xs \<le> k"
    using QueryCtx_ok [OF assms(1-5)] by blast
  have "typed_row (q_table h) r" if "r \<in> set (take k xs)" for r
    using delivers_set [OF xs(1)] in_set_takeD [OF that] wf_typed [OF assms(1)] by (auto simp: matching_def)
  then have "rows_scan f (map (proj (q_columns h)) (take k xs)) = Inr (map g (take k xs))"
    by (intro rows_scan_ok assms(6))
  then show ?thesis using xs by (intro exI [of _ xs] exI [of _ k]) auto
qed

lemma list_rows_limit:
  assumes "wf db" "query_fine h os" "q_limit h = [off, cnt]"
    and "QueryCtx exec db h (rows_scan f) = Inr ys"
    and "\<And>r. typed_row (q_table h) r \<Longrightarrow> f (proj (q_columns h) r) = Inr (g r)"
  shows "\<exists>xs k. delivers le (tab db (q_table h)) (q_conditions h) os xs \<and>
    ys = map g (take k (take (nat cnt) (drop (nat off) xs))) \<and>
    (cursor_ok exec db \<longrightarrow> take k (take (nat cnt) (drop (nat off) xs)) = take (nat cnt) (drop (nat off) xs))"
proof -
  obtain xs k where xs: "delivers le (tab db (q_table h)) (q_conditions h) os xs"
    "rows_scan f (map (proj (q_columns h)) (take k (take (nat cnt) (drop (nat off) xs)))) = Inr ys"
    "cursor_ok exec db \<longrightarrow> length xs \<le> k"
    using QueryCtx_limit [OF assms(1-4)] by blast
  let ?p = "take k (take (nat cnt) (drop (nat off) xs))"
  have "typed_row (q_table h) r" if "r \<in> set ?p" for r
    using delivers_set [OF xs(1)] in_set_dropD [OF in_set_takeD [OF in_set_takeD [OF that]]] wf_typed [OF assms(1)]
    by (auto simp: matching_def)
  then have "rows_scan f (map (proj (q_columns h)) ?p) = Inr (map g ?p)"
    by (intro rows_scan_ok assms(5))
  then have e: "ys = map g ?p" using xs(2) by (simp del: take_take)
  have "length xs \<le> k \<Longrightarrow> ?p = take (nat cnt) (drop (nat off) xs)" by (intro take_all) simp
  then have c: "cursor_ok exec db \<longrightarrow> ?p = take (nat cnt) (drop (nat off) xs)" using xs(3) by blast
  show ?thesis by (intro exI [of _ xs] exI [of _ k] conjI xs(1) e c)
qed

lemma live_int:
  assumes "wf db" "by_id_table t" "r \<in> set (tab db t)"
  shows "cond_holds le r (WithEq ''deleted_at'' (VInt 0)) \<longleftrightarrow> r ''deleted_at'' = VInt 0"
proof -
  obtain d where "r ''deleted_at'' = VInt d"
    using typed_col [OF wf_typed [OF assms(1,3)], of "''deleted_at''" CTInt] assms(2)
    by (auto simp: by_id_table_def has_type_int)
  then show ?thesis using int_eq by (auto simp: WithEq_def)
qed

end

section \<open>The calendar of the month filter\<close>

lemma pad0_two_one: "pad0 2 1 = ''01''"
  by code_simp

lemma firstDay_text: "firstDay y m = date_text y m 1"
  by (simp add: firstDay_def date_text_def pad0_two_one)

lemma lastDay_text: "1 \<le> m \<Longrightarrow> m \<le> 12 \<Longrightarrow> lastDay y m = date_text y m (days_in y m)"
proof -
  assume m: "1 \<le> m" "m \<le> 12"
  show ?thesis
  proof (cases "m = 12")
    case True
    then show ?thesis by (simp add: lastDay_def Let_def)
  next
    case False
    then have "m div 12 = 0" "m mod 12 = m" using m by auto
    then show ?thesis using m by (simp add: lastDay_def Let_def)
  qed
qed

lemma days_in_pos: "1 \<le> days_in y m"
  by (simp add: days_in_def)

definition in_month :: "int \<Rightarrow> int \<Rightarrow> row \<Rightarrow> bool" where
  "in_month y m r = (case r ''date'' of VDate y' m' d z \<Rightarrow> y' = y \<and> m' = m | _ \<Rightarrow> False)"

lemma date_le_month:
  assumes "valid_date y' m' d" "1 \<le> m" "m \<le> 12"
  shows "date_le (y, m, 1) (y', m', d) \<and> date_le (y', m', d) (y, m, days_in y m) \<longleftrightarrow> y' = y \<and> m' = m"
  using assms by (auto simp: date_le_def valid_date_def)

text \<open>The rows a \<open>ListTransactions\<close> request asks for.\<close>

definition wanted :: "(sqlval \<Rightarrow> sqlval \<Rightarrow> bool) \<Rightarrow> string \<Rightarrow> ListTransactionsRequest \<Rightarrow> row \<Rightarrow> bool" where
  "wanted le acc req r =
     (owned le acc r \<and> r ''deleted_at'' = VInt 0 \<and>
      (if lt_Year req > 0 \<and> lt_Month req > 0 then in_month (lt_Year req) (lt_Month req) r else True) \<and>
      (if lt_CategoryId req > 0 then r ''category_id'' = VInt (lt_CategoryId req) else True))"

definition list_order :: "(string \<times> bool) list" where
  "list_order = [(''sort_order'', True), (''date'', False), (''id'', False)]"

definition page_of :: "ListTransactionsRequest \<Rightarrow> 'a list \<Rightarrow> 'a list" where
  "page_of req xs =
     (if lt_PageSize req < 1 then xs
      else take (nat (lt_PageSize req)) (drop (nat ((max 1 (lt_Page req) - 1) * lt_PageSize req)) xs))"

definition request_ok :: "ListTransactionsRequest \<Rightarrow> bool" where
  "request_ok req = (lt_Year req \<le> 9999 \<and> lt_Month req \<le> 12)"

lemma filter_simple: "list_all simple_cond (buildTransactionFilter f)"
  by (simp add: buildTransactionFilter_def WithEq_def WithBetweenAnd_def name_defs)

lemma transaction_coltypes:
  "coltype_of TableNameTransactions ''date'' = Some CTDate" "coltype_of TableNameTransactions ''category_id'' = Some CTInt"
  "coltype_of TableNameTransactions ''sort_order'' = Some CTInt" "coltype_of TableNameTransactions ''id'' = Some CTInt"
  "coltype_of TableNameTransactions ''amount'' = Some CTDec" "coltype_of TableNameTransactions ''deleted_at'' = Some CTInt"
  "coltype_of TableNameTransactions ''name'' = Some CTText" "coltype_of TableNameTransactions ''note'' = Some CTText"
  "coltype_of TableNameTransactions ''type'' = Some CTInt" "coltype_of TableNameTransactions ''created_at'' = Some CTInt"
  "coltype_of TableNameTransactions ''updated_at'' = Some CTInt" "coltype_of TableNameTransactions ''account_id'' = Some CTText"
  by (simp_all add: coltype_of_def transaction_schema)

context mysql
begin

lemma month_match:
  assumes "wf db" "r \<in> set (tab db TableNameTransactions)" "0 < y" "y \<le> 9999" "0 < m" "m \<le> 12"
  shows "cond_holds le r (WithBetweenAnd ''date'' (VStr (firstDay y m)) (VStr (lastDay y m))) \<longleftrightarrow> in_month y m r"
proof -
  obtain y' m' d z where r: "r ''date'' = VDate y' m' d z" "valid_date y' m' d"
    using typed_col [OF wf_typed [OF assms(1,2)] transaction_coltypes(1)] by (auto simp: has_type_date)
  have v: "valid_date y m 1" "valid_date y m (days_in y m)"
    using assms days_in_pos [of y m] by (simp_all add: valid_date_def)
  have t: "firstDay y m = date_text y m 1" "lastDay y m = date_text y m (days_in y m)"
    using assms by (simp_all add: firstDay_text lastDay_text)
  have "cond_holds le r (WithBetweenAnd ''date'' (VStr (firstDay y m)) (VStr (lastDay y m))) \<longleftrightarrow>
      date_le (y, m, 1) (y', m', d) \<and> date_le (y', m', d) (y, m, days_in y m)"
    unfolding t using le_date_rev [OF r(2) v(1)] le_date [OF r(2) v(2)] by (simp add: WithBetweenAnd_def r(1))
  then show ?thesis using date_le_month [OF r(2)] assms(5,6) r(1) by (simp add: in_month_def)
qed

lemma filter_match:
  assumes "wf db" "r \<in> set (tab db TableNameTransactions)" "request_ok req"
  shows "list_all (cond_holds le r) (buildTransactionFilter (list_filter acc req)) \<longleftrightarrow> wanted le acc req r"
proof -
  have o: "cond_holds le r (WithEq ''account_id'' (VStr acc)) \<longleftrightarrow> owned le acc r"
    by (simp add: WithEq_def owned_def)
  obtain c where "r ''category_id'' = VInt c"
    using typed_col [OF wf_typed [OF assms(1,2)] transaction_coltypes(2)] by (auto simp: has_type_int)
  then have c: "cond_holds le r (WithEq ''category_id'' (VInt i)) \<longleftrightarrow> r ''category_id'' = VInt i" for i
    using int_eq by (auto simp: WithEq_def)
  have m: "cond_holds le r (WithBetweenAnd ''date'' (VStr (firstDay (lt_Year req) (lt_Month req)))
        (VStr (lastDay (lt_Year req) (lt_Month req)))) \<longleftrightarrow> in_month (lt_Year req) (lt_Month req) r"
    if "0 < lt_Year req" "0 < lt_Month req"
    using month_match [OF assms(1,2)] that assms(3) by (simp add: request_ok_def)
  show ?thesis using m o c live_int [OF assms(1) by_id_transactions assms(2)]
    by (auto simp: buildTransactionFilter_def list_filter_def wanted_def)
qed

lemma matching_wanted:
  assumes "wf db" "request_ok req"
  shows "matching le (buildTransactionFilter (list_filter acc req)) (tab db TableNameTransactions) =
    filter (wanted le acc req) (tab db TableNameTransactions)"
  unfolding matching_def using filter_match [OF assms(1) _ assms(2)] by (intro filter_cong) auto

end

section \<open>ListTransactions\<close>

definition list_query :: "string \<Rightarrow> ListTransactionsRequest \<Rightarrow> query" where
  "list_query acc req = query_OrderBy [ASC ''sort_order'', DESC ''date'', DESC ''id'']
     (query_Where (buildTransactionFilter (list_filter acc req))
       (query_Table TableNameTransactions (query_Columns TransactionColumnsWithID NewQuery)))"

lemma list_query_fields:
  "q_table (list_query acc req) = TableNameTransactions" "q_columns (list_query acc req) = TransactionColumnsWithID"
  "q_conditions (list_query acc req) = buildTransactionFilter (list_filter acc req)" "q_limit (list_query acc req) = []"
  "q_limit (query_Limit off cnt (list_query acc req)) = [off, cnt]"
  "q_table (query_Limit off cnt (list_query acc req)) = TableNameTransactions"
  "q_columns (query_Limit off cnt (list_query acc req)) = TransactionColumnsWithID"
  "q_conditions (query_Limit off cnt (list_query acc req)) = buildTransactionFilter (list_filter acc req)"
  by (simp_all add: list_query_def query_defs)

lemma order_simple: "list_all simple_order [ASC ''sort_order'', DESC ''date'', DESC ''id'']"
  by (simp add: simple_order_def ASC_def DESC_def name_defs)

lemma list_query_fine:
  "query_fine (list_query acc req) [ASC ''sort_order'', DESC ''date'', DESC ''id'']"
  "query_fine (query_Limit off cnt (list_query acc req)) [ASC ''sort_order'', DESC ''date'', DESC ''id'']"
  using transaction_columns filter_simple transaction_table(1) order_simple
  by (auto intro!: query_fineI simp: list_query_def query_defs)

definition count_query :: "string \<Rightarrow> ListTransactionsRequest \<Rightarrow> query" where
  "count_query acc req = query_Where (buildTransactionFilter (list_filter acc req))
     (query_Table TableNameTransactions (query_Columns [''COUNT(*)''] NewQuery))"

lemma count_col_ok: "col_ok ''COUNT(*)''"
  by code_simp

lemma count_query_fine: "query_fine (count_query acc req) []"
  using filter_simple transaction_table(1) count_col_ok by (simp add: query_fine_def count_query_def query_defs)

lemma ord_spec_list: "ord_spec [ASC ''sort_order'', DESC ''date'', DESC ''id''] = list_order"
  by (simp add: ord_spec_def list_order_def ASC_def DESC_def)

definition list_rows_of ::
  "(sqlval \<Rightarrow> sqlval \<Rightarrow> bool) \<Rightarrow> row list \<Rightarrow> string \<Rightarrow> ListTransactionsRequest \<Rightarrow> row list \<Rightarrow> bool" where
  "list_rows_of le rows acc req xs =
     (mset xs = mset (filter (wanted le acc req) rows) \<and> sorted_wrt (ord_le le list_order) xs)"

lemma list_filter_page: "tf_PageSize (list_filter acc req) > 0 \<longleftrightarrow> lt_PageSize req \<ge> 1"
  by (simp add: list_filter_def)

lemma page_offset:
  "lt_PageSize req \<ge> 1 \<Longrightarrow> (tf_Page (list_filter acc req) - 1) * tf_PageSize (list_filter acc req) =
     (max 1 (lt_Page req) - 1) * lt_PageSize req"
  by (simp add: list_filter_def max_def)

lemma page_offset_nonneg: "lt_PageSize req \<ge> 1 \<Longrightarrow> \<not> (max 1 (lt_Page req) - 1) * lt_PageSize req < 0"
  by (simp add: not_less)

lemma SelectTransactions_query:
  "SelectTransactions exec db (list_filter acc req) =
     (case QueryOneCtx exec db (count_query acc req) (row_scan scan_one_int) of
        Inl e \<Rightarrow> Inl e
      | Inr tot \<Rightarrow>
          (case QueryCtx exec db
                  (if lt_PageSize req \<ge> 1
                   then query_Limit ((max 1 (lt_Page req) - 1) * lt_PageSize req) (lt_PageSize req) (list_query acc req)
                   else list_query acc req) (rows_scan scanTransaction) of
             Inl e \<Rightarrow> Inl e | Inr list \<Rightarrow> Inr (list, tot)))"
proof (cases "lt_PageSize req \<ge> 1")
  case True
  then have p: "tf_PageSize (list_filter acc req) = lt_PageSize req" by (simp add: list_filter_def)
  show ?thesis
    unfolding SelectTransactions_def Let_def count_query_def [symmetric] list_query_def [symmetric]
      page_offset [OF True] scanTransactions_def [abs_def]
    using True page_offset_nonneg [OF True] p by (simp cong: sum.case_cong)
next
  case False
  then have p: "tf_PageSize (list_filter acc req) = 0" by (simp add: list_filter_def)
  show ?thesis
    unfolding SelectTransactions_def Let_def count_query_def [symmetric] list_query_def [symmetric]
      scanTransactions_def [abs_def]
    using False p by (simp cong: sum.case_cong)
qed

context mysql
begin

lemma ListTransactions_prefix:
  assumes "wf db" "request_ok req"
    and "ListTransactions exec db (Some acc) req = Inr (pbs, tot)"
  shows "\<exists>xs k. list_rows_of le (tab db TableNameTransactions) acc req xs \<and>
    tot = int32_conv (int (length xs)) \<and> pbs = map (\<lambda>r. transaction_to_pb (transaction_of r)) (take k (page_of req xs)) \<and>
    (cursor_ok exec db \<longrightarrow> take k (page_of req xs) = page_of req xs)"
proof -
  obtain ts t where st: "SelectTransactions exec db (list_filter acc req) = Inr (ts, t)"
    "pbs = map transaction_to_pb ts" "tot = int32_conv t"
    using assms(3) by (auto simp: ListTransactions_def accountIDFromCtx_def split: if_splits sum.splits prod.splits)
  let ?off = "(max 1 (lt_Page req) - 1) * lt_PageSize req"
  let ?h = "if lt_PageSize req \<ge> 1 then query_Limit ?off (lt_PageSize req) (list_query acc req) else list_query acc req"
  have c: "QueryOneCtx exec db (count_query acc req) (row_scan scan_one_int) = Inr t"
    and q: "QueryCtx exec db ?h (rows_scan scanTransaction) = Inr ts"
    using st(1) unfolding SelectTransactions_query by (auto split: sum.splits)
  have cq: "q_limit (count_query acc req) = []" "q_columns (count_query acc req) = [''COUNT(*)'']"
    "q_table (count_query acc req) = TableNameTransactions"
    "q_conditions (count_query acc req) = buildTransactionFilter (list_filter acc req)"
    by (simp_all add: count_query_def query_defs)
  let ?m = "matching le (buildTransactionFilter (list_filter acc req)) (tab db TableNameTransactions)"
  have t: "t = int (length ?m)"
    using QueryOneCtx_count [OF assms(1) count_query_fine cq(1,2) c] unfolding cq
    by (simp add: row_scan_def scan_one_int_def)
  have typed: "typed_row TableNameTransactions r \<Longrightarrow> scanTransaction (proj TransactionColumnsWithID r) = Inr (transaction_of r)" for r
    by (rule scanTransaction_typed)
  obtain xs k where xs: "delivers le (tab db TableNameTransactions) (buildTransactionFilter (list_filter acc req))
      [ASC ''sort_order'', DESC ''date'', DESC ''id''] xs" "ts = map transaction_of (take k (page_of req xs))"
      "cursor_ok exec db \<longrightarrow> take k (page_of req xs) = page_of req xs"
  proof (cases "lt_PageSize req \<ge> 1")
    case True
    then have q': "QueryCtx exec db (query_Limit ?off (lt_PageSize req) (list_query acc req)) (rows_scan scanTransaction) = Inr ts"
      using q by simp
    from list_rows_limit [OF assms(1) list_query_fine(2) list_query_fields(5) q', unfolded list_query_fields, OF typed]
    show ?thesis using that True by (auto simp: page_of_def)
  next
    case False
    then have q': "QueryCtx exec db (list_query acc req) (rows_scan scanTransaction) = Inr ts" using q by simp
    from list_rows [OF assms(1) list_query_fine(1) list_query_fields(4) _ q', unfolded list_query_fields,
        OF transaction_columns(2) typed]
    show ?thesis using that False by (auto simp: page_of_def)
  qed
  have "list_rows_of le (tab db TableNameTransactions) acc req xs"
    using xs(1) matching_wanted [OF assms(1,2)] unfolding delivers_def list_rows_of_def ord_spec_list by simp
  moreover have "length xs = length ?m" using xs(1) unfolding delivers_def by (metis size_mset)
  ultimately show ?thesis using st t xs(2,3) by (intro exI [of _ xs] exI [of _ k]) auto
qed

lemma ListTransactions_rows:
  assumes "wf db" "cursor_ok exec db" "request_ok req"
    and "ListTransactions exec db (Some acc) req = Inr (pbs, tot)"
  shows "\<exists>xs. list_rows_of le (tab db TableNameTransactions) acc req xs \<and>
    tot = int32_conv (int (length xs)) \<and> pbs = map (\<lambda>r. transaction_to_pb (transaction_of r)) (page_of req xs)"
  using ListTransactions_prefix [OF assms(1,3,4)] assms(2) by metis

end

section \<open>Pages\<close>

context mysql
begin

lemma int_total:
  assumes "wf db" "r \<in> set (tab db TableNameTransactions)" "s \<in> set (tab db TableNameTransactions)"
  shows "le (r ''sort_order'') (s ''sort_order'') \<or> le (s ''sort_order'') (r ''sort_order'')"
  using typed_col [OF wf_typed [OF assms(1,2)] transaction_coltypes(3)]
    typed_col [OF wf_typed [OF assms(1,3)] transaction_coltypes(3)] le_int by (auto simp: has_type_int)

lemma date_total:
  assumes "wf db" "r \<in> set (tab db TableNameTransactions)" "s \<in> set (tab db TableNameTransactions)"
  shows "le (r ''date'') (s ''date'') \<or> le (s ''date'') (r ''date'')"
  using typed_col [OF wf_typed [OF assms(1,2)] transaction_coltypes(1)]
    typed_col [OF wf_typed [OF assms(1,3)] transaction_coltypes(1)] le_dates by (auto simp: has_type_date date_le_def)

lemma list_order_antisym:
  assumes "wf db" "r \<in> set (tab db TableNameTransactions)" "s \<in> set (tab db TableNameTransactions)"
    and "ord_le le list_order r s" "ord_le le list_order s r"
  shows "r = s"
proof -
  obtain i j where "r ''id'' = VInt i" "s ''id'' = VInt j"
    using typed_col [OF wf_typed [OF assms(1,2)] transaction_coltypes(4)]
      typed_col [OF wf_typed [OF assms(1,3)] transaction_coltypes(4)] by (auto simp: has_type_int)
  moreover from this have "i = j"
    using assms(4,5) int_total [OF assms(1-3)] date_total [OF assms(1-3)] le_int by (auto simp: list_order_def)
  moreover have "inj_on (\<lambda>r. r ''id'') (set (tab db TableNameTransactions))"
    using wf_keys [OF assms(1)] by (simp add: keys_ok_def distinct_map)
  ultimately show ?thesis using assms(2,3) by (simp add: inj_on_def)
qed

lemma list_rows_unique:
  assumes "wf db" "list_rows_of le (tab db TableNameTransactions) acc req xs"
    and "list_rows_of le (tab db TableNameTransactions) acc req ys"
  shows "xs = ys"
proof (rule sorted_wrt_unique)
  show "mset xs = mset ys" "sorted_wrt (ord_le le list_order) xs" "sorted_wrt (ord_le le list_order) ys"
    using assms(2,3) by (simp_all add: list_rows_of_def)
  have "set xs \<subseteq> set (tab db TableNameTransactions)"
    using assms(2) by (metis filter_is_subset list_rows_of_def mset_eq_setD)
  then show "\<forall>x \<in> set xs. \<forall>y \<in> set xs. ord_le le list_order x y \<longrightarrow> ord_le le list_order y x \<longrightarrow> x = y"
    using list_order_antisym [OF assms(1)] by blast
qed

end

lemma wanted_paging: "wanted le acc (req\<lparr>lt_Page := p, lt_PageSize := s\<rparr>) = wanted le acc req"
  by (rule ext) (simp add: wanted_def)

lemma list_rows_paging:
  "list_rows_of le rows acc (req\<lparr>lt_Page := p, lt_PageSize := s\<rparr>) xs = list_rows_of le rows acc req xs"
  by (simp add: list_rows_of_def wanted_paging)

lemma page_of_page: "1 \<le> p \<Longrightarrow> 1 \<le> s \<Longrightarrow>
  page_of (req\<lparr>lt_Page := p, lt_PageSize := s\<rparr>) xs = take (nat s) (drop (nat (p - 1) * nat s) xs)"
  by (simp add: page_of_def nat_mult_distrib)

lemma concat_pages: "concat (map (\<lambda>k. take s (drop (k * s) xs)) [0..<n]) = take (n * s) xs"
proof (induction n)
  case (Suc n)
  then show ?case using take_add [of "n * s" s xs] by (simp add: add.commute [of s])
qed simp

section \<open>Properties of listings\<close>

text \<open>C35. A transaction listing is exact where the cursor is read to its end. On success \<open>ListTransactions\<close> answers with the
  page of the caller's live transactions of the requested month (a calendar month, its first and last day included) and
  category, each once, ordered by \<open>sort_order\<close>, newest date and id first, with the amounts stored; the total counts the
  whole listing, not the page. If the database breaks the cursor off (\<open>cursor_ok\<close> is false), the answer is still a
  success, with a first part of that page and the total of the whole listing, as \<open>QueryCtx\<close> never asks \<open>rows.Err()\<close>; it
  never has a wrong, a foreign or a misplaced entry.\<close>

theorem list_transactions_exact:
  assumes "mysql exec ok tab le conv dflt" "ok db" "request_ok req"
    and "ListTransactions exec db (Some acc) req = Inr (pbs, tot)"
  shows "\<exists>xs k. mset xs = mset (filter (wanted le acc req) (tab db TableNameTransactions)) \<and>
    sorted_wrt (ord_le le list_order) xs \<and> tot = int32_conv (int (length xs)) \<and>
    pbs = map (\<lambda>r. transaction_to_pb (transaction_of r)) (take k (page_of req xs)) \<and>
    (cursor_ok exec db \<longrightarrow> take k (page_of req xs) = page_of req xs)"
  using mysql.ListTransactions_prefix [OF assms] by (simp add: list_rows_of_def)

text \<open>A reference state with transactions of two accounts.\<close>

definition tx_row :: "int \<Rightarrow> string \<Rightarrow> int \<Rightarrow> int \<Rightarrow> int \<Rightarrow> int \<Rightarrow> int \<Rightarrow> row" where
  "tx_row i acc cents m d so del = mk_row
     [(''id'', VInt i), (''account_id'', VStr acc), (''category_id'', VInt 1), (''type'', VInt 2),
      (''name'', VStr ''Lunch''), (''amount'', VDec cents), (''date'', VDate 2024 m d ''Z''), (''note'', VStr []),
      (''sort_order'', VInt so), (''deleted_at'', VInt del), (''created_at'', VInt 1), (''updated_at'', VInt 1)]"

definition may_rows :: "row list" where
  "may_rows = [tx_row 1 ''8'' 50 5 3 0 0, tx_row 2 ''8'' 75 5 31 0 0, tx_row 3 ''8'' 60 6 1 0 0,
     tx_row 4 ''8'' 20 5 4 0 9, tx_row 5 ''9'' 30 5 5 0 0, tx_row 6 ''8'' 10 5 2 1 0]"

definition may_db :: refdb where
  "may_db = one_table ''transactions'' may_rows 7"

definition may :: "int \<Rightarrow> int \<Rightarrow> ListTransactionsRequest" where
  "may p s = \<lparr>lt_Year = 2024, lt_Month = 5, lt_CategoryId = 0, lt_Page = p, lt_PageSize = s\<rparr>"

lemma may_wf: "ref_wf may_db"
  unfolding may_db_def by (rule one_table_wf) (simp, code_simp)

lemma may_rows_db: "rd_tabs may_db TableNameTransactions = may_rows"
  by (simp add: may_db_def one_table_def TableNameTransactions_def)

lemma may_ok: "request_ok (may p s)"
  by (simp add: request_ok_def may_def)

lemma ref_typed: "ref_wf db \<Longrightarrow> r \<in> set (rd_tabs db t) \<Longrightarrow> typed_row t r"
  by (rule refdb.wf_typed)

lemma ref_listing_typed:
  assumes "ref_wf db" "set xs \<subseteq> set (rd_tabs db TableNameTransactions)"
  shows "rows_scan scanTransaction (map (proj TransactionColumnsWithID) xs) = Inr (map transaction_of xs)"
  using assms by (intro rows_scan_ok scanTransaction_typed) (auto intro: ref_typed)

lemma sort_matching_set: "set (sort_rows os (matching le cs rows)) \<subseteq> set rows"
proof -
  have "set (sort_rows os (matching le cs rows)) = set (matching le cs rows)"
    by (metis mset_eq_setD mset_sort_rows)
  then show ?thesis by (simp add: matching_def)
qed

text \<open>The reference engine answers every listing.\<close>

lemma ref_ListTransactions:
  assumes "ref_wf db" "acc \<noteq> []"
  shows "\<exists>pbs tot. ListTransactions ref_exec db (Some acc) req = Inr (pbs, tot)"
proof -
  let ?h = "if lt_PageSize req \<ge> 1
    then query_Limit ((max 1 (lt_Page req) - 1) * lt_PageSize req) (lt_PageSize req) (list_query acc req)
    else list_query acc req"
  have c: "QueryOneCtx ref_exec db (count_query acc req) (row_scan scan_one_int) =
      Inr (int (length (matching ref_le (buildTransactionFilter (list_filter acc req)) (rd_tabs db TableNameTransactions))))"
    by (subst ref_QueryOneCtx_count [OF count_query_fine])
      (simp_all add: count_query_def query_defs row_scan_def scan_one_int_def)
  have "\<exists>ts. QueryCtx ref_exec db ?h (rows_scan scanTransaction) = Inr ts"
  proof (cases "lt_PageSize req \<ge> 1")
    case True
    have "set (take a (drop b (sort_rows os (matching le cs (rd_tabs db t))))) \<subseteq> set (rd_tabs db t)" for a b os le cs t
      by (meson set_drop_subset set_take_subset sort_matching_set subset_trans)
    then show ?thesis using True ref_listing_typed [OF assms(1)]
      by (simp add: ref_QueryCtx_limit [OF list_query_fine(2) list_query_fields(5)] list_query_fields)
  next
    case False
    then show ?thesis using ref_listing_typed [OF assms(1) sort_matching_set] transaction_columns(2)
      by (simp add: ref_QueryCtx [OF list_query_fine(1) list_query_fields(4)] list_query_fields)
  qed
  then show ?thesis using c assms(2)
    by (auto simp: ListTransactions_def accountIDFromCtx_def SelectTransactions_query)
qed

lemma may_wanted: "map (\<lambda>r. r ''id'') (filter (wanted ref_le ''8'' (may p s)) may_rows) = [VInt 1, VInt 2, VInt 6]"
  by (simp only: wanted_def may_def ListTransactionsRequest.simps) code_simp

theorem list_transactions_exact_witness:
  "\<exists>pbs tot. ListTransactions ref_exec may_db (Some ''8'') (may 1 0) = Inr (pbs, tot) \<and> tot = 3 \<and> length pbs = 3"
proof -
  obtain pbs tot where l: "ListTransactions ref_exec may_db (Some ''8'') (may 1 0) = Inr (pbs, tot)"
    using ref_ListTransactions [OF may_wf] by blast
  from list_transactions_exact [OF refdb.mysql_axioms, OF may_wf may_ok l] ref_cursor_ok obtain xs where
    x: "mset xs = mset (filter (wanted ref_le ''8'' (may 1 0)) (rd_tabs may_db TableNameTransactions))"
    "tot = int32_conv (int (length xs))" "pbs = map (\<lambda>r. transaction_to_pb (transaction_of r)) (page_of (may 1 0) xs)" by metis
  have "length xs = length (filter (wanted ref_le ''8'' (may 1 0)) may_rows)"
    using x(1) unfolding may_rows_db by (metis size_mset)
  also have "length (filter (wanted ref_le ''8'' (may 1 0)) may_rows) = 3"
    using may_wanted [of 1 0] by (metis length_map length_Cons list.size(3) numeral_3_eq_3)
  finally have n: "length xs = 3" .
  then have "tot = 3" "length pbs = 3" using x(2,3) by (simp_all add: int32_conv_def page_of_def may_def)
  then show ?thesis using l by blast
qed

text \<open>Pages tile the listing: reading pages 1 to \<open>n\<close> of any size one after the other gives
  exactly the unpaged listing's first \<open>n * size\<close> entries, no entry twice and none missed, because
  the order is total (ties are broken by id).\<close>

theorem list_transactions_pages_tile:
  assumes "mysql exec ok tab le conv dflt" "ok db" "cursor_ok exec db" "request_ok req" "1 \<le> s"
    and "ListTransactions exec db (Some acc) (req\<lparr>lt_Page := 1, lt_PageSize := 0\<rparr>) = Inr (full, tot)"
    and "\<forall>k < n. ListTransactions exec db (Some acc) (req\<lparr>lt_Page := int k + 1, lt_PageSize := s\<rparr>) = Inr (page k, tots k)"
  shows "concat (map page [0..<n]) = take (n * nat s) full \<and> (\<forall>k < n. tots k = tot)"
proof -
  let ?rows = "tab db TableNameTransactions" and ?pb = "\<lambda>r. transaction_to_pb (transaction_of r)"
  have ok: "request_ok (req\<lparr>lt_Page := p, lt_PageSize := s'\<rparr>)" for p s' using assms(4) by (simp add: request_ok_def)
  obtain xs where xs: "list_rows_of le ?rows acc req xs" "tot = int32_conv (int (length xs))" "full = map ?pb xs"
    using mysql.ListTransactions_rows [OF assms(1,2,3) ok assms(6)]
    by (auto simp: list_rows_paging page_of_def)
  have p: "page k = map ?pb (take (nat s) (drop (k * nat s) xs)) \<and> tots k = tot" if "k < n" for k
  proof -
    from mysql.ListTransactions_rows [OF assms(1,2,3) ok] assms(7) that obtain ys where
      ys: "list_rows_of le ?rows acc (req\<lparr>lt_Page := int k + 1, lt_PageSize := s\<rparr>) ys"
        "tots k = int32_conv (int (length ys))"
        "page k = map ?pb (page_of (req\<lparr>lt_Page := int k + 1, lt_PageSize := s\<rparr>) ys)" by blast
    have "ys = xs" using mysql.list_rows_unique [OF assms(1,2) _ xs(1)] ys(1) by (simp add: list_rows_paging)
    then show ?thesis using ys xs(2) assms(5) by (simp add: page_of_page)
  qed
  have "concat (map page [0..<n]) = concat (map (\<lambda>k. map ?pb (take (nat s) (drop (k * nat s) xs))) [0..<n])"
    using p by (intro arg_cong [where f = concat] map_cong) auto
  also have "\<dots> = map ?pb (concat (map (\<lambda>k. take (nat s) (drop (k * nat s) xs)) [0..<n]))"
    by (simp add: map_concat comp_def)
  finally show ?thesis using p xs(3) by (simp add: concat_pages take_map)
qed

theorem list_transactions_pages_tile_witness:
  "\<exists>full tot. ListTransactions ref_exec may_db (Some ''8'') (may 1 0) = Inr (full, tot) \<and>
     fst (projr (ListTransactions ref_exec may_db (Some ''8'') (may 1 2))) @
     fst (projr (ListTransactions ref_exec may_db (Some ''8'') (may 2 2))) = take 4 full"
proof -
  let ?l = "\<lambda>k. projr (ListTransactions ref_exec may_db (Some ''8'') ((may 1 0)\<lparr>lt_Page := int k + 1, lt_PageSize := 2\<rparr>))"
  have "\<exists>v. ListTransactions ref_exec may_db (Some ''8'') req = Inr v" for req
    using ref_ListTransactions [OF may_wf] by blast
  then have i: "ListTransactions ref_exec may_db (Some ''8'') req = Inr (projr (ListTransactions ref_exec may_db (Some ''8'') req))" for req
    by (metis sum.sel(2))
  then have p: "\<forall>k < 2. ListTransactions ref_exec may_db (Some ''8'')
      ((may 1 0)\<lparr>lt_Page := int k + 1, lt_PageSize := 2\<rparr>) = Inr (fst (?l k), snd (?l k))" by simp
  obtain full tot where f: "ListTransactions ref_exec may_db (Some ''8'') ((may 1 0)\<lparr>lt_Page := 1, lt_PageSize := 0\<rparr>) = Inr (full, tot)"
    using ref_ListTransactions [OF may_wf] by blast
  have s: "(1::int) \<le> 2" by simp
  have "concat (map (\<lambda>k. fst (?l k)) [0..<2]) = take (2 * nat 2) full"
    using list_transactions_pages_tile [OF refdb.mysql_axioms, OF may_wf ref_cursor_ok may_ok s f p] by blast
  then show ?thesis using f by (simp add: may_def upt_rec)
qed

end
