(* ===== verification/CashFlowEdits.thy ===== *)
theory CashFlowEdits
  imports CashFlow RefDb
begin

text \<open>
  What the writes of the cash-flow service mean to a later reader: a created or updated entry reads
  back with the values of the request (amounts to the cent), a created category joins the listing,
  deleting a category takes its transactions along.
\<close>

section \<open>Reading back a row\<close>

context mysql
begin

lemma insert_then_live:
  assumes "wf db" "by_id_table t" "fields_fine fs" "map_of fs ''deleted_at'' = Some (VInt 0)"
    and "InsertCtx exec db t fs = (Inr i, db')"
  shows "wf db'" "inserted conv dflt t fs i \<in> set (tab db' t)" "live_row i (inserted conv dflt t fs i)"
proof -
  have w: "word_ok t" and d: "coltype_of t ''deleted_at'' = Some CTInt" using assms(2) by (simp_all add: by_id_table_def)
  show "wf db'" using wf_InsertCtx [OF assms(1), of t fs] assms(5) by simp
  show "inserted conv dflt t fs i \<in> set (tab db' t)" using InsertCtx_ok(4) [OF assms(1) w assms(3,5)] by simp
  show "live_row i (inserted conv dflt t fs i)"
    using assms(4) conv_int [OF d] by (simp add: live_row_def inserted_def)
qed

text \<open>The column values of a write whose parameters have the column's type.\<close>

lemma conv_amount:
  assumes "coltype_of t c = Some CTDec" "dec_ok a"
  shows "conv t c (VFloat (to_yuan a)) = VDec a"
  using conv_dec [OF assms, of "to_yuan a"] to_yuan_close [OF assms(2)] by linarith

end

lemma val_cents_dec: "val_cents (VDec c) = c"
  by simp

definition rfc_date :: "int \<Rightarrow> int \<Rightarrow> int \<Rightarrow> string \<Rightarrow> string" where
  "rfc_date y m d z = date_text y m d @ ''T00:00:00'' @ z"

lemma val_str_date: "val_str (VDate y m d z) = rfc_date y m d z"
  by (simp add: val_str_def scan_str_def rfc_date_def date_text_def)

lemma transaction_table_types:
  "coltype_of TableNameTransactions ''date'' = Some CTDate" "coltype_of TableNameTransactions ''category_id'' = Some CTInt"
  "coltype_of TableNameTransactions ''sort_order'' = Some CTInt" "coltype_of TableNameTransactions ''amount'' = Some CTDec"
  "coltype_of TableNameTransactions ''deleted_at'' = Some CTInt" "coltype_of TableNameTransactions ''name'' = Some CTText"
  "coltype_of TableNameTransactions ''note'' = Some CTText" "coltype_of TableNameTransactions ''type'' = Some CTInt"
  "coltype_of TableNameTransactions ''created_at'' = Some CTInt" "coltype_of TableNameTransactions ''updated_at'' = Some CTInt"
  "coltype_of TableNameTransactions ''account_id'' = Some CTText"
  by (simp_all add: coltype_of_def transaction_schema)

context mysql
begin

lemma transaction_of_inserted:
  assumes "dec_ok (tx_Amount t)" "tx_Date t = date_text y m d" "valid_date y m d"
  shows "\<exists>z. transaction_of (inserted conv dflt TableNameTransactions (transaction_fields t) i) =
    t\<lparr>tx_ID := i, tx_Date := rfc_date y m d z\<rparr>"
proof -
  obtain z where z: "conv TableNameTransactions ''date'' (VStr (date_text y m d)) = VDate y m d z"
    using conv_date [OF transaction_table_types(1) assms(3)] by blast
  note types = transaction_table_types
  show ?thesis
    by (rule exI [of _ z])
      (simp add: transaction_of_def inserted_def transaction_fields_def assms(2) z val_str_date
        conv_amount [OF types(4) assms(1)] conv_int [OF types(2)] conv_int [OF types(3)] conv_int [OF types(5)]
        conv_int [OF types(8)] conv_int [OF types(9)] conv_int [OF types(10)] conv_text [OF types(6)]
        conv_text [OF types(7)] conv_text [OF types(11)])
qed

lemma transaction_of_updated:
  assumes "dec_ok (rt_Amount req)" "rt_Date req = date_text y m d" "valid_date y m d"
  shows "\<exists>z. transaction_of (updated conv TableNameTransactions (transaction_updates req n) r) =
    (transaction_of r)\<lparr>tx_CategoryID := rt_CategoryId req, tx_Type := rt_Type req, tx_Name := rt_Name req,
      tx_Amount := rt_Amount req, tx_Date := rfc_date y m d z, tx_Note := rt_Note req,
      tx_SortOrder := rt_SortOrder req, tx_UpdatedAt := n\<rparr>"
proof -
  obtain z where z: "conv TableNameTransactions ''date'' (VStr (date_text y m d)) = VDate y m d z"
    using conv_date [OF transaction_table_types(1) assms(3)] by blast
  note types = transaction_table_types
  show ?thesis
    by (rule exI [of _ z])
      (simp add: transaction_of_def updated_def transaction_updates_def assms(2) z val_str_date
        conv_amount [OF types(4) assms(1)] conv_int [OF types(2)] conv_int [OF types(3)]
        conv_int [OF types(8)] conv_int [OF types(10)] conv_text [OF types(6)] conv_text [OF types(7)])
qed

end

section \<open>Properties of writes\<close>

definition requested :: "string \<Rightarrow> int \<Rightarrow> TransactionRequest \<Rightarrow> Transaction" where
  "requested acc n req =
     \<lparr>tx_ID = 0, tx_AccountID = acc, tx_CategoryID = rt_CategoryId req, tx_Type = rt_Type req,
      tx_Name = rt_Name req, tx_Amount = rt_Amount req, tx_Date = rt_Date req, tx_Note = rt_Note req,
      tx_SortOrder = rt_SortOrder req, tx_DeletedAt = 0, tx_CreatedAt = n, tx_UpdatedAt = n\<rparr>"

lemma CreateTransaction_ok:
  "CreateTransaction exec db (Some acc) n req = (Inr p, db') \<Longrightarrow>
     \<exists>i. InsertTransaction exec db (requested acc n req) = (Inr i, db') \<and>
         p = transaction_to_pb ((requested acc n req)\<lparr>tx_ID := i\<rparr>)"
  by (auto simp: CreateTransaction_def accountIDFromCtx_def requested_def Let_def split: if_splits prod.splits sum.splits)

context mysql
begin

lemma create_then_select:
  assumes "wf db" "CreateTransaction exec db (Some acc) n req = (Inr p, db')"
    and "dec_ok (rt_Amount req)" "rt_Date req = date_text y m d" "valid_date y m d"
    and "SelectTransactionByID exec db' (pt_Id p) = Inr t"
  shows "\<exists>z. t = (requested acc n req)\<lparr>tx_ID := pt_Id p, tx_Date := rfc_date y m d z\<rparr>"
proof -
  let ?t = "requested acc n req"
  obtain i where i: "InsertTransaction exec db ?t = (Inr i, db')" "pt_Id p = i"
    using CreateTransaction_ok [OF assms(2)] by (auto simp: transaction_to_pb_def)
  let ?r = "inserted conv dflt TableNameTransactions (transaction_fields ?t) i"
  have d: "map_of (transaction_fields ?t) ''deleted_at'' = Some (VInt 0)" by (simp add: transaction_fields_def requested_def)
  note live = insert_then_live [OF assms(1) by_id_transactions transaction_fields_fine d i(1) [unfolded InsertTransaction_def]]
  have "typed_row TableNameTransactions ?r" by (rule wf_typed [OF live(1,2)])
  moreover have "scanTransaction (proj TransactionColumnsWithID ?r) = Inr t"
    using tx.select_owned(1) [OF live(1) assms(6) [unfolded i(2)] live(2,3)] .
  ultimately have "t = transaction_of ?r" by (simp add: scanTransaction_typed)
  then show ?thesis
    using transaction_of_inserted [of ?t y m d i] assms(3-5) i(2) by (simp add: requested_def)
qed

lemma update_then_read:
  assumes "wf db" "UpdateTransaction exec db (Some acc) n req = (Inr p, db')"
    and "dec_ok (rt_Amount req)" "rt_Date req = date_text y m d" "valid_date y m d"
    and "SelectTransactionByID exec db' (rt_Id req) = Inr t"
  shows "\<exists>old z. SelectTransactionByID exec db (rt_Id req) = Inr old \<and> tx_AccountID old = acc \<and>
    t = old\<lparr>tx_CategoryID := rt_CategoryId req, tx_Type := rt_Type req, tx_Name := rt_Name req,
      tx_Amount := rt_Amount req, tx_Date := rfc_date y m d z, tx_Note := rt_Note req,
      tx_SortOrder := rt_SortOrder req, tx_UpdatedAt := n\<rparr> \<and>
    pt_Type p = int32_conv (tx_Type old) \<and> pt_Amount p = tx_Amount t"
proof -
  obtain old k where old: "SelectTransactionByID exec db (rt_Id req) = Inr old" "tx_AccountID old = acc"
    "UpdateTransactionByID exec db (rt_Id req) (transaction_updates req n) = (Inr k, db')"
    "pt_Type p = int32_conv (tx_Type old)" "pt_Amount p = rt_Amount req"
    using assms(2) by (auto simp: UpdateTransaction_def accountIDFromCtx_def split: if_splits prod.splits sum.splits)
  have wf': "wf db'" using tx.update_done [OF assms(1) transaction_updates_fine(1) old(3)] by simp
  from tx.update_then_select [OF assms(1) transaction_updates_fine(1,3,4) old(1,3) assms(6)] obtain r where
    r: "r \<in> set (tab db TableNameTransactions)" "live_row (rt_Id req) r"
      "scanTransaction (proj TransactionColumnsWithID r) = Inr old"
      "scanTransaction (proj TransactionColumnsWithID (updated conv TableNameTransactions (transaction_updates req n) r)) = Inr t"
    by blast
  have o: "old = transaction_of r" using r(3) scanTransaction_typed [OF wf_typed [OF assms(1) r(1)]] by simp
  have "updated conv TableNameTransactions (transaction_updates req n) r \<in> set (tab db' TableNameTransactions)"
    using tx.update_done [OF assms(1) transaction_updates_fine(1) old(3)] r(1,2) by auto
  from scanTransaction_typed [OF wf_typed [OF wf' this]]
  have "t = transaction_of (updated conv TableNameTransactions (transaction_updates req n) r)" using r(4) by simp
  then show ?thesis using transaction_of_updated [OF assms(3-5), of n r] old o by auto
qed

end

text \<open>C36. What \<open>CreateTransaction\<close> accepts is what is stored: the entry read back under the id of the
  answer has exactly the request's category, type, name, note, sort order and amount (cents survive
  the way through \<open>float64\<close> and DECIMAL(15,2) for every amount the column can hold), belongs to the
  caller and is live; the date comes back as the RFC 3339 text of the same day, not as the text of
  the request.\<close>

theorem create_transaction_readback:
  assumes "mysql exec ok tab le conv dflt" "ok db" "CreateTransaction exec db (Some acc) n req = (Inr p, db')"
    and "dec_ok (rt_Amount req)" "rt_Date req = date_text y m d" "valid_date y m d"
    and "SelectTransactionByID exec db' (pt_Id p) = Inr t"
  shows "\<exists>z. t = (requested acc n req)\<lparr>tx_ID := pt_Id p, tx_Date := rfc_date y m d z\<rparr>"
  by (rule mysql.create_then_select [OF assms])

definition lunch :: TransactionRequest where
  "lunch = \<lparr>rt_Id = 1, rt_CategoryId = 1, rt_Type = 2, rt_Name = ''Lunch'', rt_Amount = 1250,
     rt_Date = date_text 2024 5 6, rt_Note = [], rt_SortOrder = 0\<rparr>"

definition lunch_row :: row where
  "lunch_row = inserted ref_conv ref_dflt TableNameTransactions (transaction_fields (requested ''8'' 5 lunch)) 1"

definition lunch_db :: refdb where
  "lunch_db = one_table TableNameTransactions [lunch_row] 2"

lemma lunch_row_cols:
  "lunch_row ''amount'' = VDec 1250" "lunch_row ''date'' = VDate 2024 5 6 ''Z''" "lunch_row ''id'' = VInt 1"
  "lunch_row ''account_id'' = VStr ''8''" "lunch_row ''deleted_at'' = VInt 0" "lunch_row ''category_id'' = VInt 1"
  "lunch_row ''type'' = VInt 2" "lunch_row ''name'' = VStr ''Lunch''" "lunch_row ''note'' = VStr []"
  "lunch_row ''sort_order'' = VInt 0" "lunch_row ''created_at'' = VInt 5" "lunch_row ''updated_at'' = VInt 5"
proof -
  have "dec_ok 1250" by code_simp
  from refdb.conv_amount [OF transaction_table_types(4) this] show "lunch_row ''amount'' = VDec 1250"
    by (simp add: lunch_row_def inserted_def transaction_fields_def requested_def lunch_def)
  have "valid_date 2024 5 6" by code_simp
  then show "lunch_row ''date'' = VDate 2024 5 6 ''Z''"
    by (simp add: lunch_row_def inserted_def transaction_fields_def requested_def lunch_def ref_conv_def transaction_table_types)
qed (simp_all add: lunch_row_def inserted_def transaction_fields_def requested_def lunch_def ref_conv_def transaction_table_types)

lemma lunch_row_typed: "typed_row TableNameTransactions lunch_row"
  by (simp add: typed_row_def transaction_schema lunch_row_cols has_type_def) code_simp

lemma lunch_rows_ok: "rows_ok 2 TableNameTransactions [lunch_row]"
  using lunch_row_typed
  by (simp add: rows_ok_def keys_ok_def uniq_ok_def lunch_row_cols id_below_def list_all_iff)

lemma lunch_wf: "ref_wf lunch_db"
  unfolding lunch_db_def by (rule one_table_wf [OF _ lunch_rows_ok]) simp

lemma lunch_created: "CreateTransaction ref_exec ref_empty (Some ''8'') 5 lunch =
  (Inr (transaction_to_pb ((requested ''8'' 5 lunch)\<lparr>tx_ID := 1\<rparr>)), lunch_db)"
proof -
  have "InsertTransaction ref_exec ref_empty (requested ''8'' 5 lunch) = (Inr 1, lunch_db)"
    unfolding InsertTransaction_def
    by (subst ref_InsertCtx [OF transaction_table(1) transaction_fields_fine])
      (simp_all add: ref_empty_def lunch_row_def [symmetric] lunch_rows_ok lunch_db_def one_table_def uniq_of_def
        TableNameTransactions_def [symmetric], simp add: TableNameTransactions_def)
  moreover have "date_text 2024 5 6 \<noteq> []" by (simp add: date_text_def)
  ultimately show ?thesis
    by (simp add: CreateTransaction_def accountIDFromCtx_def requested_def lunch_def INCOME_def EXPENSE_def Let_def)
qed

lemma ref_SelectTransactionByID:
  "SelectTransactionByID ref_exec db rid = no_rows (row_scan scanTransaction
     (case sort_rows [] (matching ref_le (by_id rid) (rd_tabs db TableNameTransactions)) of
        [] \<Rightarrow> None | r # _ \<Rightarrow> Some (proj TransactionColumnsWithID r)))"
proof -
  have q: "q_limit (by_id_query t cols rid) = []" "q_columns (by_id_query t cols rid) = cols"
    "q_table (by_id_query t cols rid) = t" "q_conditions (by_id_query t cols rid) = by_id rid" for t cols
    by (simp_all add: by_id_query_def query_defs)
  show ?thesis unfolding SelectTransactionByID_def by_id_def [symmetric] by_id_query_def [symmetric]
    by (simp add: ref_QueryOneCtx [OF transaction_by_id_fine q(1), unfolded q, OF transaction_columns(2)] ord_spec_def)
qed

lemma lunch_found: "SelectTransactionByID ref_exec lunch_db 1 = Inr (transaction_of lunch_row)"
proof -
  have "matching ref_le (by_id 1) [lunch_row] = [lunch_row]"
    by (simp add: matching_def by_id_def WithEq_def lunch_row_cols refdb.le_int)
  then show ?thesis
    by (simp add: ref_SelectTransactionByID lunch_db_def one_table_def sort_rows_def row_scan_def
        scanTransaction_typed [OF lunch_row_typed])
qed

theorem create_transaction_readback_witness:
  "\<exists>z. transaction_of lunch_row = (requested ''8'' 5 lunch)\<lparr>tx_ID := 1, tx_Date := rfc_date 2024 5 6 z\<rparr>"
proof -
  have d: "dec_ok (rt_Amount lunch)" by code_simp
  have v: "valid_date 2024 5 6" by code_simp
  have t: "rt_Date lunch = date_text 2024 5 6" by (simp add: lunch_def)
  from create_transaction_readback [OF refdb.mysql_axioms, OF ref_empty_wf lunch_created d t v, of "transaction_of lunch_row"]
  show ?thesis using lunch_found by (simp add: transaction_to_pb_def)
qed

text \<open>C37. What \<open>UpdateTransaction\<close> stores: only the owner's live entry is updated, and read back it has
  the request's values, its id, account and creation time as before. The answer carries the amount
  stored but the type the entry had before the update: a client that changed an expense into an
  income is told it is still an expense.\<close>

theorem update_transaction_readback:
  assumes "mysql exec ok tab le conv dflt" "ok db" "UpdateTransaction exec db (Some acc) n req = (Inr p, db')"
    and "dec_ok (rt_Amount req)" "rt_Date req = date_text y m d" "valid_date y m d"
    and "SelectTransactionByID exec db' (rt_Id req) = Inr t"
  shows "\<exists>old z. SelectTransactionByID exec db (rt_Id req) = Inr old \<and> tx_AccountID old = acc \<and>
    t = old\<lparr>tx_CategoryID := rt_CategoryId req, tx_Type := rt_Type req, tx_Name := rt_Name req,
      tx_Amount := rt_Amount req, tx_Date := rfc_date y m d z, tx_Note := rt_Note req,
      tx_SortOrder := rt_SortOrder req, tx_UpdatedAt := n\<rparr> \<and>
    pt_Type p = int32_conv (tx_Type old) \<and> pt_Amount p = tx_Amount t"
  by (rule mysql.update_then_read [OF assms])

definition lunch_income :: TransactionRequest where
  "lunch_income = lunch\<lparr>rt_Type := 1, rt_Amount := 990\<rparr>"

definition income_row :: row where
  "income_row = updated ref_conv TableNameTransactions (transaction_updates lunch_income 9) lunch_row"

definition income_db :: refdb where
  "income_db = one_table TableNameTransactions [income_row] 2"

lemma income_row_cols:
  "income_row ''amount'' = VDec 990" "income_row ''date'' = VDate 2024 5 6 ''Z''" "income_row ''id'' = VInt 1"
  "income_row ''account_id'' = VStr ''8''" "income_row ''deleted_at'' = VInt 0" "income_row ''category_id'' = VInt 1"
  "income_row ''type'' = VInt 1" "income_row ''name'' = VStr ''Lunch''" "income_row ''note'' = VStr []"
  "income_row ''sort_order'' = VInt 0" "income_row ''created_at'' = VInt 5" "income_row ''updated_at'' = VInt 9"
proof -
  have "dec_ok 990" by code_simp
  from refdb.conv_amount [OF transaction_table_types(4) this] show "income_row ''amount'' = VDec 990"
    by (simp add: income_row_def updated_def transaction_updates_def lunch_income_def)
  have "valid_date 2024 5 6" by code_simp
  then show "income_row ''date'' = VDate 2024 5 6 ''Z''"
    by (simp add: income_row_def updated_def transaction_updates_def lunch_income_def lunch_def ref_conv_def transaction_table_types)
qed (simp_all add: income_row_def updated_def transaction_updates_def lunch_income_def lunch_def ref_conv_def
    transaction_table_types lunch_row_cols)

lemma income_row_typed: "typed_row TableNameTransactions income_row"
  by (simp add: typed_row_def transaction_schema income_row_cols has_type_def) code_simp

lemma income_updated:
  "\<exists>p. UpdateTransaction ref_exec lunch_db (Some ''8'') 9 lunch_income = (Inr p, income_db)"
proof -
  have r: "rows_ok 2 TableNameTransactions [income_row]"
    using income_row_typed by (simp add: rows_ok_def keys_ok_def uniq_ok_def income_row_cols id_below_def list_all_iff)
  have c: "list_all (cond_holds ref_le lunch_row) (by_id 1)"
    by (simp add: by_id_def WithEq_def lunch_row_cols refdb.le_int)
  have "\<exists>k. UpdateTransactionByID ref_exec lunch_db 1 (transaction_updates lunch_income 9) = (Inr k, income_db)"
    unfolding UpdateTransactionByID_def by_id_def [symmetric]
    by (subst ref_UpdateCtx [OF transaction_table(1) transaction_updates_fine(1) by_id_simple])
      (simp_all add: lunch_db_def one_table_def c income_row_def [symmetric] r income_db_def)
  moreover have "tx_AccountID (transaction_of lunch_row) = ''8''" by (simp add: transaction_of_def lunch_row_cols)
  ultimately show ?thesis using lunch_found
    by (auto simp: UpdateTransaction_def accountIDFromCtx_def lunch_income_def lunch_def INCOME_def EXPENSE_def)
qed

lemma income_found: "SelectTransactionByID ref_exec income_db 1 = Inr (transaction_of income_row)"
proof -
  have "matching ref_le (by_id 1) [income_row] = [income_row]"
    by (simp add: matching_def by_id_def WithEq_def income_row_cols refdb.le_int)
  then show ?thesis
    by (simp add: ref_SelectTransactionByID income_db_def one_table_def sort_rows_def row_scan_def
        scanTransaction_typed [OF income_row_typed])
qed

theorem update_transaction_readback_witness:
  "\<exists>p. UpdateTransaction ref_exec lunch_db (Some ''8'') 9 lunch_income = (Inr p, income_db) \<and>
     tx_Type (transaction_of income_row) = 1 \<and> pt_Type p = 2"
proof -
  obtain p where p: "UpdateTransaction ref_exec lunch_db (Some ''8'') 9 lunch_income = (Inr p, income_db)"
    using income_updated by blast
  have d: "dec_ok (rt_Amount lunch_income)" by code_simp
  have v: "valid_date 2024 5 6" by code_simp
  have t: "rt_Date lunch_income = date_text 2024 5 6" "rt_Id lunch_income = 1" by (simp_all add: lunch_income_def lunch_def)
  from update_transaction_readback [OF refdb.mysql_axioms, OF lunch_wf p d t(1) v, of "transaction_of income_row"]
  have "pt_Type p = int32_conv (tx_Type (transaction_of lunch_row))"
    using income_found lunch_found t(2) by auto
  then show ?thesis using p by (simp add: transaction_of_def lunch_row_cols income_row_cols int32_conv_def)
qed

end
