(* ===== verification/CategoryProps.thy ===== *)
theory CategoryProps
  imports CashFlowProps CashFlowEdits
begin

text \<open>
  Categories: a created category joins the caller's listing, a deleted one leaves it and takes its
  transactions along, a deleted transaction leaves every listing.
\<close>

section \<open>Category listings\<close>

lemma category_coltypes:
  "coltype_of TableNameCategories ''date'' = Some CTText" "coltype_of TableNameCategories ''sort_order'' = Some CTInt"
  "coltype_of TableNameCategories ''deleted_at'' = Some CTInt" "coltype_of TableNameCategories ''name'' = Some CTText"
  "coltype_of TableNameCategories ''type'' = Some CTInt" "coltype_of TableNameCategories ''created_at'' = Some CTInt"
  "coltype_of TableNameCategories ''updated_at'' = Some CTInt" "coltype_of TableNameCategories ''account_id'' = Some CTText"
  by (simp_all add: coltype_of_def category_schema)

definition cat_conds :: "string \<Rightarrow> int \<Rightarrow> int \<Rightarrow> condition list" where
  "cat_conds acc y m =
     (if y > 0 \<and> m > 0
      then [WithEq ''account_id'' (VStr acc), WithEq ''date'' (VStr (pad0 4 y @ ''-'' @ pad0 2 m)), WithEq ''deleted_at'' (VInt 0)]
      else [WithEq ''account_id'' (VStr acc), WithEq ''deleted_at'' (VInt 0)])"

definition cat_query :: "string \<Rightarrow> int \<Rightarrow> int \<Rightarrow> query" where
  "cat_query acc y m = query_OrderBy [ASC ''sort_order''] (query_Where (cat_conds acc y m)
     (query_Table TableNameCategories (query_Columns CategoryColumnsWithID NewQuery)))"

lemma cat_query_fields:
  "q_table (cat_query acc y m) = TableNameCategories" "q_columns (cat_query acc y m) = CategoryColumnsWithID"
  "q_conditions (cat_query acc y m) = cat_conds acc y m" "q_limit (cat_query acc y m) = []"
  by (simp_all add: cat_query_def query_defs)

lemma cat_query_fine: "query_fine (cat_query acc y m) [ASC ''sort_order'']"
proof -
  have "list_all simple_order [ASC ''sort_order'']" by (simp add: simple_order_def ASC_def name_defs)
  moreover have "list_all simple_cond (cat_conds acc y m)" by (simp add: cat_conds_def WithEq_def name_defs)
  ultimately show ?thesis using category_columns category_table(1)
    by (auto intro!: query_fineI simp: cat_query_def query_defs)
qed

lemma ListCategories_query:
  "acc \<noteq> [] \<Longrightarrow> ListCategories exec db (Some acc) y m =
     (case QueryCtx exec db (cat_query acc y m) (rows_scan scanCategory) of
        Inl e \<Rightarrow> Inl internal_error | Inr cats \<Rightarrow> Inr (map category_to_pb cats))"
  by (simp add: ListCategories_def accountIDFromCtx_def SelectCategoriesByAccountIDAndDate_def
      SelectCategoriesByAccountID_def cat_query_def cat_conds_def scanCategories_def [abs_def])

definition cat_listed :: "(sqlval \<Rightarrow> sqlval \<Rightarrow> bool) \<Rightarrow> string \<Rightarrow> int \<Rightarrow> int \<Rightarrow> row list \<Rightarrow> PbCategory list" where
  "cat_listed le acc y m rows = map (\<lambda>r. category_to_pb (category_of r)) (matching le (cat_conds acc y m) rows)"

lemma ListCategories_account: "ListCategories exec db (Some acc) y m = Inr ps \<Longrightarrow> acc \<noteq> []"
  by (auto simp: ListCategories_def accountIDFromCtx_def)

context mysql
begin

lemma ListCategories_rows:
  assumes "wf db" "cursor_ok exec db" "ListCategories exec db (Some acc) y m = Inr ps"
  shows "mset ps = mset (cat_listed le acc y m (tab db TableNameCategories))"
proof -
  obtain cs where q: "QueryCtx exec db (cat_query acc y m) (rows_scan scanCategory) = Inr cs" "ps = map category_to_pb cs"
    using assms(3) ListCategories_query [OF ListCategories_account [OF assms(3)], of exec db y m] by (auto split: sum.splits)
  from list_rows [OF assms(1) cat_query_fine cat_query_fields(4) _ q(1), unfolded cat_query_fields,
      OF category_columns(2) scanCategory_typed] assms(2) obtain xs where
    "delivers le (tab db TableNameCategories) (cat_conds acc y m) [ASC ''sort_order''] xs" "cs = map category_of xs"
    by auto
  then have "mset xs = mset (matching le (cat_conds acc y m) (tab db TableNameCategories))" "ps = map (\<lambda>r. category_to_pb (category_of r)) xs"
    using q(2) by (auto simp: delivers_def)
  then show ?thesis by (simp add: cat_listed_def)
qed

lemma category_of_inserted:
  "category_of (inserted conv dflt TableNameCategories (category_fields c) i) = c\<lparr>cat_ID := i\<rparr>"
  by (simp add: category_of_def inserted_def category_fields_def conv_int [OF category_coltypes(2)]
      conv_int [OF category_coltypes(3)] conv_int [OF category_coltypes(5)] conv_int [OF category_coltypes(6)]
      conv_int [OF category_coltypes(7)] conv_text [OF category_coltypes(1)] conv_text [OF category_coltypes(4)]
      conv_text [OF category_coltypes(8)])

lemma inserted_matches:
  assumes "cat_AccountID c = acc" "cat_DeletedAt c = 0" "y > 0 \<and> m > 0 \<longrightarrow> cat_Date c = pad0 4 y @ ''-'' @ pad0 2 m"
  shows "list_all (cond_holds le (inserted conv dflt TableNameCategories (category_fields c) i)) (cat_conds acc y m)"
  using assms le_refl
  by (auto simp: cat_conds_def WithEq_def inserted_def category_fields_def conv_int [OF category_coltypes(3)]
      conv_text [OF category_coltypes(1)] conv_text [OF category_coltypes(8)])

lemma create_category_joins:
  assumes "wf db" "CreateCategory exec db (Some acc) n req = (Inr p, db')"
    and "y > 0 \<and> m > 0 \<longrightarrow> rc_Date req = pad0 4 y @ ''-'' @ pad0 2 m"
  shows "wf db' \<and> cat_listed le acc y m (tab db' TableNameCategories) =
    cat_listed le acc y m (tab db TableNameCategories) @ [p]"
proof -
  let ?c = "\<lparr>cat_ID = 0, cat_AccountID = acc, cat_Name = rc_Name req, cat_Type = rc_Type req,
     cat_SortOrder = rc_SortOrder req, cat_Date = rc_Date req, cat_DeletedAt = 0, cat_CreatedAt = n, cat_UpdatedAt = n\<rparr>"
  obtain i where i: "InsertCtx exec db TableNameCategories (category_fields ?c) = (Inr i, db')"
    "p = category_to_pb (?c\<lparr>cat_ID := i\<rparr>)"
    using assms(2) by (auto simp: CreateCategory_def accountIDFromCtx_def InsertCategory_def Let_def
        split: if_splits prod.splits sum.splits)
  have w: "wf db'" using wf_InsertCtx [OF assms(1), of TableNameCategories "category_fields ?c"] i(1) by simp
  have m: "list_all (cond_holds le (inserted conv dflt TableNameCategories (category_fields ?c) i)) (cat_conds acc y m)"
    by (rule inserted_matches) (use assms(3) in simp_all)
  from InsertCtx_ok(4) [OF assms(1) category_table(1) category_fields_fine i(1)] m category_of_inserted [of ?c i] i(2) w
  show ?thesis by (simp add: cat_listed_def matching_def)
qed

end

text \<open>A created category joins its owner's listing: \<open>ListCategories\<close> answers with exactly the entries
  it had before and the one \<open>CreateCategory\<close> answered with, for the whole listing and for the month
  the category is dated in.\<close>

theorem create_category_listed:
  assumes "mysql exec ok tab le conv dflt" "ok db" "CreateCategory exec db (Some acc) n req = (Inr p, db')"
    and "y > 0 \<and> m > 0 \<longrightarrow> rc_Date req = pad0 4 y @ ''-'' @ pad0 2 m"
    and "cursor_ok exec db" "cursor_ok exec db'"
    and "ListCategories exec db (Some acc) y m = Inr before" "ListCategories exec db' (Some acc) y m = Inr after"
  shows "mset after = add_mset p (mset before)"
proof -
  have j: "ok db' \<and> cat_listed le acc y m (tab db' TableNameCategories) =
    cat_listed le acc y m (tab db TableNameCategories) @ [p]"
    by (rule mysql.create_category_joins [OF assms(1-4)])
  then show ?thesis
    using mysql.ListCategories_rows [OF assms(1,2,5,7)] mysql.ListCategories_rows [OF assms(1) _ assms(6,8)] by simp
qed

lemma ref_ListCategories:
  assumes "ref_wf db" "acc \<noteq> []"
  shows "\<exists>ps. ListCategories ref_exec db (Some acc) y m = Inr ps"
proof -
  have "rows_scan scanCategory (map (proj CategoryColumnsWithID) (sort_rows os (matching le cs (rd_tabs db TableNameCategories)))) =
      Inr (map category_of (sort_rows os (matching le cs (rd_tabs db TableNameCategories))))" for os le cs
    by (intro rows_scan_ok scanCategory_typed ref_typed [OF assms(1)]) (use sort_matching_set in blast)
  then show ?thesis
    by (simp add: ListCategories_query [OF assms(2)] ref_QueryCtx [OF cat_query_fine cat_query_fields(4)]
        cat_query_fields category_columns(2))
qed

definition food_req :: CategoryRequest where
  "food_req = \<lparr>rc_Id = 0, rc_Name = ''Food'', rc_Type = 2, rc_SortOrder = 1, rc_Date = ''2024-05''\<rparr>"

theorem create_category_listed_witness:
  "\<exists>p db' after. CreateCategory ref_exec ref_empty (Some ''8'') 5 food_req = (Inr p, db') \<and> pc_Name p = ''Food'' \<and>
     ListCategories ref_exec db' (Some ''8'') 2024 5 = Inr after \<and> mset after = {#p#}"
proof -
  have c: "fst (CreateCategory ref_exec ref_empty (Some ''8'') 5 food_req) = Inr
      \<lparr>pc_Id = 1, pc_AccountId = ''8'', pc_Name = ''Food'', pc_Type = 2, pc_SortOrder = 1, pc_Date = ''2024-05'',
       pc_CreatedAt = 5, pc_UpdatedAt = 5\<rparr>" by code_simp
  then obtain p db' where p: "CreateCategory ref_exec ref_empty (Some ''8'') 5 food_req = (Inr p, db')" "pc_Name p = ''Food''"
    by (cases "CreateCategory ref_exec ref_empty (Some ''8'') 5 food_req") auto
  have d: "(2024::int) > 0 \<and> (5::int) > 0 \<longrightarrow> rc_Date food_req = pad0 4 2024 @ ''-'' @ pad0 2 5" by code_simp
  have w: "ref_wf db'" using mysql.CreateCategory_fair [OF refdb.mysql_axioms, OF ref_empty_wf p(1)] by (simp add: fair_step_def)
  obtain after where a: "ListCategories ref_exec db' (Some ''8'') 2024 5 = Inr after"
    using ref_ListCategories [OF w] by blast
  have b: "ListCategories ref_exec ref_empty (Some ''8'') 2024 5 = Inr []" by code_simp
  from create_category_listed [OF refdb.mysql_axioms, OF ref_empty_wf p(1) d ref_cursor_ok ref_cursor_ok b a]
  have "mset after = {#p#}" by simp
  then show ?thesis using p a by blast
qed

section \<open>Deleting\<close>

definition of_category :: "(sqlval \<Rightarrow> sqlval \<Rightarrow> bool) \<Rightarrow> string \<Rightarrow> int \<Rightarrow> row \<Rightarrow> bool" where
  "of_category le acc cid r = (owned le acc r \<and> r ''category_id'' = VInt cid \<and> r ''deleted_at'' = VInt 0)"

context mysql
begin

lemma cascade_match:
  assumes "wf db" "r \<in> set (tab db TableNameTransactions)"
  shows "list_all (cond_holds le r)
      [WithEq ''account_id'' (VStr acc), WithEq ''category_id'' (VInt cid), WithEq ''deleted_at'' (VInt 0)] \<longleftrightarrow>
    of_category le acc cid r"
proof -
  obtain c where "r ''category_id'' = VInt c"
    using typed_col [OF wf_typed [OF assms] transaction_coltypes(2)] by (auto simp: has_type_int)
  then show ?thesis using int_eq live_int [OF assms(1) by_id_transactions assms(2)]
    by (auto simp: WithEq_def owned_def of_category_def)
qed

lemma cascade_rows:
  assumes "wf db" "SoftDeleteTransactionsByCategoryID exec db acc cid n = (Inr k, db')"
  shows "tab db' = (tab db)(TableNameTransactions :=
    map (\<lambda>r. if of_category le acc cid r then updated conv TableNameTransactions (soft_delete n) r else r)
      (tab db TableNameTransactions))"
  unfolding UpdateCtx_ok(1) [OF assms(1) transaction_table(1) soft_delete_fine category_conds_simple
      assms(2) [unfolded SoftDeleteTransactionsByCategoryID_def soft_delete_def [symmetric]]]
  using cascade_match [OF assms(1)] by (auto intro!: map_cong)

lemma soft_deleted: "by_id_table t \<Longrightarrow> updated conv t (soft_delete n) r ''deleted_at'' = VInt n"
  by (simp add: by_id_table_def updated_def soft_delete_def conv_int)

lemma soft_delete_keeps: "c \<noteq> ''deleted_at'' \<Longrightarrow> c \<noteq> ''updated_at'' \<Longrightarrow> updated conv t (soft_delete n) r c = r c"
  by (simp add: updated_def soft_delete_def)

lemma cascade_applied:
  assumes "wf db" "SoftDeleteTransactionsByCategoryID exec db acc cid n = (res, db')"
  shows "\<exists>applied. tab db' = (tab db)(TableNameTransactions :=
      if applied then map (\<lambda>r. if of_category le acc cid r then updated conv TableNameTransactions (soft_delete n) r else r)
          (tab db TableNameTransactions)
      else tab db TableNameTransactions) \<and> (\<not> isl res \<longrightarrow> applied)"
proof -
  have m: "map (\<lambda>r. if list_all (cond_holds le r)
        [WithEq ''account_id'' (VStr acc), WithEq ''category_id'' (VInt cid), WithEq ''deleted_at'' (VInt 0)]
      then updated conv TableNameTransactions (soft_delete n) r else r) (tab db TableNameTransactions) =
    map (\<lambda>r. if of_category le acc cid r then updated conv TableNameTransactions (soft_delete n) r else r)
      (tab db TableNameTransactions)"
    using cascade_match [OF assms(1)] by (auto intro!: map_cong)
  show ?thesis
    using UpdateCtx_applied [OF assms(1) transaction_table(1) soft_delete_fine category_conds_simple
        assms(2) [unfolded SoftDeleteTransactionsByCategoryID_def soft_delete_def [symmetric]], unfolded m]
    by (cases res) (auto simp: applied_def intro: exI [of _ True] exI [of _ False])
qed

text \<open>The tables after the owner's delete; the flag tells whether the cascade's statement took effect.\<close>

lemma delete_category_effect:
  assumes "wf db" "DeleteCategory exec db (Some acc) n rid = (Inr (), db')" "n \<noteq> 0"
    and "SelectCategoryByID exec db rid = Inr c" "cat_AccountID c = acc"
  shows "SelectCategoryByID exec db' rid \<noteq> Inr x \<and>
    (\<exists>k db1 applied. SoftDeleteCategoryByID exec db rid n = (Inr k, db1) \<and>
       snd (SoftDeleteTransactionsByCategoryID exec db1 acc rid n) = db' \<and>
       tab db' = (tab db)(
         TableNameCategories := map (\<lambda>r. if live_row rid r then updated conv TableNameCategories (soft_delete n) r else r)
           (tab db TableNameCategories),
         TableNameTransactions := if applied
           then map (\<lambda>r. if of_category le acc rid r then updated conv TableNameTransactions (soft_delete n) r else r)
             (tab db TableNameTransactions)
           else tab db TableNameTransactions) \<and>
       (\<not> isl (fst (SoftDeleteTransactionsByCategoryID exec db1 acc rid n)) \<longrightarrow> applied))"
proof -
  obtain k db1 r2 where d: "SoftDeleteCategoryByID exec db rid n = (Inr k, db1)"
    "SoftDeleteTransactionsByCategoryID exec db1 acc rid n = (r2, db')"
    using assms(2,4,5) by (auto simp: DeleteCategory_def accountIDFromCtx_def split: if_splits prod.splits sum.splits)
  have w: "wf db1" and t1: "tab db1 = (tab db)(TableNameCategories :=
      map (\<lambda>r. if live_row rid r then updated conv TableNameCategories (soft_delete n) r else r) (tab db TableNameCategories))"
    using cat.delete_done [OF assms(1) d(1)] by simp_all
  have ne: "TableNameTransactions \<noteq> TableNameCategories" by (simp add: TableNameCategories_def TableNameTransactions_def)
  obtain applied where ap: "tab db' = (tab db1)(TableNameTransactions :=
      if applied then map (\<lambda>r. if of_category le acc rid r then updated conv TableNameTransactions (soft_delete n) r else r)
          (tab db1 TableNameTransactions)
      else tab db1 TableNameTransactions)" "\<not> isl r2 \<longrightarrow> applied"
    using cascade_applied [OF w d(2)] by blast
  have "SelectCategoryByID exec db' rid \<noteq> Inr x"
  proof
    assume x: "SelectCategoryByID exec db' rid = Inr x"
    have "wf db'" using cascade_fair [OF w d(2)] by (simp add: fair_step_def)
    from cat.select_found [OF this x] obtain s where "s \<in> set (tab db' TableNameCategories)" "live_row rid s" by blast
    then show False using ap(1) t1 ne soft_deleted [OF by_id_categories] assms(3)
      by (auto simp: live_row_def split: if_splits)
  qed
  then show ?thesis using d ap t1 ne by (intro conjI exI [of _ k] exI [of _ db1] exI [of _ applied]) simp_all
qed

end

text \<open>C38. Deleting a category: after its owner's \<open>DeleteCategory\<close> succeeded, the category is found no
  more, and the tables are determined: that one category is marked deleted; every live transaction
  of the owner in that category is marked deleted (as one statement, \<open>applied\<close>), every other
  category and transaction and every other table is the same as before. The cascade is
  guaranteed when its statement was answered. Otherwise the handler only logs its error and still
  answers success, and the transactions can all be left as they were: the success of the
  request does not promise the cascade.\<close>

theorem delete_category_cascades:
  assumes "mysql exec ok tab le conv dflt" "ok db" "DeleteCategory exec db (Some acc) n rid = (Inr (), db')" "n \<noteq> 0"
    and "SelectCategoryByID exec db rid = Inr c" "cat_AccountID c = acc"
  shows "(\<nexists>x. SelectCategoryByID exec db' rid = Inr x) \<and>
    (\<exists>k db1 applied. SoftDeleteCategoryByID exec db rid n = (Inr k, db1) \<and>
       snd (SoftDeleteTransactionsByCategoryID exec db1 acc rid n) = db' \<and>
       tab db' = (tab db)(
         TableNameCategories := map (\<lambda>r. if live_row rid r then updated conv TableNameCategories (soft_delete n) r else r)
           (tab db TableNameCategories),
         TableNameTransactions := if applied
           then map (\<lambda>r. if of_category le acc rid r then updated conv TableNameTransactions (soft_delete n) r else r)
             (tab db TableNameTransactions)
           else tab db TableNameTransactions) \<and>
       (\<not> isl (fst (SoftDeleteTransactionsByCategoryID exec db1 acc rid n)) \<longrightarrow> applied))"
  using mysql.delete_category_effect [OF assms] by blast

definition shared_db :: refdb where
  "shared_db = \<lparr>rd_tabs = (\<lambda>_. [])(
      ''categories'' := [mk_row [(''id'', VInt 1), (''account_id'', VStr ''8''), (''name'', VStr ''Food''), (''type'', VInt 2),
        (''sort_order'', VInt 1), (''date'', VStr ''2024-05''), (''deleted_at'', VInt 0), (''created_at'', VInt 1),
        (''updated_at'', VInt 1)]],
      ''transactions'' := [tx_row 1 ''8'' 50 5 3 0 0, tx_row 2 ''9'' 30 5 5 0 0]), rd_next = 7\<rparr>"

lemma shared_wf: "ref_wf shared_db"
proof -
  have "rows_ok 7 ''categories'' (rd_tabs shared_db ''categories'')" by code_simp
  moreover have "rows_ok 7 ''transactions'' (rd_tabs shared_db ''transactions'')" by code_simp
  ultimately show ?thesis
    by (auto simp: ref_wf_def shared_db_def rows_ok_def keys_ok_def uniq_ok_def list_all_iff)
qed

text \<open>The two statements of the delete, on the reference engine.\<close>

definition marked :: "refdb \<Rightarrow> string \<Rightarrow> condition list \<Rightarrow> int \<Rightarrow> row list" where
  "marked db t cs n =
     map (\<lambda>r. if list_all (cond_holds ref_le r) cs then updated ref_conv t (soft_delete n) r else r) (rd_tabs db t)"

lemma marked_cong: "rd_tabs db t = rd_tabs db' t \<Longrightarrow> marked db t cs n = marked db' t cs n"
  by (simp add: marked_def)

lemma ref_soft_delete:
  assumes "word_ok t" "list_all simple_cond cs" "rows_ok (rd_next db) t (marked db t cs n)"
  shows "\<exists>k. UpdateCtx ref_exec db t [(''deleted_at'', VInt n), (''updated_at'', VInt n)] cs =
    (Inr k, db\<lparr>rd_tabs := (rd_tabs db)(t := marked db t cs n)\<rparr>)"
  using ref_UpdateCtx [OF assms(1) soft_delete_fine assms(2), of db n] assms(3)
  by (auto simp: marked_def [symmetric] soft_delete_def [symmetric])

definition cascade_conds :: "string \<Rightarrow> int \<Rightarrow> condition list" where
  "cascade_conds acc cid = [WithEq ''account_id'' (VStr acc), WithEq ''category_id'' (VInt cid), WithEq ''deleted_at'' (VInt 0)]"

definition shared_after :: refdb where
  "shared_after =
     (let db1 = shared_db\<lparr>rd_tabs := (rd_tabs shared_db)(''categories'' := marked shared_db ''categories'' (by_id 1) 9)\<rparr>
      in db1\<lparr>rd_tabs := (rd_tabs db1)(''transactions'' := marked shared_db ''transactions'' (cascade_conds ''8'' 1) 9)\<rparr>)"

lemma shared_found: "SelectCategoryByID ref_exec shared_db 1 = Inr \<lparr>cat_ID = 1, cat_AccountID = ''8'', cat_Name = ''Food'',
  cat_Type = 2, cat_SortOrder = 1, cat_Date = ''2024-05'', cat_DeletedAt = 0, cat_CreatedAt = 1, cat_UpdatedAt = 1\<rparr>"
  by code_simp

lemma shared_deleted: "DeleteCategory ref_exec shared_db (Some ''8'') 9 1 = (Inr (), shared_after)"
proof -
  let ?db1 = "shared_db\<lparr>rd_tabs := (rd_tabs shared_db)(''categories'' := marked shared_db ''categories'' (by_id 1) 9)\<rparr>"
  have n: "rd_next shared_db = 7" by (simp add: shared_db_def)
  have "rows_ok 7 ''categories'' (marked shared_db ''categories'' (by_id 1) 9)" by code_simp
  then obtain k where u1: "SoftDeleteCategoryByID ref_exec shared_db 1 9 = (Inr k, ?db1)"
    using ref_soft_delete [OF category_table(1) by_id_simple] n
    unfolding SoftDeleteCategoryByID_def TableNameCategories_def by_id_def by metis
  have t: "rd_tabs ?db1 ''transactions'' = rd_tabs shared_db ''transactions''" by simp
  have m: "marked ?db1 ''transactions'' (cascade_conds ''8'' 1) 9 = marked shared_db ''transactions'' (cascade_conds ''8'' 1) 9"
    by (rule marked_cong [OF t])
  have "rows_ok 7 ''transactions'' (marked shared_db ''transactions'' (cascade_conds ''8'' 1) 9)" by code_simp
  then obtain k2 where u2: "SoftDeleteTransactionsByCategoryID ref_exec ?db1 ''8'' 1 9 = (Inr k2, shared_after)"
    using ref_soft_delete [OF transaction_table(1) category_conds_simple, of ?db1] n m
    unfolding SoftDeleteTransactionsByCategoryID_def TableNameTransactions_def shared_after_def Let_def cascade_conds_def
    by simp metis
  show ?thesis using u1 u2 shared_found by (simp add: DeleteCategory_def accountIDFromCtx_def)
qed

theorem delete_category_cascades_witness:
  "DeleteCategory ref_exec shared_db (Some ''8'') 9 1 = (Inr (), shared_after) \<and>
   (\<nexists>x. SelectCategoryByID ref_exec shared_after 1 = Inr x) \<and>
   map (\<lambda>r. r ''deleted_at'') (rd_tabs shared_after ''transactions'') = [VInt 9, VInt 0]"
proof -
  have r: "map (\<lambda>r. r ''deleted_at'') (rd_tabs shared_after ''transactions'') = [VInt 9, VInt 0]" by code_simp
  have n: "(9::int) \<noteq> 0" by simp
  from delete_category_cascades [OF refdb.mysql_axioms, OF shared_wf shared_deleted n shared_found]
  show ?thesis using r shared_deleted by simp
qed

end
