(* ===== verification/Redis.thy ===== *)
theory Redis
  imports Prelude
begin

text \<open>
  The Redis server behind \<open>redis.Client\<close>, as \<open>lib/auth/statetoken.go\<close> and the auth service use it
  through go-redis: eleven commands on string keys and hashes, with expiry. The locale \<open>redis\<close>
  states what the code relies on: before a command the clock has moved on and dead keys are gone; the
  command then takes effect and is answered, or it is answered by a connection error, in which
  case it may have taken effect or not. The last section gives a server that fulfils the contract.
\<close>

section \<open>Commands and replies\<close>

datatype rval = RText string | RHash "(string \<times> string) list"

text \<open>A key's value with the time (in nanoseconds) at which it expires, if it does.\<close>

type_synonym rentry = "rval \<times> int option"

record rview =
  rv_clock :: int
  rv_keys :: "string \<Rightarrow> rentry option"

datatype rcmd =
    HGetAll string
  | Exists string
  | HDel string "string list"
  | HLen string
  | Set string string int
  | HSet string string string
  | Del "string list"
  | Get string
  | TTL string
  | Incr string
  | Expire string int

datatype rreply = RInt int | RBulk string | RMap "(string \<times> string) list" | ROk

definition wrong_type :: goerr where
  "wrong_type = Errorf ''WRONGTYPE Operation against a key holding the wrong kind of value''"

definition del_arity :: goerr where
  "del_arity = Errorf ''ERR wrong number of arguments for 'del' command''"

definition not_integer :: goerr where
  "not_integer = Errorf ''ERR value is not an integer or out of range''"

text \<open>The clock moves to \<open>t\<close>: keys whose time has come are gone.\<close>

definition at_time :: "int \<Rightarrow> rview \<Rightarrow> rview" where
  "at_time t v =
     \<lparr>rv_clock = t,
      rv_keys = (\<lambda>k. case rv_keys v k of
                       Some (x, Some d) \<Rightarrow> (if d \<le> t then None else Some (x, Some d))
                     | e \<Rightarrow> e)\<rparr>"

text \<open>go-redis sends an expiry in milliseconds, at least one; a zero or negative one means none and
  \<open>KeepTTL\<close> (-1) the old one. \<open>EXPIRE\<close> takes whole seconds, at least one.\<close>

definition set_deadline :: "rview \<Rightarrow> string \<Rightarrow> int \<Rightarrow> int option" where
  "set_deadline v k dur =
     (if dur > 0 then Some (rv_clock v + max 1000000 (dur div 1000000 * 1000000))
      else if dur = -1 then (case rv_keys v k of Some (_, d) \<Rightarrow> d | None \<Rightarrow> None)
      else None)"

definition expire_seconds :: "int \<Rightarrow> int" where
  "expire_seconds dur = (if 0 < dur \<and> dur < 1000000000 then 1 else dur div 1000000000)"

definition drop_fields :: "string list \<Rightarrow> (string \<times> string) list \<Rightarrow> (string \<times> string) list" where
  "drop_fields fs h = filter (\<lambda>kv. fst kv \<notin> set fs) h"

definition put_field :: "string \<Rightarrow> string \<Rightarrow> (string \<times> string) list \<Rightarrow> (string \<times> string) list" where
  "put_field f x h = filter (\<lambda>kv. fst kv \<noteq> f) h @ [(f, x)]"

text \<open>What a command does to the keys, at the time of \<open>v\<close>.\<close>

definition set_key :: "string \<Rightarrow> rentry option \<Rightarrow> rview \<Rightarrow> rview" where
  "set_key k e v = v\<lparr>rv_keys := (rv_keys v)(k := e)\<rparr>"

definition redis_effect :: "rcmd \<Rightarrow> rview \<Rightarrow> rview" where
  "redis_effect c v =
     (case c of
        HDel k fs \<Rightarrow>
          (case rv_keys v k of
             Some (RHash h, d) \<Rightarrow>
               (let h' = drop_fields fs h in set_key k (if h' = [] then None else Some (RHash h', d)) v)
           | _ \<Rightarrow> v)
      | Set k x dur \<Rightarrow> set_key k (Some (RText x, set_deadline v k dur)) v
      | HSet k f x \<Rightarrow>
          (case rv_keys v k of
             None \<Rightarrow> set_key k (Some (RHash [(f, x)], None)) v
           | Some (RHash h, d) \<Rightarrow> set_key k (Some (RHash (put_field f x h), d)) v
           | _ \<Rightarrow> v)
      | Del ks \<Rightarrow> v\<lparr>rv_keys := (\<lambda>k. if k \<in> set ks then None else rv_keys v k)\<rparr>
      | Incr k \<Rightarrow>
          (case rv_keys v k of
             None \<Rightarrow> set_key k (Some (RText (itoa 1), None)) v
           | Some (RText s, d) \<Rightarrow>
               (case parse_int s of Some i \<Rightarrow> set_key k (Some (RText (itoa (i + 1)), d)) v | None \<Rightarrow> v)
           | _ \<Rightarrow> v)
      | Expire k dur \<Rightarrow>
          (case rv_keys v k of
             None \<Rightarrow> v
           | Some (x, d) \<Rightarrow>
               (if expire_seconds dur \<le> 0 then set_key k None v
                else set_key k (Some (x, Some (rv_clock v + expire_seconds dur * 1000000000))) v))
      | _ \<Rightarrow> v)"

definition ttl_reply :: "rview \<Rightarrow> string \<Rightarrow> int" where
  "ttl_reply v k =
     (case rv_keys v k of
        None \<Rightarrow> -2
      | Some (_, None) \<Rightarrow> -1
      | Some (_, Some d) \<Rightarrow> (((d - rv_clock v) div 1000000 + 500) div 1000) * 1000000000)"

text \<open>What it is answered. The fields of a hash come in no particular order.\<close>

definition redis_reply :: "rcmd \<Rightarrow> rview \<Rightarrow> goerr + rreply" where
  "redis_reply c v =
     (case c of
        HGetAll k \<Rightarrow>
          (case rv_keys v k of
             None \<Rightarrow> Inr (RMap [])
           | Some (RHash h, _) \<Rightarrow> Inr (RMap h)
           | Some (RText _, _) \<Rightarrow> Inl wrong_type)
      | Exists k \<Rightarrow> Inr (RInt (if rv_keys v k = None then 0 else 1))
      | HDel k fs \<Rightarrow>
          (case rv_keys v k of
             None \<Rightarrow> Inr (RInt 0)
           | Some (RHash h, _) \<Rightarrow> Inr (RInt (int (length h) - int (length (drop_fields fs h))))
           | Some (RText _, _) \<Rightarrow> Inl wrong_type)
      | HLen k \<Rightarrow>
          (case rv_keys v k of
             None \<Rightarrow> Inr (RInt 0)
           | Some (RHash h, _) \<Rightarrow> Inr (RInt (int (length h)))
           | Some (RText _, _) \<Rightarrow> Inl wrong_type)
      | Set k x dur \<Rightarrow> Inr ROk
      | HSet k f x \<Rightarrow>
          (case rv_keys v k of
             None \<Rightarrow> Inr (RInt 1)
           | Some (RHash h, _) \<Rightarrow> Inr (RInt (if f \<in> fst ` set h then 0 else 1))
           | Some (RText _, _) \<Rightarrow> Inl wrong_type)
      | Del ks \<Rightarrow>
          (if ks = [] then Inl del_arity
           else Inr (RInt (int (length (filter (\<lambda>k. rv_keys v k \<noteq> None) (remdups ks))))))
      | Get k \<Rightarrow>
          (case rv_keys v k of
             None \<Rightarrow> Inl RedisNil
           | Some (RText s, _) \<Rightarrow> Inr (RBulk s)
           | Some (RHash _, _) \<Rightarrow> Inl wrong_type)
      | TTL k \<Rightarrow> Inr (RInt (ttl_reply v k))
      | Incr k \<Rightarrow>
          (case rv_keys v k of
             None \<Rightarrow> Inr (RInt 1)
           | Some (RText s, _) \<Rightarrow>
               (case parse_int s of Some i \<Rightarrow> Inr (RInt (i + 1)) | None \<Rightarrow> Inl not_integer)
           | Some (RHash _, _) \<Rightarrow> Inl wrong_type)
      | Expire k dur \<Rightarrow> Inr (RInt (if rv_keys v k = None then 0 else 1)))"

definition redis_answer :: "rcmd \<Rightarrow> rview \<Rightarrow> (goerr + rreply) \<Rightarrow> bool" where
  "redis_answer c v res =
     (case (redis_reply c v, res) of
        (Inr (RMap h), Inr (RMap m)) \<Rightarrow> mset m = mset h
      | (r, _) \<Rightarrow> res = r)"

section \<open>The contract\<close>

type_synonym 'r rclient = "'r \<Rightarrow> rcmd \<Rightarrow> (goerr + rreply) \<times> 'r"

definition redis_step :: "rcmd \<Rightarrow> rview \<Rightarrow> (goerr + rreply) \<Rightarrow> rview \<Rightarrow> bool" where
  "redis_step c v res v' \<longleftrightarrow>
     (redis_answer c v res \<and> v' = redis_effect c v) \<or>
     (\<exists>m. res = Inl (Errorf m) \<and> (v' = v \<or> v' = redis_effect c v))"

locale redis =
  fixes client :: "'r rclient"
    and view :: "'r \<Rightarrow> rview"
  assumes command: "client s c = (res, s') \<Longrightarrow>
    \<exists>t. rv_clock (view s) \<le> t \<and> redis_step c (at_time t (view s)) res (view s')"

text \<open>A Redis that answers at once: no time passes, hashes come in the order they are kept.\<close>

definition mem_client :: "rview rclient" where
  "mem_client s c = (let v = at_time (rv_clock s) s in (redis_reply c v, redis_effect c v))"

definition mem_empty :: rview where
  "mem_empty = \<lparr>rv_clock = 0, rv_keys = (\<lambda>_. None)\<rparr>"

lemma redis_reply_ok: "redis_answer c v (redis_reply c v)"
  by (simp add: redis_answer_def split: sum.split rreply.split)

interpretation mem: redis mem_client "\<lambda>v. v"
  by unfold_locales (auto simp: mem_client_def Let_def redis_step_def redis_reply_ok intro!: exI [of _ "rv_clock _"])

end
