(* ===== verification/Sha256.thy ===== *)
theory Sha256
  imports Prelude "HOL-Library.Word"
begin

text \<open>
  \<open>crypto/sha256\<close> and \<open>encoding/hex\<close> of the Go standard library, as the code uses them: the digest of
  a byte string (FIPS 180-4) and its hexadecimal text. The session layer stores refresh tokens
  under this text; all it needs of it is its shape.
\<close>

section \<open>Bytes and hexadecimal text\<close>

type_synonym w32 = "32 word"

definition bytes_of :: "string \<Rightarrow> int list" where
  "bytes_of s = map of_char s"

definition hex_digit :: "int \<Rightarrow> char" where
  "hex_digit d = char_of (if d < 10 then 48 + d else 87 + d)"

definition hex_byte :: "int \<Rightarrow> string" where
  "hex_byte b = [hex_digit (b div 16), hex_digit (b mod 16)]"

definition EncodeToString :: "int list \<Rightarrow> string" where
  "EncodeToString bs = concat (map hex_byte bs)"

section \<open>SHA-256\<close>

definition sha_k :: "w32 list" where
  "sha_k =
     [1116352408, 1899447441, 3049323471, 3921009573, 961987163, 1508970993, 2453635748, 2870763221,
      3624381080, 310598401, 607225278, 1426881987, 1925078388, 2162078206, 2614888103, 3248222580,
      3835390401, 4022224774, 264347078, 604807628, 770255983, 1249150122, 1555081692, 1996064986,
      2554220882, 2821834349, 2952996808, 3210313671, 3336571891, 3584528711, 113926993, 338241895,
      666307205, 773529912, 1294757372, 1396182291, 1695183700, 1986661051, 2177026350, 2456956037,
      2730485921, 2820302411, 3259730800, 3345764771, 3516065817, 3600352804, 4094571909, 275423344,
      430227734, 506948616, 659060556, 883997877, 958139571, 1322822218, 1537002063, 1747873779,
      1955562222, 2024104815, 2227730452, 2361852424, 2428436474, 2756734187, 3204031479, 3329325298]"

definition sha_init :: "w32 list" where
  "sha_init =
     [1779033703, 3144134277, 1013904242, 2773480762, 1359893119, 2600822924, 528734635, 1541459225]"

abbreviation band :: "'a::semiring_bit_operations \<Rightarrow> 'a \<Rightarrow> 'a" where "band \<equiv> semiring_bit_operations_class.and"

abbreviation bor :: "'a::semiring_bit_operations \<Rightarrow> 'a \<Rightarrow> 'a" where "bor \<equiv> semiring_bit_operations_class.or"

abbreviation bxor :: "'a::semiring_bit_operations \<Rightarrow> 'a \<Rightarrow> 'a" where "bxor \<equiv> semiring_bit_operations_class.xor"

abbreviation bnot :: "'a::ring_bit_operations \<Rightarrow> 'a" where "bnot \<equiv> ring_bit_operations_class.not"

definition rotr :: "nat \<Rightarrow> w32 \<Rightarrow> w32" where
  "rotr n x = bor (drop_bit n x) (push_bit (32 - n) x)"

definition word_bytes :: "w32 \<Rightarrow> int list" where
  "word_bytes w = map (\<lambda>i. uint (band (drop_bit i w) 255)) [24, 16, 8, 0]"

definition bytes_word :: "int list \<Rightarrow> w32" where
  "bytes_word bs = foldl (\<lambda>w b. bor (push_bit 8 w) (word_of_int b)) 0 bs"

text \<open>A one bit, zeros up to 56 modulo 64 bytes, and the length in bits as a 64-bit number.\<close>

definition sha_pad :: "int list \<Rightarrow> int list" where
  "sha_pad bs =
     (let n = int (length bs) in
      bs @ [128] @ replicate (nat ((55 - n) mod 64)) 0 @
      map (\<lambda>i. (n * 8 div 2 ^ i) mod 256) [56, 48, 40, 32, 24, 16, 8, 0])"

definition sched_next :: "w32 list \<Rightarrow> w32" where
  "sched_next ws =
     (let n = length ws; x = ws ! (n - 15); y = ws ! (n - 2) in
      ws ! (n - 16) + bxor (rotr 7 x) (bxor (rotr 18 x) (drop_bit 3 x)) + ws ! (n - 7) +
      bxor (rotr 17 y) (bxor (rotr 19 y) (drop_bit 10 y)))"

definition schedule :: "w32 list \<Rightarrow> w32 list" where
  "schedule ws = ((\<lambda>ws. ws @ [sched_next ws]) ^^ 48) ws"

definition sha_round :: "w32 list \<Rightarrow> w32 \<times> w32 \<Rightarrow> w32 list" where
  "sha_round st kw =
     (case st of
        [a, b, c, d, e, f, g, h] \<Rightarrow>
          (let t1 = h + bxor (rotr 6 e) (bxor (rotr 11 e) (rotr 25 e)) + bxor (band e f) (band (bnot e) g) + fst kw + snd kw;
               t2 = bxor (rotr 2 a) (bxor (rotr 13 a) (rotr 22 a)) + bxor (band a b) (bxor (band a c) (band b c))
           in [t1 + t2, a, b, c, d + t1, e, f, g])
      | _ \<Rightarrow> st)"

fun groups :: "nat \<Rightarrow> nat \<Rightarrow> 'a list \<Rightarrow> 'a list list" where
  "groups 0 n xs = []"
| "groups (Suc k) n xs = take n xs # groups k n (drop n xs)"

definition sha_block :: "w32 list \<Rightarrow> int list \<Rightarrow> w32 list" where
  "sha_block st block =
     (let ws = schedule (map bytes_word (groups 16 4 block)) in
      map2 (+) st (foldl sha_round st (zip sha_k ws)))"

definition sha256 :: "string \<Rightarrow> int list" where
  "sha256 s =
     (let bs = sha_pad (bytes_of s) in
      concat (map word_bytes (foldl sha_block sha_init (groups (length bs div 64) 64 bs))))"

section \<open>The shape of a digest\<close>

text \<open>Hexadecimal text: the digits 0-9 and a-f.\<close>

definition is_hex :: "string \<Rightarrow> bool" where
  "is_hex s = list_all (\<lambda>c. c \<in> set ''0123456789abcdef'') s"

lemma hex_digit_ok: "0 \<le> d \<Longrightarrow> d < 16 \<Longrightarrow> hex_digit d \<in> set ''0123456789abcdef''"
proof -
  assume "0 \<le> d" "d < 16"
  then have "d \<in> set [0..15]" by simp
  moreover have "\<forall>d \<in> set [0..15]. hex_digit d \<in> set ''0123456789abcdef''" by code_simp
  ultimately show ?thesis by blast
qed

lemma hex_byte_ok: "0 \<le> b \<Longrightarrow> b < 256 \<Longrightarrow> is_hex (hex_byte b)"
  by (simp only: is_hex_def hex_byte_def list.pred_inject) (simp only: simp_thms, intro conjI hex_digit_ok; simp)

lemma EncodeToString_hex: "list_all (\<lambda>b. 0 \<le> b \<and> b < 256) bs \<Longrightarrow> is_hex (EncodeToString bs)"
  using hex_byte_ok by (induction bs) (simp_all add: EncodeToString_def is_hex_def)

lemma word_bytes_ok: "list_all (\<lambda>b. 0 \<le> b \<and> b < 256) (word_bytes w)"
proof -
  have "uint (band x 255) < 256" for x :: w32
  proof -
    have "uint (band x 255) = band (uint x) 255" by (simp add: uint_and)
    also have "\<dots> < 256" by (rule le_less_trans [OF AND_upper2]) simp_all
    finally show ?thesis .
  qed
  then show ?thesis by (simp add: word_bytes_def)
qed

lemma sha256_hex: "is_hex (EncodeToString (sha256 s))"
  using word_bytes_ok by (intro EncodeToString_hex) (auto simp: sha256_def list_all_iff Let_def)

lemma EncodeToString_length: "length (EncodeToString bs) = 2 * length bs"
  by (induction bs) (simp_all add: EncodeToString_def hex_byte_def)

lemma sha_round_length: "length (sha_round st kw) = length st"
  by (auto simp: sha_round_def Let_def split: list.splits)

lemma sha_rounds_length: "length (foldl sha_round st kws) = length st"
  by (induction kws arbitrary: st) (simp_all add: sha_round_length)

lemma sha_blocks_length: "length (foldl sha_block st bs) = length st"
  by (induction bs arbitrary: st) (simp_all add: sha_block_def sha_rounds_length Let_def)

lemma sha256_length: "length (sha256 s) = 32"
proof -
  have "length (concat (map word_bytes ws)) = 4 * length ws" for ws
    by (induction ws) (simp_all add: word_bytes_def)
  then show ?thesis by (simp add: sha256_def Let_def sha_blocks_length) (simp add: sha_init_def)
qed

lemma hex_no_underscore: "is_hex s \<Longrightarrow> CHR ''_'' \<notin> set s"
  by (auto simp: is_hex_def list_all_iff)

end
