(* ===== verification/StateToken.thy ===== *)
theory StateToken
  imports Redis Sha256
begin

text \<open>
  \<open>lib/auth/statetoken.go\<close>: the sessions of an account. A refresh token is stored under the digest of
  its text, in a key \<open>token_<digest>\<close> that expires, and its digest is a field of the hash
  \<open>token_account_<id>\<close>; an account has at most \<open>TokenLimitPerAccount\<close> sessions. The functions pass
  the state of the Redis server along and stop at the first error.
\<close>

section \<open>Commands in sequence\<close>

type_synonym ('r, 'a) rio = "'r \<Rightarrow> (goerr + 'a) \<times> 'r"

definition rret :: "'a \<Rightarrow> ('r, 'a) rio" where
  "rret x = (\<lambda>s. (Inr x, s))"

definition rfail :: "goerr \<Rightarrow> ('r, 'a) rio" where
  "rfail e = (\<lambda>s. (Inl e, s))"

definition rdo :: "('r, 'a) rio \<Rightarrow> ('a \<Rightarrow> ('r, 'b) rio) \<Rightarrow> ('r, 'b) rio" where
  "rdo m f = (\<lambda>s. case m s of (Inl e, s') \<Rightarrow> (Inl e, s') | (Inr x, s') \<Rightarrow> f x s')"

definition bad_reply :: goerr where
  "bad_reply = Errorf ''redis: unexpected reply''"

definition as_int :: "(goerr + rreply) \<times> 'r \<Rightarrow> (goerr + int) \<times> 'r" where
  "as_int p = (case p of (Inl e, s) \<Rightarrow> (Inl e, s) | (Inr (RInt i), s) \<Rightarrow> (Inr i, s) | (_, s) \<Rightarrow> (Inl bad_reply, s))"

definition as_text :: "(goerr + rreply) \<times> 'r \<Rightarrow> (goerr + string) \<times> 'r" where
  "as_text p = (case p of (Inl e, s) \<Rightarrow> (Inl e, s) | (Inr (RBulk x), s) \<Rightarrow> (Inr x, s) | (_, s) \<Rightarrow> (Inl bad_reply, s))"

definition as_map :: "(goerr + rreply) \<times> 'r \<Rightarrow> (goerr + (string \<times> string) list) \<times> 'r" where
  "as_map p = (case p of (Inl e, s) \<Rightarrow> (Inl e, s) | (Inr (RMap m), s) \<Rightarrow> (Inr m, s) | (_, s) \<Rightarrow> (Inl bad_reply, s))"

definition as_ok :: "(goerr + rreply) \<times> 'r \<Rightarrow> (goerr + unit) \<times> 'r" where
  "as_ok p = (case p of (Inl e, s) \<Rightarrow> (Inl e, s) | (Inr _, s) \<Rightarrow> (Inr (), s))"

text \<open>The eight commands of the package and \<open>TTL\<close>.\<close>

definition redisHGetAllFn :: "'r rclient \<Rightarrow> string \<Rightarrow> ('r, (string \<times> string) list) rio" where
  "redisHGetAllFn cl key = (\<lambda>s. as_map (cl s (HGetAll key)))"

definition redisExistsFn :: "'r rclient \<Rightarrow> string \<Rightarrow> ('r, int) rio" where
  "redisExistsFn cl key = (\<lambda>s. as_int (cl s (Exists key)))"

definition redisHDelFn :: "'r rclient \<Rightarrow> string \<Rightarrow> string list \<Rightarrow> ('r, int) rio" where
  "redisHDelFn cl key flds = (\<lambda>s. as_int (cl s (HDel key flds)))"

definition redisHLenFn :: "'r rclient \<Rightarrow> string \<Rightarrow> ('r, int) rio" where
  "redisHLenFn cl key = (\<lambda>s. as_int (cl s (HLen key)))"

definition redisSetFn :: "'r rclient \<Rightarrow> string \<Rightarrow> string \<Rightarrow> int \<Rightarrow> ('r, unit) rio" where
  "redisSetFn cl key x expiration = (\<lambda>s. as_ok (cl s (Set key x expiration)))"

definition redisHSetFn :: "'r rclient \<Rightarrow> string \<Rightarrow> string \<Rightarrow> string \<Rightarrow> ('r, int) rio" where
  "redisHSetFn cl key f x = (\<lambda>s. as_int (cl s (HSet key f x)))"

definition redisDelFn :: "'r rclient \<Rightarrow> string list \<Rightarrow> ('r, int) rio" where
  "redisDelFn cl ks = (\<lambda>s. as_int (cl s (Del ks)))"

definition redisGetFn :: "'r rclient \<Rightarrow> string \<Rightarrow> ('r, string) rio" where
  "redisGetFn cl key = (\<lambda>s. as_text (cl s (Get key)))"

definition redisTTLFn :: "'r rclient \<Rightarrow> string \<Rightarrow> ('r, int) rio" where
  "redisTTLFn cl key = (\<lambda>s. as_int (cl s (TTL key)))"

section \<open>The functions of the package\<close>

definition tokenPrefix :: string where "tokenPrefix = ''token_''"

definition tokenAccountPrefix :: string where "tokenAccountPrefix = ''token_account_''"

definition TokenLimitPerAccount :: int where "TokenLimitPerAccount = 10"

definition StateTokenWithParseJwtToken :: "string \<Rightarrow> goerr + string" where
  "StateTokenWithParseJwtToken jwtToken = Inr (EncodeToString (sha256 jwtToken))"

text \<open>The loop over the fields of the account's hash: those whose token key is gone.\<close>

primrec gone_tokens :: "'r rclient \<Rightarrow> string list \<Rightarrow> ('r, string list) rio" where
  "gone_tokens cl [] = rret []"
| "gone_tokens cl (k # ks) =
     rdo (redisExistsFn cl (tokenPrefix @ k)) (\<lambda>v.
     rdo (gone_tokens cl ks) (\<lambda>gone. rret (if v = 0 then k # gone else gone)))"

definition stateTokenWithCleanExpires :: "'r rclient \<Rightarrow> string \<Rightarrow> ('r, unit) rio" where
  "stateTokenWithCleanExpires cl uid =
     rdo (redisHGetAllFn cl (tokenAccountPrefix @ uid)) (\<lambda>data.
     rdo (gone_tokens cl (map fst data)) (\<lambda>gone.
     if gone \<noteq> [] then rdo (redisHDelFn cl (tokenAccountPrefix @ uid) gone) (\<lambda>_. rret ()) else rret ()))"

definition StateTokenWithCount :: "'r rclient \<Rightarrow> string \<Rightarrow> ('r, int) rio" where
  "StateTokenWithCount cl uid =
     rdo (stateTokenWithCleanExpires cl uid) (\<lambda>_. redisHLenFn cl (tokenAccountPrefix @ uid))"

definition StateTokenWithSearchList :: "'r rclient \<Rightarrow> string \<Rightarrow> ('r, string list) rio" where
  "StateTokenWithSearchList cl uid =
     rdo (stateTokenWithCleanExpires cl uid) (\<lambda>_.
     rdo (redisHGetAllFn cl (tokenAccountPrefix @ uid)) (\<lambda>data. rret (map fst data)))"

definition StateTokenWithRevoke :: "'r rclient \<Rightarrow> string \<Rightarrow> ('r, unit) rio" where
  "StateTokenWithRevoke cl token =
     (if token = [] then rret ()
      else (\<lambda>s.
        case redisGetFn cl (tokenPrefix @ token) s of
          (Inl e, s1) \<Rightarrow> (if e = RedisNil then (Inr (), s1) else (Inl e, s1))
        | (Inr uid, s1) \<Rightarrow>
            rdo (redisDelFn cl [tokenPrefix @ token]) (\<lambda>_.
            rdo (redisHDelFn cl (tokenAccountPrefix @ uid) [token]) (\<lambda>_. rret ())) s1))"

text \<open>The loop of \<open>evictOldestToken\<close>: \<open>oldestTTL\<close> starts at -1, which also stands for "none yet"; a
  failing TTL skips the token.\<close>

primrec oldest_loop :: "'r rclient \<Rightarrow> string list \<Rightarrow> string \<Rightarrow> int \<Rightarrow> 'r \<Rightarrow> string \<times> 'r" where
  "oldest_loop cl [] oldestToken oldestTTL s = (oldestToken, s)"
| "oldest_loop cl (token # ts) oldestToken oldestTTL s =
     (case redisTTLFn cl (tokenPrefix @ token) s of
        (Inl e, s1) \<Rightarrow> oldest_loop cl ts oldestToken oldestTTL s1
      | (Inr ttl, s1) \<Rightarrow>
          (if oldestTTL = -1 \<or> ttl < oldestTTL then oldest_loop cl ts token ttl s1
           else oldest_loop cl ts oldestToken oldestTTL s1))"

definition evictOldestToken :: "'r rclient \<Rightarrow> string \<Rightarrow> ('r, unit) rio" where
  "evictOldestToken cl uid =
     rdo (StateTokenWithSearchList cl uid) (\<lambda>tokens.
     if tokens = [] then rret ()
     else (\<lambda>s.
       case oldest_loop cl tokens [] (-1) s of
         (oldestToken, s1) \<Rightarrow>
           (if oldestToken \<noteq> [] then StateTokenWithRevoke cl oldestToken s1
            else StateTokenWithRevoke cl (hd tokens) s1)))"

definition StateTokenWithRenew ::
  "'r rclient \<Rightarrow> string \<Rightarrow> string \<Rightarrow> string \<Rightarrow> string \<Rightarrow> int \<Rightarrow> ('r, unit) rio" where
  "StateTokenWithRenew cl oldToken newToken accountID value1 expiresIn =
     (if newToken = [] \<or> accountID = [] then rfail (Errorf ''new_token/account_id is nil'')
      else
        rdo (if oldToken \<noteq> []
             then rdo (redisExistsFn cl (tokenPrefix @ oldToken)) (\<lambda>ok. if ok \<noteq> 1 then rfail ErrorNoAuth else rret ())
             else rret ()) (\<lambda>_.
        rdo (StateTokenWithCount cl accountID) (\<lambda>count.
        rdo (if count \<ge> TokenLimitPerAccount then evictOldestToken cl accountID else rret ()) (\<lambda>_.
        rdo (redisSetFn cl (tokenPrefix @ newToken) (if value1 = [] then accountID else value1) expiresIn) (\<lambda>_.
        rdo (redisHSetFn cl (tokenAccountPrefix @ accountID) newToken ''0'') (\<lambda>_.
        if oldToken \<noteq> []
        then rdo (redisDelFn cl [tokenPrefix @ oldToken]) (\<lambda>_.
             rdo (redisHDelFn cl (tokenAccountPrefix @ accountID) [oldToken]) (\<lambda>_. rret ()))
        else rret ()))))))"

definition StateTokenWithRevokeAll :: "'r rclient \<Rightarrow> string \<Rightarrow> ('r, unit) rio" where
  "StateTokenWithRevokeAll cl uid =
     rdo (StateTokenWithSearchList cl uid) (\<lambda>tokens.
     rdo (redisDelFn cl (map (\<lambda>token. tokenPrefix @ token) tokens)) (\<lambda>_.
     rdo (redisDelFn cl [tokenAccountPrefix @ uid]) (\<lambda>_. rret ())))"

section \<open>Sessions in a view\<close>

abbreviation tkey :: "string \<Rightarrow> string" where "tkey t \<equiv> tokenPrefix @ t"

abbreviation akey :: "string \<Rightarrow> string" where "akey a \<equiv> tokenAccountPrefix @ a"

definition hash_tokens :: "rview \<Rightarrow> string \<Rightarrow> string set" where
  "hash_tokens v a = (case rv_keys v (akey a) of Some (RHash h, _) \<Rightarrow> fst ` set h | _ \<Rightarrow> {})"

text \<open>The live sessions of an account: the tokens its hash lists whose key has not expired.\<close>

definition live :: "rview \<Rightarrow> string \<Rightarrow> string set" where
  "live v a = {t \<in> hash_tokens v a. rv_keys v (tkey t) \<noteq> None}"

text \<open>A digest has no underscore, so no token key is an account key.\<close>

definition digest :: "string \<Rightarrow> bool" where
  "digest t = (t \<noteq> [] \<and> CHR ''_'' \<notin> set t)"

lemma tkey_akey: "digest t \<Longrightarrow> tkey t \<noteq> akey a"
proof
  assume "digest t" "tkey t = akey a"
  then have "t = ''account_'' @ a" by (simp add: tokenPrefix_def tokenAccountPrefix_def)
  then show False using \<open>digest t\<close> by (simp add: digest_def)
qed

lemma tkey_inj [simp]: "tkey t = tkey t' \<longleftrightarrow> t = t'"
  by simp

lemma akey_inj [simp]: "akey a = akey a' \<longleftrightarrow> a = a'"
  by simp

lemma parse_digest: "StateTokenWithParseJwtToken j = Inr t \<Longrightarrow> digest t"
  using hex_no_underscore [OF sha256_hex [of j]] EncodeToString_length [of "sha256 j"]
  by (auto simp: StateTokenWithParseJwtToken_def digest_def sha256_length)

end
