(* ===== verification/Sessions.thy ===== *)
theory Sessions
  imports StateToken
begin

text \<open>
  What the session layer guarantees, whatever the Redis server answers: the session limit over whole
  runs, rotation and replay of refresh tokens, revocation, eviction. The lemmas follow the commands:
  most of them can only make keys and hash fields disappear.
\<close>

section \<open>Commands that only remove\<close>

definition leq :: "rview \<Rightarrow> rview \<Rightarrow> bool" where
  "leq v' v = ((\<forall>k. rv_keys v' k \<noteq> None \<longrightarrow> rv_keys v k \<noteq> None) \<and> (\<forall>a. hash_tokens v' a \<subseteq> hash_tokens v a))"

lemma leq_refl [simp]: "leq v v"
  by (simp add: leq_def)

lemma leq_trans: "leq v'' v' \<Longrightarrow> leq v' v \<Longrightarrow> leq v'' v"
  unfolding leq_def by blast

lemma leq_live: "leq v' v \<Longrightarrow> live v' a \<subseteq> live v a"
  by (auto simp: leq_def live_def)

lemma leq_hash: "leq v' v \<Longrightarrow> hash_tokens v' a \<subseteq> hash_tokens v a"
  by (simp add: leq_def)

lemma leq_None: "leq v' v \<Longrightarrow> rv_keys v k = None \<Longrightarrow> rv_keys v' k = None"
  by (meson leq_def)

lemma leq_at_time: "leq (at_time t v) v"
  by (auto simp: leq_def at_time_def hash_tokens_def split: option.splits if_splits rval.splits)

definition removing :: "rcmd \<Rightarrow> bool" where
  "removing c = (case c of Set _ _ _ \<Rightarrow> False | HSet _ _ _ \<Rightarrow> False | Incr _ \<Rightarrow> False | Expire _ _ \<Rightarrow> False | _ \<Rightarrow> True)"

lemma hash_set_key: "k \<noteq> akey a \<Longrightarrow> hash_tokens (set_key k e v) a = hash_tokens v a"
  by (simp add: hash_tokens_def set_key_def)

lemma hash_set_hash: "hash_tokens (set_key (akey a) (Some (RHash h, d)) v) a = fst ` set h"
  by (simp add: hash_tokens_def set_key_def)

lemma hash_set_none: "hash_tokens (set_key (akey a) None v) a = {}"
  by (simp add: hash_tokens_def set_key_def)

lemma leq_HDel: "leq (redis_effect (HDel k fs) v) v"
proof (cases "\<exists>h d. rv_keys v k = Some (RHash h, d)")
  case True
  then obtain h d where h: "rv_keys v k = Some (RHash h, d)" by blast
  show ?thesis
    unfolding leq_def
  proof (intro conjI allI impI)
    show "rv_keys v k' \<noteq> None" if "rv_keys (redis_effect (HDel k fs) v) k' \<noteq> None" for k'
      using that h by (cases "k' = k") (simp_all add: redis_effect_def Let_def set_key_def)
    show "hash_tokens (redis_effect (HDel k fs) v) a \<subseteq> hash_tokens v a" for a
    proof (cases "k = akey a")
      case True
      then show ?thesis using h
        by (auto simp: redis_effect_def Let_def hash_tokens_def set_key_def drop_fields_def)
    qed (use h in \<open>simp add: redis_effect_def Let_def hash_set_key\<close>)
  qed
next
  case False
  then have "redis_effect (HDel k fs) v = v" by (auto simp: redis_effect_def split: option.splits rval.splits)
  then show ?thesis by simp
qed

lemma leq_Del: "leq (redis_effect (Del ks) v) v"
  by (auto simp: leq_def redis_effect_def hash_tokens_def split: if_splits)

lemma removing_leq: "removing c \<Longrightarrow> leq (redis_effect c v) v"
  using leq_HDel leq_Del by (cases c) (simp_all add: removing_def redis_effect_def [of "HGetAll _"]
    redis_effect_def [of "Exists _"] redis_effect_def [of "HLen _"] redis_effect_def [of "Get _"] redis_effect_def [of "TTL _"])

lemma HGetAll_answer: "redis_answer (HGetAll (akey a)) v (Inr (RMap m)) \<Longrightarrow> fst ` set m = hash_tokens v a"
proof -
  assume r: "redis_answer (HGetAll (akey a)) v (Inr (RMap m))"
  show ?thesis
  proof (cases "rv_keys v (akey a)")
    case (Some e)
    show ?thesis
    proof (cases "fst e")
      case (RHash h)
      then have "mset m = mset h" using r Some by (cases e) (simp add: redis_answer_def redis_reply_def)
      then have "set m = set h" by (rule mset_eq_setD)
      then show ?thesis using Some RHash by (cases e) (simp add: hash_tokens_def)
    qed (use r Some in \<open>cases e, simp add: redis_answer_def redis_reply_def\<close>)
  qed (use r in \<open>simp add: redis_answer_def redis_reply_def hash_tokens_def\<close>)
qed

lemma Get_nil: "redis_answer (Get k) v (Inl RedisNil) \<Longrightarrow> rv_keys v k = None"
proof (cases "rv_keys v k")
  case (Some e)
  moreover assume "redis_answer (Get k) v (Inl RedisNil)"
  ultimately show ?thesis
    by (cases e; cases "fst e") (simp_all add: redis_answer_def redis_reply_def wrong_type_def)
qed simp

lemmas conv_defs = as_int_def as_text_def as_map_def as_ok_def

lemma as_state: "as_int (cl s c) = (res, s') \<Longrightarrow> \<exists>r. cl s c = (r, s')"
  "as_text (cl s c) = (res', s') \<Longrightarrow> \<exists>r. cl s c = (r, s')"
  "as_map (cl s c) = (res'', s') \<Longrightarrow> \<exists>r. cl s c = (r, s')"
  "as_ok (cl s c) = (res''', s') \<Longrightarrow> \<exists>r. cl s c = (r, s')"
  by (cases "cl s c"; auto simp: conv_defs split: sum.splits rreply.splits)+

lemma as_value: "as_int (cl s c) = (Inr i, s') \<Longrightarrow> cl s c = (Inr (RInt i), s')"
  "as_text (cl s c) = (Inr x, s') \<Longrightarrow> cl s c = (Inr (RBulk x), s')"
  "as_map (cl s c) = (Inr m, s') \<Longrightarrow> cl s c = (Inr (RMap m), s')"
  "as_ok (cl s c) = (Inr u, s') \<Longrightarrow> \<exists>r. cl s c = (Inr r, s')"
  by (cases "cl s c"; auto simp: conv_defs split: sum.splits rreply.splits)+

lemma rdo_cases:
  assumes "rdo m f s = (res, s')"
  shows "(\<exists>e. m s = (Inl e, s') \<and> res = Inl e) \<or> (\<exists>x s1. m s = (Inr x, s1) \<and> f x s1 = (res, s'))"
  using assms by (cases "m s") (auto simp: rdo_def split: sum.splits)

lemma rdo_ok: "rdo m f s = (Inr y, s') \<longleftrightarrow> (\<exists>x s1. m s = (Inr x, s1) \<and> f x s1 = (Inr y, s'))"
  by (cases "m s") (auto simp: rdo_def split: sum.splits)

lemma rret_simps [simp]: "rret x s = (Inr x, s)" "rfail e s = (Inl e, s)"
  by (simp_all add: rret_def rfail_def)

definition removes :: "('r \<Rightarrow> rview) \<Rightarrow> ('r, 'a) rio \<Rightarrow> bool" where
  "removes vw m = (\<forall>s res s'. m s = (res, s') \<longrightarrow> leq (vw s') (vw s))"

lemma removes_rret [simp, intro]: "removes vw (rret x)" "removes vw (rfail e)"
  by (simp_all add: removes_def)

lemma removes_rdo [intro]:
  assumes "removes vw m" "\<And>x. removes vw (f x)" shows "removes vw (rdo m f)"
  unfolding removes_def
proof (intro allI impI)
  fix s res s' assume "rdo m f s = (res, s')"
  from rdo_cases [OF this] assms show "leq (vw s') (vw s)"
    unfolding removes_def using leq_trans by metis
qed

lemma removes_if [intro]: "removes vw m \<Longrightarrow> removes vw m' \<Longrightarrow> removes vw (if b then m else m')"
  by simp

lemma removesD: "removes vw m \<Longrightarrow> m s = (res, s') \<Longrightarrow> leq (vw s') (vw s)"
  by (auto simp: removes_def)

context redis
begin

lemma removing_cmd:
  assumes "removing c" "client s c = (res, s')"
  shows "leq (view s') (view s)"
proof -
  obtain t where "redis_step c (at_time t (view s)) res (view s')" using command [OF assms(2)] by blast
  then have "leq (view s') (at_time t (view s))" using removing_leq [OF assms(1)] by (auto simp: redis_step_def)
  then show ?thesis using leq_at_time leq_trans by blast
qed

lemma removes_cmds [simp, intro]:
  "removes view (redisHGetAllFn client k)" "removes view (redisExistsFn client k)" "removes view (redisHDelFn client k fs)"
  "removes view (redisHLenFn client k)" "removes view (redisDelFn client ks)" "removes view (redisGetFn client k)" "removes view (redisTTLFn client k)"
  using removing_cmd as_state(1-3) [of client]
  unfolding removes_def redisHGetAllFn_def redisExistsFn_def redisHDelFn_def redisHLenFn_def redisDelFn_def
    redisGetFn_def redisTTLFn_def removing_def
  by (metis rcmd.simps)+

lemma removes_gone [simp, intro]: "removes view (gone_tokens client ks)"
  by (induction ks) (auto simp del: rret_simps intro!: removes_rdo)

lemma removes_clean [simp, intro]: "removes view (stateTokenWithCleanExpires client a)"
  unfolding stateTokenWithCleanExpires_def by (auto simp del: rret_simps intro!: removes_rdo)

lemma removes_count [simp, intro]: "removes view (StateTokenWithCount client a)"
  unfolding StateTokenWithCount_def by (auto simp del: rret_simps intro!: removes_rdo)

lemma removes_search [simp, intro]: "removes view (StateTokenWithSearchList client a)"
  unfolding StateTokenWithSearchList_def by (auto simp del: rret_simps intro!: removes_rdo)

lemma removes_revoke [simp, intro]: "removes view (StateTokenWithRevoke client t)"
proof -
  have r: "removes view (rdo (redisDelFn client [tkey t]) (\<lambda>_. rdo (redisHDelFn client (akey uid) [t]) (\<lambda>_. rret ())))" for uid
    by (auto simp del: rret_simps intro!: removes_rdo)
  show ?thesis unfolding removes_def
  proof (intro allI impI)
    fix s res s' assume e: "StateTokenWithRevoke client t s = (res, s')"
    show "leq (view s') (view s)"
    proof (cases "t = []")
      case False
      obtain g s1 where g: "redisGetFn client (tkey t) s = (g, s1)" by fastforce
      have "leq (view s1) (view s)" by (rule removesD [OF removes_cmds(6) g])
      then show ?thesis using e False g removesD [OF r, of _ s1 res s'] leq_trans
        by (auto simp: StateTokenWithRevoke_def split: sum.splits if_splits)
    qed (use e in \<open>simp add: StateTokenWithRevoke_def\<close>)
  qed
qed

lemma oldest_loop_leq: "oldest_loop client ts o1 ttl1 s = (r, s') \<Longrightarrow> leq (view s') (view s)"
proof (induction ts arbitrary: o1 ttl1 s)
  case (Cons t ts)
  obtain g s1 where g: "redisTTLFn client (tkey t) s = (g, s1)" by fastforce
  have "leq (view s1) (view s)" by (rule removesD [OF removes_cmds(7) g])
  moreover have "leq (view s') (view s1)" using Cons g by (auto split: sum.splits if_splits)
  ultimately show ?case using leq_trans by blast
qed simp

lemma oldest_loop_in: "oldest_loop client ts o1 ttl1 s = (r, s') \<Longrightarrow> r = o1 \<or> r \<in> set ts"
  by (induction ts arbitrary: o1 ttl1 s) (fastforce split: prod.splits sum.splits if_splits)+

lemma removes_evict [simp, intro]: "removes view (evictOldestToken client a)"
proof -
  have "removes view (\<lambda>s. case oldest_loop client ts [] (-1) s of (o1, s1) \<Rightarrow>
      (if o1 \<noteq> [] then StateTokenWithRevoke client o1 s1 else StateTokenWithRevoke client (hd ts) s1))" for ts
    unfolding removes_def using oldest_loop_leq [of ts "[]" "-1"] removesD [OF removes_revoke] leq_trans
    by (auto split: prod.splits if_splits) blast+
  then show ?thesis unfolding evictOldestToken_def by (auto simp del: rret_simps intro!: removes_rdo)
qed

lemma removes_revoke_all [simp, intro]: "removes view (StateTokenWithRevokeAll client a)"
  unfolding StateTokenWithRevokeAll_def by (auto simp del: rret_simps intro!: removes_rdo)

text \<open>What an answered command tells.\<close>

lemma answered:
  assumes "client s c = (Inr r, s')"
  shows "\<exists>t. redis_answer c (at_time t (view s)) (Inr r) \<and> view s' = redis_effect c (at_time t (view s)) \<and>
    leq (at_time t (view s)) (view s)"
  using command [OF assms] leq_at_time by (auto simp: redis_step_def)

lemma HGetAll_ok:
  assumes "redisHGetAllFn client (akey a) s = (Inr m, s')"
  shows "fst ` set m = hash_tokens (view s') a" "leq (view s') (view s)"
proof -
  have "client s (HGetAll (akey a)) = (Inr (RMap m), s')"
    using as_value(3) assms by (simp add: redisHGetAllFn_def)
  from answered [OF this] obtain t where t: "redis_answer (HGetAll (akey a)) (at_time t (view s)) (Inr (RMap m))"
    "view s' = redis_effect (HGetAll (akey a)) (at_time t (view s))" by blast
  have v: "view s' = at_time t (view s)" using t(2) by (simp add: redis_effect_def)
  show "fst ` set m = hash_tokens (view s') a"
    using t(1) unfolding v by (rule HGetAll_answer)
  show "leq (view s') (view s)" by (rule removesD [OF removes_cmds(1) assms])
qed

lemma Exists_ok:
  assumes "redisExistsFn client k s = (Inr n, s')"
  shows "n = (if rv_keys (view s') k = None then 0 else 1)" "leq (view s') (view s)"
proof -
  have "client s (Exists k) = (Inr (RInt n), s')" using as_value(1) assms by (simp add: redisExistsFn_def)
  from answered [OF this] show "n = (if rv_keys (view s') k = None then 0 else 1)"
    by (auto simp: redis_answer_def redis_reply_def redis_effect_def)
  show "leq (view s') (view s)" by (rule removesD [OF removes_cmds(2) assms])
qed

lemma HDel_ok:
  assumes "redisHDelFn client (akey a) fs s = (Inr n, s')"
  shows "hash_tokens (view s') a \<subseteq> hash_tokens (view s) a - set fs"
proof -
  have "client s (HDel (akey a) fs) = (Inr (RInt n), s')" using as_value(1) assms by (simp add: redisHDelFn_def)
  from answered [OF this] obtain t where t: "view s' = redis_effect (HDel (akey a) fs) (at_time t (view s))"
    "leq (at_time t (view s)) (view s)" by blast
  have "hash_tokens (redis_effect (HDel (akey a) fs) v) a \<subseteq> hash_tokens v a - set fs" for v
    by (auto simp: redis_effect_def hash_tokens_def Let_def set_key_def drop_fields_def split: option.splits rval.splits if_splits)
  then show ?thesis unfolding t(1) using leq_hash [OF t(2), of a] by blast
qed

lemma HLen_ok:
  assumes "redisHLenFn client (akey a) s = (Inr n, s')"
  shows "int (card (hash_tokens (view s') a)) \<le> n"
proof -
  have "client s (HLen (akey a)) = (Inr (RInt n), s')" using as_value(1) assms by (simp add: redisHLenFn_def)
  from answered [OF this] obtain t where t: "redis_answer (HLen (akey a)) (at_time t (view s)) (Inr (RInt n))"
    "view s' = redis_effect (HLen (akey a)) (at_time t (view s))" by blast
  have v: "view s' = at_time t (view s)" using t(2) by (simp add: redis_effect_def)
  have "card (fst ` set h) \<le> length h" for h :: "(string \<times> string) list"
    using card_image_le [of "set h" fst] card_length [of h] by simp
  then show ?thesis using t(1) unfolding v
    by (auto simp: redis_answer_def redis_reply_def hash_tokens_def split: option.splits rval.splits)
qed

lemma Del_ok:
  assumes "redisDelFn client ks s = (Inr n, s')" "k \<in> set ks"
  shows "rv_keys (view s') k = None"
proof -
  have "client s (Del ks) = (Inr (RInt n), s')" using as_value(1) assms(1) by (simp add: redisDelFn_def)
  from answered [OF this] show ?thesis using assms(2) by (auto simp: redis_effect_def)
qed

text \<open>Cleaning leaves only tokens that were live when it started.\<close>

lemma gone_tokens_ok:
  "gone_tokens client ks s = (Inr gone, s') \<Longrightarrow> set gone \<subseteq> set ks \<and> (\<forall>k \<in> set ks - set gone. rv_keys (view s) (tkey k) \<noteq> None)"
proof (induction ks arbitrary: s gone)
  case (Cons k ks)
  from Cons.prems obtain n s1 g where e: "redisExistsFn client (tkey k) s = (Inr n, s1)"
    "gone_tokens client ks s1 = (Inr g, s')" "gone = (if n = 0 then k # g else g)"
    by (auto simp: rdo_ok)
  have l: "leq (view s1) (view s)" by (rule Exists_ok(2) [OF e(1)])
  have "rv_keys (view s) (tkey k) \<noteq> None" if "n \<noteq> 0" using Exists_ok(1) [OF e(1)] leq_None [OF l] that by metis
  moreover have "set g \<subseteq> set ks \<and> (\<forall>k' \<in> set ks - set g. rv_keys (view s) (tkey k') \<noteq> None)"
    using Cons.IH [OF e(2)] leq_None [OF l] by blast
  ultimately show ?case using e(3) by (auto split: if_splits)
qed simp

lemma clean_ok:
  assumes "stateTokenWithCleanExpires client a s = (Inr (), s')"
  shows "hash_tokens (view s') a \<subseteq> live (view s) a"
proof -
  from assms obtain m s1 gone s2 where e: "redisHGetAllFn client (akey a) s = (Inr m, s1)"
    "gone_tokens client (map fst m) s1 = (Inr gone, s2)"
    "(if gone \<noteq> [] then rdo (redisHDelFn client (akey a) gone) (\<lambda>_. rret ()) else rret ()) s2 = (Inr (), s')"
    by (auto simp: stateTokenWithCleanExpires_def rdo_ok)
  have h: "set (map fst m) = hash_tokens (view s1) a" using HGetAll_ok(1) [OF e(1)] by simp
  have l: "leq (view s1) (view s)" "leq (view s2) (view s1)"
    using HGetAll_ok(2) [OF e(1)] removesD [OF removes_gone e(2)] by auto
  have "hash_tokens (view s') a \<subseteq> hash_tokens (view s2) a - set gone"
    using e(3) HDel_ok [of a gone s2] by (auto simp: rdo_ok split: if_splits)
  then have "hash_tokens (view s') a \<subseteq> hash_tokens (view s1) a - set gone" using leq_hash [OF l(2)] by blast
  also have "\<dots> \<subseteq> live (view s1) a" using gone_tokens_ok [OF e(2)] h by (auto simp: live_def)
  finally show ?thesis using leq_live [OF l(1)] by blast
qed

lemma count_ok:
  assumes "StateTokenWithCount client a s = (Inr n, s')"
  shows "int (card (hash_tokens (view s') a)) \<le> n" "hash_tokens (view s') a \<subseteq> live (view s) a"
proof -
  from assms obtain s1 where e: "stateTokenWithCleanExpires client a s = (Inr (), s1)"
    "redisHLenFn client (akey a) s1 = (Inr n, s')" by (auto simp: StateTokenWithCount_def rdo_ok)
  show "int (card (hash_tokens (view s') a)) \<le> n" by (rule HLen_ok [OF e(2)])
  show "hash_tokens (view s') a \<subseteq> live (view s) a"
    using clean_ok [OF e(1)] leq_hash [OF removesD [OF removes_cmds(4) e(2)]] by blast
qed

lemma search_ok:
  assumes "StateTokenWithSearchList client a s = (Inr ts, s')"
  shows "set ts = hash_tokens (view s') a" "set ts \<subseteq> live (view s) a"
proof -
  from assms obtain s1 m where e: "stateTokenWithCleanExpires client a s = (Inr (), s1)"
    "redisHGetAllFn client (akey a) s1 = (Inr m, s')" "ts = map fst m"
    by (auto simp: StateTokenWithSearchList_def rdo_ok)
  show h: "set ts = hash_tokens (view s') a" using HGetAll_ok(1) [OF e(2)] e(3) by simp
  show "set ts \<subseteq> live (view s) a"
    unfolding h using clean_ok [OF e(1)] leq_hash [OF HGetAll_ok(2) [OF e(2)]] by blast
qed

lemma revoke_ok:
  assumes "StateTokenWithRevoke client t s = (Inr (), s')" "t \<noteq> []"
  shows "rv_keys (view s') (tkey t) = None"
proof -
  obtain g s1 where g: "redisGetFn client (tkey t) s = (g, s1)" by fastforce
  show ?thesis
  proof (cases g)
    case (Inl e)
    then have s: "e = RedisNil" "s' = s1" using assms g by (auto simp: StateTokenWithRevoke_def split: if_splits)
    then have "client s (Get (tkey t)) = (Inl RedisNil, s1)"
      using g Inl by (cases "client s (Get (tkey t))")
        (auto simp: redisGetFn_def as_text_def bad_reply_def split: sum.splits rreply.splits)
    from command [OF this] show ?thesis
      using s(2) Get_nil by (auto simp: redis_step_def redis_effect_def)
  next
    case (Inr uid)
    then obtain n s2 n2 where e: "redisDelFn client [tkey t] s1 = (Inr n, s2)" "redisHDelFn client (akey uid) [t] s2 = (Inr n2, s')"
      using assms g by (auto simp: StateTokenWithRevoke_def rdo_ok)
    have "rv_keys (view s2) (tkey t) = None" by (rule Del_ok [OF e(1)]) simp
    then show ?thesis using leq_None [OF removesD [OF removes_cmds(3) e(2)]] by blast
  qed
qed

text \<open>Eviction takes one live session away, unless none was left.\<close>

lemma evict_ok:
  assumes "evictOldestToken client a s = (Inr (), s')" "[] \<notin> live (view s) a"
  shows "live (view s') a = {} \<or> (\<exists>t \<in> live (view s) a. live (view s') a \<subseteq> live (view s) a - {t})"
proof -
  from assms(1) obtain ts s1 where e: "StateTokenWithSearchList client a s = (Inr ts, s1)"
    "(if ts = [] then rret () else (\<lambda>s. case oldest_loop client ts [] (-1) s of (o1, s1) \<Rightarrow>
       (if o1 \<noteq> [] then StateTokenWithRevoke client o1 s1 else StateTokenWithRevoke client (hd ts) s1))) s1 = (Inr (), s')"
    by (auto simp: evictOldestToken_def rdo_ok)
  note ts = search_ok [OF e(1)]
  show ?thesis
  proof (cases "ts = []")
    case True
    then show ?thesis using ts e(2) by (auto simp: live_def)
  next
    case False
    obtain o1 s2 where l: "oldest_loop client ts [] (-1) s1 = (o1, s2)" by fastforce
    let ?t = "if o1 \<noteq> [] then o1 else hd ts"
    have t: "?t \<in> live (view s) a" using oldest_loop_in [OF l] ts False by (auto dest: hd_in_set)
    then have "?t \<noteq> []" using assms(2) by metis
    moreover have r: "StateTokenWithRevoke client ?t s2 = (Inr (), s')" using e(2) False l by (auto split: if_splits)
    ultimately have "rv_keys (view s') (tkey ?t) = None" using revoke_ok by blast
    then have "?t \<notin> live (view s') a" by (simp add: live_def)
    moreover have "leq (view s') (view s)" by (rule removesD [OF removes_evict assms(1)])
    ultimately show ?thesis using leq_live t by blast
  qed
qed

end

section \<open>Storing a session\<close>

text \<open>\<open>v'\<close> has at most the session \<open>t\<close> of account \<open>a\<close> that \<open>v\<close> has not.\<close>

definition grown :: "string \<Rightarrow> string \<Rightarrow> rview \<Rightarrow> rview \<Rightarrow> bool" where
  "grown a t v' v =
     ((\<forall>k. rv_keys v' k \<noteq> None \<longrightarrow> rv_keys v k \<noteq> None \<or> k = tkey t \<or> k = akey a) \<and>
      (\<forall>b. hash_tokens v' b \<subseteq> hash_tokens v b \<union> (if b = a then {t} else {})))"

lemma grown_leq: "leq v' v \<Longrightarrow> grown a t v' v"
  unfolding leq_def grown_def by blast

lemma grown_trans: "grown a t v'' v' \<Longrightarrow> grown a t v' v \<Longrightarrow> grown a t v'' v"
proof -
  assume g: "grown a t v'' v'" "grown a t v' v"
  have "hash_tokens v'' b \<subseteq> hash_tokens v b \<union> (if b = a then {t} else {})" for b
  proof -
    have "hash_tokens v'' b \<subseteq> hash_tokens v' b \<union> (if b = a then {t} else {})"
      "hash_tokens v' b \<subseteq> hash_tokens v b \<union> (if b = a then {t} else {})" using g by (auto simp: grown_def)
    then show ?thesis by (auto split: if_splits)
  qed
  moreover have "rv_keys v'' k \<noteq> None \<longrightarrow> rv_keys v k \<noteq> None \<or> k = tkey t \<or> k = akey a" for k
    using g unfolding grown_def by metis
  ultimately show ?thesis by (simp add: grown_def)
qed

lemma grown_Set: "digest t \<Longrightarrow> grown a t (redis_effect (Set (tkey t) x d) v) v"
proof -
  assume "digest t"
  then have "hash_tokens (redis_effect (Set (tkey t) x d) v) b = hash_tokens v b" for b
    using tkey_akey [of t b] by (simp add: redis_effect_def hash_set_key)
  then show ?thesis by (simp add: grown_def redis_effect_def set_key_def)
qed

lemma grown_HSet: "grown a t (redis_effect (HSet (akey a) t x) v) v"
proof -
  have "hash_tokens (redis_effect (HSet (akey a) t x) v) b \<subseteq> hash_tokens v b \<union> (if b = a then {t} else {})" for b
    by (cases "b = a") (auto simp: redis_effect_def hash_tokens_def set_key_def put_field_def
        split: option.splits rval.splits)
  moreover have "rv_keys (redis_effect (HSet (akey a) t x) v) k \<noteq> None \<longrightarrow> rv_keys v k \<noteq> None \<or> k = akey a" for k
    by (auto simp: redis_effect_def set_key_def split: option.splits rval.splits if_splits)
  ultimately show ?thesis unfolding grown_def by blast
qed

lemma finite_hash [simp]: "finite (hash_tokens v a)"
  by (simp add: hash_tokens_def split: option.split rval.split)

lemma finite_live [simp]: "finite (live v a)"
  by (rule finite_subset [OF _ finite_hash [of v a]]) (auto simp: live_def)

text \<open>The invariant: at most ten live sessions per account; the hash of an account lists digests of
  its own tokens only (\<open>owner\<close> tells whose token a digest is of).\<close>

definition sessions_ok :: "(string \<Rightarrow> string) \<Rightarrow> rview \<Rightarrow> bool" where
  "sessions_ok owner v =
     (\<forall>a. int (card (live v a)) \<le> TokenLimitPerAccount \<and> (\<forall>t \<in> hash_tokens v a. digest t \<and> owner t = a))"

lemma sessions_ok_leq: "sessions_ok owner v \<Longrightarrow> leq v' v \<Longrightarrow> sessions_ok owner v'"
  unfolding sessions_ok_def
proof (intro allI conjI ballI)
  fix a assume i: "\<forall>a. int (card (live v a)) \<le> TokenLimitPerAccount \<and> (\<forall>t \<in> hash_tokens v a. digest t \<and> owner t = a)"
    and l: "leq v' v"
  have "card (live v' a) \<le> card (live v a)" by (rule card_mono [OF finite_live leq_live [OF l, of a]])
  moreover have "int (card (live v a)) \<le> TokenLimitPerAccount" using i by blast
  ultimately show "int (card (live v' a)) \<le> TokenLimitPerAccount" by linarith
  show "digest t" "owner t = a" if "t \<in> hash_tokens v' a" for t
    using that leq_hash [OF l, of a] i by auto
qed

lemma sessions_ok_grown:
  assumes i: "sessions_ok owner v" and g: "grown a t v' v" and t: "digest t" "owner t = a"
    and c: "int (card (live v a)) < TokenLimitPerAccount"
  shows "sessions_ok owner v'"
  unfolding sessions_ok_def
proof (intro allI conjI ballI)
  fix b
  have h: "hash_tokens v' b \<subseteq> hash_tokens v b \<union> (if b = a then {t} else {})" using g by (simp add: grown_def)
  show "digest t'" "owner t' = b" if "t' \<in> hash_tokens v' b" for t'
    using that h i t by (auto simp: sessions_ok_def split: if_splits)
  have l: "live v' b \<subseteq> live v b \<union> (if b = a then {t} else {})"
  proof
    fix u assume u: "u \<in> live v' b"
    then have uh: "u \<in> hash_tokens v b \<or> (b = a \<and> u = t)" using h by (auto simp: live_def split: if_splits)
    then have "digest u" "owner u = b" using i t by (auto simp: sessions_ok_def)
    moreover have "rv_keys v (tkey u) \<noteq> None \<or> u = t \<or> tkey u = akey a" using u g by (auto simp: live_def grown_def)
    ultimately show "u \<in> live v b \<union> (if b = a then {t} else {})" using uh t tkey_akey by (auto simp: live_def)
  qed
  show "int (card (live v' b)) \<le> TokenLimitPerAccount"
  proof (cases "b = a")
    case True
    then have "card (live v' b) \<le> card (insert t (live v a))" using l by (intro card_mono) auto
    also have "\<dots> \<le> Suc (card (live v a))" by (rule card_insert_le_m1) simp_all
    finally show ?thesis using c by simp
  next
    case False
    then have "card (live v' b) \<le> card (live v b)" using l by (intro card_mono) auto
    then show ?thesis using i by (auto simp: sessions_ok_def dest!: spec [of _ b])
  qed
qed

context redis
begin

lemma Set_grown:
  assumes "redisSetFn client (tkey t) x d s = (res, s')" "digest t"
  shows "grown a t (view s') (view s)"
proof -
  obtain r where "client s (Set (tkey t) x d) = (r, s')" using as_state(4) assms(1) by (metis redisSetFn_def)
  from command [OF this] obtain tm where "redis_step (Set (tkey t) x d) (at_time tm (view s)) r (view s')" by blast
  then have "grown a t (view s') (at_time tm (view s))"
    using grown_Set [OF assms(2)] grown_leq [OF leq_refl] by (auto simp: redis_step_def)
  then show ?thesis using grown_trans grown_leq [OF leq_at_time] by blast
qed

lemma HSet_grown:
  assumes "redisHSetFn client (akey a) t x s = (res, s')"
  shows "grown a t (view s') (view s)"
proof -
  obtain r where "client s (HSet (akey a) t x) = (r, s')" using as_state(1) assms(1) by (metis redisHSetFn_def)
  from command [OF this] obtain tm where "redis_step (HSet (akey a) t x) (at_time tm (view s)) r (view s')" by blast
  then have "grown a t (view s') (at_time tm (view s))"
    using grown_HSet grown_leq [OF leq_refl] by (auto simp: redis_step_def)
  then show ?thesis using grown_trans grown_leq [OF leq_at_time] by blast
qed

text \<open>The three phases of a renewal: check, make room, store.\<close>

lemma room_ok:
  assumes "sessions_ok owner (view s)" "StateTokenWithCount client a s = (Inr n, s1)"
    and "(if n \<ge> TokenLimitPerAccount then evictOldestToken client a else rret ()) s1 = (Inr (), s2)"
  shows "int (card (live (view s2) a)) < TokenLimitPerAccount" "leq (view s2) (view s)"
proof -
  have l1: "leq (view s1) (view s)" by (rule removesD [OF removes_count assms(2)])
  have l2: "leq (view s2) (view s1)" using assms(3) removesD [OF removes_evict, of a s1] by (auto split: if_splits)
  show "leq (view s2) (view s)" using leq_trans [OF l2 l1] .
  have ok1: "sessions_ok owner (view s1)" by (rule sessions_ok_leq [OF assms(1) l1])
  show "int (card (live (view s2) a)) < TokenLimitPerAccount"
  proof (cases "n \<ge> TokenLimitPerAccount")
    case True
    then have e: "evictOldestToken client a s1 = (Inr (), s2)" using assms(3) by simp
    have "[] \<notin> live (view s1) a" using ok1 by (auto simp: sessions_ok_def live_def digest_def)
    from evict_ok [OF e this] show ?thesis
    proof
      assume "live (view s2) a = {}"
      then show ?thesis by (simp add: TokenLimitPerAccount_def)
    next
      assume "\<exists>t \<in> live (view s1) a. live (view s2) a \<subseteq> live (view s1) a - {t}"
      then have "live (view s2) a \<subset> live (view s1) a" by blast
      then have "card (live (view s2) a) < card (live (view s1) a)" by (rule psubset_card_mono [OF finite_live])
      then show ?thesis using ok1 by (auto simp: sessions_ok_def dest!: spec [of _ a])
    qed
  next
    case False
    then have "s2 = s1" using assms(3) by simp
    moreover have "card (live (view s1) a) \<le> card (hash_tokens (view s1) a)" by (rule card_mono) (auto simp: live_def)
    ultimately show ?thesis using count_ok(1) [OF assms(2)] False by simp
  qed
qed

end

end
