(* ===== verification/SessionProps.thy ===== *)
theory SessionProps
  imports Sessions
begin

text \<open>
  The properties of the session layer: the limit of live sessions over whole runs, what a rotation
  does to the old and the new token, that a spent token stays spent, what revoking all sessions
  reaches and when it cannot succeed.
\<close>

section \<open>Keys a command does not touch\<close>

definition touches :: "rcmd \<Rightarrow> string set" where
  "touches c = (case c of HDel k _ \<Rightarrow> {k} | Set k _ _ \<Rightarrow> {k} | HSet k _ _ \<Rightarrow> {k} | Del ks \<Rightarrow> set ks | Incr k \<Rightarrow> {k}
     | Expire k _ \<Rightarrow> {k} | _ \<Rightarrow> {})"

text \<open>An entry as it ages: gone once its time has come.\<close>

definition aged :: "rentry option \<Rightarrow> int \<Rightarrow> rentry option" where
  "aged e t = (case e of Some (x, Some d) \<Rightarrow> (if d \<le> t then None else e) | _ \<Rightarrow> e)"

definition holds_entry :: "string \<Rightarrow> rentry option \<Rightarrow> rview \<Rightarrow> bool" where
  "holds_entry k e v = (rv_keys v k = aged e (rv_clock v))"

lemma aged_aged: "t \<le> t' \<Longrightarrow> aged (aged e t) t' = aged e t'"
  by (auto simp: aged_def split: option.splits prod.splits)

lemma at_time_keys: "rv_keys (at_time t v) k = aged (rv_keys v k) t" "rv_clock (at_time t v) = t"
  by (auto simp: at_time_def aged_def split: option.splits)

lemma aged_permanent [simp]: "aged (Some (x, None)) t = Some (x, None)" "aged None t = None"
  by (simp_all add: aged_def)

lemma effect_clock: "rv_clock (redis_effect c v) = rv_clock v"
  by (cases c) (auto simp: redis_effect_def set_key_def Let_def split: option.splits rval.splits)

lemma effect_untouched: "k \<notin> touches c \<Longrightarrow> rv_keys (redis_effect c v) k = rv_keys v k"
  by (cases c) (auto simp: redis_effect_def touches_def set_key_def Let_def split: option.splits rval.splits)

definition keeps :: "('r \<Rightarrow> rview) \<Rightarrow> string set \<Rightarrow> ('r, 'a) rio \<Rightarrow> bool" where
  "keeps vw K m = (\<forall>s res s' k e. m s = (res, s') \<longrightarrow> k \<in> K \<longrightarrow> holds_entry k e (vw s) \<longrightarrow> holds_entry k e (vw s'))"

lemma keepsD: "keeps vw K m \<Longrightarrow> m s = (res, s') \<Longrightarrow> k \<in> K \<Longrightarrow> holds_entry k e (vw s) \<Longrightarrow> holds_entry k e (vw s')"
  unfolding keeps_def by blast

lemma keeps_rret [simp, intro]: "keeps vw K (rret x)" "keeps vw K (rfail e)"
  by (simp_all add: keeps_def)

lemma keeps_rdo [intro]:
  assumes "keeps vw K m" "\<And>x. keeps vw K (f x)" shows "keeps vw K (rdo m f)"
  unfolding keeps_def
proof (intro allI impI)
  fix s res s' k e assume "rdo m f s = (res, s')" and k: "k \<in> K" "holds_entry k e (vw s)"
  from rdo_cases [OF this(1)] show "holds_entry k e (vw s')"
  proof
    assume "\<exists>x. m s = (Inl x, s') \<and> res = Inl x"
    then show ?thesis using keepsD [OF assms(1)] k by blast
  next
    assume "\<exists>x s1. m s = (Inr x, s1) \<and> f x s1 = (res, s')"
    then show ?thesis using keepsD [OF assms(1)] keepsD [OF assms(2)] k by blast
  qed
qed

context redis
begin

lemma untouched:
  assumes "client s c = (res, s')" "k \<notin> touches c" "holds_entry k e (view s)"
  shows "holds_entry k e (view s')"
proof -
  obtain t where t: "rv_clock (view s) \<le> t" "redis_step c (at_time t (view s)) res (view s')"
    using command [OF assms(1)] by blast
  then have "rv_keys (view s') k = rv_keys (at_time t (view s)) k \<and> rv_clock (view s') = t"
    using effect_untouched [OF assms(2)] effect_clock at_time_keys(2) by (auto simp: redis_step_def)
  then show ?thesis using assms(3) aged_aged [OF t(1)] by (simp add: holds_entry_def at_time_keys)
qed

lemma keeps_client:
  assumes "K \<inter> touches c = {}"
  shows "keeps view K (\<lambda>s. as_int (client s c))" "keeps view K (\<lambda>s. as_text (client s c))"
    "keeps view K (\<lambda>s. as_map (client s c))" "keeps view K (\<lambda>s. as_ok (client s c))"
proof -
  have u: "holds_entry k e (view s')" if "client s c = (r, s')" "k \<in> K" "holds_entry k e (view s)" for s r s' k e
    using untouched [OF that(1) _ that(3)] assms that(2) by blast
  show "keeps view K (\<lambda>s. as_int (client s c))" unfolding keeps_def using u as_state(1) [of client] by blast
  show "keeps view K (\<lambda>s. as_text (client s c))" unfolding keeps_def using u as_state(2) [of client] by blast
  show "keeps view K (\<lambda>s. as_map (client s c))" unfolding keeps_def using u as_state(3) [of client] by blast
  show "keeps view K (\<lambda>s. as_ok (client s c))" unfolding keeps_def using u as_state(4) [of client] by blast
qed

lemma keeps_cmds [simp, intro]:
  "keeps view K (redisHGetAllFn client k)" "keeps view K (redisExistsFn client k)" "keeps view K (redisHLenFn client k)"
  "keeps view K (redisGetFn client k)" "keeps view K (redisTTLFn client k)"
  unfolding redisHGetAllFn_def redisExistsFn_def redisHLenFn_def redisGetFn_def redisTTLFn_def
  by (rule keeps_client; simp add: touches_def)+

lemma keeps_writes [intro]:
  "k \<notin> K \<Longrightarrow> keeps view K (redisHDelFn client k fs)" "k \<notin> K \<Longrightarrow> keeps view K (redisSetFn client k x d)"
  "k \<notin> K \<Longrightarrow> keeps view K (redisHSetFn client k f y)" "set ks \<inter> K = {} \<Longrightarrow> keeps view K (redisDelFn client ks)"
  unfolding redisHDelFn_def redisSetFn_def redisHSetFn_def redisDelFn_def
  by (rule keeps_client; auto simp: touches_def)+

lemma keeps_gone [simp, intro]: "keeps view K (gone_tokens client ks)"
  by (induction ks) (auto simp del: rret_simps intro!: keeps_rdo)

lemma keeps_clean: "akey a \<notin> K \<Longrightarrow> keeps view K (stateTokenWithCleanExpires client a)"
  unfolding stateTokenWithCleanExpires_def by (auto simp del: rret_simps intro!: keeps_rdo)

text \<open>What a renewal that stores the new session went through.\<close>

lemma renew_cases:
  assumes "StateTokenWithRenew client old new acc val d s = (res, s')" "digest new"
  shows "leq (view s') (view s) \<and> isl res \<or>
    (\<exists>n s1 s2 s3. leq (view s1) (view s) \<and> StateTokenWithCount client acc s1 = (Inr n, s2) \<and>
       (if n \<ge> TokenLimitPerAccount then evictOldestToken client acc else rret ()) s2 = (Inr (), s3) \<and>
       grown acc new (view s') (view s3))"
proof -
  let ?chk = "if old \<noteq> [] then rdo (redisExistsFn client (tkey old)) (\<lambda>ok. if ok \<noteq> 1 then rfail ErrorNoAuth else rret ())
      else rret ()"
  let ?del = "if old \<noteq> [] then rdo (redisDelFn client [tkey old]) (\<lambda>_.
      rdo (redisHDelFn client (akey acc) [old]) (\<lambda>_. rret ())) else rret ()"
  let ?store = "rdo (redisSetFn client (tkey new) (if val = [] then acc else val) d) (\<lambda>_.
      rdo (redisHSetFn client (akey acc) new ''0'') (\<lambda>_. ?del))"
  let ?room = "\<lambda>n. if n \<ge> TokenLimitPerAccount then evictOldestToken client acc else rret ()"
  have r1: "removes view ?chk" and r2: "removes view ?del" by (auto simp del: rret_simps intro!: removes_rdo)
  have store: "grown acc new (view s') (view s3)" if "?store s3 = (res, s')" for s3
  proof -
    from rdo_cases [OF that] consider e where "redisSetFn client (tkey new) (if val = [] then acc else val) d s3 = (Inl e, s')"
      | s4 where "redisSetFn client (tkey new) (if val = [] then acc else val) d s3 = (Inr (), s4)"
        "rdo (redisHSetFn client (akey acc) new ''0'') (\<lambda>_. ?del) s4 = (res, s')" by auto
    then show ?thesis
    proof cases
      case 2
      have g: "grown acc new (view s4) (view s3)" by (rule Set_grown [OF 2(1) assms(2)])
      from rdo_cases [OF 2(2)] have "grown acc new (view s') (view s4)"
        using HSet_grown [of acc new "''0''" s4] removesD [OF r2] grown_trans grown_leq by blast
      then show ?thesis using grown_trans g by blast
    qed (use Set_grown assms(2) in blast)
  qed
  show ?thesis
  proof (cases "new = [] \<or> acc = []")
    case True
    then show ?thesis using assms(1) by (auto simp: StateTokenWithRenew_def)
  next
    case False
    then have m: "rdo ?chk (\<lambda>_. rdo (StateTokenWithCount client acc) (\<lambda>n. rdo (?room n) (\<lambda>_. ?store))) s = (res, s')"
      using assms(1) by (simp add: StateTokenWithRenew_def)
    from rdo_cases [OF m] show ?thesis
    proof
      assume "\<exists>e. ?chk s = (Inl e, s') \<and> res = Inl e"
      then show ?thesis using removesD [OF r1] by auto
    next
      assume "\<exists>x s1. ?chk s = (Inr x, s1) \<and> rdo (StateTokenWithCount client acc) (\<lambda>n. rdo (?room n) (\<lambda>_. ?store)) s1 = (res, s')"
      then obtain s1 where l1: "leq (view s1) (view s)"
        and m1: "rdo (StateTokenWithCount client acc) (\<lambda>n. rdo (?room n) (\<lambda>_. ?store)) s1 = (res, s')"
        using removesD [OF r1] by blast
      from rdo_cases [OF m1] show ?thesis
      proof
        assume "\<exists>e. StateTokenWithCount client acc s1 = (Inl e, s') \<and> res = Inl e"
        then show ?thesis using removesD [OF removes_count] leq_trans [OF _ l1] by auto
      next
        assume "\<exists>n s2. StateTokenWithCount client acc s1 = (Inr n, s2) \<and> rdo (?room n) (\<lambda>_. ?store) s2 = (res, s')"
        then obtain n s2 where c: "StateTokenWithCount client acc s1 = (Inr n, s2)"
          and m2: "rdo (?room n) (\<lambda>_. ?store) s2 = (res, s')" by blast
        have l2: "leq (view s2) (view s)" using leq_trans [OF removesD [OF removes_count c] l1] .
        have rr: "removes view (?room n)" by auto
        from rdo_cases [OF m2] show ?thesis
          using removesD [OF rr] leq_trans [OF _ l2] l1 c store by fastforce
      qed
    qed
  qed
qed

lemma renew_keeps_limit:
  assumes "sessions_ok owner (view s)" "StateTokenWithRenew client old new acc val d s = (res, s')"
    and "digest new" "owner new = acc"
  shows "sessions_ok owner (view s')"
  using renew_cases [OF assms(2,3)]
proof
  assume "leq (view s') (view s) \<and> isl res"
  then show ?thesis using sessions_ok_leq [OF assms(1)] by blast
next
  assume "\<exists>n s1 s2 s3. leq (view s1) (view s) \<and> StateTokenWithCount client acc s1 = (Inr n, s2) \<and>
       (if n \<ge> TokenLimitPerAccount then evictOldestToken client acc else rret ()) s2 = (Inr (), s3) \<and>
       grown acc new (view s') (view s3)"
  then obtain n s1 s2 s3 where r: "leq (view s1) (view s)" "StateTokenWithCount client acc s1 = (Inr n, s2)"
    "(if n \<ge> TokenLimitPerAccount then evictOldestToken client acc else rret ()) s2 = (Inr (), s3)"
    "grown acc new (view s') (view s3)" by blast
  have ok1: "sessions_ok owner (view s1)" by (rule sessions_ok_leq [OF assms(1) r(1)])
  note room = room_ok [OF ok1 r(2,3)]
  show ?thesis by (rule sessions_ok_grown [OF sessions_ok_leq [OF ok1 room(2)] r(4) assms(3,4) room(1)])
qed

end

section \<open>Runs of the session layer\<close>

text \<open>Any sequence of calls, each with whatever result; \<open>I\<close> holds the tokens issued in it, with the
  account each is issued to.\<close>

inductive session_runs :: "'r rclient \<Rightarrow> (string \<times> string) set \<Rightarrow> 'r \<Rightarrow> 'r \<Rightarrow> bool" for cl I where
  sr_start: "session_runs cl I s s"
| sr_renew: "session_runs cl I s s1 \<Longrightarrow> (new, acc) \<in> I \<Longrightarrow>
    StateTokenWithRenew cl old new acc val d s1 = (res, s2) \<Longrightarrow> session_runs cl I s s2"
| sr_revoke: "session_runs cl I s s1 \<Longrightarrow> StateTokenWithRevoke cl t s1 = (res, s2) \<Longrightarrow> session_runs cl I s s2"
| sr_revoke_all: "session_runs cl I s s1 \<Longrightarrow> StateTokenWithRevokeAll cl a s1 = (res, s2) \<Longrightarrow> session_runs cl I s s2"
| sr_count: "session_runs cl I s s1 \<Longrightarrow> StateTokenWithCount cl a s1 = (n, s2) \<Longrightarrow> session_runs cl I s s2"
| sr_search: "session_runs cl I s s1 \<Longrightarrow> StateTokenWithSearchList cl a s1 = (ts, s2) \<Longrightarrow> session_runs cl I s s2"

context redis
begin

lemma runs_keep_limit:
  assumes "session_runs client I s s'" "sessions_ok owner (view s)" "\<forall>(t, a) \<in> I. digest t \<and> owner t = a"
  shows "sessions_ok owner (view s')"
  using assms
proof (induction rule: session_runs.induct)
  case (sr_start s)
  then show ?case by simp
next
  case (sr_renew s s1 new acc old val d res s2)
  then have i: "sessions_ok owner (view s1)" "digest new" "owner new = acc" by auto
  show ?case by (rule renew_keeps_limit [OF i(1) sr_renew.hyps(3) i(2,3)])
next
  case (sr_revoke s s1 t' res s2)
  then show ?case using sessions_ok_leq [OF _ removesD [OF removes_revoke sr_revoke.hyps(2)]] by blast
next
  case (sr_revoke_all s s1 a res s2)
  then show ?case using sessions_ok_leq [OF _ removesD [OF removes_revoke_all sr_revoke_all.hyps(2)]] by blast
next
  case (sr_count s s1 a n s2)
  then show ?case using sessions_ok_leq [OF _ removesD [OF removes_count sr_count.hyps(2)]] by blast
next
  case (sr_search s s1 a ts s2)
  then show ?case using sessions_ok_leq [OF _ removesD [OF removes_search sr_search.hyps(2)]] by blast
qed

text \<open>A key that is gone comes back only by being issued again.\<close>

lemma renew_key_gone:
  assumes "StateTokenWithRenew client old new acc val d s = (res, s')" "digest new" "digest t" "t \<noteq> new"
    and "rv_keys (view s) (tkey t) = None"
  shows "rv_keys (view s') (tkey t) = None"
  using renew_cases [OF assms(1,2)]
proof
  assume "leq (view s') (view s) \<and> isl res"
  then show ?thesis using leq_None assms(5) by blast
next
  assume "\<exists>n s1 s2 s3. leq (view s1) (view s) \<and> StateTokenWithCount client acc s1 = (Inr n, s2) \<and>
       (if n \<ge> TokenLimitPerAccount then evictOldestToken client acc else rret ()) s2 = (Inr (), s3) \<and>
       grown acc new (view s') (view s3)"
  then obtain n s1 s2 s3 where r: "leq (view s1) (view s)" "StateTokenWithCount client acc s1 = (Inr n, s2)"
    "(if n \<ge> TokenLimitPerAccount then evictOldestToken client acc else rret ()) s2 = (Inr (), s3)"
    "grown acc new (view s') (view s3)" by blast
  have "leq (view s3) (view s2)" using r(3) removesD [OF removes_evict, of acc s2] by (auto split: if_splits)
  then have "rv_keys (view s3) (tkey t) = None"
    using leq_None removesD [OF removes_count r(2)] r(1) assms(5) by blast
  then show ?thesis using r(4) assms(4) tkey_akey [OF assms(3)] unfolding grown_def by (metis same_append_eq)
qed

lemma runs_key_gone:
  assumes "session_runs client I s s'" "rv_keys (view s) (tkey t) = None" "digest t"
    and "\<forall>(u, a) \<in> I. digest u \<and> u \<noteq> t"
  shows "rv_keys (view s') (tkey t) = None"
  using assms
proof (induction rule: session_runs.induct)
  case (sr_start s)
  then show ?case by simp
next
  case (sr_renew s s1 new acc old val d res s2)
  then have i: "rv_keys (view s1) (tkey t) = None" "digest new" "t \<noteq> new" by auto
  show ?case by (rule renew_key_gone [OF sr_renew.hyps(3) i(2) assms(3) i(3,1)])
next
  case (sr_revoke s s1 t' res s2)
  then show ?case using leq_None [OF removesD [OF removes_revoke sr_revoke.hyps(2)]] by blast
next
  case (sr_revoke_all s s1 a res s2)
  then show ?case using leq_None [OF removesD [OF removes_revoke_all sr_revoke_all.hyps(2)]] by blast
next
  case (sr_count s s1 a n s2)
  then show ?case using leq_None [OF removesD [OF removes_count sr_count.hyps(2)]] by blast
next
  case (sr_search s s1 a ts s2)
  then show ?case using leq_None [OF removesD [OF removes_search sr_search.hyps(2)]] by blast
qed

section \<open>Renewals and revocations that succeed\<close>

lemma Set_ok:
  assumes "redisSetFn client k x d s = (Inr u, s')" "0 < d"
  shows "\<exists>dl. holds_entry k (Some (RText x, Some dl)) (view s')"
proof -
  obtain r where "client s (Set k x d) = (Inr r, s')" using as_value(4) assms(1) by (metis redisSetFn_def)
  from answered [OF this] obtain t where "view s' = redis_effect (Set k x d) (at_time t (view s))" by blast
  then show ?thesis using assms(2)
    by (auto simp: holds_entry_def aged_def redis_effect_def set_key_def set_deadline_def at_time_keys
        intro!: exI [of _ "t + max 1000000 (d div 1000000 * 1000000)"])
qed

lemma renew_ok:
  assumes "StateTokenWithRenew client old new acc val d s = (Inr (), s')"
  shows "\<exists>s3 s4 u n s5. redisSetFn client (tkey new) (if val = [] then acc else val) d s3 = (Inr u, s4) \<and>
    redisHSetFn client (akey acc) new ''0'' s4 = (Inr n, s5) \<and>
    (if old \<noteq> [] then rdo (redisDelFn client [tkey old]) (\<lambda>_. rdo (redisHDelFn client (akey acc) [old]) (\<lambda>_. rret ()))
     else rret ()) s5 = (Inr (), s')"
  using assms unfolding StateTokenWithRenew_def by (auto simp: rdo_ok split: if_splits) blast+

lemma renew_spends_old:
  assumes "StateTokenWithRenew client old new acc val d s = (Inr (), s')" "old \<noteq> []"
  shows "rv_keys (view s') (tkey old) = None" "old \<notin> hash_tokens (view s') acc"
proof -
  obtain s5 n s6 n' where e: "redisDelFn client [tkey old] s5 = (Inr n, s6)" "redisHDelFn client (akey acc) [old] s6 = (Inr n', s')"
    using renew_ok [OF assms(1)] assms(2) by (auto simp: rdo_ok)
  have "rv_keys (view s6) (tkey old) = None" by (rule Del_ok [OF e(1)]) simp
  then show "rv_keys (view s') (tkey old) = None" by (rule leq_None [OF removesD [OF removes_cmds(3) e(2)]])
  show "old \<notin> hash_tokens (view s') acc" using HDel_ok [OF e(2)] by auto
qed

lemma renew_stores_new:
  assumes "StateTokenWithRenew client old new acc val d s = (Inr (), s')" "digest new" "old \<noteq> new" "0 < d"
  shows "\<exists>dl. holds_entry (tkey new) (Some (RText (if val = [] then acc else val), Some dl)) (view s')"
proof -
  obtain s3 s4 u n s5 where e: "redisSetFn client (tkey new) (if val = [] then acc else val) d s3 = (Inr u, s4)"
    "redisHSetFn client (akey acc) new ''0'' s4 = (Inr n, s5)"
    "(if old \<noteq> [] then rdo (redisDelFn client [tkey old]) (\<lambda>_. rdo (redisHDelFn client (akey acc) [old]) (\<lambda>_. rret ()))
     else rret ()) s5 = (Inr (), s')" using renew_ok [OF assms(1)] by blast
  have a: "akey acc \<notin> {tkey new}" using tkey_akey [OF assms(2), of acc] by (metis singletonD)
  have k: "keeps view {tkey new} (if old \<noteq> [] then rdo (redisDelFn client [tkey old]) (\<lambda>_. rdo (redisHDelFn client (akey acc) [old]) (\<lambda>_. rret ()))
     else rret ())"
    using assms(3) a by (auto simp del: rret_simps intro!: keeps_rdo keeps_writes)
  obtain dl where "holds_entry (tkey new) (Some (RText (if val = [] then acc else val), Some dl)) (view s4)"
    using Set_ok [OF e(1) assms(4)] by blast
  then have "holds_entry (tkey new) (Some (RText (if val = [] then acc else val), Some dl)) (view s5)"
    by (rule keepsD [OF keeps_writes(3) [OF a] e(2) singletonI])
  then show ?thesis using keepsD [OF k e(3) singletonI] by blast
qed

lemma Exists_err: "redisExistsFn client k s = (Inl e, s') \<Longrightarrow> \<exists>m. e = Errorf m"
proof -
  assume r: "redisExistsFn client k s = (Inl e, s')"
  obtain x s1 where c: "client s (Exists k) = (x, s1)" by fastforce
  show ?thesis
  proof (cases x)
    case (Inl e')
    then show ?thesis using r c command [OF c]
      by (auto simp: redisExistsFn_def as_int_def redis_step_def redis_answer_def redis_reply_def)
  qed (use r c in \<open>auto simp: redisExistsFn_def as_int_def bad_reply_def split: rreply.splits\<close>)
qed

lemma renew_refused:
  assumes "StateTokenWithRenew client old new acc val d s = (res, s')" "old \<noteq> []" "rv_keys (view s) (tkey old) = None"
  shows "(res = Inl ErrorNoAuth \<or> (\<exists>m. res = Inl (Errorf m))) \<and> leq (view s') (view s)"
proof (cases "new = [] \<or> acc = []")
  case True
  then show ?thesis using assms(1) by (auto simp: StateTokenWithRenew_def)
next
  case False
  obtain x s1 where x: "redisExistsFn client (tkey old) s = (x, s1)" by fastforce
  have l: "leq (view s1) (view s)" by (rule removesD [OF removes_cmds(2) x])
  show ?thesis
  proof (cases x)
    case (Inl e)
    then show ?thesis using assms(1,2) False x l Exists_err by (auto simp: StateTokenWithRenew_def rdo_def)
  next
    case (Inr n)
    then have "n = 0" using Exists_ok(1) [OF x [unfolded Inr]] leq_None [OF l assms(3)] by simp
    then show ?thesis using assms(1,2) False x l Inr by (auto simp: StateTokenWithRenew_def rdo_def)
  qed
qed

lemma gone_tokens_gone:
  "gone_tokens client ks s = (Inr gone, s') \<Longrightarrow> k \<in> set gone \<Longrightarrow> rv_keys (view s') (tkey k) = None"
proof (induction ks arbitrary: s gone)
  case (Cons k' ks)
  from Cons.prems(1) obtain n s1 g where e: "redisExistsFn client (tkey k') s = (Inr n, s1)"
    "gone_tokens client ks s1 = (Inr g, s')" "gone = (if n = 0 then k' # g else g)"
    by (auto simp: rdo_ok)
  have "rv_keys (view s') (tkey k') = None" if "n = 0"
    using Exists_ok(1) [OF e(1)] that leq_None [OF removesD [OF removes_gone e(2)]] by (auto split: if_splits)
  then show ?case using Cons.IH [OF e(2)] Cons.prems(2) e(3) by (auto split: if_splits)
qed simp

lemma HDel_rest:
  assumes "redisHDelFn client k fs s = (Inr n, s')" "rv_keys (view s) k = Some (RHash h, None)"
  shows "rv_keys (view s') k = (if drop_fields fs h = [] then None else Some (RHash (drop_fields fs h), None))"
proof -
  have "client s (HDel k fs) = (Inr (RInt n), s')" using as_value(1) assms(1) by (simp add: redisHDelFn_def)
  from answered [OF this] show ?thesis using assms(2)
    by (auto simp: redis_effect_def at_time_keys set_key_def Let_def)
qed

lemma clean_rest:
  assumes "stateTokenWithCleanExpires client a s = (Inr (), s')" "rv_keys (view s) (akey a) = Some (RHash h, None)" "t \<in> fst ` set h"
  shows "rv_keys (view s') (tkey t) = None \<or>
    (\<exists>h'. rv_keys (view s') (akey a) = Some (RHash h', None) \<and> t \<in> fst ` set h')"
proof -
  from assms(1) obtain m s1 gone s2 where e: "redisHGetAllFn client (akey a) s = (Inr m, s1)"
    "gone_tokens client (map fst m) s1 = (Inr gone, s2)"
    "(if gone \<noteq> [] then rdo (redisHDelFn client (akey a) gone) (\<lambda>_. rret ()) else rret ()) s2 = (Inr (), s')"
    by (auto simp: stateTokenWithCleanExpires_def rdo_ok)
  have "holds_entry (akey a) (Some (RHash h, None)) (view s)" using assms(2) by (simp add: holds_entry_def)
  then have "holds_entry (akey a) (Some (RHash h, None)) (view s2)"
    using keepsD [OF keeps_cmds(1) e(1) UNIV_I] keepsD [OF keeps_gone e(2) UNIV_I] by blast
  then have h2: "rv_keys (view s2) (akey a) = Some (RHash h, None)" by (simp add: holds_entry_def)
  show ?thesis
  proof (cases "t \<in> set gone")
    case True
    then have "rv_keys (view s2) (tkey t) = None" using gone_tokens_gone [OF e(2)] by blast
    moreover have "leq (view s') (view s2)" using e(3) removesD [OF removes_cmds(3)] by (auto simp: rdo_ok split: if_splits)
    ultimately show ?thesis using leq_None by blast
  next
    case False
    show ?thesis
    proof (cases "gone = []")
      case True
      then show ?thesis using e(3) h2 assms(3) by auto
    next
      case ne: False
      then obtain n where "redisHDelFn client (akey a) gone s2 = (Inr n, s')" using e(3) by (auto simp: rdo_ok)
      from HDel_rest [OF this h2] have k: "rv_keys (view s') (akey a) =
        (if drop_fields gone h = [] then None else Some (RHash (drop_fields gone h), None))" .
      obtain kv where "kv \<in> set h" "fst kv = t" using assms(3) by blast
      then have "kv \<in> set (drop_fields gone h)" using False by (simp add: drop_fields_def)
      then show ?thesis using k \<open>fst kv = t\<close> by auto
    qed
  qed
qed

lemma revoke_all_reaches:
  assumes "StateTokenWithRevokeAll client a s = (Inr (), s')" "rv_keys (view s) (akey a) = Some (RHash h, None)" "t \<in> fst ` set h"
  shows "rv_keys (view s') (tkey t) = None"
proof -
  from assms(1) obtain ts s1 n s2 n' where e: "StateTokenWithSearchList client a s = (Inr ts, s1)"
    "redisDelFn client (map (\<lambda>token. tkey token) ts) s1 = (Inr n, s2)" "redisDelFn client [akey a] s2 = (Inr n', s')"
    by (auto simp: StateTokenWithRevokeAll_def rdo_ok)
  from e(1) obtain s0 m where c: "stateTokenWithCleanExpires client a s = (Inr (), s0)"
    "redisHGetAllFn client (akey a) s0 = (Inr m, s1)" "ts = map fst m" by (auto simp: StateTokenWithSearchList_def rdo_ok)
  have l: "leq (view s') (view s0)"
    using removesD [OF removes_cmds(5) e(3)] removesD [OF removes_cmds(5) e(2)] removesD [OF removes_cmds(1) c(2)] leq_trans by blast
  from clean_rest [OF c(1) assms(2,3)] show ?thesis
  proof
    assume "rv_keys (view s0) (tkey t) = None"
    then show ?thesis using leq_None [OF l] by blast
  next
    assume "\<exists>h'. rv_keys (view s0) (akey a) = Some (RHash h', None) \<and> t \<in> fst ` set h'"
    then obtain h' where h': "rv_keys (view s0) (akey a) = Some (RHash h', None)" "t \<in> fst ` set h'" by blast
    then have "holds_entry (akey a) (Some (RHash h', None)) (view s1)"
      using keepsD [OF keeps_cmds(1) c(2) UNIV_I, of "akey a" "Some (RHash h', None)"] by (simp add: holds_entry_def)
    then have "t \<in> set ts" using search_ok(1) [OF e(1)] h'(2) by (simp add: holds_entry_def hash_tokens_def)
    then have "rv_keys (view s2) (tkey t) = None" by (intro Del_ok [OF e(2)]) auto
    then show ?thesis using leq_None [OF removesD [OF removes_cmds(5) e(3)]] by blast
  qed
qed

lemma revoke_all_empty:
  assumes "hash_tokens (view s) a = {}"
  shows "isl (fst (StateTokenWithRevokeAll client a s))"
proof (rule ccontr)
  assume "\<not> ?thesis"
  then obtain s' where "StateTokenWithRevokeAll client a s = (Inr (), s')"
    by (cases "StateTokenWithRevokeAll client a s"; cases "fst (StateTokenWithRevokeAll client a s)") auto
  then obtain ts s1 n s2 where e: "StateTokenWithSearchList client a s = (Inr ts, s1)"
    "redisDelFn client (map (\<lambda>token. tkey token) ts) s1 = (Inr n, s2)"
    by (auto simp: StateTokenWithRevokeAll_def rdo_ok)
  have "ts = []" using search_ok(2) [OF e(1)] assms by (auto simp: live_def)
  then have "client s1 (Del []) = (Inr (RInt n), s2)" using e(2) as_value(1) by (simp add: redisDelFn_def)
  from answered [OF this] show False by (auto simp: redis_answer_def redis_reply_def)
qed

end

section \<open>Properties\<close>

text \<open>C8. The session limit: over any run of logins, rotations, revocations and counts, whatever the
  server answers and even where a call fails half-way, no account ever has more than
  \<open>TokenLimitPerAccount\<close> live sessions (listed in its hash and not expired), as long as the digests
  issued tell the accounts apart.\<close>

theorem session_limit:
  assumes "redis client view" "session_runs client I s s'" "sessions_ok owner (view s)"
    and "\<forall>(t, a) \<in> I. digest t \<and> owner t = a"
  shows "int (card (live (view s') a)) \<le> TokenLimitPerAccount"
  using redis.runs_keep_limit [OF assms] by (simp add: sessions_ok_def)

text \<open>Ten sessions of one account and an eleventh login, which evicts the one that expires first.\<close>

definition nth_token :: "nat \<Rightarrow> string" where
  "nth_token n = replicate (Suc n) (CHR ''a'')"

definition ten :: rview where
  "ten = \<lparr>rv_clock = 0, rv_keys = map_of ((akey ''7'', (RHash (map (\<lambda>n. (nth_token n, ''0'')) [0..<10]), None)) #
     map (\<lambda>n. (tkey (nth_token n), (RText ''7:user'', Some (20000000000 - 1000000000 * int n)))) [0..<10])\<rparr>"

definition eleventh :: "(goerr + unit) \<times> rview" where
  "eleventh = StateTokenWithRenew mem_client [] (nth_token 10) ''7'' ''7:user'' 60000000000 ten"

lemma ten_hash: "hash_tokens ten a = (if a = ''7'' then nth_token ` {0..<10} else {})"
proof -
  have d: "tkey (nth_token n) \<noteq> akey a" for n by (rule tkey_akey) (simp add: digest_def nth_token_def)
  have k: "akey a \<notin> fst ` set (map (\<lambda>n. (tkey (nth_token n), (RText ''7:user'', Some (20000000000 - 1000000000 * int n)))) [0..<10])"
  proof
    assume "akey a \<in> fst ` set (map (\<lambda>n. (tkey (nth_token n), (RText ''7:user'', Some (20000000000 - 1000000000 * int n)))) [0..<10])"
    then obtain n where "akey a = tkey (nth_token n)" by auto
    then show False using d [of n] by metis
  qed
  have "rv_keys ten (akey a) = (if a = ''7'' then Some (RHash (map (\<lambda>n. (nth_token n, ''0'')) [0..<10]), None) else None)"
    using k by (simp add: ten_def map_of_eq_None_iff)
  then show ?thesis by (simp add: hash_tokens_def image_image)
qed

lemma ten_ok: "sessions_ok (\<lambda>_. ''7'') ten"
  unfolding sessions_ok_def
proof (intro allI conjI ballI)
  fix a
  have "card (live ten a) \<le> card (hash_tokens ten a)" by (rule card_mono) (auto simp: live_def)
  also have "\<dots> \<le> 10" unfolding ten_hash using card_image_le [of "{0..<10::nat}" nth_token] by simp
  finally show "int (card (live ten a)) \<le> TokenLimitPerAccount" by (simp add: TokenLimitPerAccount_def)
  show "digest t" "''7'' = a" if "t \<in> hash_tokens ten a" for t
    using that by (auto simp: ten_hash digest_def nth_token_def split: if_splits)
qed

theorem session_limit_witness:
  "card (hash_tokens ten ''7'') = 10 \<and> int (card (live (snd eleventh) ''7'')) \<le> TokenLimitPerAccount"
proof -
  have d: "\<forall>(t, a) \<in> {(nth_token 10, ''7'')}. digest t \<and> (\<lambda>_. ''7'') t = a"
    by (auto simp: digest_def nth_token_def)
  have "session_runs mem_client {(nth_token 10, ''7'')} ten (snd eleventh)"
    by (rule sr_renew [OF sr_start, of "nth_token 10" "''7''" _ _ "[]" "''7:user''" 60000000000 ten "fst eleventh"])
      (simp_all add: eleventh_def)
  from session_limit [OF mem.redis_axioms this ten_ok d]
  have "int (card (live (snd eleventh) ''7'')) \<le> TokenLimitPerAccount" .
  moreover have "inj nth_token" by (rule injI) (simp add: nth_token_def replicate_eq_replicate)
  then have "card (hash_tokens ten ''7'') = 10"
    by (simp add: ten_hash card_image inj_on_subset [OF _ subset_UNIV])
  ultimately show ?thesis by blast
qed

text \<open>Rotation: when a renewal succeeds with an old token, the old token's key is gone and the
  account's hash no longer lists it; the new token, if it is another one, is stored with the value
  to be returned for it and lives until its own deadline.\<close>

theorem rotation_replaces:
  assumes "redis client view" "StateTokenWithRenew client old new acc val d s = (Inr (), s')" "old \<noteq> []"
    and "digest new" "old \<noteq> new" "0 < d"
  shows "rv_keys (view s') (tkey old) = None \<and> old \<notin> hash_tokens (view s') acc \<and>
    (\<exists>dl. rv_keys (view s') (tkey new) =
       (if dl \<le> rv_clock (view s') then None else Some (RText (if val = [] then acc else val), Some dl)))"
  using redis.renew_spends_old [OF assms(1-3)] redis.renew_stores_new [OF assms(1,2,4-6)]
  by (auto simp: holds_entry_def aged_def)

definition signed_in :: rview where
  "signed_in = snd (StateTokenWithRenew mem_client [] ''aa'' ''7'' ''7:user'' 1000000000 mem_empty)"

definition rotated :: rview where
  "rotated = snd (StateTokenWithRenew mem_client ''aa'' ''bb'' ''7'' ''7:user'' 1000000000 signed_in)"

lemma rotated_renew: "StateTokenWithRenew mem_client ''aa'' ''bb'' ''7'' ''7:user'' 1000000000 signed_in = (Inr (), rotated)"
proof -
  have "fst (StateTokenWithRenew mem_client ''aa'' ''bb'' ''7'' ''7:user'' 1000000000 signed_in) = Inr ()" by code_simp
  then show ?thesis by (simp add: rotated_def prod_eq_iff)
qed

theorem rotation_replaces_witness:
  "rv_keys rotated (tkey ''aa'') = None \<and> rv_keys rotated (tkey ''bb'') = Some (RText ''7:user'', Some 1000000000)"
proof -
  have d: "digest ''bb''" by (simp add: digest_def)
  have p: "''aa'' \<noteq> []" "''aa'' \<noteq> ''bb''" "(0::int) < 1000000000" by simp_all
  from rotation_replaces [OF mem.redis_axioms rotated_renew p(1) d p(2,3)]
  have "rv_keys rotated (tkey ''aa'') = None" by blast
  moreover have "rv_keys rotated (tkey ''bb'') = Some (RText ''7:user'', Some 1000000000)" by code_simp
  ultimately show ?thesis by blast
qed

text \<open>A refresh token is good for one rotation: once it has been rotated, and whatever happens
  afterwards short of issuing the very same token again, presenting it to a renewal is answered
  \<open>ErrorNoAuth\<close> (or the connection's error) and adds no key and no session.\<close>

lemma spent_token_refused:
  assumes "redis client view" "StateTokenWithRenew client old new acc val d s = (Inr (), s1)" "digest old"
    and "session_runs client I s1 s2" "\<forall>(t, a) \<in> I. digest t \<and> t \<noteq> old"
    and "StateTokenWithRenew client old new' acc' val' d' s2 = (res, s3)"
  shows "(res = Inl ErrorNoAuth \<or> (\<exists>m. res = Inl (Errorf m))) \<and> leq (view s3) (view s2)"
proof -
  have "old \<noteq> []" using assms(3) by (simp add: digest_def)
  moreover have "rv_keys (view s2) (tkey old) = None"
    using redis.runs_key_gone [OF assms(1,4) redis.renew_spends_old(1) [OF assms(1,2)] assms(3,5)] \<open>old \<noteq> []\<close> by blast
  ultimately show ?thesis using redis.renew_refused [OF assms(1,6)] by blast
qed

text \<open>Revoking all sessions reaches every session: after a successful \<open>StateTokenWithRevokeAll\<close>
  the key of every token the account's hash listed is gone, whatever expired meanwhile.\<close>

theorem revoke_all_complete:
  assumes "redis client view" "StateTokenWithRevokeAll client a s = (Inr (), s')"
    and "rv_keys (view s) (akey a) = Some (RHash h, None)" "t \<in> fst ` set h"
  shows "rv_keys (view s') (tkey t) = None"
  by (rule redis.revoke_all_reaches [OF assms])

theorem revoke_all_complete_witness:
  "rv_keys (snd (StateTokenWithRevokeAll mem_client ''7'' signed_in)) (tkey ''aa'') = None \<and>
   rv_keys signed_in (tkey ''aa'') \<noteq> None"
proof -
  let ?s' = "snd (StateTokenWithRevokeAll mem_client ''7'' signed_in)"
  have "fst (StateTokenWithRevokeAll mem_client ''7'' signed_in) = Inr ()" by code_simp
  then have r: "StateTokenWithRevokeAll mem_client ''7'' signed_in = (Inr (), ?s')" by (simp add: prod_eq_iff)
  have h: "rv_keys signed_in (akey ''7'') = Some (RHash [(''aa'', ''0'')], None)" by code_simp
  have "''aa'' \<in> fst ` set [(''aa'', ''0'')]" by simp
  from revoke_all_complete [OF mem.redis_axioms r h this] have "rv_keys ?s' (tkey ''aa'') = None" .
  moreover have "rv_keys signed_in (tkey ''aa'') \<noteq> None" by code_simp
  ultimately show ?thesis by blast
qed

text \<open>Revoking all sessions of an account that has none never succeeds: the package sends \<open>DEL\<close>
  without a key, which Redis refuses.\<close>

theorem revoke_all_without_sessions:
  assumes "redis client view" "hash_tokens (view s) a = {}"
  shows "isl (fst (StateTokenWithRevokeAll client a s))"
  by (rule redis.revoke_all_empty [OF assms])

theorem revoke_all_without_sessions_witness: "isl (fst (StateTokenWithRevokeAll mem_client ''9'' signed_in))"
proof -
  have "rv_keys signed_in (akey ''9'') = None" by code_simp
  then have "hash_tokens signed_in ''9'' = {}" by (simp add: hash_tokens_def)
  from revoke_all_without_sessions [OF mem.redis_axioms this] show ?thesis .
qed

end
