(* ===== verification/AuthModel.thy ===== *)
theory AuthModel
  imports Entity
begin

text \<open>
  The model layer of \<open>personal-auth\<close> (\<open>pkg/model/account.go\<close>, \<open>account_auth.go\<close>,
  \<open>login_history.go\<close>): accounts with their password hashes, the identifiers that log in to them,
  and the history of logins. The join of \<open>SelectAccountWithAuthByIdentifier\<close> is a raw statement; the
  locale \<open>auth_store\<close> extends the server's contract by what that statement returns.
\<close>

section \<open>model/account.go\<close>

record Account =
  acc_AccountID :: string
  acc_Role :: string
  acc_Status :: int
  acc_PasswordHash :: string
  acc_Salt :: string
  acc_DeletedAt :: int
  acc_CreatedAt :: int
  acc_UpdatedAt :: int

definition TableNameAccounts :: string where "TableNameAccounts = ''accounts''"

definition scanAccount :: "sqlval list \<Rightarrow> goerr + Account" where
  "scanAccount vs =
     (case vs of
        [v1, v2, v3, v4, v5, v6, v7, v8] \<Rightarrow>
          bind_res (scan_str v1) (\<lambda>a. bind_res (scan_str v2) (\<lambda>ro. bind_res (scan_int v3) (\<lambda>st.
          bind_res (scan_str v4) (\<lambda>ph. bind_res (scan_str v5) (\<lambda>sa. bind_res (scan_int v6) (\<lambda>del.
          bind_res (scan_int v7) (\<lambda>cr. bind_res (scan_int v8) (\<lambda>up.
            Inr \<lparr>acc_AccountID = a, acc_Role = ro, acc_Status = st, acc_PasswordHash = ph, acc_Salt = sa,
                 acc_DeletedAt = del, acc_CreatedAt = cr, acc_UpdatedAt = up\<rparr>))))))))
      | _ \<Rightarrow> Inl scan_error)"

definition account_fields :: "Account \<Rightarrow> (string \<times> sqlval) list" where
  "account_fields a =
     [(''account_id'', VStr (acc_AccountID a)), (''role'', VStr (acc_Role a)), (''status'', VInt (acc_Status a)),
      (''password_hash'', VStr (acc_PasswordHash a)), (''salt'', VStr (acc_Salt a)),
      (''deleted_at'', VInt (acc_DeletedAt a)), (''created_at'', VInt (acc_CreatedAt a)),
      (''updated_at'', VInt (acc_UpdatedAt a))]"

definition InsertAccount :: "'db Exec \<Rightarrow> 'db \<Rightarrow> Account \<Rightarrow> (goerr + int) \<times> 'db" where
  "InsertAccount exec db a = InsertCtx exec db TableNameAccounts (account_fields a)"

definition account_columns :: "string list" where
  "account_columns =
     [''account_id'', ''role'', ''status'', ''password_hash'', ''salt'', ''deleted_at'', ''created_at'', ''updated_at'']"

definition SelectAccountByAccountID :: "'db Exec \<Rightarrow> 'db \<Rightarrow> string \<Rightarrow> goerr + Account" where
  "SelectAccountByAccountID exec db accountID =
     no_rows (QueryOneCtx exec db
       (query_Where [WithEq ''account_id'' (VStr accountID), WithEq ''deleted_at'' (VInt 0)]
        (query_Table TableNameAccounts (query_Columns account_columns NewQuery)))
       (row_scan scanAccount))"

definition SoftDeleteAccountByAccountID :: "'db Exec \<Rightarrow> 'db \<Rightarrow> string \<Rightarrow> int \<Rightarrow> (goerr + int) \<times> 'db" where
  "SoftDeleteAccountByAccountID exec db accountID n =
     UpdateCtx exec db TableNameAccounts [(''deleted_at'', VInt n), (''status'', VInt 0)]
       [WithEq ''account_id'' (VStr accountID), WithEq ''deleted_at'' (VInt 0)]"

definition UpdateAccountPassword ::
  "'db Exec \<Rightarrow> 'db \<Rightarrow> string \<Rightarrow> string \<Rightarrow> string \<Rightarrow> (goerr + int) \<times> 'db" where
  "UpdateAccountPassword exec db accountID passwordHash salt =
     UpdateCtx exec db TableNameAccounts [(''password_hash'', VStr passwordHash), (''salt'', VStr salt)]
       [WithEq ''account_id'' (VStr accountID), WithEq ''deleted_at'' (VInt 0)]"

record AccountWithAuth =
  awa_AccountID :: string
  awa_Role :: string
  awa_Status :: int
  awa_PasswordHash :: string
  awa_Salt :: string
  awa_DeletedAt :: int

definition join_sql :: string where
  "join_sql =
     ''SELECT a.account_id, a.role, a.status, a.password_hash, a.salt, a.deleted_at'' @
     [CHR 0x0A, CHR 0x09, CHR 0x09] @ '' FROM accounts a'' @
     [CHR 0x0A, CHR 0x09, CHR 0x09] @ '' JOIN account_auths aa ON a.account_id = aa.account_id'' @
     [CHR 0x0A, CHR 0x09, CHR 0x09] @
     '' WHERE aa.auth_type = ? AND aa.identifier = ? AND a.deleted_at = 0 AND aa.deleted_at = 0 AND aa.status = 1''"

definition scanAccountWithAuth :: "sqlval list \<Rightarrow> goerr + AccountWithAuth" where
  "scanAccountWithAuth vs =
     (case vs of
        [v1, v2, v3, v4, v5, v6] \<Rightarrow>
          bind_res (scan_str v1) (\<lambda>a. bind_res (scan_str v2) (\<lambda>ro. bind_res (scan_int v3) (\<lambda>st.
          bind_res (scan_str v4) (\<lambda>ph. bind_res (scan_str v5) (\<lambda>sa. bind_res (scan_int v6) (\<lambda>del.
            Inr \<lparr>awa_AccountID = a, awa_Role = ro, awa_Status = st, awa_PasswordHash = ph, awa_Salt = sa,
                 awa_DeletedAt = del\<rparr>))))))
      | _ \<Rightarrow> Inl scan_error)"

definition SelectAccountWithAuthByIdentifier ::
  "'db Exec \<Rightarrow> 'db \<Rightarrow> string \<Rightarrow> string \<Rightarrow> goerr + AccountWithAuth" where
  "SelectAccountWithAuthByIdentifier exec db authType identifier =
     no_rows (case QueryRowContext exec db join_sql [VStr authType, VStr identifier] of
                Inl e \<Rightarrow> Inl e
              | Inr row \<Rightarrow> row_scan scanAccountWithAuth row)"

section \<open>model/account\_auth.go\<close>

record AccountAuth =
  aa_AccountID :: string
  aa_AuthType :: string
  aa_Identifier :: string
  aa_Status :: int
  aa_Verified :: int
  aa_DeletedAt :: int
  aa_CreatedAt :: int
  aa_UpdatedAt :: int

definition TableNameAccountAuths :: string where "TableNameAccountAuths = ''account_auths''"

definition account_auth_fields :: "AccountAuth \<Rightarrow> (string \<times> sqlval) list" where
  "account_auth_fields a =
     [(''account_id'', VStr (aa_AccountID a)), (''auth_type'', VStr (aa_AuthType a)),
      (''identifier'', VStr (aa_Identifier a)), (''status'', VInt (aa_Status a)), (''verified'', VInt (aa_Verified a)),
      (''deleted_at'', VInt (aa_DeletedAt a)), (''created_at'', VInt (aa_CreatedAt a)),
      (''updated_at'', VInt (aa_UpdatedAt a))]"

definition InsertAccountAuth :: "'db Exec \<Rightarrow> 'db \<Rightarrow> AccountAuth \<Rightarrow> (goerr + int) \<times> 'db" where
  "InsertAccountAuth exec db a = InsertCtx exec db TableNameAccountAuths (account_auth_fields a)"

definition DeleteAccountAuthsByAccountID :: "'db Exec \<Rightarrow> 'db \<Rightarrow> string \<Rightarrow> (goerr + int) \<times> 'db" where
  "DeleteAccountAuthsByAccountID exec db accountID =
     DeleteCtx exec db TableNameAccountAuths [WithEq ''account_id'' (VStr accountID)]"

definition ReplaceAccountAuthIdentifier ::
  "'db Exec \<Rightarrow> 'db \<Rightarrow> string \<Rightarrow> string \<Rightarrow> string \<Rightarrow> (goerr + int) \<times> 'db" where
  "ReplaceAccountAuthIdentifier exec db accountID authType identifier =
     UpdateCtx exec db TableNameAccountAuths [(''identifier'', VStr identifier)]
       [WithEq ''account_id'' (VStr accountID), WithEq ''auth_type'' (VStr authType), WithEq ''deleted_at'' (VInt 0)]"

section \<open>model/login\_history.go\<close>

record LoginHistory =
  lh_AccountID :: string
  lh_AuthType :: string
  lh_Identifier :: string
  lh_IPAddress :: string
  lh_UserAgent :: string
  lh_Status :: int
  lh_FailureReason :: string
  lh_CreatedAt :: int

definition TableNameLoginHistory :: string where "TableNameLoginHistory = ''login_history''"

definition login_history_fields :: "LoginHistory \<Rightarrow> (string \<times> sqlval) list" where
  "login_history_fields h =
     [(''account_id'', VStr (lh_AccountID h)), (''auth_type'', VStr (lh_AuthType h)),
      (''identifier'', VStr (lh_Identifier h)), (''ip_address'', VStr (lh_IPAddress h)),
      (''user_agent'', VStr (lh_UserAgent h)), (''status'', VInt (lh_Status h)),
      (''failure_reason'', VStr (lh_FailureReason h)), (''created_at'', VInt (lh_CreatedAt h))]"

definition InsertLoginHistory :: "'db Exec \<Rightarrow> 'db \<Rightarrow> LoginHistory \<Rightarrow> (goerr + int) \<times> 'db" where
  "InsertLoginHistory exec db h = InsertCtx exec db TableNameLoginHistory (login_history_fields h)"

end
