(* ===== verification/Jwt.thy ===== *)
theory Jwt
  imports Prelude
begin

text \<open>
  \<open>lib/auth/jwt.go\<close>: access and refresh tokens. The JWT library (golang-jwt) is a parameter: a record
  of the two functions the package calls. The locale \<open>jwt\<close> states what the code relies on of it: a
  signed token parses back to its claims while it is valid, with the expiry error afterwards, and
  under no other key. Times are in nanoseconds; the library's numeric dates are whole seconds.
\<close>

section \<open>The library\<close>

record JwtClaims =
  AccountId :: string
  Role :: string
  ExpiresAt :: "int option"
  IssuedAt :: "int option"
  NotBefore :: "int option"

datatype jwt_err = JwtExpired | JwtNotValidYet | JwtOther

text \<open>\<open>ParseWithClaims\<close> takes the time, the text and the key function, which is asked for the key
  once the token's header is known (whether its method is an HMAC one); it returns the claims and
  \<open>token.Valid\<close>.\<close>

record jwtlib =
  SignedString :: "string \<Rightarrow> JwtClaims \<Rightarrow> goerr + string"
  ParseWithClaims :: "int \<Rightarrow> string \<Rightarrow> (bool \<Rightarrow> goerr + string) \<Rightarrow> jwt_err + JwtClaims option \<times> bool"

definition second :: int where
  "second = 1000000000"

text \<open>\<open>jwt.NewNumericDate\<close> truncates to whole seconds (\<open>jwt.TimePrecision\<close>).\<close>

definition NewNumericDate :: "int \<Rightarrow> int" where
  "NewNumericDate t = t div second"

section \<open>The functions of the package\<close>

text \<open>A panic is the value \<open>None\<close>; the three readings of the clock in one call are taken at the same
  time \<open>now\<close>.\<close>

definition new_claims :: "int \<Rightarrow> string \<Rightarrow> string \<Rightarrow> int \<Rightarrow> JwtClaims" where
  "new_claims now accountId role expireIn =
     \<lparr>AccountId = accountId, Role = role, ExpiresAt = Some (NewNumericDate (now + expireIn)),
      IssuedAt = Some (NewNumericDate now), NotBefore = Some (NewNumericDate now)\<rparr>"

definition JwtWithCreateToken ::
  "jwtlib \<Rightarrow> string \<Rightarrow> int \<Rightarrow> string \<Rightarrow> string \<Rightarrow> int \<Rightarrow> (goerr + string) option" where
  "JwtWithCreateToken lib SigningKey now accountId role expireIn =
     (if SigningKey = [] then None
      else Some (case SignedString lib SigningKey (new_claims now accountId role expireIn) of
                   Inl e \<Rightarrow> Inl e | Inr signed \<Rightarrow> Inr signed))"

definition key_func :: "string \<Rightarrow> bool \<Rightarrow> goerr + string" where
  "key_func SigningKey hmac = (if \<not> hmac then Inl (Errorf ''unexpected signing method'') else Inr SigningKey)"

definition JwtWithParseToken ::
  "jwtlib \<Rightarrow> string \<Rightarrow> int \<Rightarrow> string \<Rightarrow> (string \<Rightarrow> goerr option) option \<Rightarrow> goerr + JwtClaims" where
  "JwtWithParseToken lib SigningKey now tokenStr f =
     (case ParseWithClaims lib now tokenStr (key_func SigningKey) of
        Inl err \<Rightarrow> Inl (if err = JwtExpired then ErrTokenExpired else ErrTokenIllegal)
      | Inr (claims_opt, valid) \<Rightarrow>
          (case claims_opt of
             None \<Rightarrow> Inl ErrTokenIllegal
           | Some claims \<Rightarrow>
               (if \<not> valid then Inl ErrTokenIllegal
                else case f of
                       None \<Rightarrow> Inr claims
                     | Some check \<Rightarrow>
                         (case check (AccountId claims) of Some e \<Rightarrow> Inl e | None \<Rightarrow> Inr claims))))"

section \<open>What the code relies on\<close>

definition in_window :: "int \<Rightarrow> JwtClaims \<Rightarrow> bool" where
  "in_window now c =
     ((case ExpiresAt c of None \<Rightarrow> True | Some e \<Rightarrow> now < e * second) \<and>
      (case NotBefore c of None \<Rightarrow> True | Some b \<Rightarrow> b * second \<le> now))"

definition expired :: "int \<Rightarrow> JwtClaims \<Rightarrow> bool" where
  "expired now c = (case ExpiresAt c of None \<Rightarrow> False | Some e \<Rightarrow> e * second \<le> now)"

locale jwt =
  fixes lib :: jwtlib
  assumes parse_valid: "SignedString lib key c = Inr tok \<Longrightarrow> in_window now c \<Longrightarrow>
      ParseWithClaims lib now tok (key_func key) = Inr (Some c, True)"
    and parse_expired: "SignedString lib key c = Inr tok \<Longrightarrow> expired now c \<Longrightarrow>
      ParseWithClaims lib now tok (key_func key) = Inl JwtExpired"
    and parse_forged: "ParseWithClaims lib now tok (key_func key) = Inr (Some c, True) \<Longrightarrow>
      SignedString lib key c = Inr tok \<and> \<not> expired now c"
begin

text \<open>A token just created is accepted until its lifetime is over, then it is expired.\<close>

lemma created_accepted:
  assumes "JwtWithCreateToken lib key now acc role d = Some (Inr tok)" "now \<le> t" "t < NewNumericDate (now + d) * second"
  shows "JwtWithParseToken lib key t tok None = Inr (new_claims now acc role d)"
proof -
  have s: "SignedString lib key (new_claims now acc role d) = Inr tok"
    using assms(1) by (auto simp: JwtWithCreateToken_def split: if_splits sum.splits)
  have "NewNumericDate now * second \<le> now" by (simp add: NewNumericDate_def second_def)
  then have "in_window t (new_claims now acc role d)" using assms(2,3) by (simp add: in_window_def new_claims_def)
  then show ?thesis using parse_valid [OF s] by (simp add: JwtWithParseToken_def)
qed

lemma created_expires:
  assumes "JwtWithCreateToken lib key now acc role d = Some (Inr tok)" "NewNumericDate (now + d) * second \<le> t"
  shows "JwtWithParseToken lib key t tok None = Inl ErrTokenExpired"
proof -
  have s: "SignedString lib key (new_claims now acc role d) = Inr tok"
    using assms(1) by (auto simp: JwtWithCreateToken_def split: if_splits sum.splits)
  have "expired t (new_claims now acc role d)" using assms(2) by (simp add: expired_def new_claims_def)
  then show ?thesis using parse_expired [OF s] by (simp add: JwtWithParseToken_def)
qed

lemma accepted_signed:
  assumes "JwtWithParseToken lib key t tok f = Inr c"
  shows "SignedString lib key c = Inr tok" "\<not> expired t c"
proof -
  have "ParseWithClaims lib t tok (key_func key) = Inr (Some c, True)"
    using assms by (auto simp: JwtWithParseToken_def split: sum.splits option.splits if_splits prod.splits)
  from parse_forged [OF this] show "SignedString lib key c = Inr tok" "\<not> expired t c" by auto
qed

end

section \<open>A library that fulfils the contract\<close>

text \<open>Tokens as plain text: the key and the claims, each field with its length in unary.\<close>

definition field :: "string \<Rightarrow> string" where
  "field s = replicate (length s) (CHR ''1'') @ [CHR ''.''] @ s"

definition unfield :: "string \<Rightarrow> string \<times> string" where
  "unfield s =
     (let n = length (takeWhile (\<lambda>c. c = CHR ''1'') s); r = drop (Suc n) s in (take n r, drop n r))"

lemma unfield_field: "unfield (field s @ r) = (s, r)"
proof -
  have "takeWhile (\<lambda>c. c = CHR ''1'') (field s @ r) = replicate (length s) (CHR ''1'')"
    unfolding field_def append_assoc append_Cons append_Nil by (rule takeWhile_append_stop) auto
  moreover have "drop (Suc (length s)) (field s @ r) = s @ r" by (simp add: field_def)
  moreover have "drop (length s) (s @ r) = r" "take (length s) (s @ r) = s" by simp_all
  ultimately show ?thesis unfolding unfield_def Let_def by (simp only: length_replicate)
qed

definition plain_date :: "int option \<Rightarrow> string" where
  "plain_date d = (case d of None \<Rightarrow> [] | Some i \<Rightarrow> itoa i)"

definition plain_sign :: "string \<Rightarrow> JwtClaims \<Rightarrow> goerr + string" where
  "plain_sign key c = Inr (field key @ field (AccountId c) @ field (Role c) @ field (plain_date (ExpiresAt c)) @
     field (plain_date (IssuedAt c)) @ field (plain_date (NotBefore c)))"

definition plain_claims :: "string \<Rightarrow> JwtClaims" where
  "plain_claims s =
     (let (a, r1) = unfield s; (ro, r2) = unfield r1; (e, r3) = unfield r2; (i, r4) = unfield r3; (n, r5) = unfield r4
      in \<lparr>AccountId = a, Role = ro, ExpiresAt = parse_int e, IssuedAt = parse_int i, NotBefore = parse_int n\<rparr>)"

definition plain_parse :: "int \<Rightarrow> string \<Rightarrow> (bool \<Rightarrow> goerr + string) \<Rightarrow> jwt_err + JwtClaims option \<times> bool" where
  "plain_parse now tok kf =
     (case kf True of
        Inl e \<Rightarrow> Inl JwtOther
      | Inr key \<Rightarrow>
          (let c = plain_claims (snd (unfield tok)) in
           if plain_sign key c \<noteq> Inr tok then Inl JwtOther
           else if expired now c then Inl JwtExpired
           else if in_window now c then Inr (Some c, True) else Inl JwtNotValidYet))"

definition plain_jwt :: jwtlib where
  "plain_jwt = \<lparr>SignedString = plain_sign, ParseWithClaims = plain_parse\<rparr>"

lemma parse_plain_date: "parse_int (plain_date d) = d"
proof (cases d)
  case None
  then show ?thesis by (simp add: plain_date_def parse_int_def)
qed (simp add: plain_date_def)

lemma plain_claims_sign:
  assumes "plain_sign key c = Inr tok" shows "plain_claims (snd (unfield tok)) = c"
proof -
  have t: "tok = field key @ field (AccountId c) @ field (Role c) @ field (plain_date (ExpiresAt c)) @
     field (plain_date (IssuedAt c)) @ field (plain_date (NotBefore c)) @ []"
    using assms by (simp add: plain_sign_def)
  show ?thesis unfolding t by (simp only: unfield_field plain_claims_def Let_def prod.case snd_conv parse_plain_date) simp
qed

interpretation plain: jwt plain_jwt
proof unfold_locales
  fix key c tok now
  assume s: "SignedString plain_jwt key c = Inr tok"
  then have "plain_sign key c = Inr tok" by (simp add: plain_jwt_def)
  then have p: "plain_parse now tok (key_func key) =
      (if expired now c then Inl JwtExpired else if in_window now c then Inr (Some c, True) else Inl JwtNotValidYet)"
    by (simp add: plain_parse_def key_func_def plain_claims_sign Let_def)
  show "ParseWithClaims plain_jwt now tok (key_func key) = Inr (Some c, True)" if "in_window now c"
  proof -
    have "\<not> expired now c" using that by (auto simp: in_window_def expired_def split: option.splits)
    then show ?thesis using that p by (simp add: plain_jwt_def)
  qed
  show "ParseWithClaims plain_jwt now tok (key_func key) = Inl JwtExpired" if "expired now c"
    using that p by (simp add: plain_jwt_def)
next
  fix now tok key c
  assume "ParseWithClaims plain_jwt now tok (key_func key) = Inr (Some c, True)"
  then show "SignedString plain_jwt key c = Inr tok \<and> \<not> expired now c"
    by (auto simp: plain_jwt_def plain_parse_def key_func_def Let_def split: if_splits)
qed

end
