(* ===== verification/Auth.thy ===== *)
theory Auth
  imports AuthModel StateToken Jwt
begin

text \<open>
  The auth service (\<open>apps/personal-auth/pkg/service/auth.go\<close>) with what it calls of \<open>lib/encrypt\<close>
  and \<open>lib/snowflake\<close>: registration, login with its lock-out counters, refresh, revocation, password
  and identifier changes, validation, deletion. A handler takes its surroundings (the database with
  its transactions, Redis, the JWT library, the configuration), what the request reads of the world
  (time, random bytes, the generated id) and the request, and passes the states of the database and
  of Redis along.
\<close>

section \<open>lib/encrypt, lib/snowflake\<close>

text \<open>16 bytes of \<open>rand.Reader\<close>, or its error; PBKDF2 (of golang.org/x/crypto) is a parameter.\<close>

definition Salt :: "goerr + int list \<Rightarrow> goerr + string" where
  "Salt rnd = (case rnd of Inl e \<Rightarrow> Inl e | Inr b \<Rightarrow> Inr (EncodeToString b))"

definition Key :: "(string \<Rightarrow> string \<Rightarrow> int \<Rightarrow> int \<Rightarrow> int list) \<Rightarrow> string \<Rightarrow> string \<Rightarrow> string" where
  "Key pbkdf2 salt password = EncodeToString (pbkdf2 password salt 600000 32)"

definition limiterLength :: nat where "limiterLength = 19"

text \<open>The decimal text of the id the node generated, filled up with zeros on the left.\<close>

definition GenerateID :: "int \<Rightarrow> string" where
  "GenerateID nid =
     (let result = itoa nid in
      if length result < limiterLength then replicate (limiterLength - length result) (CHR ''0'') @ result else result)"

section \<open>Surroundings\<close>

record AuthConfig =
  AccessTokenExpire :: int
  RefreshTokenExpire :: int
  cfg_SigningKey :: string
  MaxLoginAttempts :: int
  LoginLockDuration :: int
  MaxIPLoginAttempts :: int
  IPLoginLockDuration :: int

text \<open>\<open>BeginTx\<close> gives the state the transaction works on; \<open>Commit\<close> and \<open>Rollback\<close> take the database
  and that state. The JWT signing key is a package variable that \<open>NewAuth\<close> sets.\<close>

record ('db, 'r) world =
  w_exec :: "'db Exec"
  w_begin :: "'db \<Rightarrow> goerr + 'db"
  w_commit :: "'db \<Rightarrow> 'db \<Rightarrow> (goerr + unit) \<times> 'db"
  w_rollback :: "'db \<Rightarrow> 'db \<Rightarrow> (goerr + unit) \<times> 'db"
  w_redis :: "'r rclient"
  w_jwt :: jwtlib
  w_pbkdf2 :: "string \<Rightarrow> string \<Rightarrow> int \<Rightarrow> int \<Rightarrow> int list"
  w_SigningKey :: string
  w_cfg :: AuthConfig

record reading =
  r_now :: int
  r_random :: "goerr + int list"
  r_node :: int

definition Unix :: "reading \<Rightarrow> int" where
  "Unix rd = r_now rd div second"

definition NewAuth :: "AuthConfig \<Rightarrow> status + AuthConfig \<times> string" where
  "NewAuth cfg =
     (if cfg_SigningKey cfg = [] then Inl (Status InvalidArgument ''signing_key is required'')
      else Inr (cfg, cfg_SigningKey cfg))"

text \<open>\<open>int64(d.Seconds())\<close> for a duration, and \<open>"%.0f"\<close> of the seconds of a TTL (whole seconds).\<close>

definition seconds_int :: "int \<Rightarrow> int" where
  "seconds_int d = (if d \<ge> 0 then d div second else - ((- d) div second))"

definition protoAuthTypeToString :: "int \<Rightarrow> status + string" where
  "protoAuthTypeToString t =
     (if t = 1 then Inr ''email'' else if t = 2 then Inr ''username'' else if t = 3 then Inr ''phone''
      else Inl (Status InvalidArgument ''invalid auth_type''))"

definition panic_status :: status where
  "panic_status = Status Internal ''panic err: auth.SigningKey not initialized''"

text \<open>\<open>jwtCreateToken\<close> in a handler: the continuation for the token, the answer for its error, and the
  recovery interceptor's answer to a panic.\<close>

definition with_token ::
  "('db, 'r) world \<Rightarrow> reading \<Rightarrow> string \<Rightarrow> string \<Rightarrow> int \<Rightarrow> status \<Rightarrow> (string \<Rightarrow> 's \<Rightarrow> (status + 'a) \<times> 's) \<Rightarrow> 's \<Rightarrow> (status + 'a) \<times> 's" where
  "with_token w rd acc role d err f s =
     (case JwtWithCreateToken (w_jwt w) (w_SigningKey w) (r_now rd) acc role d of
        None \<Rightarrow> (Inl panic_status, s)
      | Some (Inl e) \<Rightarrow> (Inl err, s)
      | Some (Inr jwtText) \<Rightarrow> f jwtText s)"

record RegisterRequest =
  rr_AuthType :: int
  rr_Identifier :: string
  rr_Password :: string

record LoginRequest =
  lr_AuthType :: int
  lr_Identifier :: string
  lr_Password :: string
  lr_IpAddress :: string
  lr_UserAgent :: string

record TokenPair =
  tp_AccessToken :: string
  tp_RefreshToken :: string
  tp_ExpiresIn :: int

text \<open>The end of \<open>Register\<close> and \<open>Login\<close>: two tokens, the refresh token's digest stored.\<close>

definition issue_tokens ::
  "('db, 'r) world \<Rightarrow> reading \<Rightarrow> string \<Rightarrow> string \<Rightarrow> 'r \<Rightarrow> (status + TokenPair) \<times> 'r" where
  "issue_tokens w rd acc role r =
     with_token w rd acc role (AccessTokenExpire (w_cfg w)) (Status Internal ''create token failure'') (\<lambda>accessToken.
     with_token w rd acc role (RefreshTokenExpire (w_cfg w)) (Status Internal ''create refresh token failure'')
       (\<lambda>refreshTokenStr r.
        case StateTokenWithParseJwtToken refreshTokenStr of
          Inl e \<Rightarrow> (Inl (Status Internal ''create refresh token failure''), r)
        | Inr refreshTokenHash \<Rightarrow>
            (case StateTokenWithRenew (w_redis w) [] refreshTokenHash acc (acc @ '':'' @ role)
                    (RefreshTokenExpire (w_cfg w)) r of
               (Inl e, r') \<Rightarrow> (Inl (Status Internal ''create refresh token failure''), r')
             | (Inr _, r') \<Rightarrow>
                 (Inr \<lparr>tp_AccessToken = accessToken, tp_RefreshToken = refreshTokenStr,
                       tp_ExpiresIn = seconds_int (AccessTokenExpire (w_cfg w))\<rparr>, r')))) r"

section \<open>Register\<close>

definition register_failure :: status where
  "register_failure = Status Internal ''register account failure''"

definition register_auth :: "string \<Rightarrow> string \<Rightarrow> string \<Rightarrow> int \<Rightarrow> AccountAuth" where
  "register_auth accountID authType identifier now =
     \<lparr>aa_AccountID = accountID, aa_AuthType = authType, aa_Identifier = identifier, aa_Status = 1, aa_Verified = 0,
      aa_DeletedAt = 0, aa_CreatedAt = now, aa_UpdatedAt = now\<rparr>"

definition register_account :: "string \<Rightarrow> string \<Rightarrow> string \<Rightarrow> int \<Rightarrow> Account" where
  "register_account accountID passwordHash salt now =
     \<lparr>acc_AccountID = accountID, acc_Role = ''user'', acc_Status = 1, acc_PasswordHash = passwordHash, acc_Salt = salt,
      acc_DeletedAt = 0, acc_CreatedAt = now, acc_UpdatedAt = now\<rparr>"

text \<open>The transaction: both inserts and the commit, rolled back on every failure by the deferred
  function.\<close>

definition register_tx ::
  "('db, 'r) world \<Rightarrow> 'db \<Rightarrow> AccountAuth \<Rightarrow> Account \<Rightarrow> (status + unit) \<times> 'db" where
  "register_tx w db authRec account =
     (case w_begin w db of
        Inl e \<Rightarrow> (Inl register_failure, db)
      | Inr tx \<Rightarrow>
          (case InsertAccountAuth (w_exec w) tx authRec of
             (Inl e, tx1) \<Rightarrow>
               (Inl (case e of MySQLError n m \<Rightarrow>
                        (if n = 1062 then Status AlreadyExists ''identifier already registered'' else register_failure)
                      | _ \<Rightarrow> register_failure), snd (w_rollback w db tx1))
           | (Inr _, tx1) \<Rightarrow>
               (case InsertAccount (w_exec w) tx1 account of
                  (Inl e, tx2) \<Rightarrow> (Inl register_failure, snd (w_rollback w db tx2))
                | (Inr _, tx2) \<Rightarrow>
                    (case w_commit w db tx2 of
                       (Inl e, db1) \<Rightarrow> (Inl register_failure, snd (w_rollback w db1 tx2))
                     | (Inr _, db1) \<Rightarrow> (Inr (), db1)))))"

definition Register ::
  "('db, 'r) world \<Rightarrow> reading \<Rightarrow> RegisterRequest \<Rightarrow> 'db \<Rightarrow> 'r \<Rightarrow> (status + TokenPair) \<times> 'db \<times> 'r" where
  "Register w rd req db r =
     (case protoAuthTypeToString (rr_AuthType req) of
        Inl st \<Rightarrow> (Inl st, db, r)
      | Inr authType \<Rightarrow>
          (if rr_Identifier req = [] then (Inl (Status InvalidArgument ''identifier is required''), db, r)
           else if rr_Password req = [] then (Inl (Status InvalidArgument ''password is required''), db, r)
           else case Salt (r_random rd) of
             Inl e \<Rightarrow> (Inl register_failure, db, r)
           | Inr salt \<Rightarrow>
               (let passwordHash = Key (w_pbkdf2 w) salt (rr_Password req);
                    accountID = GenerateID (r_node rd)
                in case register_tx w db (register_auth accountID authType (rr_Identifier req) (Unix rd))
                          (register_account accountID passwordHash salt (Unix rd)) of
                     (Inl st, db1) \<Rightarrow> (Inl st, db1, r)
                   | (Inr _, db1) \<Rightarrow>
                       (case issue_tokens w rd accountID ''user'' r of (res, r1) \<Rightarrow> (res, db1, r1)))))"

section \<open>Login\<close>

definition login_attempt_key :: "string \<Rightarrow> string" where
  "login_attempt_key identity = ''login_attempt:'' @ identity"

definition login_lock_key :: "string \<Rightarrow> string" where
  "login_lock_key identity = ''login_lock:'' @ identity"

definition ip_attempt_key :: "string \<Rightarrow> string" where
  "ip_attempt_key ip = ''login_attempt:ip:'' @ ip"

definition ip_lock_key :: "string \<Rightarrow> string" where
  "ip_lock_key ip = ''login_lock:ip:'' @ ip"

text \<open>\<open>redisIncr\<close>, \<open>redisExpire\<close>; the callers drop the errors of \<open>Expire\<close>, \<open>Set\<close> and \<open>Del\<close>.\<close>

definition redisIncr :: "'r rclient \<Rightarrow> string \<Rightarrow> ('r, int) rio" where
  "redisIncr cl key = (\<lambda>s. as_int (cl s (Incr key)))"

definition redisExpire :: "'r rclient \<Rightarrow> string \<Rightarrow> int \<Rightarrow> ('r, unit) rio" where
  "redisExpire cl key dur = (\<lambda>s. as_ok (cl s (Expire key dur)))"

definition recordFailedAttempt :: "('db, 'r) world \<Rightarrow> string \<Rightarrow> ('r, unit) rio" where
  "recordFailedAttempt w identity =
     (let attemptKey = login_attempt_key identity; cfg = w_cfg w in
      rdo (redisIncr (w_redis w) attemptKey) (\<lambda>attempts s.
        let s1 = (if attempts = 1 then snd (redisExpire (w_redis w) attemptKey (LoginLockDuration cfg) s) else s);
            s2 = (if attempts \<ge> MaxLoginAttempts cfg
                  then (let s' = snd (redisSetFn (w_redis w) (login_lock_key identity) ''1'' (LoginLockDuration cfg) s1)
                        in snd (redisDelFn (w_redis w) [attemptKey] s'))
                  else s1)
        in (Inr (), s2)))"

definition recordIPFailedAttempt :: "('db, 'r) world \<Rightarrow> string \<Rightarrow> ('r, unit) rio" where
  "recordIPFailedAttempt w ipAddr =
     (let attemptKey = ip_attempt_key ipAddr; cfg = w_cfg w in
      rdo (redisIncr (w_redis w) attemptKey) (\<lambda>attempts s.
        let s1 = (if attempts = 1 then snd (redisExpire (w_redis w) attemptKey (IPLoginLockDuration cfg) s) else s);
            s2 = (if attempts \<ge> MaxIPLoginAttempts cfg
                  then (let s' = snd (redisSetFn (w_redis w) (ip_lock_key ipAddr) ''1'' (IPLoginLockDuration cfg) s1)
                        in snd (redisDelFn (w_redis w) [attemptKey] s'))
                  else s1)
        in (Inr (), s2)))"

definition locked_status :: "string \<Rightarrow> int \<Rightarrow> status" where
  "locked_status who ttl =
     Status ResourceExhausted (who @ '' locked, retry after '' @ itoa (ttl div second) @ '' seconds'')"

text \<open>The checks before the account is looked up: an error of the IP lock's TTL is only logged.\<close>

definition ip_gate :: "('db, 'r) world \<Rightarrow> string \<Rightarrow> 'r \<Rightarrow> status option \<times> 'r" where
  "ip_gate w ipAddr r =
     (if ipAddr = [] then (None, r)
      else case redisTTLFn (w_redis w) (ip_lock_key ipAddr) r of
        (Inl e, r1) \<Rightarrow> (None, r1)
      | (Inr ttl, r1) \<Rightarrow> (if ttl > 0 then (Some (locked_status ''ip'' ttl), r1) else (None, r1)))"

definition lock_gate :: "('db, 'r) world \<Rightarrow> string \<Rightarrow> 'r \<Rightarrow> status option \<times> 'r" where
  "lock_gate w identifier r =
     (case redisTTLFn (w_redis w) (login_lock_key identifier) r of
        (Inl e, r1) \<Rightarrow> (Some (Status Internal ''check login lock failure''), r1)
      | (Inr ttl, r1) \<Rightarrow> (if ttl > 0 then (Some (locked_status ''account'' ttl), r1) else (None, r1)))"

definition login_record :: "reading \<Rightarrow> LoginRequest \<Rightarrow> string \<Rightarrow> string \<Rightarrow> int \<Rightarrow> string \<Rightarrow> LoginHistory" where
  "login_record rd req acc authType st reason =
     \<lparr>lh_AccountID = acc, lh_AuthType = authType, lh_Identifier = lr_Identifier req, lh_IPAddress = lr_IpAddress req,
      lh_UserAgent = lr_UserAgent req, lh_Status = st, lh_FailureReason = reason, lh_CreatedAt = Unix rd\<rparr>"

definition failed_attempts :: "('db, 'r) world \<Rightarrow> LoginRequest \<Rightarrow> 'r \<Rightarrow> 'r" where
  "failed_attempts w req r =
     (let r1 = snd (recordFailedAttempt w (lr_Identifier req) r) in
      if lr_IpAddress req \<noteq> [] then snd (recordIPFailedAttempt w (lr_IpAddress req) r1) else r1)"

definition reset_attempts :: "('db, 'r) world \<Rightarrow> LoginRequest \<Rightarrow> 'r \<Rightarrow> 'r" where
  "reset_attempts w req r =
     (let r1 = snd (redisDelFn (w_redis w) [login_attempt_key (lr_Identifier req), login_lock_key (lr_Identifier req)] r) in
      if lr_IpAddress req \<noteq> []
      then snd (redisDelFn (w_redis w) [ip_attempt_key (lr_IpAddress req), ip_lock_key (lr_IpAddress req)] r1) else r1)"

definition Login ::
  "('db, 'r) world \<Rightarrow> reading \<Rightarrow> LoginRequest \<Rightarrow> 'db \<Rightarrow> 'r \<Rightarrow> (status + TokenPair) \<times> 'db \<times> 'r" where
  "Login w rd req db r =
     (case protoAuthTypeToString (lr_AuthType req) of
        Inl st \<Rightarrow> (Inl st, db, r)
      | Inr authType \<Rightarrow>
          (if lr_Identifier req = [] then (Inl (Status InvalidArgument ''identifier is required''), db, r)
           else if lr_Password req = [] then (Inl (Status InvalidArgument ''password is required''), db, r)
           else case ip_gate w (lr_IpAddress req) r of
             (Some st, r1) \<Rightarrow> (Inl st, db, r1)
           | (None, r1) \<Rightarrow>
          (case lock_gate w (lr_Identifier req) r1 of
             (Some st, r2) \<Rightarrow> (Inl st, db, r2)
           | (None, r2) \<Rightarrow>
          (case SelectAccountWithAuthByIdentifier (w_exec w) db authType (lr_Identifier req) of
             Inl e \<Rightarrow>
               (if e = ErrNotFound
                then (Inl (Status NotFound ''account not found''),
                      snd (InsertLoginHistory (w_exec w) db (login_record rd req [] authType 0 ''account not found'')), r2)
                else (Inl (Status Internal ''query account failure''), db, r2))
           | Inr account \<Rightarrow>
               (if awa_Status account \<noteq> 1 then (Inl (Status PermissionDenied ''account is frozen or inactive''), db, r2)
                else if Key (w_pbkdf2 w) (awa_Salt account) (lr_Password req) \<noteq> awa_PasswordHash account
                then (Inl (Status Unauthenticated ''invalid password''),
                      snd (InsertLoginHistory (w_exec w) db
                        (login_record rd req (awa_AccountID account) authType 0 ''invalid password'')),
                      failed_attempts w req r2)
                else case issue_tokens w rd (awa_AccountID account) (awa_Role account) (reset_attempts w req r2) of
                  (Inl st, r3) \<Rightarrow> (Inl st, db, r3)
                | (Inr tp, r3) \<Rightarrow>
                    (Inr tp, snd (InsertLoginHistory (w_exec w) db
                       (login_record rd req (awa_AccountID account) authType 1 [])), r3))))))"

section \<open>Tokens\<close>

definition RefreshToken ::
  "('db, 'r) world \<Rightarrow> reading \<Rightarrow> string \<Rightarrow> 'r \<Rightarrow> (status + TokenPair) \<times> 'r" where
  "RefreshToken w rd refreshToken r =
     (if refreshToken = [] then (Inl (Status InvalidArgument ''refresh_token is required''), r)
      else case StateTokenWithParseJwtToken refreshToken of
        Inl e \<Rightarrow> (Inl (Status InvalidArgument ''invalid refresh token''), r)
      | Inr oldTokenHash \<Rightarrow>
          (case redisGetFn (w_redis w) (''token_'' @ oldTokenHash) r of
             (Inl e, r1) \<Rightarrow>
               (Inl (if e = RedisNil then Status Unauthenticated ''refresh token not found or revoked''
                     else Status Internal ''internal server error''), r1)
           | (Inr val, r1) \<Rightarrow>
               (let parts = SplitN2 val (CHR '':''); accountID = parts ! 0;
                    role = (if length parts = 2 then parts ! 1 else ''user'')
                in with_token w rd accountID role (RefreshTokenExpire (w_cfg w)) (Status Internal ''create token failure'')
                     (\<lambda>newRefreshToken r1.
                      case StateTokenWithParseJwtToken newRefreshToken of
                        Inl e \<Rightarrow> (Inl (Status Internal ''hash token failure''), r1)
                      | Inr newRefreshTokenHash \<Rightarrow>
                          (case StateTokenWithRenew (w_redis w) oldTokenHash newRefreshTokenHash accountID
                                  (accountID @ '':'' @ role) (RefreshTokenExpire (w_cfg w)) r1 of
                             (Inl e, r2) \<Rightarrow> (Inl (Status Internal ''rotate token failure''), r2)
                           | (Inr _, r2) \<Rightarrow>
                               with_token w rd accountID role (AccessTokenExpire (w_cfg w))
                                 (Status Internal ''create token failure'')
                                 (\<lambda>newAccessToken r2.
                                   (Inr \<lparr>tp_AccessToken = newAccessToken, tp_RefreshToken = newRefreshToken,
                                         tp_ExpiresIn = seconds_int (AccessTokenExpire (w_cfg w))\<rparr>, r2)) r2)) r1)))"

definition RevokeToken :: "('db, 'r) world \<Rightarrow> string \<Rightarrow> 'r \<Rightarrow> (status + unit) \<times> 'r" where
  "RevokeToken w refreshToken r =
     (if refreshToken = [] then (Inl (Status InvalidArgument ''refresh_token is required''), r)
      else case StateTokenWithParseJwtToken refreshToken of
        Inl e \<Rightarrow> (Inl (Status InvalidArgument ''invalid refresh token''), r)
      | Inr h \<Rightarrow>
          (case StateTokenWithRevoke (w_redis w) h r of
             (Inl e, r1) \<Rightarrow> (Inl (Status Internal ''revoke token failure''), r1)
           | (Inr _, r1) \<Rightarrow> (Inr (), r1)))"

definition RevokeAllTokens :: "('db, 'r) world \<Rightarrow> reading \<Rightarrow> string \<Rightarrow> 'r \<Rightarrow> (status + unit) \<times> 'r" where
  "RevokeAllTokens w rd accessToken r =
     (if accessToken = [] then (Inl (Status InvalidArgument ''access_token is required''), r)
      else case JwtWithParseToken (w_jwt w) (w_SigningKey w) (r_now rd) accessToken None of
        Inl e \<Rightarrow>
          (Inl (if e = ErrTokenExpired then Status Unauthenticated ''token expired, please use a valid access token''
                else Status Unauthenticated ''invalid token''), r)
      | Inr claims \<Rightarrow>
          (case StateTokenWithRevokeAll (w_redis w) (AccountId claims) r of
             (Inl e, r1) \<Rightarrow> (Inl (Status Internal ''revoke all tokens failure''), r1)
           | (Inr _, r1) \<Rightarrow> (Inr (), r1)))"

record ValidateTokenResponse =
  vt_Role :: string
  vt_ExpiresAt :: int

text \<open>\<open>claims.ExpiresAt.Time\<close> of a token without the claim is a nil dereference.\<close>

definition ValidateToken ::
  "('db, 'r) world \<Rightarrow> reading \<Rightarrow> string \<Rightarrow> 'r \<Rightarrow> (status + ValidateTokenResponse) \<times> 'r" where
  "ValidateToken w rd accessToken r =
     (if accessToken = [] then (Inl (Status InvalidArgument ''access_token is required''), r)
      else case JwtWithParseToken (w_jwt w) (w_SigningKey w) (r_now rd) accessToken None of
        Inl e \<Rightarrow> (Inl (if e = ErrTokenExpired then Status Unauthenticated ''token expired''
                      else Status Unauthenticated ''invalid token''), r)
      | Inr claims \<Rightarrow>
          (case StateTokenWithCount (w_redis w) (AccountId claims) r of
             (Inl e, r1) \<Rightarrow> (Inl (Status Internal ''validate token failure''), r1)
           | (Inr num, r1) \<Rightarrow>
               (if num = 0 then (Inl (Status Unauthenticated ''token revoked''), r1)
                else case ExpiresAt claims of
                  None \<Rightarrow> (Inl (Status Internal ''panic err: runtime error: invalid memory address or nil pointer dereference''), r1)
                | Some e \<Rightarrow> (Inr \<lparr>vt_Role = Role claims, vt_ExpiresAt = e\<rparr>, r1))))"

section \<open>Accounts\<close>

record UpdatePasswordRequest =
  up_AccountId :: string
  up_OldPassword :: string
  up_NewPassword :: string

definition account_error :: "goerr \<Rightarrow> status" where
  "account_error e = (if e = ErrNotFound then Status NotFound ''account not found'' else Status Internal ''query account failure'')"

definition UpdatePassword ::
  "('db, 'r) world \<Rightarrow> reading \<Rightarrow> UpdatePasswordRequest \<Rightarrow> 'db \<Rightarrow> 'r \<Rightarrow> (status + unit) \<times> 'db \<times> 'r" where
  "UpdatePassword w rd req db r =
     (if up_AccountId req = [] then (Inl (Status InvalidArgument ''account_id is required''), db, r)
      else if up_OldPassword req = [] then (Inl (Status InvalidArgument ''old_password is required''), db, r)
      else if up_NewPassword req = [] then (Inl (Status InvalidArgument ''new_password is required''), db, r)
      else case SelectAccountByAccountID (w_exec w) db (up_AccountId req) of
        Inl e \<Rightarrow> (Inl (account_error e), db, r)
      | Inr account \<Rightarrow>
          (if acc_Status account \<noteq> 1 then (Inl (Status PermissionDenied ''account is frozen or inactive''), db, r)
           else if Key (w_pbkdf2 w) (acc_Salt account) (up_OldPassword req) \<noteq> acc_PasswordHash account
           then (Inl (Status Unauthenticated ''invalid old password''), db, r)
           else case Salt (r_random rd) of
             Inl e \<Rightarrow> (Inl (Status Internal ''update password failure''), db, r)
           | Inr salt \<Rightarrow>
               (case UpdateAccountPassword (w_exec w) db (up_AccountId req) (Key (w_pbkdf2 w) salt (up_NewPassword req)) salt of
                  (Inl e, db1) \<Rightarrow> (Inl (Status Internal ''update password failure''), db1, r)
                | (Inr _, db1) \<Rightarrow>
                    (case StateTokenWithRevokeAll (w_redis w) (up_AccountId req) r of
                       (Inl e, r1) \<Rightarrow> (Inl (Status Internal ''revoke tokens after password change failure''), db1, r1)
                     | (Inr _, r1) \<Rightarrow> (Inr (), db1, r1)))))"

record UpdateIdentifierRequest =
  ui_AccountId :: string
  ui_AuthType :: int
  ui_NewIdentifier :: string

definition UpdateIdentifier ::
  "('db, 'r) world \<Rightarrow> UpdateIdentifierRequest \<Rightarrow> 'db \<Rightarrow> 'r \<Rightarrow> (status + unit) \<times> 'db \<times> 'r" where
  "UpdateIdentifier w req db r =
     (if ui_AccountId req = [] then (Inl (Status InvalidArgument ''account_id is required''), db, r)
      else case protoAuthTypeToString (ui_AuthType req) of
        Inl st \<Rightarrow> (Inl st, db, r)
      | Inr authType \<Rightarrow>
          (if ui_NewIdentifier req = [] then (Inl (Status InvalidArgument ''new_identifier is required''), db, r)
           else case SelectAccountByAccountID (w_exec w) db (ui_AccountId req) of
             Inl e \<Rightarrow> (Inl (account_error e), db, r)
           | Inr account \<Rightarrow>
               (if acc_Status account \<noteq> 1 then (Inl (Status PermissionDenied ''account is frozen or inactive''), db, r)
                else case ReplaceAccountAuthIdentifier (w_exec w) db (ui_AccountId req) authType (ui_NewIdentifier req) of
                  (Inl e, db1) \<Rightarrow>
                    (Inl (case e of MySQLError n m \<Rightarrow>
                             (if n = 1062 then Status AlreadyExists ''identifier already exists''
                              else Status Internal ''update identifier failure'')
                           | _ \<Rightarrow> Status Internal ''update identifier failure''), db1, r)
                | (Inr n, db1) \<Rightarrow>
                    (if n = 0 then (Inl (Status NotFound ''auth identifier not found''), db1, r)
                     else case StateTokenWithRevokeAll (w_redis w) (ui_AccountId req) r of
                       (Inl e, r1) \<Rightarrow> (Inl (Status Internal ''revoke tokens after identifier change failure''), db1, r1)
                     | (Inr _, r1) \<Rightarrow> (Inr (), db1, r1)))))"

definition DeleteAccount ::
  "('db, 'r) world \<Rightarrow> reading \<Rightarrow> string \<Rightarrow> string \<Rightarrow> 'db \<Rightarrow> 'r \<Rightarrow> (status + unit) \<times> 'db \<times> 'r" where
  "DeleteAccount w rd accountId password db r =
     (if accountId = [] then (Inl (Status InvalidArgument ''account_id is required''), db, r)
      else if password = [] then (Inl (Status InvalidArgument ''password is required''), db, r)
      else case SelectAccountByAccountID (w_exec w) db accountId of
        Inl e \<Rightarrow> (Inl (account_error e), db, r)
      | Inr account \<Rightarrow>
          (if Key (w_pbkdf2 w) (acc_Salt account) password \<noteq> acc_PasswordHash account
           then (Inl (Status Unauthenticated ''invalid password''), db, r)
           else case StateTokenWithRevokeAll (w_redis w) accountId r of
             (Inl e, r1) \<Rightarrow> (Inl (Status Internal ''revoke tokens before delete failure''), db, r1)
           | (Inr _, r1) \<Rightarrow>
               (case SoftDeleteAccountByAccountID (w_exec w) db accountId (Unix rd) of
                  (Inl e, db1) \<Rightarrow> (Inl (Status Internal ''delete account failure''), db1, r1)
                | (Inr _, db1) \<Rightarrow>
                    (case DeleteAccountAuthsByAccountID (w_exec w) db1 accountId of
                       (Inl e, db2) \<Rightarrow> (Inl (Status Internal ''delete account failure''), db2, r1)
                     | (Inr _, db2) \<Rightarrow> (Inr (), db2, r1)))))"

end
