(* ===== verification/AuthStore.thy ===== *)
theory AuthStore
  imports Auth RefDb
begin

text \<open>
  The database of \<open>personal-auth\<close> as the service sees it: the server's contract extended by the join of
  \<open>SelectAccountWithAuthByIdentifier\<close> and by transactions, what the model layer's functions mean
  under it, and the reference engine as an instance.
\<close>

section \<open>The contract\<close>

definition join_match :: "(sqlval \<Rightarrow> sqlval \<Rightarrow> bool) \<Rightarrow> string \<Rightarrow> string \<Rightarrow> row \<Rightarrow> row \<Rightarrow> bool" where
  "join_match le authType identifier a aa =
     (le (a ''account_id'') (aa ''account_id'') \<and> le (aa ''account_id'') (a ''account_id'') \<and>
      le (aa ''auth_type'') (VStr authType) \<and> le (VStr authType) (aa ''auth_type'') \<and>
      le (aa ''identifier'') (VStr identifier) \<and> le (VStr identifier) (aa ''identifier'') \<and>
      a ''deleted_at'' = VInt 0 \<and> aa ''deleted_at'' = VInt 0 \<and> aa ''status'' = VInt 1)"

definition join_columns :: "string list" where
  "join_columns = [''account_id'', ''role'', ''status'', ''password_hash'', ''salt'', ''deleted_at'']"

text \<open>The first row the join delivers, in whatever order it finds them.\<close>

definition join_result :: "(sqlval \<Rightarrow> sqlval \<Rightarrow> bool) \<Rightarrow> row list \<Rightarrow> row list \<Rightarrow> string \<Rightarrow> string \<Rightarrow> sqlval list option \<Rightarrow> bool" where
  "join_result le accounts auths authType identifier ro =
     (case ro of
        None \<Rightarrow> \<not> (\<exists>a \<in> set accounts. \<exists>aa \<in> set auths. join_match le authType identifier a aa)
      | Some vs \<Rightarrow> \<exists>a \<in> set accounts. \<exists>aa \<in> set auths. join_match le authType identifier a aa \<and> vs = proj join_columns a)"

locale auth_store = mysql exec wf tab le conv dflt
  for exec :: "'db Exec" and wf :: "'db \<Rightarrow> bool" and tab :: "'db \<Rightarrow> string \<Rightarrow> row list"
    and le :: "sqlval \<Rightarrow> sqlval \<Rightarrow> bool" and conv :: "string \<Rightarrow> string \<Rightarrow> sqlval \<Rightarrow> sqlval" and dflt :: "string \<Rightarrow> string \<Rightarrow> sqlval" +
  fixes begin_tx :: "'db \<Rightarrow> goerr + 'db"
    and commit :: "'db \<Rightarrow> 'db \<Rightarrow> (goerr + unit) \<times> 'db"
    and rollback :: "'db \<Rightarrow> 'db \<Rightarrow> (goerr + unit) \<times> 'db"
  assumes join_row: "wf db \<Longrightarrow> QueryRowContext exec db join_sql [VStr authType, VStr identifier] = Inr ro \<Longrightarrow>
      join_result le (tab db TableNameAccounts) (tab db TableNameAccountAuths) authType identifier ro"
    and tx_begin: "wf db \<Longrightarrow> begin_tx db = Inr tx \<Longrightarrow> wf tx \<and> tab tx = tab db"
    and tx_commit: "wf tx \<Longrightarrow> commit db tx = (Inr u, db') \<Longrightarrow> wf db' \<and> tab db' = tab tx"
    and tx_commit_lost: "wf db \<Longrightarrow> wf tx \<Longrightarrow> commit db tx = (Inl e, db') \<Longrightarrow> wf db' \<and> (tab db' = tab db \<or> tab db' = tab tx)"
    and tx_rollback: "wf db \<Longrightarrow> rollback db tx = (res, db') \<Longrightarrow> wf db' \<and> tab db' = tab db"

section \<open>Rows of the tables\<close>

definition account_of :: "row \<Rightarrow> Account" where
  "account_of r =
     \<lparr>acc_AccountID = val_str (r ''account_id''), acc_Role = val_str (r ''role''), acc_Status = val_int (r ''status''),
      acc_PasswordHash = val_str (r ''password_hash''), acc_Salt = val_str (r ''salt''),
      acc_DeletedAt = val_int (r ''deleted_at''), acc_CreatedAt = val_int (r ''created_at''),
      acc_UpdatedAt = val_int (r ''updated_at'')\<rparr>"

definition with_auth_of :: "row \<Rightarrow> AccountWithAuth" where
  "with_auth_of r =
     \<lparr>awa_AccountID = val_str (r ''account_id''), awa_Role = val_str (r ''role''), awa_Status = val_int (r ''status''),
      awa_PasswordHash = val_str (r ''password_hash''), awa_Salt = val_str (r ''salt''),
      awa_DeletedAt = val_int (r ''deleted_at'')\<rparr>"

lemma accounts_schema: "map_of schema TableNameAccounts =
  Some [(''id'', CTInt), (''account_id'', CTText), (''role'', CTText), (''status'', CTInt), (''password_hash'', CTText),
        (''salt'', CTText), (''deleted_at'', CTInt), (''created_at'', CTInt), (''updated_at'', CTInt)]"
  by (simp add: schema_def TableNameAccounts_def)

lemma auths_schema: "map_of schema TableNameAccountAuths =
  Some [(''id'', CTInt), (''account_id'', CTText), (''auth_type'', CTText), (''identifier'', CTText), (''status'', CTInt),
        (''verified'', CTInt), (''deleted_at'', CTInt), (''created_at'', CTInt), (''updated_at'', CTInt)]"
  by (simp add: schema_def TableNameAccountAuths_def)

lemma account_types:
  "coltype_of TableNameAccounts ''account_id'' = Some CTText" "coltype_of TableNameAccounts ''role'' = Some CTText"
  "coltype_of TableNameAccounts ''status'' = Some CTInt" "coltype_of TableNameAccounts ''password_hash'' = Some CTText"
  "coltype_of TableNameAccounts ''salt'' = Some CTText" "coltype_of TableNameAccounts ''deleted_at'' = Some CTInt"
  "coltype_of TableNameAccounts ''created_at'' = Some CTInt" "coltype_of TableNameAccounts ''updated_at'' = Some CTInt"
  by (simp_all add: coltype_of_def accounts_schema)

lemma auth_types:
  "coltype_of TableNameAccountAuths ''account_id'' = Some CTText" "coltype_of TableNameAccountAuths ''auth_type'' = Some CTText"
  "coltype_of TableNameAccountAuths ''identifier'' = Some CTText" "coltype_of TableNameAccountAuths ''status'' = Some CTInt"
  "coltype_of TableNameAccountAuths ''deleted_at'' = Some CTInt"
  by (simp_all add: coltype_of_def auths_schema)

lemma auth_tables: "word_ok TableNameAccounts" "word_ok TableNameAccountAuths" "word_ok TableNameLoginHistory"
  "TableNameAccounts \<noteq> TableNameAccountAuths" "TableNameLoginHistory \<noteq> TableNameAccounts"
  "TableNameLoginHistory \<noteq> TableNameAccountAuths"
  by (simp_all add: TableNameAccounts_def TableNameAccountAuths_def TableNameLoginHistory_def word_ok_def)

lemma auth_fields_fine: "fields_fine (account_fields a)" "fields_fine (account_auth_fields b)" "fields_fine (login_history_fields h)"
  by (simp_all add: account_fields_def account_auth_fields_def login_history_fields_def fields_fine_def name_defs)

lemma auth_uniq: "uniq_of TableNameAccounts = [[''account_id'']]"
  "uniq_of TableNameAccountAuths = [[''auth_type'', ''identifier'']]"
  by (simp_all add: uniq_of_def TableNameAccounts_def TableNameAccountAuths_def)

lemma scanAccount_typed:
  "typed_row TableNameAccounts r \<Longrightarrow> scanAccount (proj account_columns r) = Inr (account_of r)"
  by (simp add: typed_row_def accounts_schema account_columns_def proj_def scanAccount_def scan_typed account_of_def)

lemma scanAccountWithAuth_typed:
  "typed_row TableNameAccounts r \<Longrightarrow> scanAccountWithAuth (proj join_columns r) = Inr (with_auth_of r)"
  by (simp add: typed_row_def accounts_schema join_columns_def proj_def scanAccountWithAuth_def scan_typed with_auth_of_def)

lemma account_columns_ok: "account_columns \<noteq> []" "account_columns \<noteq> [''COUNT(*)'']" "list_all ident account_columns"
  by (simp_all add: account_columns_def name_defs)

definition account_query :: "string \<Rightarrow> query" where
  "account_query acc = query_Where (by_account acc) (query_Table TableNameAccounts (query_Columns account_columns NewQuery))"

lemma account_query_fine: "query_fine (account_query acc) []"
  using account_columns_ok by_account_simple auth_tables(1) by (intro query_fineI) (simp_all add: account_query_def query_defs)

definition live_account :: "(sqlval \<Rightarrow> sqlval \<Rightarrow> bool) \<Rightarrow> string \<Rightarrow> row \<Rightarrow> bool" where
  "live_account le acc r = (owned le acc r \<and> r ''deleted_at'' = VInt 0)"

context mysql
begin

lemma account_match:
  assumes "wf db" "r \<in> set (tab db TableNameAccounts)"
  shows "list_all (cond_holds le r) (by_account acc) \<longleftrightarrow> live_account le acc r"
proof -
  obtain d where "r ''deleted_at'' = VInt d"
    using typed_col [OF wf_typed [OF assms] account_types(6)] by (auto simp: has_type_int)
  then show ?thesis using int_eq by (auto simp: by_account_def WithEq_def live_account_def owned_def)
qed

lemma select_account_found:
  assumes "wf db" "SelectAccountByAccountID exec db acc = Inr a"
  shows "\<exists>r \<in> set (tab db TableNameAccounts). live_account le acc r \<and> a = account_of r"
proof -
  let ?h = "account_query acc"
  have q: "q_table ?h = TableNameAccounts" "q_conditions ?h = by_account acc" "q_columns ?h = account_columns"
    "q_limit ?h = []" by (simp_all add: account_query_def query_defs)
  have "QueryOneCtx exec db ?h (row_scan scanAccount) = Inr a"
    using assms(2) by (simp add: SelectAccountByAccountID_def account_query_def by_account_def)
  from QueryOneCtx_ok [OF assms(1) account_query_fine q(4) _ this, unfolded q, OF account_columns_ok(2)] obtain xs where
    xs: "delivers le (tab db TableNameAccounts) (by_account acc) [] xs"
      "row_scan scanAccount (case xs of [] \<Rightarrow> None | r # _ \<Rightarrow> Some (proj account_columns r)) = Inr a" by blast
  then obtain r rs where r: "xs = r # rs" by (cases xs) (auto simp: row_scan_def)
  then have "r \<in> set (matching le (by_account acc) (tab db TableNameAccounts))" using delivers_set [OF xs(1)] by auto
  then have m: "r \<in> set (tab db TableNameAccounts)" "live_account le acc r"
    using account_match [OF assms(1)] by (auto simp: matching_def)
  then have "a = account_of r"
    using xs(2) r scanAccount_typed [OF wf_typed [OF assms(1) m(1)]] by (simp add: row_scan_def)
  then show ?thesis using m by blast
qed

text \<open>An account id belongs to one row (the column is unique, as the server compares it).\<close>

lemma account_unique:
  assumes "wf db" "r \<in> set (tab db TableNameAccounts)" "r' \<in> set (tab db TableNameAccounts)"
    and "le (r ''account_id'') (r' ''account_id'')" "le (r' ''account_id'') (r ''account_id'')"
  shows "r = r'"
  using wf_uniq [OF assms(1), of "[''account_id'']" TableNameAccounts r r'] assms(2-5)
  by (simp add: auth_uniq same_key_def)

lemma auth_unique:
  assumes "wf db" "r \<in> set (tab db TableNameAccountAuths)" "r' \<in> set (tab db TableNameAccountAuths)"
    and "le (r ''auth_type'') (r' ''auth_type'')" "le (r' ''auth_type'') (r ''auth_type'')"
    and "le (r ''identifier'') (r' ''identifier'')" "le (r' ''identifier'') (r ''identifier'')"
  shows "r = r'"
  using wf_uniq [OF assms(1), of "[''auth_type'', ''identifier'']" TableNameAccountAuths r r'] assms(2-7)
  by (simp add: auth_uniq same_key_def)

end

context auth_store
begin

lemma login_lookup:
  assumes "wf db" "SelectAccountWithAuthByIdentifier exec db authType identifier = res"
  shows "(\<exists>a \<in> set (tab db TableNameAccounts). \<exists>aa \<in> set (tab db TableNameAccountAuths).
            join_match le authType identifier a aa \<and> res = Inr (with_auth_of a)) \<or>
    (res = Inl ErrNotFound \<and> \<not> (\<exists>a \<in> set (tab db TableNameAccounts). \<exists>aa \<in> set (tab db TableNameAccountAuths).
            join_match le authType identifier a aa)) \<or>
    (\<exists>e. res = Inl e \<and> e \<noteq> ErrNotFound)"
proof (cases "QueryRowContext exec db join_sql [VStr authType, VStr identifier]")
  case (Inl e)
  then show ?thesis using assms(2) query_row_error [OF Inl]
    by (auto simp: SelectAccountWithAuthByIdentifier_def no_rows_def)
next
  case (Inr ro)
  note j = join_row [OF assms(1) Inr]
  show ?thesis
  proof (cases ro)
    case None
    then show ?thesis using j assms(2) Inr
      by (simp add: join_result_def SelectAccountWithAuthByIdentifier_def row_scan_def no_rows_def)
  next
    case (Some vs)
    then obtain a aa where a: "a \<in> set (tab db TableNameAccounts)" "aa \<in> set (tab db TableNameAccountAuths)"
      "join_match le authType identifier a aa" "vs = proj join_columns a" using j by (auto simp: join_result_def)
    have "res = Inr (with_auth_of a)"
      using assms(2) Inr Some a(4) scanAccountWithAuth_typed [OF wf_typed [OF assms(1) a(1)]]
      by (simp add: SelectAccountWithAuthByIdentifier_def row_scan_def no_rows_def)
    then show ?thesis using a by blast
  qed
qed

end

section \<open>The reference engine with the join and transactions\<close>

text \<open>The transaction works on a copy of the tables; committing keeps the copy.\<close>

definition ref_join :: "refdb \<Rightarrow> sqlval list \<Rightarrow> sqlval list option" where
  "ref_join db args =
     (case args of
        [VStr ty, VStr ident1] \<Rightarrow>
          (case filter (\<lambda>(a, aa). join_match ref_le ty ident1 a aa)
                  (List.product (rd_tabs db TableNameAccounts) (rd_tabs db TableNameAccountAuths)) of
             [] \<Rightarrow> None | (a, aa) # _ \<Rightarrow> Some (proj join_columns a))
      | _ \<Rightarrow> None)"

definition ref_auth_exec :: "refdb Exec" where
  "ref_auth_exec = ref_exec\<lparr>QueryRowContext := (\<lambda>db sql args.
     if sql = join_sql then Inr (ref_join db args) else QueryRowContext ref_exec db sql args)\<rparr>"

lemma parse_join: "parse join_sql = None"
  by code_simp

lemma ref_join_ok:
  "join_result ref_le (rd_tabs db TableNameAccounts) (rd_tabs db TableNameAccountAuths) ty i (ref_join db [VStr ty, VStr i])"
proof (cases "filter (\<lambda>(a, aa). join_match ref_le ty i a aa) (List.product (rd_tabs db TableNameAccounts) (rd_tabs db TableNameAccountAuths))")
  case Nil
  then show ?thesis by (auto simp: join_result_def ref_join_def filter_empty_conv)
next
  case (Cons p ps)
  then obtain a aa where p: "p = (a, aa)"
    "(a, aa) \<in> set (filter (\<lambda>(a, aa). join_match ref_le ty i a aa) (List.product (rd_tabs db TableNameAccounts) (rd_tabs db TableNameAccountAuths)))"
    by (cases p) auto
  then have m: "a \<in> set (rd_tabs db TableNameAccounts)" "aa \<in> set (rd_tabs db TableNameAccountAuths)" "join_match ref_le ty i a aa"
    unfolding set_filter set_product by auto
  have "ref_join db [VStr ty, VStr i] = Some (proj join_columns a)" using Cons p(1) by (simp add: ref_join_def)
  then show ?thesis using m by (auto simp: join_result_def)
qed

lemma ref_auth_simps:
  "ExecContext ref_auth_exec = ExecContext ref_exec" "QueryContext ref_auth_exec = QueryContext ref_exec"
  "QueryRowContext ref_auth_exec db sql args =
     (if sql = join_sql then Inr (ref_join db args) else QueryRowContext ref_exec db sql args)"
  by (simp_all add: ref_auth_exec_def)

definition ref_begin :: "refdb \<Rightarrow> goerr + refdb" where
  "ref_begin db = Inr db"

definition ref_commit_tx :: "refdb \<Rightarrow> refdb \<Rightarrow> (goerr + unit) \<times> refdb" where
  "ref_commit_tx db tx = (Inr (), tx)"

definition ref_rollback :: "refdb \<Rightarrow> refdb \<Rightarrow> (goerr + unit) \<times> refdb" where
  "ref_rollback db tx = (Inr (), db)"

interpretation refauth: auth_store ref_auth_exec ref_wf rd_tabs ref_le ref_conv ref_dflt ref_begin ref_commit_tx ref_rollback
proof (unfold_locales, unfold ref_auth_simps(1-2), goal_cases)
  case (20 db sql cols t ws os lmt args ro)
  then have "sql \<noteq> join_sql" using parse_join by auto
  then show ?case using refdb.query_row [OF 20(1,2)] 20(3) by (simp add: ref_auth_simps)
next
  case (21 db sql args e)
  then show ?case using refdb.query_row_error [of db sql args e] by (simp add: ref_auth_simps split: if_splits)
next
  case (22 db authType idt ro)
  then show ?case using ref_join_ok [of db authType idt] by (simp add: ref_auth_simps)
qed ((fact refdb.le_refl refdb.le_text_trans refdb.le_int refdb.le_date refdb.le_date_rev refdb.le_dates refdb.conv_int
    refdb.conv_int_text refdb.conv_bool refdb.conv_text refdb.conv_dec refdb.conv_date refdb.wf_exec refdb.wf_typed
    refdb.wf_keys refdb.wf_uniq refdb.exec_ok refdb.exec_error
    refdb.query_rows) | (simp add: ref_begin_def ref_commit_tx_def ref_rollback_def))+

end
