(* ===== verification/AuthRules.thy ===== *)
theory AuthRules
  imports AuthStore SessionProps
begin

text \<open>
  The handlers of the auth service on their database: what each of them leaves in the tables, under
  the contract of the server, and what the token handlers do to the sessions.
\<close>

section \<open>The service on its database\<close>

locale auth_world = auth_store "w_exec w" ok tab le conv dflt "w_begin w" "w_commit w" "w_rollback w"
  for w :: "('db, 'r) world" and ok :: "'db \<Rightarrow> bool" and tab :: "'db \<Rightarrow> string \<Rightarrow> row list"
    and le :: "sqlval \<Rightarrow> sqlval \<Rightarrow> bool" and conv :: "string \<Rightarrow> string \<Rightarrow> sqlval \<Rightarrow> sqlval" and dflt :: "string \<Rightarrow> string \<Rightarrow> sqlval"

text \<open>The rows a registration adds.\<close>

definition new_rows ::
  "(string \<Rightarrow> string \<Rightarrow> sqlval \<Rightarrow> sqlval) \<Rightarrow> (string \<Rightarrow> string \<Rightarrow> sqlval) \<Rightarrow> AccountAuth \<Rightarrow> Account \<Rightarrow> int \<Rightarrow> int \<Rightarrow>
   (string \<Rightarrow> row list) \<Rightarrow> string \<Rightarrow> row list" where
  "new_rows conv dflt authRec account i j T =
     T(TableNameAccountAuths := T TableNameAccountAuths @ [inserted conv dflt TableNameAccountAuths (account_auth_fields authRec) i],
       TableNameAccounts := T TableNameAccounts @ [inserted conv dflt TableNameAccounts (account_fields account) j])"

definition same_text :: "(sqlval \<Rightarrow> sqlval \<Rightarrow> bool) \<Rightarrow> sqlval \<Rightarrow> string \<Rightarrow> bool" where
  "same_text le v s = (le v (VStr s) \<and> le (VStr s) v)"

text \<open>A row of \<open>account_auths\<close> for an identifier of a type.\<close>

definition names :: "(sqlval \<Rightarrow> sqlval \<Rightarrow> bool) \<Rightarrow> string \<Rightarrow> string \<Rightarrow> row \<Rightarrow> bool" where
  "names le authType identifier aa = (same_text le (aa ''auth_type'') authType \<and> same_text le (aa ''identifier'') identifier)"

context auth_world
begin

lemma conv_auth [simp]:
  "conv TableNameAccountAuths ''account_id'' (VStr s) = VStr s" "conv TableNameAccountAuths ''auth_type'' (VStr s) = VStr s"
  "conv TableNameAccountAuths ''identifier'' (VStr s) = VStr s" "conv TableNameAccountAuths ''status'' (VInt n) = VInt n"
  "conv TableNameAccountAuths ''deleted_at'' (VInt n) = VInt n"
  using auth_types conv_text conv_int by auto

lemma conv_account [simp]:
  "conv TableNameAccounts ''account_id'' (VStr s) = VStr s" "conv TableNameAccounts ''role'' (VStr s) = VStr s"
  "conv TableNameAccounts ''status'' (VInt n) = VInt n" "conv TableNameAccounts ''password_hash'' (VStr s) = VStr s"
  "conv TableNameAccounts ''salt'' (VStr s) = VStr s" "conv TableNameAccounts ''deleted_at'' (VInt n) = VInt n"
  using account_types conv_text conv_int by auto

lemma le_str [simp]: "le (VStr s) (VStr s)"
  by (simp add: le_refl)

lemma insert_auth_err: "InsertAccountAuth (w_exec w) db a = (Inl e, db') \<Longrightarrow> ok db \<Longrightarrow> ok db'"
  using wf_InsertCtx [of db TableNameAccountAuths "account_auth_fields a"] by (simp add: InsertAccountAuth_def)

lemma insert_auth_ok:
  assumes "ok db" "InsertAccountAuth (w_exec w) db a = (Inr i, db')"
  shows "ok db'" "\<not> (\<exists>aa \<in> set (tab db TableNameAccountAuths). names le (aa_AuthType a) (aa_Identifier a) aa)"
    "tab db' = (tab db)(TableNameAccountAuths := tab db TableNameAccountAuths @
       [inserted conv dflt TableNameAccountAuths (account_auth_fields a) i])"
proof -
  have e: "InsertCtx (w_exec w) db TableNameAccountAuths (account_auth_fields a) = (Inr i, db')"
    using assms(2) by (simp add: InsertAccountAuth_def)
  show "ok db'" using wf_InsertCtx [OF assms(1), of TableNameAccountAuths "account_auth_fields a"] e by simp
  note i = InsertCtx_ok [OF assms(1) auth_tables(2) auth_fields_fine(2) e]
  show "tab db' = (tab db)(TableNameAccountAuths := tab db TableNameAccountAuths @
       [inserted conv dflt TableNameAccountAuths (account_auth_fields a) i])" by (rule i(4))
  show "\<not> (\<exists>aa \<in> set (tab db TableNameAccountAuths). names le (aa_AuthType a) (aa_Identifier a) aa)"
    using i(3) by (auto simp: conflicts_def auth_uniq same_key_def names_def same_text_def inserted_def account_auth_fields_def)
qed

lemma insert_account_ok:
  assumes "ok db" "InsertAccount (w_exec w) db a = (Inr i, db')"
  shows "ok db'" "tab db' = (tab db)(TableNameAccounts := tab db TableNameAccounts @
       [inserted conv dflt TableNameAccounts (account_fields a) i])"
proof -
  have e: "InsertCtx (w_exec w) db TableNameAccounts (account_fields a) = (Inr i, db')"
    using assms(2) by (simp add: InsertAccount_def)
  show "ok db'" using wf_InsertCtx [OF assms(1), of TableNameAccounts "account_fields a"] e by simp
  show "tab db' = (tab db)(TableNameAccounts := tab db TableNameAccounts @
       [inserted conv dflt TableNameAccounts (account_fields a) i])"
    by (rule InsertCtx_ok(4) [OF assms(1) auth_tables(1) auth_fields_fine(1) e])
qed

lemma rolled_back: "ok db \<Longrightarrow> ok (snd (w_rollback w db tx)) \<and> tab (snd (w_rollback w db tx)) = tab db"
  using tx_rollback [of db tx] by (cases "w_rollback w db tx") auto

lemma register_tx_atomic:
  assumes "ok db" "register_tx w db authRec account = (res, db')"
  shows "ok db' \<and> (isl res \<and> tab db' = tab db \<or> (\<exists>i j. tab db' = new_rows conv dflt authRec account i j (tab db)) \<and>
    \<not> (\<exists>aa \<in> set (tab db TableNameAccountAuths). names le (aa_AuthType authRec) (aa_Identifier authRec) aa))"
proof (cases "w_begin w db")
  case (Inl e)
  then show ?thesis using assms by (auto simp: register_tx_def)
next
  case (Inr tx)
  note b = tx_begin [OF assms(1) Inr]
  obtain r1 tx1 where 1: "InsertAccountAuth (w_exec w) tx authRec = (r1, tx1)" by fastforce
  show ?thesis
  proof (cases r1)
    case (Inl e)
    then show ?thesis using assms Inr 1 rolled_back [OF assms(1), of tx1] by (auto simp: register_tx_def)
  next
    case r1: (Inr i)
    note i = insert_auth_ok [OF _ 1 [unfolded r1]]
    obtain r2 tx2 where 2: "InsertAccount (w_exec w) tx1 account = (r2, tx2)" by fastforce
    show ?thesis
    proof (cases r2)
      case (Inl e)
      then show ?thesis using assms Inr 1 r1 2 rolled_back [OF assms(1), of tx2] by (auto simp: register_tx_def)
    next
      case r2: (Inr j)
      have tx2: "ok tx2" "tab tx2 = new_rows conv dflt authRec account i j (tab db)"
        using insert_account_ok [OF _ 2 [unfolded r2]] i b auth_tables(4) by (auto simp: new_rows_def)
      have free: "\<not> (\<exists>aa \<in> set (tab db TableNameAccountAuths). names le (aa_AuthType authRec) (aa_Identifier authRec) aa)"
        using i(2) b by auto
      obtain rc db1 where c: "w_commit w db tx2 = (rc, db1)" by fastforce
      show ?thesis
      proof (cases rc)
        case (Inl e)
        note l = tx_commit_lost [OF assms(1) tx2(1) c [unfolded Inl]]
        have "isl res" "db' = snd (w_rollback w db1 tx2)"
          using assms(2) \<open>w_begin w db = Inr tx\<close> 1 r1 2 r2 c Inl by (auto simp: register_tx_def)
        then show ?thesis using l rolled_back [of db1 tx2] tx2(2) free by auto
      next
        case (Inr u)
        then show ?thesis using assms(2) \<open>w_begin w db = Inr tx\<close> 1 r1 2 r2 c tx_commit [OF tx2(1), of db u db1] tx2(2) free
          by (auto simp: register_tx_def)
      qed
    qed
  qed
qed

lemma register_atomic:
  assumes "ok db" "Register w rd req db r = (res, db', r')"
  shows "ok db' \<and> (isl res \<and> tab db' = tab db \<or>
    (\<exists>authType salt i j. protoAuthTypeToString (rr_AuthType req) = Inr authType \<and> Salt (r_random rd) = Inr salt \<and>
       rr_Identifier req \<noteq> [] \<and> rr_Password req \<noteq> [] \<and>
       tab db' = new_rows conv dflt (register_auth (GenerateID (r_node rd)) authType (rr_Identifier req) (Unix rd))
         (register_account (GenerateID (r_node rd)) (Key (w_pbkdf2 w) salt (rr_Password req)) salt (Unix rd)) i j (tab db) \<and>
       \<not> (\<exists>aa \<in> set (tab db TableNameAccountAuths). names le authType (rr_Identifier req) aa)))"
proof (cases "protoAuthTypeToString (rr_AuthType req)")
  case (Inl st)
  then show ?thesis using assms by (auto simp: Register_def)
next
  case ty: (Inr authType)
  show ?thesis
  proof (cases "rr_Identifier req = [] \<or> rr_Password req = [] \<or> isl (Salt (r_random rd))")
    case True
    then show ?thesis using assms ty by (auto simp: Register_def isl_def split: if_splits)
  next
    case False
    then obtain salt where sa: "Salt (r_random rd) = Inr salt" by (cases "Salt (r_random rd)") auto
    let ?id = "GenerateID (r_node rd)"
    let ?au = "register_auth ?id authType (rr_Identifier req) (Unix rd)"
    let ?ac = "register_account ?id (Key (w_pbkdf2 w) salt (rr_Password req)) salt (Unix rd)"
    obtain res1 db1 where tx: "register_tx w db ?au ?ac = (res1, db1)" by fastforce
    have d: "db' = db1" "isl res1 \<Longrightarrow> isl res" using assms(2) ty False sa tx
      by (auto simp: Register_def split: sum.splits prod.splits)
    have n: "aa_AuthType ?au = authType" "aa_Identifier ?au = rr_Identifier req" by (simp_all add: register_auth_def)
    show ?thesis using register_tx_atomic [OF assms(1) tx] d ty sa False unfolding n by blast
  qed
qed

text \<open>The rows a registration added are what the join finds.\<close>

lemma registered_lookup:
  assumes "ok db" "tab db = new_rows conv dflt (register_auth acc authType idt now) (register_account acc h salt now) i j T"
    and "SelectAccountWithAuthByIdentifier (w_exec w) db authType idt = res"
  shows "res = Inr \<lparr>awa_AccountID = acc, awa_Role = ''user'', awa_Status = 1, awa_PasswordHash = h, awa_Salt = salt, awa_DeletedAt = 0\<rparr> \<or>
    (\<exists>e. res = Inl e \<and> e \<noteq> ErrNotFound)"
proof -
  let ?aa = "inserted conv dflt TableNameAccountAuths (account_auth_fields (register_auth acc authType idt now)) i"
  let ?a = "inserted conv dflt TableNameAccounts (account_fields (register_account acc h salt now)) j"
  have aa: "?aa \<in> set (tab db TableNameAccountAuths)" "?aa ''account_id'' = VStr acc" "?aa ''auth_type'' = VStr authType"
    "?aa ''identifier'' = VStr idt" "?aa ''status'' = VInt 1" "?aa ''deleted_at'' = VInt 0"
    using assms(2) auth_tables(4) by (auto simp: new_rows_def inserted_def account_auth_fields_def register_auth_def)
  have a: "?a \<in> set (tab db TableNameAccounts)" "?a ''account_id'' = VStr acc" "?a ''role'' = VStr ''user''"
    "?a ''status'' = VInt 1" "?a ''password_hash'' = VStr h" "?a ''salt'' = VStr salt" "?a ''deleted_at'' = VInt 0"
    using assms(2) by (auto simp: new_rows_def inserted_def account_fields_def register_account_def)
  have m: "join_match le authType idt ?a ?aa" using a(2,7) aa(2-6) unfolding join_match_def by simp
  have u: "x = ?a" if x: "x \<in> set (tab db TableNameAccounts)" "y \<in> set (tab db TableNameAccountAuths)" "join_match le authType idt x y" for x y
  proof -
    have "y = ?aa" using x(3) aa(3,4) by (intro auth_unique [OF assms(1) x(2) aa(1)]) (auto simp: join_match_def)
    then show ?thesis using x(3) a(2) aa(2) by (intro account_unique [OF assms(1) x(1) a(1)]) (auto simp: join_match_def)
  qed
  have w: "with_auth_of ?a = \<lparr>awa_AccountID = acc, awa_Role = ''user'', awa_Status = 1, awa_PasswordHash = h, awa_Salt = salt, awa_DeletedAt = 0\<rparr>"
    using a(2-7) by (simp add: with_auth_of_def)
  show ?thesis using login_lookup [OF assms(1,3)] u m a(1) aa(1) w by metis
qed

text \<open>A login past the locks is decided by the row it finds.\<close>

lemma login_cases:
  assumes "Login w rd req db r = (res, db', r')" "protoAuthTypeToString (lr_AuthType req) = Inr authType"
    and "lr_Identifier req \<noteq> []" "lr_Password req \<noteq> []"
  shows "(\<exists>st. res = Inl st \<and> status_code st \<in> {ResourceExhausted, Internal} \<and> db' = db) \<or>
    (case SelectAccountWithAuthByIdentifier (w_exec w) db authType (lr_Identifier req) of
       Inl e \<Rightarrow> e = ErrNotFound \<and> res = Inl (Status NotFound ''account not found'')
     | Inr account \<Rightarrow>
         (if awa_Status account \<noteq> 1 then res = Inl (Status PermissionDenied ''account is frozen or inactive'')
          else if Key (w_pbkdf2 w) (awa_Salt account) (lr_Password req) \<noteq> awa_PasswordHash account
          then res = Inl (Status Unauthenticated ''invalid password'')
          else \<exists>tp r1. res = Inr tp \<and> issue_tokens w rd (awa_AccountID account) (awa_Role account) r1 = (Inr tp, r')))"
proof -
  have err: "status_code st \<in> {ResourceExhausted, Internal}" if "issue_tokens w rd a ro r1 = (Inl st, r2)" for a ro r1 st r2
    using that by (auto simp: issue_tokens_def with_token_def panic_status_def split: option.splits sum.splits prod.splits)
  obtain g1 r1 where g1: "ip_gate w (lr_IpAddress req) r = (g1, r1)" by fastforce
  obtain g2 r2 where g2: "lock_gate w (lr_Identifier req) r1 = (g2, r2)" by fastforce
  have c1: "status_code st = ResourceExhausted" if "g1 = Some st" for st
    using g1 that by (auto simp: ip_gate_def locked_status_def split: if_splits sum.splits prod.splits)
  have c2: "status_code st \<in> {ResourceExhausted, Internal}" if "g2 = Some st" for st
    using g2 that by (auto simp: lock_gate_def locked_status_def split: if_splits sum.splits prod.splits)
  show ?thesis
  proof (cases "g1 = None \<and> g2 = None")
    case False
    then show ?thesis using assms g1 g2 c1 c2 by (cases g1; cases g2) (auto simp: Login_def)
  next
    case True
    note L = assms(1) [unfolded Login_def assms(2) sum.case if_not_P [OF assms(3)] if_not_P [OF assms(4)] g1 conjunct1 [OF True] prod.case option.case
        g2 conjunct2 [OF True]]
    show ?thesis
    proof (cases "SelectAccountWithAuthByIdentifier (w_exec w) db authType (lr_Identifier req)")
      case (Inl e)
      then show ?thesis using L by (auto split: if_splits)
    next
      case (Inr a)
      obtain ro r3 where t: "issue_tokens w rd (awa_AccountID a) (awa_Role a) (reset_attempts w req r2) = (ro, r3)" by fastforce
      show ?thesis
      proof (cases ro)
        case (Inl st)
        then show ?thesis using L Inr t err [of "awa_AccountID a" "awa_Role a" "reset_attempts w req r2" st r3] by (auto split: if_splits)
      next
        case (Inr tp)
        then show ?thesis using L \<open>SelectAccountWithAuthByIdentifier _ _ _ _ = _\<close> t by (auto split: if_splits)
      qed
    qed
  qed
qed

lemma deleteCtx_ok:
  assumes "ok db" "word_ok t" "list_all simple_cond cs" "DeleteCtx (w_exec w) db t cs = (Inr n, db')"
  shows "ok db'" "tab db' = (tab db)(t := filter (\<lambda>r. \<not> list_all (cond_holds le r) cs) (tab db t))"
proof -
  obtain i where e: "ExecContext (w_exec w) db (delete_sql t cs) (where_args cs) = (Inr (i, n), db')"
    using assms(2,4) by (auto simp: DeleteCtx_def split: prod.splits sum.splits)
  show "ok db'" by (rule wf_step [OF assms(1) e])
  show "tab db' = (tab db)(t := filter (\<lambda>r. \<not> list_all (cond_holds le r) cs) (tab db t))"
    using exec_delete [OF assms(1) parse_delete_sql [OF assms(2,3)] e]
    by (simp add: delete_effect_def wmatch_fun [OF assms(3)])
qed

text \<open>Updating the account's live row.\<close>

lemma update_account_ok:
  assumes "ok db" "fields_fine fs" "UpdateCtx (w_exec w) db TableNameAccounts fs (by_account acc) = (Inr n, db')"
  shows "ok db'" "tab db' = (tab db)(TableNameAccounts :=
     map (\<lambda>x. if live_account le acc x then updated conv TableNameAccounts fs x else x) (tab db TableNameAccounts))"
proof -
  show "ok db'" using wf_UpdateCtx [OF assms(1), of TableNameAccounts fs "by_account acc"] assms(3) by simp
  show "tab db' = (tab db)(TableNameAccounts :=
     map (\<lambda>x. if live_account le acc x then updated conv TableNameAccounts fs x else x) (tab db TableNameAccounts))"
    using UpdateCtx_ok(1) [OF assms(1) auth_tables(1) assms(2) by_account_simple assms(3)] account_match [OF assms(1), of _ acc]
    by (auto cong: map_cong)
qed

lemma update_password_ok:
  assumes "ok db" "UpdatePassword w rd req db r = (Inr u, db', r')"
  shows "\<exists>account salt. SelectAccountByAccountID (w_exec w) db (up_AccountId req) = Inr account \<and> acc_Status account = 1 \<and>
    Key (w_pbkdf2 w) (acc_Salt account) (up_OldPassword req) = acc_PasswordHash account \<and> ok db' \<and>
    tab db' = (tab db)(TableNameAccounts := map (\<lambda>x. if live_account le (up_AccountId req) x then
        updated conv TableNameAccounts [(''password_hash'', VStr (Key (w_pbkdf2 w) salt (up_NewPassword req))), (''salt'', VStr salt)] x
        else x) (tab db TableNameAccounts)) \<and>
    StateTokenWithRevokeAll (w_redis w) (up_AccountId req) r = (Inr (), r')"
proof -
  obtain account salt n where e: "SelectAccountByAccountID (w_exec w) db (up_AccountId req) = Inr account" "acc_Status account = 1"
    "Key (w_pbkdf2 w) (acc_Salt account) (up_OldPassword req) = acc_PasswordHash account"
    "UpdateAccountPassword (w_exec w) db (up_AccountId req) (Key (w_pbkdf2 w) salt (up_NewPassword req)) salt = (Inr n, db')"
    "StateTokenWithRevokeAll (w_redis w) (up_AccountId req) r = (Inr (), r')"
    using assms(2) unfolding UpdatePassword_def by (auto split: if_splits sum.splits prod.splits)
  have f: "fields_fine [(''password_hash'', VStr x), (''salt'', VStr y)]" for x y by (simp add: fields_fine_def name_defs)
  show ?thesis using update_account_ok [OF assms(1) f e(4) [unfolded UpdateAccountPassword_def by_account_def [symmetric]]] e by blast
qed

lemma joined_row:
  assumes "ok db" "SelectAccountWithAuthByIdentifier (w_exec w) db authType idt = Inr a"
  shows "\<exists>x \<in> set (tab db TableNameAccounts). \<exists>y \<in> set (tab db TableNameAccountAuths). join_match le authType idt x y \<and>
    a = with_auth_of x \<and> x ''account_id'' = VStr (awa_AccountID a) \<and> x ''deleted_at'' = VInt 0"
proof -
  obtain x y where x: "x \<in> set (tab db TableNameAccounts)" "y \<in> set (tab db TableNameAccountAuths)" "join_match le authType idt x y"
    "a = with_auth_of x" using login_lookup [OF assms] by auto
  then show ?thesis using typed_col [OF wf_typed [OF assms(1) x(1)] account_types(1)]
    by (intro bexI [of _ x] bexI [of _ y]) (auto simp: has_type_text with_auth_of_def join_match_def)
qed

lemma password_replaced:
  assumes "ok db" "UpdatePassword w rd req db r = (Inr u, db', r')"
    and "SelectAccountWithAuthByIdentifier (w_exec w) db' authType idt = Inr a" "awa_AccountID a = up_AccountId req"
  shows "awa_PasswordHash a = Key (w_pbkdf2 w) (awa_Salt a) (up_NewPassword req)"
proof -
  obtain salt where u: "ok db'" "tab db' = (tab db)(TableNameAccounts := map (\<lambda>x. if live_account le (up_AccountId req) x then
      updated conv TableNameAccounts [(''password_hash'', VStr (Key (w_pbkdf2 w) salt (up_NewPassword req))), (''salt'', VStr salt)] x
      else x) (tab db TableNameAccounts))" using update_password_ok [OF assms(1,2)] by blast
  obtain x where x: "x \<in> set (tab db' TableNameAccounts)" "a = with_auth_of x" "x ''account_id'' = VStr (up_AccountId req)"
    "x ''deleted_at'' = VInt 0" using joined_row [OF u(1) assms(3)] assms(4) by auto
  then have "live_account le (up_AccountId req) x" by (simp add: live_account_def owned_def)
  with x(1) u(2) obtain y where "x = updated conv TableNameAccounts
      [(''password_hash'', VStr (Key (w_pbkdf2 w) salt (up_NewPassword req))), (''salt'', VStr salt)] y" by (auto split: if_splits)
  then show ?thesis using x(2) by (simp add: with_auth_of_def updated_def)
qed

lemma delete_account_ok:
  assumes "ok db" "DeleteAccount w rd acc pw db r = (Inr u, db', r')"
  shows "ok db'" "tab db' = (tab db)(TableNameAccounts := map (\<lambda>x. if live_account le acc x then
       updated conv TableNameAccounts [(''deleted_at'', VInt (Unix rd)), (''status'', VInt 0)] x else x) (tab db TableNameAccounts),
     TableNameAccountAuths := filter (\<lambda>x. \<not> owned le acc x) (tab db TableNameAccountAuths))"
    "StateTokenWithRevokeAll (w_redis w) acc r = (Inr (), r')"
proof -
  obtain n db1 m where e: "SoftDeleteAccountByAccountID (w_exec w) db acc (Unix rd) = (Inr n, db1)"
    "DeleteAccountAuthsByAccountID (w_exec w) db1 acc = (Inr m, db')" "StateTokenWithRevokeAll (w_redis w) acc r = (Inr (), r')"
    using assms(2) unfolding DeleteAccount_def by (auto split: if_splits sum.splits prod.splits)
  have f: "fields_fine [(''deleted_at'', VInt x), (''status'', VInt 0)]" for x by (simp add: fields_fine_def name_defs)
  note s = update_account_ok [OF assms(1) f e(1) [unfolded SoftDeleteAccountByAccountID_def by_account_def [symmetric]]]
  have c: "list_all simple_cond [WithEq ''account_id'' (VStr acc)]" by (simp add: WithEq_def name_defs)
  note d = deleteCtx_ok [OF s(1) auth_tables(2) c e(2) [unfolded DeleteAccountAuthsByAccountID_def]]
  show "ok db'" by (rule d(1))
  show "tab db' = (tab db)(TableNameAccounts := map (\<lambda>x. if live_account le acc x then
       updated conv TableNameAccounts [(''deleted_at'', VInt (Unix rd)), (''status'', VInt 0)] x else x) (tab db TableNameAccounts),
     TableNameAccountAuths := filter (\<lambda>x. \<not> owned le acc x) (tab db TableNameAccountAuths))"
    using auth_tables(4) unfolding d(2) s(2) by (simp add: WithEq_def owned_def)
  show "StateTokenWithRevokeAll (w_redis w) acc r = (Inr (), r')" by (rule e(3))
qed

lemma text_trans: "same_text le (VStr s) t \<Longrightarrow> same_text le (VStr s') t \<Longrightarrow> le (VStr s) (VStr s') \<and> le (VStr s') (VStr s)"
  using le_text_trans unfolding same_text_def by blast

lemma deleted_not_found:
  assumes "ok db" "DeleteAccount w rd acc pw db r = (Inr u, db', r')"
    and "aa \<in> set (tab db TableNameAccountAuths)" "owned le acc aa" "names le authType idt aa"
  shows "\<nexists>a. SelectAccountWithAuthByIdentifier (w_exec w) db' authType idt = Inr a"
proof
  note d = delete_account_ok [OF assms(1,2)]
  assume "\<exists>a. SelectAccountWithAuthByIdentifier (w_exec w) db' authType idt = Inr a"
  then obtain x y where y: "y \<in> set (tab db' TableNameAccountAuths)" "join_match le authType idt x y"
    using joined_row [OF d(1)] by blast
  have y': "y \<in> set (tab db TableNameAccountAuths)" "\<not> owned le acc y" using y(1) d(2) by auto
  obtain s s' where s: "aa ''auth_type'' = VStr s" "y ''auth_type'' = VStr s'"
    using typed_col [OF wf_typed [OF assms(1)] auth_types(2)] assms(3) y'(1) unfolding has_type_text by blast
  obtain i i' where i: "aa ''identifier'' = VStr i" "y ''identifier'' = VStr i'"
    using typed_col [OF wf_typed [OF assms(1)] auth_types(3)] assms(3) y'(1) unfolding has_type_text by blast
  have "names le authType idt y" using y(2) by (simp add: join_match_def names_def same_text_def)
  then have "aa = y" using assms(5) s i text_trans [of s authType s'] text_trans [of i idt i']
    by (intro auth_unique [OF assms(1) assms(3) y'(1)]) (auto simp: names_def)
  then show False using y'(2) assms(4) by simp
qed

lemma delete_leaves_others:
  assumes "ok db" "DeleteAccount w rd acc pw db r = (Inr u, db', r')"
  shows "foreign le acc (tab db') = foreign le acc (tab db)"
proof -
  note d = delete_account_ok(2) [OF assms]
  let ?T = "(tab db)(TableNameAccounts := map (\<lambda>x. if live_account le acc x then
       updated conv TableNameAccounts [(''deleted_at'', VInt (Unix rd)), (''status'', VInt 0)] x else x) (tab db TableNameAccounts))"
  have "foreign le acc ?T = foreign le acc (tab db)" by (rule foreign_update) (auto simp: live_account_def)
  moreover have "foreign le acc (?T(TableNameAccountAuths := filter (\<lambda>x. \<not> owned le acc x) (?T TableNameAccountAuths))) = foreign le acc ?T"
    by (rule ext) (simp add: foreign_def)
  ultimately show ?thesis using auth_tables(4) unfolding d by simp
qed

lemma delete_kills_row:
  assumes "ok db" "DeleteAccount w rd acc pw db r = (Inr u, db', r')" "Unix rd \<noteq> 0"
  shows "\<not> (\<exists>x \<in> set (tab db' TableNameAccounts). live_account le acc x)"
  using delete_account_ok(2) [OF assms(1,2)] assms(3) auth_tables(4) by (auto simp: live_account_def updated_def)

end

section \<open>Tokens\<close>

context redis
begin

lemma HLen_listed:
  assumes "redisHLenFn client (akey a) s = (Inr n, s')" "n \<noteq> 0"
  shows "hash_tokens (view s') a \<noteq> {}"
proof -
  have "client s (HLen (akey a)) = (Inr (RInt n), s')" using as_value(1) assms(1) by (simp add: redisHLenFn_def)
  from answered [OF this] obtain t where t: "redis_answer (HLen (akey a)) (at_time t (view s)) (Inr (RInt n))"
    "view s' = redis_effect (HLen (akey a)) (at_time t (view s))" by blast
  have v: "view s' = at_time t (view s)" using t(2) by (simp add: redis_effect_def)
  show ?thesis using t(1) assms(2) unfolding v
    by (auto simp: redis_answer_def redis_reply_def hash_tokens_def split: option.splits rval.splits)
qed

lemma count_live:
  assumes "StateTokenWithCount client a s = (Inr n, s')" "n \<noteq> 0"
  shows "live (view s) a \<noteq> {}"
proof -
  from assms(1) obtain s1 where e: "stateTokenWithCleanExpires client a s = (Inr (), s1)"
    "redisHLenFn client (akey a) s1 = (Inr n, s')" by (auto simp: StateTokenWithCount_def rdo_ok)
  show ?thesis using count_ok(2) [OF assms(1)] HLen_listed [OF e(2) assms(2)] by blast
qed

lemma Get_gone:
  assumes "redisGetFn client k s = (res, s')" "rv_keys (view s) k = None"
  shows "\<exists>e. res = Inl e"
proof (cases res)
  case (Inr x)
  then have "client s (Get k) = (Inr (RBulk x), s')" using as_value(2) assms(1) by (simp add: redisGetFn_def)
  from answered [OF this] obtain t where "redis_answer (Get k) (at_time t (view s)) (Inr (RBulk x))" by blast
  then show ?thesis using assms(2) by (simp add: redis_answer_def redis_reply_def at_time_def)
qed blast

end

text \<open>A rotation that the service reports as successful spent the token it was given.\<close>

lemma refresh_ok:
  assumes "RefreshToken w rd refreshToken r = (Inr tp, r')" "StateTokenWithParseJwtToken refreshToken = Inr old"
  shows "\<exists>new acc val r1. StateTokenWithRenew (w_redis w) old new acc val (RefreshTokenExpire (w_cfg w)) r1 = (Inr (), r')"
proof -
  have "refreshToken \<noteq> []" using assms(1) by (auto simp: RefreshToken_def)
  then show ?thesis using assms
    by (auto simp: RefreshToken_def with_token_def Let_def split: sum.splits prod.splits option.splits)
qed

lemma refresh_refused:
  assumes "RefreshToken w rd refreshToken r = (res, r')" "StateTokenWithParseJwtToken refreshToken = Inr old" "refreshToken \<noteq> []"
    and "redisGetFn (w_redis w) (tkey old) r = (Inl e, r1)"
  shows "\<exists>st. res = Inl st \<and> status_code st \<in> {Unauthenticated, Internal}"
  using assms by (auto simp: RefreshToken_def tokenPrefix_def split: if_splits)

end
