(* ===== verification/AuthProps.thy ===== *)
theory AuthProps
  imports AuthRules
begin

text \<open>
  What the auth service guarantees: registration is all or nothing and leads to an account that can
  log in, a login is granted only for the right password and its token names the account for as long as it
  lives, a changed password replaces the old one, a deleted account is gone for good, tokens are accepted
  only when they are signed, in time and backed by a session, and a refresh token works once.
\<close>

section \<open>A service to run\<close>

text \<open>The reference database, the in-memory Redis, the plain-text tokens, and a key derivation that
  keeps salt and password.\<close>

definition demo_cfg :: AuthConfig where
  "demo_cfg = \<lparr>AccessTokenExpire = 3600 * second, RefreshTokenExpire = 86400 * second, cfg_SigningKey = ''k'',
     MaxLoginAttempts = 3, LoginLockDuration = 900 * second, MaxIPLoginAttempts = 10, IPLoginLockDuration = 60 * second\<rparr>"

definition demo_world :: "(refdb, rview) world" where
  "demo_world = \<lparr>w_exec = ref_auth_exec, w_begin = ref_begin, w_commit = ref_commit_tx, w_rollback = ref_rollback,
     w_redis = mem_client, w_jwt = plain_jwt, w_pbkdf2 = (\<lambda>pw salt n k. map of_char (salt @ '':'' @ pw)),
     w_SigningKey = ''k'', w_cfg = demo_cfg\<rparr>"

interpretation demo: auth_world demo_world ref_wf rd_tabs ref_le ref_conv ref_dflt
  using refauth.auth_store_axioms by (simp add: auth_world_def demo_world_def)

lemma demo_parts [simp]:
  "w_exec demo_world = ref_auth_exec" "w_begin demo_world = ref_begin" "w_commit demo_world = ref_commit_tx"
  "w_rollback demo_world = ref_rollback" "w_redis demo_world = mem_client" "w_jwt demo_world = plain_jwt"
  "w_SigningKey demo_world = ''k''" "w_cfg demo_world = demo_cfg"
  by (simp_all add: demo_world_def)

definition demo_reading :: reading where
  "demo_reading = \<lparr>r_now = 5 * second, r_random = Inr [1, 2], r_node = 7\<rparr>"

definition demo_hash :: "string \<Rightarrow> string" where
  "demo_hash pw = Key (w_pbkdf2 demo_world) ''0102'' pw"

definition demo_id :: string where
  "demo_id = ''0000000000000000007''"

definition demo_db :: "refdb" where
  "demo_db = \<lparr>rd_tabs = new_rows ref_conv ref_dflt (register_auth demo_id ''email'' ''a@b'' 5)
      (register_account demo_id (demo_hash ''pw'') ''0102'' 5) 1 2 (\<lambda>_. []), rd_next = 3\<rparr>"

lemma demo_salt: "Salt (r_random demo_reading) = Inr ''0102''"
  by code_simp

lemma demo_generate: "GenerateID (r_node demo_reading) = demo_id"
  by code_simp

lemma demo_unix: "Unix demo_reading = 5"
  by code_simp

lemma ref_insert_free:
  assumes "word_ok t" "fields_fine fs"
    and "rows_ok (rd_next db + 1) t (rd_tabs db t @ [inserted ref_conv ref_dflt t fs (rd_next db)])"
    and "\<not> conflicts ref_le (uniq_of t) (rd_tabs db t) (inserted ref_conv ref_dflt t fs (rd_next db))"
  shows "InsertCtx ref_auth_exec db t fs = (Inr (rd_next db),
    \<lparr>rd_tabs = (rd_tabs db)(t := rd_tabs db t @ [inserted ref_conv ref_dflt t fs (rd_next db)]), rd_next = rd_next db + 1\<rparr>)"
proof -
  have fs: "fs \<noteq> []" "\<forall>kv \<in> set fs. word_ok (fst kv)" using assms(2) by (auto simp: fields_fine_def list_all_iff)
  have "ExecContext ref_exec db (insert_sql t fs) (map snd fs) = (Inr (rd_next db, 1),
    \<lparr>rd_tabs = (rd_tabs db)(t := rd_tabs db t @ [inserted ref_conv ref_dflt t fs (rd_next db)]), rd_next = rd_next db + 1\<rparr>)"
    using assms(3,4) parse_insert_sql [OF assms(1) fs]
    by (simp add: ref_exec_def ref_stmt_def ref_commit_def zip_map_fst_snd Let_def)
  then show ?thesis using assms(1) fs(1) by (simp add: InsertCtx_def ref_auth_simps)
qed

lemma demo_rows: "rows_ok 2 TableNameAccountAuths (rd_tabs demo_db TableNameAccountAuths)"
  "rows_ok 3 TableNameAccounts (rd_tabs demo_db TableNameAccounts)"
  by code_simp+

lemma demo_wf: "ref_wf demo_db"
proof -
  have "rows_ok 3 t (rd_tabs demo_db t)" for t
  proof (cases "t = TableNameAccountAuths \<or> t = TableNameAccounts")
    case True
    then show ?thesis using demo_rows rows_ok_mono [OF demo_rows(1), of 3] by auto
  next
    case False
    then show ?thesis by (simp add: demo_db_def new_rows_def rows_ok_def keys_ok_def uniq_ok_def list_all_iff)
  qed
  then show ?thesis by (simp add: ref_wf_def demo_db_def)
qed

lemma mem_renew_first:
  assumes "h \<noteq> []" "acc \<noteq> []" "digest h"
  shows "fst (StateTokenWithRenew mem_client [] h acc val d mem_empty) = Inr ()"
proof -
  have "akey acc \<noteq> tkey h" using tkey_akey [OF assms(3), of acc] by auto
  then show ?thesis using assms
    by (simp add: StateTokenWithRenew_def StateTokenWithCount_def stateTokenWithCleanExpires_def rdo_def rret_def mem_client_def Let_def
        redisHGetAllFn_def redisHLenFn_def redisSetFn_def redisHSetFn_def redis_reply_def redis_effect_def at_time_def mem_empty_def
        as_int_def as_ok_def as_map_def set_key_def TokenLimitPerAccount_def)
qed

lemma demo_issue:
  assumes "acc \<noteq> []"
  shows "\<exists>tp r'. issue_tokens demo_world rd acc role mem_empty = (Inr tp, r')"
proof -
  have t: "\<exists>x. JwtWithCreateToken plain_jwt ''k'' n a ro dur = Some (Inr x)" for n a ro dur
    by (simp add: JwtWithCreateToken_def plain_jwt_def plain_sign_def)
  obtain x y where xy: "JwtWithCreateToken plain_jwt ''k'' (r_now rd) acc role (AccessTokenExpire demo_cfg) = Some (Inr x)"
    "JwtWithCreateToken plain_jwt ''k'' (r_now rd) acc role (RefreshTokenExpire demo_cfg) = Some (Inr y)" using t by blast
  obtain h where h: "StateTokenWithParseJwtToken y = Inr h" by (simp add: StateTokenWithParseJwtToken_def)
  have d: "digest h" by (rule parse_digest [OF h])
  obtain s where "StateTokenWithRenew mem_client [] h acc (acc @ '':'' @ role) (RefreshTokenExpire demo_cfg) mem_empty = (Inr (), s)"
    using mem_renew_first [OF _ assms d] d by (metis digest_def prod.collapse)
  then show ?thesis using xy h by (simp add: issue_tokens_def with_token_def)
qed

definition demo_request :: RegisterRequest where
  "demo_request = \<lparr>rr_AuthType = 1, rr_Identifier = ''a@b'', rr_Password = ''pw''\<rparr>"

lemma demo_register: "\<exists>tp r'. Register demo_world demo_reading demo_request ref_empty mem_empty = (Inr tp, demo_db, r')"
proof -
  let ?au = "register_auth demo_id ''email'' ''a@b'' 5"
  let ?ac = "register_account demo_id (demo_hash ''pw'') ''0102'' 5"
  let ?db1 = "\<lparr>rd_tabs = (\<lambda>_. [])(TableNameAccountAuths := rd_tabs demo_db TableNameAccountAuths), rd_next = 2\<rparr>"
  have r1: "rd_tabs demo_db TableNameAccountAuths = [inserted ref_conv ref_dflt TableNameAccountAuths (account_auth_fields ?au) 1]"
    "rd_tabs demo_db TableNameAccounts = [inserted ref_conv ref_dflt TableNameAccounts (account_fields ?ac) 2]"
    using auth_tables(4) by (simp_all add: demo_db_def new_rows_def)
  have i1: "InsertAccountAuth ref_auth_exec ref_empty ?au = (Inr 1, ?db1)"
    using ref_insert_free [OF auth_tables(2) auth_fields_fine(2), of ref_empty ?au] demo_rows(1)
    by (simp add: InsertAccountAuth_def r1 ref_empty_def conflicts_def)
  have d: "\<lparr>rd_tabs = (rd_tabs ?db1)(TableNameAccounts := rd_tabs demo_db TableNameAccounts), rd_next = 3\<rparr> = demo_db"
    using r1 by (auto simp: demo_db_def new_rows_def fun_upd_def)
  have i2: "InsertAccount ref_auth_exec ?db1 ?ac = (Inr 2, demo_db)"
    using ref_insert_free [OF auth_tables(1) auth_fields_fine(1), of ?db1 ?ac] demo_rows(2) auth_tables(4) d
    by (simp add: InsertAccount_def r1 conflicts_def)
  have tx: "register_tx demo_world ref_empty ?au ?ac = (Inr (), demo_db)"
    using i1 i2 by (simp add: register_tx_def ref_begin_def ref_commit_tx_def)
  obtain tp r' where t: "issue_tokens demo_world demo_reading demo_id ''user'' mem_empty = (Inr tp, r')"
    using demo_issue [of demo_id demo_reading "''user''"] by (auto simp: demo_id_def)
  show ?thesis using tx t
    by (simp add: Register_def demo_request_def demo_salt demo_generate demo_unix protoAuthTypeToString_def demo_hash_def)
qed

section \<open>Properties\<close>

text \<open>C12. Registration is all or nothing: whatever fails (a statement, the commit, Redis, the token
  library), \<open>Register\<close> leaves the tables as they were or with exactly the two rows of the new account and
  its identifier, hashed with the fresh salt; it succeeds only in the second case, and that case
  requires that nobody has the identifier yet.\<close>

theorem register_all_or_nothing:
  assumes "auth_world w ok tab le conv dflt" "ok db" "Register w rd req db r = (res, db', r')"
  shows "isl res \<and> tab db' = tab db \<or>
    (\<exists>authType salt i j. protoAuthTypeToString (rr_AuthType req) = Inr authType \<and> Salt (r_random rd) = Inr salt \<and>
       rr_Identifier req \<noteq> [] \<and> rr_Password req \<noteq> [] \<and>
       tab db' = new_rows conv dflt (register_auth (GenerateID (r_node rd)) authType (rr_Identifier req) (Unix rd))
         (register_account (GenerateID (r_node rd)) (Key (w_pbkdf2 w) salt (rr_Password req)) salt (Unix rd)) i j (tab db) \<and>
       \<not> (\<exists>aa \<in> set (tab db TableNameAccountAuths). names le authType (rr_Identifier req) aa))"
  using auth_world.register_atomic [OF assms] by blast

theorem register_all_or_nothing_witness:
  "\<exists>db' r' tp salt i j. Register demo_world demo_reading demo_request ref_empty mem_empty = (Inr tp, db', r') \<and>
     rd_tabs db' = new_rows ref_conv ref_dflt (register_auth demo_id ''email'' ''a@b'' 5)
       (register_account demo_id (Key (w_pbkdf2 demo_world) salt ''pw'') salt 5) i j (rd_tabs ref_empty)"
proof -
  obtain tp r' where d: "Register demo_world demo_reading demo_request ref_empty mem_empty = (Inr tp, demo_db, r')"
    using demo_register by blast
  have p: "rr_AuthType demo_request = 1" "rr_Identifier demo_request = ''a@b''" "rr_Password demo_request = ''pw''"
    by (simp_all add: demo_request_def)
  show ?thesis
    using register_all_or_nothing [OF demo.auth_world_axioms ref_empty_wf d, unfolded p demo_generate demo_unix] d
    by (auto simp: protoAuthTypeToString_def)
qed

text \<open>C13. Who registers can log in: a login with the credentials just registered, from whatever address
  and with Redis in whatever state, is never answered that the account is unknown, frozen or the
  password wrong. It gets tokens for the new account, or it is locked out or runs into an error of the
  database, Redis or the token library.\<close>

theorem register_then_login:
  assumes "auth_world w ok tab le conv dflt" "ok db" "Register w rd req db r = (Inr tp, db1, r1)"
    and "Login w rd' \<lparr>lr_AuthType = rr_AuthType req, lr_Identifier = rr_Identifier req, lr_Password = rr_Password req,
      lr_IpAddress = ip, lr_UserAgent = ua\<rparr> db1 r2 = (res, db2, r3)"
  shows "(\<exists>tp' r'. res = Inr tp' \<and> issue_tokens w rd' (GenerateID (r_node rd)) ''user'' r' = (Inr tp', r3)) \<or>
    (\<exists>st. res = Inl st \<and> status_code st \<in> {ResourceExhausted, Internal})"
proof -
  obtain authType salt i j where g: "ok db1" "protoAuthTypeToString (rr_AuthType req) = Inr authType" "rr_Identifier req \<noteq> []"
    "rr_Password req \<noteq> []" "tab db1 = new_rows conv dflt (register_auth (GenerateID (r_node rd)) authType (rr_Identifier req) (Unix rd))
         (register_account (GenerateID (r_node rd)) (Key (w_pbkdf2 w) salt (rr_Password req)) salt (Unix rd)) i j (tab db)"
    using auth_world.register_atomic [OF assms(1-3)] by auto
  have "\<exists>a. SelectAccountWithAuthByIdentifier (w_exec w) db1 authType (rr_Identifier req) = Inr a \<and> awa_AccountID a = GenerateID (r_node rd) \<and>
      awa_Role a = ''user'' \<and> awa_Status a = 1 \<and> Key (w_pbkdf2 w) (awa_Salt a) (rr_Password req) = awa_PasswordHash a \<or>
    (\<exists>e. SelectAccountWithAuthByIdentifier (w_exec w) db1 authType (rr_Identifier req) = Inl e \<and> e \<noteq> ErrNotFound)"
    using auth_world.registered_lookup [OF assms(1) g(1,5) refl] by auto
  then show ?thesis using auth_world.login_cases [OF assms(1,4)] g by auto
qed

lemma ref_lookup_answers:
  assumes "ref_wf db" "SelectAccountWithAuthByIdentifier ref_auth_exec db ty i = Inl e" shows "e = ErrNotFound"
proof -
  have s: "no_rows (row_scan scanAccountWithAuth (ref_join db [VStr ty, VStr i])) = Inl e"
    using assms(2) by (simp add: SelectAccountWithAuthByIdentifier_def ref_auth_simps)
  show ?thesis
  proof (cases "ref_join db [VStr ty, VStr i]")
    case None
    then show ?thesis using s by (simp add: row_scan_def no_rows_def)
  next
    case (Some vs)
    then obtain x where "x \<in> set (rd_tabs db TableNameAccounts)" "vs = proj join_columns x"
      using ref_join_ok [of db ty i] by (auto simp: join_result_def)
    then show ?thesis using s Some scanAccountWithAuth_typed [OF refdb.wf_typed [OF assms(1)], of x] by (simp add: row_scan_def no_rows_def)
  qed
qed

lemma ref_join_demo:
  "SelectAccountWithAuthByIdentifier ref_auth_exec demo_db ''email'' ''a@b'' =
     Inr \<lparr>awa_AccountID = demo_id, awa_Role = ''user'', awa_Status = 1, awa_PasswordHash = demo_hash ''pw'', awa_Salt = ''0102'', awa_DeletedAt = 0\<rparr>"
proof -
  have "rd_tabs demo_db = new_rows ref_conv ref_dflt (register_auth demo_id ''email'' ''a@b'' 5)
      (register_account demo_id (demo_hash ''pw'') ''0102'' 5) 1 2 (\<lambda>_. [])" by (simp add: demo_db_def)
  from demo.registered_lookup [OF demo_wf this refl] show ?thesis using ref_lookup_answers [OF demo_wf] by auto
qed

definition demo_login :: LoginRequest where
  "demo_login = \<lparr>lr_AuthType = 1, lr_Identifier = ''a@b'', lr_Password = ''pw'', lr_IpAddress = [], lr_UserAgent = []\<rparr>"

lemma demo_logs_in: "\<exists>tp db' r'. Login demo_world demo_reading demo_login demo_db mem_empty = (Inr tp, db', r')"
proof -
  have k: "Key (w_pbkdf2 demo_world) ''0102'' ''pw'' = demo_hash ''pw''" by (simp add: demo_hash_def)
  have l: "lock_gate demo_world ''a@b'' mem_empty = (None, mem_empty)" "ip_gate demo_world [] mem_empty = (None, mem_empty)"
    by (simp_all add: lock_gate_def ip_gate_def redisTTLFn_def mem_client_def Let_def redis_reply_def redis_effect_def ttl_reply_def
        as_int_def at_time_def mem_empty_def)
  have r: "reset_attempts demo_world demo_login mem_empty = mem_empty"
    by (simp add: reset_attempts_def redisDelFn_def mem_client_def Let_def redis_reply_def redis_effect_def as_int_def at_time_def
        mem_empty_def demo_login_def fun_eq_iff)
  obtain tp r' where t: "issue_tokens demo_world demo_reading demo_id ''user'' mem_empty = (Inr tp, r')"
    using demo_issue [of demo_id demo_reading "''user''"] by (auto simp: demo_id_def)
  have p: "lr_AuthType demo_login = 1" "lr_Identifier demo_login = ''a@b''" "lr_Password demo_login = ''pw''" "lr_IpAddress demo_login = []"
    by (simp_all add: demo_login_def)
  show ?thesis using t by (simp add: Login_def p l r ref_join_demo k protoAuthTypeToString_def)
qed

theorem register_then_login_witness:
  "\<exists>tp tp' db2 r3 r1 r'. Register demo_world demo_reading demo_request ref_empty mem_empty = (Inr tp, demo_db, r1) \<and>
     Login demo_world demo_reading demo_login demo_db mem_empty = (Inr tp', db2, r3) \<and>
     issue_tokens demo_world demo_reading demo_id ''user'' r' = (Inr tp', r3)"
proof -
  obtain tp r1 where d: "Register demo_world demo_reading demo_request ref_empty mem_empty = (Inr tp, demo_db, r1)"
    using demo_register by blast
  obtain tp' db2 r3 where l: "Login demo_world demo_reading demo_login demo_db mem_empty = (Inr tp', db2, r3)"
    using demo_logs_in by blast
  have q: "demo_login = \<lparr>lr_AuthType = rr_AuthType demo_request, lr_Identifier = rr_Identifier demo_request,
      lr_Password = rr_Password demo_request, lr_IpAddress = [], lr_UserAgent = []\<rparr>"
    by (simp add: demo_login_def demo_request_def)
  show ?thesis
    using register_then_login [OF demo.auth_world_axioms ref_empty_wf d l [unfolded q], unfolded demo_generate] d l by auto
qed

text \<open>C10. A login is granted only for the password: success means that the lookup found an account that is
  active and whose stored hash is the password's under its salt. The access token then names that account
  and its role, for as long as \<open>AccessTokenExpire\<close> says in whole seconds; from that second on it is
  refused as expired.\<close>

theorem login_sound:
  assumes "auth_world w ok tab le conv dflt" "jwt (w_jwt w)" "Login w rd req db r = (Inr tp, db', r')"
  shows "\<exists>authType account. protoAuthTypeToString (lr_AuthType req) = Inr authType \<and>
    SelectAccountWithAuthByIdentifier (w_exec w) db authType (lr_Identifier req) = Inr account \<and> awa_Status account = 1 \<and>
    Key (w_pbkdf2 w) (awa_Salt account) (lr_Password req) = awa_PasswordHash account \<and>
    (\<forall>t \<ge> r_now rd. JwtWithParseToken (w_jwt w) (w_SigningKey w) t (tp_AccessToken tp) None =
       (if t < NewNumericDate (r_now rd + AccessTokenExpire (w_cfg w)) * second
        then Inr (new_claims (r_now rd) (awa_AccountID account) (awa_Role account) (AccessTokenExpire (w_cfg w)))
        else Inl ErrTokenExpired))"
proof -
  have pre: "lr_Identifier req \<noteq> []" "lr_Password req \<noteq> []" using assms(3) by (auto simp: Login_def split: sum.splits if_splits)
  obtain authType where ty: "protoAuthTypeToString (lr_AuthType req) = Inr authType"
    using assms(3) by (cases "protoAuthTypeToString (lr_AuthType req)") (auto simp: Login_def)
  obtain a r1 where a: "SelectAccountWithAuthByIdentifier (w_exec w) db authType (lr_Identifier req) = Inr a" "awa_Status a = 1"
    "Key (w_pbkdf2 w) (awa_Salt a) (lr_Password req) = awa_PasswordHash a"
    "issue_tokens w rd (awa_AccountID a) (awa_Role a) r1 = (Inr tp, r')"
    using auth_world.login_cases [OF assms(1,3) ty pre] by (auto split: sum.splits if_splits)
  have "JwtWithCreateToken (w_jwt w) (w_SigningKey w) (r_now rd) (awa_AccountID a) (awa_Role a) (AccessTokenExpire (w_cfg w)) =
      Some (Inr (tp_AccessToken tp))"
    using a(4) by (auto simp: issue_tokens_def with_token_def split: option.splits sum.splits prod.splits)
  then show ?thesis using ty a(1-3) jwt.created_accepted [OF assms(2)] jwt.created_expires [OF assms(2)] by (auto simp: not_less)
qed

theorem login_sound_witness:
  "\<exists>tp db' r'. Login demo_world demo_reading demo_login demo_db mem_empty = (Inr tp, db', r') \<and>
     JwtWithParseToken plain_jwt ''k'' (6 * second) (tp_AccessToken tp) None = Inr (new_claims (5 * second) demo_id ''user'' (3600 * second)) \<and>
     JwtWithParseToken plain_jwt ''k'' (3605 * second) (tp_AccessToken tp) None = Inl ErrTokenExpired"
proof -
  obtain tp db' r' where l: "Login demo_world demo_reading demo_login demo_db mem_empty = (Inr tp, db', r')" using demo_logs_in by blast
  have p: "lr_AuthType demo_login = 1" "lr_Identifier demo_login = ''a@b''" "lr_Password demo_login = ''pw''" "r_now demo_reading = 5 * second"
    "AccessTokenExpire demo_cfg = 3600 * second"
    by (simp_all add: demo_login_def demo_reading_def demo_cfg_def)
  have j: "jwt (w_jwt demo_world)" using plain.jwt_axioms by simp
  have e: "protoAuthTypeToString 1 = Inr ''email''" by (simp add: protoAuthTypeToString_def)
  have f: "\<forall>t \<ge> 5 * second. JwtWithParseToken plain_jwt ''k'' t (tp_AccessToken tp) None =
       (if t < NewNumericDate (5 * second + 3600 * second) * second
        then Inr (new_claims (5 * second) demo_id ''user'' (3600 * second)) else Inl ErrTokenExpired)"
    using login_sound [OF demo.auth_world_axioms j l] unfolding p e demo_parts by (auto simp: ref_join_demo p)
  have n: "NewNumericDate (5 * second + 3600 * second) * second = 3605 * second" by (simp add: NewNumericDate_def second_def)
  show ?thesis using l f [rule_format, of "6 * second"] f [rule_format, of "3605 * second"] unfolding n by (auto simp: second_def)
qed

section \<open>Password changes and deletion\<close>

text \<open>The account's row and one session, for the witnesses.\<close>

definition demo_sessions :: rview where
  "demo_sessions = \<lparr>rv_clock = 0, rv_keys = (\<lambda>k.
     if k = tkey ''aa'' then Some (RText (demo_id @ '':user''), Some second)
     else if k = akey demo_id then Some (RHash [(''aa'', ''0'')], None) else None)\<rparr>"

lemma demo_revoked: "fst (StateTokenWithRevokeAll mem_client demo_id demo_sessions) = Inr ()"
  by code_simp

lemma ref_auth_UpdateCtx: "UpdateCtx ref_auth_exec = UpdateCtx ref_exec"
  by (intro ext) (simp add: UpdateCtx_def ref_auth_simps)

lemma ref_auth_QueryOneCtx:
  assumes "query_fine h os" shows "QueryOneCtx ref_auth_exec db h f = QueryOneCtx ref_exec db h f"
proof -
  have "fst (query_sql h) \<noteq> join_sql" using parse_query_fine [OF assms] parse_join by auto
  then show ?thesis by (simp add: QueryOneCtx_def ref_auth_simps split: prod.splits)
qed

lemma ref_DeleteCtx:
  assumes "word_ok t" "list_all simple_cond cs"
    and "rows_ok (rd_next db) t (filter (\<lambda>r. \<not> list_all (cond_holds ref_le r) cs) (rd_tabs db t))"
  shows "\<exists>n. DeleteCtx ref_auth_exec db t cs = (Inr n,
     \<lparr>rd_tabs = (rd_tabs db)(t := filter (\<lambda>r. \<not> list_all (cond_holds ref_le r) cs) (rd_tabs db t)), rd_next = rd_next db\<rparr>)"
  using assms(1,3) parse_delete_sql [OF assms(1,2)]
  by (simp add: DeleteCtx_def ref_auth_simps ref_exec_def ref_stmt_def ref_commit_def wmatch_fun [OF assms(2)])

definition demo_account :: row where
  "demo_account = inserted ref_conv ref_dflt TableNameAccounts (account_fields (register_account demo_id (demo_hash ''pw'') ''0102'' 5)) 2"

definition demo_auth :: row where
  "demo_auth = inserted ref_conv ref_dflt TableNameAccountAuths (account_auth_fields (register_auth demo_id ''email'' ''a@b'' 5)) 1"

lemma demo_tabs: "rd_tabs demo_db TableNameAccounts = [demo_account]" "rd_tabs demo_db TableNameAccountAuths = [demo_auth]"
  using auth_tables(4) by (simp_all add: demo_db_def new_rows_def demo_account_def demo_auth_def)

lemma demo_account_live: "list_all (cond_holds ref_le demo_account) (by_account demo_id)"
  by code_simp

lemma demo_account_select: "SelectAccountByAccountID ref_auth_exec demo_db demo_id = Inr (account_of demo_account)"
proof -
  let ?h = "account_query demo_id"
  have q: "q_table ?h = TableNameAccounts" "q_conditions ?h = by_account demo_id" "q_columns ?h = account_columns"
    "q_limit ?h = []" by (simp_all add: account_query_def query_defs)
  have m: "sort_rows (ord_spec []) (matching ref_le (by_account demo_id) (rd_tabs demo_db TableNameAccounts)) = [demo_account]"
    using demo_account_live by (simp add: matching_def demo_tabs sort_rows_def)
  have t: "typed_row TableNameAccounts demo_account" using refdb.wf_typed [OF demo_wf, of demo_account TableNameAccounts] demo_tabs by simp
  have "QueryOneCtx ref_auth_exec demo_db ?h (row_scan scanAccount) = Inr (account_of demo_account)"
    using ref_QueryOneCtx [OF account_query_fine, of demo_id demo_db "row_scan scanAccount"] account_columns_ok(2)
    unfolding q m ref_auth_QueryOneCtx [OF account_query_fine] by (simp add: row_scan_def scanAccount_typed [OF t])
  then show ?thesis by (simp add: SelectAccountByAccountID_def account_query_def by_account_def)
qed

lemma demo_account_of: "acc_Status (account_of demo_account) = 1" "acc_Salt (account_of demo_account) = ''0102''"
  "acc_PasswordHash (account_of demo_account) = demo_hash ''pw''"
  by code_simp+

text \<open>C14. A changed password replaces the old one: \<open>UpdatePassword\<close> succeeds only for a caller who gave the
  stored password; after it every lookup that reaches the account finds the hash of the new password
  under a salt stored with it, so that a login is checked against the new one, and every session that
  the account's hash listed is revoked.\<close>

theorem update_password_replaces:
  assumes "auth_world w ok tab le conv dflt" "redis (w_redis w) view" "ok db" "UpdatePassword w rd req db r = (Inr u, db', r')"
    and "rv_keys (view r) (akey (up_AccountId req)) = Some (RHash h, None)"
  shows "(\<exists>account. SelectAccountByAccountID (w_exec w) db (up_AccountId req) = Inr account \<and>
       Key (w_pbkdf2 w) (acc_Salt account) (up_OldPassword req) = acc_PasswordHash account) \<and>
    (\<forall>authType idt a. SelectAccountWithAuthByIdentifier (w_exec w) db' authType idt = Inr a \<longrightarrow> awa_AccountID a = up_AccountId req \<longrightarrow>
       awa_PasswordHash a = Key (w_pbkdf2 w) (awa_Salt a) (up_NewPassword req)) \<and>
    (\<forall>t \<in> fst ` set h. rv_keys (view r') (tkey t) = None)"
proof (intro conjI)
  have u: "\<exists>account. SelectAccountByAccountID (w_exec w) db (up_AccountId req) = Inr account \<and>
       Key (w_pbkdf2 w) (acc_Salt account) (up_OldPassword req) = acc_PasswordHash account"
    "StateTokenWithRevokeAll (w_redis w) (up_AccountId req) r = (Inr (), r')"
    using auth_world.update_password_ok [OF assms(1,3,4)] by blast+
  then show "\<exists>account. SelectAccountByAccountID (w_exec w) db (up_AccountId req) = Inr account \<and>
       Key (w_pbkdf2 w) (acc_Salt account) (up_OldPassword req) = acc_PasswordHash account" by blast
  show "\<forall>t \<in> fst ` set h. rv_keys (view r') (tkey t) = None" by (intro ballI) (rule redis.revoke_all_reaches [OF assms(2) u(2) assms(5)])
  show "\<forall>authType idt a. SelectAccountWithAuthByIdentifier (w_exec w) db' authType idt = Inr a \<longrightarrow> awa_AccountID a = up_AccountId req \<longrightarrow>
       awa_PasswordHash a = Key (w_pbkdf2 w) (awa_Salt a) (up_NewPassword req)"
    by (intro allI impI) (rule auth_world.password_replaced [OF assms(1,3,4)])
qed

definition demo_change :: UpdatePasswordRequest where
  "demo_change = \<lparr>up_AccountId = demo_id, up_OldPassword = ''pw'', up_NewPassword = ''new''\<rparr>"

lemma demo_changes: "\<exists>db' r'. UpdatePassword demo_world demo_reading demo_change demo_db demo_sessions = (Inr (), db', r')"
proof -
  have f: "fields_fine [(''password_hash'', VStr x), (''salt'', VStr y)]" for x y by (simp add: fields_fine_def name_defs)
  let ?fs = "[(''password_hash'', VStr (demo_hash ''new'')), (''salt'', VStr ''0102'')]"
  have k: "rows_ok (rd_next demo_db) TableNameAccounts [updated ref_conv TableNameAccounts ?fs demo_account]" by code_simp
  obtain n db' where u: "UpdateAccountPassword ref_auth_exec demo_db demo_id (demo_hash ''new'') ''0102'' = (Inr n, db')"
    using ref_UpdateCtx [OF auth_tables(1) f [of "demo_hash ''new''" "''0102''"] by_account_simple [of demo_id], of demo_db] k demo_account_live
    unfolding UpdateAccountPassword_def ref_auth_UpdateCtx by_account_def [symmetric] by (auto simp: demo_tabs)
  obtain r' where r: "StateTokenWithRevokeAll mem_client demo_id demo_sessions = (Inr (), r')" using demo_revoked by (metis prod.collapse)
  show ?thesis using u r
    by (simp add: UpdatePassword_def demo_change_def demo_account_select demo_account_of demo_salt demo_hash_def) (simp add: demo_id_def)
qed

theorem update_password_replaces_witness:
  "\<exists>db' r'. UpdatePassword demo_world demo_reading demo_change demo_db demo_sessions = (Inr (), db', r') \<and>
     rv_keys r' (tkey ''aa'') = None \<and>
     (\<forall>authType idt a. SelectAccountWithAuthByIdentifier ref_auth_exec db' authType idt = Inr a \<longrightarrow> awa_AccountID a = demo_id \<longrightarrow>
       awa_PasswordHash a = Key (w_pbkdf2 demo_world) (awa_Salt a) ''new'')"
proof -
  obtain db' r' where u: "UpdatePassword demo_world demo_reading demo_change demo_db demo_sessions = (Inr (), db', r')"
    using demo_changes by blast
  have m: "redis (w_redis demo_world) (\<lambda>v. v)" using mem.redis_axioms by simp
  have s: "rv_keys demo_sessions (akey (up_AccountId demo_change)) = Some (RHash [(''aa'', ''0'')], None)" by code_simp
  show ?thesis using update_password_replaces [OF demo.auth_world_axioms m demo_wf u s] u by (simp add: demo_change_def)
qed

text \<open>C15. A deleted account is gone for good: after \<open>DeleteAccount\<close> succeeded the account has no live row, its
  listed sessions are revoked, no identifier that belonged to it logs in any more, and the rows of
  every other account are as they were.\<close>

theorem deleted_account_gone:
  assumes "auth_world w ok tab le conv dflt" "redis (w_redis w) view" "ok db" "DeleteAccount w rd acc pw db r = (Inr u, db', r')"
    and "rv_keys (view r) (akey acc) = Some (RHash h, None)" "0 < Unix rd"
    and "aa \<in> set (tab db TableNameAccountAuths)" "owned le acc aa" "names le authType (lr_Identifier req) aa"
    and "protoAuthTypeToString (lr_AuthType req) = Inr authType"
  shows "\<not> (\<exists>x \<in> set (tab db' TableNameAccounts). live_account le acc x) \<and>
    (\<forall>t \<in> fst ` set h. rv_keys (view r') (tkey t) = None) \<and>
    isl (fst (Login w rd' req db' r2)) \<and> foreign le acc (tab db') = foreign le acc (tab db)"
proof (intro conjI)
  show "\<not> (\<exists>x \<in> set (tab db' TableNameAccounts). live_account le acc x)"
    using auth_world.delete_kills_row [OF assms(1,3,4)] assms(6) by simp
  show "\<forall>t \<in> fst ` set h. rv_keys (view r') (tkey t) = None"
    by (intro ballI) (rule redis.revoke_all_reaches [OF assms(2) auth_world.delete_account_ok(3) [OF assms(1,3,4)] assms(5)])
  show "foreign le acc (tab db') = foreign le acc (tab db)" by (rule auth_world.delete_leaves_others [OF assms(1,3,4)])
  have n: "\<nexists>a. SelectAccountWithAuthByIdentifier (w_exec w) db' authType (lr_Identifier req) = Inr a"
    by (rule auth_world.deleted_not_found [OF assms(1,3,4,7-9)])
  show "isl (fst (Login w rd' req db' r2))"
  proof (cases "lr_Identifier req = [] \<or> lr_Password req = []")
    case True
    then show ?thesis using assms(10) by (auto simp: Login_def)
  next
    case False
    obtain res db2 r3 where l: "Login w rd' req db' r2 = (res, db2, r3)" by (cases "Login w rd' req db' r2")
    show ?thesis using auth_world.login_cases [OF assms(1) l assms(10)] n False l by (auto split: sum.splits)
  qed
qed

lemma demo_deletes: "\<exists>db' r'. DeleteAccount demo_world demo_reading demo_id ''pw'' demo_db demo_sessions = (Inr (), db', r')"
proof -
  have f: "fields_fine [(''deleted_at'', VInt 5), (''status'', VInt 0)]" by (simp add: fields_fine_def name_defs)
  let ?fs = "[(''deleted_at'', VInt 5), (''status'', VInt 0)]"
  let ?db1 = "\<lparr>rd_tabs = (rd_tabs demo_db)(TableNameAccounts := [updated ref_conv TableNameAccounts ?fs demo_account]), rd_next = 3\<rparr>"
  have k: "rows_ok (rd_next demo_db) TableNameAccounts [updated ref_conv TableNameAccounts ?fs demo_account]" by code_simp
  have x: "rd_next demo_db = 3" by (simp add: demo_db_def)
  obtain n where u: "SoftDeleteAccountByAccountID ref_auth_exec demo_db demo_id 5 = (Inr n, ?db1)"
    using ref_UpdateCtx [OF auth_tables(1) f by_account_simple [of demo_id], of demo_db] k demo_account_live
    unfolding SoftDeleteAccountByAccountID_def ref_auth_UpdateCtx by_account_def [symmetric] by (auto simp: demo_tabs x)
  have c: "list_all simple_cond [WithEq ''account_id'' (VStr demo_id)]" by (simp add: WithEq_def name_defs)
  have o: "list_all (cond_holds ref_le demo_auth) [WithEq ''account_id'' (VStr demo_id)]" by code_simp
  have e: "rows_ok 3 TableNameAccountAuths []" by (simp add: rows_ok_def keys_ok_def uniq_ok_def list_all_iff)
  obtain m db2 where d: "DeleteAccountAuthsByAccountID ref_auth_exec ?db1 demo_id = (Inr m, db2)"
    using ref_DeleteCtx [OF auth_tables(2) c, of ?db1] auth_tables(4) demo_tabs o e
    unfolding DeleteAccountAuthsByAccountID_def by auto
  obtain r' where r: "StateTokenWithRevokeAll mem_client demo_id demo_sessions = (Inr (), r')" using demo_revoked by (metis prod.collapse)
  have k2: "Key (w_pbkdf2 demo_world) ''0102'' ''pw'' = demo_hash ''pw''" by (simp add: demo_hash_def)
  have ne: "demo_id \<noteq> []" by (simp add: demo_id_def)
  show ?thesis using u d r ne by (simp add: DeleteAccount_def demo_account_select demo_account_of k2 demo_unix)
qed

theorem deleted_account_gone_witness:
  "\<exists>db' r'. DeleteAccount demo_world demo_reading demo_id ''pw'' demo_db demo_sessions = (Inr (), db', r') \<and>
     isl (fst (Login demo_world demo_reading demo_login db' mem_empty)) \<and> rv_keys r' (tkey ''aa'') = None"
proof -
  obtain db' r' where u: "DeleteAccount demo_world demo_reading demo_id ''pw'' demo_db demo_sessions = (Inr (), db', r')"
    using demo_deletes by blast
  have m: "redis (w_redis demo_world) (\<lambda>v. v)" using mem.redis_axioms by simp
  have s: "rv_keys demo_sessions (akey demo_id) = Some (RHash [(''aa'', ''0'')], None)" by code_simp
  have a: "demo_auth \<in> set (rd_tabs demo_db TableNameAccountAuths)" by (simp add: demo_tabs)
  have o: "owned ref_le demo_id demo_auth" by code_simp
  have n: "names ref_le ''email'' (lr_Identifier demo_login) demo_auth"
    by (simp add: names_def same_text_def demo_auth_def inserted_def account_auth_fields_def register_auth_def demo_login_def)
  have p: "protoAuthTypeToString (lr_AuthType demo_login) = Inr ''email''" by code_simp
  have x: "0 < Unix demo_reading" by (simp add: demo_unix)
  show ?thesis using deleted_account_gone [OF demo.auth_world_axioms m demo_wf u s x a o n p] u by auto
qed

section \<open>Tokens\<close>

text \<open>C16. \<open>ValidateToken\<close> accepts a token only when it was signed with the service's key, has not expired
  and its account has a live session; the role and the expiry it reports are those the token was
  signed with.\<close>

theorem validate_token_sound:
  assumes "redis (w_redis w) view" "jwt (w_jwt w)" "ValidateToken w rd accessToken r = (Inr resp, r')"
  shows "\<exists>claims. SignedString (w_jwt w) (w_SigningKey w) claims = Inr accessToken \<and> \<not> expired (r_now rd) claims \<and>
    live (view r) (AccountId claims) \<noteq> {} \<and> vt_Role resp = Role claims \<and> ExpiresAt claims = Some (vt_ExpiresAt resp)"
proof -
  obtain claims where c: "JwtWithParseToken (w_jwt w) (w_SigningKey w) (r_now rd) accessToken None = Inr claims"
    using assms(3) by (auto simp: ValidateToken_def split: if_splits sum.splits)
  obtain n r1 where n: "StateTokenWithCount (w_redis w) (AccountId claims) r = (Inr n, r1)" "n \<noteq> 0"
    "ExpiresAt claims = Some (vt_ExpiresAt resp)" "vt_Role resp = Role claims"
    using assms(3) c by (auto simp: ValidateToken_def split: if_splits sum.splits prod.splits option.splits)
  show ?thesis using jwt.accepted_signed [OF assms(2) c] redis.count_live [OF assms(1) n(1,2)] n(3,4) by blast
qed

definition demo_claims :: JwtClaims where
  "demo_claims = new_claims 0 demo_id ''user'' (10 * second)"

definition demo_token :: string where
  "demo_token = (case plain_sign ''k'' demo_claims of Inr s \<Rightarrow> s | Inl _ \<Rightarrow> [])"

theorem validate_token_sound_witness:
  "\<exists>resp r'. ValidateToken demo_world demo_reading demo_token demo_sessions = (Inr resp, r') \<and> vt_Role resp = ''user'' \<and>
     vt_ExpiresAt resp = 10 \<and> live demo_sessions demo_id \<noteq> {}"
proof -
  have s: "plain_sign ''k'' demo_claims = Inr demo_token" by (simp add: demo_token_def plain_sign_def)
  then have p: "ParseWithClaims plain_jwt (5 * second) demo_token (key_func ''k'') = Inr (Some demo_claims, True)"
    by (intro plain.parse_valid) (simp_all add: plain_jwt_def demo_claims_def in_window_def new_claims_def NewNumericDate_def second_def)
  have c: "fst (StateTokenWithCount mem_client demo_id demo_sessions) = Inr 1" by code_simp
  then obtain r' where r: "StateTokenWithCount mem_client demo_id demo_sessions = (Inr 1, r')" by (metis prod.collapse)
  have d: "AccountId demo_claims = demo_id" "Role demo_claims = ''user''" "ExpiresAt demo_claims = Some 10"
    by (simp_all add: demo_claims_def new_claims_def NewNumericDate_def second_def)
  have "demo_token \<noteq> []" using s by (auto simp: plain_sign_def field_def)
  then have v: "ValidateToken demo_world demo_reading demo_token demo_sessions = (Inr \<lparr>vt_Role = ''user'', vt_ExpiresAt = 10\<rparr>, r')"
    using p r d by (simp add: ValidateToken_def JwtWithParseToken_def demo_reading_def)
  have m: "redis (w_redis demo_world) (\<lambda>v. v)" "jwt (w_jwt demo_world)" using mem.redis_axioms plain.jwt_axioms by simp_all
  from validate_token_sound [OF m v] have "\<exists>cl. plain_sign ''k'' cl = Inr demo_token \<and> live demo_sessions (AccountId cl) \<noteq> {}"
    by (auto simp: plain_jwt_def)
  then have "live demo_sessions demo_id \<noteq> {}" using plain_claims_sign s d(1) by metis
  then show ?thesis using v by auto
qed

text \<open>C17. A refresh token works once: after \<open>RefreshToken\<close> exchanged it, and whatever the session layer is
  asked to do afterwards short of issuing the very same token again, presenting it again is answered
  \<open>Unauthenticated\<close>, or \<open>Internal\<close> when Redis fails, and never with tokens.\<close>

theorem refresh_single_use:
  assumes "redis (w_redis w) view" "RefreshToken w rd refreshToken r = (Inr tp, r1)"
    and "session_runs (w_redis w) I r1 r2" "\<forall>(t, a) \<in> I. digest t \<and> StateTokenWithParseJwtToken refreshToken \<noteq> Inr t"
    and "RefreshToken w rd' refreshToken r2 = (res, r3)"
  shows "\<exists>st. res = Inl st \<and> status_code st \<in> {Unauthenticated, Internal}"
proof -
  obtain old where o: "StateTokenWithParseJwtToken refreshToken = Inr old" by (simp add: StateTokenWithParseJwtToken_def)
  have d: "digest old" by (rule parse_digest [OF o])
  have ne: "refreshToken \<noteq> []" using assms(2) by (auto simp: RefreshToken_def)
  obtain new acc val r0 where n: "StateTokenWithRenew (w_redis w) old new acc val (RefreshTokenExpire (w_cfg w)) r0 = (Inr (), r1)"
    using refresh_ok [OF assms(2) o] by blast
  have i: "\<forall>(t, a) \<in> I. digest t \<and> t \<noteq> old" using assms(4) o by auto
  have "old \<noteq> []" using d by (simp add: digest_def)
  then have "rv_keys (view r2) (tkey old) = None"
    using redis.runs_key_gone [OF assms(1,3) redis.renew_spends_old(1) [OF assms(1) n] d i] by blast
  moreover obtain g r4 where g: "redisGetFn (w_redis w) (tkey old) r2 = (g, r4)" by fastforce
  ultimately obtain e where "g = Inl e" using redis.Get_gone [OF assms(1) g] by blast
  then show ?thesis using refresh_refused [OF assms(5) o ne] g by blast
qed

definition one_session :: "string \<Rightarrow> rview" where
  "one_session h = \<lparr>rv_clock = 0, rv_keys = (\<lambda>k.
     if k = tkey h then Some (RText ''7:user'', Some second) else if k = akey ''7'' then Some (RHash [(h, ''0'')], None) else None)\<rparr>"

lemma one_session_renew:
  assumes "digest h" "digest h'"
  shows "fst (StateTokenWithRenew mem_client h h' ''7'' val d (one_session h)) = Inr ()"
proof -
  have n: "tkey h \<noteq> akey ''7''" "tkey h' \<noteq> akey ''7''" "akey ''7'' \<noteq> tkey h'" "akey ''7'' \<noteq> tkey h"
    using tkey_akey [OF assms(1), of "''7''"] tkey_akey [OF assms(2), of "''7''"] by auto
  have ne: "h \<noteq> []" "h' \<noteq> []" using assms by (auto simp: digest_def)
  have e: "rdo (redisExistsFn mem_client (tkey h)) (\<lambda>ok. if ok \<noteq> 1 then rfail ErrorNoAuth else rret ()) (one_session h) = (Inr (), one_session h)"
    and c: "StateTokenWithCount mem_client ''7'' (one_session h) = (Inr 1, one_session h)"
    using n ne
    by (auto simp: StateTokenWithCount_def stateTokenWithCleanExpires_def rdo_def rret_def mem_client_def Let_def redisExistsFn_def
        redisHGetAllFn_def redisHLenFn_def redis_reply_def redis_effect_def at_time_def one_session_def
        as_int_def as_map_def second_def fun_eq_iff)
  have st: "rdo m f s = f x s'" if "m s = (Inr x, s')" for m :: "(rview, 'a) rio" and f :: "'a \<Rightarrow> (rview, 'b) rio" and s x s'
    using that by (simp add: rdo_def)
  let ?store = "rdo (redisSetFn mem_client (tkey h') (if val = [] then ''7'' else val) d) (\<lambda>_.
        rdo (redisHSetFn mem_client (akey ''7'') h' ''0'') (\<lambda>_.
        rdo (redisDelFn mem_client [tkey h]) (\<lambda>_. rdo (redisHDelFn mem_client (akey ''7'') [h]) (\<lambda>_. rret ()))))"
  have "StateTokenWithRenew mem_client h h' ''7'' val d (one_session h) = ?store (one_session h)"
    using ne unfolding StateTokenWithRenew_def by (simp add: st e c TokenLimitPerAccount_def)
  also have "fst (?store (one_session h)) = Inr ()"
    using n by (auto simp: rdo_def rret_def mem_client_def Let_def redisSetFn_def redisHSetFn_def redisDelFn_def redisHDelFn_def
        redis_reply_def redis_effect_def set_key_def at_time_def one_session_def as_int_def as_ok_def second_def
        split: option.split sum.split)
  finally show ?thesis .
qed

lemma one_session_refresh:
  assumes "refreshToken \<noteq> []" "StateTokenWithParseJwtToken refreshToken = Inr h"
  shows "\<exists>tp r1. RefreshToken demo_world demo_reading refreshToken (one_session h) = (Inr tp, r1)"
proof -
  have d: "digest h" by (rule parse_digest [OF assms(2)])
  have g: "redisGetFn mem_client (''token_'' @ h) (one_session h) = (Inr ''7:user'', one_session h)"
    by (auto simp: redisGetFn_def mem_client_def Let_def redis_reply_def redis_effect_def at_time_def one_session_def as_text_def
        tokenPrefix_def second_def fun_eq_iff)
  have p: "SplitN2 ''7:user'' (CHR '':'') = [''7'', ''user'']" by code_simp
  have t: "\<exists>x. JwtWithCreateToken plain_jwt ''k'' n a ro dur = Some (Inr x)" for n a ro dur
    by (simp add: JwtWithCreateToken_def plain_jwt_def plain_sign_def)
  obtain x y where xy: "JwtWithCreateToken plain_jwt ''k'' (r_now demo_reading) ''7'' ''user'' (RefreshTokenExpire demo_cfg) = Some (Inr x)"
    "JwtWithCreateToken plain_jwt ''k'' (r_now demo_reading) ''7'' ''user'' (AccessTokenExpire demo_cfg) = Some (Inr y)" using t by blast
  obtain h' where h': "StateTokenWithParseJwtToken x = Inr h'" by (simp add: StateTokenWithParseJwtToken_def)
  obtain r1 where "StateTokenWithRenew mem_client h h' ''7'' ''7:user'' (RefreshTokenExpire demo_cfg) (one_session h) = (Inr (), r1)"
    using one_session_renew [OF d parse_digest [OF h']] by (metis prod.collapse)
  then show ?thesis using assms g p xy h' by (simp add: RefreshToken_def with_token_def Let_def)
qed

theorem refresh_single_use_witness:
  "\<exists>h tp r1. StateTokenWithParseJwtToken ''x.y.z'' = Inr h \<and>
     RefreshToken demo_world demo_reading ''x.y.z'' (one_session h) = (Inr tp, r1) \<and>
     isl (fst (RefreshToken demo_world demo_reading ''x.y.z'' r1))"
proof -
  obtain h where h: "StateTokenWithParseJwtToken ''x.y.z'' = Inr h" by (simp add: StateTokenWithParseJwtToken_def)
  obtain tp r1 where r: "RefreshToken demo_world demo_reading ''x.y.z'' (one_session h) = (Inr tp, r1)"
    using one_session_refresh [OF _ h] by auto
  have m: "redis (w_redis demo_world) (\<lambda>v. v)" using mem.redis_axioms by simp
  obtain res r3 where e: "RefreshToken demo_world demo_reading ''x.y.z'' r1 = (res, r3)" by fastforce
  have "\<exists>st. res = Inl st \<and> status_code st \<in> {Unauthenticated, Internal}"
    using refresh_single_use [OF m r sr_start [of "w_redis demo_world" "{}"] _ e] by blast
  then show ?thesis using h r e by auto
qed

end
