(* ===== verification/AuthLocks.thy ===== *)
theory AuthLocks
  imports AuthProps
begin

text \<open>
  The lock-out of \<open>Login\<close>: a locked identifier is refused for as long as its lock has half a second to
  run, whatever Redis answers; \<open>MaxLoginAttempts\<close> wrong passwords within the counter's lifetime set the
  lock; and an identifier of the form \<open>ip:<address>\<close> shares its lock with that address.
\<close>

section \<open>Time only moves forward\<close>

definition ahead :: "('r \<Rightarrow> rview) \<Rightarrow> ('r, 'a) rio \<Rightarrow> bool" where
  "ahead vw m = (\<forall>s res s'. m s = (res, s') \<longrightarrow> rv_clock (vw s) \<le> rv_clock (vw s'))"

lemma aheadD: "ahead vw m \<Longrightarrow> m s = (res, s') \<Longrightarrow> rv_clock (vw s) \<le> rv_clock (vw s')"
  by (auto simp: ahead_def)

lemma ahead_snd: "ahead vw m \<Longrightarrow> rv_clock (vw s) \<le> rv_clock (vw (snd (m s)))"
  by (cases "m s") (auto simp: ahead_def)

lemma ahead_rret [simp, intro]: "ahead vw (rret x)" "ahead vw (rfail e)"
  by (simp_all add: ahead_def)

lemma ahead_rdo [intro]:
  assumes "ahead vw m" "\<And>x. ahead vw (f x)" shows "ahead vw (rdo m f)"
  unfolding ahead_def
proof (intro allI impI)
  fix s res s' assume "rdo m f s = (res, s')"
  from rdo_cases [OF this] assms show "rv_clock (vw s) \<le> rv_clock (vw s')"
    unfolding ahead_def by (metis order.trans)
qed

lemma ahead_if [intro]: "ahead vw m \<Longrightarrow> ahead vw m' \<Longrightarrow> ahead vw (if b then m else m')"
  by simp

context redis
begin

lemma cmd_clock: "client s c = (res, s') \<Longrightarrow> rv_clock (view s) \<le> rv_clock (view s')"
  using command [of s c res s'] effect_clock at_time_keys(2) by (auto simp: redis_step_def)

lemma ahead_client:
  "ahead view (\<lambda>s. as_int (client s c))" "ahead view (\<lambda>s. as_text (client s c))"
  "ahead view (\<lambda>s. as_map (client s c))" "ahead view (\<lambda>s. as_ok (client s c))"
  unfolding ahead_def by (meson as_state cmd_clock)+

lemma ahead_cmds [simp, intro]:
  "ahead view (redisHGetAllFn client k)" "ahead view (redisExistsFn client k)" "ahead view (redisHDelFn client k fs)"
  "ahead view (redisHLenFn client k)" "ahead view (redisSetFn client k x d)" "ahead view (redisHSetFn client k f y)"
  "ahead view (redisDelFn client ks)" "ahead view (redisGetFn client k)" "ahead view (redisTTLFn client k)"
  "ahead view (redisIncr client k)" "ahead view (redisExpire client k d)"
  unfolding redisHGetAllFn_def redisExistsFn_def redisHDelFn_def redisHLenFn_def redisSetFn_def redisHSetFn_def redisDelFn_def
    redisGetFn_def redisTTLFn_def redisIncr_def redisExpire_def by (rule ahead_client)+

lemma ahead_gone [simp, intro]: "ahead view (gone_tokens client ks)"
  by (induction ks) (auto simp del: rret_simps intro!: ahead_rdo)

lemma ahead_clean [simp, intro]: "ahead view (stateTokenWithCleanExpires client a)"
  unfolding stateTokenWithCleanExpires_def by (auto simp del: rret_simps intro!: ahead_rdo)

lemma ahead_count [simp, intro]: "ahead view (StateTokenWithCount client a)"
  unfolding StateTokenWithCount_def by (auto simp del: rret_simps intro!: ahead_rdo)

lemma ahead_search [simp, intro]: "ahead view (StateTokenWithSearchList client a)"
  unfolding StateTokenWithSearchList_def by (auto simp del: rret_simps intro!: ahead_rdo)

lemma ahead_revoke [simp, intro]: "ahead view (StateTokenWithRevoke client t)"
proof (cases "t = []")
  case True
  then show ?thesis by (simp add: StateTokenWithRevoke_def del: rret_simps)
next
  case False
  have r: "ahead view (rdo (redisDelFn client [tkey t]) (\<lambda>_. rdo (redisHDelFn client (akey uid) [t]) (\<lambda>_. rret ())))" for uid
    by (auto simp del: rret_simps intro!: ahead_rdo)
  show ?thesis unfolding ahead_def
  proof (intro allI impI)
    fix s res s' assume e: "StateTokenWithRevoke client t s = (res, s')"
    obtain g s1 where g: "redisGetFn client (tkey t) s = (g, s1)" by fastforce
    have "rv_clock (view s) \<le> rv_clock (view s1)" by (rule aheadD [OF ahead_cmds(8) g])
    then show "rv_clock (view s) \<le> rv_clock (view s')" using e False g aheadD [OF r, of _ s1 res s'] order.trans
      by (auto simp: StateTokenWithRevoke_def split: sum.splits if_splits)
  qed
qed

lemma oldest_loop_clock: "oldest_loop client ts o1 ttl1 s = (r, s') \<Longrightarrow> rv_clock (view s) \<le> rv_clock (view s')"
proof (induction ts arbitrary: o1 ttl1 s)
  case (Cons t ts)
  obtain g s1 where g: "redisTTLFn client (tkey t) s = (g, s1)" by fastforce
  have "rv_clock (view s) \<le> rv_clock (view s1)" by (rule aheadD [OF ahead_cmds(9) g])
  moreover have "rv_clock (view s1) \<le> rv_clock (view s')" using Cons g by (auto split: sum.splits if_splits)
  ultimately show ?case by (rule order.trans)
qed simp

lemma ahead_evict [simp, intro]: "ahead view (evictOldestToken client a)"
proof -
  have "ahead view (\<lambda>s. case oldest_loop client ts [] (-1) s of (o1, s1) \<Rightarrow>
      (if o1 \<noteq> [] then StateTokenWithRevoke client o1 s1 else StateTokenWithRevoke client (hd ts) s1))" for ts
    unfolding ahead_def
  proof (intro allI impI)
    fix s res s'
    assume e: "(case oldest_loop client ts [] (-1) s of (o1, s1) \<Rightarrow>
      (if o1 \<noteq> [] then StateTokenWithRevoke client o1 s1 else StateTokenWithRevoke client (hd ts) s1)) = (res, s')"
    obtain o1 s1 where o: "oldest_loop client ts [] (-1) s = (o1, s1)" by fastforce
    have "rv_clock (view s1) \<le> rv_clock (view s')" using e o aheadD [OF ahead_revoke] by (auto split: if_splits)
    then show "rv_clock (view s) \<le> rv_clock (view s')" using oldest_loop_clock [OF o] by (rule order.trans [rotated])
  qed
  then show ?thesis unfolding evictOldestToken_def by (auto simp del: rret_simps intro!: ahead_rdo)
qed

lemma ahead_renew [simp, intro]: "ahead view (StateTokenWithRenew client old new acc val d)"
  unfolding StateTokenWithRenew_def by (auto simp del: rret_simps intro!: ahead_rdo)

text \<open>\<open>TTL\<close> rounds to whole seconds: a key with half a second left still shows.\<close>

lemma TTL_live:
  assumes "redisTTLFn client k s = (Inr ttl, s')" "rv_keys (view s) k = Some (x, Some d)" "rv_clock (view s') + 500000000 \<le> d"
  shows "0 < ttl"
proof -
  have c: "client s (TTL k) = (Inr (RInt ttl), s')" using as_value(1) assms(1) by (simp add: redisTTLFn_def)
  obtain t where t: "redis_answer (TTL k) (at_time t (view s)) (Inr (RInt ttl))" "view s' = redis_effect (TTL k) (at_time t (view s))"
    using answered [OF c] by blast
  have v: "rv_clock (view s') = t" using t(2) by (simp add: redis_effect_def at_time_keys)
  have "rv_keys (at_time t (view s)) k = Some (x, Some d)" using assms(2,3) v by (simp add: at_time_keys aged_def)
  then have "ttl = (((d - t) div 1000000 + 500) div 1000) * 1000000000"
    using t(1) by (simp add: redis_answer_def redis_reply_def ttl_reply_def at_time_keys)
  moreover have "500 \<le> (d - t) div 1000000" using assms(3) v by (simp add: zdiv_mono1 [of 500000000 "d - t" 1000000, simplified])
  ultimately show ?thesis by simp
qed

lemma ahead_record: "w_redis w = client \<Longrightarrow> ahead view (recordFailedAttempt w i)" "w_redis w = client \<Longrightarrow> ahead view (recordIPFailedAttempt w a)"
proof -
  have f: "ahead view (\<lambda>s. (Inr u, g s))" if "\<And>s. rv_clock (view s) \<le> rv_clock (view (g s))" for u :: unit and g :: "'r \<Rightarrow> 'r"
    using that by (auto simp: ahead_def)
  have m: "rv_clock (view s) \<le> rv_clock (view (snd (redisExpire client k d s)))"
    "rv_clock (view s) \<le> rv_clock (view (snd (redisSetFn client k x d s)))"
    "rv_clock (view s) \<le> rv_clock (view (snd (redisDelFn client ks s)))" for s k d x ks
    by (rule ahead_snd; simp)+
  have m3: "rv_clock (view s) \<le> rv_clock (view (snd (redisDelFn client ks (snd (redisSetFn client k x d s)))))" for s ks k x d
    using m(2) m(3) order.trans by blast
  have m4: "rv_clock (view s) \<le> rv_clock (view (snd (redisDelFn client ks (snd (redisSetFn client k x d (snd (redisExpire client k' d' s)))))))"
    for s ks k x d k' d' using m(1) m3 order.trans by blast
  show "ahead view (recordFailedAttempt w i)" if "w_redis w = client"
    unfolding recordFailedAttempt_def Let_def that by (intro ahead_rdo f ahead_cmds) (auto simp: m m3 m4)
  show "ahead view (recordIPFailedAttempt w a)" if "w_redis w = client"
    unfolding recordIPFailedAttempt_def Let_def that by (intro ahead_rdo f ahead_cmds) (auto simp: m m3 m4)
qed

end

section \<open>The gates of a login\<close>

context redis
begin

lemma failed_clock:
  assumes "w_redis w = client" shows "rv_clock (view r) \<le> rv_clock (view (failed_attempts w req r))"
proof -
  have a: "rv_clock (view r) \<le> rv_clock (view (snd (recordFailedAttempt w (lr_Identifier req) r)))"
    by (rule ahead_snd [OF ahead_record(1) [OF assms]])
  also have "\<dots> \<le> rv_clock (view (snd (recordIPFailedAttempt w (lr_IpAddress req) (snd (recordFailedAttempt w (lr_Identifier req) r)))))"
    by (rule ahead_snd [OF ahead_record(2) [OF assms]])
  finally show ?thesis using a by (simp add: failed_attempts_def Let_def)
qed

lemma reset_clock:
  assumes "w_redis w = client" shows "rv_clock (view r) \<le> rv_clock (view (reset_attempts w req r))"
proof -
  have m: "rv_clock (view s) \<le> rv_clock (view (snd (redisDelFn client ks s)))" for s ks by (rule ahead_snd) simp
  then show ?thesis unfolding reset_attempts_def Let_def assms using order.trans [OF m m] by simp
qed

lemma issue_clock:
  assumes "w_redis w = client" "issue_tokens w rd acc role r = (res, r')" shows "rv_clock (view r) \<le> rv_clock (view r')"
  using assms(2) aheadD [OF ahead_renew, of "[]"] unfolding issue_tokens_def with_token_def assms(1)
  by (auto split: option.splits sum.splits prod.splits)

lemma ip_gate_code: "ip_gate w a r = (Some st, r1) \<Longrightarrow> status_code st = ResourceExhausted"
  by (auto simp: ip_gate_def locked_status_def split: if_splits sum.splits prod.splits)

lemma lock_gate_code: "lock_gate w i r = (Some st, r1) \<Longrightarrow> status_code st \<in> {ResourceExhausted, Internal}"
  by (auto simp: lock_gate_def locked_status_def split: if_splits sum.splits prod.splits)

lemma lock_gate_clock: "w_redis w = client \<Longrightarrow> lock_gate w i r = (g, r1) \<Longrightarrow> rv_clock (view r) \<le> rv_clock (view r1)"
  using aheadD [OF ahead_cmds(9), of "login_lock_key i" r] by (auto simp: lock_gate_def split: if_splits sum.splits prod.splits)

text \<open>A login is malformed, or stopped at a gate, or it saw no lock.\<close>

lemma login_gates:
  assumes "w_redis w = client" "Login w rd req db r = (res, db', r')"
  shows "(\<exists>st. res = Inl st \<and> status_code st = InvalidArgument \<and> db' = db) \<or>
    (\<exists>g1 r1. ip_gate w (lr_IpAddress req) r = (g1, r1) \<and> rv_clock (view r1) \<le> rv_clock (view r') \<and>
       (case g1 of Some st \<Rightarrow> res = Inl st \<and> db' = db
        | None \<Rightarrow> \<exists>g2 r2. lock_gate w (lr_Identifier req) r1 = (g2, r2) \<and> rv_clock (view r2) \<le> rv_clock (view r') \<and>
            (\<forall>st. g2 = Some st \<longrightarrow> res = Inl st \<and> db' = db)))"
proof (cases "isl (protoAuthTypeToString (lr_AuthType req)) \<or> lr_Identifier req = [] \<or> lr_Password req = []")
  case True
  then show ?thesis using assms(2)
    by (auto simp: Login_def protoAuthTypeToString_def split: if_splits)
next
  case False
  then obtain authType where ty: "protoAuthTypeToString (lr_AuthType req) = Inr authType" "lr_Identifier req \<noteq> []" "lr_Password req \<noteq> []"
    by (cases "protoAuthTypeToString (lr_AuthType req)") auto
  obtain g1 r1 where g1: "ip_gate w (lr_IpAddress req) r = (g1, r1)" by fastforce
  obtain g2 r2 where g2: "lock_gate w (lr_Identifier req) r1 = (g2, r2)" by fastforce
  note L0 = assms(2) [unfolded Login_def ty(1) sum.case if_not_P [OF ty(2)] if_not_P [OF ty(3)] g1 prod.case]
  show ?thesis
  proof (cases g1)
    case (Some st)
    then show ?thesis using L0 g1 by auto
  next
    case None
    note L1 = L0 [unfolded None option.case g2 prod.case]
    have c: "rv_clock (view r1) \<le> rv_clock (view r2)" by (rule lock_gate_clock [OF assms(1) g2])
    have "rv_clock (view r2) \<le> rv_clock (view r') \<and> (\<forall>st. g2 = Some st \<longrightarrow> res = Inl st \<and> db' = db)"
    proof (cases g2)
      case (Some st)
      then show ?thesis using L1 by auto
    next
      case n2: None
      have i: "rv_clock (view r2) \<le> rv_clock (view x)" if "issue_tokens w rd a ro (reset_attempts w req r2) = (y, x)" for a ro y x
        using order.trans [OF reset_clock [OF assms(1)] issue_clock [OF assms(1) that]] .
      show ?thesis
      proof (cases "SelectAccountWithAuthByIdentifier (w_exec w) db authType (lr_Identifier req)")
        case (Inl e)
        then show ?thesis using L1 n2 by (auto split: if_splits)
      next
        case (Inr a)
        obtain y x where t: "issue_tokens w rd (awa_AccountID a) (awa_Role a) (reset_attempts w req r2) = (y, x)" by fastforce
        show ?thesis using L1 n2 Inr t i [OF t] failed_clock [OF assms(1), of r2 req] by (auto split: if_splits sum.splits)
      qed
    qed
    then show ?thesis using g1 g2 None c by auto
  qed
qed

lemma locked_out:
  assumes "w_redis w = client" "Login w rd req db r = (res, db', r')"
    and "rv_keys (view r) (login_lock_key (lr_Identifier req)) = Some (x, Some d)" "rv_clock (view r') + 500000000 \<le> d"
  shows "db' = db \<and> (\<exists>st. res = Inl st \<and> status_code st \<in> {InvalidArgument, ResourceExhausted, Internal})"
proof (rule ccontr)
  assume no: "\<not> ?thesis"
  then obtain g1 r1 where g1: "ip_gate w (lr_IpAddress req) r = (g1, r1)"
    "case g1 of Some st \<Rightarrow> res = Inl st \<and> db' = db
     | None \<Rightarrow> \<exists>g2 r2. lock_gate w (lr_Identifier req) r1 = (g2, r2) \<and> rv_clock (view r2) \<le> rv_clock (view r') \<and>
         (\<forall>st. g2 = Some st \<longrightarrow> res = Inl st \<and> db' = db)"
    using login_gates [OF assms(1,2)] by blast
  have n1: "g1 = None" using g1 ip_gate_code [of w _ r] no by (cases g1) auto
  then obtain g2 r2 where g2: "lock_gate w (lr_Identifier req) r1 = (g2, r2)" "rv_clock (view r2) \<le> rv_clock (view r')"
    "\<And>st. g2 = Some st \<Longrightarrow> res = Inl st \<and> db' = db" using g1(2) by auto
  have "g2 = None" using g2 lock_gate_code [of w _ r1] no by (cases g2) auto
  note g = g1(1) [unfolded n1] g2(1) [unfolded this] g2(2)
  obtain ttl where t: "redisTTLFn client (login_lock_key (lr_Identifier req)) r1 = (Inr ttl, r2)" "\<not> 0 < ttl"
    using g(2) assms(1) by (auto simp: lock_gate_def split: sum.splits prod.splits if_splits)
  have c12: "rv_clock (view r1) \<le> rv_clock (view r2)" by (rule aheadD [OF ahead_cmds(9) t(1)])
  have h: "holds_entry (login_lock_key (lr_Identifier req)) (rv_keys (view r) (login_lock_key (lr_Identifier req))) (view r1)"
  proof (cases "lr_IpAddress req = []")
    case True
    then have "r1 = r" using g(1) by (simp add: ip_gate_def)
    then show ?thesis using assms(3,4) g(3) c12 by (simp add: holds_entry_def aged_def)
  next
    case False
    then obtain y where y: "redisTTLFn client (ip_lock_key (lr_IpAddress req)) r = (y, r1)"
      using g(1) assms(1) by (auto simp: ip_gate_def split: sum.splits prod.splits if_splits)
    have "rv_clock (view r) \<le> rv_clock (view r1)" by (rule aheadD [OF ahead_cmds(9) y])
    then have "holds_entry (login_lock_key (lr_Identifier req)) (rv_keys (view r) (login_lock_key (lr_Identifier req))) (view r)"
      using assms(3,4) g(3) c12 by (simp add: holds_entry_def aged_def)
    then show ?thesis by (rule keepsD [OF keeps_cmds(5) y UNIV_I])
  qed
  have "rv_keys (view r1) (login_lock_key (lr_Identifier req)) = Some (x, Some d)"
    using h assms(3,4) g(3) c12 by (simp add: holds_entry_def aged_def)
  from TTL_live [OF t(1) this] show False using t(2) assms(4) g(3) by simp
qed

end

section \<open>A Redis that always answers\<close>

locale reliable_redis =
  fixes client :: "'r rclient"
    and view :: "'r \<Rightarrow> rview"
  assumes served: "client s c = (res, s') \<Longrightarrow>
    \<exists>t. rv_clock (view s) \<le> t \<and> redis_answer c (at_time t (view s)) res \<and> view s' = redis_effect c (at_time t (view s))"

sublocale reliable_redis \<subseteq> redis client view
proof unfold_locales
  fix s c res s' assume "client s c = (res, s')"
  from served [OF this] show "\<exists>t. rv_clock (view s) \<le> t \<and> redis_step c (at_time t (view s)) res (view s')"
    by (auto simp: redis_step_def)
qed

interpretation memr: reliable_redis mem_client "\<lambda>v. v"
  by unfold_locales (auto simp: mem_client_def Let_def redis_reply_ok intro!: exI [of _ "rv_clock _"])

lemma keeps_snd: "keeps vw K m \<Longrightarrow> k \<in> K \<Longrightarrow> holds_entry k e (vw s) \<Longrightarrow> holds_entry k e (vw (snd (m s)))"
  by (cases "m s") (auto dest: keepsD)

text \<open>Redis takes the lock's duration in whole milliseconds.\<close>

definition lock_millis :: "int \<Rightarrow> int" where
  "lock_millis dur = dur div 1000000 * 1000000"

lemma set_key_keys: "rv_keys (set_key k e v) k = e"
  by (simp add: set_key_def)

lemma as_int_state: "as_int p = (res, s') \<Longrightarrow> \<exists>rr. p = (rr, s') \<and> res = (case rr of Inl e \<Rightarrow> Inl e | Inr (RInt i) \<Rightarrow> Inr i | _ \<Rightarrow> Inl bad_reply)"
  by (auto simp: as_int_def split: prod.splits sum.splits rreply.splits)

context reliable_redis
begin

lemma cmd:
  assumes "client s c = (res, s')"
  shows "rv_clock (view s) \<le> rv_clock (view s')" "view s' = redis_effect c (at_time (rv_clock (view s')) (view s))"
    "redis_answer c (at_time (rv_clock (view s')) (view s)) res"
  using served [OF assms] effect_clock at_time_keys(2) by auto

lemma Incr_first:
  assumes "redisIncr client k s = (res, s')" "rv_keys (view s) k = None"
  shows "res = Inr 1" "rv_keys (view s') k = Some (RText (itoa 1), None)"
proof -
  obtain rr where c: "client s (Incr k) = (rr, s')" "as_int (rr, s') = (res, s')"
    using assms(1) by (auto simp: redisIncr_def as_int_def split: prod.splits sum.splits rreply.splits)
  have n: "rv_keys (at_time t (view s)) k = None" for t using assms(2) by (simp add: at_time_keys)
  have "rr = Inr (RInt 1)" using cmd(3) [OF c(1)] n by (auto simp: redis_answer_def redis_reply_def)
  then show "res = Inr 1" using c(2) by (simp add: as_int_def)
  have "view s' = set_key k (Some (RText (itoa 1), None)) (at_time (rv_clock (view s')) (view s))"
    using cmd(2) [OF c(1)] n [of "rv_clock (view s')"] unfolding redis_effect_def by simp
  then show "rv_keys (view s') k = Some (RText (itoa 1), None)" by (metis set_key_keys)
qed

lemma Incr_next:
  assumes "redisIncr client k s = (res, s')" "holds_entry k (Some (RText (itoa n), Some D)) (view s)" "rv_clock (view s') < D"
  shows "res = Inr (n + 1)" "rv_keys (view s') k = Some (RText (itoa (n + 1)), Some D)"
proof -
  obtain rr where c: "client s (Incr k) = (rr, s')" "res = (case rr of Inl e \<Rightarrow> Inl e | Inr (RInt i) \<Rightarrow> Inr i | _ \<Rightarrow> Inl bad_reply)"
    using as_int_state [OF assms(1) [unfolded redisIncr_def]] by blast
  let ?v = "at_time (rv_clock (view s')) (view s)"
  have n: "rv_keys ?v k = Some (RText (itoa n), Some D)"
    using assms(2,3) cmd(1) [OF c(1)] by (simp add: at_time_keys holds_entry_def aged_def)
  have "rr = Inr (RInt (n + 1))" using cmd(3) [OF c(1)] n by (simp add: redis_answer_def redis_reply_def)
  then show "res = Inr (n + 1)" using c(2) by simp
  have "view s' = set_key k (Some (RText (itoa (n + 1)), Some D)) ?v" using cmd(2) [OF c(1)] n unfolding redis_effect_def by simp
  then show "rv_keys (view s') k = Some (RText (itoa (n + 1)), Some D)" by (metis set_key_keys)
qed

lemma Expire_sets:
  assumes "redisExpire client k dur s = (res, s')" "rv_keys (view s) k = Some (x, None)" "second \<le> dur"
  shows "rv_keys (view s') k = Some (x, Some (rv_clock (view s') + expire_seconds dur * 1000000000))" "rv_clock (view s) \<le> rv_clock (view s')"
proof -
  obtain rr where c: "client s (Expire k dur) = (rr, s')" using as_state(4) [of client] assms(1) unfolding redisExpire_def by blast
  let ?v = "at_time (rv_clock (view s')) (view s)"
  have "\<not> expire_seconds dur \<le> 0" using assms(3) by (simp add: expire_seconds_def second_def pos_imp_zdiv_pos_iff not_le)
  moreover have "rv_keys ?v k = Some (x, None)" using assms(2) by (simp add: at_time_keys)
  ultimately have "view s' = set_key k (Some (x, Some (rv_clock ?v + expire_seconds dur * 1000000000))) ?v"
    using cmd(2) [OF c] unfolding redis_effect_def by simp
  then show "rv_keys (view s') k = Some (x, Some (rv_clock (view s') + expire_seconds dur * 1000000000))"
    by (metis set_key_keys at_time_keys(2))
  show "rv_clock (view s) \<le> rv_clock (view s')" by (rule cmd(1) [OF c])
qed

lemma Set_sets:
  assumes "redisSetFn client k x dur s = (res, s')" "second \<le> dur"
  shows "\<exists>d. rv_keys (view s') k = Some (RText x, Some d) \<and> rv_clock (view s') + lock_millis dur \<le> d \<and> rv_clock (view s') < d"
    "rv_clock (view s) \<le> rv_clock (view s')"
proof -
  obtain rr where c: "client s (Set k x dur) = (rr, s')" using as_state(4) [of client] assms(1) unfolding redisSetFn_def by blast
  let ?v = "at_time (rv_clock (view s')) (view s)"
  have "view s' = set_key k (Some (RText x, Some (rv_clock ?v + max 1000000 (dur div 1000000 * 1000000)))) ?v"
    using cmd(2) [OF c] assms(2) unfolding redis_effect_def by (simp add: set_deadline_def second_def)
  then have "rv_keys (view s') k = Some (RText x, Some (rv_clock (view s') + max 1000000 (dur div 1000000 * 1000000)))"
    by (metis set_key_keys at_time_keys(2))
  then show "\<exists>d. rv_keys (view s') k = Some (RText x, Some d) \<and> rv_clock (view s') + lock_millis dur \<le> d \<and> rv_clock (view s') < d"
    by (auto simp: lock_millis_def)
  show "rv_clock (view s) \<le> rv_clock (view s')" by (rule cmd(1) [OF c])
qed

lemma record_step:
  assumes w: "w_redis w = client" and rec: "recordFailedAttempt w i s = (res, s')" and dur: "second \<le> LoginLockDuration (w_cfg w)"
    and pre: "holds_entry (login_attempt_key i) (if n = 0 then None else Some (RText (itoa n), Some D)) (view s)"
    and time: "n \<noteq> 0 \<Longrightarrow> rv_clock (view s') < D"
  shows "if n + 1 \<ge> MaxLoginAttempts (w_cfg w)
    then \<exists>d. holds_entry (login_lock_key i) (Some (RText ''1'', Some d)) (view s') \<and> rv_clock (view s) + lock_millis (LoginLockDuration (w_cfg w)) \<le> d
    else \<exists>D'. holds_entry (login_attempt_key i) (Some (RText (itoa (n + 1)), Some D')) (view s') \<and>
      (if n = 0 then rv_clock (view s) + expire_seconds (LoginLockDuration (w_cfg w)) * 1000000000 \<le> D' else D' = D)"
proof -
  let ?ck = "login_attempt_key i" and ?lk = "login_lock_key i" and ?dur = "LoginLockDuration (w_cfg w)"
  obtain x s1 where 1: "redisIncr client ?ck s = (x, s1)" by fastforce
  have c1: "rv_clock (view s) \<le> rv_clock (view s1)" by (rule aheadD [OF ahead_cmds(10) 1])
  define exp where "exp a t = (if a = 1 then snd (redisExpire client ?ck ?dur t) else t)" for a :: int and t
  define lck where "lck a t = (if a \<ge> MaxLoginAttempts (w_cfg w) then snd (redisDelFn client [?ck] (snd (redisSetFn client ?lk ''1'' ?dur t))) else t)"
    for a t
  have m: "rv_clock (view t) \<le> rv_clock (view (exp a t))" "rv_clock (view t) \<le> rv_clock (view (lck a t))" for a t
    using ahead_snd [OF ahead_cmds(11), of t ?ck ?dur] ahead_snd [OF ahead_cmds(5), of t ?lk "''1''" ?dur]
      ahead_snd [OF ahead_cmds(7), of "snd (redisSetFn client ?lk ''1'' ?dur t)" "[?ck]"] order.trans
    by (auto simp: exp_def lck_def)
  have s': "s' = (case x of Inl e \<Rightarrow> s1 | Inr a \<Rightarrow> lck a (exp a s1))"
    using rec 1 unfolding recordFailedAttempt_def rdo_def w Let_def exp_def lck_def by (auto split: sum.splits)
  have c2: "rv_clock (view s1) \<le> rv_clock (view s')" unfolding s' using order.trans [OF m] by (auto split: sum.split)
  have x: "x = Inr (n + 1) \<and> rv_keys (view s1) ?ck = Some (RText (itoa (n + 1)), if n = 0 then None else Some D)"
  proof (cases "n = 0")
    case True
    then have "rv_keys (view s) ?ck = None" using pre by (simp add: holds_entry_def)
    then show ?thesis using Incr_first [OF 1] True by simp
  next
    case False
    then show ?thesis using Incr_next [OF 1, of n D] pre time c2 by simp
  qed
  let ?s2 = "exp (n + 1) s1"
  obtain D' where D': "rv_keys (view ?s2) ?ck = Some (RText (itoa (n + 1)), Some D')"
    "if n = 0 then rv_clock (view s) + expire_seconds ?dur * 1000000000 \<le> D' else D' = D"
  proof (cases "n = 0")
    case True
    obtain y s2 where y: "redisExpire client ?ck ?dur s1 = (y, s2)" by fastforce
    then have e: "?s2 = s2" using True by (simp add: exp_def)
    have "rv_keys (view s1) ?ck = Some (RText (itoa (n + 1)), None)" using x True by simp
    from Expire_sets [OF y this dur] show ?thesis using that True c1 unfolding e by simp
  qed (use x that in \<open>simp add: exp_def\<close>)
  show ?thesis
  proof (cases "n + 1 \<ge> MaxLoginAttempts (w_cfg w)")
    case False
    then have "s' = ?s2" using s' x by (simp add: lck_def)
    moreover have "rv_clock (view ?s2) < D'"
    proof (cases "n = 0")
      case True
      obtain y s2 where y: "redisExpire client ?ck ?dur s1 = (y, s2)" by fastforce
      then have e: "?s2 = s2" using True by (simp add: exp_def)
      have "rv_keys (view s1) ?ck = Some (RText (itoa (n + 1)), None)" using x True by simp
      from Expire_sets [OF y this dur] have "D' = rv_clock (view s2) + expire_seconds ?dur * 1000000000" using D'(1) unfolding e by simp
      moreover have "0 < expire_seconds ?dur" using dur by (simp add: expire_seconds_def second_def pos_imp_zdiv_pos_iff)
      ultimately show ?thesis unfolding e by simp
    next
      case False
      then show ?thesis using D'(2) time calculation by simp
    qed
    ultimately have "holds_entry ?ck (Some (RText (itoa (n + 1)), Some D')) (view s')" using D'(1) by (simp add: holds_entry_def aged_def)
    then show ?thesis using False D'(2) by auto
  next
    case True
    obtain y s3 where y: "redisSetFn client ?lk ''1'' ?dur ?s2 = (y, s3)" by fastforce
    obtain z s4 where z: "redisDelFn client [?ck] s3 = (z, s4)" by fastforce
    have s4: "s' = s4" using s' x True y z by (simp add: lck_def)
    obtain d where d: "rv_keys (view s3) ?lk = Some (RText ''1'', Some d)" "rv_clock (view s3) + lock_millis ?dur \<le> d" "rv_clock (view s3) < d"
      using Set_sets(1) [OF y dur] by blast
    have "holds_entry ?lk (Some (RText ''1'', Some d)) (view s3)" using d by (simp add: holds_entry_def aged_def)
    then have "holds_entry ?lk (Some (RText ''1'', Some d)) (view s')" unfolding s4
      by (intro keepsD [OF keeps_writes(4) [of "[?ck]" "{?lk}"] z]) (auto simp: login_lock_key_def login_attempt_key_def)
    moreover have "rv_clock (view s) + lock_millis ?dur \<le> d"
      using c1 m(1) [of s1 "n + 1"] Set_sets(2) [OF y dur] d(2) by simp
    ultimately show ?thesis using True by auto
  qed
qed

lemma keeps_counter [intro]:
  "k \<notin> K \<Longrightarrow> keeps view K (redisIncr client k)" "k \<notin> K \<Longrightarrow> keeps view K (redisExpire client k d)"
  unfolding redisIncr_def redisExpire_def by (rule keeps_client; auto simp: touches_def)+

text \<open>Counting for an address leaves the keys of other names alone.\<close>

lemma ip_record_keeps:
  assumes "w_redis w = client" "k \<noteq> ip_attempt_key a" "k \<noteq> ip_lock_key a" "holds_entry k e (view s)"
  shows "holds_entry k e (view (snd (recordIPFailedAttempt w a s)))"
proof -
  let ?ck = "ip_attempt_key a" and ?lk = "ip_lock_key a" and ?dur = "IPLoginLockDuration (w_cfg w)"
  have kk: "holds_entry k e (view (snd (redisExpire client ?ck ?dur t)))" "holds_entry k e (view (snd (redisSetFn client ?lk ''1'' ?dur t)))"
    "holds_entry k e (view (snd (redisDelFn client [?ck] t)))" "holds_entry k e (view (snd (redisIncr client ?ck t)))"
    if "holds_entry k e (view t)" for t
    using that assms(2,3) by (auto intro!: keeps_snd [where K = "{k}"] keeps_counter keeps_writes)
  obtain x s1 where 1: "redisIncr client ?ck s = (x, s1)" by fastforce
  have "holds_entry k e (view s1)" using kk(4) [OF assms(4)] 1 by simp
  then show ?thesis using 1 assms(1) kk by (cases x) (auto simp: recordIPFailedAttempt_def rdo_def Let_def)
qed

lemma gates_keep:
  assumes "w_redis w = client" "ip_gate w a r = (g1, r1)" "lock_gate w i r1 = (g2, r2)"
  shows "rv_clock (view r) \<le> rv_clock (view r2)" "holds_entry k e (view r) \<Longrightarrow> holds_entry k e (view r2)"
proof -
  have t: "rv_clock (view s) \<le> rv_clock (view s')" "holds_entry k e (view s) \<Longrightarrow> holds_entry k e (view s')"
    if "redisTTLFn client k' s = (x, s')" for k' s x s'
    using aheadD [OF ahead_cmds(9) that] keepsD [OF keeps_cmds(5) that UNIV_I] by auto
  have 1: "r1 = r \<or> (\<exists>x. redisTTLFn client (ip_lock_key a) r = (x, r1))"
    using assms(1,2) by (auto simp: ip_gate_def split: if_splits sum.splits prod.splits)
  have 2: "\<exists>x. redisTTLFn client (login_lock_key i) r1 = (x, r2)"
    using assms(1,3) by (auto simp: lock_gate_def split: if_splits sum.splits prod.splits)
  have "rv_clock (view r) \<le> rv_clock (view r1)" using 1 t(1) by auto
  also have "\<dots> \<le> rv_clock (view r2)" using 2 t(1) by auto
  finally show "rv_clock (view r) \<le> rv_clock (view r2)" .
  show "holds_entry k e (view r2)" if "holds_entry k e (view r)" using 1 2 t(2) that by blast
qed

lemma wrong_password_step:
  assumes "w_redis w = client" "Login w rd req db r = (Inl (Status Unauthenticated m), db', r')"
  shows "\<exists>r2. r' = failed_attempts w req r2 \<and> rv_clock (view r) \<le> rv_clock (view r2) \<and>
    (\<forall>k e. holds_entry k e (view r) \<longrightarrow> holds_entry k e (view r2))"
proof -
  have ne: "lr_Identifier req \<noteq> []" "lr_Password req \<noteq> []"
    using assms(2) by (auto simp: Login_def protoAuthTypeToString_def split: sum.splits if_splits)
  obtain authType where ty: "protoAuthTypeToString (lr_AuthType req) = Inr authType"
    using assms(2) by (cases "protoAuthTypeToString (lr_AuthType req)") (auto simp: Login_def protoAuthTypeToString_def split: if_splits)
  obtain g1 r1 where g1: "ip_gate w (lr_IpAddress req) r = (g1, r1)" by fastforce
  obtain g2 r2 where g2: "lock_gate w (lr_Identifier req) r1 = (g2, r2)" by fastforce
  have c1: "status_code st = ResourceExhausted" if "g1 = Some st" for st
    using g1 that by (auto simp: ip_gate_def locked_status_def split: if_splits sum.splits prod.splits)
  have c2: "status_code st \<in> {ResourceExhausted, Internal}" if "g2 = Some st" for st
    using g2 that by (auto simp: lock_gate_def locked_status_def split: if_splits sum.splits prod.splits)
  note L0 = assms(2) [unfolded Login_def ty(1) sum.case if_not_P [OF ne(1)] if_not_P [OF ne(2)] g1 prod.case]
  have n: "g1 = None" using L0 c1 by (cases g1) auto
  note L1 = L0 [unfolded n option.case g2 prod.case]
  have n2: "g2 = None" using L1 c2 by (cases g2) auto
  have i: "status_code st = Internal" if "issue_tokens w rd a ro t = (Inl st, y)" for a ro t st y
    using that by (auto simp: issue_tokens_def with_token_def panic_status_def split: option.splits sum.splits prod.splits)
  have "r' = failed_attempts w req r2"
  proof (cases "SelectAccountWithAuthByIdentifier (w_exec w) db authType (lr_Identifier req)")
    case (Inl e)
    then show ?thesis using L1 n2 by (auto split: if_splits)
  next
    case (Inr a)
    obtain y x where t: "issue_tokens w rd (awa_AccountID a) (awa_Role a) (reset_attempts w req r2) = (y, x)" by fastforce
    have "y \<noteq> Inl (Status Unauthenticated m)" using i t by force
    then show ?thesis using L1 n2 Inr t by (auto split: if_splits sum.splits)
  qed
  then show ?thesis using gates_keep [OF assms(1) g1 g2] by blast
qed

end

section \<open>Runs of logins\<close>

primrec run_logins ::
  "('db, 'r) world \<Rightarrow> (reading \<times> LoginRequest) list \<Rightarrow> 'db \<Rightarrow> 'r \<Rightarrow> (status + TokenPair) list \<times> 'db \<times> 'r" where
  "run_logins w [] db r = ([], db, r)"
| "run_logins w (q # qs) db r =
     (case Login w (fst q) (snd q) db r of (res, db1, r1) \<Rightarrow>
        case run_logins w qs db1 r1 of (rs, db2, r2) \<Rightarrow> (res # rs, db2, r2))"

text \<open>The requests guess at one identifier, from addresses that it does not spell.\<close>

definition guesses :: "string \<Rightarrow> (reading \<times> LoginRequest) list \<Rightarrow> bool" where
  "guesses i qs = list_all (\<lambda>q. lr_Identifier (snd q) = i \<and> i \<noteq> ''ip:'' @ lr_IpAddress (snd q)) qs"

definition wrong_password :: "status + TokenPair" where
  "wrong_password = Inl (Status Unauthenticated ''invalid password'')"

lemma whole_seconds: "second \<le> dur \<Longrightarrow> expire_seconds dur * 1000000000 \<le> lock_millis dur"
proof -
  assume "second \<le> dur"
  then have "expire_seconds dur = dur div 1000000000" by (simp add: expire_seconds_def second_def)
  moreover have "dur div 1000000000 * 1000 \<le> dur div 1000000" by linarith
  ultimately show ?thesis by (simp add: lock_millis_def)
qed

context reliable_redis
begin

lemma is_redis: "redis client view"
  by (rule redis_axioms)

lemma TTL_answers: "redisTTLFn client k s = (res, s') \<Longrightarrow> \<exists>ttl. res = Inr ttl"
proof -
  assume "redisTTLFn client k s = (res, s')"
  then obtain rr where c: "client s (TTL k) = (rr, s')" "res = (case rr of Inl e \<Rightarrow> Inl e | Inr (RInt i) \<Rightarrow> Inr i | _ \<Rightarrow> Inl bad_reply)"
    using as_int_state [of "client s (TTL k)"] by (auto simp: redisTTLFn_def)
  then show ?thesis using cmd(3) [OF c(1)] by (auto simp: redis_answer_def redis_reply_def)
qed

lemma address_locked:
  assumes "w_redis w = client" "ip_gate w a r = (g, r1)" "a \<noteq> []"
    and "rv_keys (view r) (ip_lock_key a) = Some (x, Some d)" "rv_clock (view r1) + 500000000 \<le> d"
  shows "\<exists>st. g = Some st \<and> status_code st = ResourceExhausted"
proof -
  obtain y where y: "redisTTLFn client (ip_lock_key a) r = (y, r1)"
    using assms(1-3) by (auto simp: ip_gate_def split: sum.splits prod.splits if_splits)
  then obtain ttl where "y = Inr ttl" using TTL_answers by blast
  moreover have "0 < ttl" using TTL_live [OF y [unfolded calculation] assms(4,5)] .
  ultimately show ?thesis using assms(1-3) y by (auto simp: ip_gate_def locked_status_def)
qed

lemma guess_step:
  assumes w: "w_redis w = client" and l: "Login w rd req db r = (wrong_password, db', r')" and dur: "second \<le> LoginLockDuration (w_cfg w)"
    and i: "lr_Identifier req = i" "i \<noteq> ''ip:'' @ lr_IpAddress req"
    and pre: "holds_entry (login_attempt_key i) (if n = 0 then None else Some (RText (itoa n), Some D)) (view r)"
    and time: "n \<noteq> 0 \<Longrightarrow> rv_clock (view r') < D"
  shows "rv_clock (view r) \<le> rv_clock (view r')"
    "if n + 1 \<ge> MaxLoginAttempts (w_cfg w)
    then \<exists>d. holds_entry (login_lock_key i) (Some (RText ''1'', Some d)) (view r') \<and> rv_clock (view r) + lock_millis (LoginLockDuration (w_cfg w)) \<le> d
    else \<exists>D'. holds_entry (login_attempt_key i) (Some (RText (itoa (n + 1)), Some D')) (view r') \<and>
      (if n = 0 then rv_clock (view r) + expire_seconds (LoginLockDuration (w_cfg w)) * 1000000000 \<le> D' else D' = D)"
proof -
  obtain r2 where r2: "r' = failed_attempts w req r2" "rv_clock (view r) \<le> rv_clock (view r2)"
    "\<And>k e. holds_entry k e (view r) \<Longrightarrow> holds_entry k e (view r2)"
    using wrong_password_step [OF w l [unfolded wrong_password_def]] by blast
  show c: "rv_clock (view r) \<le> rv_clock (view r')" unfolding r2(1) by (rule order.trans [OF r2(2) failed_clock [OF w]])
  obtain x s1 where s1: "recordFailedAttempt w i r2 = (x, s1)" by fastforce
  have r': "r' = (if lr_IpAddress req \<noteq> [] then snd (recordIPFailedAttempt w (lr_IpAddress req) s1) else s1)"
    using r2(1) s1 i(1) by (simp add: failed_attempts_def)
  have c1: "rv_clock (view s1) \<le> rv_clock (view r')" unfolding r' using ahead_snd [OF ahead_record(2) [OF w]] by simp
  have k: "holds_entry y e (view r')" if "holds_entry y e (view s1)" "y = login_attempt_key i \<or> y = login_lock_key i" for y e
  proof -
    have "y \<noteq> ip_attempt_key (lr_IpAddress req)" "y \<noteq> ip_lock_key (lr_IpAddress req)"
      using that(2) i(2) by (auto simp: login_attempt_key_def login_lock_key_def ip_attempt_key_def ip_lock_key_def)
    then show ?thesis unfolding r' using ip_record_keeps [OF w _ _ that(1)] that(1) by simp
  qed
  have "n \<noteq> 0 \<Longrightarrow> rv_clock (view s1) < D" using time c1 by simp
  note st = record_step [OF w s1 dur r2(3) [OF pre] this]
  show "if n + 1 \<ge> MaxLoginAttempts (w_cfg w)
    then \<exists>d. holds_entry (login_lock_key i) (Some (RText ''1'', Some d)) (view r') \<and> rv_clock (view r) + lock_millis (LoginLockDuration (w_cfg w)) \<le> d
    else \<exists>D'. holds_entry (login_attempt_key i) (Some (RText (itoa (n + 1)), Some D')) (view r') \<and>
      (if n = 0 then rv_clock (view r) + expire_seconds (LoginLockDuration (w_cfg w)) * 1000000000 \<le> D' else D' = D)"
  proof (cases "n + 1 \<ge> MaxLoginAttempts (w_cfg w)")
    case True
    then obtain d where "holds_entry (login_lock_key i) (Some (RText ''1'', Some d)) (view s1)"
      "rv_clock (view r2) + lock_millis (LoginLockDuration (w_cfg w)) \<le> d" using st by auto
    then show ?thesis using True k r2(2) by fastforce
  next
    case False
    then obtain D' where "holds_entry (login_attempt_key i) (Some (RText (itoa (n + 1)), Some D')) (view s1)"
      "if n = 0 then rv_clock (view r2) + expire_seconds (LoginLockDuration (w_cfg w)) * 1000000000 \<le> D' else D' = D" using st by auto
    then show ?thesis using False k r2(2) by (intro if_not_P [THEN iffD2]) (auto intro!: exI [of _ D'] split: if_splits)
  qed
qed

lemma run_clock:
  assumes "w_redis w = client" "run_logins w qs db r = (results, db', r')" "list_all (\<lambda>x. x = wrong_password) results"
  shows "rv_clock (view r) \<le> rv_clock (view r')"
  using assms(2,3)
proof (induction qs arbitrary: db r results)
  case (Cons q qs)
  obtain x db1 r1 where l: "Login w (fst q) (snd q) db r = (x, db1, r1)" by (cases "Login w (fst q) (snd q) db r")
  obtain rs where rs: "run_logins w qs db1 r1 = (rs, db', r')" "results = x # rs"
    using Cons.prems(1) l by (cases "run_logins w qs db1 r1") auto
  have x: "x = wrong_password" "list_all (\<lambda>x. x = wrong_password) rs" using Cons.prems(2) rs(2) by auto
  obtain r2 where "r1 = failed_attempts w (snd q) r2" "rv_clock (view r) \<le> rv_clock (view r2)"
    using wrong_password_step [OF assms(1) l [unfolded x(1) wrong_password_def]] by blast
  then have "rv_clock (view r) \<le> rv_clock (view r1)" using failed_clock [OF assms(1), of r2 "snd q"] by simp
  then show ?case using Cons.IH [OF rs(1) x(2)] by simp
qed simp

lemma run_locks:
  assumes w: "w_redis w = client" and dur: "second \<le> LoginLockDuration (w_cfg w)"
    and run: "run_logins w qs db r = (results, db', r')" "list_all (\<lambda>x. x = wrong_password) results" "guesses i qs"
    and n: "int (length qs) + n = MaxLoginAttempts (w_cfg w)" "qs \<noteq> []" "0 \<le> n"
    and pre: "holds_entry (login_attempt_key i) (if n = 0 then None else Some (RText (itoa n), Some D)) (view r)"
    and time: "T \<le> rv_clock (view r)" "n \<noteq> 0 \<Longrightarrow> rv_clock (view r') < D" "rv_clock (view r') < T + expire_seconds (LoginLockDuration (w_cfg w)) * 1000000000"
  shows "\<exists>d. holds_entry (login_lock_key i) (Some (RText ''1'', Some d)) (view r') \<and> T + lock_millis (LoginLockDuration (w_cfg w)) \<le> d"
  using run n pre time
proof (induction qs arbitrary: db r results n D)
  case (Cons q qs)
  obtain x db1 r1 where l: "Login w (fst q) (snd q) db r = (x, db1, r1)" by (cases "Login w (fst q) (snd q) db r")
  obtain rs where rs: "run_logins w qs db1 r1 = (rs, db', r')" "results = x # rs"
    using Cons.prems(1) l by (cases "run_logins w qs db1 r1") auto
  have x: "x = wrong_password" "list_all (\<lambda>x. x = wrong_password) rs" using Cons.prems(2) rs(2) by auto
  have q: "lr_Identifier (snd q) = i" "i \<noteq> ''ip:'' @ lr_IpAddress (snd q)" "guesses i qs" using Cons.prems(3) by (auto simp: guesses_def)
  have c: "rv_clock (view r1) \<le> rv_clock (view r')" by (rule run_clock [OF w rs(1) x(2)])
  have tm: "n \<noteq> 0 \<Longrightarrow> rv_clock (view r1) < D" using Cons.prems(9) c by simp
  note st = guess_step [OF w l [unfolded x(1)] dur q(1,2) Cons.prems(7) tm]
  show ?case
  proof (cases qs)
    case Nil
    then have "r' = r1" "n + 1 = MaxLoginAttempts (w_cfg w)" using rs(1) Cons.prems(4) by auto
    then show ?thesis using st(2) Cons.prems(8) by fastforce
  next
    case (Cons q' qs')
    then have lt: "\<not> n + 1 \<ge> MaxLoginAttempts (w_cfg w)" using Cons.prems(4) by simp
    then obtain D' where D': "holds_entry (login_attempt_key i) (Some (RText (itoa (n + 1)), Some D')) (view r1)"
      "if n = 0 then rv_clock (view r) + expire_seconds (LoginLockDuration (w_cfg w)) * 1000000000 \<le> D' else D' = D" using st(2) by auto
    have "rv_clock (view r') < D'" using D'(2) Cons.prems(8-10) by (auto split: if_splits)
    then show ?thesis using Cons.IH [OF rs(1) x(2) q(3), of "n + 1" D'] Cons.prems(4,6,8,10) D'(1) st(1) Cons by simp
  qed
qed simp

end

section \<open>Properties\<close>

text \<open>A locked identifier stays locked: as long as the lock still has half a second to run when the call
  ends, \<open>Login\<close> is refused, with the right password too and whatever Redis answers, even when it
  fails; no session is opened and no history row is written.\<close>

theorem locked_login_refused:
  assumes "redis (w_redis w) view" "Login w rd req db r = (res, db', r')"
    and "rv_keys (view r) (login_lock_key (lr_Identifier req)) = Some (x, Some d)" "rv_clock (view r') + 500000000 \<le> d"
  shows "db' = db \<and> (\<exists>st. res = Inl st \<and> status_code st \<in> {InvalidArgument, ResourceExhausted, Internal})"
  by (rule redis.locked_out [OF assms(1) refl assms(2-4)])

definition locked_state :: rview where
  "locked_state = \<lparr>rv_clock = 0, rv_keys = (\<lambda>_. None)(login_lock_key ''a@b'' := Some (RText ''1'', Some (900 * second)))\<rparr>"

lemma locked_demo_login: "\<exists>st. Login demo_world demo_reading demo_login demo_db locked_state = (Inl st, demo_db, locked_state)"
proof -
  have a: "at_time 0 locked_state = locked_state" by (auto simp: at_time_def locked_state_def second_def fun_eq_iff)
  have "lock_gate demo_world ''a@b'' locked_state = (Some (locked_status ''account'' (900 * second)), locked_state)"
    using a by (simp add: lock_gate_def redisTTLFn_def mem_client_def Let_def redis_reply_def redis_effect_def ttl_reply_def as_int_def
        locked_state_def second_def)
  moreover have "ip_gate demo_world [] locked_state = (None, locked_state)" by (simp add: ip_gate_def)
  ultimately show ?thesis by (simp add: Login_def demo_login_def protoAuthTypeToString_def)
qed

theorem locked_login_refused_witness:
  "\<exists>st. Login demo_world demo_reading demo_login demo_db locked_state = (Inl st, demo_db, locked_state) \<and>
     status_code st \<in> {InvalidArgument, ResourceExhausted, Internal}"
proof -
  obtain st where l: "Login demo_world demo_reading demo_login demo_db locked_state = (Inl st, demo_db, locked_state)"
    using locked_demo_login by blast
  have m: "redis (w_redis demo_world) (\<lambda>v. v)" using mem.redis_axioms by simp
  have k: "rv_keys locked_state (login_lock_key (lr_Identifier demo_login)) = Some (RText ''1'', Some (900 * second))"
    "rv_clock locked_state + 500000000 \<le> 900 * second" by (simp_all add: locked_state_def demo_login_def second_def)
  show ?thesis using locked_login_refused [OF m l k] l by auto
qed

text \<open>C11. Guessing is bounded: on a Redis that answers, \<open>MaxLoginAttempts\<close> wrong passwords for an identifier in a
  row, within the counter's lifetime (the lock duration in whole seconds from the first one on), lock
  the identifier; until half a second before the lock duration is over, counted from before the first guess, no login
  for it succeeds, whatever its password and wherever it comes from.\<close>

theorem guessing_locks_out:
  assumes "reliable_redis (w_redis w) view" "second \<le> LoginLockDuration (w_cfg w)" "1 \<le> MaxLoginAttempts (w_cfg w)"
    and "run_logins w qs db r = (results, db', r')" "list_all (\<lambda>x. x = wrong_password) results" "guesses i qs"
    and "int (length qs) = MaxLoginAttempts (w_cfg w)" "rv_keys (view r) (login_attempt_key i) = None"
    and "rv_clock (view r') < rv_clock (view r) + expire_seconds (LoginLockDuration (w_cfg w)) * 1000000000"
    and "lr_Identifier req = i" "Login w rd req db2 r' = (res, db3, r3)"
    and "rv_clock (view r3) + 500000000 \<le> rv_clock (view r) + lock_millis (LoginLockDuration (w_cfg w))"
  shows "db3 = db2 \<and> (\<exists>st. res = Inl st \<and> status_code st \<in> {InvalidArgument, ResourceExhausted, Internal})"
proof -
  have m: "redis (w_redis w) view" by (rule reliable_redis.is_redis [OF assms(1)])
  have h: "holds_entry (login_attempt_key i) (if (0::int) = 0 then None else Some (RText (itoa 0), Some 0)) (view r)"
    using assms(8) by (simp add: holds_entry_def)
  have ne: "qs \<noteq> []" using assms(3,7) by auto
  obtain d where d: "holds_entry (login_lock_key i) (Some (RText ''1'', Some d)) (view r')"
    "rv_clock (view r) + lock_millis (LoginLockDuration (w_cfg w)) \<le> d"
    using reliable_redis.run_locks [OF assms(1) refl assms(2,4-6) _ ne _ h order.refl _ assms(9)] assms(7) by auto
  then have "rv_keys (view r') (login_lock_key (lr_Identifier req)) = Some (RText ''1'', Some d)"
    using assms(9,10) whole_seconds [OF assms(2)] by (simp add: holds_entry_def aged_def)
  then show ?thesis using redis.locked_out [OF m refl assms(11)] assms(12) d(2) by simp
qed

definition strict_world :: "(refdb, rview) world" where
  "strict_world = demo_world\<lparr>w_cfg := demo_cfg\<lparr>MaxLoginAttempts := 1\<rparr>\<rparr>"

definition bad_login :: LoginRequest where
  "bad_login = demo_login\<lparr>lr_Password := ''guess''\<rparr>"

lemma bad_login_fails: "\<exists>db'. Login strict_world demo_reading bad_login demo_db mem_empty =
  (wrong_password, db', failed_attempts strict_world bad_login mem_empty)"
proof -
  have k: "Key (w_pbkdf2 strict_world) ''0102'' ''guess'' \<noteq> demo_hash ''pw''" by code_simp
  have l: "lock_gate strict_world ''a@b'' mem_empty = (None, mem_empty)" "ip_gate strict_world [] mem_empty = (None, mem_empty)"
    by (simp_all add: strict_world_def lock_gate_def ip_gate_def redisTTLFn_def mem_client_def Let_def redis_reply_def redis_effect_def
        ttl_reply_def as_int_def at_time_def mem_empty_def)
  have p: "lr_AuthType bad_login = 1" "lr_Identifier bad_login = ''a@b''" "lr_Password bad_login = ''guess''" "lr_IpAddress bad_login = []"
    by (simp_all add: bad_login_def demo_login_def)
  have e: "w_exec strict_world = ref_auth_exec" by (simp add: strict_world_def)
  show ?thesis using k by (simp add: Login_def p l e ref_join_demo protoAuthTypeToString_def wrong_password_def)
qed

theorem guessing_locks_out_witness:
  "\<exists>db' r' st. run_logins strict_world [(demo_reading, bad_login)] demo_db mem_empty = ([wrong_password], db', r') \<and>
     fst (Login strict_world demo_reading demo_login demo_db r') = Inl st"
proof -
  obtain db' where l: "Login strict_world demo_reading bad_login demo_db mem_empty =
      (wrong_password, db', failed_attempts strict_world bad_login mem_empty)" using bad_login_fails by blast
  let ?r = "failed_attempts strict_world bad_login mem_empty"
  have run: "run_logins strict_world [(demo_reading, bad_login)] demo_db mem_empty = ([wrong_password], db', ?r)" using l by simp
  obtain res db3 r3 where g: "Login strict_world demo_reading demo_login demo_db ?r = (res, db3, r3)"
    by (cases "Login strict_world demo_reading demo_login demo_db ?r")
  have w: "w_redis strict_world = mem_client" "MaxLoginAttempts (w_cfg strict_world) = 1" "LoginLockDuration (w_cfg strict_world) = 900 * second"
    by (simp_all add: strict_world_def demo_cfg_def)
  have m: "reliable_redis (w_redis strict_world) (\<lambda>v. v)" unfolding w by (rule memr.reliable_redis_axioms)
  have g6: "guesses ''a@b'' [(demo_reading, bad_login)]" by (simp add: guesses_def bad_login_def demo_login_def)
  have c1: "rv_clock ?r = 0" by code_simp
  have "rv_clock (snd (snd (Login strict_world demo_reading demo_login demo_db ?r))) = 0" by code_simp
  then have c3: "rv_clock r3 = 0" using g by simp
  have e: "expire_seconds 900000000000 = 900" "lock_millis 900000000000 = 900000000000" "second = 1000000000"
    by (simp_all add: expire_seconds_def lock_millis_def second_def)
  have z: "rv_clock mem_empty = 0" "rv_keys mem_empty k = None" for k by (simp_all add: mem_empty_def)
  have h: "second \<le> LoginLockDuration (w_cfg strict_world)" "1 \<le> MaxLoginAttempts (w_cfg strict_world)"
    "list_all (\<lambda>x. x = wrong_password) [wrong_password]" "int (length [(demo_reading, bad_login)]) = MaxLoginAttempts (w_cfg strict_world)"
    "rv_clock ?r < rv_clock mem_empty + expire_seconds (LoginLockDuration (w_cfg strict_world)) * 1000000000"
    "lr_Identifier demo_login = ''a@b''"
    "rv_clock r3 + 500000000 \<le> rv_clock mem_empty + lock_millis (LoginLockDuration (w_cfg strict_world))"
    by (simp_all add: w e z c1 c3 demo_login_def)
  from guessing_locks_out [OF m h(1,2) run h(3) g6 h(4) z(2) h(5,6) g h(7)] show ?thesis using run g by auto
qed


text \<open>The lock of an identifier and the lock of an address can be one key: on a Redis that answers, once the
  identifier \<open>ip:<address>\<close> is locked (which takes no more than wrong guesses at it), every login from that
  address is refused, for whatever account.\<close>

theorem identifier_locks_address:
  assumes "reliable_redis (w_redis w) view" "rv_keys (view r) (login_lock_key (''ip:'' @ a)) = Some (x, Some d)"
    and "lr_IpAddress req = a" "a \<noteq> []" "Login w rd req db r = (res, db', r')" "rv_clock (view r') + 500000000 \<le> d"
  shows "db' = db \<and> (\<exists>st. res = Inl st \<and> status_code st \<in> {InvalidArgument, ResourceExhausted})"
proof -
  have m: "redis (w_redis w) view" by (rule reliable_redis.is_redis [OF assms(1)])
  have k: "rv_keys (view r) (ip_lock_key (lr_IpAddress req)) = Some (x, Some d)"
    using assms(2,3) by (simp add: ip_lock_key_def login_lock_key_def)
  from redis.login_gates [OF m refl assms(5)] show ?thesis
  proof
    assume "\<exists>g1 r1. ip_gate w (lr_IpAddress req) r = (g1, r1) \<and> rv_clock (view r1) \<le> rv_clock (view r') \<and>
       (case g1 of Some st \<Rightarrow> res = Inl st \<and> db' = db
        | None \<Rightarrow> \<exists>g2 r2. lock_gate w (lr_Identifier req) r1 = (g2, r2) \<and> rv_clock (view r2) \<le> rv_clock (view r') \<and>
            (\<forall>st. g2 = Some st \<longrightarrow> res = Inl st \<and> db' = db))"
    then obtain g1 r1 where g: "ip_gate w (lr_IpAddress req) r = (g1, r1)" "rv_clock (view r1) \<le> rv_clock (view r')"
      "\<And>st. g1 = Some st \<Longrightarrow> res = Inl st \<and> db' = db" by (auto split: option.splits)
    have "rv_clock (view r1) + 500000000 \<le> d" using g(2) assms(6) by simp
    then show ?thesis using reliable_redis.address_locked [OF assms(1) refl g(1) _ k] g(3) assms(3,4) by auto
  qed auto
qed

theorem identifier_locks_address_witness:
  "\<exists>st. fst (Login demo_world demo_reading (demo_login\<lparr>lr_IpAddress := ''10.0.0.1''\<rparr>) demo_db
       \<lparr>rv_clock = 0, rv_keys = (\<lambda>_. None)(login_lock_key ''ip:10.0.0.1'' := Some (RText ''1'', Some (900 * second)))\<rparr>) = Inl st \<and>
     status_code st \<in> {InvalidArgument, ResourceExhausted}"
proof -
  let ?r = "\<lparr>rv_clock = 0, rv_keys = (\<lambda>_. None)(login_lock_key ''ip:10.0.0.1'' := Some (RText ''1'', Some (900 * second)))\<rparr>"
  let ?q = "demo_login\<lparr>lr_IpAddress := ''10.0.0.1''\<rparr>"
  obtain res db' r' where l: "Login demo_world demo_reading ?q demo_db ?r = (res, db', r')"
    by (cases "Login demo_world demo_reading ?q demo_db ?r")
  have m: "reliable_redis (w_redis demo_world) (\<lambda>v. v)" using memr.reliable_redis_axioms by simp
  have "rv_clock (snd (snd (Login demo_world demo_reading ?q demo_db ?r))) = 0" by code_simp
  then have c: "rv_clock r' + 500000000 \<le> 900 * second" using l by (simp add: second_def)
  have k: "rv_keys ?r (login_lock_key (''ip:'' @ ''10.0.0.1'')) = Some (RText ''1'', Some (900 * second))" by simp
  show ?thesis using identifier_locks_address [OF m k _ _ l c] l by simp
qed

section \<open>A token rotated into itself\<close>

text \<open>A hash of at most \<open>n\<close> fields, or none, and computations that answer on such a view and keep it.\<close>

definition hashy :: "string \<Rightarrow> nat \<Rightarrow> rview \<Rightarrow> bool" where
  "hashy k n v \<longleftrightarrow> (case rv_keys v k of None \<Rightarrow> True | Some (RHash h, d) \<Rightarrow> length h \<le> n | Some (RText x, d) \<Rightarrow> False)"

definition goes :: "('r \<Rightarrow> rview) \<Rightarrow> string \<Rightarrow> nat \<Rightarrow> nat \<Rightarrow> ('r, 'a) rio \<Rightarrow> bool" where
  "goes vw k n n' m \<longleftrightarrow> (\<forall>s. hashy k n (vw s) \<longrightarrow> (\<exists>x s'. m s = (Inr x, s') \<and> hashy k n' (vw s')))"

lemma hashy_cases: "hashy k n v \<Longrightarrow> rv_keys v k = None \<or> (\<exists>h d. rv_keys v k = Some (RHash h, d) \<and> length h \<le> n)"
  by (auto simp: hashy_def split: option.splits rval.splits)

lemma hashy_at_time: "hashy k n v \<Longrightarrow> hashy k n (at_time t v)"
  by (auto simp: hashy_def at_time_def split: option.splits)

lemma goes_rdo: "goes vw k n n1 m \<Longrightarrow> (\<And>x. goes vw k n1 n2 (f x)) \<Longrightarrow> goes vw k n n2 (rdo m f)"
  unfolding goes_def rdo_def by fastforce

lemma rdo_Inr: "m s = (Inr x, s1) \<Longrightarrow> rdo m f s = f x s1" and rdo_Inl: "m s = (Inl e, s1) \<Longrightarrow> rdo m f s = (Inl e, s1)"
  by (simp_all add: rdo_def)

lemma goes_rret: "goes vw k n n (rret x)"
  by (simp add: goes_def rret_def)

lemma hashy_put: "hashy k n v \<Longrightarrow> hashy k (Suc n) (redis_effect (HSet k f x) v)"
  by (auto simp: hashy_def redis_effect_def set_key_def put_field_def split: option.splits rval.splits
      intro: order.trans [OF length_filter_le])

lemma hashy_effects:
  "hashy k n v \<Longrightarrow> hashy k n (redis_effect (HGetAll k) v)" "hashy k n v \<Longrightarrow> hashy k n (redis_effect (Exists k') v)"
  "hashy k n v \<Longrightarrow> hashy k n (redis_effect (HLen k) v)" "hashy k n v \<Longrightarrow> hashy k n (redis_effect (HDel k fs) v)"
  "hashy k n v \<Longrightarrow> hashy k n (redis_effect (Del ks) v)" "hashy k n v \<Longrightarrow> k' \<noteq> k \<Longrightarrow> hashy k n (redis_effect (Set k' x d) v)"
  by (auto simp: hashy_def redis_effect_def set_key_def drop_fields_def Let_def split: option.splits rval.splits
      intro: order.trans [OF length_filter_le])

context reliable_redis
begin

lemma goes_cmd:
  assumes "\<And>v. hashy k n v \<Longrightarrow> hashy k n' (redis_effect c v) \<and> (\<exists>r. redis_reply c v = Inr r \<and> (\<forall>r'. redis_answer c v (Inr r') \<longrightarrow> ok r'))"
    and "hashy k n (view s)"
  shows "\<exists>r s'. client s c = (Inr r, s') \<and> ok r \<and> hashy k n' (view s')"
proof -
  obtain r s' where c: "client s c = (r, s')" by fastforce
  let ?v = "at_time (rv_clock (view s')) (view s)"
  note a = cmd(2,3) [OF c]
  from assms(1) [OF hashy_at_time [OF assms(2)], of "rv_clock (view s')"] obtain x where
    e: "hashy k n' (redis_effect c ?v)" "redis_reply c ?v = Inr x" "\<And>r'. redis_answer c ?v (Inr r') \<Longrightarrow> ok r'" by blast
  have "\<exists>y. r = Inr y" using a(2) e(2) by (cases r; cases x) (simp_all add: redis_answer_def)
  then show ?thesis using c a e(1,3) by fastforce
qed

lemma goes_cmds:
  "goes view k n n (redisHGetAllFn client k)" "goes view k n n (redisExistsFn client k')" "goes view k n n (redisHDelFn client k fs)"
  "goes view k n n (redisDelFn client [k'])" "k' \<noteq> k \<Longrightarrow> goes view k n n (redisSetFn client k' x d)"
  "goes view k n (Suc n) (redisHSetFn client k f y)"
proof -
  have int: "\<exists>i s'. as_int (client s c) = (Inr i, s') \<and> hashy k n' (view s')"
    if "\<And>v. hashy k n v \<Longrightarrow> hashy k n' (redis_effect c v) \<and> (\<exists>i. redis_reply c v = Inr (RInt i))" "hashy k n (view s)" for s c n'
    using goes_cmd [of k n n' c "\<lambda>r. \<exists>i. r = RInt i" s] that by (fastforce simp: redis_answer_def as_int_def)
  show "goes view k n n (redisHGetAllFn client k)" unfolding goes_def redisHGetAllFn_def
  proof (intro allI impI)
    fix s assume h: "hashy k n (view s)"
    have "hashy k n (redis_effect (HGetAll k) v) \<and>
        (\<exists>r. redis_reply (HGetAll k) v = Inr r \<and> (\<forall>r'. redis_answer (HGetAll k) v (Inr r') \<longrightarrow> (\<exists>m. r' = RMap m)))"
      if "hashy k n v" for v
      using that hashy_effects(1) [OF that]
      by (auto simp: hashy_def redis_reply_def redis_answer_def split: option.splits rval.splits rreply.splits)
    from goes_cmd [OF this h] show "\<exists>x s'. as_map (client s (HGetAll k)) = (Inr x, s') \<and> hashy k n (view s')"
      by (auto simp: as_map_def)
  qed
  show "goes view k n n (redisExistsFn client k')" unfolding goes_def redisExistsFn_def
    by (intro allI impI int) (auto simp: hashy_effects redis_reply_def)
  show "goes view k n n (redisHDelFn client k fs)" unfolding goes_def redisHDelFn_def
    by (intro allI impI int) (use hashy_cases hashy_effects(4) in \<open>fastforce simp: redis_reply_def\<close>)
  show "goes view k n n (redisDelFn client [k'])" unfolding goes_def redisDelFn_def
    by (intro allI impI int) (auto simp: hashy_effects redis_reply_def)
  show "goes view k n (Suc n) (redisHSetFn client k f y)" unfolding goes_def redisHSetFn_def
    by (intro allI impI int) (use hashy_cases hashy_put in \<open>fastforce simp: redis_reply_def\<close>)
  assume ne: "k' \<noteq> k"
  show "goes view k n n (redisSetFn client k' x d)" unfolding goes_def redisSetFn_def
  proof (intro allI impI)
    fix s assume h: "hashy k n (view s)"
    have "hashy k n (redis_effect (Set k' x d) v) \<and>
        (\<exists>r. redis_reply (Set k' x d) v = Inr r \<and> (\<forall>r'. redis_answer (Set k' x d) v (Inr r') \<longrightarrow> True))" if "hashy k n v" for v
      using hashy_effects(6) [OF that ne] by (simp add: redis_reply_def)
    from goes_cmd [OF this h] show "\<exists>u s'. as_ok (client s (Set k' x d)) = (Inr u, s') \<and> hashy k n (view s')"
      by (auto simp: as_ok_def)
  qed
qed

lemma HLen_goes:
  assumes "hashy k n (view s)" shows "\<exists>i s'. redisHLenFn client k s = (Inr i, s') \<and> i \<le> int n \<and> hashy k n (view s')"
proof -
  have "hashy k n (redis_effect (HLen k) v) \<and>
      (\<exists>r. redis_reply (HLen k) v = Inr r \<and> (\<forall>r'. redis_answer (HLen k) v (Inr r') \<longrightarrow> (\<exists>i. r' = RInt i \<and> i \<le> int n)))"
    if "hashy k n v" for v
    using that hashy_effects(3) [OF that] by (auto simp: hashy_def redis_reply_def redis_answer_def split: option.splits rval.splits)
  from goes_cmd [OF this assms] show ?thesis by (auto simp: redisHLenFn_def as_int_def)
qed

lemma goes_clean: "goes view (akey a) n n (stateTokenWithCleanExpires client a)"
proof -
  have "goes view k n n (gone_tokens client ks)" for k ks
    by (induction ks) (auto simp del: rret_simps intro!: goes_rdo goes_rret goes_cmds)
  moreover have "goes view k n n (if b then m else m')" if "goes view k n n m" "goes view k n n m'" for k b and m m' :: "('r, unit) rio"
    using that by simp
  ultimately show ?thesis unfolding stateTokenWithCleanExpires_def
    by (auto simp del: rret_simps intro!: goes_rdo goes_rret goes_cmds)
qed

text \<open>A rotation of a live token succeeds where the account has room for another session.\<close>

lemma renew_succeeds:
  assumes old: "old \<noteq> []" "holds_entry (tkey old) (Some (x, Some D)) (view s)" and new: "digest new" "acc \<noteq> []"
    and room: "hashy (akey acc) 9 (view s)"
    and run: "StateTokenWithRenew client old new acc val d s = (res, s')" and time: "rv_clock (view s') < D"
  shows "res = Inr ()"
proof -
  obtain i s1 where e: "redisExistsFn client (tkey old) s = (Inr i, s1)" and h1: "hashy (akey acc) 9 (view s1)"
    using goes_cmds(2) room unfolding goes_def by blast
  obtain u s2 where c: "stateTokenWithCleanExpires client acc s1 = (Inr u, s2)" and h2: "hashy (akey acc) 9 (view s2)"
    using goes_clean h1 unfolding goes_def by blast
  obtain n s3 where l: "redisHLenFn client (akey acc) s2 = (Inr n, s3)" "n \<le> 9" and h3: "hashy (akey acc) 9 (view s3)"
    using HLen_goes [OF h2] by auto
  let ?store = "rdo (redisSetFn client (tkey new) (if val = [] then acc else val) d) (\<lambda>_.
      rdo (redisHSetFn client (akey acc) new ''0'') (\<lambda>_. rdo (redisDelFn client [tkey old]) (\<lambda>_.
      rdo (redisHDelFn client (akey acc) [old]) (\<lambda>_. rret ()))))"
  have "goes view (akey acc) 9 (Suc 9) ?store"
    by (rule goes_rdo [OF goes_cmds(5) goes_rdo [OF goes_cmds(6) goes_rdo [OF goes_cmds(4) goes_rdo [OF goes_cmds(3) goes_rret]]]])
      (rule tkey_akey [OF new(1)])
  then obtain y s4 where st: "?store s3 = (Inr y, s4)" using h3 unfolding goes_def by blast
  have n: "new \<noteq> []" using new(1) by (simp add: digest_def)
  have r: "StateTokenWithRenew client old new acc val d s =
      (if i \<noteq> 1 then (Inl ErrorNoAuth, s1) else ?store s3)"
    using e c l n new(2) old(1) unfolding StateTokenWithRenew_def StateTokenWithCount_def
    by (auto simp: rdo_Inr rdo_Inl TokenLimitPerAccount_def rfail_def rret_def)
  have "rv_clock (view s1) \<le> rv_clock (view s')"
  proof (cases "i = 1")
    case True
    then have "?store s3 = (res, s')" using r run by simp
    moreover have "ahead view ?store" by (auto simp del: rret_simps intro!: ahead_rdo)
    ultimately show ?thesis using aheadD [OF ahead_clean c] aheadD [OF ahead_cmds(4) l(1)] aheadD by (meson order.trans)
  qed (use r run in simp)
  then have "rv_clock (view s1) < D" using time by simp
  moreover obtain rr where q: "client s (Exists (tkey old)) = (rr, s1)" "Inr i = (case rr of Inl e \<Rightarrow> Inl e | Inr (RInt i) \<Rightarrow> Inr i | _ \<Rightarrow> Inl bad_reply)"
    using as_int_state [OF e [unfolded redisExistsFn_def]] by blast
  ultimately have "rv_keys (at_time (rv_clock (view s1)) (view s)) (tkey old) \<noteq> None"
    using old(2) cmd(1) [OF q(1)] by (simp add: at_time_keys holds_entry_def aged_def)
  then have "i = 1" using cmd(3) [OF q(1)] q(2) by (simp add: redis_answer_def redis_reply_def)
  then show ?thesis using r run st by simp
qed

end

lemma reliable_redis_redis: "reliable_redis client view \<Longrightarrow> redis client view"
  unfolding reliable_redis_def redis_def redis_step_def by blast

text \<open>C9. Rotating a token into itself kills the session, and reports success. (Refresh tokens for one account and role that
  are issued within the same second are the same text, as the times of a token are whole seconds and nothing else in it
  varies, so that a refresh right after the login renews the token by itself.) On a Redis that answers, with the token live
  until the call is over and at most nine sessions in the account's hash, \<open>StateTokenWithRenew\<close> answers no error, but it
  deletes what it has just stored: afterwards the token has no key and the account's hash does not list it.\<close>

theorem rotation_into_itself:
  assumes "reliable_redis client view" "digest t" "acc \<noteq> []" "hashy (akey acc) 9 (view s)"
    and "holds_entry (tkey t) (Some (x, Some D)) (view s)" "rv_clock (view s') < D"
    and "StateTokenWithRenew client t t acc val d s = (res, s')"
  shows "res = Inr () \<and> rv_keys (view s') (tkey t) = None \<and> t \<notin> hash_tokens (view s') acc"
  using reliable_redis.renew_succeeds [OF assms(1) _ assms(5,2,3,4,7,6)] redis.renew_spends_old [OF reliable_redis_redis [OF assms(1)]]
    assms(2,7) by (auto simp: digest_def)

definition self_rotated :: "(goerr + unit) \<times> rview" where
  "self_rotated = StateTokenWithRenew mem_client ''aa'' ''aa'' ''7'' ''7:user'' 1000000000 signed_in"

theorem rotation_into_itself_witness:
  "rv_keys signed_in (tkey ''aa'') \<noteq> None \<and> fst self_rotated = Inr () \<and> rv_keys (snd self_rotated) (tkey ''aa'') = None"
proof -
  have d: "digest ''aa''" "''7'' \<noteq> []" by (simp_all add: digest_def)
  have h: "hashy (akey ''7'') 9 signed_in" by code_simp
  have l: "rv_keys signed_in (tkey ''aa'') = Some (RText ''7:user'', Some 1000000000)" "rv_clock signed_in = 0" by code_simp+
  then have e: "holds_entry (tkey ''aa'') (Some (RText ''7:user'', Some 1000000000)) signed_in" by (simp add: holds_entry_def aged_def)
  have c: "rv_clock (snd self_rotated) < 1000000000" by code_simp
  have r: "StateTokenWithRenew mem_client ''aa'' ''aa'' ''7'' ''7:user'' 1000000000 signed_in = (fst self_rotated, snd self_rotated)"
    by (simp add: self_rotated_def)
  from rotation_into_itself [OF memr.reliable_redis_axioms d h e c r] l show ?thesis by simp
qed

end
