(* ===== verification/Gateway.thy ===== *)
theory Gateway
  imports Jwt
begin

text \<open>
  The HTTP middleware of the API gateway (\<open>lib/http/middleware/jwt.go\<close>) and its installation
  (\<open>lib/http/server/http.go\<close>): where a request's token comes from, when it is refreshed, the cookies,
  and what reaches the handler. A handler is a parameter; it gets the request context and the state of the
  services behind the gateway.
\<close>

section \<open>Requests, contexts, cookies\<close>

record http_request =
  rq_Path :: string
  rq_Cookies :: "(string \<times> string) list"
  rq_Authorization :: string
  rq_TLS :: bool

record Cookie =
  ck_Name :: string
  ck_Value :: string
  ck_Path :: string
  ck_HttpOnly :: bool
  ck_Secure :: bool
  ck_SameSiteLax :: bool
  ck_MaxAge :: int

text \<open>What \<open>c.Set\<close> stored and the cookies set on the response so far.\<close>

record echo_ctx =
  ec_AccountID :: "string option"
  ec_Role :: "string option"
  ec_Token :: "string option"
  ec_SetCookies :: "Cookie list"

definition new_ctx :: echo_ctx where
  "new_ctx = \<lparr>ec_AccountID = None, ec_Role = None, ec_Token = None, ec_SetCookies = []\<rparr>"

text \<open>The JSON bodies of the gateway: a status, the fields \<open>code\<close> and \<open>message\<close>, and \<open>data\<close> when present. Only
  echo's own error bodies have no \<open>code\<close>.\<close>

record 'd http_response =
  hr_Status :: int
  hr_Code :: "int option"
  hr_Message :: string
  hr_Data :: "'d option"

type_synonym ('d, 's) next_handler = "echo_ctx \<Rightarrow> 's \<Rightarrow> 'd http_response \<times> echo_ctx \<times> 's"

text \<open>\<open>TokenRefresher\<close>: the new access token, the new refresh token and the lifetime.\<close>

type_synonym ('e, 's) TokenRefresher = "string \<Rightarrow> 's \<Rightarrow> ('e + string \<times> string \<times> int) \<times> 's"

text \<open>The clock at the three places a request reads it.\<close>

record clock_reads =
  cr_parse :: int
  cr_until :: int
  cr_reparse :: int

definition accessTokenCookieName :: string where "accessTokenCookieName = ''access_token''"

definition refreshTokenCookieName :: string where "refreshTokenCookieName = ''refresh_token''"

text \<open>\<open>c.Cookie(name)\<close>: the first cookie of the name, an error when there is none.\<close>

definition cookie_value :: "http_request \<Rightarrow> string \<Rightarrow> string option" where
  "cookie_value req name = map_of (rq_Cookies req) name"

definition unauthorized :: "string \<Rightarrow> 'd http_response" where
  "unauthorized msg = \<lparr>hr_Status = 401, hr_Code = Some 401, hr_Message = msg, hr_Data = None\<rparr>"

text \<open>echo's recovery middleware turns a panic of a handler into an error, which its default error handler
  answers.\<close>

definition ServerRecoveryInterceptor :: "'d http_response option \<Rightarrow> 'd http_response" where
  "ServerRecoveryInterceptor out =
     (case out of Some resp \<Rightarrow> resp
      | None \<Rightarrow> \<lparr>hr_Status = 500, hr_Code = None, hr_Message = ''Internal Server Error'', hr_Data = None\<rparr>)"

section \<open>The middleware\<close>

definition resolveToken :: "http_request \<Rightarrow> string" where
  "resolveToken req =
     (case cookie_value req accessTokenCookieName of
        Some v \<Rightarrow>
          (if v \<noteq> [] then v
           else case CutPrefix (rq_Authorization req) ''Bearer '' of (tk, ok) \<Rightarrow> if ok then tk else [])
      | None \<Rightarrow> (case CutPrefix (rq_Authorization req) ''Bearer '' of (tk, ok) \<Rightarrow> if ok then tk else []))"

definition resolveRefreshToken :: "http_request \<Rightarrow> string" where
  "resolveRefreshToken req =
     (case cookie_value req refreshTokenCookieName of Some v \<Rightarrow> (if v \<noteq> [] then v else []) | None \<Rightarrow> [])"

text \<open>A tenth of the token's validity, kept between ten seconds and five minutes; durations are in
  nanoseconds and Go's division truncates. (\<open>Sub\<close> and \<open>Until\<close> saturate at about 292 years; the threshold is
  at most five minutes, so the comparison comes out the same.)\<close>

definition expiry_threshold :: "int \<Rightarrow> int" where
  "expiry_threshold totalValidity =
     (let t = (if totalValidity \<ge> 0 then totalValidity div 10 else - ((- totalValidity) div 10));
          t1 = (if t < 10 * second then 10 * second else t)
      in if t1 > 5 * 60 * second then 5 * 60 * second else t1)"

definition isTokenNearExpiry :: "int \<Rightarrow> JwtClaims \<Rightarrow> bool" where
  "isTokenNearExpiry now claims =
     (case (IssuedAt claims, ExpiresAt claims) of
        (Some i, Some e) \<Rightarrow> e * second - now < expiry_threshold (e * second - i * second)
      | _ \<Rightarrow> False)"

definition setContext :: "echo_ctx \<Rightarrow> JwtClaims \<Rightarrow> string \<Rightarrow> echo_ctx" where
  "setContext c claims tokenStr =
     c\<lparr>ec_AccountID := Some (AccountId claims), ec_Role := Some (Role claims), ec_Token := Some tokenStr\<rparr>"

definition token_cookie :: "http_request \<Rightarrow> string \<Rightarrow> string \<Rightarrow> int \<Rightarrow> Cookie" where
  "token_cookie req name v maxAge =
     \<lparr>ck_Name = name, ck_Value = v, ck_Path = ''/api'', ck_HttpOnly = True, ck_Secure = rq_TLS req, ck_SameSiteLax = True,
      ck_MaxAge = maxAge\<rparr>"

text \<open>\<open>expiresIn * 6\<close> in 64 bits.\<close>

definition refreshMaxAge :: "int \<Rightarrow> int" where
  "refreshMaxAge expiresIn =
     (let m = int64_conv (expiresIn * 6) in if m > 7 * 24 * 3600 then 7 * 24 * 3600 else m)"

definition SetTokenCookies :: "http_request \<Rightarrow> echo_ctx \<Rightarrow> string \<Rightarrow> string \<Rightarrow> int \<Rightarrow> echo_ctx" where
  "SetTokenCookies req c accessToken refreshToken expiresIn =
     c\<lparr>ec_SetCookies := ec_SetCookies c @
        [token_cookie req accessTokenCookieName accessToken expiresIn,
         token_cookie req refreshTokenCookieName refreshToken (refreshMaxAge expiresIn)]\<rparr>"

definition ClearTokenCookies :: "http_request \<Rightarrow> echo_ctx \<Rightarrow> echo_ctx" where
  "ClearTokenCookies req c =
     c\<lparr>ec_SetCookies := ec_SetCookies c @
        [token_cookie req accessTokenCookieName [] (-1), token_cookie req refreshTokenCookieName [] (-1)]\<rparr>"

definition doRefresh ::
  "jwtlib \<Rightarrow> string \<Rightarrow> clock_reads \<Rightarrow> http_request \<Rightarrow> ('e, 's) TokenRefresher \<Rightarrow> string \<Rightarrow> ('d, 's) next_handler \<Rightarrow> ('d, 's) next_handler" where
  "doRefresh lib key tm req refresher refreshToken nxt c s =
     (case refresher refreshToken s of
        (Inl e, s1) \<Rightarrow> (unauthorized ''token expired'', ClearTokenCookies req c, s1)
      | (Inr (newAccess, newRefresh, expiresIn), s1) \<Rightarrow>
          (let c1 = SetTokenCookies req c newAccess newRefresh expiresIn in
           case JwtWithParseToken lib key (cr_reparse tm) newAccess None of
             Inl e \<Rightarrow> (unauthorized ''invalid token'', c1, s1)
           | Inr newClaims \<Rightarrow> nxt (setContext c1 newClaims newAccess) s1))"

definition tryRefresh ::
  "jwtlib \<Rightarrow> string \<Rightarrow> clock_reads \<Rightarrow> http_request \<Rightarrow> ('e, 's) TokenRefresher \<Rightarrow> ('d, 's) next_handler \<Rightarrow> ('d, 's) next_handler" where
  "tryRefresh lib key tm req refresher nxt c s =
     (let refreshToken = resolveRefreshToken req in
      if refreshToken = [] then nxt c s else doRefresh lib key tm req refresher refreshToken nxt c s)"

definition ServerJWTInterceptor ::
  "jwtlib \<Rightarrow> string \<Rightarrow> (http_request \<Rightarrow> bool) \<Rightarrow> ('e, 's) TokenRefresher option \<Rightarrow> clock_reads \<Rightarrow> http_request \<Rightarrow>
   ('d, 's) next_handler \<Rightarrow> ('d, 's) next_handler" where
  "ServerJWTInterceptor lib key skipper refresher tm req nxt c s =
     (if skipper req then nxt c s
      else let tokenStr = resolveToken req in
        if tokenStr = [] then (unauthorized ''missing authorization'', c, s)
        else case JwtWithParseToken lib key (cr_parse tm) tokenStr None of
          Inr claims \<Rightarrow>
            (case refresher of
               Some rf \<Rightarrow>
                 (if isTokenNearExpiry (cr_until tm) claims then tryRefresh lib key tm req rf nxt c s
                  else nxt (setContext c claims tokenStr) s)
             | None \<Rightarrow> nxt (setContext c claims tokenStr) s)
        | Inl e \<Rightarrow>
            (if e \<noteq> ErrTokenExpired then (unauthorized ''invalid token'', c, s)
             else case refresher of
               None \<Rightarrow> (unauthorized ''token expired'', c, s)
             | Some rf \<Rightarrow>
                 (let refreshToken = resolveRefreshToken req in
                  if refreshToken = [] then (unauthorized ''token expired'', c, s)
                  else doRefresh lib key tm req rf refreshToken nxt c s)))"

text \<open>The skipper that \<open>Serve\<close> installs.\<close>

definition open_path :: "http_request \<Rightarrow> bool" where
  "open_path req =
     (rq_Path req = ''/api/v1/auth/register'' \<or> rq_Path req = ''/api/v1/auth/login'' \<or>
      rq_Path req = ''/api/v1/auth/token/refresh'' \<or> rq_Path req = ''/api/v1/auth/token/revoke'')"

section \<open>What reaches the handler\<close>

text \<open>The context names the account of an accepted token: the request's own, or one that a refresh cookie was
  exchanged for.\<close>

definition names_token :: "jwtlib \<Rightarrow> string \<Rightarrow> clock_reads \<Rightarrow> http_request \<Rightarrow> echo_ctx \<Rightarrow> bool" where
  "names_token lib key tm req c =
     (\<exists>tk claims t. ec_Token c = Some tk \<and> JwtWithParseToken lib key t tk None = Inr claims \<and>
        ec_AccountID c = Some (AccountId claims) \<and> ec_Role c = Some (Role claims) \<and>
        (t = cr_parse tm \<and> tk = resolveToken req \<or> t = cr_reparse tm \<and> resolveRefreshToken req \<noteq> []))"

lemma names_setContext:
  "JwtWithParseToken lib key (cr_parse tm) (resolveToken req) None = Inr claims \<Longrightarrow>
   names_token lib key tm req (setContext c claims (resolveToken req))"
  "JwtWithParseToken lib key (cr_reparse tm) tk None = Inr claims \<Longrightarrow> resolveRefreshToken req \<noteq> [] \<Longrightarrow>
   names_token lib key tm req (setContext c claims tk)"
  by (auto simp: names_token_def setContext_def)

lemma refresh_guards:
  assumes "doRefresh lib key tm req rf tk nxt c s = (resp, c', s')" "resolveRefreshToken req \<noteq> []"
  shows "(\<exists>m. resp = unauthorized m \<and> s' = snd (rf tk s)) \<or>
    (\<exists>c1. names_token lib key tm req c1 \<and> nxt c1 (snd (rf tk s)) = (resp, c', s'))"
  using assms names_setContext(2) [of lib key tm _ _ req]
  by (auto simp: doRefresh_def Let_def split: prod.splits sum.splits)

text \<open>The three ways through the middleware: refused, passed on with an accepted token, or, for a token close
  to its expiry without a refresh cookie, passed on with no account at all. The refresher is called at most once,
  with the refresh cookie.\<close>

definition refreshed :: "('e, 's) TokenRefresher option \<Rightarrow> http_request \<Rightarrow> 's \<Rightarrow> 's" where
  "refreshed refresher req s = (case refresher of None \<Rightarrow> s | Some rf \<Rightarrow> snd (rf (resolveRefreshToken req) s))"

lemma interceptor_ways:
  assumes "ServerJWTInterceptor lib key skipper refresher tm req nxt c s = (resp, c', s')" "\<not> skipper req"
  shows "(\<exists>m. resp = unauthorized m \<and> (s' = s \<or> s' = refreshed refresher req s)) \<or>
    (\<exists>c1. names_token lib key tm req c1 \<and> (nxt c1 s = (resp, c', s') \<or> nxt c1 (refreshed refresher req s) = (resp, c', s'))) \<or>
    (\<exists>claims. JwtWithParseToken lib key (cr_parse tm) (resolveToken req) None = Inr claims \<and>
       isTokenNearExpiry (cr_until tm) claims \<and> resolveRefreshToken req = [] \<and> nxt c s = (resp, c', s'))"
proof (cases "JwtWithParseToken lib key (cr_parse tm) (resolveToken req) None")
  case (Inl e)
  show ?thesis
  proof (cases "e = ErrTokenExpired \<and> resolveRefreshToken req \<noteq> [] \<and> refresher \<noteq> None \<and> resolveToken req \<noteq> []")
    case True
    then obtain rf where rf: "refresher = Some rf" by auto
    then have "doRefresh lib key tm req rf (resolveRefreshToken req) nxt c s = (resp, c', s')"
      using assms Inl True by (simp add: ServerJWTInterceptor_def Let_def)
    from refresh_guards [OF this] True rf show ?thesis by (simp add: refreshed_def) blast
  next
    case False
    then show ?thesis using assms Inl by (auto simp: ServerJWTInterceptor_def Let_def split: if_splits option.splits)
  qed
next
  case (Inr claims)
  note n = names_setContext(1) [OF Inr, of c]
  show ?thesis
  proof (cases "isTokenNearExpiry (cr_until tm) claims \<and> resolveRefreshToken req \<noteq> [] \<and> refresher \<noteq> None \<and> resolveToken req \<noteq> []")
    case True
    then obtain rf where rf: "refresher = Some rf" by auto
    then have "doRefresh lib key tm req rf (resolveRefreshToken req) nxt c s = (resp, c', s')"
      using assms Inr True by (simp add: ServerJWTInterceptor_def tryRefresh_def Let_def)
    from refresh_guards [OF this] True rf show ?thesis by (simp add: refreshed_def) blast
  next
    case False
    then show ?thesis using assms Inr n
      by (auto simp: ServerJWTInterceptor_def tryRefresh_def Let_def split: if_splits option.splits)
  qed
qed

section \<open>Bounds\<close>

text \<open>The lifetime of the refresh cookie: never more than seven days, for every 64-bit lifetime of the access
  token, overflow of the product included; and six times that lifetime, cut to seven days, for every lifetime up to
  \<open>2 ^ 60\<close> seconds.\<close>

theorem refresh_cookie_age:
  "refreshMaxAge expiresIn \<le> 604800 \<and>
   (0 \<le> expiresIn \<and> expiresIn \<le> 2 ^ 60 \<longrightarrow>
     ec_SetCookies (SetTokenCookies req c accessToken refreshToken expiresIn) =
       ec_SetCookies c @ [token_cookie req ''access_token'' accessToken expiresIn,
         token_cookie req ''refresh_token'' refreshToken (min (expiresIn * 6) 604800)])"
proof -
  have "int64_conv (expiresIn * 6) = expiresIn * 6" if "0 \<le> expiresIn" "expiresIn \<le> 2 ^ 60"
    using that by (intro int64_conv_id) (simp add: is_int64_def)
  then show ?thesis
    by (auto simp: SetTokenCookies_def refreshMaxAge_def Let_def accessTokenCookieName_def refreshTokenCookieName_def)
qed

theorem refresh_cookie_age_witness:
  "map ck_MaxAge (ec_SetCookies (SetTokenCookies \<lparr>rq_Path = [], rq_Cookies = [], rq_Authorization = [], rq_TLS = True\<rparr> new_ctx
     ''a'' ''r'' 7200)) = [7200, 43200] \<and> refreshMaxAge (2 ^ 62) \<le> 604800"
  using refresh_cookie_age [of 7200 "\<lparr>rq_Path = [], rq_Cookies = [], rq_Authorization = [], rq_TLS = True\<rparr>" new_ctx "''a''" "''r''"]
    refresh_cookie_age [of "2 ^ 62"]
  by (simp add: new_ctx_def token_cookie_def)

end
