(* ===== verification/ApiCore.thy ===== *)
theory ApiCore
  imports Gateway CashFlow BalanceSheet Portfolio Profile
begin

text \<open>
  The API gateway in front of \<open>personal-core\<close>: the HTTP handlers
  (\<open>apps/personal-api/pkg/handler\<close>), the client services they call (\<open>pkg/service\<close>) and the messages
  (\<open>pkg/model\<close>). A handler reads the account from the request context, the path and query parameters and the
  bound body, calls one method of the core service with the account in the metadata and answers in JSON. The
  gRPC stubs are a parameter: one function per method, on the state of the services behind the gateway.
\<close>

section \<open>handler/utils.go\<close>

text \<open>An error of a stub: a gRPC status, or anything else.\<close>

datatype rpc_error = RpcStatus status | RpcOther string

definition Respond :: "int \<Rightarrow> int \<Rightarrow> string \<Rightarrow> 'd option \<Rightarrow> 'd http_response" where
  "Respond httpStatus code1 message data =
     \<lparr>hr_Status = httpStatus, hr_Code = Some code1, hr_Message = message, hr_Data = data\<rparr>"

definition GrpcStatusToHTTP :: "rpc_error \<Rightarrow> int \<times> string" where
  "GrpcStatusToHTTP err =
     (case err of
        RpcOther m \<Rightarrow> (500, ''internal server error'')
      | RpcStatus st \<Rightarrow>
          (case status_code st of
             InvalidArgument \<Rightarrow> (400, status_message st)
           | Unauthenticated \<Rightarrow> (401, status_message st)
           | PermissionDenied \<Rightarrow> (403, status_message st)
           | NotFound \<Rightarrow> (404, status_message st)
           | AlreadyExists \<Rightarrow> (409, status_message st)
           | ResourceExhausted \<Rightarrow> (429, status_message st)
           | FailedPrecondition \<Rightarrow> (400, status_message st)
           | Unimplemented \<Rightarrow> (501, status_message st)
           | Unavailable \<Rightarrow> (503, status_message st)
           | DeadlineExceeded \<Rightarrow> (504, status_message st)
           | _ \<Rightarrow> (500, ''internal server error'')))"

definition respond_error :: "rpc_error \<Rightarrow> 'd http_response" where
  "respond_error err = (case GrpcStatusToHTTP err of (httpStatus, msg) \<Rightarrow> Respond httpStatus httpStatus msg None)"

text \<open>The end of every handler: the error's answer, or 200 with the data.\<close>

definition respond_result :: "('a \<Rightarrow> 'd option) \<Rightarrow> (rpc_error + 'a) \<times> 's \<Rightarrow> 'd http_response \<times> 's" where
  "respond_result f r =
     (case r of
        (Inl e, s) \<Rightarrow> (respond_error e, s)
      | (Inr x, s) \<Rightarrow> (Respond 200 0 ''success'' (f x), s))"

definition invalid_body :: "'d http_response" where
  "invalid_body = Respond 400 400 ''invalid request body'' None"

definition invalid_id :: "'d http_response" where
  "invalid_id = Respond 400 400 ''invalid id'' None"

text \<open>\<open>strconv.ParseInt(s, 10, 64)\<close>, and its value when the error is dropped: zero for text that is no
  number, the nearest 64-bit value for one out of range. \<open>strconv.Atoi\<close> is the same on 64 bits.\<close>

definition ParseInt64 :: "string \<Rightarrow> int option" where
  "ParseInt64 s = (case parse_int s of Some i \<Rightarrow> (if is_int64 i then Some i else None) | None \<Rightarrow> None)"

definition Atoi_value :: "string \<Rightarrow> int" where
  "Atoi_value s = (case parse_int s of Some i \<Rightarrow> max (- (2 ^ 63)) (min (2 ^ 63 - 1) i) | None \<Rightarrow> 0)"

text \<open>Query parameters by name (empty when absent), the path parameter \<open>id\<close>, and what \<open>c.Bind\<close> made of
  the body (\<open>None\<close> when it failed).\<close>

record 'b api_input =
  in_Query :: "string \<Rightarrow> string"
  in_Id :: string
  in_Body :: "'b option"

definition parseQueryInt :: "'b api_input \<Rightarrow> string \<Rightarrow> int \<Rightarrow> int" where
  "parseQueryInt i name defaultVal =
     (let v = in_Query i name in
      if v = [] then defaultVal else case ParseInt64 v of None \<Rightarrow> defaultVal | Some n \<Rightarrow> n)"

definition with_body :: "'b api_input \<Rightarrow> ('b \<Rightarrow> 's \<Rightarrow> 'd http_response \<times> 's) \<Rightarrow> 's \<Rightarrow> 'd http_response \<times> 's" where
  "with_body i f s = (case in_Body i of None \<Rightarrow> (invalid_body, s) | Some b \<Rightarrow> f b s)"

definition with_id :: "'b api_input \<Rightarrow> (int \<Rightarrow> 's \<Rightarrow> 'd http_response \<times> 's) \<Rightarrow> 's \<Rightarrow> 'd http_response \<times> 's" where
  "with_id i f s = (case ParseInt64 (in_Id i) of None \<Rightarrow> (invalid_id, s) | Some n \<Rightarrow> f n s)"

text \<open>\<open>accountID(c)\<close> of \<open>handler/cash_flow.go\<close>: empty when the context carries none. The token that
  \<open>tokenCtx\<close> puts into the Go context stays in the process: no code reads it back.\<close>

definition accountID :: "echo_ctx \<Rightarrow> string" where
  "accountID c = (case ec_AccountID c of Some v \<Rightarrow> v | None \<Rightarrow> [])"

text \<open>\<open>withAccountID\<close>: the values of the metadata key \<open>account_id\<close>.\<close>

definition withAccountID :: "string \<Rightarrow> string list" where
  "withAccountID acc = [acc]"

section \<open>pkg/model\<close>

text \<open>Create and update requests of one kind share a record; a create request has no id.\<close>

record ApiCategory =
  ac_ID :: int
  ac_AccountID :: string
  ac_Name :: string
  ac_Type :: string
  ac_SortOrder :: int
  ac_Date :: string
  ac_CreatedAt :: int
  ac_UpdatedAt :: int

record ApiCategoryRequest =
  acr_ID :: int
  acr_Name :: string
  acr_Type :: string
  acr_SortOrder :: int
  acr_Date :: string

record ApiTransaction =
  at_ID :: int
  at_AccountID :: string
  at_CategoryID :: int
  at_Type :: string
  at_Name :: string
  at_Amount :: int
  at_Date :: string
  at_Note :: string
  at_SortOrder :: int
  at_CreatedAt :: int
  at_UpdatedAt :: int

record ApiTransactionRequest =
  atr_ID :: int
  atr_CategoryID :: int
  atr_Type :: string
  atr_Name :: string
  atr_Amount :: int
  atr_Date :: string
  atr_Note :: string
  atr_SortOrder :: int

record ApiListTransactionsRequest =
  alr_Year :: int
  alr_Month :: int
  alr_CategoryID :: int
  alr_Page :: int
  alr_PageSize :: int

record ApiItem =
  ai_ID :: int
  ai_AccountID :: string
  ai_Section :: int
  ai_Category :: string
  ai_Name :: string
  ai_Amount :: int
  ai_Note :: string
  ai_Date :: string
  ai_SortOrder :: int
  ai_CreatedAt :: int
  ai_UpdatedAt :: int

record ApiItemRequest =
  air_ID :: int
  air_Category :: string
  air_Name :: string
  air_Amount :: int
  air_Note :: string
  air_Date :: string
  air_SortOrder :: int

record ApiSummary =
  asu_Date :: string
  asu_TotalAssets :: int
  asu_TotalLiabilities :: int
  asu_TotalEquity :: int

record ApiPosition =
  ap_ID :: int
  ap_AccountID :: string
  ap_Code :: string
  ap_Name :: string
  ap_Type :: int
  ap_Direction :: string
  ap_InitialQty :: int
  ap_CurrentPrice :: int
  ap_MarginRatio :: int
  ap_SortOrder :: int
  ap_Archived :: bool
  ap_ClosedPnl :: int
  ap_CreatedAt :: int
  ap_UpdatedAt :: int

record ApiPositionRequest =
  apr_ID :: int
  apr_Code :: string
  apr_Name :: string
  apr_Type :: int
  apr_Direction :: string
  apr_InitialQty :: int
  apr_CurrentPrice :: int
  apr_MarginRatio :: int
  apr_SortOrder :: int
  apr_Archived :: bool
  apr_ClosedPnl :: int

record ApiTrade =
  atd_ID :: int
  atd_AccountID :: string
  atd_PositionID :: int
  atd_Type :: int
  atd_Date :: string
  atd_Price :: int
  atd_Quantity :: int
  atd_Fee :: int
  atd_Note :: string
  atd_CreatedAt :: int
  atd_UpdatedAt :: int

record ApiTradeRequest =
  atdr_ID :: int
  atdr_PositionID :: int
  atdr_Type :: int
  atdr_Date :: string
  atdr_Price :: int
  atdr_Quantity :: int
  atdr_Fee :: int
  atdr_Note :: string

record ApiSnapshot =
  asn_Date :: string
  asn_TotalValue :: int

record ApiProfile =
  apf_ID :: int
  apf_AccountID :: string
  apf_Nickname :: string
  apf_Email :: string
  apf_Bio :: string
  apf_AvatarURL :: string
  apf_CreatedAt :: int
  apf_UpdatedAt :: int

record ApiUpdateProfileRequest =
  apu_Nickname :: string
  apu_Email :: string
  apu_Bio :: string
  apu_AvatarURL :: string

text \<open>The \<open>data\<close> of an answer.\<close>

datatype payload =
    DCategories "ApiCategory list" | DCategory ApiCategory
  | DTransactions "ApiTransaction list" int | DTransaction ApiTransaction
  | DItems "ApiItem list" | DItem ApiItem | DSummaries "ApiSummary list"
  | DPositions "ApiPosition list" | DPosition ApiPosition
  | DTrades "ApiTrade list" | DTrade ApiTrade
  | DSnapshots "ApiSnapshot list" | DSnapshot ApiSnapshot | DConfig int
  | DProfile ApiProfile
  | DExpiresIn int | DValidated string int

section \<open>The stubs of personal-core\<close>

type_synonym ('s, 'a) rpc = "string list \<Rightarrow> 's \<Rightarrow> (rpc_error + 'a) \<times> 's"

record 's core_client =
  cc_ListCategories :: "int \<Rightarrow> int \<Rightarrow> ('s, PbCategory list) rpc"
  cc_CreateCategory :: "CategoryRequest \<Rightarrow> ('s, PbCategory) rpc"
  cc_UpdateCategory :: "CategoryRequest \<Rightarrow> ('s, PbCategory) rpc"
  cc_DeleteCategory :: "int \<Rightarrow> ('s, unit) rpc"
  cc_ListTransactions :: "ListTransactionsRequest \<Rightarrow> ('s, PbTransaction list \<times> int) rpc"
  cc_CreateTransaction :: "TransactionRequest \<Rightarrow> ('s, PbTransaction) rpc"
  cc_UpdateTransaction :: "TransactionRequest \<Rightarrow> ('s, PbTransaction) rpc"
  cc_DeleteTransaction :: "int \<Rightarrow> ('s, unit) rpc"
  cc_ListItems :: "int \<Rightarrow> int \<Rightarrow> ('s, PbItem list) rpc"
  cc_CreateItem :: "ItemRequest \<Rightarrow> ('s, PbItem) rpc"
  cc_UpdateItem :: "ItemRequest \<Rightarrow> ('s, PbItem) rpc"
  cc_ListMonthlySummaries :: "int \<Rightarrow> ('s, MonthlySummary list) rpc"
  cc_DeleteItem :: "int \<Rightarrow> ('s, unit) rpc"
  cc_ListPositions :: "('s, PbPosition list) rpc"
  cc_CreatePosition :: "PositionRequest \<Rightarrow> ('s, PbPosition) rpc"
  cc_UpdatePosition :: "PositionRequest \<Rightarrow> ('s, PbPosition) rpc"
  cc_DeletePosition :: "int \<Rightarrow> ('s, unit) rpc"
  cc_ListTrades :: "int \<Rightarrow> ('s, PbTrade list) rpc"
  cc_CreateTrade :: "TradeRequest \<Rightarrow> ('s, PbTrade) rpc"
  cc_UpdateTrade :: "TradeRequest \<Rightarrow> ('s, PbTrade) rpc"
  cc_DeleteTrade :: "int \<Rightarrow> ('s, unit) rpc"
  cc_ListSnapshots :: "('s, PbValueSnapshot list) rpc"
  cc_UpsertSnapshot :: "string \<Rightarrow> int \<Rightarrow> ('s, PbValueSnapshot) rpc"
  cc_GetConfig :: "('s, int) rpc"
  cc_UpdateConfig :: "int \<Rightarrow> ('s, int) rpc"
  cc_GetProfile :: "('s, ProfileInfo) rpc"
  cc_UpdateProfile :: "UpdateProfileRequest \<Rightarrow> ('s, ProfileInfo) rpc"

text \<open>\<open>if err != nil { return nil, err }\<close> and the conversion of the answer.\<close>

definition map_rpc :: "('a \<Rightarrow> 'b) \<Rightarrow> (rpc_error + 'a) \<times> 's \<Rightarrow> (rpc_error + 'b) \<times> 's" where
  "map_rpc f r = (case r of (Inl e, s) \<Rightarrow> (Inl e, s) | (Inr x, s) \<Rightarrow> (Inr (f x), s))"

section \<open>service/cash\_flow.go\<close>

definition cashFlowTypeToProto :: "string \<Rightarrow> rpc_error + int" where
  "cashFlowTypeToProto t =
     (if t = ''income'' then Inr INCOME else if t = ''expense'' then Inr EXPENSE
      else Inl (RpcStatus (Status InvalidArgument ''unsupported cash_flow_type'')))"

definition cashFlowTypeFromProto :: "int \<Rightarrow> string" where
  "cashFlowTypeFromProto t = (if t = INCOME then ''income'' else if t = EXPENSE then ''expense'' else [])"

definition categoryFromProto :: "PbCategory \<Rightarrow> ApiCategory" where
  "categoryFromProto c =
      \<lparr>ac_ID = pc_Id c, ac_AccountID = pc_AccountId c, ac_Name = pc_Name c,
       ac_Type = cashFlowTypeFromProto (pc_Type c), ac_SortOrder = pc_SortOrder c, ac_Date = pc_Date c,
       ac_CreatedAt = pc_CreatedAt c, ac_UpdatedAt = pc_UpdatedAt c\<rparr>"

definition transactionFromProto :: "PbTransaction \<Rightarrow> ApiTransaction" where
  "transactionFromProto t =
      \<lparr>at_ID = pt_Id t, at_AccountID = pt_AccountId t, at_CategoryID = pt_CategoryId t,
       at_Type = cashFlowTypeFromProto (pt_Type t), at_Name = pt_Name t, at_Amount = pt_Amount t,
       at_Date = pt_Date t, at_Note = pt_Note t, at_SortOrder = pt_SortOrder t, at_CreatedAt = pt_CreatedAt t,
       at_UpdatedAt = pt_UpdatedAt t\<rparr>"

definition CashFlowService_ListCategories ::
  "'s core_client \<Rightarrow> string \<Rightarrow> int \<Rightarrow> int \<Rightarrow> 's \<Rightarrow> (rpc_error + ApiCategory list) \<times> 's" where
  "CashFlowService_ListCategories cl acc year month s =
     map_rpc (map categoryFromProto) (cc_ListCategories cl (int32_conv year) (int32_conv month) (withAccountID acc) s)"

definition CashFlowService_CreateCategory ::
  "'s core_client \<Rightarrow> string \<Rightarrow> ApiCategoryRequest \<Rightarrow> 's \<Rightarrow> (rpc_error + ApiCategory) \<times> 's" where
  "CashFlowService_CreateCategory cl acc req s =
     (case cashFlowTypeToProto (acr_Type req) of
        Inl e \<Rightarrow> (Inl e, s)
      | Inr pbType \<Rightarrow>
          map_rpc categoryFromProto (cc_CreateCategory cl
            \<lparr>rc_Id = 0, rc_Name = acr_Name req, rc_Type = pbType, rc_SortOrder = int32_conv (acr_SortOrder req), rc_Date = acr_Date req\<rparr>
            (withAccountID acc) s))"

definition CashFlowService_UpdateCategory ::
  "'s core_client \<Rightarrow> string \<Rightarrow> ApiCategoryRequest \<Rightarrow> 's \<Rightarrow> (rpc_error + ApiCategory) \<times> 's" where
  "CashFlowService_UpdateCategory cl acc req s =
     (case cashFlowTypeToProto (acr_Type req) of
        Inl e \<Rightarrow> (Inl e, s)
      | Inr pbType \<Rightarrow>
          map_rpc categoryFromProto (cc_UpdateCategory cl
            \<lparr>rc_Id = acr_ID req, rc_Name = acr_Name req, rc_Type = pbType, rc_SortOrder = int32_conv (acr_SortOrder req), rc_Date = acr_Date req\<rparr>
            (withAccountID acc) s))"

definition CashFlowService_DeleteCategory ::
  "'s core_client \<Rightarrow> string \<Rightarrow> int \<Rightarrow> 's \<Rightarrow> (rpc_error + unit) \<times> 's" where
  "CashFlowService_DeleteCategory cl acc rid s =
     cc_DeleteCategory cl rid (withAccountID acc) s"

definition CashFlowService_ListTransactions ::
  "'s core_client \<Rightarrow> string \<Rightarrow> ApiListTransactionsRequest \<Rightarrow> 's \<Rightarrow> (rpc_error + ApiTransaction list \<times> int) \<times> 's" where
  "CashFlowService_ListTransactions cl acc req s =
     map_rpc (\<lambda>(ts, n). (map transactionFromProto ts, n)) (cc_ListTransactions cl
       \<lparr>lt_Year = int32_conv (alr_Year req), lt_Month = int32_conv (alr_Month req), lt_CategoryId = alr_CategoryID req,
        lt_Page = int32_conv (alr_Page req), lt_PageSize = int32_conv (alr_PageSize req)\<rparr> (withAccountID acc) s)"

definition CashFlowService_CreateTransaction ::
  "'s core_client \<Rightarrow> string \<Rightarrow> ApiTransactionRequest \<Rightarrow> 's \<Rightarrow> (rpc_error + ApiTransaction) \<times> 's" where
  "CashFlowService_CreateTransaction cl acc req s =
     (case cashFlowTypeToProto (atr_Type req) of
        Inl e \<Rightarrow> (Inl e, s)
      | Inr pbType \<Rightarrow>
          map_rpc transactionFromProto (cc_CreateTransaction cl
               \<lparr>rt_Id = 0, rt_CategoryId = atr_CategoryID req, rt_Type = pbType, rt_Name = atr_Name req, rt_Amount = atr_Amount req,
                rt_Date = atr_Date req, rt_Note = atr_Note req, rt_SortOrder = int32_conv (atr_SortOrder req)\<rparr>
            (withAccountID acc) s))"

definition CashFlowService_UpdateTransaction ::
  "'s core_client \<Rightarrow> string \<Rightarrow> ApiTransactionRequest \<Rightarrow> 's \<Rightarrow> (rpc_error + ApiTransaction) \<times> 's" where
  "CashFlowService_UpdateTransaction cl acc req s =
     (case cashFlowTypeToProto (atr_Type req) of
        Inl e \<Rightarrow> (Inl e, s)
      | Inr pbType \<Rightarrow>
          map_rpc transactionFromProto (cc_UpdateTransaction cl
               \<lparr>rt_Id = atr_ID req, rt_CategoryId = atr_CategoryID req, rt_Type = pbType, rt_Name = atr_Name req, rt_Amount = atr_Amount req,
                rt_Date = atr_Date req, rt_Note = atr_Note req, rt_SortOrder = int32_conv (atr_SortOrder req)\<rparr>
            (withAccountID acc) s))"

definition CashFlowService_DeleteTransaction ::
  "'s core_client \<Rightarrow> string \<Rightarrow> int \<Rightarrow> 's \<Rightarrow> (rpc_error + unit) \<times> 's" where
  "CashFlowService_DeleteTransaction cl acc rid s =
     cc_DeleteTransaction cl rid (withAccountID acc) s"

section \<open>service/balance\_sheet.go\<close>

definition itemFromProto :: "PbItem \<Rightarrow> ApiItem" where
  "itemFromProto i =
      \<lparr>ai_ID = pi_Id i, ai_AccountID = pi_AccountId i, ai_Section = pi_Section i, ai_Category = pi_Category i,
       ai_Name = pi_Name i, ai_Amount = pi_Amount i, ai_Note = pi_Note i, ai_Date = pi_Date i,
       ai_SortOrder = pi_SortOrder i, ai_CreatedAt = pi_CreatedAt i, ai_UpdatedAt = pi_UpdatedAt i\<rparr>"

definition summaryFromProto :: "MonthlySummary \<Rightarrow> ApiSummary" where
  "summaryFromProto m =
      \<lparr>asu_Date = ms_Date m, asu_TotalAssets = ms_TotalAssets m, asu_TotalLiabilities = ms_TotalLiabilities m,
       asu_TotalEquity = ms_TotalEquity m\<rparr>"

definition BalanceSheetService_ListItems ::
  "'s core_client \<Rightarrow> string \<Rightarrow> int \<Rightarrow> int \<Rightarrow> 's \<Rightarrow> (rpc_error + ApiItem list) \<times> 's" where
  "BalanceSheetService_ListItems cl acc year month s =
     map_rpc (map itemFromProto) (cc_ListItems cl (int32_conv year) (int32_conv month) (withAccountID acc) s)"

definition BalanceSheetService_CreateItem ::
  "'s core_client \<Rightarrow> string \<Rightarrow> ApiItemRequest \<Rightarrow> 's \<Rightarrow> (rpc_error + ApiItem) \<times> 's" where
  "BalanceSheetService_CreateItem cl acc req s =
     map_rpc itemFromProto (cc_CreateItem cl
       \<lparr>ri_Id = 0, ri_Category = air_Category req, ri_Name = air_Name req, ri_Amount = air_Amount req, ri_Note = air_Note req,
        ri_Date = air_Date req, ri_SortOrder = int32_conv (air_SortOrder req)\<rparr>
       (withAccountID acc) s)"

definition BalanceSheetService_UpdateItem ::
  "'s core_client \<Rightarrow> string \<Rightarrow> ApiItemRequest \<Rightarrow> 's \<Rightarrow> (rpc_error + ApiItem) \<times> 's" where
  "BalanceSheetService_UpdateItem cl acc req s =
     map_rpc itemFromProto (cc_UpdateItem cl
       \<lparr>ri_Id = air_ID req, ri_Category = air_Category req, ri_Name = air_Name req, ri_Amount = air_Amount req, ri_Note = air_Note req,
        ri_Date = air_Date req, ri_SortOrder = int32_conv (air_SortOrder req)\<rparr>
       (withAccountID acc) s)"

definition BalanceSheetService_ListMonthlySummaries ::
  "'s core_client \<Rightarrow> string \<Rightarrow> int \<Rightarrow> 's \<Rightarrow> (rpc_error + ApiSummary list) \<times> 's" where
  "BalanceSheetService_ListMonthlySummaries cl acc months s =
     map_rpc (map summaryFromProto) (cc_ListMonthlySummaries cl (int32_conv months) (withAccountID acc) s)"

definition BalanceSheetService_DeleteItem ::
  "'s core_client \<Rightarrow> string \<Rightarrow> int \<Rightarrow> 's \<Rightarrow> (rpc_error + unit) \<times> 's" where
  "BalanceSheetService_DeleteItem cl acc rid s =
     cc_DeleteItem cl rid (withAccountID acc) s"

section \<open>service/portfolio.go\<close>

definition positionFromProto :: "PbPosition \<Rightarrow> ApiPosition" where
  "positionFromProto p =
      \<lparr>ap_ID = pp_Id p, ap_AccountID = pp_AccountId p, ap_Code = pp_Code p, ap_Name = pp_Name p,
       ap_Type = pp_Type p, ap_Direction = pp_Direction p, ap_InitialQty = pp_InitialQty p,
       ap_CurrentPrice = pp_CurrentPrice p, ap_MarginRatio = pp_MarginRatio p, ap_SortOrder = pp_SortOrder p,
       ap_Archived = pp_Archived p, ap_ClosedPnl = pp_ClosedPnl p, ap_CreatedAt = pp_CreatedAt p,
       ap_UpdatedAt = pp_UpdatedAt p\<rparr>"

definition tradeFromProto :: "PbTrade \<Rightarrow> ApiTrade" where
  "tradeFromProto t =
      \<lparr>atd_ID = ptr_Id t, atd_AccountID = ptr_AccountId t, atd_PositionID = ptr_PositionId t,
       atd_Type = ptr_Type t, atd_Date = ptr_Date t, atd_Price = ptr_Price t, atd_Quantity = ptr_Quantity t,
       atd_Fee = ptr_Fee t, atd_Note = ptr_Note t, atd_CreatedAt = ptr_CreatedAt t,
       atd_UpdatedAt = ptr_UpdatedAt t\<rparr>"

definition snapshotFromProto :: "PbValueSnapshot \<Rightarrow> ApiSnapshot" where
  "snapshotFromProto v =
      \<lparr>asn_Date = ps_Date v, asn_TotalValue = ps_TotalValue v\<rparr>"

definition PortfolioService_ListPositions ::
  "'s core_client \<Rightarrow> string \<Rightarrow> 's \<Rightarrow> (rpc_error + ApiPosition list) \<times> 's" where
  "PortfolioService_ListPositions cl acc s =
     map_rpc (map positionFromProto) (cc_ListPositions cl (withAccountID acc) s)"

definition PortfolioService_CreatePosition ::
  "'s core_client \<Rightarrow> string \<Rightarrow> ApiPositionRequest \<Rightarrow> 's \<Rightarrow> (rpc_error + ApiPosition) \<times> 's" where
  "PortfolioService_CreatePosition cl acc req s =
     map_rpc positionFromProto (cc_CreatePosition cl
       \<lparr>rp_Id = 0, rp_Code = apr_Code req, rp_Name = apr_Name req, rp_Type = int32_conv (apr_Type req),
        rp_Direction = apr_Direction req, rp_InitialQty = int32_conv (apr_InitialQty req), rp_CurrentPrice = apr_CurrentPrice req,
        rp_MarginRatio = int32_conv (apr_MarginRatio req), rp_SortOrder = int32_conv (apr_SortOrder req),
        rp_Archived = False, rp_ClosedPnl = 0\<rparr>
       (withAccountID acc) s)"

definition PortfolioService_UpdatePosition ::
  "'s core_client \<Rightarrow> string \<Rightarrow> ApiPositionRequest \<Rightarrow> 's \<Rightarrow> (rpc_error + ApiPosition) \<times> 's" where
  "PortfolioService_UpdatePosition cl acc req s =
     map_rpc positionFromProto (cc_UpdatePosition cl
       \<lparr>rp_Id = apr_ID req, rp_Code = apr_Code req, rp_Name = apr_Name req, rp_Type = int32_conv (apr_Type req),
        rp_Direction = apr_Direction req, rp_InitialQty = int32_conv (apr_InitialQty req), rp_CurrentPrice = apr_CurrentPrice req,
        rp_MarginRatio = int32_conv (apr_MarginRatio req), rp_SortOrder = int32_conv (apr_SortOrder req),
        rp_Archived = apr_Archived req, rp_ClosedPnl = apr_ClosedPnl req\<rparr>
       (withAccountID acc) s)"

definition PortfolioService_DeletePosition ::
  "'s core_client \<Rightarrow> string \<Rightarrow> int \<Rightarrow> 's \<Rightarrow> (rpc_error + unit) \<times> 's" where
  "PortfolioService_DeletePosition cl acc rid s =
     cc_DeletePosition cl rid (withAccountID acc) s"

definition PortfolioService_ListTrades ::
  "'s core_client \<Rightarrow> string \<Rightarrow> int \<Rightarrow> 's \<Rightarrow> (rpc_error + ApiTrade list) \<times> 's" where
  "PortfolioService_ListTrades cl acc positionID s =
     map_rpc (map tradeFromProto) (cc_ListTrades cl positionID (withAccountID acc) s)"

definition PortfolioService_CreateTrade ::
  "'s core_client \<Rightarrow> string \<Rightarrow> ApiTradeRequest \<Rightarrow> 's \<Rightarrow> (rpc_error + ApiTrade) \<times> 's" where
  "PortfolioService_CreateTrade cl acc req s =
     map_rpc tradeFromProto (cc_CreateTrade cl
       \<lparr>rtr_Id = 0, rtr_PositionId = atdr_PositionID req, rtr_Type = int32_conv (atdr_Type req), rtr_Date = atdr_Date req,
        rtr_Price = atdr_Price req, rtr_Quantity = int32_conv (atdr_Quantity req), rtr_Fee = atdr_Fee req, rtr_Note = atdr_Note req\<rparr>
       (withAccountID acc) s)"

definition PortfolioService_UpdateTrade ::
  "'s core_client \<Rightarrow> string \<Rightarrow> ApiTradeRequest \<Rightarrow> 's \<Rightarrow> (rpc_error + ApiTrade) \<times> 's" where
  "PortfolioService_UpdateTrade cl acc req s =
     map_rpc tradeFromProto (cc_UpdateTrade cl
       \<lparr>rtr_Id = atdr_ID req, rtr_PositionId = 0, rtr_Type = int32_conv (atdr_Type req), rtr_Date = atdr_Date req,
        rtr_Price = atdr_Price req, rtr_Quantity = int32_conv (atdr_Quantity req), rtr_Fee = atdr_Fee req, rtr_Note = atdr_Note req\<rparr>
       (withAccountID acc) s)"

definition PortfolioService_DeleteTrade ::
  "'s core_client \<Rightarrow> string \<Rightarrow> int \<Rightarrow> 's \<Rightarrow> (rpc_error + unit) \<times> 's" where
  "PortfolioService_DeleteTrade cl acc rid s =
     cc_DeleteTrade cl rid (withAccountID acc) s"

definition PortfolioService_ListSnapshots ::
  "'s core_client \<Rightarrow> string \<Rightarrow> 's \<Rightarrow> (rpc_error + ApiSnapshot list) \<times> 's" where
  "PortfolioService_ListSnapshots cl acc s =
     map_rpc (map snapshotFromProto) (cc_ListSnapshots cl (withAccountID acc) s)"

definition PortfolioService_UpsertSnapshot ::
  "'s core_client \<Rightarrow> string \<Rightarrow> ApiSnapshot \<Rightarrow> 's \<Rightarrow> (rpc_error + ApiSnapshot) \<times> 's" where
  "PortfolioService_UpsertSnapshot cl acc req s =
     map_rpc snapshotFromProto (cc_UpsertSnapshot cl (asn_Date req) (asn_TotalValue req) (withAccountID acc) s)"

definition PortfolioService_GetConfig ::
  "'s core_client \<Rightarrow> string \<Rightarrow> 's \<Rightarrow> (rpc_error + int) \<times> 's" where
  "PortfolioService_GetConfig cl acc s =
     cc_GetConfig cl (withAccountID acc) s"

definition PortfolioService_UpdateConfig ::
  "'s core_client \<Rightarrow> string \<Rightarrow> int \<Rightarrow> 's \<Rightarrow> (rpc_error + int) \<times> 's" where
  "PortfolioService_UpdateConfig cl acc totalCapital s =
     cc_UpdateConfig cl totalCapital (withAccountID acc) s"

section \<open>service/profile.go\<close>

definition profileFromProto :: "ProfileInfo \<Rightarrow> ApiProfile" where
  "profileFromProto p =
      \<lparr>apf_ID = inf_Id p, apf_AccountID = inf_AccountId p, apf_Nickname = inf_Nickname p,
       apf_Email = inf_Email p, apf_Bio = inf_Bio p, apf_AvatarURL = inf_AvatarUrl p,
       apf_CreatedAt = inf_CreatedAt p, apf_UpdatedAt = inf_UpdatedAt p\<rparr>"

definition ProfileService_GetProfile ::
  "'s core_client \<Rightarrow> string \<Rightarrow> 's \<Rightarrow> (rpc_error + ApiProfile) \<times> 's" where
  "ProfileService_GetProfile cl acc s =
     map_rpc profileFromProto (cc_GetProfile cl (withAccountID acc) s)"

definition ProfileService_UpdateProfile ::
  "'s core_client \<Rightarrow> string \<Rightarrow> ApiUpdateProfileRequest \<Rightarrow> 's \<Rightarrow> (rpc_error + ApiProfile) \<times> 's" where
  "ProfileService_UpdateProfile cl acc req s =
     map_rpc profileFromProto (cc_UpdateProfile cl
       \<lparr>rpf_Nickname = apu_Nickname req, rpf_Email = apu_Email req, rpf_Bio = apu_Bio req, rpf_AvatarUrl = apu_AvatarURL req\<rparr>
       (withAccountID acc) s)"

section \<open>The handlers\<close>

definition CashFlowHandler_ListCategories ::
  "'s core_client \<Rightarrow> echo_ctx \<Rightarrow> 'b api_input \<Rightarrow> 's \<Rightarrow> payload http_response \<times> 's" where
  "CashFlowHandler_ListCategories cl c i s =
     respond_result (\<lambda>x. Some (DCategories x)) (CashFlowService_ListCategories cl (accountID c) (Atoi_value (in_Query i ''year'')) (Atoi_value (in_Query i ''month'')) s)"

definition CashFlowHandler_CreateCategory ::
  "'s core_client \<Rightarrow> echo_ctx \<Rightarrow> ApiCategoryRequest api_input \<Rightarrow> 's \<Rightarrow> payload http_response \<times> 's" where
  "CashFlowHandler_CreateCategory cl c i s =
     with_body i (\<lambda>req s. respond_result (\<lambda>x. Some (DCategory x)) (CashFlowService_CreateCategory cl (accountID c) (req\<lparr>acr_Date := in_Query i ''date''\<rparr>) s)) s"

definition CashFlowHandler_UpdateCategory ::
  "'s core_client \<Rightarrow> echo_ctx \<Rightarrow> ApiCategoryRequest api_input \<Rightarrow> 's \<Rightarrow> payload http_response \<times> 's" where
  "CashFlowHandler_UpdateCategory cl c i s =
     with_id i (\<lambda>rid. with_body i (\<lambda>req s.
       respond_result (\<lambda>x. Some (DCategory x)) (CashFlowService_UpdateCategory cl (accountID c) (req\<lparr>acr_ID := rid\<rparr>) s))) s"

definition CashFlowHandler_DeleteCategory ::
  "'s core_client \<Rightarrow> echo_ctx \<Rightarrow> 'b api_input \<Rightarrow> 's \<Rightarrow> payload http_response \<times> 's" where
  "CashFlowHandler_DeleteCategory cl c i s =
     with_id i (\<lambda>rid s. respond_result (\<lambda>x. None) (CashFlowService_DeleteCategory cl (accountID c) rid s)) s"

definition CashFlowHandler_ListTransactions ::
  "'s core_client \<Rightarrow> echo_ctx \<Rightarrow> 'b api_input \<Rightarrow> 's \<Rightarrow> payload http_response \<times> 's" where
  "CashFlowHandler_ListTransactions cl c i s =
     respond_result (\<lambda>(ts, n). Some (DTransactions ts n)) (CashFlowService_ListTransactions cl (accountID c)
       \<lparr>alr_Year = Atoi_value (in_Query i ''year''), alr_Month = Atoi_value (in_Query i ''month''),
        alr_CategoryID = Atoi_value (in_Query i ''category_id''), alr_Page = Atoi_value (in_Query i ''page''),
        alr_PageSize = Atoi_value (in_Query i ''page_size'')\<rparr> s)"

definition CashFlowHandler_CreateTransaction ::
  "'s core_client \<Rightarrow> echo_ctx \<Rightarrow> ApiTransactionRequest api_input \<Rightarrow> 's \<Rightarrow> payload http_response \<times> 's" where
  "CashFlowHandler_CreateTransaction cl c i s =
     with_body i (\<lambda>req s. respond_result (\<lambda>x. Some (DTransaction x)) (CashFlowService_CreateTransaction cl (accountID c) req s)) s"

definition CashFlowHandler_UpdateTransaction ::
  "'s core_client \<Rightarrow> echo_ctx \<Rightarrow> ApiTransactionRequest api_input \<Rightarrow> 's \<Rightarrow> payload http_response \<times> 's" where
  "CashFlowHandler_UpdateTransaction cl c i s =
     with_id i (\<lambda>rid. with_body i (\<lambda>req s.
       respond_result (\<lambda>x. Some (DTransaction x)) (CashFlowService_UpdateTransaction cl (accountID c) (req\<lparr>atr_ID := rid\<rparr>) s))) s"

definition CashFlowHandler_DeleteTransaction ::
  "'s core_client \<Rightarrow> echo_ctx \<Rightarrow> 'b api_input \<Rightarrow> 's \<Rightarrow> payload http_response \<times> 's" where
  "CashFlowHandler_DeleteTransaction cl c i s =
     with_id i (\<lambda>rid s. respond_result (\<lambda>x. None) (CashFlowService_DeleteTransaction cl (accountID c) rid s)) s"

definition BalanceSheetHandler_ListSummaries ::
  "'s core_client \<Rightarrow> echo_ctx \<Rightarrow> 'b api_input \<Rightarrow> 's \<Rightarrow> payload http_response \<times> 's" where
  "BalanceSheetHandler_ListSummaries cl c i s =
     respond_result (\<lambda>x. Some (DSummaries x)) (BalanceSheetService_ListMonthlySummaries cl (accountID c) (parseQueryInt i ''months'' 12) s)"

definition BalanceSheetHandler_ListItems ::
  "'s core_client \<Rightarrow> echo_ctx \<Rightarrow> 'b api_input \<Rightarrow> 's \<Rightarrow> payload http_response \<times> 's" where
  "BalanceSheetHandler_ListItems cl c i s =
     respond_result (\<lambda>x. Some (DItems x)) (BalanceSheetService_ListItems cl (accountID c) (Atoi_value (in_Query i ''year'')) (Atoi_value (in_Query i ''month'')) s)"

definition BalanceSheetHandler_CreateItem ::
  "'s core_client \<Rightarrow> echo_ctx \<Rightarrow> ApiItemRequest api_input \<Rightarrow> 's \<Rightarrow> payload http_response \<times> 's" where
  "BalanceSheetHandler_CreateItem cl c i s =
     with_body i (\<lambda>req s. respond_result (\<lambda>x. Some (DItem x)) (BalanceSheetService_CreateItem cl (accountID c) req s)) s"

definition BalanceSheetHandler_UpdateItem ::
  "'s core_client \<Rightarrow> echo_ctx \<Rightarrow> ApiItemRequest api_input \<Rightarrow> 's \<Rightarrow> payload http_response \<times> 's" where
  "BalanceSheetHandler_UpdateItem cl c i s =
     with_id i (\<lambda>rid. with_body i (\<lambda>req s.
       respond_result (\<lambda>x. Some (DItem x)) (BalanceSheetService_UpdateItem cl (accountID c) (req\<lparr>air_ID := rid\<rparr>) s))) s"

definition BalanceSheetHandler_DeleteItem ::
  "'s core_client \<Rightarrow> echo_ctx \<Rightarrow> 'b api_input \<Rightarrow> 's \<Rightarrow> payload http_response \<times> 's" where
  "BalanceSheetHandler_DeleteItem cl c i s =
     with_id i (\<lambda>rid s. respond_result (\<lambda>x. None) (BalanceSheetService_DeleteItem cl (accountID c) rid s)) s"

definition PortfolioHandler_ListPositions ::
  "'s core_client \<Rightarrow> echo_ctx \<Rightarrow> 'b api_input \<Rightarrow> 's \<Rightarrow> payload http_response \<times> 's" where
  "PortfolioHandler_ListPositions cl c i s =
     respond_result (\<lambda>x. Some (DPositions x)) (PortfolioService_ListPositions cl (accountID c) s)"

definition PortfolioHandler_CreatePosition ::
  "'s core_client \<Rightarrow> echo_ctx \<Rightarrow> ApiPositionRequest api_input \<Rightarrow> 's \<Rightarrow> payload http_response \<times> 's" where
  "PortfolioHandler_CreatePosition cl c i s =
     with_body i (\<lambda>req s. respond_result (\<lambda>x. Some (DPosition x)) (PortfolioService_CreatePosition cl (accountID c) req s)) s"

definition PortfolioHandler_UpdatePosition ::
  "'s core_client \<Rightarrow> echo_ctx \<Rightarrow> ApiPositionRequest api_input \<Rightarrow> 's \<Rightarrow> payload http_response \<times> 's" where
  "PortfolioHandler_UpdatePosition cl c i s =
     with_id i (\<lambda>rid. with_body i (\<lambda>req s.
       respond_result (\<lambda>x. Some (DPosition x)) (PortfolioService_UpdatePosition cl (accountID c) (req\<lparr>apr_ID := rid\<rparr>) s))) s"

definition PortfolioHandler_DeletePosition ::
  "'s core_client \<Rightarrow> echo_ctx \<Rightarrow> 'b api_input \<Rightarrow> 's \<Rightarrow> payload http_response \<times> 's" where
  "PortfolioHandler_DeletePosition cl c i s =
     with_id i (\<lambda>rid s. respond_result (\<lambda>x. None) (PortfolioService_DeletePosition cl (accountID c) rid s)) s"

definition PortfolioHandler_ListTrades ::
  "'s core_client \<Rightarrow> echo_ctx \<Rightarrow> 'b api_input \<Rightarrow> 's \<Rightarrow> payload http_response \<times> 's" where
  "PortfolioHandler_ListTrades cl c i s =
     respond_result (\<lambda>x. Some (DTrades x)) (PortfolioService_ListTrades cl (accountID c) (Atoi_value (in_Id i)) s)"

definition PortfolioHandler_CreateTrade ::
  "'s core_client \<Rightarrow> echo_ctx \<Rightarrow> ApiTradeRequest api_input \<Rightarrow> 's \<Rightarrow> payload http_response \<times> 's" where
  "PortfolioHandler_CreateTrade cl c i s =
     with_body i (\<lambda>req s. respond_result (\<lambda>x. Some (DTrade x)) (PortfolioService_CreateTrade cl (accountID c) (req\<lparr>atdr_PositionID := Atoi_value (in_Id i)\<rparr>) s)) s"

definition PortfolioHandler_UpdateTrade ::
  "'s core_client \<Rightarrow> echo_ctx \<Rightarrow> ApiTradeRequest api_input \<Rightarrow> 's \<Rightarrow> payload http_response \<times> 's" where
  "PortfolioHandler_UpdateTrade cl c i s =
     with_id i (\<lambda>rid. with_body i (\<lambda>req s.
       respond_result (\<lambda>x. Some (DTrade x)) (PortfolioService_UpdateTrade cl (accountID c) (req\<lparr>atdr_ID := rid\<rparr>) s))) s"

definition PortfolioHandler_DeleteTrade ::
  "'s core_client \<Rightarrow> echo_ctx \<Rightarrow> 'b api_input \<Rightarrow> 's \<Rightarrow> payload http_response \<times> 's" where
  "PortfolioHandler_DeleteTrade cl c i s =
     with_id i (\<lambda>rid s. respond_result (\<lambda>x. None) (PortfolioService_DeleteTrade cl (accountID c) rid s)) s"

definition PortfolioHandler_ListSnapshots ::
  "'s core_client \<Rightarrow> echo_ctx \<Rightarrow> 'b api_input \<Rightarrow> 's \<Rightarrow> payload http_response \<times> 's" where
  "PortfolioHandler_ListSnapshots cl c i s =
     respond_result (\<lambda>x. Some (DSnapshots x)) (PortfolioService_ListSnapshots cl (accountID c) s)"

definition PortfolioHandler_UpsertSnapshot ::
  "'s core_client \<Rightarrow> echo_ctx \<Rightarrow> ApiSnapshot api_input \<Rightarrow> 's \<Rightarrow> payload http_response \<times> 's" where
  "PortfolioHandler_UpsertSnapshot cl c i s =
     with_body i (\<lambda>req s. respond_result (\<lambda>x. Some (DSnapshot x)) (PortfolioService_UpsertSnapshot cl (accountID c) req s)) s"

definition PortfolioHandler_GetConfig ::
  "'s core_client \<Rightarrow> echo_ctx \<Rightarrow> 'b api_input \<Rightarrow> 's \<Rightarrow> payload http_response \<times> 's" where
  "PortfolioHandler_GetConfig cl c i s =
     respond_result (\<lambda>x. Some (DConfig x)) (PortfolioService_GetConfig cl (accountID c) s)"

definition PortfolioHandler_UpdateConfig ::
  "'s core_client \<Rightarrow> echo_ctx \<Rightarrow> int api_input \<Rightarrow> 's \<Rightarrow> payload http_response \<times> 's" where
  "PortfolioHandler_UpdateConfig cl c i s =
     with_body i (\<lambda>req s. respond_result (\<lambda>x. Some (DConfig x)) (PortfolioService_UpdateConfig cl (accountID c) req s)) s"

definition ProfileHandler_GetProfile ::
  "'s core_client \<Rightarrow> echo_ctx \<Rightarrow> 'b api_input \<Rightarrow> 's \<Rightarrow> payload http_response \<times> 's" where
  "ProfileHandler_GetProfile cl c i s =
     respond_result (\<lambda>x. Some (DProfile x)) (ProfileService_GetProfile cl (accountID c) s)"

definition ProfileHandler_UpdateProfile ::
  "'s core_client \<Rightarrow> echo_ctx \<Rightarrow> ApiUpdateProfileRequest api_input \<Rightarrow> 's \<Rightarrow> payload http_response \<times> 's" where
  "ProfileHandler_UpdateProfile cl c i s =
     with_body i (\<lambda>req s. respond_result (\<lambda>x. Some (DProfile x)) (ProfileService_UpdateProfile cl (accountID c) req s)) s"

end
