(* ===== verification/ApiAuth.thy ===== *)
theory ApiAuth
  imports ApiCore Auth
begin

text \<open>
  The API gateway in front of \<open>personal-auth\<close> (\<open>handler/auth.go\<close>, \<open>service/auth.go\<close>, \<open>model/auth.go\<close>,
  \<open>provider/refresher.go\<close>) and the avatar upload of \<open>handler/profile.go\<close>. The gRPC stubs of the auth service and
  the object store are parameters. A handler answers, panics (\<open>None\<close>) or sets cookies in the response context.
\<close>

section \<open>pkg/model/auth.go\<close>

record ApiRegisterRequest =
  arg_AuthType :: string
  arg_Identifier :: string
  arg_Password :: string

record ApiLoginRequest =
  alg_AuthType :: string
  alg_Identifier :: string
  alg_Password :: string
  alg_IPAddress :: string
  alg_UserAgent :: string

text \<open>\<open>RegisterResponse\<close>, \<open>LoginResponse\<close> and \<open>RefreshTokenResponse\<close> have the same fields.\<close>

record ApiTokens =
  atk_AccessToken :: string
  atk_RefreshToken :: string
  atk_ExpiresIn :: int

record ApiUpdatePasswordRequest =
  aup_AccountID :: string
  aup_OldPassword :: string
  aup_NewPassword :: string

record ApiUpdateIdentifierRequest =
  aui_AccountID :: string
  aui_AuthType :: string
  aui_NewIdentifier :: string

record ApiDeleteAccountRequest =
  ada_AccountID :: string
  ada_Password :: string

section \<open>The stubs of personal-auth\<close>

record 's auth_client =
  au_Register :: "RegisterRequest \<Rightarrow> 's \<Rightarrow> (rpc_error + TokenPair) \<times> 's"
  au_Login :: "LoginRequest \<Rightarrow> 's \<Rightarrow> (rpc_error + TokenPair) \<times> 's"
  au_RefreshToken :: "string \<Rightarrow> 's \<Rightarrow> (rpc_error + TokenPair) \<times> 's"
  au_ValidateToken :: "string \<Rightarrow> 's \<Rightarrow> (rpc_error + ValidateTokenResponse) \<times> 's"
  au_RevokeToken :: "string \<Rightarrow> 's \<Rightarrow> (rpc_error + unit) \<times> 's"
  au_RevokeAllTokens :: "string \<Rightarrow> 's \<Rightarrow> (rpc_error + unit) \<times> 's"
  au_DeleteAccount :: "string \<Rightarrow> string \<Rightarrow> 's \<Rightarrow> (rpc_error + unit) \<times> 's"
  au_UpdatePassword :: "UpdatePasswordRequest \<Rightarrow> 's \<Rightarrow> (rpc_error + unit) \<times> 's"
  au_UpdateIdentifier :: "UpdateIdentifierRequest \<Rightarrow> 's \<Rightarrow> (rpc_error + unit) \<times> 's"

section \<open>service/auth.go\<close>

definition authTypeToProto :: "string \<Rightarrow> rpc_error + int" where
  "authTypeToProto t =
     (if t = ''email'' then Inr 1 else if t = ''username'' then Inr 2 else if t = ''phone'' then Inr 3
      else Inl (RpcStatus (Status InvalidArgument ''unsupported auth_type'')))"

definition tokensFromProto :: "TokenPair \<Rightarrow> ApiTokens" where
  "tokensFromProto t =
     \<lparr>atk_AccessToken = tp_AccessToken t, atk_RefreshToken = tp_RefreshToken t, atk_ExpiresIn = tp_ExpiresIn t\<rparr>"

definition AuthService_Register :: "'s auth_client \<Rightarrow> ApiRegisterRequest \<Rightarrow> 's \<Rightarrow> (rpc_error + ApiTokens) \<times> 's" where
  "AuthService_Register cl req s =
     (case authTypeToProto (arg_AuthType req) of
        Inl e \<Rightarrow> (Inl e, s)
      | Inr authType \<Rightarrow>
          map_rpc tokensFromProto (au_Register cl
            \<lparr>rr_AuthType = authType, rr_Identifier = arg_Identifier req, rr_Password = arg_Password req\<rparr> s))"

definition AuthService_Login :: "'s auth_client \<Rightarrow> ApiLoginRequest \<Rightarrow> 's \<Rightarrow> (rpc_error + ApiTokens) \<times> 's" where
  "AuthService_Login cl req s =
     (case authTypeToProto (alg_AuthType req) of
        Inl e \<Rightarrow> (Inl e, s)
      | Inr authType \<Rightarrow>
          map_rpc tokensFromProto (au_Login cl
            \<lparr>lr_AuthType = authType, lr_Identifier = alg_Identifier req, lr_Password = alg_Password req,
             lr_IpAddress = alg_IPAddress req, lr_UserAgent = alg_UserAgent req\<rparr> s))"

definition AuthService_RefreshToken :: "'s auth_client \<Rightarrow> string \<Rightarrow> 's \<Rightarrow> (rpc_error + ApiTokens) \<times> 's" where
  "AuthService_RefreshToken cl refreshToken s = map_rpc tokensFromProto (au_RefreshToken cl refreshToken s)"

definition AuthService_ValidateToken :: "'s auth_client \<Rightarrow> string \<Rightarrow> 's \<Rightarrow> (rpc_error + string \<times> int) \<times> 's" where
  "AuthService_ValidateToken cl accessToken s =
     map_rpc (\<lambda>v. (vt_Role v, vt_ExpiresAt v)) (au_ValidateToken cl accessToken s)"

definition AuthService_RevokeToken :: "'s auth_client \<Rightarrow> string \<Rightarrow> 's \<Rightarrow> (rpc_error + unit) \<times> 's" where
  "AuthService_RevokeToken cl refreshToken s = au_RevokeToken cl refreshToken s"

definition AuthService_RevokeAllTokens :: "'s auth_client \<Rightarrow> string \<Rightarrow> 's \<Rightarrow> (rpc_error + unit) \<times> 's" where
  "AuthService_RevokeAllTokens cl accessToken s = au_RevokeAllTokens cl accessToken s"

definition AuthService_DeleteAccount :: "'s auth_client \<Rightarrow> ApiDeleteAccountRequest \<Rightarrow> 's \<Rightarrow> (rpc_error + unit) \<times> 's" where
  "AuthService_DeleteAccount cl req s = au_DeleteAccount cl (ada_AccountID req) (ada_Password req) s"

definition AuthService_UpdatePassword :: "'s auth_client \<Rightarrow> ApiUpdatePasswordRequest \<Rightarrow> 's \<Rightarrow> (rpc_error + unit) \<times> 's" where
  "AuthService_UpdatePassword cl req s =
     au_UpdatePassword cl
       \<lparr>up_AccountId = aup_AccountID req, up_OldPassword = aup_OldPassword req, up_NewPassword = aup_NewPassword req\<rparr> s"

definition AuthService_UpdateIdentifier :: "'s auth_client \<Rightarrow> ApiUpdateIdentifierRequest \<Rightarrow> 's \<Rightarrow> (rpc_error + unit) \<times> 's" where
  "AuthService_UpdateIdentifier cl req s =
     (case authTypeToProto (aui_AuthType req) of
        Inl e \<Rightarrow> (Inl e, s)
      | Inr authType \<Rightarrow>
          au_UpdateIdentifier cl
            \<lparr>ui_AccountId = aui_AccountID req, ui_AuthType = authType, ui_NewIdentifier = aui_NewIdentifier req\<rparr> s)"

text \<open>\<open>provider/refresher.go\<close>: the refresher of the middleware.\<close>

definition authTokenRefresher_Refresh :: "'s auth_client \<Rightarrow> (rpc_error, 's) TokenRefresher" where
  "authTokenRefresher_Refresh cl refreshToken s =
     (case AuthService_RefreshToken cl refreshToken s of
        (Inl e, s1) \<Rightarrow> (Inl e, s1)
      | (Inr resp, s1) \<Rightarrow> (Inr (atk_AccessToken resp, atk_RefreshToken resp, atk_ExpiresIn resp), s1))"

section \<open>handler/auth.go\<close>

text \<open>The result of a handler: its answer or a panic, the response context, the state.\<close>

type_synonym 's auth_answer = "payload http_response option \<times> echo_ctx \<times> 's"

text \<open>The common ends: tokens go into cookies, the body has the lifetime only.\<close>

definition respond_tokens ::
  "http_request \<Rightarrow> echo_ctx \<Rightarrow> echo_ctx \<Rightarrow> (rpc_error + ApiTokens) \<times> 's \<Rightarrow> 's auth_answer" where
  "respond_tokens req c c_err r =
     (case r of
        (Inl e, s) \<Rightarrow> (Some (respond_error e), c_err, s)
      | (Inr resp, s) \<Rightarrow>
          (Some (Respond 200 0 ''success'' (Some (DExpiresIn (atk_ExpiresIn resp)))),
           SetTokenCookies req c (atk_AccessToken resp) (atk_RefreshToken resp) (atk_ExpiresIn resp), s))"

definition respond_done :: "echo_ctx \<Rightarrow> echo_ctx \<Rightarrow> (rpc_error + unit) \<times> 's \<Rightarrow> 's auth_answer" where
  "respond_done c_ok c_err r =
     (case r of
        (Inl e, s) \<Rightarrow> (Some (respond_error e), c_err, s)
      | (Inr _, s) \<Rightarrow> (Some (Respond 200 0 ''success'' None), c_ok, s))"

text \<open>The token of a cookie that is present and not empty, else of the body.\<close>

definition cookie_or_body :: "http_request \<Rightarrow> string \<Rightarrow> string api_input \<Rightarrow> string option" where
  "cookie_or_body req name i =
     (case cookie_value req name of Some v \<Rightarrow> (if v \<noteq> [] then Some v else in_Body i) | None \<Rightarrow> in_Body i)"

definition AuthHandler_Register ::
  "'s auth_client \<Rightarrow> http_request \<Rightarrow> ApiRegisterRequest api_input \<Rightarrow> echo_ctx \<Rightarrow> 's \<Rightarrow> 's auth_answer" where
  "AuthHandler_Register cl rq i c s =
     (case in_Body i of
        None \<Rightarrow> (Some invalid_body, c, s)
      | Some req \<Rightarrow> respond_tokens rq c c (AuthService_Register cl req s))"

definition AuthHandler_Login ::
  "'s auth_client \<Rightarrow> http_request \<Rightarrow> string \<Rightarrow> string \<Rightarrow> ApiLoginRequest api_input \<Rightarrow> echo_ctx \<Rightarrow> 's \<Rightarrow> 's auth_answer" where
  "AuthHandler_Login cl rq realIP userAgent i c s =
     (case in_Body i of
        None \<Rightarrow> (Some invalid_body, c, s)
      | Some req \<Rightarrow>
          respond_tokens rq c c (AuthService_Login cl (req\<lparr>alg_IPAddress := realIP, alg_UserAgent := userAgent\<rparr>) s))"

definition AuthHandler_RefreshToken ::
  "'s auth_client \<Rightarrow> http_request \<Rightarrow> string api_input \<Rightarrow> echo_ctx \<Rightarrow> 's \<Rightarrow> 's auth_answer" where
  "AuthHandler_RefreshToken cl rq i c s =
     (case cookie_or_body rq ''refresh_token'' i of
        None \<Rightarrow> (Some invalid_body, c, s)
      | Some refreshToken \<Rightarrow> respond_tokens rq c (ClearTokenCookies rq c) (AuthService_RefreshToken cl refreshToken s))"

definition AuthHandler_ValidateToken ::
  "'s auth_client \<Rightarrow> http_request \<Rightarrow> string api_input \<Rightarrow> echo_ctx \<Rightarrow> 's \<Rightarrow> 's auth_answer" where
  "AuthHandler_ValidateToken cl rq i c s =
     (case cookie_or_body rq ''access_token'' i of
        None \<Rightarrow> (Some invalid_body, c, s)
      | Some accessToken \<Rightarrow>
          (case AuthService_ValidateToken cl accessToken s of
             (Inl e, s1) \<Rightarrow> (Some (respond_error e), c, s1)
           | (Inr (role, expiresAt), s1) \<Rightarrow> (Some (Respond 200 0 ''success'' (Some (DValidated role expiresAt))), c, s1)))"

definition AuthHandler_RevokeToken ::
  "'s auth_client \<Rightarrow> http_request \<Rightarrow> string api_input \<Rightarrow> echo_ctx \<Rightarrow> 's \<Rightarrow> 's auth_answer" where
  "AuthHandler_RevokeToken cl rq i c s =
     (case cookie_or_body rq ''refresh_token'' i of
        None \<Rightarrow> (Some invalid_body, c, s)
      | Some refreshToken \<Rightarrow> respond_done (ClearTokenCookies rq c) c (AuthService_RevokeToken cl refreshToken s))"

text \<open>A cookie that is present wins even when it is empty.\<close>

definition AuthHandler_RevokeAllTokens :: "'s auth_client \<Rightarrow> http_request \<Rightarrow> echo_ctx \<Rightarrow> 's \<Rightarrow> 's auth_answer" where
  "AuthHandler_RevokeAllTokens cl rq c s =
     (let accessToken =
            (case cookie_value rq ''access_token'' of
               Some v \<Rightarrow> v | None \<Rightarrow> (case ec_Token c of Some t \<Rightarrow> t | None \<Rightarrow> []))
      in if accessToken = [] then (Some (Respond 401 401 ''unauthorized'' None), c, s)
         else respond_done (ClearTokenCookies rq c) c (AuthService_RevokeAllTokens cl accessToken s))"

text \<open>\<open>c.Get("account_id").(string)\<close> panics when the context has no account.\<close>

definition with_account ::
  "echo_ctx \<Rightarrow> 'b api_input \<Rightarrow> ('b \<Rightarrow> string \<Rightarrow> 's \<Rightarrow> (rpc_error + unit) \<times> 's) \<Rightarrow> 's \<Rightarrow> 's auth_answer" where
  "with_account c i f s =
     (case in_Body i of
        None \<Rightarrow> (Some invalid_body, c, s)
      | Some req \<Rightarrow>
          (case ec_AccountID c of
             None \<Rightarrow> (None, c, s)
           | Some acc \<Rightarrow> respond_done c c (f req acc s)))"

definition AuthHandler_DeleteAccount ::
  "'s auth_client \<Rightarrow> ApiDeleteAccountRequest api_input \<Rightarrow> echo_ctx \<Rightarrow> 's \<Rightarrow> 's auth_answer" where
  "AuthHandler_DeleteAccount cl i c s =
     with_account c i (\<lambda>req acc. AuthService_DeleteAccount cl (req\<lparr>ada_AccountID := acc\<rparr>)) s"

definition AuthHandler_UpdatePassword ::
  "'s auth_client \<Rightarrow> ApiUpdatePasswordRequest api_input \<Rightarrow> echo_ctx \<Rightarrow> 's \<Rightarrow> 's auth_answer" where
  "AuthHandler_UpdatePassword cl i c s =
     with_account c i (\<lambda>req acc. AuthService_UpdatePassword cl (req\<lparr>aup_AccountID := acc\<rparr>)) s"

definition AuthHandler_UpdateIdentifier ::
  "'s auth_client \<Rightarrow> ApiUpdateIdentifierRequest api_input \<Rightarrow> echo_ctx \<Rightarrow> 's \<Rightarrow> 's auth_answer" where
  "AuthHandler_UpdateIdentifier cl i c s =
     with_account c i (\<lambda>req acc. AuthService_UpdateIdentifier cl (req\<lparr>aui_AccountID := acc\<rparr>)) s"

end
