(* ===== verification/ApiRun.thy ===== *)
theory ApiRun
  imports ApiCore CoreRun
begin

text \<open>
  The gateway in front of the core service, put together: the stubs reach the handlers of
  \<open>personal-core\<close> over a network that may lose a request or an answer, an endpoint is one of the routes that stand for one call of the
  core service, and a request passes the JWT middleware first.
\<close>

section \<open>The stubs on the core service\<close>

text \<open>A call is answered by the service, or it fails on the way there or on the way back.\<close>

datatype network = Delivered | RequestLost rpc_error | AnswerLost rpc_error

definition over_network :: "network \<Rightarrow> 'db \<Rightarrow> (status + 'a) \<times> 'db \<Rightarrow> (rpc_error + 'a) \<times> 'db" where
  "over_network net db r =
     (case net of
        Delivered \<Rightarrow> (case fst r of Inl st \<Rightarrow> Inl (RpcStatus st) | Inr x \<Rightarrow> Inr x, snd r)
      | RequestLost e \<Rightarrow> (Inl e, db)
      | AnswerLost e \<Rightarrow> (Inl e, snd r))"

definition core_stub :: "'db Exec \<Rightarrow> int \<Rightarrow> network \<Rightarrow> 'db core_client" where
  "core_stub exec n net =
     \<lparr>cc_ListCategories = (\<lambda>y m md db. over_network net db (ListCategories exec db (core_interceptor md) y m, db)),
      cc_CreateCategory = (\<lambda>req md db. over_network net db (CreateCategory exec db (core_interceptor md) n req)),
      cc_UpdateCategory = (\<lambda>req md db. over_network net db (UpdateCategory exec db (core_interceptor md) n req)),
      cc_DeleteCategory = (\<lambda>k md db. over_network net db (DeleteCategory exec db (core_interceptor md) n k)),
      cc_ListTransactions = (\<lambda>req md db. over_network net db (ListTransactions exec db (core_interceptor md) req, db)),
      cc_CreateTransaction = (\<lambda>req md db. over_network net db (CreateTransaction exec db (core_interceptor md) n req)),
      cc_UpdateTransaction = (\<lambda>req md db. over_network net db (UpdateTransaction exec db (core_interceptor md) n req)),
      cc_DeleteTransaction = (\<lambda>k md db. over_network net db (DeleteTransaction exec db (core_interceptor md) n k)),
      cc_ListItems = (\<lambda>y m md db. over_network net db (ListItems exec db (core_interceptor md) y m, db)),
      cc_CreateItem = (\<lambda>req md db. over_network net db (CreateItem exec db (core_interceptor md) n req)),
      cc_UpdateItem = (\<lambda>req md db. over_network net db (UpdateItem exec db (core_interceptor md) n req)),
      cc_ListMonthlySummaries = (\<lambda>k md db. over_network net db (ListMonthlySummaries exec db (core_interceptor md) k, db)),
      cc_DeleteItem = (\<lambda>k md db. over_network net db (DeleteItem exec db (core_interceptor md) n k)),
      cc_ListPositions = (\<lambda>md db. over_network net db (ListPositions exec db (core_interceptor md), db)),
      cc_CreatePosition = (\<lambda>req md db. over_network net db (CreatePosition exec db (core_interceptor md) n req)),
      cc_UpdatePosition = (\<lambda>req md db. over_network net db (UpdatePosition exec db (core_interceptor md) n req)),
      cc_DeletePosition = (\<lambda>k md db. over_network net db (DeletePosition exec db (core_interceptor md) n k)),
      cc_ListTrades = (\<lambda>k md db. over_network net db (ListTrades exec db (core_interceptor md) k, db)),
      cc_CreateTrade = (\<lambda>req md db. over_network net db (CreateTrade exec db (core_interceptor md) n req)),
      cc_UpdateTrade = (\<lambda>req md db. over_network net db (UpdateTrade exec db (core_interceptor md) n req)),
      cc_DeleteTrade = (\<lambda>k md db. over_network net db (DeleteTrade exec db (core_interceptor md) n k)),
      cc_ListSnapshots = (\<lambda>md db. over_network net db (ListSnapshots exec db (core_interceptor md), db)),
      cc_UpsertSnapshot = (\<lambda>d v md db. over_network net db (UpsertSnapshot exec db (core_interceptor md) n d v)),
      cc_GetConfig = (\<lambda>md db. over_network net db (GetConfig exec db (core_interceptor md), db)),
      cc_UpdateConfig = (\<lambda>k md db. over_network net db (UpdateConfig exec db (core_interceptor md) n k)),
      cc_GetProfile = (\<lambda>md db. over_network net db (GetProfile exec db (core_interceptor md) n)),
      cc_UpdateProfile = (\<lambda>req md db. over_network net db (UpdateProfile exec db (core_interceptor md) n req))\<rparr>"

section \<open>Endpoints\<close>

text \<open>The 27 routes whose handler makes one call of the core service, each with its input: all those of
  \<open>cash_flow.go\<close>, \<open>balance_sheet.go\<close> and \<open>portfolio.go\<close>, and two of \<open>profile.go\<close>. The upload of an avatar, which makes two
  calls and uses the object store, is in \<open>ApiAvatar\<close>, the nine routes of \<open>auth.go\<close> are in \<open>ApiAuth\<close>.\<close>

datatype endpoint =
    EListCategories "unit api_input"
  | ECreateCategory "ApiCategoryRequest api_input"
  | EUpdateCategory "ApiCategoryRequest api_input"
  | EDeleteCategory "unit api_input"
  | EListTransactions "unit api_input"
  | ECreateTransaction "ApiTransactionRequest api_input"
  | EUpdateTransaction "ApiTransactionRequest api_input"
  | EDeleteTransaction "unit api_input"
  | EListItems "unit api_input"
  | ECreateItem "ApiItemRequest api_input"
  | EUpdateItem "ApiItemRequest api_input"
  | EDeleteItem "unit api_input"
  | EListSummaries "unit api_input"
  | EListPositions "unit api_input"
  | ECreatePosition "ApiPositionRequest api_input"
  | EUpdatePosition "ApiPositionRequest api_input"
  | EDeletePosition "unit api_input"
  | EListTrades "unit api_input"
  | ECreateTrade "ApiTradeRequest api_input"
  | EUpdateTrade "ApiTradeRequest api_input"
  | EDeleteTrade "unit api_input"
  | EListSnapshots "unit api_input"
  | EUpsertSnapshot "ApiSnapshot api_input"
  | EGetConfig "unit api_input"
  | EUpdateConfig "int api_input"
  | EGetProfile "unit api_input"
  | EUpdateProfile "ApiUpdateProfileRequest api_input"

fun api_core :: "'s core_client \<Rightarrow> echo_ctx \<Rightarrow> endpoint \<Rightarrow> 's \<Rightarrow> payload http_response \<times> 's" where
  "api_core cl c (EListCategories i) s = CashFlowHandler_ListCategories cl c i s"
| "api_core cl c (ECreateCategory i) s = CashFlowHandler_CreateCategory cl c i s"
| "api_core cl c (EUpdateCategory i) s = CashFlowHandler_UpdateCategory cl c i s"
| "api_core cl c (EDeleteCategory i) s = CashFlowHandler_DeleteCategory cl c i s"
| "api_core cl c (EListTransactions i) s = CashFlowHandler_ListTransactions cl c i s"
| "api_core cl c (ECreateTransaction i) s = CashFlowHandler_CreateTransaction cl c i s"
| "api_core cl c (EUpdateTransaction i) s = CashFlowHandler_UpdateTransaction cl c i s"
| "api_core cl c (EDeleteTransaction i) s = CashFlowHandler_DeleteTransaction cl c i s"
| "api_core cl c (EListItems i) s = BalanceSheetHandler_ListItems cl c i s"
| "api_core cl c (ECreateItem i) s = BalanceSheetHandler_CreateItem cl c i s"
| "api_core cl c (EUpdateItem i) s = BalanceSheetHandler_UpdateItem cl c i s"
| "api_core cl c (EDeleteItem i) s = BalanceSheetHandler_DeleteItem cl c i s"
| "api_core cl c (EListSummaries i) s = BalanceSheetHandler_ListSummaries cl c i s"
| "api_core cl c (EListPositions i) s = PortfolioHandler_ListPositions cl c i s"
| "api_core cl c (ECreatePosition i) s = PortfolioHandler_CreatePosition cl c i s"
| "api_core cl c (EUpdatePosition i) s = PortfolioHandler_UpdatePosition cl c i s"
| "api_core cl c (EDeletePosition i) s = PortfolioHandler_DeletePosition cl c i s"
| "api_core cl c (EListTrades i) s = PortfolioHandler_ListTrades cl c i s"
| "api_core cl c (ECreateTrade i) s = PortfolioHandler_CreateTrade cl c i s"
| "api_core cl c (EUpdateTrade i) s = PortfolioHandler_UpdateTrade cl c i s"
| "api_core cl c (EDeleteTrade i) s = PortfolioHandler_DeleteTrade cl c i s"
| "api_core cl c (EListSnapshots i) s = PortfolioHandler_ListSnapshots cl c i s"
| "api_core cl c (EUpsertSnapshot i) s = PortfolioHandler_UpsertSnapshot cl c i s"
| "api_core cl c (EGetConfig i) s = PortfolioHandler_GetConfig cl c i s"
| "api_core cl c (EUpdateConfig i) s = PortfolioHandler_UpdateConfig cl c i s"
| "api_core cl c (EGetProfile i) s = ProfileHandler_GetProfile cl c i s"
| "api_core cl c (EUpdateProfile i) s = ProfileHandler_UpdateProfile cl c i s"

text \<open>What an endpoint asks of the core service: nothing when its input is rejected at the gateway.\<close>

definition body_call :: "'b api_input \<Rightarrow> ('b \<Rightarrow> core_request option) \<Rightarrow> core_request option" where
  "body_call i f = (case in_Body i of None \<Rightarrow> None | Some b \<Rightarrow> f b)"

definition id_call :: "'b api_input \<Rightarrow> (int \<Rightarrow> core_request option) \<Rightarrow> core_request option" where
  "id_call i f = (case ParseInt64 (in_Id i) of None \<Rightarrow> None | Some k \<Rightarrow> f k)"

definition type_call :: "string \<Rightarrow> (int \<Rightarrow> core_request) \<Rightarrow> core_request option" where
  "type_call t f = (case cashFlowTypeToProto t of Inl e \<Rightarrow> None | Inr k \<Rightarrow> Some (f k))"

definition q32 :: "'b api_input \<Rightarrow> string \<Rightarrow> int" where
  "q32 i name = int32_conv (Atoi_value (in_Query i name))"

definition category_call :: "int \<Rightarrow> string \<Rightarrow> ApiCategoryRequest \<Rightarrow> int \<Rightarrow> CategoryRequest" where
  "category_call rid date req t =
     \<lparr>rc_Id = rid, rc_Name = acr_Name req, rc_Type = t, rc_SortOrder = int32_conv (acr_SortOrder req), rc_Date = date\<rparr>"

definition transaction_call :: "int \<Rightarrow> ApiTransactionRequest \<Rightarrow> int \<Rightarrow> TransactionRequest" where
  "transaction_call rid req t =
     \<lparr>rt_Id = rid, rt_CategoryId = atr_CategoryID req, rt_Type = t, rt_Name = atr_Name req, rt_Amount = atr_Amount req,
      rt_Date = atr_Date req, rt_Note = atr_Note req, rt_SortOrder = int32_conv (atr_SortOrder req)\<rparr>"

definition item_call :: "int \<Rightarrow> ApiItemRequest \<Rightarrow> ItemRequest" where
  "item_call rid req =
     \<lparr>ri_Id = rid, ri_Category = air_Category req, ri_Name = air_Name req, ri_Amount = air_Amount req, ri_Note = air_Note req,
      ri_Date = air_Date req, ri_SortOrder = int32_conv (air_SortOrder req)\<rparr>"

definition position_call :: "int \<Rightarrow> bool \<Rightarrow> int \<Rightarrow> ApiPositionRequest \<Rightarrow> PositionRequest" where
  "position_call rid archived pnl req =
     \<lparr>rp_Id = rid, rp_Code = apr_Code req, rp_Name = apr_Name req, rp_Type = int32_conv (apr_Type req),
      rp_Direction = apr_Direction req, rp_InitialQty = int32_conv (apr_InitialQty req), rp_CurrentPrice = apr_CurrentPrice req,
      rp_MarginRatio = int32_conv (apr_MarginRatio req), rp_SortOrder = int32_conv (apr_SortOrder req), rp_Archived = archived,
      rp_ClosedPnl = pnl\<rparr>"

definition trade_call :: "int \<Rightarrow> int \<Rightarrow> ApiTradeRequest \<Rightarrow> TradeRequest" where
  "trade_call rid pid req =
     \<lparr>rtr_Id = rid, rtr_PositionId = pid, rtr_Type = int32_conv (atdr_Type req), rtr_Date = atdr_Date req, rtr_Price = atdr_Price req,
      rtr_Quantity = int32_conv (atdr_Quantity req), rtr_Fee = atdr_Fee req, rtr_Note = atdr_Note req\<rparr>"

fun core_call :: "endpoint \<Rightarrow> core_request option" where
  "core_call (EListCategories i) = Some (RListCategories (q32 i ''year'') (q32 i ''month''))"
| "core_call (ECreateCategory i) =
     body_call i (\<lambda>b. type_call (acr_Type b) (\<lambda>t. RCreateCategory (category_call 0 (in_Query i ''date'') b t)))"
| "core_call (EUpdateCategory i) =
     id_call i (\<lambda>k. body_call i (\<lambda>b. type_call (acr_Type b) (\<lambda>t. RUpdateCategory (category_call k (acr_Date b) b t))))"
| "core_call (EDeleteCategory i) = id_call i (\<lambda>k. Some (RDeleteCategory k))"
| "core_call (EListTransactions i) =
     Some (RListTransactions \<lparr>lt_Year = q32 i ''year'', lt_Month = q32 i ''month'', lt_CategoryId = Atoi_value (in_Query i ''category_id''),
       lt_Page = q32 i ''page'', lt_PageSize = q32 i ''page_size''\<rparr>)"
| "core_call (ECreateTransaction i) = body_call i (\<lambda>b. type_call (atr_Type b) (\<lambda>t. RCreateTransaction (transaction_call 0 b t)))"
| "core_call (EUpdateTransaction i) =
     id_call i (\<lambda>k. body_call i (\<lambda>b. type_call (atr_Type b) (\<lambda>t. RUpdateTransaction (transaction_call k b t))))"
| "core_call (EDeleteTransaction i) = id_call i (\<lambda>k. Some (RDeleteTransaction k))"
| "core_call (EListItems i) = Some (RListItems (q32 i ''year'') (q32 i ''month''))"
| "core_call (ECreateItem i) = body_call i (\<lambda>b. Some (RCreateItem (item_call 0 b)))"
| "core_call (EUpdateItem i) = id_call i (\<lambda>k. body_call i (\<lambda>b. Some (RUpdateItem (item_call k b))))"
| "core_call (EDeleteItem i) = id_call i (\<lambda>k. Some (RDeleteItem k))"
| "core_call (EListSummaries i) = Some (RListMonthlySummaries (int32_conv (parseQueryInt i ''months'' 12)))"
| "core_call (EListPositions i) = Some RListPositions"
| "core_call (ECreatePosition i) = body_call i (\<lambda>b. Some (RCreatePosition (position_call 0 False 0 b)))"
| "core_call (EUpdatePosition i) =
     id_call i (\<lambda>k. body_call i (\<lambda>b. Some (RUpdatePosition (position_call k (apr_Archived b) (apr_ClosedPnl b) b))))"
| "core_call (EDeletePosition i) = id_call i (\<lambda>k. Some (RDeletePosition k))"
| "core_call (EListTrades i) = Some (RListTrades (Atoi_value (in_Id i)))"
| "core_call (ECreateTrade i) = body_call i (\<lambda>b. Some (RCreateTrade (trade_call 0 (Atoi_value (in_Id i)) b)))"
| "core_call (EUpdateTrade i) = id_call i (\<lambda>k. body_call i (\<lambda>b. Some (RUpdateTrade (trade_call k 0 b))))"
| "core_call (EDeleteTrade i) = id_call i (\<lambda>k. Some (RDeleteTrade k))"
| "core_call (EListSnapshots i) = Some RListSnapshots"
| "core_call (EUpsertSnapshot i) = body_call i (\<lambda>b. Some (RUpsertSnapshot (asn_Date b) (asn_TotalValue b)))"
| "core_call (EGetConfig i) = Some RGetConfig"
| "core_call (EUpdateConfig i) = body_call i (\<lambda>b. Some (RUpdateConfig b))"
| "core_call (EGetProfile i) = Some RGetProfile"
| "core_call (EUpdateProfile i) =
     body_call i (\<lambda>b. Some (RUpdateProfile \<lparr>rpf_Nickname = apu_Nickname b, rpf_Email = apu_Email b, rpf_Bio = apu_Bio b,
       rpf_AvatarUrl = apu_AvatarURL b\<rparr>))"

lemmas service_defs =
  CashFlowService_ListCategories_def CashFlowService_CreateCategory_def CashFlowService_UpdateCategory_def
  CashFlowService_DeleteCategory_def CashFlowService_ListTransactions_def CashFlowService_CreateTransaction_def
  CashFlowService_UpdateTransaction_def CashFlowService_DeleteTransaction_def BalanceSheetService_ListItems_def
  BalanceSheetService_CreateItem_def BalanceSheetService_UpdateItem_def
  BalanceSheetService_ListMonthlySummaries_def BalanceSheetService_DeleteItem_def
  PortfolioService_ListPositions_def PortfolioService_CreatePosition_def PortfolioService_UpdatePosition_def
  PortfolioService_DeletePosition_def PortfolioService_ListTrades_def PortfolioService_CreateTrade_def
  PortfolioService_UpdateTrade_def PortfolioService_DeleteTrade_def PortfolioService_ListSnapshots_def
  PortfolioService_UpsertSnapshot_def PortfolioService_GetConfig_def PortfolioService_UpdateConfig_def
  ProfileService_GetProfile_def ProfileService_UpdateProfile_def

lemmas http_handler_defs =
  CashFlowHandler_ListCategories_def CashFlowHandler_CreateCategory_def CashFlowHandler_UpdateCategory_def
  CashFlowHandler_DeleteCategory_def CashFlowHandler_ListTransactions_def CashFlowHandler_CreateTransaction_def
  CashFlowHandler_UpdateTransaction_def CashFlowHandler_DeleteTransaction_def
  BalanceSheetHandler_ListSummaries_def BalanceSheetHandler_ListItems_def BalanceSheetHandler_CreateItem_def
  BalanceSheetHandler_UpdateItem_def BalanceSheetHandler_DeleteItem_def PortfolioHandler_ListPositions_def
  PortfolioHandler_CreatePosition_def PortfolioHandler_UpdatePosition_def PortfolioHandler_DeletePosition_def
  PortfolioHandler_ListTrades_def PortfolioHandler_CreateTrade_def PortfolioHandler_UpdateTrade_def
  PortfolioHandler_DeleteTrade_def PortfolioHandler_ListSnapshots_def PortfolioHandler_UpsertSnapshot_def
  PortfolioHandler_GetConfig_def PortfolioHandler_UpdateConfig_def ProfileHandler_GetProfile_def
  ProfileHandler_UpdateProfile_def

section \<open>The gateway refines the core service\<close>

lemma read_only_written: "read_only db r = written (r, db)"
  by (simp add: read_only_def written_def)

text \<open>The whole outcome of a core method, its message in the form of the gateway's JSON \<open>data\<close> (none for an empty
  message).\<close>

definition json_of :: "('a \<Rightarrow> payload option) \<Rightarrow> (status + 'a) \<times> 'db \<Rightarrow> (status + payload option) \<times> 'db" where
  "json_of f r = (case fst r of Inl st \<Rightarrow> Inl st | Inr x \<Rightarrow> Inr (f x), snd r)"

fun core_message ::
  "'db Exec \<Rightarrow> 'db \<Rightarrow> string option \<Rightarrow> int \<Rightarrow> core_request \<Rightarrow> (status + payload option) \<times> 'db" where
  "core_message exec db ctx n (RListCategories y m) = json_of (\<lambda>x. Some (DCategories (map categoryFromProto x))) (ListCategories exec db ctx y m, db)"
| "core_message exec db ctx n (RCreateCategory req) = json_of (\<lambda>x. Some (DCategory (categoryFromProto x))) (CreateCategory exec db ctx n req)"
| "core_message exec db ctx n (RUpdateCategory req) = json_of (\<lambda>x. Some (DCategory (categoryFromProto x))) (UpdateCategory exec db ctx n req)"
| "core_message exec db ctx n (RDeleteCategory rid) = json_of (\<lambda>x. None) (DeleteCategory exec db ctx n rid)"
| "core_message exec db ctx n (RListTransactions req) = json_of (\<lambda>x. Some (DTransactions (map transactionFromProto (fst x)) (snd x))) (ListTransactions exec db ctx req, db)"
| "core_message exec db ctx n (RCreateTransaction req) = json_of (\<lambda>x. Some (DTransaction (transactionFromProto x))) (CreateTransaction exec db ctx n req)"
| "core_message exec db ctx n (RUpdateTransaction req) = json_of (\<lambda>x. Some (DTransaction (transactionFromProto x))) (UpdateTransaction exec db ctx n req)"
| "core_message exec db ctx n (RDeleteTransaction rid) = json_of (\<lambda>x. None) (DeleteTransaction exec db ctx n rid)"
| "core_message exec db ctx n (RListItems y m) = json_of (\<lambda>x. Some (DItems (map itemFromProto x))) (ListItems exec db ctx y m, db)"
| "core_message exec db ctx n (RCreateItem req) = json_of (\<lambda>x. Some (DItem (itemFromProto x))) (CreateItem exec db ctx n req)"
| "core_message exec db ctx n (RUpdateItem req) = json_of (\<lambda>x. Some (DItem (itemFromProto x))) (UpdateItem exec db ctx n req)"
| "core_message exec db ctx n (RListMonthlySummaries m) = json_of (\<lambda>x. Some (DSummaries (map summaryFromProto x))) (ListMonthlySummaries exec db ctx m, db)"
| "core_message exec db ctx n (RDeleteItem rid) = json_of (\<lambda>x. None) (DeleteItem exec db ctx n rid)"
| "core_message exec db ctx n RListPositions = json_of (\<lambda>x. Some (DPositions (map positionFromProto x))) (ListPositions exec db ctx, db)"
| "core_message exec db ctx n (RCreatePosition req) = json_of (\<lambda>x. Some (DPosition (positionFromProto x))) (CreatePosition exec db ctx n req)"
| "core_message exec db ctx n (RUpdatePosition req) = json_of (\<lambda>x. Some (DPosition (positionFromProto x))) (UpdatePosition exec db ctx n req)"
| "core_message exec db ctx n (RDeletePosition rid) = json_of (\<lambda>x. None) (DeletePosition exec db ctx n rid)"
| "core_message exec db ctx n (RListTrades pid) = json_of (\<lambda>x. Some (DTrades (map tradeFromProto x))) (ListTrades exec db ctx pid, db)"
| "core_message exec db ctx n (RCreateTrade req) = json_of (\<lambda>x. Some (DTrade (tradeFromProto x))) (CreateTrade exec db ctx n req)"
| "core_message exec db ctx n (RUpdateTrade req) = json_of (\<lambda>x. Some (DTrade (tradeFromProto x))) (UpdateTrade exec db ctx n req)"
| "core_message exec db ctx n (RDeleteTrade rid) = json_of (\<lambda>x. None) (DeleteTrade exec db ctx n rid)"
| "core_message exec db ctx n RListSnapshots = json_of (\<lambda>x. Some (DSnapshots (map snapshotFromProto x))) (ListSnapshots exec db ctx, db)"
| "core_message exec db ctx n (RUpsertSnapshot d v) = json_of (\<lambda>x. Some (DSnapshot (snapshotFromProto x))) (UpsertSnapshot exec db ctx n d v)"
| "core_message exec db ctx n RGetConfig = json_of (\<lambda>x. Some (DConfig x)) (GetConfig exec db ctx, db)"
| "core_message exec db ctx n (RUpdateConfig c) = json_of (\<lambda>x. Some (DConfig x)) (UpdateConfig exec db ctx n c)"
| "core_message exec db ctx n RGetProfile = json_of (\<lambda>x. Some (DProfile (profileFromProto x))) (GetProfile exec db ctx n)"
| "core_message exec db ctx n (RUpdateProfile req) = json_of (\<lambda>x. Some (DProfile (profileFromProto x))) (UpdateProfile exec db ctx n req)"

lemma json_of_written: "written r = (failure (fst (json_of f r)), snd (json_of f r))"
  by (simp add: written_def json_of_def failure_def split: sum.split)

lemma core_message_handle:
  "core_handle exec db ctx n q = (failure (fst (core_message exec db ctx n q)), snd (core_message exec db ctx n q))"
  by (cases q) (simp_all add: read_only_written json_of_written [symmetric])

text \<open>The HTTP answer to an outcome of the core service.\<close>

definition http_answer :: "status + payload option \<Rightarrow> payload http_response" where
  "http_answer reply = (case reply of Inl st \<Rightarrow> respond_error (RpcStatus st) | Inr d \<Rightarrow> Respond 200 0 ''success'' d)"

text \<open>What a call over the network leaves behind and how it is answered.\<close>

definition landed :: "network \<Rightarrow> 'db \<Rightarrow> 'db \<Rightarrow> 'db" where
  "landed net before after = (case net of RequestLost e \<Rightarrow> before | _ \<Rightarrow> after)"

definition replied :: "network \<Rightarrow> status + payload option \<Rightarrow> payload http_response" where
  "replied net reply =
     (case net of Delivered \<Rightarrow> http_answer reply | RequestLost e \<Rightarrow> respond_error e | AnswerLost e \<Rightarrow> respond_error e)"

definition mirrors :: "network \<Rightarrow> 'db \<Rightarrow> (status + payload option) \<times> 'db \<Rightarrow> payload http_response \<times> 'db \<Rightarrow> bool" where
  "mirrors net db srv a = (a = (replied net (fst srv), landed net db (snd srv)))"

lemma mirrors_result: "mirrors net db (json_of f r) (respond_result f (over_network net db r))"
  by (cases net; cases "fst r"; simp add: mirrors_def landed_def replied_def respond_result_def over_network_def
    http_answer_def json_of_def)

lemma respond_map: "respond_result f (map_rpc g r) = respond_result (\<lambda>x. f (g x)) r"
  by (auto simp: respond_result_def map_rpc_def split: prod.splits sum.splits)

lemma type_rejected: "cashFlowTypeToProto t = Inl e \<Longrightarrow> e = RpcStatus (Status InvalidArgument ''unsupported cash_flow_type'')"
  by (auto simp: cashFlowTypeToProto_def split: if_splits)

definition rejected :: "'db \<Rightarrow> payload http_response \<times> 'db \<Rightarrow> bool" where
  "rejected db a = (\<exists>m \<in> {''invalid id'', ''invalid request body'', ''unsupported cash_flow_type''}. a = (Respond 400 400 m None, db))"

lemma rejected_intros:
  "rejected db (invalid_body, db)" "rejected db (invalid_id, db)"
  "rejected db (respond_result f (Inl (RpcStatus (Status InvalidArgument ''unsupported cash_flow_type'')), db))"
  by (simp_all add: rejected_def invalid_body_def invalid_id_def Respond_def respond_result_def respond_error_def GrpcStatusToHTTP_def)

lemmas call_defs = body_call_def id_call_def type_call_def q32_def category_call_def transaction_call_def item_call_def
  position_call_def trade_call_def

lemma api_core_mirrors:
  "case core_call e of
     None \<Rightarrow> rejected db (api_core (core_stub exec n net) c e db)
   | Some q \<Rightarrow> mirrors net db (core_message exec db (core_interceptor [accountID c]) n q) (api_core (core_stub exec n net) c e db)"
  by (cases e; simp add: service_defs http_handler_defs call_defs with_id_def with_body_def withAccountID_def core_stub_def
     mirrors_result respond_map rejected_intros parseQueryInt_def split: option.split sum.split)
    (auto simp: rejected_intros split_beta mirrors_result dest!: type_rejected)

end
