(* ===== verification/ApiProps.thy ===== *)
theory ApiProps
  imports ApiRun
begin

text \<open>
  Properties of the gateway: how its answers and effects correspond to those of the core service behind it, whose
  rows a request can reach through the JWT middleware, transparent token refresh, and the lifetimes of the cookies.
\<close>

section \<open>The gateway as it is served\<close>

text \<open>The state behind the gateway: that of the auth service, which the refresher works on, and the core
  database, which the handlers work on.\<close>

definition api_next :: "'db Exec \<Rightarrow> int \<Rightarrow> network \<Rightarrow> endpoint \<Rightarrow> (payload, 'a \<times> 'db) next_handler" where
  "api_next exec n net e c s = (case api_core (core_stub exec n net) c e (snd s) of (resp, db') \<Rightarrow> (resp, c, (fst s, db')))"

definition on_auth :: "('e, 'a) TokenRefresher \<Rightarrow> ('e, 'a \<times> 'db) TokenRefresher" where
  "on_auth rf tk s = (case rf tk (fst s) of (r, a) \<Rightarrow> (r, (a, snd s)))"

definition gateway ::
  "jwtlib \<Rightarrow> string \<Rightarrow> 'db Exec \<Rightarrow> ('e, 'a) TokenRefresher \<Rightarrow> clock_reads \<Rightarrow> http_request \<Rightarrow> int \<Rightarrow> network \<Rightarrow> endpoint \<Rightarrow>
   'a \<times> 'db \<Rightarrow> payload http_response \<times> echo_ctx \<times> 'a \<times> 'db" where
  "gateway lib key exec rf tm req n net e s =
     ServerJWTInterceptor lib key open_path (Some (on_auth rf)) tm req (api_next exec n net e) new_ctx s"

lemma on_auth_state: "refreshed (Some (on_auth rf)) req (a, db) = (snd (rf (resolveRefreshToken req) a), db)"
  by (simp add: refreshed_def on_auth_def split: prod.splits)

lemma api_next_db:
  "api_next exec n net e c (a, db) = (resp, c', (a', db')) \<Longrightarrow> db' = snd (api_core (core_stub exec n net) c e db)"
  by (auto simp: api_next_def split: prod.splits)

lemma core_interceptor_one: "core_interceptor [a] = (if a = [] then None else Some a)"
  by (simp add: core_interceptor_def)

text \<open>Whatever the network does, the handlers leave the core database as it was or as the core service makes
  it in one call for the account of the context.\<close>

lemma api_core_effect:
  "snd (api_core (core_stub exec n net) c e db) = db \<or>
   (\<exists>q. snd (api_core (core_stub exec n net) c e db) = snd (core_serve exec db [accountID c] n q))"
  using api_core_mirrors [where e = e and db = db and exec = exec and n = n and net = net and c = c]
    core_message_handle [of exec db "core_interceptor [accountID c]" n]
  by (cases "core_call e"; cases net) (auto simp: rejected_def mirrors_def landed_def core_serve_def)

lemma api_core_anonymous: "accountID c = [] \<Longrightarrow> snd (api_core (core_stub exec n net) c e db) = db"
  using api_core_effect [of exec n net c e db] unauthenticated_handle [of None exec db n]
  by (auto simp: core_serve_def core_interceptor_one no_account_def)

lemma new_ctx_anonymous: "snd (api_core (core_stub exec n net) new_ctx e db) = db"
  by (rule api_core_anonymous) (simp add: accountID_def new_ctx_def)

lemma gateway_effect:
  assumes "gateway lib key exec rf tm req n net e (a, db) = (resp, c', (a', db'))"
  shows "db' = db \<or> (\<exists>c1. names_token lib key tm req c1 \<and> db' = snd (api_core (core_stub exec n net) c1 e db))"
proof (cases "open_path req")
  case True
  then have "db' = snd (api_core (core_stub exec n net) new_ctx e db)"
    using assms api_next_db [of exec n net e new_ctx a db resp c' a' db']
    by (simp add: gateway_def ServerJWTInterceptor_def)
  then show ?thesis by (simp add: new_ctx_anonymous)
next
  case False
  from interceptor_ways [OF assms [unfolded gateway_def] False] show ?thesis
    by (auto simp: on_auth_state new_ctx_anonymous dest!: api_next_db)
qed

text \<open>The plain way: an accepted token that is not about to expire.\<close>

lemma gateway_accepted:
  assumes "\<not> open_path req" "resolveToken req \<noteq> []" "JwtWithParseToken lib key (cr_parse tm) (resolveToken req) None = Inr claims"
    and "\<not> isTokenNearExpiry (cr_until tm) claims"
  shows "gateway lib key exec rf tm req n net e s = api_next exec n net e (setContext new_ctx claims (resolveToken req)) s"
  using assms by (simp add: gateway_def ServerJWTInterceptor_def)

lemma delivered_db:
  assumes "core_call e = Some q"
  shows "snd (snd (snd (api_next exec n Delivered e c (a, db)))) = snd (core_serve exec db [accountID c] n q)"
  using api_core_mirrors [where e = e and db = db and exec = exec and n = n and net = Delivered and c = c] assms
    core_message_handle [of exec db "core_interceptor [accountID c]" n q]
  by (auto simp: mirrors_def landed_def api_next_def core_serve_def split: prod.splits)

section \<open>Properties\<close>

text \<open>C7. The core endpoints refine the core service. This is about the 27 routes that stand for one call of it (the
  upload of an avatar and the routes of \<open>auth.go\<close> are not among them), behind the middleware. A request whose id does not
  parse, whose body does not bind or whose cash flow type is unknown is answered 400 with the message for that and reaches
  nothing; every other request is exactly one call of the core service, the one that \<open>core_call\<close> gives, with the account of the
  context in the metadata. A delivered call is answered 200, code 0, \<open>success\<close> and the service's own message in its JSON
  form (\<open>core_message\<close>) when the service succeeded, and with the status, code and message that \<open>GrpcStatusToHTTP\<close> gives when it
  failed, and it leaves the database the service left; a lost request leaves it unchanged, and a lost answer leaves what the
  service did.\<close>

theorem api_refines_core:
  "case core_call e of
     None \<Rightarrow> \<exists>m \<in> {''invalid id'', ''invalid request body'', ''unsupported cash_flow_type''}.
       api_core (core_stub exec n net) c e db = (Respond 400 400 m None, db)
   | Some q \<Rightarrow>
       (case core_message exec db (core_interceptor [accountID c]) n q of
          (reply, db1) \<Rightarrow>
            core_serve exec db [accountID c] n q = (failure reply, db1) \<and>
            api_core (core_stub exec n net) c e db =
              (case net of
                 Delivered \<Rightarrow>
                   ((case reply of Inl st \<Rightarrow> respond_error (RpcStatus st) | Inr d \<Rightarrow> Respond 200 0 ''success'' d), db1)
               | RequestLost err \<Rightarrow> (respond_error err, db)
               | AnswerLost err \<Rightarrow> (respond_error err, db1)))"
  using api_core_mirrors [where e = e and db = db and exec = exec and n = n and net = net and c = c]
    core_message_handle [of exec db "core_interceptor [accountID c]" n]
  by (cases "core_call e"; cases net)
     (auto simp: mirrors_def landed_def replied_def http_answer_def rejected_def core_serve_def split: prod.splits)

text \<open>C5. Account isolation through the gateway: when a request changes any row of an account \<open>b\<close> in the core
  database, whatever the network and the refresher did, the middleware accepted a token that was signed with the
  service's key, had not expired at that moment, and names \<open>b\<close> (as the database compares account ids); the token
  is the one the request carried, or the request carried a refresh cookie.\<close>

theorem gateway_isolated:
  assumes "mysql exec ok tab le conv dflt" "jwt lib" "ok db"
    and "gateway lib key exec rf tm req n net e (a, db) = (resp, c', (a', db'))"
    and "rows_of le b (tab db') \<noteq> rows_of le b (tab db)"
  shows "\<exists>claims tk t. SignedString lib key claims = Inr tk \<and> \<not> expired t claims \<and> same_account le (AccountId claims) b \<and>
     (t = cr_parse tm \<and> tk = resolveToken req \<or> t = cr_reparse tm \<and> resolveRefreshToken req \<noteq> [])"
proof -
  obtain c1 where c1: "names_token lib key tm req c1" "db' = snd (api_core (core_stub exec n net) c1 e db)"
    using gateway_effect [OF assms(4)] assms(5) by auto
  then obtain claims tk t where t: "JwtWithParseToken lib key t tk None = Inr claims" "accountID c1 = AccountId claims"
      "t = cr_parse tm \<and> tk = resolveToken req \<or> t = cr_reparse tm \<and> resolveRefreshToken req \<noteq> []"
    by (auto simp: names_token_def accountID_def)
  obtain q where q: "db' = snd (core_handle exec db (core_interceptor [accountID c1]) n q)"
    using api_core_effect [of exec n net c1 e db] c1(2) assms(5) by (auto simp: core_serve_def)
  have "same_account le (accountID c1) b"
  proof (rule ccontr)
    assume "\<not> same_account le (accountID c1) b"
    then have "\<forall>x. core_interceptor [accountID c1] = Some x \<longrightarrow> \<not> same_account le x b"
      by (simp add: core_interceptor_one)
    from mysql.handle_step(3) [OF assms(1,3) prod.collapse [symmetric] this] q assms(5) show False by simp
  qed
  then show ?thesis using jwt.accepted_signed [OF assms(2) t(1)] t(2,3) by auto
qed

text \<open>The witness: account 8 creates a category with a bearer token.\<close>

definition bearer_claims :: "int \<Rightarrow> JwtClaims" where
  "bearer_claims life = new_claims 0 ''8'' ''user'' (life * second)"

definition bearer_token :: "int \<Rightarrow> string" where
  "bearer_token life = (case SignedString plain_jwt ''k'' (bearer_claims life) of Inr t \<Rightarrow> t | Inl e \<Rightarrow> [])"

definition bearer_request :: "int \<Rightarrow> (string \<times> string) list \<Rightarrow> http_request" where
  "bearer_request life cookies =
     \<lparr>rq_Path = ''/api/v1/categories'', rq_Cookies = cookies, rq_Authorization = ''Bearer '' @ bearer_token life, rq_TLS = True\<rparr>"

definition bearer_clock :: clock_reads where
  "bearer_clock = \<lparr>cr_parse = 5 * second, cr_until = 5 * second, cr_reparse = 5 * second\<rparr>"

definition no_refresher :: "(unit, unit) TokenRefresher" where
  "no_refresher tk a = (Inl (), a)"

definition bearer_endpoint :: endpoint where
  "bearer_endpoint = ECreateCategory \<lparr>in_Query = (\<lambda>q. if q = ''date'' then ''2024-05'' else []), in_Id = [],
     in_Body = Some \<lparr>acr_ID = 0, acr_Name = ''Food'', acr_Type = ''expense'', acr_SortOrder = 1, acr_Date = []\<rparr>\<rparr>"

lemma bearer_signed: "SignedString plain_jwt ''k'' (bearer_claims life) = Inr (bearer_token life)"
  by (simp add: bearer_token_def plain_jwt_def plain_sign_def)

lemma bearer_resolved: "resolveToken (bearer_request life []) = bearer_token life"
  by (simp add: resolveToken_def bearer_request_def cookie_value_def CutPrefix_def HasPrefix_def)

lemma bearer_accepted:
  assumes "5 < life"
  shows "JwtWithParseToken plain_jwt ''k'' (5 * second) (bearer_token life) None = Inr (bearer_claims life)"
proof -
  have "JwtWithCreateToken plain_jwt ''k'' 0 ''8'' ''user'' (life * second) = Some (Inr (bearer_token life))"
    using bearer_signed [of life] by (simp add: JwtWithCreateToken_def bearer_claims_def)
  moreover have "NewNumericDate (0 + life * second) = life" by (simp add: NewNumericDate_def second_def)
  ultimately show ?thesis
    using plain.created_accepted [of "''k''" 0 "''8''" "''user''" "life * second" "bearer_token life" "5 * second"] assms
    by (simp add: bearer_claims_def second_def)
qed

lemma bearer_token_nonempty: "bearer_token life \<noteq> []"
  using bearer_signed [of life] by (auto simp: plain_jwt_def plain_sign_def field_def)

lemma bearer_near: "isTokenNearExpiry (5 * second) (bearer_claims life) \<longleftrightarrow> life * second - 5 * second < expiry_threshold (life * second)"
  by (simp add: isTokenNearExpiry_def bearer_claims_def new_claims_def NewNumericDate_def second_def)

lemma bearer_path: "\<not> open_path (bearer_request life cs)"
  by (simp add: open_path_def bearer_request_def)

lemma bearer_call: "core_call bearer_endpoint = Some food"
  by (simp add: bearer_endpoint_def food_def body_call_def type_call_def category_call_def cashFlowTypeToProto_def EXPENSE_def int32_conv_def)

lemma bearer_served:
  "snd (snd (snd (gateway plain_jwt ''k'' ref_exec no_refresher bearer_clock (bearer_request 3600 []) 5 Delivered bearer_endpoint
     ((), ref_empty)))) = snd (core_serve ref_exec ref_empty [''8''] 5 food)"
proof -
  have "\<not> isTokenNearExpiry (cr_until bearer_clock) (bearer_claims 3600)"
    using bearer_near [of 3600] by (simp add: bearer_clock_def expiry_threshold_def second_def)
  then have "gateway plain_jwt ''k'' ref_exec no_refresher bearer_clock (bearer_request 3600 []) 5 Delivered bearer_endpoint ((), ref_empty) =
      api_next ref_exec 5 Delivered bearer_endpoint (setContext new_ctx (bearer_claims 3600) (bearer_token 3600)) ((), ref_empty)"
    using gateway_accepted [OF bearer_path [of 3600 "[]"], where claims = "bearer_claims 3600" and lib = plain_jwt and key = "''k''" and
        tm = bearer_clock and rf = no_refresher and e = bearer_endpoint and exec = ref_exec and n = 5 and net = Delivered and s = "((), ref_empty)"]
      bearer_accepted [of 3600]
    by (simp add: bearer_resolved bearer_token_nonempty bearer_clock_def)
  then show ?thesis
    by (simp add: delivered_db [OF bearer_call] setContext_def accountID_def bearer_claims_def new_claims_def)
qed

theorem gateway_isolated_witness:
  "rows_of ref_le ''8'' (rd_tabs (snd (snd (snd (gateway plain_jwt ''k'' ref_exec no_refresher bearer_clock (bearer_request 3600 []) 5
       Delivered bearer_endpoint ((), ref_empty)))))) \<noteq> rows_of ref_le ''8'' (rd_tabs ref_empty) \<and>
   (\<exists>claims tk t. SignedString plain_jwt ''k'' claims = Inr tk \<and> \<not> expired t claims \<and> same_account ref_le (AccountId claims) ''8'' \<and>
     (t = cr_parse bearer_clock \<and> tk = resolveToken (bearer_request 3600 []) \<or>
      t = cr_reparse bearer_clock \<and> resolveRefreshToken (bearer_request 3600 []) \<noteq> []))"
proof -
  let ?g = "gateway plain_jwt ''k'' ref_exec no_refresher bearer_clock (bearer_request 3600 []) 5 Delivered bearer_endpoint ((), ref_empty)"
  have e: "?g = (fst ?g, fst (snd ?g), (fst (snd (snd ?g)), snd (snd (snd ?g))))" by (simp only: prod.collapse)
  have "length (rows_of ref_le ''8'' (rd_tabs (snd (core_serve ref_exec ref_empty [''8''] 5 food))) ''categories'') = 1" by code_simp
  moreover have "rows_of ref_le ''8'' (rd_tabs ref_empty) ''categories'' = []" by code_simp
  ultimately have ne: "rows_of ref_le ''8'' (rd_tabs (snd (snd (snd ?g)))) \<noteq> rows_of ref_le ''8'' (rd_tabs ref_empty)"
    unfolding bearer_served by (metis length_0_conv zero_neq_one)
  from gateway_isolated [OF refdb.mysql_axioms plain.jwt_axioms ref_empty_wf e ne] ne show ?thesis by blast
qed

text \<open>C19. A request whose access token is accepted but within its last tenth (at least ten seconds, at most five
  minutes) and that carries no refresh cookie is passed on without an account: whatever endpoint of the core service
  it asks for, it is answered 401 \<open>missing account_id\<close>, although the token has not expired. So a client that
  authenticates with the \<open>Authorization\<close> header alone loses access before its token ends.\<close>

theorem near_expiry_locked_out:
  assumes "\<not> open_path req" "resolveToken req \<noteq> []" "JwtWithParseToken lib key (cr_parse tm) (resolveToken req) None = Inr claims"
    and "isTokenNearExpiry (cr_until tm) claims" "resolveRefreshToken req = []" "core_call e = Some q"
  shows "gateway lib key exec rf tm req n Delivered e s = (Respond 401 401 ''missing account_id'' None, new_ctx, s)"
proof -
  have "core_handle exec (snd s) (core_interceptor [accountID new_ctx]) n q =
      (Some (Status Unauthenticated ''missing account_id''), snd s)"
    by (rule unauthenticated_handle) (simp add: core_interceptor_def no_account_def accountID_def new_ctx_def)
  then have "core_message exec (snd s) (core_interceptor [accountID new_ctx]) n q =
      (Inl (Status Unauthenticated ''missing account_id''), snd s)"
    using core_message_handle [of exec "snd s" "core_interceptor [accountID new_ctx]" n q]
    by (simp add: failure_def prod_eq_iff split: sum.splits)
  then have "api_core (core_stub exec n Delivered) new_ctx e (snd s) = (Respond 401 401 ''missing account_id'' None, snd s)"
    using api_core_mirrors [where e = e and db = "snd s" and exec = exec and n = n and net = Delivered and c = new_ctx] assms(6)
    by (simp add: mirrors_def landed_def replied_def http_answer_def respond_error_def GrpcStatusToHTTP_def)
  then show ?thesis using assms(1-5)
    by (simp add: gateway_def ServerJWTInterceptor_def tryRefresh_def api_next_def)
qed

theorem near_expiry_locked_out_witness:
  "gateway plain_jwt ''k'' ref_exec no_refresher bearer_clock (bearer_request 14 []) 5 Delivered bearer_endpoint ((), ref_empty) =
     (Respond 401 401 ''missing account_id'' None, new_ctx, ((), ref_empty)) \<and>
   JwtWithParseToken plain_jwt ''k'' (5 * second) (bearer_token 14) None = Inr (bearer_claims 14)"
proof -
  have "isTokenNearExpiry (cr_until bearer_clock) (bearer_claims 14)"
    using bearer_near [of 14] by (simp add: bearer_clock_def expiry_threshold_def second_def)
  moreover have "resolveRefreshToken (bearer_request 14 []) = []"
    by (simp add: resolveRefreshToken_def cookie_value_def bearer_request_def)
  ultimately show ?thesis
    using near_expiry_locked_out [OF bearer_path [of 14 "[]"], where claims = "bearer_claims 14" and lib = plain_jwt and key = "''k''" and
        tm = bearer_clock and rf = no_refresher and e = bearer_endpoint and exec = ref_exec and n = 5 and s = "((), ref_empty)", OF _ _ _ _ bearer_call]
      bearer_accepted [of 14]
    by (simp add: bearer_resolved bearer_token_nonempty bearer_clock_def)
qed

text \<open>The shape of an answer.\<close>

definition answer_ok :: "payload http_response \<Rightarrow> bool" where
  "answer_ok resp =
     (if hr_Status resp = 200 then hr_Code resp = Some 0 \<and> hr_Message resp = ''success''
      else hr_Status resp \<in> {400, 401, 403, 404, 409, 429, 500, 501, 503, 504} \<and> hr_Code resp = Some (hr_Status resp) \<and>
        hr_Data resp = None \<and> (if hr_Status resp = 500 then hr_Message resp = ''internal server error'' else True))"

lemma answer_error: "answer_ok (respond_error err)"
  by (simp add: answer_ok_def respond_error_def GrpcStatusToHTTP_def Respond_def split: rpc_error.split code.split)

lemma answer_result: "answer_ok (fst (respond_result f r))"
  by (auto simp: respond_result_def answer_error split: prod.split sum.split) (simp add: answer_ok_def Respond_def)

lemma answer_input: "answer_ok invalid_body" "answer_ok invalid_id"
  by (simp_all add: answer_ok_def invalid_body_def invalid_id_def Respond_def)

lemma answer_unauthorized: "answer_ok (unauthorized m)"
  by (simp add: answer_ok_def unauthorized_def)

lemma api_core_answer: "answer_ok (fst (api_core cl c e s))"
  by (cases e; simp add: http_handler_defs with_id_def with_body_def answer_result answer_input split: option.split)

text \<open>C21. The shape of an answer to a request for one of the 27 core endpoints, behind the middleware, whatever the core
  service, the network and the token refresher do (the upload of an avatar, the routes of \<open>auth.go\<close>, panics and unknown
  routes are not covered):
  status 200 with code 0 and the message \<open>success\<close>, or one of the ten error statuses with the same code and without
  data; and what the services report as an internal error leaves the gateway only as \<open>internal server error\<close>.\<close>

theorem gateway_answer_shape: "answer_ok (fst (gateway lib key exec rf tm req n net e s))"
proof -
  have nxt: "answer_ok (fst (api_next exec n net e c s))" for c s
    using api_core_answer [of "core_stub exec n net" c e "snd s"] by (auto simp: api_next_def split: prod.splits)
  show ?thesis
  proof (cases "open_path req")
    case True
    then show ?thesis using nxt by (simp add: gateway_def ServerJWTInterceptor_def)
  next
    case False
    obtain resp c' s' where g: "gateway lib key exec rf tm req n net e s = (resp, c', s')" by (metis prod.collapse)
    from interceptor_ways [OF g [unfolded gateway_def] False] nxt answer_unauthorized show ?thesis
      unfolding g by (metis fst_conv)
  qed
qed

end
