(* ===== verification/ApiAuthRun.thy ===== *)
theory ApiAuthRun
  imports ApiAuth ApiProps AuthProps
begin

text \<open>
  The gateway with both services behind it: the stubs of \<open>personal-auth\<close> reach its handlers over the network, and
  the middleware refreshes tokens through them.
\<close>

section \<open>The stubs on the auth service\<close>

text \<open>The state of the auth service is its database and Redis.\<close>

definition on_redis :: "'db \<times> 'r \<Rightarrow> (status + 'a) \<times> 'r \<Rightarrow> (status + 'a) \<times> 'db \<times> 'r" where
  "on_redis s x = (fst x, (fst s, snd x))"

definition auth_stub :: "('db, 'r) world \<Rightarrow> reading \<Rightarrow> network \<Rightarrow> ('db \<times> 'r) auth_client" where
  "auth_stub w rd net =
     \<lparr>au_Register = (\<lambda>req s. over_network net s (Register w rd req (fst s) (snd s))),
      au_Login = (\<lambda>req s. over_network net s (Login w rd req (fst s) (snd s))),
      au_RefreshToken = (\<lambda>tk s. over_network net s (on_redis s (RefreshToken w rd tk (snd s)))),
      au_ValidateToken = (\<lambda>tk s. over_network net s (on_redis s (ValidateToken w rd tk (snd s)))),
      au_RevokeToken = (\<lambda>tk s. over_network net s (on_redis s (RevokeToken w tk (snd s)))),
      au_RevokeAllTokens = (\<lambda>tk s. over_network net s (on_redis s (RevokeAllTokens w rd tk (snd s)))),
      au_DeleteAccount = (\<lambda>acc pw s. over_network net s (DeleteAccount w rd acc pw (fst s) (snd s))),
      au_UpdatePassword = (\<lambda>req s. over_network net s (UpdatePassword w rd req (fst s) (snd s))),
      au_UpdateIdentifier = (\<lambda>req s. over_network net s (UpdateIdentifier w req (fst s) (snd s)))\<rparr>"

lemma refresher_delivered:
  assumes "RefreshToken w rd tk r = (Inr tp, r1)"
  shows "authTokenRefresher_Refresh (auth_stub w rd Delivered) tk (adb, r) =
     (Inr (tp_AccessToken tp, tp_RefreshToken tp, tp_ExpiresIn tp), (adb, r1))"
  using assms by (simp add: authTokenRefresher_Refresh_def AuthService_RefreshToken_def auth_stub_def on_redis_def over_network_def
    map_rpc_def tokensFromProto_def)

text \<open>What a successful exchange read and issued.\<close>

lemma refresh_issues:
  assumes "RefreshToken w rd refreshToken r = (Inr tp, r')"
  shows "\<exists>h val. StateTokenWithParseJwtToken refreshToken = Inr h \<and> fst (redisGetFn (w_redis w) (tkey h) r) = Inr val \<and>
     (\<exists>role. JwtWithCreateToken (w_jwt w) (w_SigningKey w) (r_now rd) (SplitN2 val (CHR '':'') ! 0) role (AccessTokenExpire (w_cfg w)) =
        Some (Inr (tp_AccessToken tp)))"
  using assms
  by (auto simp: RefreshToken_def with_token_def Let_def tokenPrefix_def split: sum.splits prod.splits option.splits if_splits)

section \<open>Properties\<close>

text \<open>C18. An expired access token does not interrupt a session. When the middleware finds the access token expired, the
  refresh cookie is one that the auth service exchanges, and the new token is still valid when it is looked at, the
  request is served as one of the account that Redis holds for the refresh token, the response carries the two new
  cookies, and the refresh token that was presented is spent.\<close>

theorem expired_access_refreshed:
  assumes "jwt (w_jwt w)" "redis (w_redis w) view" "\<not> open_path req" "resolveToken req \<noteq> []" "resolveRefreshToken req \<noteq> []"
    and "JwtWithParseToken (w_jwt w) (w_SigningKey w) (cr_parse tm) (resolveToken req) None = Inl ErrTokenExpired"
    and "RefreshToken w rd (resolveRefreshToken req) r = (Inr tp, r1)"
    and "r_now rd \<le> cr_reparse tm" "cr_reparse tm < NewNumericDate (r_now rd + AccessTokenExpire (w_cfg w)) * second"
  shows "\<exists>h val c1. StateTokenWithParseJwtToken (resolveRefreshToken req) = Inr h \<and>
     fst (redisGetFn (w_redis w) (tkey h) r) = Inr val \<and> ec_AccountID c1 = Some (SplitN2 val (CHR '':'') ! 0) \<and>
     ec_SetCookies c1 = [token_cookie req ''access_token'' (tp_AccessToken tp) (tp_ExpiresIn tp),
       token_cookie req ''refresh_token'' (tp_RefreshToken tp) (refreshMaxAge (tp_ExpiresIn tp))] \<and>
     gateway (w_jwt w) (w_SigningKey w) exec (authTokenRefresher_Refresh (auth_stub w rd Delivered)) tm req n net e ((adb, r), db) =
       api_next exec n net e c1 ((adb, r1), db) \<and>
     rv_keys (view r1) (tkey h) = None"
proof -
  obtain h val role where h: "StateTokenWithParseJwtToken (resolveRefreshToken req) = Inr h"
      "fst (redisGetFn (w_redis w) (tkey h) r) = Inr val"
      "JwtWithCreateToken (w_jwt w) (w_SigningKey w) (r_now rd) (SplitN2 val (CHR '':'') ! 0) role (AccessTokenExpire (w_cfg w)) =
        Some (Inr (tp_AccessToken tp))"
    using refresh_issues [OF assms(7)] by blast
  let ?claims = "new_claims (r_now rd) (SplitN2 val (CHR '':'') ! 0) role (AccessTokenExpire (w_cfg w))"
  let ?c0 = "SetTokenCookies req new_ctx (tp_AccessToken tp) (tp_RefreshToken tp) (tp_ExpiresIn tp)"
  let ?c1 = "setContext ?c0 ?claims (tp_AccessToken tp)"
  have p: "JwtWithParseToken (w_jwt w) (w_SigningKey w) (cr_reparse tm) (tp_AccessToken tp) None = Inr ?claims"
    by (rule jwt.created_accepted [OF assms(1) h(3) assms(8,9)])
  have g: "gateway (w_jwt w) (w_SigningKey w) exec (authTokenRefresher_Refresh (auth_stub w rd Delivered)) tm req n net e ((adb, r), db) =
      api_next exec n net e ?c1 ((adb, r1), db)"
    using assms(3-6) p
    by (simp add: gateway_def ServerJWTInterceptor_def doRefresh_def on_auth_def refresher_delivered [OF assms(7)])
  have "digest h" by (rule parse_digest [OF h(1)])
  then have "h \<noteq> []" by (simp add: digest_def)
  obtain new acc v r0 where "StateTokenWithRenew (w_redis w) h new acc v (RefreshTokenExpire (w_cfg w)) r0 = (Inr (), r1)"
    using refresh_ok [OF assms(7) h(1)] by blast
  from redis.renew_spends_old(1) [OF assms(2) this] \<open>h \<noteq> []\<close> have "rv_keys (view r1) (tkey h) = None" by blast
  then show ?thesis using h(1,2) g
    by (intro exI [of _ h] exI [of _ val] exI [of _ ?c1])
       (simp add: setContext_def SetTokenCookies_def new_ctx_def new_claims_def accessTokenCookieName_def refreshTokenCookieName_def)
qed

definition refresh_request :: http_request where
  "refresh_request = bearer_request 1 [(''refresh_token'', ''x.y.z'')]"

lemma refresh_request_tokens: "resolveToken refresh_request = bearer_token 1" "resolveRefreshToken refresh_request = ''x.y.z''"
  by (simp_all add: refresh_request_def bearer_request_def resolveToken_def resolveRefreshToken_def cookie_value_def CutPrefix_def
    HasPrefix_def accessTokenCookieName_def refreshTokenCookieName_def)

lemma one_session_value: "fst (redisGetFn mem_client (tkey h) (one_session h)) = Inr ''7:user''"
  by (auto simp: redisGetFn_def mem_client_def Let_def redis_reply_def redis_effect_def at_time_def one_session_def as_text_def
      tokenPrefix_def second_def)

lemma bearer_expired: "JwtWithParseToken plain_jwt ''k'' (5 * second) (bearer_token 1) None = Inl ErrTokenExpired"
proof -
  have "JwtWithCreateToken plain_jwt ''k'' 0 ''8'' ''user'' (1 * second) = Some (Inr (bearer_token 1))"
    using bearer_signed [of 1] by (simp add: JwtWithCreateToken_def bearer_claims_def)
  from plain.created_expires [OF this] show ?thesis by (simp add: NewNumericDate_def second_def)
qed

theorem expired_access_refreshed_witness:
  "\<exists>h r1 c1. StateTokenWithParseJwtToken ''x.y.z'' = Inr h \<and> ec_AccountID c1 = Some ''7'' \<and>
     gateway plain_jwt ''k'' ref_exec (authTokenRefresher_Refresh (auth_stub demo_world demo_reading Delivered)) bearer_clock
       refresh_request 5 Delivered bearer_endpoint ((demo_db, one_session h), ref_empty) =
     api_next ref_exec 5 Delivered bearer_endpoint c1 ((demo_db, r1), ref_empty)"
proof -
  obtain h where h: "StateTokenWithParseJwtToken ''x.y.z'' = Inr h" by (simp add: StateTokenWithParseJwtToken_def)
  obtain tp r1 where r: "RefreshToken demo_world demo_reading ''x.y.z'' (one_session h) = (Inr tp, r1)"
    using one_session_refresh [OF _ h] by auto
  have m: "redis (w_redis demo_world) (\<lambda>v. v)" "jwt (w_jwt demo_world)" using mem.redis_axioms plain.jwt_axioms by simp_all
  have o: "\<not> open_path refresh_request" "resolveToken refresh_request \<noteq> []" "resolveRefreshToken refresh_request \<noteq> []"
    using bearer_path bearer_token_nonempty by (simp_all add: refresh_request_tokens) (simp add: refresh_request_def)
  have p: "JwtWithParseToken (w_jwt demo_world) (w_SigningKey demo_world) (cr_parse bearer_clock) (resolveToken refresh_request) None =
      Inl ErrTokenExpired"
    using bearer_expired by (simp add: refresh_request_tokens bearer_clock_def)
  have t: "r_now demo_reading \<le> cr_reparse bearer_clock"
    "cr_reparse bearer_clock < NewNumericDate (r_now demo_reading + AccessTokenExpire (w_cfg demo_world)) * second"
    by (simp_all add: demo_reading_def bearer_clock_def demo_cfg_def NewNumericDate_def second_def)
  obtain val c1 where c: "fst (redisGetFn mem_client (tkey h) (one_session h)) = Inr val" "ec_AccountID c1 = Some (SplitN2 val (CHR '':'') ! 0)"
      "gateway plain_jwt ''k'' ref_exec (authTokenRefresher_Refresh (auth_stub demo_world demo_reading Delivered)) bearer_clock
         refresh_request 5 Delivered bearer_endpoint ((demo_db, one_session h), ref_empty) =
       api_next ref_exec 5 Delivered bearer_endpoint c1 ((demo_db, r1), ref_empty)"
    using expired_access_refreshed [OF m(2,1) o p r [folded refresh_request_tokens(2)] t, of ref_exec 5 Delivered bearer_endpoint demo_db ref_empty] h
    by (auto simp: refresh_request_tokens(2))
  have "SplitN2 ''7:user'' (CHR '':'') = [''7'', ''user'']" by code_simp
  then show ?thesis using h c one_session_value [of h] by auto
qed

end
