(* ===== verification/ApiAvatar.thy ===== *)
theory ApiAvatar
  imports ApiRun Sha256
begin

text \<open>
  The avatar upload of \<open>handler/profile.go\<close>. The object store (MinIO) is a parameter: the two calls that the handler
  makes, and the package variables of \<open>lib/minio\<close>. The locale \<open>object_store\<close> states what they do to the objects.
\<close>

section \<open>The handler\<close>

record 'm bucket =
  bk_PutObject :: "string \<Rightarrow> string \<Rightarrow> string \<Rightarrow> 'm \<Rightarrow> goerr option \<times> 'm"
  bk_RemoveObject :: "string \<Rightarrow> 'm \<Rightarrow> goerr option \<times> 'm"
  bk_Bucket :: string
  bk_EndpointURL :: string
  bk_PublicEndpoint :: string

text \<open>Whether the multipart form parses, and its file \<open>avatar\<close>: the name and what reading it gives.\<close>

record avatar_form =
  af_Multipart :: bool
  af_File :: "(string \<times> (goerr + string)) option"

definition maxAvatarSize :: nat where "maxAvatarSize = 2 * 1024 * 1024"

definition allowedAvatarExts :: "string \<Rightarrow> string option" where
  "allowedAvatarExts ext =
     (if ext = ''.jpg'' then Some ''image/jpeg'' else if ext = ''.jpeg'' then Some ''image/jpeg''
      else if ext = ''.png'' then Some ''image/png'' else None)"

text \<open>\<open>filepath.Ext\<close>: from the last dot of the last path element on.\<close>

definition Ext :: "string \<Rightarrow> string" where
  "Ext path =
     (let r = rev path; t = takeWhile (\<lambda>c. c \<noteq> CHR ''/'' \<and> c \<noteq> CHR ''.'') r in
      case drop (length t) r of
        c # _ \<Rightarrow> (if c = CHR ''.'' then c # rev t else [])
      | [] \<Rightarrow> [])"

text \<open>\<open>strings.ToLower\<close> on ASCII letters; no other character has a lower case letter of the three extensions.\<close>

definition lower_char :: "char \<Rightarrow> char" where
  "lower_char c = (let n = (of_char c :: nat) in if 65 \<le> n \<and> n \<le> 90 then char_of (n + 32) else c)"

definition ToLower :: "string \<Rightarrow> string" where
  "ToLower s = map lower_char s"

text \<open>Eight random bytes in hex, or the time in nanoseconds when there are none.\<close>

definition newObjectID :: "goerr + int list \<Rightarrow> int \<Rightarrow> string" where
  "newObjectID rnd nanoTime = (case rnd of Inl e \<Rightarrow> itoa nanoTime | Inr b \<Rightarrow> EncodeToString b)"

definition object_key :: "string \<Rightarrow> string \<Rightarrow> string \<Rightarrow> string" where
  "object_key accID oid ext = ''avatars/'' @ accID @ ''/'' @ oid @ ext"

definition avatar_url :: "'m bucket \<Rightarrow> string \<Rightarrow> string" where
  "avatar_url bk objectKey =
     (let base = (if bk_PublicEndpoint bk = [] then bk_EndpointURL bk else bk_PublicEndpoint bk)
      in base @ ''/'' @ bk_Bucket bk @ ''/'' @ objectKey)"

text \<open>The end of the handler once the object is stored: the old avatar goes, the profile gets the new address.\<close>

definition replace_avatar ::
  "'s core_client \<Rightarrow> 'm bucket \<Rightarrow> string \<Rightarrow> string \<Rightarrow> 's \<times> 'm \<Rightarrow> payload http_response \<times> 's \<times> 'm" where
  "replace_avatar cl bk accID objectKey sm =
     (case sm of (s, m) \<Rightarrow>
      (case ProfileService_GetProfile cl accID s of
         (old, s1) \<Rightarrow>
           (let m1 = (case old of
                        Inr p \<Rightarrow> (if apf_AvatarURL p \<noteq> [] then snd (bk_RemoveObject bk (apf_AvatarURL p) m) else m)
                      | Inl e \<Rightarrow> m)
            in case respond_result (\<lambda>x. Some (DProfile x))
                      (ProfileService_UpdateProfile cl accID
                         \<lparr>apu_Nickname = [], apu_Email = [], apu_Bio = [], apu_AvatarURL = avatar_url bk objectKey\<rparr> s1) of
                 (resp, s2) \<Rightarrow> (resp, (s2, m1)))))"

definition ProfileHandler_UploadAvatar ::
  "'s core_client \<Rightarrow> 'm bucket \<Rightarrow> goerr + int list \<Rightarrow> int \<Rightarrow> echo_ctx \<Rightarrow> avatar_form \<Rightarrow> 's \<times> 'm \<Rightarrow> payload http_response \<times> 's \<times> 'm" where
  "ProfileHandler_UploadAvatar cl bk rnd nanoTime c form sm =
     (let accID = accountID c in
      if \<not> af_Multipart form then (Respond 400 400 ''file too large or invalid multipart'' None, sm)
      else case af_File form of
        None \<Rightarrow> (Respond 400 400 ''missing avatar file'' None, sm)
      | Some (filename, content) \<Rightarrow>
          (let ext = ToLower (Ext filename) in
           case allowedAvatarExts ext of
             None \<Rightarrow> (Respond 400 400 ''only JPEG and PNG files are allowed'' None, sm)
           | Some mime \<Rightarrow>
               (case content of
                  Inl e \<Rightarrow> (Respond 500 500 ''failed to read file'' None, sm)
                | Inr data \<Rightarrow>
                    (if length data > maxAvatarSize then (Respond 400 400 ''file exceeds 2MB limit'' None, sm)
                     else let objectKey = object_key accID (newObjectID rnd nanoTime) ext in
                       case bk_PutObject bk objectKey data mime (snd sm) of
                         (Some e, m1) \<Rightarrow> (Respond 500 500 ''failed to upload avatar'' None, (fst sm, m1))
                       | (None, m1) \<Rightarrow> replace_avatar cl bk accID objectKey (fst sm, m1)))))"

section \<open>What the code relies on of the store\<close>

text \<open>A put that succeeds stores the object under its key, a removal that succeeds takes away the object of exactly
  that key (and succeeds when there is none); a call that fails leaves the objects as they are or as if it had
  succeeded.\<close>

locale object_store =
  fixes bk :: "'m bucket" and objects :: "'m \<Rightarrow> string \<Rightarrow> (string \<times> string) option"
  assumes put_ok: "bk_PutObject bk k d ct m = (None, m') \<Longrightarrow> objects m' = (objects m)(k \<mapsto> (ct, d))"
    and put_err: "bk_PutObject bk k d ct m = (Some e, m') \<Longrightarrow> objects m' = objects m \<or> objects m' = (objects m)(k \<mapsto> (ct, d))"
    and remove_ok: "bk_RemoveObject bk k m = (None, m') \<Longrightarrow> objects m' = (objects m)(k := None)"
    and remove_err: "bk_RemoveObject bk k m = (Some e, m') \<Longrightarrow> objects m' = objects m \<or> objects m' = (objects m)(k := None)"
begin

lemma removed:
  "objects (snd (bk_RemoveObject bk k m)) = objects m \<or> objects (snd (bk_RemoveObject bk k m)) = (objects m)(k := None)"
  using remove_ok remove_err by (metis option.exhaust prod.collapse)

text \<open>Everything an upload can do to the objects.\<close>

lemma replace_objects:
  "replace_avatar cl bk accID key (s, m) = (resp, (s', m')) \<Longrightarrow>
   objects m' = objects m \<or>
   (\<exists>p s1. ProfileService_GetProfile cl accID s = (Inr p, s1) \<and> apf_AvatarURL p \<noteq> [] \<and> objects m' = (objects m)(apf_AvatarURL p := None))"
  using removed by (auto simp: replace_avatar_def Let_def split: prod.splits sum.splits if_splits)

end

text \<open>A store that keeps the objects in a map.\<close>

definition map_bucket :: "(string \<Rightarrow> (string \<times> string) option) bucket" where
  "map_bucket = \<lparr>bk_PutObject = (\<lambda>k d ct m. (None, m(k \<mapsto> (ct, d)))), bk_RemoveObject = (\<lambda>k m. (None, m(k := None))),
     bk_Bucket = ''personal'', bk_EndpointURL = ''http://minio:9000'', bk_PublicEndpoint = []\<rparr>"

interpretation mapbk: object_store map_bucket "\<lambda>m. m"
  by unfold_locales (auto simp: map_bucket_def)

section \<open>Properties\<close>

lemma avatar_url_longer: "length key < length (avatar_url bk key)"
  by (simp add: avatar_url_def Let_def)

text \<open>C22. What an upload does to the object store: once the new picture is stored under the caller's folder and the profile
  with an avatar address was read, the handler asks for the removal of the object whose key is literally that address, whichever
  account the object belongs to, and touches no other. The address that an upload writes into the profile is
  the server's address, the bucket and the key, never the key alone: so when the address is that of an earlier upload, the
  object of that upload is still there, as it was. Old pictures of such a profile stay in the store; a picture is removed only
  where a profile update set the address to a bare key.\<close>

theorem avatar_removes_by_address:
  assumes "object_store bk objects" "af_Multipart form" "af_File form = Some (filename, Inr data)"
    and "allowedAvatarExts (ToLower (Ext filename)) = Some mime" "length data \<le> maxAvatarSize"
    and "key = object_key (accountID c) (newObjectID rnd nanoTime) (ToLower (Ext filename))"
    and "bk_PutObject bk key data mime m = (None, m1)"
    and "ProfileService_GetProfile cl (accountID c) s = (Inr p, s1)" "apf_AvatarURL p \<noteq> []"
    and "bk_RemoveObject bk (apf_AvatarURL p) m1 = (err, m2)"
    and "ProfileHandler_UploadAvatar cl bk rnd nanoTime c form (s, m) = (resp, (s', m'))"
  shows "(objects m' = (objects m)(key \<mapsto> (mime, data), apf_AvatarURL p := None) \<or>
      err \<noteq> None \<and> objects m' = (objects m)(key \<mapsto> (mime, data))) \<and>
     (\<forall>old. apf_AvatarURL p = avatar_url bk old \<and> old \<noteq> key \<longrightarrow> objects m' old = objects m old)"
proof -
  have m': "m' = m2" using assms(2-11)
    by (auto simp: ProfileHandler_UploadAvatar_def replace_avatar_def Let_def split: prod.splits)
  have put: "objects m1 = (objects m)(key \<mapsto> (mime, data))" by (rule object_store.put_ok [OF assms(1,7)])
  have rm: "objects m2 = (objects m1)(apf_AvatarURL p := None) \<or> err \<noteq> None \<and> objects m2 = objects m1"
    using object_store.remove_ok [OF assms(1)] object_store.remove_err [OF assms(1)] assms(10) by (cases err) blast+
  have "old \<noteq> apf_AvatarURL p" if "apf_AvatarURL p = avatar_url bk old" for old
    using avatar_url_longer [of old bk] that by auto
  then show ?thesis using m' put rm by auto
qed

text \<open>The profile of account 8, whose address an update set to the key of account 7's picture; account 8 uploads a picture.\<close>

definition poisoned :: refdb where
  "poisoned = one_table ''profiles'' [mk_row [(''id'', VInt 1), (''account_id'', VStr ''8''), (''nickname'', VStr []),
     (''email'', VStr []), (''bio'', VStr []), (''avatar_url'', VStr ''avatars/7/x.png''), (''created_at'', VInt 5),
     (''updated_at'', VInt 6), (''deleted_at'', VInt 0)]] 2"

definition eight :: echo_ctx where
  "eight = new_ctx\<lparr>ec_AccountID := Some ''8''\<rparr>"

definition picture :: avatar_form where
  "picture = \<lparr>af_Multipart = True, af_File = Some (''me.PNG'', Inr ''data'')\<rparr>"

definition store_of_seven :: "string \<Rightarrow> (string \<times> string) option" where
  "store_of_seven = [''avatars/7/x.png'' \<mapsto> (''image/png'', ''seven'')]"

lemma poisoned_profile:
  "\<exists>p s1. ProfileService_GetProfile (core_stub ref_exec 7 Delivered) ''8'' poisoned = (Inr p, s1) \<and> apf_AvatarURL p = ''avatars/7/x.png''"
proof -
  let ?r = "GetProfile ref_exec poisoned (core_interceptor (withAccountID ''8'')) 7"
  have "(case fst ?r of Inr p \<Rightarrow> inf_AvatarUrl p = ''avatars/7/x.png'' | Inl e \<Rightarrow> False)" by code_simp
  then show ?thesis
    by (auto simp: ProfileService_GetProfile_def core_stub_def over_network_def map_rpc_def profileFromProto_def split: sum.splits)
qed

theorem avatar_removes_by_address_witness:
  "snd (snd (ProfileHandler_UploadAvatar (core_stub ref_exec 7 Delivered) map_bucket (Inr [1, 2]) 9 eight picture (poisoned, store_of_seven))) =
     [''avatars/8/0102.png'' \<mapsto> (''image/png'', ''data'')] \<and> store_of_seven ''avatars/7/x.png'' \<noteq> None"
proof -
  let ?k = "object_key (accountID eight) (newObjectID (Inr [1, 2]) 9) (ToLower (Ext ''me.PNG''))"
  have k: "?k = ''avatars/8/0102.png''" and a: "allowedAvatarExts (ToLower (Ext ''me.PNG'')) = Some ''image/png''"
    and id8: "accountID eight = ''8''" by code_simp+
  have l: "length ''data'' \<le> maxAvatarSize" by (simp add: maxAvatarSize_def)
  obtain p s1 where p: "ProfileService_GetProfile (core_stub ref_exec 7 Delivered) (accountID eight) poisoned = (Inr p, s1)"
      "apf_AvatarURL p = ''avatars/7/x.png''"
    using poisoned_profile id8 by auto
  obtain resp s' m' where u: "ProfileHandler_UploadAvatar (core_stub ref_exec 7 Delivered) map_bucket (Inr [1, 2]) 9 eight picture
      (poisoned, store_of_seven) = (resp, (s', m'))" by (metis prod.collapse)
  have "m' = (store_of_seven(?k \<mapsto> (''image/png'', ''data'')))(apf_AvatarURL p := None)"
    using avatar_removes_by_address [OF mapbk.object_store_axioms _ _ a l refl _ p(1) _ _ u]
    by (simp add: picture_def map_bucket_def p(2))
  then have "m' = [''avatars/8/0102.png'' \<mapsto> (''image/png'', ''data'')]"
    unfolding k p(2) by (auto simp: store_of_seven_def fun_eq_iff)
  then show ?thesis unfolding u by (simp add: store_of_seven_def)
qed

end
