(* ===== verification/Paths.thy ===== *)
theory Paths
  imports Prelude
begin

text \<open>
  Functions of Go's \<open>strings\<close>, \<open>path\<close> and \<open>path/filepath\<close> packages for slash-separated paths, as the code uses them:
  \<open>Split\<close> with a one-byte separator, \<open>Clean\<close>, \<open>Dir\<close>, \<open>Base\<close> and \<open>Join\<close>.
\<close>

section \<open>Splitting\<close>

fun Split :: "string \<Rightarrow> char \<Rightarrow> string list" where
  "Split [] sep = [[]]"
| "Split (c # s) sep =
     (if c = sep then [] # Split s sep
      else case Split s sep of b # bs \<Rightarrow> (c # b) # bs | [] \<Rightarrow> [[c]])"

lemma Split_sep: "sep \<notin> set x \<Longrightarrow> Split (x @ sep # s) sep = x # Split s sep"
  by (induction x) auto

lemma Split_plain: "sep \<notin> set x \<Longrightarrow> Split x sep = [x]"
  by (induction x) auto

lemma Split_Join: "xs \<noteq> [] \<Longrightarrow> \<forall>x \<in> set xs. sep \<notin> set x \<Longrightarrow> Split (Join xs [sep]) sep = xs"
  by (induction xs "[sep]" rule: Join.induct) (auto simp: Split_sep Split_plain)

section \<open>Paths\<close>

definition slash :: char where "slash = CHR ''/''"

text \<open>One element of a path for \<open>Clean\<close>, on the elements kept so far, the last one first.\<close>

definition clean_step :: "bool \<Rightarrow> string \<Rightarrow> string list \<Rightarrow> string list" where
  "clean_step rooted seg kept =
     (if seg = [] \<or> seg = ''.'' then kept
      else if seg = ''..''
      then case kept of [] \<Rightarrow> if rooted then [] else [seg] | x # xs \<Rightarrow> if x = ''..'' then seg # kept else xs
      else seg # kept)"

definition Clean :: "string \<Rightarrow> string" where
  "Clean p =
     (if p = [] then ''.''
      else let rooted = (hd p = slash);
               segs = rev (fold (clean_step rooted) (Split p slash) [])
           in if rooted then slash # Join segs [slash] else if segs = [] then ''.'' else Join segs [slash])"

definition Dir :: "string \<Rightarrow> string" where
  "Dir p = Clean (rev (dropWhile (\<lambda>c. c \<noteq> slash) (rev p)))"

definition Base :: "string \<Rightarrow> string" where
  "Base p =
     (if p = [] then ''.''
      else let q = rev (dropWhile (\<lambda>c. c = slash) (rev p))
           in if q = [] then [slash] else rev (takeWhile (\<lambda>c. c \<noteq> slash) (rev q)))"

definition join_path :: "string list \<Rightarrow> string" where
  "join_path elems = (let es = filter (\<lambda>e. e \<noteq> []) elems in if es = [] then [] else Clean (Join es [slash]))"

text \<open>Absolute paths in their clean form.\<close>

definition plain_seg :: "string \<Rightarrow> bool" where
  "plain_seg x \<longleftrightarrow> x \<noteq> [] \<and> x \<noteq> ''.'' \<and> x \<noteq> ''..'' \<and> slash \<notin> set x"

definition abs_path :: "string list \<Rightarrow> string" where
  "abs_path segs = slash # Join segs [slash]"

lemma fold_clean_plain: "\<forall>x \<in> set xs. plain_seg x \<Longrightarrow> fold (clean_step rooted) xs kept = rev xs @ kept"
  by (induction xs arbitrary: kept) (auto simp: clean_step_def plain_seg_def)

lemma filter_plain: "\<forall>x \<in> set xs. plain_seg x \<Longrightarrow> filter (\<lambda>x. x \<noteq> []) xs = xs"
  by (induction xs) (auto simp: plain_seg_def)

lemma plain_nonempty: "plain_seg x \<Longrightarrow> x \<noteq> []"
  by (simp add: plain_seg_def)

lemma plain_slash: "x = [] \<or> plain_seg x \<Longrightarrow> slash \<notin> set x"
  by (auto simp: plain_seg_def)

lemma clean_step_empty [simp]: "clean_step rooted [] = id"
  by (simp add: clean_step_def fun_eq_iff)

lemma Join_snoc: "xs \<noteq> [] \<Longrightarrow> Join (xs @ [x]) sep = Join xs sep @ sep @ x"
  by (induction xs sep rule: Join.induct) auto

text \<open>\<open>Clean\<close> drops empty elements and keeps plain ones.\<close>

lemma Clean_abs:
  assumes "\<forall>x \<in> set xs. x = [] \<or> plain_seg x"
  shows "Clean (slash # Join xs [slash]) = abs_path (filter (\<lambda>x. x \<noteq> []) xs)"
proof -
  have "fold (clean_step True) xs kept = rev (filter (\<lambda>x. x \<noteq> []) xs) @ kept" for kept
    using assms
  proof (induction xs arbitrary: kept)
    case (Cons x xs)
    then show ?case by (cases "x = []") (auto simp: clean_step_def plain_seg_def)
  qed simp
  moreover have "fold (clean_step True) (Split (Join xs [slash]) slash) [] = fold (clean_step True) xs []"
  proof (cases "xs = []")
    case False
    moreover have "\<forall>x \<in> set xs. slash \<notin> set x" using assms plain_slash by blast
    ultimately show ?thesis by (simp add: Split_Join)
  qed simp
  ultimately show ?thesis by (simp add: Clean_def abs_path_def)
qed

lemma Clean_abs_path [simp]: "\<forall>x \<in> set xs. plain_seg x \<Longrightarrow> Clean (abs_path xs) = abs_path xs"
  using Clean_abs [of xs] by (simp add: abs_path_def filter_plain)

lemma Dir_abs_path [simp]:
  assumes "\<forall>x \<in> set xs. plain_seg x" "plain_seg x"
  shows "Dir (abs_path (xs @ [x])) = abs_path xs"
proof -
  have x: "dropWhile (\<lambda>c. c \<noteq> slash) (rev x @ ys) = dropWhile (\<lambda>c. c \<noteq> slash) ys" for ys
    using assms(2) by (intro dropWhile_append2) (auto simp: plain_seg_def)
  show ?thesis
  proof (cases "xs = []")
    case True
    have "Clean [slash] = abs_path []" using Clean_abs [of "[]"] by simp
    then show ?thesis using True x [of "[slash]"] by (simp add: Dir_def abs_path_def)
  next
    case False
    have "rev (dropWhile (\<lambda>c. c \<noteq> slash) (rev (abs_path (xs @ [x])))) = slash # Join (xs @ [[]]) [slash]"
      using False x by (simp add: abs_path_def Join_snoc)
    moreover have "Clean (slash # Join (xs @ [[]]) [slash]) = abs_path xs"
      using Clean_abs [of "xs @ [[]]"] assms(1) by (simp add: filter_plain plain_nonempty)
    ultimately show ?thesis by (simp add: Dir_def)
  qed
qed

lemma Base_abs_path [simp]:
  assumes "plain_seg x"
  shows "Base (abs_path (xs @ [x])) = x"
proof -
  have "rev x \<noteq> []" "slash \<notin> set (rev x)" using assms by (auto simp: plain_seg_def)
  then obtain c y where x: "rev x = c # y" "c \<noteq> slash" "slash \<notin> set y"
    by (cases "rev x") auto
  obtain q where q: "rev (abs_path (xs @ [x])) = rev x @ slash # q"
    by (cases "xs = []") (auto simp: abs_path_def Join_snoc)
  have "dropWhile (\<lambda>c. c = slash) (rev x @ slash # q) = rev x @ slash # q" using x by simp
  moreover have "takeWhile (\<lambda>c. c \<noteq> slash) (rev x @ slash # q) = rev x"
    using x by (subst takeWhile_append2) auto
  moreover have "abs_path (xs @ [x]) \<noteq> []" by (simp add: abs_path_def)
  ultimately show ?thesis unfolding Base_def q by (simp add: Let_def)
qed

text \<open>A name joined to a clean directory; the code writes it with a leading slash.\<close>

lemma join_path_abs [simp]:
  assumes "\<forall>x \<in> set xs. plain_seg x" "plain_seg x"
  shows "join_path [abs_path xs, slash # x] = abs_path (xs @ [x])" "join_path [abs_path xs, x] = abs_path (xs @ [x])"
proof -
  have "Clean (slash # Join (xs @ [[], x]) [slash]) = abs_path (xs @ [x])"
    using Clean_abs [of "xs @ [[], x]"] assms by (simp add: filter_plain plain_nonempty)
  moreover have "abs_path xs @ slash # slash # x = slash # Join (xs @ [[], x]) [slash] \<or> xs = []"
    using Join_snoc [of "xs @ [[]]" x "[slash]"] by (auto simp: abs_path_def Join_snoc)
  moreover have "Clean (slash # slash # slash # x) = abs_path [x]"
    using Clean_abs [of "[[], [], x]"] assms(2) by (simp add: plain_seg_def)
  ultimately show "join_path [abs_path xs, slash # x] = abs_path (xs @ [x])"
    by (auto simp: join_path_def abs_path_def)
  have "Clean (slash # Join (xs @ [x]) [slash]) = abs_path (xs @ [x])"
    using Clean_abs [of "xs @ [x]"] assms by (simp add: filter_plain plain_nonempty)
  moreover have "abs_path xs @ slash # x = slash # Join (xs @ [x]) [slash] \<or> xs = []"
    by (auto simp: abs_path_def Join_snoc)
  moreover have "Clean (slash # slash # x) = abs_path [x]"
    using Clean_abs [of "[[], x]"] assms(2) by (simp add: plain_seg_def)
  ultimately show "join_path [abs_path xs, x] = abs_path (xs @ [x])"
    using assms(2) by (auto simp: join_path_def abs_path_def plain_seg_def)
qed

end
