(* ===== verification/Routes.thy ===== *)
theory Routes
  imports Paths ApiRun
begin

text \<open>
  The routes of the gateway (\<open>apps/personal-api/pkg/handler\<close>: \<open>router.go\<close> and the \<open>init\<close> functions of the handler files)
  and what protects them: \<open>SetupRoutes\<close> puts every route behind the middleware that \<open>lib/http/server/http.go\<close> installs,
  whose skipper looks at the decoded path while echo routes on the path as it was sent.
\<close>

section \<open>The table\<close>

datatype http_method = GET | POST | PUT | DELETE

datatype api_handler =
    H_Register | H_Login | H_RefreshToken | H_ValidateToken | H_RevokeToken | H_RevokeAllTokens | H_DeleteAccount
  | H_UpdatePassword | H_UpdateIdentifier
  | H_ListItems | H_CreateItem | H_UpdateItem | H_DeleteItem | H_ListSummaries
  | H_ListCategories | H_CreateCategory | H_UpdateCategory | H_DeleteCategory
  | H_ListTransactions | H_CreateTransaction | H_UpdateTransaction | H_DeleteTransaction
  | H_ListPositions | H_CreatePosition | H_UpdatePosition | H_DeletePosition
  | H_ListTrades | H_CreateTrade | H_UpdateTrade | H_DeleteTrade
  | H_ListSnapshots | H_UpsertSnapshot | H_GetConfig | H_UpdateConfig
  | H_GetProfile | H_UpdateProfile | H_UploadAvatar

type_synonym 'h route = "http_method \<times> string \<times> 'h"

text \<open>The routes that the \<open>init\<close> function of each handler file registers.\<close>

definition auth_routes :: "api_handler route list" where
  "auth_routes =
     [(POST, ''/auth/register'', H_Register), (POST, ''/auth/login'', H_Login), (POST, ''/auth/token/refresh'', H_RefreshToken),
      (POST, ''/auth/token/validate'', H_ValidateToken), (POST, ''/auth/token/revoke'', H_RevokeToken),
      (POST, ''/auth/token/revoke-all'', H_RevokeAllTokens), (POST, ''/auth/account/delete'', H_DeleteAccount),
      (POST, ''/auth/password/update'', H_UpdatePassword), (POST, ''/auth/identifier/update'', H_UpdateIdentifier)]"

definition balance_sheet_routes :: "api_handler route list" where
  "balance_sheet_routes =
     [(GET, ''/cash-flow/balance-sheet/items'', H_ListItems), (POST, ''/cash-flow/balance-sheet/items'', H_CreateItem),
      (PUT, ''/cash-flow/balance-sheet/items/:id'', H_UpdateItem), (DELETE, ''/cash-flow/balance-sheet/items/:id'', H_DeleteItem),
      (GET, ''/cash-flow/balance-sheet/summaries'', H_ListSummaries)]"

definition cash_flow_routes :: "api_handler route list" where
  "cash_flow_routes =
     [(GET, ''/cash-flow/categories'', H_ListCategories), (POST, ''/cash-flow/categories'', H_CreateCategory),
      (PUT, ''/cash-flow/categories/:id'', H_UpdateCategory), (DELETE, ''/cash-flow/categories/:id'', H_DeleteCategory),
      (GET, ''/cash-flow/transactions'', H_ListTransactions), (POST, ''/cash-flow/transactions'', H_CreateTransaction),
      (PUT, ''/cash-flow/transactions/:id'', H_UpdateTransaction), (DELETE, ''/cash-flow/transactions/:id'', H_DeleteTransaction)]"

definition portfolio_routes :: "api_handler route list" where
  "portfolio_routes =
     [(GET, ''/cash-flow/portfolio/positions'', H_ListPositions), (POST, ''/cash-flow/portfolio/positions'', H_CreatePosition),
      (PUT, ''/cash-flow/portfolio/positions/:id'', H_UpdatePosition), (DELETE, ''/cash-flow/portfolio/positions/:id'', H_DeletePosition),
      (GET, ''/cash-flow/portfolio/positions/:id/trades'', H_ListTrades), (POST, ''/cash-flow/portfolio/positions/:id/trades'', H_CreateTrade),
      (PUT, ''/cash-flow/portfolio/trades/:id'', H_UpdateTrade), (DELETE, ''/cash-flow/portfolio/trades/:id'', H_DeleteTrade),
      (GET, ''/cash-flow/portfolio/snapshots'', H_ListSnapshots), (POST, ''/cash-flow/portfolio/snapshots'', H_UpsertSnapshot),
      (GET, ''/cash-flow/portfolio/config'', H_GetConfig), (PUT, ''/cash-flow/portfolio/config'', H_UpdateConfig)]"

definition profile_routes :: "api_handler route list" where
  "profile_routes =
     [(GET, ''/profile'', H_GetProfile), (PUT, ''/profile'', H_UpdateProfile), (POST, ''/profile/avatar'', H_UploadAvatar)]"

text \<open>\<open>Register\<close> appends to the package variable \<open>handlers\<close>; Go runs the \<open>init\<close> functions in the order of the file names.
  \<open>SetupRoutes\<close> adds them all to the group of the prefix.\<close>

definition Register_routes :: "'h route list \<Rightarrow> 'h route list list \<Rightarrow> 'h route list list" where
  "Register_routes setup handlers = handlers @ [setup]"

definition registered_handlers :: "api_handler route list list" where
  "registered_handlers =
     fold Register_routes [auth_routes, balance_sheet_routes, cash_flow_routes, portfolio_routes, profile_routes] []"

definition SetupRoutes :: "'h route list list \<Rightarrow> string \<Rightarrow> 'h route list" where
  "SetupRoutes handlers apiPrefix = map (\<lambda>(m, p, h). (m, apiPrefix @ p, h)) (concat handlers)"

definition api_routes :: "api_handler route list" where
  "api_routes = SetupRoutes registered_handlers ''/api/v1''"

section \<open>The router\<close>

text \<open>What echo documents of its router. A path can only go to a route of its method whose pattern matches it, element by
  element, where an element that begins with a colon matches any element, and as the last one everything that is left; and
  it goes to a route that matches it element by element with nonempty parameters when no other pattern can match.\<close>

definition is_param :: "string \<Rightarrow> bool" where
  "is_param a = HasPrefix a '':''"

fun seg_match :: "string list \<Rightarrow> string list \<Rightarrow> bool" where
  "seg_match [] bs = (bs = [])"
| "seg_match (a # as) [] = False"
| "seg_match (a # as) (b # bs) = (if is_param a then as = [] \<or> seg_match as bs else a = b \<and> seg_match as bs)"

definition exact_match :: "string list \<Rightarrow> string list \<Rightarrow> bool" where
  "exact_match as bs = list_all2 (\<lambda>a b. if is_param a then b \<noteq> [] else a = b) as bs"

definition may_match :: "string \<Rightarrow> string \<Rightarrow> bool" where
  "may_match pattern path = seg_match (Split pattern slash) (Split path slash)"

locale echo_router =
  fixes route :: "'h route list \<Rightarrow> http_method \<Rightarrow> string \<Rightarrow> 'h option"
  assumes route_matches: "route rs m path = Some h \<Longrightarrow> \<exists>pattern. (m, pattern, h) \<in> set rs \<and> may_match pattern path"
    and route_found: "(m, pattern, h) \<in> set rs \<Longrightarrow> exact_match (Split pattern slash) (Split path slash) \<Longrightarrow>
      (\<And>pattern' h'. (m, pattern', h') \<in> set rs \<Longrightarrow> may_match pattern' path \<Longrightarrow> h' = h) \<Longrightarrow> route rs m path = Some h"

text \<open>Two patterns that some path may match.\<close>

fun overlap :: "string list \<Rightarrow> string list \<Rightarrow> bool" where
  "overlap [] bs = (bs = [])"
| "overlap (a # as) [] = False"
| "overlap (a # as) (b # bs) =
     (is_param a \<and> as = [] \<or> is_param b \<and> bs = [] \<or> (is_param a \<or> is_param b \<or> a = b) \<and> overlap as bs)"

lemma overlap_match: "seg_match as s \<Longrightarrow> seg_match bs s \<Longrightarrow> overlap as bs"
proof (induction as bs arbitrary: s rule: overlap.induct)
  case (3 a as b bs)
  then show ?case by (cases s) (auto split: if_splits)
qed (auto elim: seg_match.elims)

lemma exact_seg_match: "exact_match as bs \<Longrightarrow> seg_match as bs"
  by (induction as bs rule: seg_match.induct) (auto simp: exact_match_def split: if_splits)

definition unambiguous :: "'h route list \<Rightarrow> bool" where
  "unambiguous rs \<longleftrightarrow> list_all (\<lambda>(m, p, h). list_all (\<lambda>(m', p', h'). m = m' \<and> overlap (Split p slash) (Split p' slash) \<longrightarrow> h = h') rs) rs"

context echo_router
begin

text \<open>With an unambiguous table every path that a pattern describes goes to the pattern's handler.\<close>

lemma routed:
  assumes "unambiguous rs" "(m, pattern, h) \<in> set rs" "exact_match (Split pattern slash) (Split path slash)"
  shows "route rs m path = Some h"
proof (rule route_found [OF assms(2,3)])
  fix pattern' h' assume o: "(m, pattern', h') \<in> set rs" "may_match pattern' path"
  have "overlap (Split pattern' slash) (Split pattern slash)"
    using overlap_match o(2) exact_seg_match [OF assms(3)] unfolding may_match_def by blast
  then show "h' = h" using assms(1,2) o(1) unfolding unambiguous_def list_all_iff by fastforce
qed

end

text \<open>A router that takes the first route that may match obeys the contract.\<close>

definition first_route :: "'h route list \<Rightarrow> http_method \<Rightarrow> string \<Rightarrow> 'h option" where
  "first_route rs m path =
     (case find (\<lambda>(m', p, h). m' = m \<and> may_match p path) rs of None \<Rightarrow> None | Some (m', p, h) \<Rightarrow> Some h)"

lemma first_route_Some:
  "first_route rs m path = Some h \<Longrightarrow> \<exists>p. (m, p, h) \<in> set rs \<and> may_match p path"
  by (auto simp: first_route_def find_Some_iff split: option.splits) (metis nth_mem)

lemma first_route_found:
  assumes "(m, pattern, h) \<in> set rs" "exact_match (Split pattern slash) (Split path slash)"
    and "\<And>pattern' h'. (m, pattern', h') \<in> set rs \<Longrightarrow> may_match pattern' path \<Longrightarrow> h' = h"
  shows "first_route rs m path = Some h"
proof -
  have "may_match pattern path" using exact_seg_match [OF assms(2)] by (simp add: may_match_def)
  then have "find (\<lambda>(m', p, h). m' = m \<and> may_match p path) rs \<noteq> None" using assms(1) by (auto simp: find_None_iff)
  then obtain h' where "first_route rs m path = Some h'" by (auto simp: first_route_def)
  then show ?thesis using assms(3) first_route_Some by metis
qed

interpretation first_router: echo_router first_route
  by unfold_locales (blast intro: first_route_Some first_route_found)+

section \<open>The table\<close>

lemma api_routes_unambiguous: "unambiguous api_routes"
  by code_simp

definition open_paths :: "string list" where
  "open_paths = [''/api/v1/auth/register'', ''/api/v1/auth/login'', ''/api/v1/auth/token/refresh'', ''/api/v1/auth/token/revoke'']"

definition open_handlers :: "api_handler list" where
  "open_handlers = [H_Register, H_Login, H_RefreshToken, H_RevokeToken]"

lemma open_path_iff: "open_path req \<longleftrightarrow> rq_Path req \<in> set open_paths"
  by (auto simp: open_path_def open_paths_def)

text \<open>A pattern has no parameter, or it is below \<open>/api/v1/cash-flow\<close>; no pattern has a percent sign.\<close>

lemma api_routes_shape:
  "list_all (\<lambda>(m, p, h).
     (list_all (\<lambda>a. \<not> is_param a) (Split p slash) \<or> take 4 (Split p slash) = [[], ''api'', ''v1'', ''cash-flow'']) \<and>
     CHR ''%'' \<notin> set p \<and> (p \<in> set open_paths \<longleftrightarrow> h \<in> set open_handlers) \<and>
     (h \<in> set open_handlers \<longrightarrow> list_all (\<lambda>a. \<not> is_param a) (Split p slash))) api_routes"
  by code_simp

lemma Join_Split: "Join (Split s sep) [sep] = s"
proof (induction s)
  case (Cons c s)
  have "Split s sep \<noteq> []" by (cases s) (auto split: list.split)
  then obtain b bs where "Split s sep = b # bs" by (cases "Split s sep") auto
  then show ?case using Cons by (cases bs) auto
qed simp

lemma static_match: "seg_match as bs \<Longrightarrow> list_all (\<lambda>a. \<not> is_param a) as \<Longrightarrow> bs = as"
  by (induction as bs rule: seg_match.induct) (auto split: if_splits)

lemma prefix_match: "seg_match as bs \<Longrightarrow> take n as = xs \<Longrightarrow> list_all (\<lambda>a. \<not> is_param a) xs \<Longrightarrow> \<exists>ys. bs = xs @ ys"
proof (induction as bs arbitrary: n xs rule: seg_match.induct)
  case (3 a as b bs)
  then show ?case by (cases n) (auto split: if_splits)
qed auto

section \<open>What is served without a token\<close>

text \<open>\<open>net/url\<close> decodes a path; the server keeps the path as it was sent beside it when the two differ, and echo routes on
  that one.\<close>

definition unhex :: "char \<Rightarrow> nat option" where
  "unhex c =
     (let n = of_char c in
      if 48 \<le> n \<and> n \<le> 57 then Some (n - 48)
      else if 97 \<le> n \<and> n \<le> 102 then Some (n - 97 + 10)
      else if 65 \<le> n \<and> n \<le> 70 then Some (n - 65 + 10) else None)"

fun path_unescape :: "string \<Rightarrow> string option" where
  "path_unescape [] = Some []"
| "path_unescape (c # s) =
     (if c = CHR ''%''
      then case s of
             a # b # t \<Rightarrow>
               (case (unhex a, unhex b) of
                  (Some x, Some y) \<Rightarrow> map_option (Cons (char_of (16 * x + y))) (path_unescape t)
                | _ \<Rightarrow> None)
           | _ \<Rightarrow> None
      else map_option (Cons c) (path_unescape s))"

lemma path_unescape_plain: "CHR ''%'' \<notin> set s \<Longrightarrow> path_unescape (s @ t) = map_option (append s) (path_unescape t)"
  by (induction s; cases "path_unescape t") auto

definition sent_as :: "string \<Rightarrow> http_request \<Rightarrow> bool" where
  "sent_as path req \<longleftrightarrow> path = rq_Path req \<or> path_unescape path = Some (rq_Path req)"

lemma cash_flow_not_open: "path = ''/api/v1/cash-flow'' @ t \<Longrightarrow> sent_as path req \<Longrightarrow> rq_Path req \<notin> set open_paths"
  using path_unescape_plain [of "''/api/v1/cash-flow''" t] by (auto simp: sent_as_def open_paths_def)

lemma route_open:
  assumes r: "(m, pattern, h) \<in> set api_routes" "may_match pattern path" and sent: "sent_as path req"
  shows "open_path req \<longleftrightarrow> h \<in> set open_handlers"
proof (cases "list_all (\<lambda>a. \<not> is_param a) (Split pattern slash)")
  case True
  then have "Split path slash = Split pattern slash" using r(2) static_match unfolding may_match_def by blast
  then have p: "path = pattern" using Join_Split by metis
  have "CHR ''%'' \<notin> set pattern" "pattern \<in> set open_paths \<longleftrightarrow> h \<in> set open_handlers"
    using api_routes_shape r(1) unfolding list_all_iff by fastforce+
  moreover from this(1) have "rq_Path req = pattern" using sent path_unescape_plain [of pattern "[]"] p by (auto simp: sent_as_def)
  ultimately show ?thesis by (simp add: open_path_iff)
next
  case False
  then have t: "take 4 (Split pattern slash) = [[], ''api'', ''v1'', ''cash-flow'']" and h: "h \<notin> set open_handlers"
    using api_routes_shape r(1) unfolding list_all_iff by fastforce+
  have "list_all (\<lambda>a. \<not> is_param a) [[], ''api'', ''v1'', ''cash-flow'']" by (simp add: is_param_def HasPrefix_def)
  then obtain ys where "Split path slash = [[], ''api'', ''v1'', ''cash-flow''] @ ys"
    using prefix_match [OF r(2) [unfolded may_match_def] t] by blast
  then have "path = Join ([[], ''api'', ''v1'', ''cash-flow''] @ ys) [slash]" using Join_Split by metis
  then obtain u where "path = ''/api/v1/cash-flow'' @ u" by (cases ys) (auto simp: slash_def)
  from cash_flow_not_open [OF this sent] h show ?thesis by (simp add: open_path_iff)
qed

text \<open>Every path that the pattern of a route describes goes to the handler of the route.\<close>

lemma api_routes_served:
  assumes "echo_router route" "(m, pattern, h) \<in> set api_routes" "exact_match (Split pattern slash) (Split path slash)"
  shows "route api_routes m path = Some h"
  by (rule echo_router.routed [OF assms(1) api_routes_unambiguous assms(2,3)])

text \<open>The handler of each endpoint of the core services: none of them is ever reached through an open path, so what is
  shown of an endpoint behind the middleware holds for every request that is routed to it.\<close>

fun endpoint_handler :: "endpoint \<Rightarrow> api_handler" where
  "endpoint_handler (EListCategories i) = H_ListCategories"
| "endpoint_handler (ECreateCategory i) = H_CreateCategory"
| "endpoint_handler (EUpdateCategory i) = H_UpdateCategory"
| "endpoint_handler (EDeleteCategory i) = H_DeleteCategory"
| "endpoint_handler (EListTransactions i) = H_ListTransactions"
| "endpoint_handler (ECreateTransaction i) = H_CreateTransaction"
| "endpoint_handler (EUpdateTransaction i) = H_UpdateTransaction"
| "endpoint_handler (EDeleteTransaction i) = H_DeleteTransaction"
| "endpoint_handler (EListItems i) = H_ListItems"
| "endpoint_handler (ECreateItem i) = H_CreateItem"
| "endpoint_handler (EUpdateItem i) = H_UpdateItem"
| "endpoint_handler (EDeleteItem i) = H_DeleteItem"
| "endpoint_handler (EListSummaries i) = H_ListSummaries"
| "endpoint_handler (EListPositions i) = H_ListPositions"
| "endpoint_handler (ECreatePosition i) = H_CreatePosition"
| "endpoint_handler (EUpdatePosition i) = H_UpdatePosition"
| "endpoint_handler (EDeletePosition i) = H_DeletePosition"
| "endpoint_handler (EListTrades i) = H_ListTrades"
| "endpoint_handler (ECreateTrade i) = H_CreateTrade"
| "endpoint_handler (EUpdateTrade i) = H_UpdateTrade"
| "endpoint_handler (EDeleteTrade i) = H_DeleteTrade"
| "endpoint_handler (EListSnapshots i) = H_ListSnapshots"
| "endpoint_handler (EUpsertSnapshot i) = H_UpsertSnapshot"
| "endpoint_handler (EGetConfig i) = H_GetConfig"
| "endpoint_handler (EUpdateConfig i) = H_UpdateConfig"
| "endpoint_handler (EGetProfile i) = H_GetProfile"
| "endpoint_handler (EUpdateProfile i) = H_UpdateProfile"

lemma core_endpoint_guarded:
  assumes "echo_router route" "sent_as path req" "route api_routes m path = Some (endpoint_handler e)"
  shows "\<not> open_path req"
proof -
  obtain pattern where "(m, pattern, endpoint_handler e) \<in> set api_routes" "may_match pattern path"
    using echo_router.route_matches [OF assms(1,3)] by blast
  from route_open [OF this assms(2)] show ?thesis by (cases e) (simp_all add: open_handlers_def)
qed

text \<open>C6. What the gateway serves without a token. However the path of a request is written, the request passes the
  middleware unchecked exactly when it goes to the handler of registration, login, token refresh or token revocation.
  Every other handler of the table runs only with a context that names the account of an accepted token, or with no
  account at all when the token is about to expire and there is no refresh cookie; otherwise the answer is 401 and the
  handler has not run.\<close>

theorem routes_guarded:
  assumes "echo_router route" and sent: "sent_as path req" and found: "route api_routes m path = Some h"
    and answer: "ServerJWTInterceptor lib key open_path refresher tm req (run h) c s = (resp, c', s')"
  shows "(open_path req \<longleftrightarrow> h \<in> {H_Register, H_Login, H_RefreshToken, H_RevokeToken}) \<and>
     (h \<in> {H_Register, H_Login, H_RefreshToken, H_RevokeToken} \<longrightarrow> run h c s = (resp, c', s')) \<and>
     (h \<notin> {H_Register, H_Login, H_RefreshToken, H_RevokeToken} \<longrightarrow>
       (\<exists>msg. resp = unauthorized msg \<and> (s' = s \<or> s' = refreshed refresher req s)) \<or>
       (\<exists>c1. names_token lib key tm req c1 \<and> (run h c1 s = (resp, c', s') \<or> run h c1 (refreshed refresher req s) = (resp, c', s'))) \<or>
       (\<exists>claims. JwtWithParseToken lib key (cr_parse tm) (resolveToken req) None = Inr claims \<and>
          isTokenNearExpiry (cr_until tm) claims \<and> resolveRefreshToken req = [] \<and> run h c s = (resp, c', s')))"
proof -
  obtain pattern where p: "(m, pattern, h) \<in> set api_routes" "may_match pattern path"
    using echo_router.route_matches [OF assms(1) found] by blast
  note o = route_open [OF p sent]
  have e: "h \<in> set open_handlers \<longleftrightarrow> h \<in> {H_Register, H_Login, H_RefreshToken, H_RevokeToken}" by (simp add: open_handlers_def)
  show ?thesis
  proof (cases "open_path req")
    case True
    then show ?thesis using answer o unfolding e by (simp add: ServerJWTInterceptor_def)
  next
    case False
    then show ?thesis using interceptor_ways [OF answer False] o unfolding e by blast
  qed
qed

text \<open>An update of a category without a token, its path written in two ways.\<close>

definition demo_request :: "string \<Rightarrow> http_request" where
  "demo_request path = \<lparr>rq_Path = path, rq_Cookies = [], rq_Authorization = [], rq_TLS = True\<rparr>"

lemma demo_routed: "first_route api_routes PUT ''/api/v1/cash-flow/categories/%37'' = Some H_UpdateCategory"
  by code_simp

lemma demo_sent: "sent_as ''/api/v1/cash-flow/categories/%37'' (demo_request ''/api/v1/cash-flow/categories/7'')"
proof -
  have "path_unescape ''/api/v1/cash-flow/categories/%37'' = Some ''/api/v1/cash-flow/categories/7''" by code_simp
  then show ?thesis by (simp add: sent_as_def demo_request_def)
qed

definition demo_run :: "api_handler \<Rightarrow> (nat, nat) next_handler" where
  "demo_run h c s = (\<lparr>hr_Status = 200, hr_Code = Some 0, hr_Message = ''success'', hr_Data = None\<rparr>, c, s + 1)"

definition demo_reads :: clock_reads where
  "demo_reads = \<lparr>cr_parse = 0, cr_until = 0, cr_reparse = 0\<rparr>"

theorem routes_guarded_witness:
  "\<not> open_path (demo_request ''/api/v1/cash-flow/categories/7'') \<and>
   ServerJWTInterceptor plain_jwt ''key'' open_path (None :: (unit, nat) TokenRefresher option) demo_reads
     (demo_request ''/api/v1/cash-flow/categories/7'') (demo_run H_UpdateCategory) new_ctx 0 =
     (unauthorized ''missing authorization'', new_ctx, 0)"
proof -
  let ?req = "demo_request ''/api/v1/cash-flow/categories/7''"
  have a: "ServerJWTInterceptor plain_jwt ''key'' (\<lambda>r. False) (None :: (unit, nat) TokenRefresher option) demo_reads ?req
      (demo_run H_UpdateCategory) new_ctx 0 = (unauthorized ''missing authorization'', new_ctx, 0)"
    by (simp add: ServerJWTInterceptor_def resolveToken_def demo_request_def cookie_value_def CutPrefix_def HasPrefix_def)
  obtain resp c' s' where r: "ServerJWTInterceptor plain_jwt ''key'' open_path (None :: (unit, nat) TokenRefresher option) demo_reads ?req
      (demo_run H_UpdateCategory) new_ctx 0 = (resp, c', s')" by (metis prod_cases3)
  have "\<not> open_path ?req"
    using routes_guarded [OF first_router.echo_router_axioms demo_sent demo_routed, where run = demo_run, OF r] by simp
  moreover from this have "ServerJWTInterceptor plain_jwt ''key'' open_path (None :: (unit, nat) TokenRefresher option) demo_reads ?req
      (demo_run H_UpdateCategory) new_ctx 0 = (unauthorized ''missing authorization'', new_ctx, 0)"
    using a by (simp add: ServerJWTInterceptor_def)
  ultimately show ?thesis by blast
qed

end
