(* ===== verification/Startup.thy ===== *)
theory Startup
  imports Prelude
begin

text \<open>
  How a process reaches its stores when it starts: the configurations of \<open>lib/db/mysql\<close>, \<open>lib/redis\<close> and
  \<open>lib/minio\<close> with their checks, the retry loops \<open>tryConnect\<close>, and the cleanup functions of \<open>lib/finalizer\<close>.
  The drivers are parameters; the state they work on stands for the network, the servers and the clock. A loop is
  a partial function, so that a loop that never ends has the value \<open>None\<close>.
\<close>

section \<open>Configurations\<close>

record MySQLConfig =
  my_StartupRetryPeriod :: int
  my_StartupRetryTimes :: int
  my_ConnectTimeout :: int
  my_DSN :: string
  my_MinOpen :: int
  my_MaxOpen :: int
  my_MaxLifetime :: int

record RedisConfig =
  re_DSN :: string
  re_ConnectTimeout :: int
  re_StartupRetryTimes :: int
  re_StartupRetryPeriod :: int

record MinIOConfig =
  mi_Endpoint :: string
  mi_AccessKey :: string
  mi_SecretKey :: string
  mi_UseSSL :: bool
  mi_Bucket :: string
  mi_PublicEndpoint :: string
  mi_ConnectTimeout :: int
  mi_StartupRetryTimes :: int
  mi_StartupRetryPeriod :: int

text \<open>The first check of a list that holds gives its error.\<close>

fun first_error :: "(bool \<times> string) list \<Rightarrow> goerr option" where
  "first_error [] = None"
| "first_error ((bad, msg) # cs) = (if bad then Some (Errorf msg) else first_error cs)"

lemma first_error_None [simp]: "first_error cs = None \<longleftrightarrow> (\<forall>(bad, msg) \<in> set cs. \<not> bad)"
  by (induction cs rule: first_error.induct) auto

text \<open>\<open>VerifyConfig\<close> fills in the defaults; they stay when a later check fails.\<close>

definition mysql_VerifyConfig :: "MySQLConfig \<Rightarrow> goerr option \<times> MySQLConfig" where
  "mysql_VerifyConfig c =
     (if my_DSN c = [] then (Some (Errorf ''mysql.dsn has no value''), c)
      else let c1 = (if my_MinOpen c = 0 then c\<lparr>my_MinOpen := 3\<rparr> else c);
               c2 = (if my_MaxOpen c1 = 0 then c1\<lparr>my_MaxOpen := 10\<rparr> else c1)
           in (first_error
                 [(my_MinOpen c2 < 3, ''mysql.min_open must be greater than 3''),
                  (my_MaxOpen c2 > 10, ''mysql.max_open must be less than 10''),
                  (my_MinOpen c2 > my_MaxOpen c2, ''mysql.min_open should be less than mysql.max-open''),
                  (my_MaxLifetime c2 \<le> 0, ''mysql.max_lifetime has no value''),
                  (my_ConnectTimeout c2 \<le> 0, ''mysql.connect_timeout has no value''),
                  (my_StartupRetryTimes c2 \<le> 0, ''mysql.startup_retry_times has no value''),
                  (my_StartupRetryPeriod c2 \<le> 0, ''mysql.startup_retry_period has no value'')], c2))"

definition redis_VerifyConfig :: "RedisConfig \<Rightarrow> goerr option" where
  "redis_VerifyConfig c =
     first_error
       [(re_DSN c = [], ''redis.dsn has no value''),
        (re_ConnectTimeout c \<le> 0, ''redis.connect_timeout has no value''),
        (re_StartupRetryTimes c \<le> 0, ''redis.startup_retry_times has no value''),
        (re_StartupRetryPeriod c \<le> 0, ''redis.startup_retry_period has no value'')]"

definition minio_VerifyConfig :: "MinIOConfig \<Rightarrow> goerr option" where
  "minio_VerifyConfig c =
     first_error
       [(mi_Endpoint c = [], ''minio.endpoint has no value''),
        (mi_AccessKey c = [], ''minio.access_key has no value''),
        (mi_SecretKey c = [], ''minio.secret_key has no value''),
        (mi_Bucket c = [], ''minio.bucket has no value''),
        (mi_ConnectTimeout c \<le> 0, ''minio.connect_timeout has no value''),
        (mi_StartupRetryTimes c \<le> 0, ''minio.startup_retry_times has no value''),
        (mi_StartupRetryPeriod c \<le> 0, ''minio.startup_retry_period has no value'')]"

section \<open>Connecting once\<close>

record 'p sql_pool =
  sp_Pool :: 'p
  sp_MaxLifetime :: int
  sp_MaxOpen :: int
  sp_MaxIdle :: int

text \<open>\<open>database/sql\<close> with the MySQL driver: \<open>sql.Open\<close> and \<open>PingContext\<close>.\<close>

record ('p, 's) sql_driver =
  sd_Open :: "string \<Rightarrow> goerr + 'p"
  sd_Ping :: "'p \<Rightarrow> int \<Rightarrow> 's \<Rightarrow> goerr option \<times> 's"

definition buildMySQL :: "('p, 's) sql_driver \<Rightarrow> MySQLConfig \<Rightarrow> 's \<Rightarrow> (goerr + 'p sql_pool) \<times> 's" where
  "buildMySQL d c s =
     (if my_DSN c = [] then (Inl (Errorf ''MySQL: no DSN set''), s)
      else case sd_Open d (my_DSN c) of
        Inl e \<Rightarrow> (Inl e, s)
      | Inr p \<Rightarrow>
          (case sd_Ping d p (my_ConnectTimeout c) s of
             (Some e, s1) \<Rightarrow> (Inl e, s1)
           | (None, s1) \<Rightarrow>
               (Inr \<lparr>sp_Pool = p, sp_MaxLifetime = my_MaxLifetime c, sp_MaxOpen = my_MaxOpen c, sp_MaxIdle = my_MinOpen c\<rparr>, s1)))"

text \<open>go-redis: \<open>ParseURL\<close>, \<open>NewClient\<close>, \<open>Ping\<close> and \<open>Close\<close>.\<close>

record ('o, 'c, 's) redis_driver =
  rd_ParseURL :: "string \<Rightarrow> goerr + 'o"
  rd_NewClient :: "'o \<Rightarrow> 'c"
  rd_Ping :: "'c \<Rightarrow> int \<Rightarrow> 's \<Rightarrow> goerr option \<times> 's"
  rd_Close :: "'c \<Rightarrow> 's \<Rightarrow> 's"

definition buildRedis :: "('o, 'c, 's) redis_driver \<Rightarrow> RedisConfig \<Rightarrow> 's \<Rightarrow> (goerr + 'c) \<times> 's" where
  "buildRedis d c s =
     (if re_DSN c = [] then (Inl (Errorf ''redis: no DSN set''), s)
      else case rd_ParseURL d (re_DSN c) of
        Inl e \<Rightarrow> (Inl e, s)
      | Inr opts \<Rightarrow>
          (let client = rd_NewClient d opts in
           case rd_Ping d client (re_ConnectTimeout c) s of
             (Some e, s1) \<Rightarrow> (Inl e, rd_Close d client s1)
           | (None, s1) \<Rightarrow> (Inr client, s1)))"

text \<open>minio-go; \<open>mn_Error\<close> is the text of an error.\<close>

record ('c, 's) minio_driver =
  mn_New :: "string \<Rightarrow> string \<Rightarrow> string \<Rightarrow> bool \<Rightarrow> goerr + 'c"
  mn_BucketExists :: "'c \<Rightarrow> int \<Rightarrow> string \<Rightarrow> 's \<Rightarrow> (goerr + bool) \<times> 's"
  mn_MakeBucket :: "'c \<Rightarrow> int \<Rightarrow> string \<Rightarrow> 's \<Rightarrow> goerr option \<times> 's"
  mn_SetPublicPolicy :: "'c \<Rightarrow> int \<Rightarrow> string \<Rightarrow> 's \<Rightarrow> goerr option \<times> 's"
  mn_Error :: "goerr \<Rightarrow> string"

definition buildMinIO :: "('c, 's) minio_driver \<Rightarrow> MinIOConfig \<Rightarrow> 's \<Rightarrow> (goerr + 'c) \<times> 's" where
  "buildMinIO d c s =
     (case mn_New d (mi_Endpoint c) (mi_AccessKey c) (mi_SecretKey c) (mi_UseSSL c) of
        Inl e \<Rightarrow> (Inl (Errorf (''minio: create client failure, nest error: '' @ mn_Error d e)), s)
      | Inr client \<Rightarrow>
          (case mn_BucketExists d client (mi_ConnectTimeout c) (mi_Bucket c) s of
             (Inl e, s1) \<Rightarrow> (Inl (Errorf (''minio: check bucket failure, nest error: '' @ mn_Error d e)), s1)
           | (Inr there, s1) \<Rightarrow>
               (case (if there then (None, s1) else mn_MakeBucket d client (mi_ConnectTimeout c) (mi_Bucket c) s1) of
                  (Some e, s2) \<Rightarrow> (Inl (Errorf (''minio: make bucket failure, nest error: '' @ mn_Error d e)), s2)
                | (None, s2) \<Rightarrow>
                    (Inr client, snd (mn_SetPublicPolicy d client (mi_ConnectTimeout c) (mi_Bucket c) s2)))))"

section \<open>The retry loops\<close>

text \<open>The loop of the three \<open>tryConnect\<close> functions, from attempt \<open>i\<close>. The counter is a Go \<open>int\<close>, so it wraps.\<close>

partial_function (option) connect_loop ::
  "('s \<Rightarrow> (goerr + 'c) \<times> 's) \<Rightarrow> ('s \<Rightarrow> 's) \<Rightarrow> int \<Rightarrow> int \<Rightarrow> 's \<Rightarrow> ((goerr + 'c) \<times> 's) option" where
  "connect_loop build sleep retry i s =
     (case build s of
        (Inr pool, s1) \<Rightarrow> Some (Inr pool, s1)
      | (Inl e, s1) \<Rightarrow>
          (let i' = int64_conv (i + 1) in
           if i' > retry then Some (Inl e, s1) else connect_loop build sleep retry i' (sleep s1)))"

declare connect_loop.simps [code]

definition mysql_tryConnect ::
  "('p, 's) sql_driver \<Rightarrow> (int \<Rightarrow> 's \<Rightarrow> 's) \<Rightarrow> MySQLConfig \<Rightarrow> 's \<Rightarrow> ((goerr + 'p sql_pool) \<times> 's) option" where
  "mysql_tryConnect d sleep c s = connect_loop (buildMySQL d c) (sleep (my_StartupRetryPeriod c)) (my_StartupRetryTimes c) 1 s"

definition redis_tryConnect ::
  "('o, 'c, 's) redis_driver \<Rightarrow> (int \<Rightarrow> 's \<Rightarrow> 's) \<Rightarrow> RedisConfig \<Rightarrow> 's \<Rightarrow> ((goerr + 'c) \<times> 's) option" where
  "redis_tryConnect d sleep c s = connect_loop (buildRedis d c) (sleep (re_StartupRetryPeriod c)) (re_StartupRetryTimes c) 1 s"

definition minio_tryConnect ::
  "('c, 's) minio_driver \<Rightarrow> (int \<Rightarrow> 's \<Rightarrow> 's) \<Rightarrow> MinIOConfig \<Rightarrow> 's \<Rightarrow> ((goerr + 'c) \<times> 's) option" where
  "minio_tryConnect d sleep c s = connect_loop (buildMinIO d c) (sleep (mi_StartupRetryPeriod c)) (mi_StartupRetryTimes c) 1 s"

text \<open>What the loops mean to do: up to \<open>n\<close> further attempts after the first, a pause before each.\<close>

primrec attempts :: "('s \<Rightarrow> (goerr + 'c) \<times> 's) \<Rightarrow> ('s \<Rightarrow> 's) \<Rightarrow> nat \<Rightarrow> 's \<Rightarrow> (goerr + 'c) \<times> 's" where
  "attempts build sleep 0 s = build s"
| "attempts build sleep (Suc n) s =
     (case build s of (Inr pool, s1) \<Rightarrow> (Inr pool, s1) | (Inl e, s1) \<Rightarrow> attempts build sleep n (sleep s1))"

lemma connect_loop_attempts:
  assumes "1 \<le> i" "i < 2 ^ 63 - 1" "retry < 2 ^ 63 - 1" "n = nat (retry - i)"
  shows "connect_loop build sleep retry i s = Some (attempts build sleep n s)"
  using assms
proof (induction n arbitrary: i s)
  case 0
  have "int64_conv (i + 1) = i + 1" using 0 by (intro int64_conv_id) (simp add: is_int64_def)
  then show ?case using 0 by (subst connect_loop.simps) (auto split: prod.split sum.split)
next
  case (Suc n)
  have c: "int64_conv (i + 1) = i + 1" using Suc.prems by (intro int64_conv_id) (simp add: is_int64_def)
  have "connect_loop build sleep retry (i + 1) s1 = Some (attempts build sleep n s1)" for s1
    by (rule Suc.IH) (use Suc.prems in auto)
  moreover have "i + 1 \<le> retry" using Suc.prems by linarith
  ultimately show ?case using c by (subst connect_loop.simps) (auto split: prod.split sum.split)
qed

text \<open>A connection that comes up within the allowed attempts is found; the states the attempts see.\<close>

fun attempt_state :: "('s \<Rightarrow> (goerr + 'c) \<times> 's) \<Rightarrow> ('s \<Rightarrow> 's) \<Rightarrow> nat \<Rightarrow> 's \<Rightarrow> 's" where
  "attempt_state build sleep 0 s = s"
| "attempt_state build sleep (Suc k) s = attempt_state build sleep k (sleep (snd (build s)))"

lemma attempts_found:
  assumes "k \<le> n" "\<not> isl (fst (build (attempt_state build sleep k s)))"
  shows "\<exists>pool s'. attempts build sleep n s = (Inr pool, s')"
  using assms
proof (induction n arbitrary: k s)
  case 0
  then show ?case by (cases "build s") (auto simp: isl_def split: sum.splits, metis sum.exhaust)
next
  case (Suc n)
  show ?case
  proof (cases k)
    case 0
    then show ?thesis using Suc.prems by (auto split: prod.splits sum.splits)
  next
    case (Suc k')
    then show ?thesis using Suc.IH [of k' "sleep (snd (build s))"] Suc.prems Suc by (auto split: prod.splits sum.splits)
  qed
qed

lemma attempts_failed:
  assumes "\<forall>k \<le> n. isl (fst (build (attempt_state build sleep k s)))"
  shows "attempts build sleep n s = build (attempt_state build sleep n s)"
  using assms
proof (induction n arbitrary: s)
  case (Suc n)
  have "isl (fst (build s))" using Suc.prems by force
  moreover have "\<forall>k \<le> n. isl (fst (build (attempt_state build sleep k (sleep (snd (build s))))))"
    using Suc.prems by (metis Suc_le_mono attempt_state.simps(2))
  ultimately show ?case using Suc.IH by (auto split: prod.splits sum.splits)
qed simp

section \<open>lib/finalizer\<close>

text \<open>A cleanup function works on the state and may fail; \<open>None\<close> is a nil function.\<close>

type_synonym 's cleanup = "('s \<Rightarrow> goerr option \<times> 's) option"

definition RegisterCleanupFuncs :: "'s cleanup list \<Rightarrow> 's cleanup list \<Rightarrow> 's cleanup list" where
  "RegisterCleanupFuncs f cleanupFuncs = cleanupFuncs @ f"

fun run_from :: "'s cleanup list \<Rightarrow> 's \<Rightarrow> goerr list \<times> 's" where
  "run_from [] s = ([], s)"
| "run_from (f # fs) s =
     (case f of
        None \<Rightarrow> run_from fs s
      | Some g \<Rightarrow>
          (case g s of
             (None, s1) \<Rightarrow> run_from fs s1
           | (Some e, s1) \<Rightarrow> (case run_from fs s1 of (es, s2) \<Rightarrow> (e # es, s2))))"

definition RunCleanupFuncs :: "'s cleanup list \<Rightarrow> 's \<Rightarrow> goerr list \<times> 's" where
  "RunCleanupFuncs cleanupFuncs s = run_from (rev cleanupFuncs) s"

section \<open>Properties\<close>

text \<open>The outcome of the \<open>k\<close>-th retry, counted from 0.\<close>

definition nth_attempt ::
  "('p, 's) sql_driver \<Rightarrow> (int \<Rightarrow> 's \<Rightarrow> 's) \<Rightarrow> MySQLConfig \<Rightarrow> 's \<Rightarrow> nat \<Rightarrow> (goerr + 'p sql_pool) \<times> 's" where
  "nth_attempt d sleep c s k = buildMySQL d c (attempt_state (buildMySQL d c) (sleep (my_StartupRetryPeriod c)) k s)"

text \<open>Start-up always comes to an end. With a configuration that \<open>VerifyConfig\<close> accepted, whose retry count is
  below the largest Go integer, \<open>tryConnect\<close> for MySQL returns: with a connection when one of the first
  \<open>StartupRetryTimes\<close> attempts finds the server up, and otherwise with the error of the last of them.\<close>

theorem mysql_tryConnect_returns:
  assumes "mysql_VerifyConfig c0 = (None, c)" "my_StartupRetryTimes c < 2 ^ 63 - 1"
  shows "\<exists>res s'. mysql_tryConnect d sleep c s = Some (res, s') \<and>
     (if \<exists>k < nat (my_StartupRetryTimes c). \<not> isl (fst (nth_attempt d sleep c s k)) then \<not> isl res
      else (res, s') = nth_attempt d sleep c s (nat (my_StartupRetryTimes c) - 1))"
proof -
  let ?b = "buildMySQL d c" and ?w = "sleep (my_StartupRetryPeriod c)" and ?n = "nat (my_StartupRetryTimes c) - 1"
  have p: "0 < my_StartupRetryTimes c"
    using assms(1) by (auto simp: mysql_VerifyConfig_def Let_def split: if_splits)
  then have m: "mysql_tryConnect d sleep c s = Some (attempts ?b ?w ?n s)"
    unfolding mysql_tryConnect_def using assms(2) by (intro connect_loop_attempts) auto
  have r: "k < nat (my_StartupRetryTimes c) \<longleftrightarrow> k \<le> ?n" for k using p by auto
  show ?thesis
  proof (cases "\<exists>k \<le> ?n. \<not> isl (fst (nth_attempt d sleep c s k))")
    case True
    then obtain k where "k \<le> ?n" "\<not> isl (fst (?b (attempt_state ?b ?w k s)))" by (auto simp: nth_attempt_def)
    from attempts_found [where build = "?b" and sleep = "?w", OF this] m True show ?thesis by (auto simp only: r) (auto simp: isl_def)
  next
    case False
    then have "attempts ?b ?w ?n s = nth_attempt d sleep c s ?n"
      unfolding nth_attempt_def by (intro attempts_failed) (auto simp: nth_attempt_def)
    then show ?thesis using m False by (cases "nth_attempt d sleep c s ?n") (auto simp: r)
  qed
qed

text \<open>A server that is up after two pauses, found by the third attempt.\<close>

definition late_server :: "(unit, int) sql_driver" where
  "late_server = \<lparr>sd_Open = (\<lambda>dsn. Inr ()), sd_Ping = (\<lambda>p t clock. (if clock < 20 then Some (Errorf ''refused'') else None, clock))\<rparr>"

definition late_config :: MySQLConfig where
  "late_config = \<lparr>my_StartupRetryPeriod = 10, my_StartupRetryTimes = 3, my_ConnectTimeout = 5, my_DSN = ''db'', my_MinOpen = 0,
     my_MaxOpen = 0, my_MaxLifetime = 60\<rparr>"

theorem mysql_tryConnect_returns_witness:
  "mysql_VerifyConfig late_config = (None, snd (mysql_VerifyConfig late_config)) \<and>
   (\<exists>pool s'. mysql_tryConnect late_server (\<lambda>p clock. clock + p) (snd (mysql_VerifyConfig late_config)) 0 = Some (Inr pool, s'))"
proof -
  let ?c = "snd (mysql_VerifyConfig late_config)"
  have v: "mysql_VerifyConfig late_config = (None, ?c)" by code_simp
  have t: "my_StartupRetryTimes ?c = 3" by code_simp
  have "\<not> isl (fst (nth_attempt late_server (\<lambda>p clock. clock + p) ?c 0 2))" by code_simp
  then have "\<exists>k < nat (my_StartupRetryTimes ?c). \<not> isl (fst (nth_attempt late_server (\<lambda>p clock. clock + p) ?c 0 k))"
    using t by (intro exI [of _ 2]) simp
  then have "\<exists>res s'. mysql_tryConnect late_server (\<lambda>p clock. clock + p) ?c 0 = Some (res, s') \<and> \<not> isl res"
    using mysql_tryConnect_returns [OF v, of late_server "\<lambda>p clock. clock + p" 0] t by auto
  then show ?thesis using v by (auto simp: isl_def) (metis sum.exhaust)
qed

end
