(* ===== verification/Registration.thy ===== *)
theory Registration
  imports Startup
begin

text \<open>
  How a service announces itself in etcd: the connection of \<open>lib/etcd/client.go\<close>, \<open>RegisterService\<close> with its
  background loop and its retries (\<open>lib/etcd/register.go\<close>), and the order in which \<open>Serve\<close> and \<open>Stop\<close> of
  \<open>lib/grpc/server/grpc.go\<close> use it. The etcd client is a parameter; what the code relies on of it is the locale
  \<open>etcd_lease\<close>. A loop is a partial function, so that a loop that never ends has the value \<open>None\<close>.
\<close>

section \<open>Connecting (lib/etcd/config.go, client.go)\<close>

record EtcdConfig =
  et_Endpoints :: "string list"
  et_ConnectTimeout :: int
  et_StartupRetryTimes :: int
  et_StartupRetryPeriod :: int

definition etcd_VerifyConfig :: "EtcdConfig \<Rightarrow> goerr option" where
  "etcd_VerifyConfig c =
     first_error
       [(et_Endpoints c = [], ''etcd.endpoints has no value''),
        (et_ConnectTimeout c \<le> 0, ''etcd.connect_timeout has no value''),
        (et_StartupRetryTimes c \<le> 0, ''etcd.startup_retry_times has no value''),
        (et_StartupRetryPeriod c \<le> 0, ''etcd.startup_retry_period has no value'')]"

text \<open>The driver: \<open>clientv3.New\<close>, the endpoints of a client, \<open>Status\<close> with a timeout, and \<open>Close\<close>.\<close>

record ('c, 's) etcd_driver =
  ed_New :: "string list \<Rightarrow> int \<Rightarrow> 's \<Rightarrow> (goerr + 'c) \<times> 's"
  ed_Endpoints :: "'c \<Rightarrow> string list"
  ed_Status :: "'c \<Rightarrow> string \<Rightarrow> int \<Rightarrow> 's \<Rightarrow> goerr option \<times> 's"
  ed_Close :: "'c \<Rightarrow> 's \<Rightarrow> goerr option \<times> 's"

definition statusEndpoint :: "('c, 's) etcd_driver \<Rightarrow> 'c \<Rightarrow> string \<Rightarrow> int \<Rightarrow> 's \<Rightarrow> goerr option \<times> 's" where
  "statusEndpoint d client endpoint timeout s = ed_Status d client endpoint timeout s"

fun status_any :: "('c, 's) etcd_driver \<Rightarrow> 'c \<Rightarrow> int \<Rightarrow> string list \<Rightarrow> 's \<Rightarrow> bool \<times> 's" where
  "status_any d client timeout [] s = (False, s)"
| "status_any d client timeout (e # es) s =
     (case statusEndpoint d client e timeout s of
        (None, s1) \<Rightarrow> (True, s1)
      | (Some _, s1) \<Rightarrow> status_any d client timeout es s1)"

definition statusClient :: "('c, 's) etcd_driver \<Rightarrow> 'c \<Rightarrow> int \<Rightarrow> 's \<Rightarrow> goerr option \<times> 's" where
  "statusClient d client timeout s =
     (case status_any d client timeout (ed_Endpoints d client) s of
        (True, s1) \<Rightarrow> (None, s1)
      | (False, s1) \<Rightarrow>
          (Some (Errorf (''connect to etcd service failure, nest endpoints: ['' @ Join (ed_Endpoints d client) '' '' @ '']'')), s1))"

definition etcd_tryConnect ::
  "('c, 's) etcd_driver \<Rightarrow> (int \<Rightarrow> 's \<Rightarrow> 's) \<Rightarrow> EtcdConfig \<Rightarrow> 's \<Rightarrow> ((goerr + 'c) \<times> 's) option" where
  "etcd_tryConnect d sleep c s =
     (case ed_New d (et_Endpoints c) (et_ConnectTimeout c) s of
        (Inl e, s1) \<Rightarrow> Some (Inl e, s1)
      | (Inr client, s1) \<Rightarrow>
          (case connect_loop
                  (\<lambda>t. case statusClient d client (et_ConnectTimeout c) t of
                     (None, t1) \<Rightarrow> (Inr client, t1) | (Some e, t1) \<Rightarrow> (Inl e, t1))
                  (sleep (et_StartupRetryPeriod c)) (et_StartupRetryTimes c) 1 s1 of
             None \<Rightarrow> None
           | Some (Inl e, s2) \<Rightarrow> Some (Inl e, snd (ed_Close d client s2))
           | Some (Inr cl, s2) \<Rightarrow> Some (Inr cl, s2)))"

section \<open>Registering (lib/etcd/register.go)\<close>

text \<open>The calls of a client: \<open>Grant\<close>, \<open>Put\<close> with a lease, \<open>KeepAlive\<close>, \<open>Revoke\<close>, and whether its context is done.\<close>

record ('k, 's) etcd_client =
  ec_Grant :: "int \<Rightarrow> 's \<Rightarrow> (goerr + int) \<times> 's"
  ec_Put :: "string \<Rightarrow> string \<Rightarrow> int \<Rightarrow> 's \<Rightarrow> goerr option \<times> 's"
  ec_KeepAlive :: "int \<Rightarrow> 's \<Rightarrow> (goerr + 'k) \<times> 's"
  ec_Revoke :: "int \<Rightarrow> 's \<Rightarrow> goerr option \<times> 's"
  ec_Done :: "'s \<Rightarrow> bool"

definition ServicePrefix :: string where "ServicePrefix = ''grpclb''"

definition service_value :: "string \<Rightarrow> int \<Rightarrow> string" where
  "service_value host port = host @ '':'' @ itoa port"

definition service_key :: "string \<Rightarrow> string \<Rightarrow> int \<Rightarrow> string" where
  "service_key service host port = ''/'' @ ServicePrefix @ ''/'' @ service @ ''/'' @ service_value host port"

definition reEstablish ::
  "('k, 's) etcd_client \<Rightarrow> int \<Rightarrow> string \<Rightarrow> string \<Rightarrow> 's \<Rightarrow> (goerr + 'k \<times> int) \<times> 's" where
  "reEstablish cli ttl key val s =
     (case ec_Grant cli ttl s of
        (Inl e, s1) \<Rightarrow> (Inl e, s1)
      | (Inr lease, s1) \<Rightarrow>
          (case ec_Put cli key val lease s1 of
             (Some e, s2) \<Rightarrow> (Inl e, s2)
           | (None, s2) \<Rightarrow>
               (case ec_KeepAlive cli lease s2 of
                  (Inl e, s3) \<Rightarrow> (Inl e, s3)
                | (Inr k, s3) \<Rightarrow> (Inr (k, lease), s3))))"

text \<open>The loop looks at both contexts before each attempt and does not pause between attempts.\<close>

partial_function (option) reEstablishRetry ::
  "('s \<Rightarrow> bool) \<Rightarrow> ('k, 's) etcd_client \<Rightarrow> int \<Rightarrow> string \<Rightarrow> string \<Rightarrow> 's \<Rightarrow> (('k \<times> int) option \<times> 's) option" where
  "reEstablishRetry done cli ttl key val s =
     (if done s \<or> ec_Done cli s then Some (None, s)
      else case reEstablish cli ttl key val s of
        (Inr kid, s1) \<Rightarrow> Some (Some kid, s1)
      | (Inl e, s1) \<Rightarrow> reEstablishRetry done cli ttl key val s1)"

declare reEstablishRetry.simps [code]

text \<open>What the goroutine and the revoking function share: the channel, the lease id, and whether the goroutine runs.\<close>

record 'k registration =
  rg_key :: string
  rg_value :: string
  rg_ttl :: int
  rg_keepAlive :: 'k
  rg_leaseID :: int
  rg_running :: bool

definition RegisterService ::
  "('k, 's) etcd_client option \<Rightarrow> string \<Rightarrow> string \<Rightarrow> int \<Rightarrow> int \<Rightarrow> 's \<Rightarrow> (goerr + 'k registration) \<times> 's" where
  "RegisterService c service host port ttl s =
     (case c of
        None \<Rightarrow> (Inl (Errorf ''panic: etcd's client is nil''), s)
      | Some cli \<Rightarrow>
          (case ec_Grant cli ttl s of
             (Inl e, s1) \<Rightarrow> (Inl e, s1)
           | (Inr lease, s1) \<Rightarrow>
               (let key = service_key service host port; val = service_value host port in
                case ec_Put cli key val lease s1 of
                  (Some e, s2) \<Rightarrow> (Inl e, s2)
                | (None, s2) \<Rightarrow>
                    (case ec_KeepAlive cli lease s2 of
                       (Inl e, s3) \<Rightarrow> (Inl e, s3)
                     | (Inr k, s3) \<Rightarrow>
                         (Inr \<lparr>rg_key = key, rg_value = val, rg_ttl = ttl, rg_keepAlive = k, rg_leaseID = lease, rg_running = True\<rparr>,
                          s3)))))"

definition revokeFunc :: "('k, 's) etcd_client \<Rightarrow> 'k registration \<Rightarrow> 's \<Rightarrow> goerr option \<times> 's" where
  "revokeFunc cli reg s = ec_Revoke cli (rg_leaseID reg) s"

text \<open>What the goroutine's \<open>select\<close> takes; the loop over what it takes one after the other.\<close>

datatype selected = ClientDone | ContextDone | Response | ChannelClosed

definition keep_alive_step ::
  "('s \<Rightarrow> bool) \<Rightarrow> ('k, 's) etcd_client \<Rightarrow> selected \<Rightarrow> 'k registration \<Rightarrow> 's \<Rightarrow> ('k registration \<times> 's) option" where
  "keep_alive_step done cli ev reg s =
     (case ev of
        ClientDone \<Rightarrow> Some (reg\<lparr>rg_running := False\<rparr>, s)
      | ContextDone \<Rightarrow> Some (reg\<lparr>rg_running := False\<rparr>, s)
      | Response \<Rightarrow> Some (reg, s)
      | ChannelClosed \<Rightarrow>
          (case reEstablishRetry done cli (rg_ttl reg) (rg_key reg) (rg_value reg) s of
             None \<Rightarrow> None
           | Some (None, s1) \<Rightarrow> Some (reg\<lparr>rg_running := False\<rparr>, s1)
           | Some (Some (k, lease), s1) \<Rightarrow> Some (reg\<lparr>rg_keepAlive := k, rg_leaseID := lease\<rparr>, s1)))"

fun keep_alive_loop ::
  "('s \<Rightarrow> bool) \<Rightarrow> ('k, 's) etcd_client \<Rightarrow> selected list \<Rightarrow> 'k registration \<Rightarrow> 's \<Rightarrow> ('k registration \<times> 's) option" where
  "keep_alive_loop done cli [] reg s = Some (reg, s)"
| "keep_alive_loop done cli (ev # evs) reg s =
     (if rg_running reg
      then case keep_alive_step done cli ev reg s of
             None \<Rightarrow> None
           | Some (reg1, s1) \<Rightarrow> keep_alive_loop done cli evs reg1 s1
      else Some (reg, s))"

text \<open>\<open>GRPC.Stop\<close>: the lease is revoked, \<open>GracefulStop\<close> waits for the running calls, then the context is cancelled.
  While it waits, the goroutine takes \<open>evs\<close>.\<close>

definition GRPC_Stop ::
  "('s \<Rightarrow> bool) \<Rightarrow> ('k, 's) etcd_client \<Rightarrow> selected list \<Rightarrow> ('s \<Rightarrow> 's) \<Rightarrow> 'k registration option \<Rightarrow> 's \<Rightarrow> 's option" where
  "GRPC_Stop done cli evs cancel r s =
     (case r of
        None \<Rightarrow> Some (cancel s)
      | Some reg \<Rightarrow>
          (case keep_alive_loop done cli evs reg (snd (revokeFunc cli reg s)) of
             None \<Rightarrow> None
           | Some (reg1, s1) \<Rightarrow> Some (cancel s1)))"

section \<open>The retry loop\<close>

text \<open>The states that the attempts see, one failed attempt after the other.\<close>

fun retry_state :: "('k, 's) etcd_client \<Rightarrow> int \<Rightarrow> string \<Rightarrow> string \<Rightarrow> nat \<Rightarrow> 's \<Rightarrow> 's" where
  "retry_state cli ttl key val 0 s = s"
| "retry_state cli ttl key val (Suc n) s = retry_state cli ttl key val n (snd (reEstablish cli ttl key val s))"

text \<open>The first attempt that succeeds ends the loop, unless a context is done before.\<close>

lemma reEstablishRetry_returns:
  assumes "\<forall>i \<le> n. \<not> done (retry_state cli ttl key val i s) \<and> \<not> ec_Done cli (retry_state cli ttl key val i s)"
    and "\<forall>i < n. isl (fst (reEstablish cli ttl key val (retry_state cli ttl key val i s)))"
    and "reEstablish cli ttl key val (retry_state cli ttl key val n s) = (Inr kid, s')"
  shows "reEstablishRetry done cli ttl key val s = Some (Some kid, s')"
  using assms
proof (induction n arbitrary: s)
  case 0
  then show ?case by (subst reEstablishRetry.simps) simp
next
  case (Suc n)
  obtain e s1 where r: "reEstablish cli ttl key val s = (Inl e, s1)"
    using spec [OF Suc.prems(2), of 0] by (cases "reEstablish cli ttl key val s") (auto simp: isl_def)
  have "reEstablishRetry done cli ttl key val s1 = Some (Some kid, s')"
  proof (rule Suc.IH)
    show "\<forall>i \<le> n. \<not> done (retry_state cli ttl key val i s1) \<and> \<not> ec_Done cli (retry_state cli ttl key val i s1)"
      using Suc.prems(1) r by (metis Suc_le_mono retry_state.simps(2) snd_conv)
    show "\<forall>i < n. isl (fst (reEstablish cli ttl key val (retry_state cli ttl key val i s1)))"
      using Suc.prems(2) r by (metis Suc_mono retry_state.simps(2) snd_conv)
  qed (use Suc.prems(3) r in simp)
  moreover have "\<not> done s \<and> \<not> ec_Done cli s" using spec [OF Suc.prems(1), of 0] by simp
  ultimately show ?case using r by (subst reEstablishRetry.simps) simp
qed

section \<open>What the code relies on of etcd\<close>

text \<open>\<open>kv\<close> is what the store holds: for each key its value and lease. A lease that \<open>Grant\<close> answers is new. A \<open>Put\<close> that
  fails may have taken effect on its own key. Revoking a lease removes exactly the keys attached to it.\<close>

definition without_lease :: "int \<Rightarrow> (string \<Rightarrow> (string \<times> int) option) \<Rightarrow> string \<Rightarrow> (string \<times> int) option" where
  "without_lease lease m k = (case m k of None \<Rightarrow> None | Some (v, l) \<Rightarrow> if l = lease then None else Some (v, l))"

locale etcd_lease =
  fixes cli :: "('k, 's) etcd_client"
    and kv :: "'s \<Rightarrow> string \<Rightarrow> (string \<times> int) option"
  assumes grant_kv: "ec_Grant cli ttl s = (res, s') \<Longrightarrow> kv s' = kv s"
    and grant_new: "ec_Grant cli ttl s = (Inr lease, s') \<Longrightarrow> kv s k \<noteq> Some (v, lease)"
    and put_ok: "ec_Put cli key val lease s = (None, s') \<Longrightarrow> kv s' = (kv s)(key \<mapsto> (val, lease))"
    and put_other: "ec_Put cli key val lease s = (e, s') \<Longrightarrow> k' \<noteq> key \<Longrightarrow> kv s' k' = kv s k'"
    and keep_alive_kv: "ec_KeepAlive cli lease s = (ka, s') \<Longrightarrow> kv s' = kv s"
    and revoke_ok: "ec_Revoke cli lease s = (None, s') \<Longrightarrow> kv s' = without_lease lease (kv s)"
begin

lemma reEstablish_new: "reEstablish cli ttl key val s = (Inr (k, lease), s') \<Longrightarrow> kv s x \<noteq> Some (v, lease)"
  using grant_new [of ttl s] by (auto simp: reEstablish_def split: prod.splits sum.splits option.splits)

lemma reEstablish_ok: "reEstablish cli ttl key val s = (Inr (k, lease), s') \<Longrightarrow> kv s' = (kv s)(key \<mapsto> (val, lease))"
  by (auto simp: reEstablish_def split: prod.splits sum.splits option.splits dest!: grant_kv keep_alive_kv put_ok)

lemma reEstablish_other:
  assumes "reEstablish cli ttl key val s = (res, s')" "x \<noteq> key"
  shows "kv s' x = kv s x"
  using assms
  by (auto simp: reEstablish_def split: prod.splits sum.splits option.splits
      dest!: grant_kv keep_alive_kv dest: put_other)

lemma register_is_reEstablish:
  "RegisterService (Some cli) service host port ttl s = (Inr reg, s') \<longleftrightarrow>
   (\<exists>k lease. reEstablish cli ttl (service_key service host port) (service_value host port) s = (Inr (k, lease), s') \<and>
      reg = \<lparr>rg_key = service_key service host port, rg_value = service_value host port, rg_ttl = ttl, rg_keepAlive = k,
             rg_leaseID = lease, rg_running = True\<rparr>)"
  by (auto simp: RegisterService_def reEstablish_def Let_def split: prod.splits sum.splits option.splits)

text \<open>The failed attempts of the retry loop touch no other key.\<close>

lemma retry_state_other: "x \<noteq> key \<Longrightarrow> kv (retry_state cli ttl key val n s) x = kv s x"
  by (induction n arbitrary: s) (auto dest: reEstablish_other [OF prod.collapse [symmetric]])

lemma registered:
  assumes "reEstablish cli ttl key val (retry_state cli ttl key val n s) = (Inr (k, lease), s')"
  shows "kv s' key = Some (val, lease)"
    and "x \<noteq> key \<Longrightarrow> kv s' x = kv s x"
    and "kv s' x = Some (v, lease) \<Longrightarrow> x = key"
  using reEstablish_ok [OF assms] reEstablish_new [OF assms, of x v] retry_state_other [of x key] by (auto split: if_splits)

text \<open>Revoking the lease of a fresh registration removes its key and nothing else.\<close>

lemma revoked:
  assumes "reEstablish cli ttl key val (retry_state cli ttl key val n s) = (Inr (k, lease), s')"
    and "ec_Revoke cli lease s' = (None, s'')"
  shows "kv s'' key = None" "x \<noteq> key \<Longrightarrow> kv s'' x = kv s x"
proof -
  show "kv s'' key = None" using registered(1) [OF assms(1)] revoke_ok [OF assms(2)] by (simp add: without_lease_def)
  assume x: "x \<noteq> key"
  then have "kv s' x \<noteq> Some (v, lease)" for v using registered(3) [OF assms(1)] by blast
  then have "kv s'' x = kv s' x"
    unfolding revoke_ok [OF assms(2)] by (cases "kv s' x") (auto simp: without_lease_def)
  then show "kv s'' x = kv s x" using registered(2) [OF assms(1) x] by simp
qed

lemma keep_alive_restored:
  assumes "\<forall>i \<le> n. \<not> done (retry_state cli (rg_ttl reg) (rg_key reg) (rg_value reg) i s) \<and>
             \<not> ec_Done cli (retry_state cli (rg_ttl reg) (rg_key reg) (rg_value reg) i s)"
    and "\<forall>i < n. isl (fst (reEstablish cli (rg_ttl reg) (rg_key reg) (rg_value reg)
             (retry_state cli (rg_ttl reg) (rg_key reg) (rg_value reg) i s)))"
    and "reEstablish cli (rg_ttl reg) (rg_key reg) (rg_value reg)
             (retry_state cli (rg_ttl reg) (rg_key reg) (rg_value reg) n s) = (Inr (k, lease), s')"
  shows "keep_alive_step done cli ChannelClosed reg s = Some (reg\<lparr>rg_keepAlive := k, rg_leaseID := lease\<rparr>, s')"
  using reEstablishRetry_returns [OF assms] by (simp add: keep_alive_step_def)

text \<open>While etcd answers and no context is done (the states \<open>ok\<close>), every closed channel is followed by a new
  registration.\<close>

lemma loop_registered:
  assumes "\<And>t. ok t \<Longrightarrow> \<not> done t \<and> \<not> ec_Done cli t \<and>
       (\<exists>k lease t'. reEstablish cli (rg_ttl reg) (rg_key reg) (rg_value reg) t = (Inr (k, lease), t') \<and> ok t')"
    and "set evs \<subseteq> {Response, ChannelClosed}" "rg_running reg" "ok s"
  shows "\<exists>reg' s'. keep_alive_loop done cli evs reg s = Some (reg', s') \<and>
     (if ChannelClosed \<in> set evs then kv s' (rg_key reg) = Some (rg_value reg, rg_leaseID reg') else reg' = reg \<and> s' = s)"
  using assms
proof (induction evs arbitrary: reg s)
  case (Cons ev evs)
  show ?case
  proof (cases ev)
    case Response
    then show ?thesis using Cons.IH [of reg s] Cons.prems by (simp add: keep_alive_step_def)
  next
    case ChannelClosed
    obtain k lease s1 where r: "reEstablish cli (rg_ttl reg) (rg_key reg) (rg_value reg) s = (Inr (k, lease), s1)" and o: "ok s1"
      using Cons.prems(1) [OF Cons.prems(4)] by blast
    let ?reg = "reg\<lparr>rg_keepAlive := k, rg_leaseID := lease\<rparr>"
    have st: "keep_alive_step done cli ev reg s = Some (?reg, s1)"
      unfolding ChannelClosed by (rule keep_alive_restored [where n = 0]) (use r Cons.prems(1) [OF Cons.prems(4)] in auto)
    have k1: "kv s1 (rg_key reg) = Some (rg_value reg, lease)" by (simp add: reEstablish_ok [OF r])
    have "\<exists>reg' s'. keep_alive_loop done cli evs ?reg s1 = Some (reg', s') \<and>
       (if ChannelClosed \<in> set evs then kv s' (rg_key ?reg) = Some (rg_value ?reg, rg_leaseID reg') else reg' = ?reg \<and> s' = s1)"
      by (rule Cons.IH) (use Cons.prems o in auto)
    then show ?thesis using st k1 Cons.prems(3) ChannelClosed by (auto split: if_splits)
  qed (use Cons.prems in auto)
qed simp

end

section \<open>An etcd in memory\<close>

text \<open>Entries with their leases; the next \<open>me_refuse\<close> grants are refused; a cancelled context.\<close>

record memetcd =
  me_data :: "(string \<times> (string \<times> int)) list"
  me_refuse :: nat
  me_cancelled :: bool

definition fresh_lease :: "memetcd \<Rightarrow> int" where
  "fresh_lease s = 1 + fold (\<lambda>(k, v, l) m. max m l) (me_data s) 0"

definition mem_kv :: "memetcd \<Rightarrow> string \<Rightarrow> (string \<times> int) option" where
  "mem_kv s = map_of (me_data s)"

definition mem_etcd :: "(unit, memetcd) etcd_client" where
  "mem_etcd = \<lparr>
     ec_Grant = (\<lambda>ttl s. if 0 < me_refuse s then (Inl (Errorf ''etcd: no leader''), s\<lparr>me_refuse := me_refuse s - 1\<rparr>)
                         else (Inr (fresh_lease s), s)),
     ec_Put = (\<lambda>key val lease s. (None, s\<lparr>me_data := (key, val, lease) # me_data s\<rparr>)),
     ec_KeepAlive = (\<lambda>lease s. (Inr (), s)),
     ec_Revoke = (\<lambda>lease s. (None, s\<lparr>me_data := filter (\<lambda>(k, p). without_lease lease (mem_kv s) k \<noteq> None) (me_data s)\<rparr>)),
     ec_Done = (\<lambda>s. False)\<rparr>"

lemma map_of_filter_keys: "map_of (filter (\<lambda>(k, p). P k) xs) k = (if P k then map_of xs k else None)"
  by (induction xs) auto

lemma fold_max_ge: "(m :: int) \<le> fold (\<lambda>(k, v, l) m. max m l) xs m"
proof (induction xs arbitrary: m)
  case (Cons x xs)
  obtain k v l where "x = (k, v, l)" by (cases x)
  then show ?case using Cons [of "max m l"] by simp
qed simp

lemma lease_below_fold: "(k, v, l) \<in> set xs \<Longrightarrow> l \<le> fold (\<lambda>(k, v, l) m. max m l) xs (m :: int)"
proof (induction xs arbitrary: m)
  case (Cons x xs)
  then show ?case using fold_max_ge [of "max m l" xs] by auto
qed simp

lemma fresh_lease_new: "mem_kv s k \<noteq> Some (v, fresh_lease s)"
  using lease_below_fold [of k v "fresh_lease s" "me_data s" 0] by (auto simp: fresh_lease_def mem_kv_def dest: map_of_SomeD)

interpretation memetcd: etcd_lease mem_etcd mem_kv
proof
  fix lease s s'
  assume "ec_Revoke mem_etcd lease s = (None, s')"
  then show "mem_kv s' = without_lease lease (mem_kv s)"
    by (auto simp: mem_etcd_def mem_kv_def map_of_filter_keys fun_eq_iff without_lease_def split: option.splits)
qed (auto simp: mem_etcd_def mem_kv_def fresh_lease_new [unfolded mem_kv_def] split: if_splits)

section \<open>Properties\<close>

text \<open>The attempt \<open>n\<close> of the retry loop for a registration, counted from 0, and the state that it finds.\<close>

definition attempt_world :: "('k, 's) etcd_client \<Rightarrow> 'k registration \<Rightarrow> nat \<Rightarrow> 's \<Rightarrow> 's" where
  "attempt_world cli reg n s = retry_state cli (rg_ttl reg) (rg_key reg) (rg_value reg) n s"

definition attempt_result :: "('k, 's) etcd_client \<Rightarrow> 'k registration \<Rightarrow> nat \<Rightarrow> 's \<Rightarrow> goerr + 'k \<times> int" where
  "attempt_result cli reg n s = fst (reEstablish cli (rg_ttl reg) (rg_key reg) (rg_value reg) (attempt_world cli reg n s))"

text \<open>C27. A service that lost its lease is found again. When the goroutine of \<open>RegisterService\<close> sees the channel of its
  lease closed, then, unless a context is done before, the first attempt that etcd answers ends the loop with the service
  registered under its key with a new lease, all other keys untouched; and the function that \<open>RegisterService\<close> returned
  revokes exactly this new registration.\<close>

theorem registration_restored:
  assumes etcd: "etcd_lease cli kv"
    and "rg_running reg"
    and "\<forall>i \<le> n. \<not> done (attempt_world cli reg i s) \<and> \<not> ec_Done cli (attempt_world cli reg i s)"
    and "\<forall>i < n. isl (attempt_result cli reg i s)" "\<not> isl (attempt_result cli reg n s)"
  shows "\<exists>reg' s'. keep_alive_loop done cli [ChannelClosed] reg s = Some (reg', s') \<and> rg_running reg' \<and>
     kv s' = (kv s)(rg_key reg \<mapsto> (rg_value reg, rg_leaseID reg')) \<and>
     (\<forall>s''. revokeFunc cli reg' s' = (None, s'') \<longrightarrow> kv s'' = (kv s)(rg_key reg := None))"
proof -
  let ?r = "reEstablish cli (rg_ttl reg) (rg_key reg) (rg_value reg) (attempt_world cli reg n s)"
  obtain k lease s' where r: "?r = (Inr (k, lease), s')"
    using assms(5) by (cases ?r) (auto simp: attempt_result_def isl_def, metis obj_sumE prod.exhaust)
  note r' = r [unfolded attempt_world_def]
  let ?reg = "reg\<lparr>rg_keepAlive := k, rg_leaseID := lease\<rparr>"
  have "keep_alive_step done cli ChannelClosed reg s = Some (?reg, s')"
    by (rule etcd_lease.keep_alive_restored [OF etcd _ _ r'])
      (use assms(3,4) in \<open>auto simp: attempt_world_def attempt_result_def\<close>)
  moreover have "kv s' = (kv s)(rg_key reg \<mapsto> (rg_value reg, lease))"
    using etcd_lease.registered(1,2) [OF etcd r'] by fastforce
  moreover have "kv s'' = (kv s)(rg_key reg := None)" if "ec_Revoke cli lease s' = (None, s'')" for s''
    using etcd_lease.revoked [OF etcd r' that] by fastforce
  ultimately show ?thesis using assms(2) by (simp add: revokeFunc_def)
qed

text \<open>A service whose lease ran out while etcd refuses the next two grants.\<close>

definition lost_reg :: "unit registration" where
  "lost_reg = \<lparr>rg_key = ''/grpclb/personal-auth/10.0.0.7:50001'', rg_value = ''10.0.0.7:50001'', rg_ttl = 10, rg_keepAlive = (),
     rg_leaseID = 4, rg_running = True\<rparr>"

definition lost_world :: memetcd where
  "lost_world = \<lparr>me_data = [(''/grpclb/personal-core/10.0.0.8:50002'', ''10.0.0.8:50002'', 3)], me_refuse = 2, me_cancelled = False\<rparr>"

lemma lost_world_attempts:
  "attempt_result mem_etcd lost_reg 0 lost_world = Inl (Errorf ''etcd: no leader'')"
  "attempt_result mem_etcd lost_reg (Suc 0) lost_world = Inl (Errorf ''etcd: no leader'')"
  "attempt_result mem_etcd lost_reg 2 lost_world = Inr ((), 4)"
  by code_simp+

lemma lost_world_open:
  "me_cancelled (attempt_world mem_etcd lost_reg 0 lost_world) = False"
  "me_cancelled (attempt_world mem_etcd lost_reg (Suc 0) lost_world) = False"
  "me_cancelled (attempt_world mem_etcd lost_reg 2 lost_world) = False"
  by code_simp+

lemma lost_reg_running: "rg_running lost_reg"
  by (simp add: lost_reg_def)

lemma mem_etcd_Done: "ec_Done mem_etcd s = False"
  by (simp add: mem_etcd_def)

theorem registration_restored_witness:
  "\<exists>reg' s'. keep_alive_loop me_cancelled mem_etcd [ChannelClosed] lost_reg lost_world = Some (reg', s') \<and>
     mem_kv s' ''/grpclb/personal-auth/10.0.0.7:50001'' = Some (''10.0.0.7:50001'', rg_leaseID reg')"
proof -
  have two: "i \<le> 2 \<longleftrightarrow> i = 0 \<or> i = Suc 0 \<or> i = 2" "i < 2 \<longleftrightarrow> i = 0 \<or> i = Suc 0" for i :: nat by auto
  have "\<exists>reg' s'. keep_alive_loop me_cancelled mem_etcd [ChannelClosed] lost_reg lost_world = Some (reg', s') \<and> rg_running reg' \<and>
     mem_kv s' = (mem_kv lost_world)(rg_key lost_reg \<mapsto> (rg_value lost_reg, rg_leaseID reg')) \<and>
     (\<forall>s''. revokeFunc mem_etcd reg' s' = (None, s'') \<longrightarrow> mem_kv s'' = (mem_kv lost_world)(rg_key lost_reg := None))"
    by (rule registration_restored [OF memetcd.etcd_lease_axioms, where n = 2])
      (simp_all only: two, auto simp: lost_world_attempts lost_world_open mem_etcd_Done lost_reg_running)
  then show ?thesis by (auto simp: lost_reg_def)
qed

text \<open>C28. A stopped service can come back. \<open>Stop\<close> revokes the lease, waits for the running calls and only then cancels
  the context. After it the service's key is gone exactly when the goroutine did not get to see the channel of the revoked
  lease closed while \<open>Stop\<close> waited; when it did, it registered the service again, and the key of the stopped service stays
  in etcd until the new lease runs out.\<close>

theorem stop_deregisters_unless_noticed:
  assumes etcd: "etcd_lease cli kv"
    and reg: "RegisterService (Some cli) service host port ttl s0 = (Inr reg, s)"
    and rev: "revokeFunc cli reg s = (None, s1)"
    and up: "\<And>t. ok t \<Longrightarrow> \<not> done t \<and> \<not> ec_Done cli t \<and>
       (\<exists>k lease t'. reEstablish cli (rg_ttl reg) (rg_key reg) (rg_value reg) t = (Inr (k, lease), t') \<and> ok t')"
    and evs: "set evs \<subseteq> {Response, ChannelClosed}" and ok: "ok s1"
    and cancel: "\<And>t. kv (cancel t) = kv t"
  shows "\<exists>s'. GRPC_Stop done cli evs cancel (Some reg) s = Some s' \<and>
     (kv s' (service_key service host port) = None \<longleftrightarrow> ChannelClosed \<notin> set evs)"
proof -
  obtain k lease where r: "reEstablish cli ttl (service_key service host port) (service_value host port) s0 = (Inr (k, lease), s)"
    and g: "rg_key reg = service_key service host port" "rg_leaseID reg = lease" "rg_running reg"
    using reg by (auto simp: etcd_lease.register_is_reEstablish [OF etcd])
  have gone: "kv s1 (rg_key reg) = None"
    using etcd_lease.revoked(1) [OF etcd, of ttl _ _ 0] r rev g by (simp add: revokeFunc_def)
  obtain reg' s' where "keep_alive_loop done cli evs reg s1 = Some (reg', s')"
    and "if ChannelClosed \<in> set evs then kv s' (rg_key reg) = Some (rg_value reg, rg_leaseID reg') else reg' = reg \<and> s' = s1"
    using etcd_lease.loop_registered [OF etcd, where ok = ok, OF up evs g(3) ok] by auto
  then show ?thesis using rev gone g(1) cancel by (auto simp: GRPC_Stop_def split: if_splits)
qed

text \<open>The goroutine takes a response and then the closed channel before \<open>Stop\<close> gets to cancel the context.\<close>

definition serving_world :: memetcd where
  "serving_world = \<lparr>me_data = [], me_refuse = 0, me_cancelled = False\<rparr>"

lemma mem_reEstablish:
  "me_refuse s = 0 \<Longrightarrow> reEstablish mem_etcd ttl key val s =
     (Inr ((), fresh_lease s), s\<lparr>me_data := (key, val, fresh_lease s) # me_data s\<rparr>)"
  by (simp add: reEstablish_def mem_etcd_def)

theorem stop_deregisters_unless_noticed_witness:
  "\<exists>reg s. RegisterService (Some mem_etcd) ''personal-core'' ''10.0.0.8'' 50002 10 serving_world = (Inr reg, s) \<and>
     (\<exists>s'. GRPC_Stop me_cancelled mem_etcd [Response, ChannelClosed] (\<lambda>t. t\<lparr>me_cancelled := True\<rparr>) (Some reg) s = Some s' \<and>
        mem_kv s' (service_key ''personal-core'' ''10.0.0.8'' 50002) \<noteq> None)"
proof -
  let ?key = "service_key ''personal-core'' ''10.0.0.8'' 50002" and ?val = "service_value ''10.0.0.8'' 50002"
  let ?s = "serving_world\<lparr>me_data := [(?key, ?val, fresh_lease serving_world)]\<rparr>"
  let ?reg = "\<lparr>rg_key = ?key, rg_value = ?val, rg_ttl = 10, rg_keepAlive = (), rg_leaseID = fresh_lease serving_world, rg_running = True\<rparr>"
  let ?ok = "\<lambda>t. me_refuse t = 0 \<and> \<not> me_cancelled t"
  let ?s1 = "snd (revokeFunc mem_etcd ?reg ?s)"
  have r: "RegisterService (Some mem_etcd) ''personal-core'' ''10.0.0.8'' 50002 10 serving_world = (Inr ?reg, ?s)"
    unfolding memetcd.register_is_reEstablish by (simp add: mem_reEstablish serving_world_def)
  have "\<exists>s'. GRPC_Stop me_cancelled mem_etcd [Response, ChannelClosed] (\<lambda>t. t\<lparr>me_cancelled := True\<rparr>) (Some ?reg) ?s = Some s' \<and>
     (mem_kv s' ?key = None \<longleftrightarrow> ChannelClosed \<notin> set [Response, ChannelClosed])"
  proof (rule stop_deregisters_unless_noticed [OF memetcd.etcd_lease_axioms r, where ok = ?ok and ?s1.0 = ?s1])
    show "revokeFunc mem_etcd ?reg ?s = (None, ?s1)" by (simp add: revokeFunc_def mem_etcd_def)
    show "?ok ?s1" by (simp add: revokeFunc_def mem_etcd_def serving_world_def)
  qed (auto simp: mem_reEstablish mem_etcd_Done mem_kv_def)
  then show ?thesis using r by auto
qed

end
