(* ===== verification/Discovery.thy ===== *)
theory Discovery
  imports Registration "HOL-Library.AList" "HOL-Library.Multiset"
begin

text \<open>
  How a client finds the addresses of a service: the resolver of \<open>lib/grpc/lb\<close>, which reads the keys under its target
  once (\<open>Build\<close>) and then follows the changes that etcd reports (\<open>watch\<close>). etcd is described by the history of the
  changes to its keys: \<open>Get\<close> answers the state after some of them, \<open>Watch\<close> delivers those after it was set up. The order
  of a Go map's entries is the order of the list; it is shuffled before it is used.
\<close>

section \<open>Addresses (lib/grpc/lb/resolver.go)\<close>

definition buildAddresses :: "(string \<times> string) list \<Rightarrow> string list" where
  "buildAddresses ends = map snd ends"

text \<open>\<open>rand.Shuffle\<close> swaps each element from the last down to the second with one at or before it; \<open>r i\<close> is the random
  number for the element \<open>i\<close>.\<close>

definition swap_elems :: "nat \<Rightarrow> nat \<Rightarrow> 'a list \<Rightarrow> 'a list" where
  "swap_elems i j xs = xs[i := xs ! j, j := xs ! i]"

primrec shuffle_from :: "(nat \<Rightarrow> nat) \<Rightarrow> nat \<Rightarrow> 'a list \<Rightarrow> 'a list" where
  "shuffle_from r 0 xs = xs"
| "shuffle_from r (Suc i) xs = shuffle_from r i (swap_elems (Suc i) (r (Suc i) mod (Suc i + 1)) xs)"

definition shuffle :: "(nat \<Rightarrow> nat) \<Rightarrow> 'a list \<Rightarrow> 'a list" where
  "shuffle r addresses = shuffle_from r (length addresses - 1) addresses"

section \<open>The resolver (builder.go, resolver.go)\<close>

datatype event = PUT string string | DELETE string

text \<open>The state of a resolver; \<open>rs_published\<close> are the calls of \<open>UpdateState\<close> in their order.\<close>

record Resolver =
  rs_target :: string
  rs_endpoints :: "(string \<times> string) list"
  rs_published :: "string list list"
  rs_watching :: bool

fun apply_event :: "event \<Rightarrow> (string \<times> string) list \<Rightarrow> (string \<times> string) list" where
  "apply_event (PUT k v) ends = AList.update k v ends"
| "apply_event (DELETE k) ends = AList.delete k ends"

text \<open>\<open>rnd n\<close> are the random numbers of the call \<open>n\<close>.\<close>

definition UpdateState :: "(nat \<Rightarrow> nat \<Rightarrow> nat) \<Rightarrow> Resolver \<Rightarrow> Resolver" where
  "UpdateState rnd r =
     r\<lparr>rs_published := rs_published r @ [shuffle (rnd (length (rs_published r))) (buildAddresses (rs_endpoints r))]\<rparr>"

definition Build ::
  "(nat \<Rightarrow> nat \<Rightarrow> nat) \<Rightarrow> (string \<Rightarrow> goerr + (string \<times> string) list) option \<Rightarrow> string \<Rightarrow> goerr + Resolver" where
  "Build rnd c path =
     (case c of
        None \<Rightarrow> Inl (Errorf ''resolver: etcd client is nil'')
      | Some get \<Rightarrow>
          (case get path of
             Inl e \<Rightarrow> Inl e
           | Inr kvs \<Rightarrow>
               Inr ((UpdateState rnd
                       \<lparr>rs_target = path, rs_endpoints = fold (\<lambda>(k, v). AList.update k v) kvs [], rs_published = [],
                        rs_watching = False\<rparr>)\<lparr>rs_watching := True\<rparr>)))"

definition Scheme :: string where "Scheme = ''etcd''"

text \<open>What the \<open>select\<close> of \<open>watch\<close> takes; the loop over what it takes one after the other.\<close>

datatype received = CtxDone | Events "event list" | ChanClosed

fun watch :: "(nat \<Rightarrow> nat \<Rightarrow> nat) \<Rightarrow> Resolver \<Rightarrow> received list \<Rightarrow> Resolver" where
  "watch rnd r [] = r"
| "watch rnd r (m # ms) =
     (if rs_watching r
      then case m of
             CtxDone \<Rightarrow> r\<lparr>rs_watching := False\<rparr>
           | ChanClosed \<Rightarrow> r\<lparr>rs_watching := False\<rparr>
           | Events evs \<Rightarrow>
               watch rnd (UpdateState rnd (r\<lparr>rs_endpoints := fold apply_event evs (rs_endpoints r)\<rparr>)) ms
      else r)"

text \<open>\<open>Close\<close> cancels the context and waits for the goroutine, which then takes the cancelled context.\<close>

definition Resolver_Close :: "(nat \<Rightarrow> nat \<Rightarrow> nat) \<Rightarrow> Resolver \<Rightarrow> Resolver" where
  "Resolver_Close rnd r = watch rnd r [CtxDone]"

section \<open>The history of a store\<close>

fun ev_key :: "event \<Rightarrow> string" where
  "ev_key (PUT k v) = k"
| "ev_key (DELETE k) = k"

fun ev_value :: "event \<Rightarrow> string option" where
  "ev_value (PUT k v) = Some v"
| "ev_value (DELETE k) = None"

definition record_change :: "event \<Rightarrow> (string \<Rightarrow> string option) \<Rightarrow> string \<Rightarrow> string option" where
  "record_change e m = m(ev_key e := ev_value e)"

definition store :: "event list \<Rightarrow> string \<Rightarrow> string option" where
  "store h = fold record_change h (\<lambda>_. None)"

definition under :: "string \<Rightarrow> event list \<Rightarrow> event list" where
  "under path h = filter (\<lambda>e. HasPrefix (ev_key e) path) h"

section \<open>Lemmas\<close>

lemma mset_swap_elems: "i < length xs \<Longrightarrow> j < length xs \<Longrightarrow> mset (swap_elems i j xs) = mset xs"
  unfolding swap_elems_def by (rule mset_swap)

lemma length_swap_elems [simp]: "length (swap_elems i j xs) = length xs"
  by (simp add: swap_elems_def)

lemma mset_shuffle_from: "i < length xs \<Longrightarrow> mset (shuffle_from r i xs) = mset xs"
proof (induction i arbitrary: xs)
  case (Suc i)
  have "r (Suc i) mod (Suc i + 1) < length xs"
    using Suc.prems mod_less_divisor [of "Suc i + 1" "r (Suc i)"] by linarith
  then show ?case using Suc by (simp add: mset_swap_elems)
qed simp

text \<open>Shuffling keeps the addresses.\<close>

lemma mset_shuffle [simp]: "mset (shuffle r xs) = mset xs"
  by (cases xs) (simp_all add: shuffle_def mset_shuffle_from)

lemma set_shuffle [simp]: "set (shuffle r xs) = set xs"
  by (metis mset_shuffle set_mset_mset)

lemma map_of_apply_events:
  "map_of (fold apply_event evs ends) = fold record_change evs (map_of ends)"
proof (induction evs arbitrary: ends)
  case (Cons e evs)
  have "map_of (apply_event e ends) = record_change e (map_of ends)"
    by (cases e) (simp_all add: update_conv' delete_conv' record_change_def)
  then show ?case using Cons by simp
qed simp

lemma distinct_apply_events: "distinct (map fst ends) \<Longrightarrow> distinct (map fst (fold apply_event evs ends))"
proof (induction evs arbitrary: ends)
  case (Cons e evs)
  have "distinct (map fst (apply_event e ends))"
    using Cons.prems by (cases e) (simp_all add: distinct_update distinct_delete)
  then show ?case using Cons.IH by simp
qed simp

text \<open>What a history leaves under a key depends on the key's last event only.\<close>

lemma fold_events_other:
  "\<forall>e \<in> set evs. ev_key e \<noteq> k \<Longrightarrow> fold record_change evs m k = m k"
  by (induction evs arbitrary: m) (auto simp: record_change_def)

lemma fold_events_cong:
  "m k = m' k \<Longrightarrow> fold record_change evs m k = fold record_change evs m' k"
proof (induction evs arbitrary: m m')
  case (Cons e evs)
  show ?case using Cons.IH [of "record_change e m" "record_change e m'"] Cons.prems by (simp add: record_change_def)
qed simp

lemma store_append: "store (h1 @ h2) = fold record_change h2 (store h1)"
  by (simp add: store_def)

lemma under_append [simp]: "under path (h1 @ h2) = under path h1 @ under path h2"
  by (simp add: under_def)

lemma store_under: "HasPrefix k path \<Longrightarrow> store (under path h) k = store h k"
proof (induction h rule: rev_induct)
  case (snoc e h)
  then show ?case by (cases "HasPrefix (ev_key e) path") (auto simp: store_def under_def record_change_def)
qed (simp add: under_def)

lemma store_outside: "\<not> HasPrefix k path \<Longrightarrow> store (under path h) k = None"
  unfolding store_def by (subst fold_events_other) (auto simp: under_def)

text \<open>What \<open>Build\<close> makes of the answer of \<open>Get\<close>, which holds each key once.\<close>

lemma fold_update_kvs:
  assumes "distinct (map fst kvs)"
  shows "map_of (fold (\<lambda>(k, v). AList.update k v) kvs ends) = map_of ends ++ map_of kvs"
  using assms
proof (induction kvs arbitrary: ends)
  case (Cons kv kvs)
  obtain k v where kv: "kv = (k, v)" by (cases kv)
  have "map_of (fold (\<lambda>(k, v). AList.update k v) kvs (AList.update k v ends)) = (map_of ends)(k \<mapsto> v) ++ map_of kvs"
    using Cons by (simp add: update_conv')
  moreover have "map_of kvs k = None" using Cons.prems kv by (simp add: map_of_eq_None_iff)
  ultimately show ?case using kv by (simp add: map_add_upd_left dom_def fun_eq_iff map_add_def split: option.split)
qed simp

lemma distinct_update_kvs:
  "distinct (map fst ends) \<Longrightarrow> distinct (map fst (fold (\<lambda>(k, v). AList.update k v) kvs ends))"
  by (induction kvs arbitrary: ends) (auto simp: distinct_update split: prod.split)

text \<open>A resolver that runs: the keys of its endpoints are distinct, and the last addresses it gave out are theirs.\<close>

definition resolver_ok :: "Resolver \<Rightarrow> bool" where
  "resolver_ok r \<longleftrightarrow> rs_watching r \<and> distinct (map fst (rs_endpoints r)) \<and> rs_published r \<noteq> [] \<and>
     mset (last (rs_published r)) = mset (buildAddresses (rs_endpoints r))"

lemma Build_ok:
  assumes "Build rnd (Some get) path = Inr r"
  shows "resolver_ok r"
    and "get path = Inr kvs \<Longrightarrow> distinct (map fst kvs) \<Longrightarrow> map_of (rs_endpoints r) = map_of kvs"
  using assms fold_update_kvs [of kvs "[]"] distinct_update_kvs [of "[]"]
  by (auto simp: Build_def UpdateState_def resolver_ok_def split: sum.splits)

lemma watch_events:
  "resolver_ok r \<Longrightarrow> resolver_ok (watch rnd r (map Events batches)) \<and>
     map_of (rs_endpoints (watch rnd r (map Events batches))) =
       fold record_change (concat batches) (map_of (rs_endpoints r))"
proof (induction batches arbitrary: r)
  case (Cons evs batches)
  let ?r = "UpdateState rnd (r\<lparr>rs_endpoints := fold apply_event evs (rs_endpoints r)\<rparr>)"
  have w: "watch rnd r (map Events (evs # batches)) = watch rnd ?r (map Events batches)"
    using Cons.prems by (simp add: resolver_ok_def)
  have "resolver_ok ?r"
    using Cons.prems distinct_apply_events by (simp add: resolver_ok_def UpdateState_def)
  from Cons.IH [OF this] show ?case unfolding w by (simp add: UpdateState_def map_of_apply_events)
qed simp

text \<open>The addresses given out are the values of the endpoints, one for each key.\<close>

lemma published_values:
  assumes "resolver_ok r"
  shows "mset (last (rs_published r)) = image_mset (\<lambda>k. the (map_of (rs_endpoints r) k)) (mset_set (dom (map_of (rs_endpoints r))))"
proof -
  have d: "distinct (map fst (rs_endpoints r))" using assms by (simp add: resolver_ok_def)
  have "mset (map snd xs) = image_mset (\<lambda>k. the (map_of xs k)) (mset_set (dom (map_of xs)))"
    if "distinct (map fst xs)" for xs :: "(string \<times> string) list"
  proof -
    have "mset_set (dom (map_of xs)) = mset (map fst xs)"
      using that by (metis dom_map_of_conv_image_fst list.set_map mset_set_set)
    moreover have "image_mset (\<lambda>k. the (map_of xs k)) (mset (map fst xs)) = mset (map snd xs)"
      using that by (auto simp: mset_map [symmetric] simp del: mset_map intro!: arg_cong [of _ _ mset] map_cong)
    ultimately show ?thesis by simp
  qed
  from this [OF d] show ?thesis using assms by (simp add: resolver_ok_def buildAddresses_def)
qed

section \<open>Properties\<close>

text \<open>The runs of a resolver: \<open>Get\<close> answered the state after the history \<open>h1\<close>, \<open>gap\<close> happened before the watch was set
  up, and the watch has delivered all of \<open>h2\<close> in batches.\<close>

definition resolver_run ::
  "(nat \<Rightarrow> nat \<Rightarrow> nat) \<Rightarrow> string \<Rightarrow> (string \<times> string) list \<Rightarrow> event list list \<Rightarrow> Resolver option" where
  "resolver_run rnd path kvs batches =
     (case Build rnd (Some (\<lambda>_. Inr kvs)) path of Inl e \<Rightarrow> None | Inr r \<Rightarrow> Some (watch rnd r (map Events batches)))"

lemma resolver_run_endpoints:
  assumes "distinct (map fst kvs)" "map_of kvs = store (under path h1)" "concat batches = under path h2"
  shows "\<exists>r. resolver_run rnd path kvs batches = Some r \<and> resolver_ok r \<and> map_of (rs_endpoints r) = store (under path (h1 @ h2))"
proof -
  obtain r where b: "Build rnd (Some (\<lambda>_. Inr kvs)) path = Inr r" by (simp add: Build_def)
  have "map_of (rs_endpoints r) = store (under path h1)" using Build_ok(2) [OF b _ assms(1)] assms(2) by simp
  then show ?thesis
    using b watch_events [OF Build_ok(1) [OF b], of rnd batches] assms(3) by (simp add: resolver_run_def store_append)
qed

text \<open>C29. A resolver follows its store. Once the watch has delivered every change that came after it was set up, the
  resolver agrees with etcd on each key under its target that was not changed between \<open>Get\<close> and \<open>Watch\<close>, it knows no
  key outside its target, and the addresses it last gave to the connection are, up to their order, the values of its keys,
  each once per key.\<close>

theorem resolver_follows_store:
  assumes "distinct (map fst kvs)" "map_of kvs = store (under path h1)" "concat batches = under path h2"
  shows "\<exists>r. resolver_run rnd path kvs batches = Some r \<and> rs_watching r \<and>
     (\<forall>k. HasPrefix k path \<and> (\<forall>e \<in> set gap. ev_key e \<noteq> k) \<longrightarrow>
        map_of (rs_endpoints r) k = store (h1 @ gap @ h2) k) \<and>
     (\<forall>k. \<not> HasPrefix k path \<longrightarrow> map_of (rs_endpoints r) k = None) \<and>
     mset (last (rs_published r)) =
       image_mset (\<lambda>k. the (map_of (rs_endpoints r) k)) (mset_set (dom (map_of (rs_endpoints r))))"
proof -
  obtain r where r: "resolver_run rnd path kvs batches = Some r" "resolver_ok r"
    and m: "map_of (rs_endpoints r) = store (under path (h1 @ h2))"
    using resolver_run_endpoints [OF assms, of rnd] by blast
  have "map_of (rs_endpoints r) k = store (h1 @ gap @ h2) k"
    if "HasPrefix k path" "\<forall>e \<in> set gap. ev_key e \<noteq> k" for k
  proof -
    have "store (h1 @ gap) k = store h1 k" using fold_events_other [OF that(2)] by (simp add: store_append)
    then have "store (h1 @ h2) k = store (h1 @ gap @ h2) k"
      using fold_events_cong [of "store h1" k "store (h1 @ gap)" h2] by (simp add: store_append)
    then show ?thesis using store_under [OF that(1)] m by metis
  qed
  then show ?thesis
    using r m published_values [OF r(2)] store_outside by (auto simp: resolver_ok_def simp del: under_append)
qed

text \<open>Two instances, of which one goes away and a third comes up while the resolver watches.\<close>

definition inst :: "nat \<Rightarrow> string" where
  "inst n = ''10.0.0.'' @ itoa (int n)"

definition auth_path :: string where "auth_path = ''/grpclb/personal-auth''"

definition auth_key :: "nat \<Rightarrow> string" where
  "auth_key n = auth_path @ ''/'' @ inst n"

theorem resolver_follows_store_witness:
  "\<exists>r. resolver_run (\<lambda>_ _. 5) auth_path [(auth_key 1, inst 1), (auth_key 2, inst 2)]
         [[DELETE (auth_key 1)], [PUT (auth_key 3) (inst 3)]] = Some r \<and>
     map_of (rs_endpoints r) (auth_key 1) = None \<and> map_of (rs_endpoints r) (auth_key 3) = Some (inst 3)"
proof -
  let ?h1 = "[PUT (auth_key 1) (inst 1), PUT (auth_key 2) (inst 2)]"
  let ?h2 = "[DELETE (auth_key 1), PUT (auth_key 3) (inst 3)]"
  have n: "auth_key 1 \<noteq> auth_key 2" "auth_key 1 \<noteq> auth_key 3" by code_simp+
  have u: "HasPrefix (auth_key n) auth_path" for n by (simp add: HasPrefix_def auth_key_def)
  have "\<exists>r. resolver_run (\<lambda>_ _. 5) auth_path [(auth_key 1, inst 1), (auth_key 2, inst 2)] [[DELETE (auth_key 1)], [PUT (auth_key 3) (inst 3)]] = Some r \<and>
      rs_watching r \<and>
     (\<forall>k. HasPrefix k auth_path \<and> (\<forall>e \<in> set []. ev_key e \<noteq> k) \<longrightarrow>
        map_of (rs_endpoints r) k = store (?h1 @ [] @ ?h2) k) \<and>
     (\<forall>k. \<not> HasPrefix k auth_path \<longrightarrow> map_of (rs_endpoints r) k = None) \<and>
     mset (last (rs_published r)) =
       image_mset (\<lambda>k. the (map_of (rs_endpoints r) k)) (mset_set (dom (map_of (rs_endpoints r))))"
    by (rule resolver_follows_store)
      (use n(1) in \<open>auto simp: under_def u store_def record_change_def fun_eq_iff\<close>)
  then show ?thesis using u n by (auto simp: store_def record_change_def)
qed

text \<open>A change between \<open>Get\<close> and \<open>Watch\<close> is lost. \<open>Build\<close> asks for the changes from now on, not from the revision
  that \<open>Get\<close> answered. A key under the target whose last change fell into the gap keeps in the resolver the value it had
  before, however many other changes arrive: a new instance stays unknown and a dead one stays in use until its key
  changes again.\<close>

theorem gap_change_lost:
  assumes "distinct (map fst kvs)" "map_of kvs = store (under path h1)" "concat batches = under path h2"
    and "HasPrefix k path" "gap = g1 @ e # g2" "ev_key e = k" "\<forall>e' \<in> set (g2 @ h2). ev_key e' \<noteq> k"
  shows "\<exists>r. resolver_run rnd path kvs batches = Some r \<and>
     map_of (rs_endpoints r) k = store h1 k \<and> store (h1 @ gap @ h2) k = ev_value e"
proof -
  obtain r where r: "resolver_run rnd path kvs batches = Some r"
    and m: "map_of (rs_endpoints r) = store (under path (h1 @ h2))"
    using resolver_run_endpoints [OF assms(1-3), of rnd] by blast
  have "store (h1 @ h2) k = store h1 k"
    using fold_events_other [of h2 k "store h1"] assms(7) by (simp add: store_append)
  then have "map_of (rs_endpoints r) k = store h1 k" using store_under [OF assms(4)] m by metis
  moreover have "store (h1 @ gap @ h2) k = ev_value e"
    using fold_events_other [of "g2 @ h2" k] assms(5-7) by (simp add: store_append record_change_def)
  ultimately show ?thesis using r by blast
qed

text \<open>The only instance goes away in the gap; the resolver keeps its address after the next change.\<close>

theorem gap_change_lost_witness:
  "\<exists>r. resolver_run (\<lambda>_ _. 5) auth_path [(auth_key 1, inst 1)] [[PUT (auth_key 2) (inst 2)]] = Some r \<and>
     map_of (rs_endpoints r) (auth_key 1) = Some (inst 1) \<and>
     store ([PUT (auth_key 1) (inst 1)] @ [DELETE (auth_key 1)] @ [PUT (auth_key 2) (inst 2)]) (auth_key 1) = None"
proof -
  have n: "auth_key 1 \<noteq> auth_key 2" by code_simp
  have u: "HasPrefix (auth_key n) auth_path" for n by (simp add: HasPrefix_def auth_key_def)
  have "\<exists>r. resolver_run (\<lambda>_ _. 5) auth_path [(auth_key 1, inst 1)] [[PUT (auth_key 2) (inst 2)]] = Some r \<and>
     map_of (rs_endpoints r) (auth_key 1) = store [PUT (auth_key 1) (inst 1)] (auth_key 1) \<and>
     store ([PUT (auth_key 1) (inst 1)] @ [DELETE (auth_key 1)] @ [PUT (auth_key 2) (inst 2)]) (auth_key 1) = ev_value (DELETE (auth_key 1))"
    by (rule gap_change_lost [where ?g1.0 = "[]" and ?g2.0 = "[]"])
      (use n in \<open>auto simp: under_def u store_def record_change_def fun_eq_iff\<close>)
  then show ?thesis by (auto simp: store_def record_change_def)
qed

text \<open>C30. A registered service is found, and so are services whose names begin with its name. A resolver for the target
  \<open>/grpclb/service\<close> that is built after \<open>RegisterService\<close> succeeded for a service gives out the address that was
  registered, whenever the service's name begins with the name in the target: the target has no closing slash, so
  the calls for a service may go to another one whose name is longer.\<close>

theorem service_found:
  assumes "etcd_lease cli kv" "RegisterService (Some cli) registered host port ttl s = (Inr reg, s')"
    and "HasPrefix registered service" "path = ''/'' @ ServicePrefix @ ''/'' @ service"
    and "get path = Inr kvs" "distinct (map fst kvs)"
    and "\<forall>k. map_of kvs k = (if HasPrefix k path then map_option fst (kv s' k) else None)"
  shows "\<exists>r. Build rnd (Some get) path = Inr r \<and> service_value host port \<in> set (last (rs_published r))"
proof -
  let ?key = "service_key registered host port"
  obtain k lease where "reEstablish cli ttl ?key (service_value host port) s = (Inr (k, lease), s')"
    using assms(2) by (auto simp: etcd_lease.register_is_reEstablish [OF assms(1)])
  from etcd_lease.reEstablish_ok [OF assms(1) this] have kv: "kv s' ?key = Some (service_value host port, lease)" by simp
  have "HasPrefix ?key path"
    using assms(3) by (auto simp: assms(4) service_key_def HasPrefix_def) (metis length_take min.cobounded1)
  then have "map_of kvs ?key = Some (service_value host port)" using assms(7) kv by simp
  moreover obtain r where b: "Build rnd (Some get) path = Inr r" using assms(5) by (simp add: Build_def)
  ultimately have "map_of (rs_endpoints r) ?key = Some (service_value host port)"
    using Build_ok(2) [OF b assms(5,6)] by simp
  then have "service_value host port \<in> set (buildAddresses (rs_endpoints r))"
    by (auto simp: buildAddresses_def dest: map_of_SomeD intro: rev_image_eqI)
  then show ?thesis using b Build_ok(1) [OF b] by (metis resolver_ok_def set_mset_mset)
qed

text \<open>The callers of \<open>personal-auth\<close> are sent to a service \<open>personal-auth-admin\<close>.\<close>

theorem service_found_witness:
  "\<exists>r. Build (\<lambda>_ _. 0) (Some (\<lambda>path. Inr [(service_key ''personal-auth-admin'' ''10.0.0.9'' 80, ''10.0.0.9:80'')]))
         ''/grpclb/personal-auth'' = Inr r \<and> ''10.0.0.9:80'' \<in> set (last (rs_published r))"
proof -
  let ?name = "''personal-auth-admin''" and ?path = "''/grpclb/personal-auth''"
  let ?key = "service_key ?name ''10.0.0.9'' 80"
  let ?s = "serving_world\<lparr>me_data := [(?key, service_value ''10.0.0.9'' 80, fresh_lease serving_world)]\<rparr>"
  have v: "service_value ''10.0.0.9'' 80 = ''10.0.0.9:80''" by code_simp
  have p: "?path = ''/'' @ ServicePrefix @ ''/'' @ ''personal-auth''" by code_simp
  have u: "HasPrefix ?key ?path" by code_simp
  obtain reg where r: "RegisterService (Some mem_etcd) ?name ''10.0.0.9'' 80 10 serving_world = (Inr reg, ?s)"
    unfolding memetcd.register_is_reEstablish by (simp add: mem_reEstablish serving_world_def)
  have "\<exists>r. Build (\<lambda>_ _. 0) (Some (\<lambda>path. Inr [(?key, ''10.0.0.9:80'')])) ?path = Inr r \<and>
     service_value ''10.0.0.9'' 80 \<in> set (last (rs_published r))"
    by (rule service_found [OF memetcd.etcd_lease_axioms r _ p refl])
      (use u v in \<open>auto simp: HasPrefix_def mem_kv_def\<close>)
  then show ?thesis by (simp only: v)
qed

end
