(* ===== verification/GrpcMiddleware.thy ===== *)
theory GrpcMiddleware
  imports Paths
begin

text \<open>
  The interceptors around every gRPC method (\<open>lib/grpc/middleware\<close>), chained as \<open>lib/grpc/server/grpc.go\<close> chains them:
  recovery outermost, then the access log, then those of the service. A handler returns a response and an error or
  panics. Deferred functions run when the function returns and when it panics; then the results are still nil.
\<close>

section \<open>Handlers and interceptors\<close>

text \<open>What a handler comes to: the results, nil as \<open>None\<close>, or a panic with the text of its value.\<close>

datatype 'r outcome = Returned "'r option" "status option" | Panicked string

type_synonym ('c, 'q, 'r, 's) handler = "'c \<Rightarrow> 'q \<Rightarrow> 's \<Rightarrow> 'r outcome \<times> 's"

definition UnaryServerRecoveryInterceptor :: "('c, 'q, 'r, 's) handler \<Rightarrow> ('c, 'q, 'r, 's) handler" where
  "UnaryServerRecoveryInterceptor handler ctx req s =
     (case handler ctx req s of
        (Returned resp err, s1) \<Rightarrow> (Returned resp err, s1)
      | (Panicked e, s1) \<Rightarrow> (Returned None (Some (Status Internal (''panic err: '' @ e))), s1))"

definition StreamServerRecoveryInterceptor :: "('c \<Rightarrow> 's \<Rightarrow> unit outcome \<times> 's) \<Rightarrow> 'c \<Rightarrow> 's \<Rightarrow> status option \<times> 's" where
  "StreamServerRecoveryInterceptor handler stream s =
     (case handler stream s of
        (Returned _ err, s1) \<Rightarrow> (err, s1)
      | (Panicked e, s1) \<Rightarrow> (Some (Status Internal (''panic err: '' @ e)), s1))"

section \<open>The access log (log.go)\<close>

text \<open>\<open>jsonFormat\<close>: the JSON text of a value, its \<open>String\<close> method when it has no JSON text, or nothing. The library's
  \<open>marshal\<close> and the method are parameters.\<close>

definition jsonFormat :: "('v \<Rightarrow> string option) \<Rightarrow> ('v \<Rightarrow> string option) \<Rightarrow> 'v option \<Rightarrow> string" where
  "jsonFormat marshal stringer d =
     (case d of
        None \<Rightarrow> ''null''
      | Some v \<Rightarrow>
          (case marshal v of
             Some buf \<Rightarrow> buf
           | None \<Rightarrow> (case stringer v of Some t \<Rightarrow> t | None \<Rightarrow> [])))"

datatype level = InfoLevel | ErrorLevel

record line =
  ln_level :: level
  ln_traceId :: string
  ln_addr :: string
  ln_cost :: int
  ln_service :: string
  ln_method :: string
  ln_req :: string
  ln_resp :: "string option"
  ln_error :: "status option"

text \<open>What the interceptor reads of a call: the peer's address, the trace id, the method's full name.\<close>

record 'c call_info =
  ci_peer :: "'c \<Rightarrow> string option"
  ci_traceId :: "'c \<Rightarrow> string"
  ci_FullMethod :: string

text \<open>The state is that of the handler with the clock's readings and the lines written so far.\<close>

record 's logged =
  lg_world :: 's
  lg_lines :: "line list"

definition access_line ::
  "'c call_info \<Rightarrow> 'c \<Rightarrow> int \<Rightarrow> string \<Rightarrow> string \<Rightarrow> status option \<Rightarrow> line" where
  "access_line info ctx cost req resp err =
     \<lparr>ln_level = (if err = None then InfoLevel else ErrorLevel), ln_traceId = ci_traceId info ctx,
      ln_addr = (case ci_peer info ctx of None \<Rightarrow> [] | Some a \<Rightarrow> a), ln_cost = cost,
      ln_service = drop 1 (Dir (ci_FullMethod info)), ln_method = Base (ci_FullMethod info), ln_req = req,
      ln_resp = (if err = None then Some resp else None), ln_error = err\<rparr>"

text \<open>\<open>now\<close> reads the clock of a world. The deferred function sees the results of a handler that returned; those of one
  that panicked are nil.\<close>

definition UnaryServerLogInterceptor ::
  "('s \<Rightarrow> int) \<Rightarrow> ('q option \<Rightarrow> string) \<Rightarrow> ('r option \<Rightarrow> string) \<Rightarrow> 'c call_info \<Rightarrow> ('c, 'q, 'r, 's) handler \<Rightarrow>
     ('c, 'q, 'r, 's logged) handler" where
  "UnaryServerLogInterceptor now fmt_req fmt_resp info handler ctx req s =
     (let start = now (lg_world s);
          (res, w) = handler ctx req (lg_world s);
          (resp, err) = (case res of Returned resp err \<Rightarrow> (resp, err) | Panicked e \<Rightarrow> (None, None))
      in (res, \<lparr>lg_world = w,
                lg_lines = lg_lines s @
                  [access_line info ctx (now w - start) (fmt_req (Some req)) (fmt_resp resp) err]\<rparr>))"

text \<open>The chain of \<open>Serve\<close>: recovery, access log, the interceptors of the service in their order.\<close>

type_synonym ('c, 'q, 'r, 's) interceptor = "('c, 'q, 'r, 's) handler \<Rightarrow> ('c, 'q, 'r, 's) handler"

fun chain :: "('c, 'q, 'r, 's) interceptor list \<Rightarrow> ('c, 'q, 'r, 's) handler \<Rightarrow> ('c, 'q, 'r, 's) handler" where
  "chain [] handler = handler"
| "chain (i # is) handler = i (chain is handler)"

definition grpc_chain ::
  "('s \<Rightarrow> int) \<Rightarrow> ('q option \<Rightarrow> string) \<Rightarrow> ('r option \<Rightarrow> string) \<Rightarrow> 'c call_info \<Rightarrow> ('c, 'q, 'r, 's) interceptor list \<Rightarrow>
     ('c, 'q, 'r, 's) handler \<Rightarrow> ('c, 'q, 'r, 's logged) handler" where
  "grpc_chain now fmt_req fmt_resp info unaryInterceptors handler =
     UnaryServerRecoveryInterceptor
       (UnaryServerLogInterceptor now fmt_req fmt_resp info (chain unaryInterceptors handler))"

section \<open>Names and statuses for traces (utils.go)\<close>

definition parseFullMethod :: "string \<Rightarrow> string \<times> (string \<times> string) list" where
  "parseFullMethod fullMethod =
     (if \<not> HasPrefix fullMethod [slash] then (fullMethod, [])
      else let name = drop 1 fullMethod in
        if slash \<notin> set name then (name, [])
        else let service = rev (drop 1 (dropWhile (\<lambda>c. c \<noteq> slash) (rev name)));
                 method = rev (takeWhile (\<lambda>c. c \<noteq> slash) (rev name))
             in (name, (if service \<noteq> [] then [(''rpc.service'', service)] else []) @
                       (if method \<noteq> [] then [(''rpc.method'', method)] else [])))"

definition serverStatus :: "status \<Rightarrow> string option" where
  "serverStatus st =
     (if status_code st \<in> {Unknown, DeadlineExceeded, Unimplemented, Internal, Unavailable, DataLoss}
      then Some (status_message st) else None)"

text \<open>\<open>metadataSupplier\<close> over gRPC metadata, whose keys are lower case and have lists of values.\<close>

definition metadata_Get :: "(string \<Rightarrow> string list) \<Rightarrow> string \<Rightarrow> string" where
  "metadata_Get md key = (case md key of [] \<Rightarrow> [] | v # vs \<Rightarrow> v)"

section \<open>Properties\<close>

lemma parse_method_name:
  assumes "plain_seg service" "plain_seg method"
  shows "parseFullMethod (abs_path [service, method]) =
     (service @ slash # method, [(''rpc.service'', service), (''rpc.method'', method)])"
proof -
  have m: "takeWhile (\<lambda>c. c \<noteq> slash) (rev method @ slash # q) = rev method"
    and d: "dropWhile (\<lambda>c. c \<noteq> slash) (rev method @ slash # q) = slash # q" for q
    using assms(2) by (subst takeWhile_append2 dropWhile_append2; auto simp: plain_seg_def)+
  have "parseFullMethod (slash # service @ slash # method) =
     (service @ slash # method, [(''rpc.service'', service), (''rpc.method'', method)])"
    using assms by (simp add: parseFullMethod_def HasPrefix_def Let_def m d plain_seg_def)
  then show ?thesis by (simp add: abs_path_def)
qed

text \<open>C31. The interceptors of a gRPC server are transparent and keep one log line for each call. A call that the handler
  behind them answers has exactly that answer, and its line carries the request, the service and method of its name as
  the trace names them, and the level \<open>Error\<close> exactly when the answer is an error. A handler that panics is answered
  \<open>Internal\<close>, but its line is written before the recovery: it has the level \<open>Info\<close>, no error and the text of a nil
  response, like a call that succeeded.\<close>

theorem grpc_chain_answers:
  assumes "plain_seg service" "plain_seg method" "ci_FullMethod info = abs_path [service, method]"
    and "chain is handler ctx req (lg_world s) = (out, w)"
  shows "\<exists>l. grpc_chain now fmt_req fmt_resp info is handler ctx req s =
       (case out of
          Returned resp err \<Rightarrow> Returned resp err
        | Panicked e \<Rightarrow> Returned None (Some (Status Internal (''panic err: '' @ e))),
        \<lparr>lg_world = w, lg_lines = lg_lines s @ [l]\<rparr>) \<and>
     ln_req l = fmt_req (Some req) \<and>
     snd (parseFullMethod (ci_FullMethod info)) = [(''rpc.service'', ln_service l), (''rpc.method'', ln_method l)] \<and>
     (case out of
        Returned resp err \<Rightarrow> ln_error l = err \<and> (ln_level l = ErrorLevel \<longleftrightarrow> err \<noteq> None) \<and>
          (err = None \<longrightarrow> ln_resp l = Some (fmt_resp resp))
      | Panicked e \<Rightarrow> ln_level l = InfoLevel \<and> ln_error l = None \<and> ln_resp l = Some (fmt_resp None))"
proof -
  have "Dir (abs_path ([service] @ [method])) = abs_path [service]" "Base (abs_path ([service] @ [method])) = method"
    using assms(1,2) by (intro Dir_abs_path Base_abs_path; simp)+
  then have n: "drop 1 (Dir (ci_FullMethod info)) = service" "Base (ci_FullMethod info) = method"
    using assms(3) by (simp_all add: abs_path_def)
  show ?thesis
    using assms(4) parse_method_name [OF assms(1,2)] n assms(3)
    by (auto simp: grpc_chain_def UnaryServerRecoveryInterceptor_def UnaryServerLogInterceptor_def access_line_def split: outcome.split)
qed

text \<open>A method that panics.\<close>

definition demo_info :: "unit call_info" where
  "demo_info = \<lparr>ci_peer = (\<lambda>_. Some ''10.0.0.3:5131''), ci_traceId = (\<lambda>_. ''00''), ci_FullMethod = ''/auth.Auth/DeleteAccount''\<rparr>"

definition demo_panic :: "(unit, string, string, int) handler" where
  "demo_panic ctx req clock = (Panicked ''nil map'', clock + 3)"

lemma demo_method: "ci_FullMethod demo_info = abs_path [''auth.Auth'', ''DeleteAccount'']" "plain_seg ''auth.Auth''" "plain_seg ''DeleteAccount''"
  by code_simp+

theorem grpc_chain_answers_witness:
  "\<exists>l. grpc_chain id (jsonFormat Some (\<lambda>_. None)) (jsonFormat Some (\<lambda>_. None)) demo_info [] demo_panic () ''{}'' \<lparr>lg_world = 10, lg_lines = []\<rparr> =
     (Returned None (Some (Status Internal ''panic err: nil map'')), \<lparr>lg_world = 13, lg_lines = [l]\<rparr>) \<and>
     ln_level l = InfoLevel \<and> ln_resp l = Some ''null''"
proof -
  have "chain [] demo_panic () ''{}'' (lg_world \<lparr>lg_world = 10, lg_lines = []\<rparr>) = (Panicked ''nil map'', 13)"
    by (simp add: demo_panic_def)
  from grpc_chain_answers [OF demo_method(2,3,1) this, of id "jsonFormat Some (\<lambda>_. None)" "jsonFormat Some (\<lambda>_. None)"]
  show ?thesis by (auto simp: jsonFormat_def)
qed

end
