(* ===== verification/LogText.thy ===== *)
theory LogText
  imports Prelude "HOL-Library.Char_ord"
begin

text \<open>
  The text encoder of the log (\<open>lib/zlog/zap_text_encoder.go\<close>): a line is a sequence of bracketed parts, and every
  string goes through one escaping routine. What the marshalers of zap call on the encoder is data: a field is the list
  of encoder calls that its \<open>AddTo\<close> makes. The texts of floats, durations and times come from the standard library and
  are arguments.
\<close>

section \<open>UTF-8\<close>

abbreviation code :: "char \<Rightarrow> nat" where
  "code c \<equiv> of_char c"

text \<open>\<open>utf8.DecodeRune\<close> at a byte that is no ASCII character: the length of the encoding, or \<open>None\<close> for
  \<open>(RuneError, 1)\<close>. The second byte's range depends on the first.\<close>

definition second_range :: "nat \<Rightarrow> (nat \<times> nat \<times> nat) option" where
  "second_range x =
     (if 0xC2 \<le> x \<and> x \<le> 0xDF then Some (2, 0x80, 0xBF)
      else if x = 0xE0 then Some (3, 0xA0, 0xBF)
      else if x = 0xED then Some (3, 0x80, 0x9F)
      else if 0xE1 \<le> x \<and> x \<le> 0xEF then Some (3, 0x80, 0xBF)
      else if x = 0xF0 then Some (4, 0x90, 0xBF)
      else if 0xF1 \<le> x \<and> x \<le> 0xF3 then Some (4, 0x80, 0xBF)
      else if x = 0xF4 then Some (4, 0x80, 0x8F)
      else None)"

definition continuation :: "char \<Rightarrow> bool" where
  "continuation c = (0x80 \<le> code c \<and> code c \<le> 0xBF)"

definition rune_size :: "string \<Rightarrow> nat option" where
  "rune_size s =
     (case s of
        [] \<Rightarrow> None
      | c # r \<Rightarrow>
          (case second_range (code c) of
             None \<Rightarrow> None
           | Some (n, lo, hi) \<Rightarrow>
               (if length s \<ge> n \<and> lo \<le> code (hd r) \<and> code (hd r) \<le> hi \<and> list_all continuation (take (n - 1) r)
                then Some n else None)))"

lemma second_range_bounds: "second_range x = Some (n, lo, hi) \<Longrightarrow> 2 \<le> n \<and> n \<le> 4 \<and> 0x80 \<le> x"
  by (auto simp: second_range_def split: if_splits)

lemma rune_size_Some:
  assumes "rune_size (c # s) = Some n"
  shows "2 \<le> n" "n - 1 \<le> length s" "\<forall>x \<in> set (take (n - 1) s). 0x80 \<le> code x" "0x80 \<le> code c"
  using assms by (auto simp: rune_size_def continuation_def list_all_iff split: option.splits if_splits dest!: second_range_bounds)

section \<open>Escaping\<close>

definition backslash :: char where "backslash = CHR 0x5C"

definition hex_char :: "nat \<Rightarrow> char" where
  "hex_char d = ''0123456789abcdef'' ! d"

text \<open>\<open>tryAddRuneSelf\<close>: what is appended for a one-byte character; \<open>None\<close> when it returns false.\<close>

definition tryAddRuneSelf :: "char \<Rightarrow> string option" where
  "tryAddRuneSelf b =
     (if code b \<ge> 0x80 then None
      else if 0x20 \<le> code b \<and> b \<noteq> backslash \<and> b \<noteq> CHR 0x22 then Some [b]
      else if b = backslash \<or> b = CHR 0x22 then Some [backslash, b]
      else if code b = 10 then Some [backslash, CHR ''n'']
      else if code b = 13 then Some [backslash, CHR ''r'']
      else if code b = 9 then Some [backslash, CHR ''t'']
      else Some ([backslash] @ ''u00'' @ [hex_char (code b div 16), hex_char (code b mod 16)]))"

text \<open>\<open>safeAddString\<close> and \<open>safeAddByteString\<close>: the text they append.\<close>

function safe_text :: "string \<Rightarrow> string" where
  "safe_text [] = []"
| "safe_text (c # s) =
     (case tryAddRuneSelf c of
        Some t \<Rightarrow> t @ safe_text s
      | None \<Rightarrow>
          (case rune_size (c # s) of
             None \<Rightarrow> [backslash] @ ''ufffd'' @ safe_text s
           | Some n \<Rightarrow> c # take (n - 1) s @ safe_text (drop (n - 1) s)))"
  by pat_completeness auto
termination by (relation "measure length") auto

definition needDoubleQuotes :: "string \<Rightarrow> bool" where
  "needDoubleQuotes s =
     list_ex (\<lambda>b. code b \<le> 0x20 \<or> b = backslash \<or> b = CHR 0x22 \<or> b = CHR ''['' \<or> b = CHR '']'' \<or> b = CHR ''='') s"

text \<open>\<open>safeAddStringWithQuote\<close>.\<close>

definition quoted_text :: "string \<Rightarrow> string" where
  "quoted_text s = (if \<not> needDoubleQuotes s then safe_text s else [CHR 0x22] @ safe_text s @ [CHR 0x22])"

text \<open>\<open>base64.StdEncoding\<close>.\<close>

definition b64_char :: "nat \<Rightarrow> char" where
  "b64_char d = ''ABCDEFGHIJKLMNOPQRSTUVWXYZabcdefghijklmnopqrstuvwxyz0123456789+/'' ! d"

fun base64 :: "string \<Rightarrow> string" where
  "base64 [] = []"
| "base64 [a] = [b64_char (code a div 4), b64_char (code a mod 4 * 16), CHR ''='', CHR ''='']"
| "base64 [a, b] =
     [b64_char (code a div 4), b64_char (code a mod 4 * 16 + code b div 16), b64_char (code b mod 16 * 4), CHR ''='']"
| "base64 (a # b # c # s) =
     [b64_char (code a div 4), b64_char (code a mod 4 * 16 + code b div 16), b64_char (code b mod 16 * 4 + code c div 64),
      b64_char (code c mod 64)] @ base64 s"

section \<open>The encoder\<close>

record EncoderConfig =
  TimeKey :: string
  LevelKey :: string
  NameKey :: string
  CallerKey :: string
  StacktraceKey :: string
  LineEnding :: string

record textEncoder =
  te_cfg :: EncoderConfig
  te_buf :: string
  te_openNamespaces :: nat
  te_disableErrorVerbose :: bool

text \<open>The encoder calls of marshalers. A float is one of the special values or its text; durations and times carry their
  texts and their numbers of nanoseconds; the reflected value is what \<open>encoding/json\<close> makes of it.\<close>

datatype zfloat = FNaN | FPosInf | FNegInf | FText string

datatype elem =
    EBool bool | EInt64 int | EUint64 int | EFloat64 zfloat | EComplex128 string string | EString string | EByteString string
  | EDuration string int | ETime string int | EReflected "goerr + string" | EArray "elem list" | EObject "call list"
and call =
    Add string elem | AddBinary string string | OpenNamespace string

definition append_buf :: "textEncoder \<Rightarrow> string \<Rightarrow> textEncoder" where
  "append_buf enc t = enc\<lparr>te_buf := te_buf enc @ t\<rparr>"

definition addElementSeparator :: "textEncoder \<Rightarrow> textEncoder" where
  "addElementSeparator enc =
     (if te_buf enc = [] \<or> last (te_buf enc) \<in> set ''{[:, ='' then enc else append_buf enc '','')"

definition addKey :: "textEncoder \<Rightarrow> string \<Rightarrow> textEncoder" where
  "addKey enc key = append_buf (append_buf (addElementSeparator enc) (quoted_text key)) ''=''"

definition AppendString :: "textEncoder \<Rightarrow> string \<Rightarrow> textEncoder" where
  "AppendString enc val = append_buf (addElementSeparator enc) (quoted_text val)"

definition AppendByteString :: "textEncoder \<Rightarrow> string \<Rightarrow> textEncoder" where
  "AppendByteString enc val = append_buf (addElementSeparator enc) (quoted_text val)"

definition AppendInt64 :: "textEncoder \<Rightarrow> int \<Rightarrow> textEncoder" where
  "AppendInt64 enc val = append_buf (addElementSeparator enc) (itoa val)"

definition AppendBool :: "textEncoder \<Rightarrow> bool \<Rightarrow> textEncoder" where
  "AppendBool enc val = append_buf (addElementSeparator enc) (if val then ''true'' else ''false'')"

definition appendFloat :: "textEncoder \<Rightarrow> zfloat \<Rightarrow> textEncoder" where
  "appendFloat enc val =
     append_buf (addElementSeparator enc)
       (case val of FNaN \<Rightarrow> ''NaN'' | FPosInf \<Rightarrow> ''+Inf'' | FNegInf \<Rightarrow> ''-Inf'' | FText t \<Rightarrow> t)"

definition AppendComplex128 :: "textEncoder \<Rightarrow> string \<Rightarrow> string \<Rightarrow> textEncoder" where
  "AppendComplex128 enc re im = append_buf (addElementSeparator enc) (re @ ''+'' @ im @ ''i'')"

text \<open>\<open>StringDurationEncoder\<close> appends the text as a string; the time encoder of the package writes its bytes straight into
  the buffer. Both fall back to the number when nothing was written.\<close>

definition AppendDuration :: "textEncoder \<Rightarrow> string \<Rightarrow> int \<Rightarrow> textEncoder" where
  "AppendDuration enc text1 nanos =
     (let e = AppendString enc text1 in if length (te_buf enc) = length (te_buf e) then AppendInt64 e nanos else e)"

definition AppendTime :: "textEncoder \<Rightarrow> string \<Rightarrow> int \<Rightarrow> textEncoder" where
  "AppendTime enc text1 nanos =
     (let e = append_buf enc text1 in if length (te_buf enc) = length (te_buf e) then AppendInt64 e nanos else e)"

definition cloned :: "textEncoder \<Rightarrow> textEncoder" where
  "cloned enc = enc\<lparr>te_buf := []\<rparr>"

definition Clone :: "textEncoder \<Rightarrow> textEncoder" where
  "Clone enc = append_buf (cloned enc) (te_buf enc)"

text \<open>Arrays and objects are written by a clone with its own buffer, whose text is then appended as a string; what the
  clone did to its count of open namespaces is lost.\<close>

fun AppendElem :: "textEncoder \<Rightarrow> elem \<Rightarrow> textEncoder" and AddCall :: "textEncoder \<Rightarrow> call \<Rightarrow> textEncoder"
  and AppendElems :: "textEncoder \<Rightarrow> elem list \<Rightarrow> textEncoder" and AddCalls :: "textEncoder \<Rightarrow> call list \<Rightarrow> textEncoder" where
  "AppendElem enc (EBool b) = AppendBool enc b"
| "AppendElem enc (EInt64 i) = AppendInt64 enc i"
| "AppendElem enc (EUint64 i) = AppendInt64 enc i"
| "AppendElem enc (EFloat64 f) = appendFloat enc f"
| "AppendElem enc (EComplex128 re im) = AppendComplex128 enc re im"
| "AppendElem enc (EString s) = AppendString enc s"
| "AppendElem enc (EByteString s) = AppendByteString enc s"
| "AppendElem enc (EDuration t n) = AppendDuration enc t n"
| "AppendElem enc (ETime t n) = AppendTime enc t n"
| "AppendElem enc (EReflected r) = (case r of Inl e \<Rightarrow> enc | Inr t \<Rightarrow> AppendByteString enc t)"
| "AppendElem enc (EArray es) =
     (let e1 = addElementSeparator enc; ne = append_buf (AppendElems (append_buf (cloned e1) ''['') es) '']'' in
      AppendByteString e1 (te_buf ne))"
| "AppendElem enc (EObject cs) =
     (let e1 = addElementSeparator enc; ne = append_buf (AddCalls (append_buf (cloned e1) ''{'') cs) ''}'' in
      AppendByteString e1 (te_buf ne))"
| "AddCall enc (Add key v) =
     (case v of EReflected (Inl e) \<Rightarrow> enc | _ \<Rightarrow> AppendElem (addKey enc key) v)"
| "AddCall enc (AddBinary key val) = AppendString (addKey enc key) (base64 val)"
| "AddCall enc (OpenNamespace key) =
     (let e = append_buf (addKey enc key) ''{'' in e\<lparr>te_openNamespaces := te_openNamespaces e + 1\<rparr>)"
| "AppendElems enc [] = enc"
| "AppendElems enc (e # es) = AppendElems (AppendElem enc e) es"
| "AddCalls enc [] = enc"
| "AddCalls enc (c # cs) = AddCalls (AddCall enc c) cs"

section \<open>Entries\<close>

definition beginQuoteFiled :: "textEncoder \<Rightarrow> textEncoder" where
  "beginQuoteFiled enc = append_buf (if te_buf enc \<noteq> [] then append_buf enc '' '' else enc) ''[''"

definition endQuoteFiled :: "textEncoder \<Rightarrow> textEncoder" where
  "endQuoteFiled enc = append_buf enc '']''"

text \<open>A field of error type has the error's text and, when it is a formatter, its verbose text.\<close>

datatype field = ErrorField string string "string option" | OtherField "call list"

definition AddString :: "textEncoder \<Rightarrow> string \<Rightarrow> string \<Rightarrow> textEncoder" where
  "AddString enc key val = AppendString (addKey enc key) val"

definition encodeError :: "textEncoder \<Rightarrow> string \<Rightarrow> string \<Rightarrow> string option \<Rightarrow> textEncoder" where
  "encodeError enc key basic verbose =
     (let e1 = endQuoteFiled (AddString (beginQuoteFiled enc) key basic) in
      if te_disableErrorVerbose enc then e1
      else case verbose of
        None \<Rightarrow> e1
      | Some v \<Rightarrow> (if v \<noteq> basic then endQuoteFiled (AddString (beginQuoteFiled e1) (key @ ''Verbose'') v) else e1))"

fun addFields :: "textEncoder \<Rightarrow> field list \<Rightarrow> textEncoder" where
  "addFields enc [] = enc"
| "addFields enc (ErrorField key basic verbose # fs) = addFields (encodeError enc key basic verbose) fs"
| "addFields enc (OtherField cs # fs) = addFields (endQuoteFiled (AddCalls (beginQuoteFiled enc) cs)) fs"

record EntryCaller =
  ca_Defined :: bool
  ca_File :: string
  ca_Line :: int

definition getCallerString :: "EntryCaller \<Rightarrow> string" where
  "getCallerString ec =
     (if \<not> ca_Defined ec then ''<unknown>''
      else filter (\<lambda>b. CHR ''A'' \<le> b \<and> b \<le> CHR ''Z'' \<or> CHR ''a'' \<le> b \<and> b \<le> CHR ''z'' \<or> CHR ''0'' \<le> b \<and> b \<le> CHR ''9'' \<or>
             b = CHR ''.'' \<or> b = CHR ''-'' \<or> b = CHR ''_'')
             (rev (takeWhile (\<lambda>c. c \<noteq> CHR ''/'') (rev (ca_File ec)))) @ '':'' @ itoa (ca_Line ec))"

record Entry =
  en_Time :: string
  en_TimeNanos :: int
  en_Level :: string
  en_LevelName :: string
  en_LoggerName :: string
  en_Caller :: EntryCaller
  en_Message :: string
  en_Stack :: string

text \<open>\<open>zapcore.EntryCaller.String\<close>, the fallback for an encoder that wrote nothing.\<close>

definition caller_String :: "EntryCaller \<Rightarrow> string" where
  "caller_String ec = (if \<not> ca_Defined ec then ''undefined'' else ca_File ec @ '':'' @ itoa (ca_Line ec))"

definition or_else :: "(textEncoder \<Rightarrow> textEncoder) \<Rightarrow> string \<Rightarrow> textEncoder \<Rightarrow> textEncoder" where
  "or_else f fallback enc =
     (let e = f enc in if length (te_buf enc) = length (te_buf e) then AppendString e fallback else e)"

definition bracketed :: "(textEncoder \<Rightarrow> textEncoder) \<Rightarrow> textEncoder \<Rightarrow> textEncoder" where
  "bracketed f enc = endQuoteFiled (f (beginQuoteFiled enc))"

definition closeOpenNamespaces :: "textEncoder \<Rightarrow> textEncoder" where
  "closeOpenNamespaces enc = append_buf enc (replicate (te_openNamespaces enc) (CHR ''}''))"

text \<open>The parts in front of the fields.\<close>

definition encode_head :: "textEncoder \<Rightarrow> Entry \<Rightarrow> textEncoder" where
  "encode_head enc ent =
     (let cfg = te_cfg enc; f0 = cloned enc;
          f1 = (if TimeKey cfg \<noteq> [] then bracketed (\<lambda>e. AppendTime e (en_Time ent) (en_TimeNanos ent)) f0 else f0);
          f2 = (if LevelKey cfg \<noteq> [] then bracketed (or_else (\<lambda>e. AppendString e (en_Level ent)) (en_LevelName ent)) f1 else f1);
          f3 = (if en_LoggerName ent \<noteq> [] \<and> NameKey cfg \<noteq> []
                then bracketed (or_else (\<lambda>e. AppendString e (en_LoggerName ent)) (en_LoggerName ent)) f2 else f2);
          f4 = (if ca_Defined (en_Caller ent) \<and> CallerKey cfg \<noteq> []
                then bracketed (or_else (\<lambda>e. AppendString e (getCallerString (en_Caller ent))) (caller_String (en_Caller ent))) f3 else f3);
          f5 = (if en_Message ent \<noteq> [] then bracketed (\<lambda>e. AppendString e (en_Message ent)) f4 else f4)
      in if te_buf enc \<noteq> [] then append_buf f5 ('' '' @ te_buf enc) else f5)"

definition line_end :: "EncoderConfig \<Rightarrow> string" where
  "line_end cfg = (if LineEnding cfg \<noteq> [] then LineEnding cfg else [char_of (10 :: nat)])"

definition EncodeEntry :: "textEncoder \<Rightarrow> Entry \<Rightarrow> field list \<Rightarrow> string" where
  "EncodeEntry enc ent fs =
     (let f = closeOpenNamespaces (addFields (encode_head enc ent) fs);
          g = (if en_Stack ent \<noteq> [] \<and> StacktraceKey (te_cfg enc) \<noteq> []
               then bracketed (\<lambda>e. AddString e (StacktraceKey (te_cfg enc)) (en_Stack ent)) f else f)
      in te_buf g @ line_end (te_cfg enc))"

text \<open>\<open>NewTextEncoder\<close> for the format \<open>text\<close>, and \<open>With\<close> of \<open>zap_text_core.go\<close> on the encoder of a core.\<close>

definition NewTextEncoder :: "bool \<Rightarrow> bool \<Rightarrow> textEncoder" where
  "NewTextEncoder disableTimestamp disableErrorVerbose =
     \<lparr>te_cfg = \<lparr>TimeKey = (if disableTimestamp then [] else ''time''), LevelKey = ''level'', NameKey = ''name'', CallerKey = ''caller'',
        StacktraceKey = ''stack'', LineEnding = [char_of (10 :: nat)]\<rparr>,
      te_buf = [], te_openNamespaces = 0, te_disableErrorVerbose = disableErrorVerbose\<rparr>"

definition With :: "textEncoder \<Rightarrow> field list \<Rightarrow> textEncoder" where
  "With enc fs = addFields (Clone enc) fs"

section \<open>No bytes below a blank\<close>

text \<open>\<open>clean\<close>: no byte below \<open>0x20\<close>, which are the C0 control characters, line feed and carriage return among them. DEL
  (\<open>0x7F\<close>) and the C1 controls, which UTF-8 writes with bytes from \<open>0x80\<close> on, are not excluded: the encoder passes them on
  as they are.\<close>

definition clean :: "string \<Rightarrow> bool" where
  "clean s = list_all (\<lambda>c. 0x20 \<le> code c) s"

lemma clean_simps [simp]: "clean []" "clean (s @ t) \<longleftrightarrow> clean s \<and> clean t" "clean (c # s) \<longleftrightarrow> 0x20 \<le> code c \<and> clean s"
  "clean (replicate n c) \<longleftrightarrow> n = 0 \<or> 0x20 \<le> code c"
  by (auto simp: clean_def list_all_iff)

lemma clean_iff: "clean s \<longleftrightarrow> (\<forall>c \<in> set s. 0x20 \<le> code c)"
  by (simp add: clean_def list_all_iff)

lemma hex_char_clean: "d < 16 \<Longrightarrow> 0x20 \<le> code (hex_char d)"
proof -
  have "\<forall>d \<in> set [0..<16]. 0x20 \<le> code (hex_char d)" by code_simp
  then show "d < 16 \<Longrightarrow> 0x20 \<le> code (hex_char d)" by simp
qed

lemma tryAddRuneSelf_clean: "tryAddRuneSelf b = Some t \<Longrightarrow> clean t"
proof -
  assume t: "tryAddRuneSelf b = Some t"
  then have "code b div 16 < 16" by (simp add: tryAddRuneSelf_def split: if_splits)
  then show "clean t" using t hex_char_clean by (auto simp: tryAddRuneSelf_def backslash_def split: if_splits)
qed

lemma safe_text_clean: "clean (safe_text s)"
proof (induction s rule: safe_text.induct)
  case (2 c s)
  show ?case
  proof (cases "tryAddRuneSelf c")
    case (Some t)
    then show ?thesis using 2 tryAddRuneSelf_clean [OF Some] by simp
  next
    case None
    show ?thesis
    proof (cases "rune_size (c # s)")
      case (Some n)
      note r = rune_size_Some [OF Some]
      have "clean (take (n - 1) s)" using r(3) by (auto simp: clean_iff)
      then show ?thesis using 2 None Some r(4) by simp
    qed (use 2 None in \<open>simp add: backslash_def\<close>)
  qed
qed simp

lemma quoted_text_clean [simp]: "clean (quoted_text s)"
  by (simp add: quoted_text_def safe_text_clean)

lemma nat_str_clean: "clean (nat_str n)"
proof (induction n rule: nat_str.induct)
  case (1 n)
  have d: "0x20 \<le> code (digit k)" if "k < 10" for k using that by (simp add: digit_def)
  show ?case using 1 d by (subst nat_str.simps) simp
qed

lemma itoa_clean [simp]: "clean (itoa i)"
  by (simp add: itoa_def nat_str_clean)

text \<open>The texts of the standard library in a value are clean.\<close>

fun elem_ok :: "elem \<Rightarrow> bool" where
  "elem_ok (EFloat64 (FText t)) = clean t"
| "elem_ok (EComplex128 re im) = (clean re \<and> clean im)"
| "elem_ok (ETime t n) = clean t"
| "elem_ok _ = True"

fun call_ok :: "call \<Rightarrow> bool" where
  "call_ok (Add k e) = elem_ok e"
| "call_ok _ = True"

fun field_ok :: "field \<Rightarrow> bool" where
  "field_ok (ErrorField k b v) = True"
| "field_ok (OtherField cs) = list_all call_ok cs"

lemma append_buf_simps [simp]:
  "te_buf (append_buf e t) = te_buf e @ t" "te_cfg (append_buf e t) = te_cfg e"
  "te_openNamespaces (append_buf e t) = te_openNamespaces e" "te_disableErrorVerbose (append_buf e t) = te_disableErrorVerbose e"
  by (simp_all add: append_buf_def)

lemma clean_separator [simp]: "clean (te_buf (addElementSeparator e)) \<longleftrightarrow> clean (te_buf e)"
  by (simp add: addElementSeparator_def)

lemma clean_key [simp]: "clean (te_buf (addKey e k)) \<longleftrightarrow> clean (te_buf e)"
  by (simp add: addKey_def)

lemma clean_appends [simp]:
  "clean (te_buf (AppendString e s)) \<longleftrightarrow> clean (te_buf e)" "clean (te_buf (AppendByteString e s)) \<longleftrightarrow> clean (te_buf e)"
  "clean (te_buf (AppendInt64 e i)) \<longleftrightarrow> clean (te_buf e)" "clean (te_buf (AppendBool e b)) \<longleftrightarrow> clean (te_buf e)"
  "clean (te_buf (AppendDuration e t n)) \<longleftrightarrow> clean (te_buf e)" "clean (te_buf (AddString e k s)) \<longleftrightarrow> clean (te_buf e)"
  "clean (te_buf (beginQuoteFiled e)) \<longleftrightarrow> clean (te_buf e)" "clean (te_buf (endQuoteFiled e)) \<longleftrightarrow> clean (te_buf e)"
  "clean (te_buf (closeOpenNamespaces e)) \<longleftrightarrow> clean (te_buf e)"
  by (auto simp: AppendString_def AppendByteString_def AppendInt64_def AppendBool_def AppendDuration_def AddString_def
      beginQuoteFiled_def endQuoteFiled_def closeOpenNamespaces_def Let_def)

lemma clean_time: "clean t \<Longrightarrow> clean (te_buf (AppendTime e t n)) \<longleftrightarrow> clean (te_buf e)"
  by (simp add: AppendTime_def Let_def)

text \<open>Arrays and objects pass through \<open>AppendByteString\<close>, so nothing is asked of what they hold.\<close>

lemma clean_elem: "elem_ok v \<Longrightarrow> clean (te_buf e) \<Longrightarrow> clean (te_buf (AppendElem e v))"
  by (cases v rule: elem_ok.cases)
     (auto simp: appendFloat_def AppendComplex128_def clean_time Let_def split: sum.split)

lemma clean_call: "call_ok c \<Longrightarrow> clean (te_buf e) \<Longrightarrow> clean (te_buf (AddCall e c))"
proof (cases c)
  case (Add k v)
  assume "call_ok c" "clean (te_buf e)"
  then show ?thesis using clean_elem [of v "addKey e k"] by (cases v) (auto simp: Add split: sum.splits)
qed (auto simp: Let_def)

lemma clean_calls: "list_all call_ok cs \<Longrightarrow> clean (te_buf e) \<Longrightarrow> clean (te_buf (AddCalls e cs))"
  by (induction cs arbitrary: e) (auto intro: clean_call)

lemma clean_fields: "list_all field_ok fs \<Longrightarrow> clean (te_buf e) \<Longrightarrow> clean (te_buf (addFields e fs))"
proof (induction e fs rule: addFields.induct)
  case (2 enc key basic verbose fs)
  have "clean (te_buf (encodeError enc key basic verbose))" using 2 by (auto simp: encodeError_def Let_def split: option.split)
  then show ?case using 2 by simp
next
  case (3 enc cs fs)
  then show ?case using clean_calls [of cs "beginQuoteFiled enc"] by simp
qed simp

lemma clean_bracketed: "clean (te_buf (f (beginQuoteFiled e))) \<Longrightarrow> clean (te_buf (bracketed f e))"
  by (simp add: bracketed_def)

lemma clean_or_else: "clean (te_buf (f e)) \<Longrightarrow> clean (te_buf (or_else f s e))"
  by (simp add: or_else_def Let_def)

lemma clean_head:
  assumes "clean (te_buf enc)" "clean (en_Time ent)" shows "clean (te_buf (encode_head enc ent))"
  using assms by (auto simp: encode_head_def cloned_def clean_time Let_def intro!: clean_bracketed clean_or_else)

section \<open>Reading a line back\<close>

text \<open>Text that decodes as UTF-8.\<close>

function valid_utf8 :: "string \<Rightarrow> bool" where
  "valid_utf8 [] = True"
| "valid_utf8 (c # s) =
     (if code c < 0x80 then valid_utf8 s
      else case rune_size (c # s) of None \<Rightarrow> False | Some n \<Rightarrow> valid_utf8 (drop (n - 1) s))"
  by pat_completeness auto
termination by (relation "measure length") auto

definition hex_val :: "char \<Rightarrow> nat" where
  "hex_val c = (if code c < 58 then code c - 48 else code c - 87)"

text \<open>A reader of quoted text, after the opening quote: the text and what follows the closing quote.\<close>

fun read_quoted :: "string \<Rightarrow> (string \<times> string) option" where
  "read_quoted [] = None"
| "read_quoted (c # s) =
     (if c = CHR 0x22 then Some ([], s)
      else if c = backslash then
        (case s of
           [] \<Rightarrow> None
         | e # s1 \<Rightarrow>
             (if e = CHR ''u'' then
                (case s1 of
                   z1 # z2 # h # l # s2 \<Rightarrow> map_option (\<lambda>(t, r). (char_of (16 * hex_val h + hex_val l) # t, r)) (read_quoted s2)
                 | _ \<Rightarrow> None)
              else map_option (\<lambda>(t, r).
                ((if e = CHR ''n'' then char_of (10 :: nat) else if e = CHR ''r'' then char_of (13 :: nat)
                  else if e = CHR ''t'' then char_of (9 :: nat) else e) # t, r)) (read_quoted s1)))
      else map_option (\<lambda>(t, r). (c # t, r)) (read_quoted s))"

definition read_token :: "string \<Rightarrow> (string \<times> string) option" where
  "read_token s =
     (if s \<noteq> [] \<and> hd s = CHR 0x22 then read_quoted (tl s)
      else Some (takeWhile (\<lambda>c. c \<noteq> CHR ''='' \<and> c \<noteq> CHR '']'') s, dropWhile (\<lambda>c. c \<noteq> CHR ''='' \<and> c \<noteq> CHR '']'') s))"

text \<open>\<open>[key=value]\<close>.\<close>

definition read_field :: "string \<Rightarrow> ((string \<times> string) \<times> string) option" where
  "read_field s =
     (case s of
        b # s1 \<Rightarrow>
          (if b \<noteq> CHR ''['' then None
           else case read_token s1 of
             Some (k, e # s2) \<Rightarrow>
               (if e \<noteq> CHR ''='' then None
                else case read_token s2 of
                  Some (v, c # s3) \<Rightarrow> (if c = CHR '']'' then Some ((k, v), s3) else None)
                | _ \<Rightarrow> None)
           | _ \<Rightarrow> None)
      | [] \<Rightarrow> None)"

fun read_fields :: "nat \<Rightarrow> string \<Rightarrow> (string \<times> string) list option" where
  "read_fields 0 s = (if s = [] then Some [] else None)"
| "read_fields (Suc n) s =
     (if s = [] then Some []
      else case read_field (if hd s = CHR '' '' then tl s else s) of
        None \<Rightarrow> None
      | Some (kv, r) \<Rightarrow> map_option (\<lambda>kvs. kv # kvs) (read_fields n r))"

lemma hex_val_char: "d < 16 \<Longrightarrow> hex_val (hex_char d) = d"
proof -
  have "\<forall>d \<in> set [0..<16]. hex_val (hex_char d) = d" by code_simp
  then show "d < 16 \<Longrightarrow> hex_val (hex_char d) = d" by simp
qed

lemma read_one:
  assumes "tryAddRuneSelf c = Some t"
  shows "read_quoted (t @ s) = map_option (\<lambda>(u, r). (c # u, r)) (read_quoted s)"
proof -
  have h: "char_of (16 * (code c div 16) + code c mod 16) = c" by simp
  have l: "code c div 16 < 16" using assms by (simp add: tryAddRuneSelf_def split: if_splits)
  have q: "code c = n \<Longrightarrow> c = char_of n" for n by auto
  show ?thesis
    using assms h hex_val_char [OF l] hex_val_char [of "code c mod 16"] q [of 10] q [of 13] q [of 9]
    by (auto simp: tryAddRuneSelf_def backslash_def split: if_splits)
qed

lemma read_high: "\<forall>x \<in> set t. 0x80 \<le> code x \<Longrightarrow> read_quoted (t @ s) = map_option (\<lambda>(u, r). (t @ u, r)) (read_quoted s)"
proof (induction t)
  case (Cons x t)
  then have "x \<noteq> CHR 0x22" "x \<noteq> backslash" by (auto simp: backslash_def)
  then show ?case using Cons by (auto simp: option.map_comp comp_def case_prod_beta)
qed (simp add: option.map_ident_strong case_prod_beta)

lemma safe_text_read:
  "valid_utf8 s \<Longrightarrow> read_quoted (safe_text s @ CHR 0x22 # rest) = Some (s, rest)"
proof (induction s rule: safe_text.induct)
  case (2 c s)
  show ?case
  proof (cases "tryAddRuneSelf c")
    case (Some t)
    then have "code c < 0x80" by (simp add: tryAddRuneSelf_def split: if_splits)
    then show ?thesis using 2 Some read_one [OF Some] by simp
  next
    case None
    then have hi: "\<not> code c < 0x80" by (simp add: tryAddRuneSelf_def split: if_splits)
    then obtain n where n: "rune_size (c # s) = Some n" "valid_utf8 (drop (n - 1) s)"
      using 2(4) by (auto split: option.splits)
    have "\<forall>x \<in> set (c # take (n - 1) s). 0x80 \<le> code x" using rune_size_Some(3) [OF n(1)] hi by simp
    from read_high [OF this] 2(2) [OF None n] None n(1) show ?thesis by simp
  qed
qed simp

lemma safe_text_plain: "\<not> needDoubleQuotes s \<Longrightarrow> valid_utf8 s \<Longrightarrow> safe_text s = s"
proof (induction s rule: safe_text.induct)
  case (2 c s)
  have c: "0x20 \<le> code c" "c \<noteq> backslash" "c \<noteq> CHR 0x22" "\<not> needDoubleQuotes s" using 2(4) by (auto simp: needDoubleQuotes_def)
  show ?case
  proof (cases "code c < 0x80")
    case True
    then have "tryAddRuneSelf c = Some [c]" using c by (simp add: tryAddRuneSelf_def)
    then show ?thesis using 2 c True by simp
  next
    case False
    then obtain n where n: "rune_size (c # s) = Some n" "valid_utf8 (drop (n - 1) s)"
      using 2(5) by (auto split: option.splits)
    have t: "tryAddRuneSelf c = None" using False by (simp add: tryAddRuneSelf_def)
    have "\<not> needDoubleQuotes (drop (n - 1) s)" using c(4) by (auto simp: needDoubleQuotes_def list_ex_iff dest: in_set_dropD)
    then have "safe_text (drop (n - 1) s) = drop (n - 1) s" using 2(2) [OF t n(1)] n(2) by blast
    then show ?thesis using t n(1) by simp
  qed
qed simp

text \<open>A token comes back, whatever follows its \<open>=\<close> or \<open>]\<close>.\<close>

lemma read_token_quoted:
  assumes "valid_utf8 s" "e = CHR ''='' \<or> e = CHR '']''"
  shows "read_token (quoted_text s @ e # rest) = Some (s, e # rest)"
proof (cases "needDoubleQuotes s")
  case True
  then show ?thesis using safe_text_read [OF assms(1)] by (simp add: quoted_text_def read_token_def)
next
  case False
  then have t: "quoted_text s = s" using safe_text_plain assms(1) by (simp add: quoted_text_def)
  have "\<forall>c \<in> set s. c \<noteq> CHR ''='' \<and> c \<noteq> CHR '']'' \<and> c \<noteq> CHR 0x22" using False by (auto simp: needDoubleQuotes_def list_ex_iff)
  then have "takeWhile (\<lambda>c. c \<noteq> CHR ''='' \<and> c \<noteq> CHR '']'') (s @ e # rest) = s"
    "dropWhile (\<lambda>c. c \<noteq> CHR ''='' \<and> c \<noteq> CHR '']'') (s @ e # rest) = e # rest"
    "hd (s @ e # rest) \<noteq> CHR 0x22"
    using assms(2) by (cases s; auto simp: takeWhile_append dropWhile_append)+
  then show ?thesis by (simp add: t read_token_def)
qed

text \<open>A string field.\<close>

definition string_field :: "string \<times> string \<Rightarrow> field" where
  "string_field kv = OtherField [Add (fst kv) (EString (snd kv))]"

definition field_text :: "string \<times> string \<Rightarrow> string" where
  "field_text kv = ''['' @ quoted_text (fst kv) @ ''='' @ quoted_text (snd kv) @ '']''"

lemma read_field_text:
  assumes "valid_utf8 (fst kv)" "valid_utf8 (snd kv)"
  shows "read_field (field_text kv @ rest) = Some (kv, rest)"
  using read_token_quoted [OF assms(1), of "CHR ''=''" "quoted_text (snd kv) @ CHR '']'' # rest"]
    read_token_quoted [OF assms(2), of "CHR '']''" rest]
  by (simp add: read_field_def field_text_def)

lemma string_field_buf:
  "te_buf (addFields e [string_field kv]) = te_buf e @ (if te_buf e = [] then [] else '' '') @ field_text kv"
  by (simp add: string_field_def field_text_def beginQuoteFiled_def endQuoteFiled_def addKey_def AppendString_def addElementSeparator_def)

lemma addFields_append: "addFields e (fs @ gs) = addFields (addFields e fs) gs"
  by (induction e fs rule: addFields.induct) auto

fun fields_text :: "(string \<times> string) list \<Rightarrow> string" where
  "fields_text [] = []"
| "fields_text (kv # kvs) = '' '' @ field_text kv @ fields_text kvs"

lemma string_fields_buf: "te_buf e \<noteq> [] \<Longrightarrow> te_buf (addFields e (map string_field kvs)) = te_buf e @ fields_text kvs"
proof (induction kvs arbitrary: e)
  case (Cons kv kvs)
  let ?e = "addFields e [string_field kv]"
  have "te_buf ?e \<noteq> []" using Cons.prems by (simp add: string_field_buf)
  from Cons.IH [OF this] show ?case using Cons.prems addFields_append [of e "[string_field kv]" "map string_field kvs"]
    by (simp add: string_field_buf)
qed simp

lemma read_fields_text:
  assumes "\<forall>kv \<in> set kvs. valid_utf8 (fst kv) \<and> valid_utf8 (snd kv)"
  shows "read_fields (length kvs) (fields_text kvs) = Some kvs"
  using assms by (induction kvs) (simp_all add: read_field_text)

lemma cfg_simps [simp]:
  "te_cfg (addElementSeparator e) = te_cfg e" "te_cfg (addKey e k) = te_cfg e" "te_cfg (AppendString e s) = te_cfg e"
  "te_cfg (AppendByteString e s) = te_cfg e" "te_cfg (AppendInt64 e i) = te_cfg e" "te_cfg (AddString e k s) = te_cfg e"
  "te_cfg (beginQuoteFiled e) = te_cfg e" "te_cfg (endQuoteFiled e) = te_cfg e"
  by (simp_all add: addElementSeparator_def addKey_def AppendString_def AppendByteString_def AppendInt64_def AddString_def
      beginQuoteFiled_def endQuoteFiled_def)

lemma cfg_elem [simp]: "te_cfg (AppendElem e v) = te_cfg e"
  by (cases v) (auto simp: AppendBool_def appendFloat_def AppendComplex128_def AppendDuration_def AppendTime_def Let_def split: sum.split)

lemma cfg_call [simp]: "te_cfg (AddCall e c) = te_cfg e"
proof (cases c)
  case (Add k v)
  then show ?thesis using cfg_elem [of "addKey e k" v] by (cases v) (auto split: sum.splits)
qed (auto simp: Let_def)

lemma cfg_calls [simp]: "te_cfg (AddCalls e cs) = te_cfg e"
  by (induction cs arbitrary: e) auto

lemma cfg_fields [simp]: "te_cfg (addFields e fs) = te_cfg e"
  by (induction e fs rule: addFields.induct) (auto simp: encodeError_def Let_def split: option.split)

section \<open>Properties\<close>

text \<open>C32. One entry is one line: whatever the message, the names, the stack trace and the fields of an entry hold, bytes
  that are no UTF-8 included, the text of the entry ends with a line feed and has no other byte below \<open>0x20\<close>: no line
  feed, carriage return, tab or escape, so nothing that is logged can start a line of its own. (DEL and the C1 controls do
  pass, as \<open>clean\<close> allows them.) The texts of the entry's time, of time fields and of floating-point fields, which Go's
  \<open>time\<close> and \<open>strconv\<close> packages write, are taken to have no such byte. This holds for an encoder with any fields added
  before.\<close>

theorem entry_is_one_line:
  assumes "clean (en_Time ent)" "list_all field_ok given" "list_all field_ok fs"
  shows "\<exists>line. EncodeEntry (With (NewTextEncoder dt dv) given) ent fs = line @ [char_of (10 :: nat)] \<and> clean line"
proof -
  let ?e = "With (NewTextEncoder dt dv) given"
  have e: "clean (te_buf ?e)" unfolding With_def
    by (rule clean_fields [OF assms(2)]) (simp add: Clone_def cloned_def NewTextEncoder_def)
  have l: "line_end (te_cfg ?e) = [char_of (10 :: nat)]"
    by (simp add: With_def Clone_def cloned_def NewTextEncoder_def line_end_def)
  let ?f = "closeOpenNamespaces (addFields (encode_head ?e ent) fs)"
  have f: "clean (te_buf ?f)" using clean_fields [OF assms(3) clean_head [OF e assms(1)]] by simp
  then have "clean (te_buf (bracketed (\<lambda>x. AddString x (StacktraceKey (te_cfg ?e)) (en_Stack ent)) ?f))"
    by (intro clean_bracketed) simp
  then show ?thesis using f l by (auto simp: EncodeEntry_def Let_def)
qed

definition forged_entry :: Entry where
  "forged_entry = \<lparr>en_Time = ''2024/05/01'', en_TimeNanos = 0, en_Level = ''INFO'', en_LevelName = ''info'', en_LoggerName = [],
     en_Caller = \<lparr>ca_Defined = False, ca_File = [], ca_Line = 0\<rparr>, en_Message = ''ok'' @ [char_of (10 :: nat)] @ ''[ERROR]'', en_Stack = []\<rparr>"

theorem entry_is_one_line_witness:
  "(\<exists>line. EncodeEntry (With (NewTextEncoder False False) []) forged_entry [string_field (''k'', ''v'')] = line @ [char_of (10 :: nat)] \<and>
     clean line) \<and> \<not> clean (en_Message forged_entry)"
proof -
  have "clean (en_Time forged_entry)" "\<not> clean (en_Message forged_entry)" by (simp_all add: forged_entry_def)
  then show ?thesis using entry_is_one_line [of forged_entry "[]" "[string_field (''k'', ''v'')]" False False]
    by (simp add: string_field_def)
qed

text \<open>C33. String fields read back: the text that \<open>addFields\<close> appends for fields with string values to a line that has begun
  gives back, for keys and values in UTF-8, exactly the keys and the values in their order, whatever brackets, quotes,
  equals signs, blanks and control characters they hold.\<close>

theorem string_fields_roundtrip:
  assumes "\<forall>kv \<in> set kvs. valid_utf8 (fst kv) \<and> valid_utf8 (snd kv)" "te_buf enc \<noteq> []"
  shows "\<exists>t. te_buf (addFields enc (map string_field kvs)) = te_buf enc @ t \<and> read_fields (length kvs) t = Some kvs"
  using string_fields_buf [OF assms(2), of kvs] read_fields_text [OF assms(1)] by blast

theorem string_fields_roundtrip_witness:
  "\<exists>t. te_buf (addFields (append_buf (NewTextEncoder False False) ''x'') (map string_field [(''a b'', ''=]''), (''k'', [])])) = ''x'' @ t \<and>
     read_fields 2 t = Some [(''a b'', ''=]''), (''k'', [])]"
proof -
  have "\<forall>kv \<in> set [(''a b'', ''=]''), (''k'', [])]. valid_utf8 (fst kv) \<and> valid_utf8 (snd kv)" by simp
  from string_fields_roundtrip [OF this, of "append_buf (NewTextEncoder False False) ''x''"]
  show ?thesis by (simp add: NewTextEncoder_def numeral_2_eq_2)
qed

text \<open>The elements of an array of times are not separated: the time encoder does not ask for a separator.\<close>

lemma times_run_together:
  "te_buf (AppendElem (cloned enc) (EArray [ETime (c # s) m, ETime (d # t) n])) = quoted_text (''['' @ (c # s) @ (d # t) @ '']'')"
  by (simp add: cloned_def addElementSeparator_def AppendTime_def AppendByteString_def Let_def)

end
