(* ===== verification/RequestTraces.thy ===== *)
theory RequestTraces
  imports GrpcMiddleware LogText
begin

text \<open>
  What the servers note about a request besides answering it: the span that the tracing interceptors of
  \<open>lib/grpc/middleware/opentrace.go\<close> record, with the names and attributes of \<open>utils.go\<close>, and the fields of the gateway's
  access log (\<open>lib/http/middleware/log.go\<close>).
\<close>

section \<open>Attributes (utils.go)\<close>

datatype attr = AStr string | AInt int

text \<open>\<open>net.SplitHostPort\<close>.\<close>

definition SplitHostPort :: "string \<Rightarrow> (string \<times> string) option" where
  "SplitHostPort s =
     (let port = rev (takeWhile (\<lambda>c. c \<noteq> CHR '':'') (rev s));
          before = rev (drop 1 (dropWhile (\<lambda>c. c \<noteq> CHR '':'') (rev s)));
          host = takeWhile (\<lambda>c. c \<noteq> CHR '']'') (drop 1 s)
      in if CHR '':'' \<notin> set s then None
         else if hd s = CHR ''[''
         then (if before = CHR ''['' # host @ '']'' \<and> CHR ''['' \<notin> set (host @ port) \<and> CHR '']'' \<notin> set port then Some (host, port) else None)
         else if CHR '':'' \<in> set before \<or> CHR ''['' \<in> set s \<or> CHR '']'' \<in> set s then None
         else Some (before, port))"

text \<open>\<open>strconv.Atoi\<close> with its range check.\<close>

definition parse_Atoi :: "string \<Rightarrow> int option" where
  "parse_Atoi s = (case parse_int s of Some n \<Rightarrow> if - (2 ^ 63) \<le> n \<and> n < 2 ^ 63 then Some n else None | None \<Rightarrow> None)"

text \<open>\<open>is_ip\<close> stands for \<open>net.ParseIP\<close>: whether the text is the address of a host.\<close>

definition peerAttr :: "(string \<Rightarrow> bool) \<Rightarrow> string \<Rightarrow> (string \<times> attr) list" where
  "peerAttr is_ip addr =
     (case SplitHostPort addr of
        None \<Rightarrow> []
      | Some (h, p) \<Rightarrow>
          (let host = (if h = [] then ''127.0.0.1'' else h) in
           case parse_Atoi p of
             None \<Rightarrow> []
           | Some port \<Rightarrow>
               (if is_ip host then [(''net.sock.peer.addr'', AStr host), (''net.sock.peer.port'', AInt port)]
                else [(''net.peer.name'', AStr host), (''net.peer.port'', AInt port)])))"

definition spanInfo :: "(string \<Rightarrow> bool) \<Rightarrow> string \<Rightarrow> string \<Rightarrow> string \<times> (string \<times> attr) list" where
  "spanInfo is_ip fullMethod peerAddress =
     (case parseFullMethod fullMethod of
        (name, mAttrs) \<Rightarrow>
          (name, [(''rpc.system'', AStr ''grpc'')] @ map (\<lambda>(k, v). (k, AStr v)) mAttrs @ peerAttr is_ip peerAddress))"

definition peerFromCtx :: "string option \<Rightarrow> string" where
  "peerFromCtx p = (case p of None \<Rightarrow> [] | Some a \<Rightarrow> a)"

fun code_number :: "code \<Rightarrow> int" where
  "code_number OK = 0"
| "code_number Canceled = 1"
| "code_number Unknown = 2"
| "code_number InvalidArgument = 3"
| "code_number DeadlineExceeded = 4"
| "code_number NotFound = 5"
| "code_number AlreadyExists = 6"
| "code_number PermissionDenied = 7"
| "code_number ResourceExhausted = 8"
| "code_number FailedPrecondition = 9"
| "code_number Aborted = 10"
| "code_number OutOfRange = 11"
| "code_number Unimplemented = 12"
| "code_number Internal = 13"
| "code_number Unavailable = 14"
| "code_number DataLoss = 15"
| "code_number Unauthenticated = 16"

definition statusCodeAttr :: "code \<Rightarrow> string \<times> attr" where
  "statusCodeAttr c = (''rpc.grpc.status_code'', AInt (code_number c))"

section \<open>The interceptors (opentrace.go)\<close>

text \<open>A finished span. The error description is that of the status \<open>Error\<close>; none is the status \<open>Unset\<close>.\<close>

record span =
  sp_name :: string
  sp_attrs :: "(string \<times> attr) list"
  sp_error :: "string option"

text \<open>What the interceptors use of OpenTelemetry and of the context: the propagator, on the first values of the metadata's
  keys, the tracer's \<open>Start\<close>, and the peer and the metadata of the context.\<close>

record 'c tracing =
  tv_Extract :: "(string \<Rightarrow> string) \<Rightarrow> 'c \<Rightarrow> 'c"
  tv_Start :: "string \<Rightarrow> (string \<times> attr) list \<Rightarrow> 'c \<Rightarrow> 'c"
  tv_peer :: "'c \<Rightarrow> string option"
  tv_metadata :: "'c \<Rightarrow> (string \<Rightarrow> string list) option"
  tv_is_ip :: "string \<Rightarrow> bool"

definition extract_ctx :: "'c tracing \<Rightarrow> 'c \<Rightarrow> 'c" where
  "extract_ctx t ctx =
     (case tv_metadata t ctx of
        None \<Rightarrow> tv_Extract t (metadata_Get (\<lambda>_. [])) ctx
      | Some md \<Rightarrow> tv_Extract t (metadata_Get md) ctx)"

record 's traced =
  tr_world :: 's
  tr_spans :: "span list"

text \<open>The end of the span is deferred, so that a handler that panics has its span too.\<close>

definition finished :: "string \<Rightarrow> (string \<times> attr) list \<Rightarrow> 'r outcome \<Rightarrow> span" where
  "finished name attrs out =
     (case out of
        Returned resp (Some st) \<Rightarrow>
          \<lparr>sp_name = name, sp_attrs = attrs @ [statusCodeAttr (status_code st)], sp_error = serverStatus st\<rparr>
      | Returned resp None \<Rightarrow> \<lparr>sp_name = name, sp_attrs = attrs @ [statusCodeAttr OK], sp_error = None\<rparr>
      | Panicked e \<Rightarrow> \<lparr>sp_name = name, sp_attrs = attrs, sp_error = None\<rparr>)"

definition unaryServerOpentraceInterceptor ::
  "'c tracing \<Rightarrow> string \<Rightarrow> ('c, 'q, 'r, 's) handler \<Rightarrow> ('c, 'q, 'r, 's traced) handler" where
  "unaryServerOpentraceInterceptor t fullMethod handler ctx req s =
     (let ctx1 = extract_ctx t ctx; (name, attrs) = spanInfo (tv_is_ip t) fullMethod (peerFromCtx (tv_peer t ctx1));
          (out, w) = handler (tv_Start t name attrs ctx1) req (tr_world s)
      in (out, \<lparr>tr_world = w, tr_spans = tr_spans s @ [finished name attrs out]\<rparr>))"

definition UnaryClientOpentraceInterceptor ::
  "'c tracing \<Rightarrow> string \<Rightarrow> ('c, 'q, 'r, 's) handler \<Rightarrow> ('c, 'q, 'r, 's traced) handler" where
  "UnaryClientOpentraceInterceptor = unaryServerOpentraceInterceptor"

definition UnaryServerOpentraceInterceptor ::
  "'c tracing \<Rightarrow> string \<Rightarrow> ('c, 'q, 'r, 's) handler \<Rightarrow> ('c, 'q, 'r, 's traced) handler" where
  "UnaryServerOpentraceInterceptor = unaryServerOpentraceInterceptor"

text \<open>A stream handler gets the stream with the span's context; it returns an error or nil.\<close>

definition StreamServerOpentraceInterceptor ::
  "'c tracing \<Rightarrow> string \<Rightarrow> ('c \<Rightarrow> 's \<Rightarrow> unit outcome \<times> 's) \<Rightarrow> 'c \<Rightarrow> 's traced \<Rightarrow> unit outcome \<times> 's traced" where
  "StreamServerOpentraceInterceptor t fullMethod handler ctx s =
     (let ctx1 = extract_ctx t ctx; (name, attrs) = spanInfo (tv_is_ip t) fullMethod (peerFromCtx (tv_peer t ctx1));
          (out, w) = handler (tv_Start t name attrs ctx1) (tr_world s)
      in (out, \<lparr>tr_world = w, tr_spans = tr_spans s @ [finished name attrs out]\<rparr>))"

section \<open>The access log of the gateway\<close>

record RequestLoggerValues =
  rl_StartTime :: "string \<times> int"
  rl_Status :: int
  rl_Method :: string
  rl_Host :: string
  rl_URI :: string
  rl_RemoteIP :: string
  rl_Latency :: "string \<times> int"
  rl_UserAgent :: string
  rl_Referer :: string
  rl_ContentLength :: string
  rl_ResponseSize :: int
  rl_Error :: "(string \<times> string option) option"

definition one_field :: "string \<Rightarrow> elem \<Rightarrow> field" where
  "one_field key e = OtherField [Add key e]"

definition LogValuesFunc :: "string option \<Rightarrow> RequestLoggerValues \<Rightarrow> field list" where
  "LogValuesFunc account v =
     [one_field ''start_time'' (ETime (fst (rl_StartTime v)) (snd (rl_StartTime v))), one_field ''status'' (EInt64 (rl_Status v)),
      one_field ''method'' (EString (rl_Method v)), one_field ''host'' (EString (rl_Host v)), one_field ''uri'' (EString (rl_URI v)),
      one_field ''remote_ip'' (EString (rl_RemoteIP v)),
      one_field ''latency'' (EDuration (fst (rl_Latency v)) (snd (rl_Latency v))),
      one_field ''user_agent'' (EString (rl_UserAgent v)), one_field ''referer'' (EString (rl_Referer v)),
      one_field ''request_length'' (EString (rl_ContentLength v)), one_field ''response_size'' (EInt64 (rl_ResponseSize v))] @
     (case account of Some a \<Rightarrow> (if a \<noteq> [] then [one_field ''account_id'' (EString a)] else []) | None \<Rightarrow> []) @
     (case rl_Error v of Some (basic, verbose) \<Rightarrow> [ErrorField ''error'' basic verbose] | None \<Rightarrow> [])"

section \<open>Properties\<close>

text \<open>Host and port of an address are taken apart as the server writes them.\<close>

lemma SplitHostPort_plain:
  assumes "set host \<inter> {CHR '':'', CHR ''['', CHR '']''} = {}" "set port \<inter> {CHR '':'', CHR ''['', CHR '']''} = {}"
  shows "SplitHostPort (host @ '':'' @ port) = Some (host, port)"
proof -
  have t: "takeWhile (\<lambda>c. c \<noteq> CHR '':'') (rev port @ CHR '':'' # q) = rev port"
    and d: "dropWhile (\<lambda>c. c \<noteq> CHR '':'') (rev port @ CHR '':'' # q) = CHR '':'' # q" for q
    using assms(2) by (subst takeWhile_append2 dropWhile_append2; auto)+
  have "hd (host @ '':'' @ port) \<noteq> CHR ''[''" using assms(1) by (cases host) auto
  then show ?thesis using assms by (auto simp: SplitHostPort_def Let_def t d)
qed

text \<open>Tracing does not change what a call comes to, and every call has one span, named after the method without its leading
  slash, with the service, the method and the peer. Its code is the one the caller gets, and it counts as an error exactly
  for the six codes that are the server's fault. Only a panic leaves a span without a code.\<close>

theorem trace_transparent:
  assumes "plain_seg service" "plain_seg method" and h: "handler ctx1 req (tr_world s) = (out, w)"
    and ctx1: "ctx1 = tv_Start t (service @ slash # method) attrs (extract_ctx t ctx)"
    and attrs: "attrs = [(''rpc.system'', AStr ''grpc''), (''rpc.service'', AStr service), (''rpc.method'', AStr method)] @
       peerAttr (tv_is_ip t) (peerFromCtx (tv_peer t (extract_ctx t ctx)))"
  shows "\<exists>sp. UnaryServerOpentraceInterceptor t (abs_path [service, method]) handler ctx req s =
       (out, \<lparr>tr_world = w, tr_spans = tr_spans s @ [sp]\<rparr>) \<and> sp_name sp = service @ slash # method \<and>
     (case out of
        Returned resp err \<Rightarrow>
          (let c = (case err of None \<Rightarrow> OK | Some st \<Rightarrow> status_code st) in
           sp_attrs sp = attrs @ [(''rpc.grpc.status_code'', AInt (code_number c))] \<and>
           (sp_error sp \<noteq> None \<longleftrightarrow> c \<in> {Unknown, DeadlineExceeded, Unimplemented, Internal, Unavailable, DataLoss}))
      | Panicked e \<Rightarrow> sp_attrs sp = attrs \<and> sp_error sp = None)"
proof -
  have i: "spanInfo (tv_is_ip t) (abs_path [service, method]) (peerFromCtx (tv_peer t (extract_ctx t ctx))) = (service @ slash # method, attrs)"
    using parse_method_name [OF assms(1,2)] attrs by (simp add: spanInfo_def)
  have u: "UnaryServerOpentraceInterceptor t (abs_path [service, method]) handler ctx req s =
      (out, \<lparr>tr_world = w, tr_spans = tr_spans s @ [finished (service @ slash # method) attrs out]\<rparr>)"
    using h ctx1 by (simp add: UnaryServerOpentraceInterceptor_def unaryServerOpentraceInterceptor_def i)
  show ?thesis unfolding u
    by (cases out) (auto simp: finished_def statusCodeAttr_def serverStatus_def Let_def split: option.split)
qed

text \<open>The fields of the gateway's log meet what the text encoder asks of its callers, and an entry names an account exactly
  when the middleware set one.\<close>

lemma access_fields_ok:
  "clean (fst (rl_StartTime v)) \<Longrightarrow> clean (fst (rl_Latency v)) \<Longrightarrow> list_all field_ok (LogValuesFunc account v)"
  by (auto simp: LogValuesFunc_def one_field_def split: option.split)

lemma access_names_account:
  "one_field ''account_id'' (EString a) \<in> set (LogValuesFunc account v) \<longleftrightarrow> account = Some a \<and> a \<noteq> []"
  by (auto simp: LogValuesFunc_def one_field_def split: option.split)

end
