(* ===== verification/LogSetup.thy ===== *)
theory LogSetup
  imports LogText
begin

text \<open>
  How a logger is put together (\<open>lib/zlog/config.go\<close>, \<open>log.go\<close>, \<open>zap_text_core.go\<close>): the sinks that a configuration
  asks for, the level, the encoder, and the core that writes an entry to its sinks. Files, standard output, rotation
  and zap's own functions are parameters.
\<close>

section \<open>Configuration (config.go)\<close>

record FileLogConfig =
  fl_Filename :: string
  fl_MaxSize :: int
  fl_MaxDays :: int
  fl_MaxBackups :: int
  fl_Compression :: string

record LogConfig =
  lc_DisableStdlog :: bool
  lc_Level :: string
  lc_Format :: string
  lc_DisableTimestamp :: bool
  lc_File :: FileLogConfig
  lc_Development :: bool
  lc_DisableCaller :: bool
  lc_DisableStacktrace :: bool
  lc_DisableErrorVerbose :: bool
  lc_Sampling :: "(int \<times> int) option"
  lc_ErrorOutputPath :: string
  lc_Timeout :: int

datatype zap_option = ErrorOutput | Development | AddCaller | AddStacktrace string | WrapSampler int int

definition buildOptions :: "LogConfig \<Rightarrow> zap_option list" where
  "buildOptions cfg =
     [ErrorOutput] @ (if lc_Development cfg then [Development] else []) @
     (if lc_DisableCaller cfg then [] else [AddCaller]) @
     (if lc_DisableStacktrace cfg then [] else [AddStacktrace (if lc_Development cfg then ''warn'' else ''error'')]) @
     (case lc_Sampling cfg of None \<Rightarrow> [] | Some (initial, thereafter) \<Rightarrow> [WrapSampler initial thereafter])"

section \<open>Sinks (log.go)\<close>

record Lumberjack =
  lj_Filename :: string
  lj_MaxSize :: int
  lj_MaxBackups :: int
  lj_MaxAge :: int
  lj_LocalTime :: bool
  lj_Compress :: bool

datatype sink = FileSink Lumberjack | OpenSink string | MultiSink sink sink | LockSink sink int

text \<open>The surroundings: \<open>os.Stat\<close> (whether there is a directory), \<open>zap.Open\<close>, zap's reading of a level, and what
  registering the encoder comes to.\<close>

record log_env =
  lv_Stat :: "string \<Rightarrow> bool option"
  lv_Open :: "string \<Rightarrow> goerr option"
  lv_Level :: "string \<Rightarrow> goerr + int"
  lv_Register :: "goerr option"

definition defaultLogMaxSize :: int where "defaultLogMaxSize = 100"

definition initFileLog :: "log_env \<Rightarrow> FileLogConfig \<Rightarrow> goerr + Lumberjack" where
  "initFileLog env cfg =
     (if lv_Stat env (fl_Filename cfg) = Some True then Inl (Errorf ''can't use directory as log file name'')
      else if fl_Compression cfg \<notin> {'''', ''gzip''}
      then Inl (Errorf (''can't set compression to `'' @ fl_Compression cfg @ ''`''))
      else Inr \<lparr>lj_Filename = fl_Filename cfg,
                lj_MaxSize = (if fl_MaxSize cfg = 0 then defaultLogMaxSize else fl_MaxSize cfg),
                lj_MaxBackups = fl_MaxBackups cfg, lj_MaxAge = fl_MaxDays cfg, lj_LocalTime = True,
                lj_Compress = (fl_Compression cfg = ''gzip'')\<rparr>)"

definition open_sink :: "log_env \<Rightarrow> string \<Rightarrow> goerr + sink" where
  "open_sink env path = (case lv_Open env path of Some e \<Rightarrow> Inl e | None \<Rightarrow> Inr (OpenSink path))"

definition LockWithTimeout :: "sink \<Rightarrow> int \<Rightarrow> sink" where
  "LockWithTimeout ws timeout = LockSink ws timeout"

datatype encoder = TextEncoder textEncoder | JSONEncoder "bool"

definition new_encoder :: "LogConfig \<Rightarrow> goerr + encoder" where
  "new_encoder cfg =
     (if lc_Format cfg \<in> {''text'', ''''}
      then Inr (TextEncoder (NewTextEncoder (lc_DisableTimestamp cfg) (lc_DisableErrorVerbose cfg)))
      else if lc_Format cfg = ''json'' then Inr (JSONEncoder (lc_DisableTimestamp cfg))
      else Inl (Errorf (''unsupport log format: '' @ lc_Format cfg)))"

record Logger =
  lo_enc :: encoder
  lo_out :: sink
  lo_err :: sink
  lo_level :: int
  lo_options :: "zap_option list"

definition InitLoggerWithWriteSyncer :: "log_env \<Rightarrow> LogConfig \<Rightarrow> sink \<Rightarrow> sink \<Rightarrow> goerr + Logger" where
  "InitLoggerWithWriteSyncer env cfg out errOut =
     (case lv_Level env (lc_Level cfg) of
        Inl e \<Rightarrow> Inl e
      | Inr level \<Rightarrow>
          (case new_encoder cfg of
             Inl e \<Rightarrow> Inl e
           | Inr enc \<Rightarrow>
               (case lv_Register env of
                  Some e \<Rightarrow> Inl e
                | None \<Rightarrow>
                    (let wrap = (\<lambda>ws. if lc_Timeout cfg > 0 then LockWithTimeout ws (lc_Timeout cfg) else ws)
                     in Inr \<lparr>lo_enc = enc, lo_out = wrap out, lo_err = wrap errOut, lo_level = level,
                             lo_options = buildOptions cfg\<rparr>))))"

definition log_output :: "log_env \<Rightarrow> LogConfig \<Rightarrow> goerr + sink" where
  "log_output env cfg =
     (if fl_Filename (lc_File cfg) \<noteq> []
      then case initFileLog env (lc_File cfg) of
             Inl e \<Rightarrow> Inl e
           | Inr lg \<Rightarrow>
               (if \<not> lc_DisableStdlog cfg
                then case open_sink env ''stdout'' of Inl e \<Rightarrow> Inl e | Inr stdOut \<Rightarrow> Inr (MultiSink (FileSink lg) stdOut)
                else Inr (FileSink lg))
      else open_sink env ''stdout'')"

definition InitLogger :: "log_env \<Rightarrow> LogConfig \<Rightarrow> goerr + Logger" where
  "InitLogger env cfg =
     (case log_output env cfg of
        Inl e \<Rightarrow> Inl e
      | Inr out \<Rightarrow>
          (case (if lc_ErrorOutputPath cfg \<noteq> [] then open_sink env (lc_ErrorOutputPath cfg) else Inr out) of
             Inl e \<Rightarrow> Inl e
           | Inr errOut \<Rightarrow> InitLoggerWithWriteSyncer env cfg out errOut))"

section \<open>The lock with a timeout\<close>

text \<open>What the \<open>select\<close> of \<open>getLockOrBlock\<close> takes: the free lock or a tick of the clock. \<open>None\<close>: it still waits.\<close>

datatype taken = Lock | Tick

fun lock_loop :: "int \<Rightarrow> int \<Rightarrow> taken list \<Rightarrow> bool option" where
  "lock_loop timeout i ts =
     (if i < timeout
      then case ts of
             [] \<Rightarrow> None
           | Lock # _ \<Rightarrow> Some True
           | Tick # us \<Rightarrow> lock_loop timeout (i + 1) us
      else Some False)"

declare lock_loop.simps [simp del]

definition getLockOrBlock :: "int \<Rightarrow> taken list \<Rightarrow> bool option" where
  "getLockOrBlock timeout ts = lock_loop timeout 0 ts"

text \<open>A writer gets the lock exactly when it is free before \<open>timeout\<close> ticks; after them it gives up.\<close>

lemma lock_loop_ticks:
  "i \<le> timeout \<Longrightarrow> lock_loop timeout i (replicate n Tick @ ts) =
     (if int n < timeout - i then lock_loop timeout (i + int n) ts else Some False)"
proof (induction n arbitrary: i)
  case 0
  then show ?case by (auto simp: lock_loop.simps [of timeout i ts])
next
  case (Suc n)
  show ?case
  proof (cases "i < timeout")
    case True
    then have "lock_loop timeout i (replicate (Suc n) Tick @ ts) = lock_loop timeout (i + 1) (replicate n Tick @ ts)"
      by (simp add: lock_loop.simps [of timeout i])
    then show ?thesis using Suc.IH [of "i + 1"] True by (simp add: algebra_simps)
  qed (use Suc.prems in \<open>simp add: lock_loop.simps [of timeout timeout]\<close>)
qed

lemma getLockOrBlock_exact:
  assumes "0 \<le> timeout"
  shows "getLockOrBlock timeout (replicate n Tick @ Lock # ts) = Some (int n < timeout)"
    and "timeout \<le> int n \<Longrightarrow> getLockOrBlock timeout (replicate n Tick @ ts) = Some False"
  using assms by (auto simp: getLockOrBlock_def lock_loop_ticks lock_loop.simps [of timeout "int n"])

section \<open>The core (zap_text_core.go)\<close>

text \<open>An entry below the core's level is dropped; any other is written as one text, and after one above the level
  \<open>Error\<close> (2) the output is synchronised, whatever that comes to.\<close>

record 's syncer =
  sy_Write :: "string \<Rightarrow> 's \<Rightarrow> goerr option \<times> 's"
  sy_Sync :: "'s \<Rightarrow> goerr option \<times> 's"

definition Core_Write ::
  "textEncoder \<Rightarrow> 's syncer \<Rightarrow> int \<Rightarrow> Entry \<Rightarrow> field list \<Rightarrow> 's \<Rightarrow> goerr option \<times> 's" where
  "Core_Write enc out level ent fs s =
     (case sy_Write out (EncodeEntry enc ent fs) s of
        (Some e, s1) \<Rightarrow> (Some e, s1)
      | (None, s1) \<Rightarrow> (None, if level > 2 then snd (sy_Sync out s1) else s1))"

definition Core_Check :: "int \<Rightarrow> int \<Rightarrow> bool" where
  "Core_Check enabled level = (enabled \<le> level)"

section \<open>Lemmas\<close>

text \<open>The configuration that the services use: a file with rotation, on standard output too unless that is disabled.\<close>

definition service_log :: "string \<Rightarrow> string \<Rightarrow> bool \<Rightarrow> LogConfig" where
  "service_log level filename disableStdlog =
     \<lparr>lc_DisableStdlog = disableStdlog, lc_Level = level, lc_Format = ''json'', lc_DisableTimestamp = False,
      lc_File = \<lparr>fl_Filename = filename, fl_MaxSize = 100, fl_MaxDays = 30, fl_MaxBackups = 90, fl_Compression = ''gzip''\<rparr>,
      lc_Development = False, lc_DisableCaller = False, lc_DisableStacktrace = True, lc_DisableErrorVerbose = False,
      lc_Sampling = None, lc_ErrorOutputPath = [], lc_Timeout = 0\<rparr>"

text \<open>With it a logger fails to come up only for a directory in the place of the file, a level that zap does not know,
  standard output that cannot be opened, or an encoder that cannot be registered; when it comes up, both its outputs are
  the file, together with standard output unless disabled.\<close>

lemma InitLogger_service:
  assumes "filename \<noteq> []" "lv_Stat env filename \<noteq> Some True" "lv_Level env level = Inr l" "lv_Register env = None"
    and "disableStdlog \<or> lv_Open env ''stdout'' = None"
  shows "\<exists>lg lj. InitLogger env (service_log level filename disableStdlog) = Inr lg \<and> lj_Filename lj = filename \<and> lj_Compress lj \<and>
     lo_out lg = (if disableStdlog then FileSink lj else MultiSink (FileSink lj) (OpenSink ''stdout'')) \<and>
     lo_err lg = lo_out lg \<and> lo_level lg = l"
  using assms
  by (auto simp: InitLogger_def log_output_def initFileLog_def open_sink_def InitLoggerWithWriteSyncer_def new_encoder_def
      service_log_def Let_def)

end
