(* ===== verification/GlobalLog.thy ===== *)
theory GlobalLog
  imports LogSetup
begin

text \<open>
  The process's logger (\<open>lib/zlog/log.go\<close>, \<open>global.go\<close>): the package variables that \<open>ReplaceGlobals\<close> sets and its undo
  function, the level that \<open>SetLevel\<close> changes, the functions every package logs with, and the wrapper that writes under a
  lock with a timeout. A logger's level lives in a cell that the logger, its children and its properties share.
\<close>

section \<open>Package variables\<close>

record zlogger =
  zg_logger :: Logger
  zg_level :: nat
  zg_skip :: nat
  zg_fields :: "field list"

record logline =
  nt_level :: int
  nt_msg :: string
  nt_fields :: "field list"

record log_globals =
  gl_logger :: "zlogger option"
  gl_sub :: "zlogger option"
  gl_sugar :: "zlogger option"
  gl_props :: "nat option"
  gl_levels :: "nat \<Rightarrow> int"
  gl_next :: nat
  gl_lines :: "logline list"

text \<open>The part of \<open>InitLogger\<close> that is not in its result: the new cell for the level.\<close>

definition new_logger :: "Logger \<Rightarrow> log_globals \<Rightarrow> zlogger \<times> log_globals" where
  "new_logger lg g =
     (\<lparr>zg_logger = lg, zg_level = gl_next g, zg_skip = 0, zg_fields = []\<rparr>,
      g\<lparr>gl_levels := (gl_levels g)(gl_next g := lo_level lg), gl_next := gl_next g + 1\<rparr>)"

definition AddCallerSkip :: "nat \<Rightarrow> zlogger \<Rightarrow> zlogger" where
  "AddCallerSkip n z = z\<lparr>zg_skip := zg_skip z + n\<rparr>"

text \<open>\<open>ReplaceGlobals\<close> gives back the variables and what the undo function restores; nothing the first time.\<close>

definition ReplaceGlobals :: "zlogger \<Rightarrow> nat \<Rightarrow> log_globals \<Rightarrow> log_globals \<times> (zlogger \<times> nat) option" where
  "ReplaceGlobals logger props g =
     (g\<lparr>gl_logger := Some logger, gl_sub := Some (AddCallerSkip 1 logger), gl_sugar := Some logger, gl_props := Some props\<rparr>,
      case (gl_logger g, gl_props g) of (Some l, Some p) \<Rightarrow> Some (l, p) | _ \<Rightarrow> None)"

definition undo_globals :: "(zlogger \<times> nat) option \<Rightarrow> log_globals \<Rightarrow> log_globals" where
  "undo_globals r g = (case r of None \<Rightarrow> g | Some (l, p) \<Rightarrow> fst (ReplaceGlobals l p g))"

text \<open>\<open>init\<close>: a text logger on standard output with the level \<open>info\<close>. Its error is dropped, and a nil logger panics.\<close>

definition init_config :: LogConfig where
  "init_config =
     \<lparr>lc_DisableStdlog = False, lc_Level = ''info'', lc_Format = [], lc_DisableTimestamp = False,
      lc_File = \<lparr>fl_Filename = [], fl_MaxSize = 0, fl_MaxDays = 0, fl_MaxBackups = 0, fl_Compression = []\<rparr>,
      lc_Development = False, lc_DisableCaller = False, lc_DisableStacktrace = False, lc_DisableErrorVerbose = False,
      lc_Sampling = None, lc_ErrorOutputPath = [], lc_Timeout = 0\<rparr>"

definition no_globals :: log_globals where
  "no_globals = \<lparr>gl_logger = None, gl_sub = None, gl_sugar = None, gl_props = None, gl_levels = (\<lambda>_. 0), gl_next = 0, gl_lines = []\<rparr>"

definition log_init :: "log_env \<Rightarrow> log_globals option" where
  "log_init env =
     (case InitLogger env init_config of
        Inl e \<Rightarrow> None
      | Inr lg \<Rightarrow> (let (z, g) = new_logger lg no_globals in Some (fst (ReplaceGlobals z (zg_level z) g))))"

section \<open>Logging (global.go)\<close>

text \<open>What a call comes to. \<open>ll\<close>, \<open>L\<close> and the properties panic when the variable was never set.\<close>

datatype log_end = Logs log_globals | LogPanics log_globals | LogExits log_globals

definition emit :: "zlogger \<Rightarrow> int \<Rightarrow> string \<Rightarrow> field list \<Rightarrow> log_globals \<Rightarrow> log_globals" where
  "emit z level msg fs g =
     (if Core_Check (gl_levels g (zg_level z)) level
      then g\<lparr>gl_lines := gl_lines g @ [\<lparr>nt_level = level, nt_msg = msg, nt_fields = zg_fields z @ fs\<rparr>]\<rparr> else g)"

definition through_ll :: "int \<Rightarrow> string \<Rightarrow> field list \<Rightarrow> (log_globals \<Rightarrow> log_end) \<Rightarrow> log_globals \<Rightarrow> log_end" where
  "through_ll level msg fs finally g =
     (case gl_sub g of None \<Rightarrow> LogPanics g | Some z \<Rightarrow> finally (emit z level msg fs g))"

definition zlog_Debug :: "string \<Rightarrow> field list \<Rightarrow> log_globals \<Rightarrow> log_end" where
  "zlog_Debug msg fs = through_ll (-1) msg fs Logs"

definition zlog_Info :: "string \<Rightarrow> field list \<Rightarrow> log_globals \<Rightarrow> log_end" where
  "zlog_Info msg fs = through_ll 0 msg fs Logs"

definition zlog_Warn :: "string \<Rightarrow> field list \<Rightarrow> log_globals \<Rightarrow> log_end" where
  "zlog_Warn msg fs = through_ll 1 msg fs Logs"

definition zlog_Error :: "string \<Rightarrow> field list \<Rightarrow> log_globals \<Rightarrow> log_end" where
  "zlog_Error msg fs = through_ll 2 msg fs Logs"

definition zlog_Panic :: "string \<Rightarrow> field list \<Rightarrow> log_globals \<Rightarrow> log_end" where
  "zlog_Panic msg fs = through_ll 4 msg fs LogPanics"

definition zlog_Fatal :: "string \<Rightarrow> field list \<Rightarrow> log_globals \<Rightarrow> log_end" where
  "zlog_Fatal msg fs = through_ll 5 msg fs LogExits"

text \<open>The variants with a context add the id of its trace; \<open>None\<close> is a nil context.\<close>

definition trace_field :: "string option \<Rightarrow> field list" where
  "trace_field ctx = (case ctx of None \<Rightarrow> [] | Some traceId \<Rightarrow> [OtherField [Add ''traceId'' (EString traceId)]])"

definition DebugCtx :: "string option \<Rightarrow> string \<Rightarrow> field list \<Rightarrow> log_globals \<Rightarrow> log_end" where
  "DebugCtx ctx msg fs = zlog_Debug msg (fs @ trace_field ctx)"

definition InfoCtx :: "string option \<Rightarrow> string \<Rightarrow> field list \<Rightarrow> log_globals \<Rightarrow> log_end" where
  "InfoCtx ctx msg fs = zlog_Info msg (fs @ trace_field ctx)"

definition WarnCtx :: "string option \<Rightarrow> string \<Rightarrow> field list \<Rightarrow> log_globals \<Rightarrow> log_end" where
  "WarnCtx ctx msg fs = zlog_Warn msg (fs @ trace_field ctx)"

definition ErrorCtx :: "string option \<Rightarrow> string \<Rightarrow> field list \<Rightarrow> log_globals \<Rightarrow> log_end" where
  "ErrorCtx ctx msg fs = zlog_Error msg (fs @ trace_field ctx)"

definition PanicCtx :: "string option \<Rightarrow> string \<Rightarrow> field list \<Rightarrow> log_globals \<Rightarrow> log_end" where
  "PanicCtx ctx msg fs = zlog_Panic msg (fs @ trace_field ctx)"

text \<open>A child of the global logger; the level it obeys is still the shared one.\<close>

definition zlog_With :: "field list \<Rightarrow> log_globals \<Rightarrow> zlogger option" where
  "zlog_With fs g = map_option (\<lambda>z. (AddCallerSkip 1 z)\<lparr>zg_fields := zg_fields z @ fs\<rparr>) (gl_logger g)"

definition SetLevel :: "int \<Rightarrow> log_globals \<Rightarrow> log_globals option" where
  "SetLevel l g = (case gl_props g of None \<Rightarrow> None | Some p \<Rightarrow> Some (g\<lparr>gl_levels := (gl_levels g)(p := l)\<rparr>))"

definition GetLevel :: "log_globals \<Rightarrow> int option" where
  "GetLevel g = map_option (gl_levels g) (gl_props g)"

section \<open>Writing under the lock (log.go)\<close>

text \<open>A writer that does not get the lock in time panics; one that does frees it when it is done, also after an error.
  \<open>None\<close>: it still waits.\<close>

datatype 's locked = Done "goerr option" 's | TimedOut string

definition locked_call ::
  "string \<Rightarrow> int \<Rightarrow> ('s \<Rightarrow> goerr option \<times> 's) \<Rightarrow> taken list \<Rightarrow> 's \<Rightarrow> 's locked option" where
  "locked_call what timeout f ts s =
     (case getLockOrBlock timeout ts of
        None \<Rightarrow> None
      | Some succ \<Rightarrow>
          Some (if \<not> succ then TimedOut (''Timeout of '' @ itoa timeout @ ''s when trying to '' @ what @ '' log'')
                else case f s of (e, s1) \<Rightarrow> Done e s1))"

definition locked_Write :: "int \<Rightarrow> 's syncer \<Rightarrow> string \<Rightarrow> taken list \<Rightarrow> 's \<Rightarrow> 's locked option" where
  "locked_Write timeout ws bs = locked_call ''write'' timeout (sy_Write ws bs)"

definition locked_Sync :: "int \<Rightarrow> 's syncer \<Rightarrow> taken list \<Rightarrow> 's \<Rightarrow> 's locked option" where
  "locked_Sync timeout ws = locked_call ''sync'' timeout (sy_Sync ws)"

section \<open>Properties\<close>

text \<open>The three loggers are one logger, whose level is that of the properties.\<close>

definition one_logger :: "log_globals \<Rightarrow> bool" where
  "one_logger g \<longleftrightarrow> (\<exists>z. gl_logger g = Some z \<and> gl_sub g = Some (AddCallerSkip 1 z) \<and> gl_sugar g = Some z \<and> gl_props g = Some (zg_level z))"

lemma ReplaceGlobals_one: "one_logger (fst (ReplaceGlobals z (zg_level z) g))"
  by (simp add: one_logger_def ReplaceGlobals_def)

lemma log_init_one: "log_init env = Some g \<Longrightarrow> one_logger g"
  by (auto simp: log_init_def ReplaceGlobals_one split: sum.splits prod.splits)

lemma one_logger_kept:
  "one_logger g \<Longrightarrow> one_logger (emit z level msg fs g)"
  "one_logger g \<Longrightarrow> SetLevel l g = Some g' \<Longrightarrow> one_logger g'"
  by (auto simp: one_logger_def emit_def SetLevel_def)

text \<open>Replacing the logger and calling the undo function leaves the logger and its level as they were, whatever was logged
  in between, and a level set before the undo stays with the logger it was set for.\<close>

theorem globals_restored:
  assumes "one_logger g" "zg_level z \<noteq> the (gl_props g)"
    and "ReplaceGlobals z (zg_level z) g = (g1, r)" "SetLevel l g1 = Some g2"
  shows "one_logger (undo_globals r (emit y level msg fs g2)) \<and>
     gl_logger (undo_globals r (emit y level msg fs g2)) = gl_logger g \<and>
     GetLevel (undo_globals r (emit y level msg fs g2)) = GetLevel g \<and>
     GetLevel g2 = Some l"
  using assms
  by (auto simp: one_logger_def ReplaceGlobals_def undo_globals_def emit_def SetLevel_def GetLevel_def)

text \<open>A message is written exactly when its level is not below the one set last; the panic of \<open>zlog.Panic\<close> and the exit of
  \<open>zlog.Fatal\<close> happen in any case.\<close>

theorem level_decides:
  assumes "one_logger g" "SetLevel l g = Some g1" "\<exists>z. gl_sub g = Some z \<and> zg_fields z = []"
  shows "through_ll level msg fs finally g1 =
     finally (if l \<le> level then g1\<lparr>gl_lines := gl_lines g1 @ [\<lparr>nt_level = level, nt_msg = msg, nt_fields = fs\<rparr>]\<rparr> else g1)"
  using assms by (auto simp: one_logger_def SetLevel_def through_ll_def emit_def Core_Check_def AddCallerSkip_def)

end
