(* ===== verification/Migrate.thy ===== *)
theory Migrate
  imports SqlUtil Paths Sha256 "HOL-Library.List_Lexorder" "HOL-Library.Char_ord" "HOL-Library.Sublist"
begin

text \<open>
  Schema migration (\<open>lib/sqlutil/api_migrate.go\<close>): the scripts of a directory are run in the order of their names, each
  once for each content, and recorded with their checksums. Drivers, server and file system are a parameter. The locale
  \<open>migration_db\<close> states what the code relies on of them in terms of two views of the state: the table of records, and
  the statements of scripts that the server has executed.
\<close>

section \<open>Go's string functions\<close>

text \<open>\<open>strings.TrimSpace\<close>: the white space characters of Unicode in UTF-8.\<close>

definition space_runes :: "string list" where
  "space_runes =
     [[CHR 0x09], [CHR 0x0A], [CHR 0x0B], [CHR 0x0C], [CHR 0x0D],
      [CHR 0x20], [CHR 0xC2, CHR 0x85], [CHR 0xC2, CHR 0xA0], [CHR 0xE1, CHR 0x9A, CHR 0x80], [CHR 0xE2, CHR 0x80, CHR 0x80],
      [CHR 0xE2, CHR 0x80, CHR 0x81], [CHR 0xE2, CHR 0x80, CHR 0x82], [CHR 0xE2, CHR 0x80, CHR 0x83], [CHR 0xE2, CHR 0x80, CHR 0x84], [CHR 0xE2, CHR 0x80, CHR 0x85],
      [CHR 0xE2, CHR 0x80, CHR 0x86], [CHR 0xE2, CHR 0x80, CHR 0x87], [CHR 0xE2, CHR 0x80, CHR 0x88], [CHR 0xE2, CHR 0x80, CHR 0x89], [CHR 0xE2, CHR 0x80, CHR 0x8A],
      [CHR 0xE2, CHR 0x80, CHR 0xA8], [CHR 0xE2, CHR 0x80, CHR 0xA9], [CHR 0xE2, CHR 0x80, CHR 0xAF], [CHR 0xE2, CHR 0x81, CHR 0x9F], [CHR 0xE3, CHR 0x80, CHR 0x80]]"

definition leading_space :: "string \<Rightarrow> string" where
  "leading_space s = (case find (\<lambda>r. r \<noteq> [] \<and> HasPrefix s r) space_runes of None \<Rightarrow> [] | Some r \<Rightarrow> r)"

definition trailing_space :: "string \<Rightarrow> string" where
  "trailing_space s = (case find (\<lambda>r. r \<noteq> [] \<and> HasSuffix s r) space_runes of None \<Rightarrow> [] | Some r \<Rightarrow> r)"

lemma leading_space_length: "leading_space s \<noteq> [] \<Longrightarrow> s \<noteq> []"
  by (auto simp: leading_space_def find_Some_iff HasPrefix_def split: option.splits)

lemma trailing_space_length: "trailing_space s \<noteq> [] \<Longrightarrow> length s - length (trailing_space s) < length s"
  by (cases s) (auto simp: trailing_space_def find_Some_iff HasSuffix_def split: option.splits)

function trim_left :: "string \<Rightarrow> string" where
  "trim_left s = (if leading_space s = [] then s else trim_left (drop (length (leading_space s)) s))"
  by pat_completeness auto
termination by (relation "measure length") (use leading_space_length in \<open>auto simp: diff_less\<close>)

declare trim_left.simps [simp del]

function trim_right :: "string \<Rightarrow> string" where
  "trim_right s = (if trailing_space s = [] then s else trim_right (take (length s - length (trailing_space s)) s))"
  by pat_completeness auto
termination by (relation "measure length") (auto dest: trailing_space_length)

declare trim_right.simps [simp del]

definition TrimSpace :: "string \<Rightarrow> string" where
  "TrimSpace s = trim_right (trim_left s)"

section \<open>Scripts\<close>

definition fileChecksum :: "string \<Rightarrow> string" where
  "fileChecksum content = EncodeToString (sha256 content)"

text \<open>Whether a block has a line that is neither empty nor a comment.\<close>

definition hasSQL :: "string \<Rightarrow> bool" where
  "hasSQL block =
     list_ex (\<lambda>line. let trimmed = TrimSpace line in
        \<not> (trimmed = [] \<or> HasPrefix trimmed ''--'' \<or> HasPrefix trimmed ''#'')) (Split block (char_of (10 :: nat)))"

definition splitStatements :: "string \<Rightarrow> string list" where
  "splitStatements content =
     filter (\<lambda>block. block \<noteq> [] \<and> hasSQL block) (map TrimSpace (Split content (CHR '';'')))"

text \<open>\<open>strings.LastIndex(dsn, "/")\<close> splits the text after the last slash.\<close>

definition stripDBName :: "string \<Rightarrow> string \<times> string" where
  "stripDBName dsn =
     (if CHR ''/'' \<notin> set dsn then (dsn, [])
      else let after = rev (takeWhile (\<lambda>c. c \<noteq> CHR ''/'') (rev dsn));
               upto = take (length dsn - length after) dsn;
               dbname = takeWhile (\<lambda>c. c \<noteq> CHR ''?'') after;
               params = dropWhile (\<lambda>c. c \<noteq> CHR ''?'') after
           in (upto @ params, dbname))"

section \<open>The surroundings\<close>

text \<open>A connection of a data source name, its transactions, the directory and the files, the clock, and the text of an
  error.\<close>

record 's migration_env =
  me_Open :: "string \<Rightarrow> goerr option"
  me_Ping :: "string \<Rightarrow> 's \<Rightarrow> goerr option \<times> 's"
  me_Conn :: "string \<Rightarrow> 's Exec"
  me_BeginTx :: "string \<Rightarrow> 's \<Rightarrow> goerr + 's"
  me_TxExec :: "string \<Rightarrow> 's \<Rightarrow> goerr option \<times> 's"
  me_Commit :: "'s \<Rightarrow> 's \<Rightarrow> goerr option \<times> 's"
  me_Rollback :: "'s \<Rightarrow> 's \<Rightarrow> 's"
  me_ReadDir :: "string \<Rightarrow> goerr + (string \<times> bool) list"
  me_ReadFile :: "string \<Rightarrow> string \<Rightarrow> goerr + string"
  me_Now :: "'s \<Rightarrow> sqlval"
  me_Error :: "goerr \<Rightarrow> string"

definition wrap :: "'s migration_env \<Rightarrow> string \<Rightarrow> goerr \<Rightarrow> goerr" where
  "wrap E msg e = Errorf (msg @ '' failure: '' @ me_Error E e)"

definition create_database :: "string \<Rightarrow> string" where
  "create_database dbname =
     ''CREATE DATABASE IF NOT EXISTS `'' @ dbname @ ''` DEFAULT CHARACTER SET utf8mb4 COLLATE utf8mb4_unicode_ci''"

definition defaultMigrationTable :: string where
  "defaultMigrationTable = ''schema_migrations''"

definition nl :: string where "nl = [char_of (10 :: nat)]"

definition tab2 :: string where "tab2 = replicate 2 (char_of (9 :: nat))"

definition migration_ddl :: string where
  "migration_ddl =
     ''CREATE TABLE IF NOT EXISTS '' @ defaultMigrationTable @ '' ('' @ nl @
     tab2 @ ''filename   VARCHAR(255) NOT NULL,'' @ nl @
     tab2 @ ''checksum   VARCHAR(64)  NOT NULL,'' @ nl @
     tab2 @ ''applied_at TIMESTAMP    NOT NULL DEFAULT CURRENT_TIMESTAMP,'' @ nl @
     tab2 @ ''PRIMARY KEY (filename)'' @ nl @
     [char_of (9 :: nat)] @ '') ENGINE=InnoDB DEFAULT CHARSET=utf8mb4 COLLATE=utf8mb4_unicode_ci''"

definition applied_sql :: string where
  "applied_sql = ''SELECT filename, checksum FROM '' @ defaultMigrationTable @ '' ORDER BY filename''"

definition upsert_sql :: string where
  "upsert_sql = ''REPLACE INTO '' @ defaultMigrationTable @ '' (filename, checksum, applied_at) VALUES (?, ?, ?)''"

section \<open>The functions of the package\<close>

text \<open>The loop of \<open>applySQL\<close> in the transaction, from statement \<open>i\<close>.\<close>

fun tx_statements :: "'s migration_env \<Rightarrow> nat \<Rightarrow> string list \<Rightarrow> 's \<Rightarrow> (nat \<times> goerr) option \<times> 's" where
  "tx_statements E i [] tx = (None, tx)"
| "tx_statements E i (stmt # stmts) tx =
     (case me_TxExec E stmt tx of
        (Some e, tx1) \<Rightarrow> (Some (i, e), tx1)
      | (None, tx1) \<Rightarrow> tx_statements E (Suc i) stmts tx1)"

definition applySQL :: "'s migration_env \<Rightarrow> string \<Rightarrow> string \<Rightarrow> 's \<Rightarrow> goerr option \<times> 's" where
  "applySQL E dsn content s =
     (let stmts = splitStatements content in
      if stmts = [] then (None, s)
      else case me_BeginTx E dsn s of
        Inl e \<Rightarrow> (Some (wrap E ''begin tx'' e), s)
      | Inr tx \<Rightarrow>
          (case tx_statements E 0 stmts tx of
             (Some (i, e), tx1) \<Rightarrow> (Some (wrap E (''execute statement '' @ itoa (int i + 1)) e), me_Rollback E s tx1)
           | (None, tx1) \<Rightarrow> me_Commit E s tx1))"

definition ensureMigrationTable :: "'s migration_env \<Rightarrow> string \<Rightarrow> 's \<Rightarrow> goerr option \<times> 's" where
  "ensureMigrationTable E dsn s =
     (case ExecContext (me_Conn E dsn) s migration_ddl [] of (Inl e, s1) \<Rightarrow> (Some e, s1) | (Inr r, s1) \<Rightarrow> (None, s1))"

definition scan_record :: "sqlval list \<Rightarrow> goerr + string \<times> string" where
  "scan_record vs = (case vs of [VStr f, VStr c] \<Rightarrow> Inr (f, c) | _ \<Rightarrow> Inl (Errorf ''sql: Scan error''))"

text \<open>A later row of a file name replaces an earlier one in the map.\<close>

definition appliedMigrations :: "'s migration_env \<Rightarrow> string \<Rightarrow> 's \<Rightarrow> goerr + (string \<times> string) list" where
  "appliedMigrations E dsn s =
     (case QueryContext (me_Conn E dsn) s applied_sql [] of
        Inl e \<Rightarrow> Inl e
      | Inr (rows, err) \<Rightarrow>
          (case rows_scan scan_record rows of
             Inl e \<Rightarrow> Inl e
           | Inr recs \<Rightarrow> (case err of Some e \<Rightarrow> Inl e | None \<Rightarrow> Inr (rev recs))))"

definition upsertMigration :: "'s migration_env \<Rightarrow> string \<Rightarrow> string \<Rightarrow> string \<Rightarrow> 's \<Rightarrow> goerr option \<times> 's" where
  "upsertMigration E dsn filename checksum s =
     (case ExecContext (me_Conn E dsn) s upsert_sql [VStr filename, VStr checksum, me_Now E s] of
        (Inl e, s1) \<Rightarrow> (Some e, s1)
      | (Inr r, s1) \<Rightarrow> (None, s1))"

text \<open>The directory's scripts in the order of their names.\<close>

definition script_files :: "(string \<times> bool) list \<Rightarrow> string list" where
  "script_files entries = sort (map fst (filter (\<lambda>(name, isDir). \<not> (isDir \<or> \<not> HasSuffix name ''.sql'')) entries))"

fun migrate_files ::
  "'s migration_env \<Rightarrow> string \<Rightarrow> string \<Rightarrow> (string \<times> string) list \<Rightarrow> string list \<Rightarrow> 's \<Rightarrow> goerr option \<times> 's" where
  "migrate_files E dsn dir applied [] s = (None, s)"
| "migrate_files E dsn dir applied (filename # files) s =
     (case me_ReadFile E dir filename of
        Inl e \<Rightarrow> (Some (wrap E (''read file '' @ filename) e), s)
      | Inr content \<Rightarrow>
          (let cs = fileChecksum content in
           if map_of applied filename = Some cs then migrate_files E dsn dir applied files s
           else case applySQL E dsn content s of
             (Some e, s1) \<Rightarrow> (Some (wrap E (''apply migration '' @ filename) e), s1)
           | (None, s1) \<Rightarrow>
               (case upsertMigration E dsn filename cs s1 of
                  (Some e, s2) \<Rightarrow> (Some (wrap E (''record migration '' @ filename) e), s2)
                | (None, s2) \<Rightarrow> migrate_files E dsn dir applied files s2)))"

text \<open>The directory part of \<open>Migrate\<close>; records without a file are only logged.\<close>

definition migrate_dir :: "'s migration_env \<Rightarrow> string \<Rightarrow> string \<Rightarrow> 's \<Rightarrow> goerr option \<times> 's" where
  "migrate_dir E dsn dir s =
     (case me_ReadDir E dir of
        Inl e \<Rightarrow> (Some (wrap E ''read sql dir'' e), s)
      | Inr entries \<Rightarrow>
          (let files = script_files entries in
           if files = [] then (None, s)
           else case appliedMigrations E dsn s of
             Inl e \<Rightarrow> (Some (wrap E ''query applied migrations'' e), s)
           | Inr applied \<Rightarrow> migrate_files E dsn dir applied files s))"

text \<open>\<open>openDB\<close> fails when \<open>sql.Open\<close> does.\<close>

definition Migrate :: "'s migration_env \<Rightarrow> string \<Rightarrow> string \<Rightarrow> 's \<Rightarrow> goerr option \<times> 's" where
  "Migrate E dsn sqlDir s =
     (case stripDBName dsn of (baseDSN, dbname) \<Rightarrow>
      case me_Open E baseDSN of Some e \<Rightarrow> (Some (wrap E ''open base connection'' e), s) | None \<Rightarrow>
      (case me_Ping E baseDSN s of (Some e, s1) \<Rightarrow> (Some (wrap E ''ping base connection'' e), s1) | (None, s1) \<Rightarrow>
      (case ExecContext (me_Conn E baseDSN) s1 (create_database dbname) [] of
         (Inl e, s2) \<Rightarrow> (Some (wrap E ''create database'' e), s2)
       | (Inr r, s2) \<Rightarrow>
      (case me_Open E dsn of Some e \<Rightarrow> (Some (wrap E ''open database connection'' e), s2) | None \<Rightarrow>
      (case me_Ping E dsn s2 of (Some e, s3) \<Rightarrow> (Some (wrap E ''ping database connection'' e), s3) | (None, s3) \<Rightarrow>
      (case ensureMigrationTable E dsn s3 of
         (Some e, s4) \<Rightarrow> (Some (wrap E ''ensure migration table'' e), s4)
       | (None, s4) \<Rightarrow> migrate_dir E dsn sqlDir s4))))))"

section \<open>What the code relies on\<close>

text \<open>The table of records has the file name as its key, compared by the table's collation \<open>same\<close> (the DDL says
  \<open>utf8mb4_unicode_ci\<close>), while the code looks names up exactly. \<open>REPLACE\<close> removes the row whose key is the same to the
  collation and stores the new one.\<close>

definition replaced :: "(string \<Rightarrow> string \<Rightarrow> bool) \<Rightarrow> (string \<Rightarrow> string option) \<Rightarrow> string \<Rightarrow> string \<Rightarrow> string \<Rightarrow> string option" where
  "replaced same R f c = (\<lambda>g. if g = f then Some c else if same f g then None else R g)"

text \<open>\<open>records\<close> is the table \<open>schema_migrations\<close>, \<open>trace\<close> the statements of scripts executed so far. A transaction works on
  a state of its own. Nothing is said about what a statement of a script does to the tables. A rollback, a failed commit
  or a failed statement can undo, or keep, the statements of their own transaction (MySQL commits at every DDL statement),
  and no earlier one; they do not touch records that the transaction left alone. A \<open>REPLACE\<close> that fails may have had its
  effect or not. The names in a directory are distinct. The database is used by one migration at a time.\<close>

locale migration_db =
  fixes E :: "'s migration_env" and same :: "string \<Rightarrow> string \<Rightarrow> bool"
    and records :: "'s \<Rightarrow> string \<Rightarrow> string option" and trace :: "'s \<Rightarrow> string list"
  assumes ping: "me_Ping E d s = (r, s') \<Longrightarrow> records s' = records s \<and> trace s' = trace s"
    and create: "ExecContext (me_Conn E d) s (create_database n) [] = (x, s') \<Longrightarrow> records s' = records s \<and> trace s' = trace s"
    and ddl: "ExecContext (me_Conn E d) s migration_ddl [] = (x, s') \<Longrightarrow> records s' = records s \<and> trace s' = trace s"
    and select: "QueryContext (me_Conn E d) s applied_sql [] = Inr (rows, None) \<Longrightarrow>
      rows_scan scan_record rows = Inr recs \<Longrightarrow> map_of (rev recs) = records s"
    and upsert_ok: "ExecContext (me_Conn E d) s upsert_sql [VStr f, VStr c, t] = (Inr ids, s') \<Longrightarrow>
      records s' = replaced same (records s) f c \<and> trace s' = trace s"
    and upsert_err: "ExecContext (me_Conn E d) s upsert_sql [VStr f, VStr c, t] = (Inl e, s') \<Longrightarrow>
      (records s' = records s \<or> records s' = replaced same (records s) f c) \<and> trace s' = trace s"
    and begin_tx: "me_BeginTx E d s = Inr tx \<Longrightarrow> records tx = records s \<and> trace tx = trace s"
    and tx_ok: "me_TxExec E q tx = (None, tx') \<Longrightarrow> trace tx' = trace tx @ [q]"
    and tx_err: "me_TxExec E q tx = (Some e, tx') \<Longrightarrow> prefix (trace s) (trace tx) \<Longrightarrow> prefix (trace s) (trace tx')"
    and commit_ok: "me_Commit E s tx = (None, s') \<Longrightarrow> records s' = records tx \<and> trace s' = trace tx"
    and commit_err: "me_Commit E s tx = (Some e, s') \<Longrightarrow> prefix (trace s) (trace tx) \<Longrightarrow>
      prefix (trace s) (trace s') \<and> (records tx = records s \<longrightarrow> records s' = records s)"
    and rollback: "prefix (trace s) (trace tx) \<Longrightarrow>
      prefix (trace s) (trace (me_Rollback E s tx)) \<and> (records tx = records s \<longrightarrow> records (me_Rollback E s tx) = records s)"
    and readdir: "me_ReadDir E dir = Inr entries \<Longrightarrow> distinct (map fst entries)"

text \<open>The content of a script as the directory holds it, and the scripts still to be run.\<close>

definition script :: "'s migration_env \<Rightarrow> string \<Rightarrow> string \<Rightarrow> string" where
  "script E dir f = (case me_ReadFile E dir f of Inr c \<Rightarrow> c | Inl e \<Rightarrow> [])"

definition pending :: "'s migration_env \<Rightarrow> string \<Rightarrow> (string \<Rightarrow> string option) \<Rightarrow> string list \<Rightarrow> string list" where
  "pending E dir R files = filter (\<lambda>f. R f \<noteq> Some (fileChecksum (script E dir f))) files"

text \<open>The statements of some scripts, and the records after the scripts have been run, in that order.\<close>

definition statements :: "'s migration_env \<Rightarrow> string \<Rightarrow> string list \<Rightarrow> string list" where
  "statements E dir fs = concat (map (\<lambda>f. splitStatements (script E dir f)) fs)"

fun recorded ::
  "'s migration_env \<Rightarrow> (string \<Rightarrow> string \<Rightarrow> bool) \<Rightarrow> string \<Rightarrow> (string \<Rightarrow> string option) \<Rightarrow> string list \<Rightarrow> string \<Rightarrow> string option" where
  "recorded E same dir R [] = R"
| "recorded E same dir R (f # fs) = recorded E same dir (replaced same R f (fileChecksum (script E dir f))) fs"

text \<open>No two file names are the same to the collation; no statement of a script changes the table of records.\<close>

definition apart :: "(string \<Rightarrow> string \<Rightarrow> bool) \<Rightarrow> string list \<Rightarrow> bool" where
  "apart same fs = (\<forall>f \<in> set fs. \<forall>g \<in> set fs. same f g \<longrightarrow> f = g)"

definition spared :: "'s migration_env \<Rightarrow> ('s \<Rightarrow> string \<Rightarrow> string option) \<Rightarrow> string list \<Rightarrow> bool" where
  "spared E records stmts = (\<forall>q \<in> set stmts. \<forall>tx. records (snd (me_TxExec E q tx)) = records tx)"

lemma statements_simps [simp]:
  "statements E dir [] = []" "statements E dir (f # fs) = splitStatements (script E dir f) @ statements E dir fs"
  by (simp_all add: statements_def)

lemma spared_append: "spared E records (xs @ ys) \<longleftrightarrow> spared E records xs \<and> spared E records ys"
  by (auto simp: spared_def)

lemma spared_subset: "spared E records ys \<Longrightarrow> set xs \<subseteq> set ys \<Longrightarrow> spared E records xs"
  by (auto simp: spared_def)

lemma apart_subset: "apart same ys \<Longrightarrow> set xs \<subseteq> set ys \<Longrightarrow> apart same xs"
  by (auto simp: apart_def)

text \<open>What is recorded for a file of the directory, when the names are apart.\<close>

lemma recorded_apart:
  "apart same files \<Longrightarrow> set fs \<subseteq> set files \<Longrightarrow> g \<in> set files \<Longrightarrow>
   recorded E same dir R fs g = (if g \<in> set fs then Some (fileChecksum (script E dir g)) else R g)"
proof (induction fs arbitrary: R)
  case (Cons f fs)
  have "replaced same R f (fileChecksum (script E dir f)) g = (if g = f then Some (fileChecksum (script E dir f)) else R g)"
    using Cons.prems by (auto simp: replaced_def apart_def)
  then show ?case using Cons by (cases "g = f") simp_all
qed simp

text \<open>The last script of its name's class keeps its record, whatever the names.\<close>

lemma recorded_last: "\<forall>g \<in> set ys. \<not> same g f \<Longrightarrow> f \<notin> set ys \<Longrightarrow> recorded E same dir R (xs @ f # ys) f = Some (fileChecksum (script E dir f))"
proof (induction xs arbitrary: R)
  case Nil
  have "R' f = Some c \<Longrightarrow> \<forall>g \<in> set ys. \<not> same g f \<Longrightarrow> f \<notin> set ys \<Longrightarrow> recorded E same dir R' ys f = Some c" for R' c
    by (induction ys arbitrary: R') (auto simp: replaced_def)
  then show ?case using Nil by (simp add: replaced_def)
qed simp

text \<open>A later script whose name is the same to the collation drops the record of an earlier one.\<close>

lemma recorded_dropped: "same g f \<Longrightarrow> g \<noteq> f \<Longrightarrow> f \<notin> set ys \<Longrightarrow> recorded E same dir R (xs @ g # ys) f = None"
proof (induction xs arbitrary: R)
  case Nil
  have "R' f = None \<Longrightarrow> f \<notin> set ys \<Longrightarrow> recorded E same dir R' ys f = None" for R'
    by (induction ys arbitrary: R') (auto simp: replaced_def)
  then show ?case using Nil by (simp add: replaced_def)
qed simp

context migration_db
begin

lemma tx_statements_ok:
  "tx_statements E i stmts tx = (None, tx') \<Longrightarrow> trace tx' = trace tx @ stmts \<and> (spared E records stmts \<longrightarrow> records tx' = records tx)"
proof (induction stmts arbitrary: i tx)
  case (Cons q qs)
  then obtain tx1 where t: "me_TxExec E q tx = (None, tx1)" "tx_statements E (Suc i) qs tx1 = (None, tx')"
    by (auto split: prod.splits option.splits)
  have "spared E records (q # qs) \<Longrightarrow> records tx1 = records tx" using t(1) by (auto simp: spared_def dest: spec [of _ tx])
  then show ?case using Cons.IH [OF t(2)] tx_ok [OF t(1)] by (auto simp: spared_def)
qed simp

lemma tx_statements_err:
  "tx_statements E i stmts tx = (Some x, tx') \<Longrightarrow> prefix (trace s) (trace tx) \<Longrightarrow>
   prefix (trace s) (trace tx') \<and> (spared E records stmts \<longrightarrow> records tx' = records tx)"
proof (induction stmts arbitrary: i tx)
  case (Cons q qs)
  obtain r tx1 where t: "me_TxExec E q tx = (r, tx1)" by fastforce
  have sp: "spared E records (q # qs) \<Longrightarrow> records tx1 = records tx" using t by (auto simp: spared_def dest: spec [of _ tx])
  show ?case
  proof (cases r)
    case None
    then have "prefix (trace s) (trace tx1)" using tx_ok [of q tx tx1] t Cons.prems(2) by simp
    then show ?thesis using Cons.IH [of "Suc i" tx1] Cons.prems None t sp by (auto simp: spared_def)
  next
    case (Some e)
    then show ?thesis using Cons.prems t tx_err [of q tx e tx1 s] sp by simp
  qed
qed simp

lemma applySQL_ok:
  assumes "applySQL E dsn content s = (None, s')"
  shows "trace s' = trace s @ splitStatements content \<and> (spared E records (splitStatements content) \<longrightarrow> records s' = records s)"
proof (cases "splitStatements content = []")
  case False
  then obtain tx tx1 where t: "me_BeginTx E dsn s = Inr tx" "tx_statements E 0 (splitStatements content) tx = (None, tx1)"
      "me_Commit E s tx1 = (None, s')"
    using assms by (auto simp: applySQL_def Let_def split: sum.splits prod.splits option.splits)
  show ?thesis using begin_tx [OF t(1)] tx_statements_ok [OF t(2)] commit_ok [OF t(3)] by simp
qed (use assms in \<open>simp add: applySQL_def\<close>)

lemma applySQL_err:
  assumes "applySQL E dsn content s = (Some e, s')"
  shows "prefix (trace s) (trace s') \<and> (spared E records (splitStatements content) \<longrightarrow> records s' = records s)"
proof (cases "me_BeginTx E dsn s")
  case (Inl e)
  then show ?thesis using assms by (auto simp: applySQL_def Let_def split: if_splits)
next
  case (Inr tx)
  obtain r tx1 where t: "tx_statements E 0 (splitStatements content) tx = (r, tx1)" by fastforce
  have v: "prefix (trace s) (trace tx1) \<and> (spared E records (splitStatements content) \<longrightarrow> records tx1 = records s)"
    using t tx_statements_ok [of 0 "splitStatements content" tx tx1] tx_statements_err [of 0 "splitStatements content" tx _ tx1 s]
      begin_tx [OF Inr] by (cases r) auto
  show ?thesis
  proof (cases r)
    case None
    then show ?thesis using assms Inr t commit_err [of s tx1 e s'] v by (auto simp: applySQL_def Let_def split: if_splits)
  next
    case (Some x)
    then show ?thesis using assms Inr t rollback [of s tx1] v
      by (cases x) (auto simp: applySQL_def Let_def split: if_splits)
  qed
qed

lemma upsertMigration_ok:
  "upsertMigration E dsn f c s = (None, s') \<Longrightarrow> records s' = replaced same (records s) f c \<and> trace s' = trace s"
  using upsert_ok by (auto simp: upsertMigration_def split: prod.splits sum.splits)

lemma upsertMigration_err:
  "upsertMigration E dsn f c s = (Some e, s') \<Longrightarrow>
   (records s' = records s \<or> records s' = replaced same (records s) f c) \<and> trace s' = trace s"
  using upsert_err by (fastforce simp: upsertMigration_def split: prod.splits sum.splits)

lemma appliedMigrations_ok: "appliedMigrations E dsn s = Inr applied \<Longrightarrow> map_of applied = records s"
  using select by (auto simp: appliedMigrations_def split: prod.splits sum.splits option.splits)

text \<open>The loop over the scripts: all of the pending ones, or the first \<open>k\<close> of them. What is pending is decided by the
  records at the start.\<close>

lemma migrate_files_ok:
  assumes "migrate_files E dsn dir applied files s = (None, s')"
  shows "trace s' = trace s @ statements E dir (pending E dir (map_of applied) files) \<and>
     (spared E records (statements E dir (pending E dir (map_of applied) files)) \<longrightarrow>
        records s' = recorded E same dir (records s) (pending E dir (map_of applied) files))"
  using assms
proof (induction files arbitrary: s)
  case (Cons f fs)
  then obtain content where c: "me_ReadFile E dir f = Inr content" by (auto split: sum.splits)
  then have sc: "script E dir f = content" by (simp add: script_def)
  show ?case
  proof (cases "map_of applied f = Some (fileChecksum content)")
    case True
    then have "migrate_files E dsn dir applied fs s = (None, s')" using Cons.prems c by simp
    from Cons.IH [OF this] True sc show ?thesis by (simp add: pending_def)
  next
    case False
    then obtain s1 s2 where t: "applySQL E dsn content s = (None, s1)" "upsertMigration E dsn f (fileChecksum content) s1 = (None, s2)"
        "migrate_files E dsn dir applied fs s2 = (None, s')"
      using Cons.prems c by (auto simp: Let_def split: prod.splits option.splits)
    show ?thesis using Cons.IH [OF t(3)] applySQL_ok [OF t(1)] upsertMigration_ok [OF t(2)] False sc
      by (simp add: pending_def spared_append)
  qed
qed (simp add: pending_def)

lemma migrate_files_err:
  assumes "migrate_files E dsn dir applied files s = (Some e, s')"
    and "spared E records (statements E dir (pending E dir (map_of applied) files))"
  shows "\<exists>k. records s' = recorded E same dir (records s) (take k (pending E dir (map_of applied) files)) \<and>
     prefix (trace s @ statements E dir (take k (pending E dir (map_of applied) files))) (trace s')"
  using assms
proof (induction files arbitrary: s)
  case (Cons f fs)
  show ?case
  proof (cases "me_ReadFile E dir f")
    case (Inl e)
    then show ?thesis using Cons.prems by (intro exI [of _ 0]) simp
  next
    case (Inr content)
    then have sc: "script E dir f = content" by (simp add: script_def)
    show ?thesis
    proof (cases "map_of applied f = Some (fileChecksum content)")
      case True
      then have "migrate_files E dsn dir applied fs s = (Some e, s')" using Cons.prems Inr by simp
      from Cons.IH [OF this] Cons.prems True sc show ?thesis by (simp add: pending_def)
    next
      case False
      let ?p = "pending E dir (map_of applied) fs"
      have p0: "pending E dir (map_of applied) (f # fs) = f # ?p" using sc False by (simp add: pending_def)
      have sp: "spared E records (splitStatements content)" "spared E records (statements E dir ?p)"
        using Cons.prems(2) unfolding p0 by (simp_all add: sc spared_append)
      obtain r s1 where a: "applySQL E dsn content s = (r, s1)" by fastforce
      obtain r2 s2 where u: "upsertMigration E dsn f (fileChecksum content) s1 = (r2, s2)" by fastforce
      consider e1 where "r = Some e1" "s' = s1" | e2 where "r = None" "r2 = Some e2" "s' = s2"
        | "r = None" "r2 = None" "migrate_files E dsn dir applied fs s2 = (Some e, s')"
        using Cons.prems(1) Inr False a u by (cases r; cases r2) (auto simp: Let_def)
      then show ?thesis
      proof cases
        case 1
        then show ?thesis using applySQL_err [of dsn content s e1 s1] a sp(1) by (intro exI [of _ 0]) simp
      next
        case 2
        have "records s1 = records s" "trace s1 = trace s @ splitStatements content" using applySQL_ok a 2 sp(1) by auto
        moreover have "records s2 = records s1 \<or> records s2 = replaced same (records s1) f (fileChecksum content)" "trace s2 = trace s1"
          using upsertMigration_err u 2 by blast+
        ultimately show ?thesis unfolding p0 2(3)
          by (elim disjE) (intro exI [of _ 0], simp, intro exI [of _ 1], simp add: sc)
      next
        case 3
        have r: "records s2 = replaced same (records s) f (fileChecksum content)" "trace s2 = trace s @ splitStatements content"
          using applySQL_ok [of dsn content s s1] a upsertMigration_ok [of dsn f "fileChecksum content" s1 s2] u 3 sp(1) by simp_all
        obtain k where "records s' = recorded E same dir (records s2) (take k ?p)" "prefix (trace s2 @ statements E dir (take k ?p)) (trace s')"
          using Cons.IH [OF 3(3) sp(2)] by blast
        then show ?thesis using r sc unfolding p0 by (intro exI [of _ "Suc k"]) simp
      qed
    qed
  qed
qed simp

lemma migrate_files_skip:
  "\<forall>f \<in> set files. map_of applied f = Some (fileChecksum (script E dir f)) \<Longrightarrow> snd (migrate_files E dsn dir applied files s) = s"
  by (induction files) (auto simp: script_def split: sum.splits)

lemma script_files_distinct: "me_ReadDir E dir = Inr entries \<Longrightarrow> distinct (script_files entries)"
  using readdir [of dir entries] by (simp add: script_files_def distinct_map_filter)

text \<open>\<open>Migrate\<close> up to the directory: it fails, or goes on with the same records and statements.\<close>

definition same_views :: "'s \<Rightarrow> 's \<Rightarrow> bool" where
  "same_views s s' = (records s' = records s \<and> trace s' = trace s)"

lemma Migrate_setup:
  "(\<exists>e s'. Migrate E dsn dir s = (Some e, s') \<and> same_views s s') \<or>
   (\<exists>s4. Migrate E dsn dir s = migrate_dir E dsn dir s4 \<and> same_views s s4)"
proof -
  obtain base db where b: "stripDBName dsn = (base, db)" by fastforce
  obtain p1 s1 where p1: "me_Ping E base s = (p1, s1)" by fastforce
  obtain x2 s2 where x2: "ExecContext (me_Conn E base) s1 (create_database db) [] = (x2, s2)" by fastforce
  obtain p3 s3 where p3: "me_Ping E dsn s2 = (p3, s3)" by fastforce
  obtain x4 s4 where x4: "ExecContext (me_Conn E dsn) s3 migration_ddl [] = (x4, s4)" by fastforce
  have v: "same_views s s1" "same_views s s2" "same_views s s3" "same_views s s4"
    using ping [OF p1] create [OF x2] ping [OF p3] ddl [OF x4] by (simp_all add: same_views_def)
  show ?thesis
    using b p1 x2 p3 x4 v
    by (auto simp: Migrate_def ensureMigrationTable_def same_views_def split: option.split sum.split)
qed

lemma migrate_dir_ok:
  assumes "migrate_dir E dsn dir s = (None, s')" "me_ReadDir E dir = Inr entries"
  shows "trace s' = trace s @ statements E dir (pending E dir (records s) (script_files entries)) \<and>
     (spared E records (statements E dir (pending E dir (records s) (script_files entries))) \<longrightarrow>
        records s' = recorded E same dir (records s) (pending E dir (records s) (script_files entries)))"
proof (cases "script_files entries = []")
  case True
  then show ?thesis using assms by (simp add: migrate_dir_def pending_def)
next
  case False
  then obtain applied where a: "appliedMigrations E dsn s = Inr applied" "migrate_files E dsn dir applied (script_files entries) s = (None, s')"
    using assms by (auto simp: migrate_dir_def Let_def split: sum.splits)
  show ?thesis using migrate_files_ok [OF a(2)] appliedMigrations_ok [OF a(1)] by simp
qed

lemma migrate_dir_err:
  assumes "migrate_dir E dsn dir s = (Some err, s')" "me_ReadDir E dir = Inr entries"
    and "spared E records (statements E dir (pending E dir (records s) (script_files entries)))"
  shows "\<exists>k. records s' = recorded E same dir (records s) (take k (pending E dir (records s) (script_files entries))) \<and>
     prefix (trace s @ statements E dir (take k (pending E dir (records s) (script_files entries)))) (trace s')"
proof (cases "appliedMigrations E dsn s")
  case (Inl e)
  then show ?thesis using assms by (intro exI [of _ 0]) (auto simp: migrate_dir_def Let_def split: if_splits)
next
  case (Inr applied)
  then have m: "migrate_files E dsn dir applied (script_files entries) s = (Some err, s')"
    using assms by (auto simp: migrate_dir_def Let_def split: if_splits)
  show ?thesis using migrate_files_err [OF m] appliedMigrations_ok [OF Inr] assms(3) by simp
qed

lemma Migrate_ok:
  assumes "Migrate E dsn dir s = (None, s')" "me_ReadDir E dir = Inr entries"
  shows "trace s' = trace s @ statements E dir (pending E dir (records s) (script_files entries))"
    "spared E records (statements E dir (pending E dir (records s) (script_files entries))) \<Longrightarrow>
       records s' = recorded E same dir (records s) (pending E dir (records s) (script_files entries))"
proof -
  obtain s4 where s4: "migrate_dir E dsn dir s4 = (None, s')" "same_views s s4" using Migrate_setup [of dsn dir s] assms(1) by auto
  from migrate_dir_ok [OF s4(1) assms(2)] s4(2)
  show "trace s' = trace s @ statements E dir (pending E dir (records s) (script_files entries))"
    "spared E records (statements E dir (pending E dir (records s) (script_files entries))) \<Longrightarrow>
       records s' = recorded E same dir (records s) (pending E dir (records s) (script_files entries))"
    by (simp_all add: same_views_def)
qed

lemma Migrate_recorded:
  assumes "Migrate E dsn dir s = (None, s')" "me_ReadDir E dir = Inr entries"
    and "spared E records (statements E dir (pending E dir (records s) (script_files entries)))" "apart same (script_files entries)"
  shows "\<forall>f \<in> set (script_files entries). records s' f = Some (fileChecksum (script E dir f))"
  unfolding Migrate_ok(2) [OF assms(1-3)] by (auto simp: recorded_apart [OF assms(4)] pending_def)

lemma Migrate_noop:
  assumes "me_ReadDir E dir = Inr entries" "\<forall>f \<in> set (script_files entries). records s f = Some (fileChecksum (script E dir f))"
    and "Migrate E dsn dir s = (r, s')"
  shows "same_views s s'"
proof -
  consider e where "r = Some e" "same_views s s'" | s4 where "migrate_dir E dsn dir s4 = (r, s')" "same_views s s4"
    using Migrate_setup [of dsn dir s] assms(3) by auto
  then show ?thesis
  proof cases
    case 2
    have "snd (migrate_dir E dsn dir s4) = s4"
    proof (cases "appliedMigrations E dsn s4")
      case (Inr applied)
      then have "\<forall>f \<in> set (script_files entries). map_of applied f = Some (fileChecksum (script E dir f))"
        using appliedMigrations_ok [OF Inr] assms(2) 2(2) by (simp add: same_views_def)
      from migrate_files_skip [OF this] Inr assms(1) show ?thesis by (simp add: migrate_dir_def Let_def)
    qed (use assms(1) in \<open>simp add: migrate_dir_def Let_def\<close>)
    then show ?thesis using 2 by simp
  qed simp
qed

lemma Migrate_err:
  assumes "Migrate E dsn dir s = (Some err, s')" "me_ReadDir E dir = Inr entries"
    and "spared E records (statements E dir (pending E dir (records s) (script_files entries)))"
  shows "\<exists>k. records s' = recorded E same dir (records s) (take k (pending E dir (records s) (script_files entries))) \<and>
     prefix (trace s @ statements E dir (take k (pending E dir (records s) (script_files entries)))) (trace s')"
proof -
  consider "same_views s s'" | s4 where "migrate_dir E dsn dir s4 = (Some err, s')" "same_views s s4"
    using Migrate_setup [of dsn dir s] assms(1) by auto
  then show ?thesis
  proof cases
    case 1
    then show ?thesis by (intro exI [of _ 0]) (simp add: same_views_def)
  next
    case 2
    from migrate_dir_err [OF 2(1) assms(2)] 2(2) assms(3) show ?thesis by (simp add: same_views_def)
  qed
qed

end

end
