(* ===== verification/Process.thy ===== *)
theory Process
  imports Registration Paths LogSetup Migrate
begin

text \<open>
  The life of a service process: the directories it works in (\<open>lib/system\<close>), its command line and configuration
  (\<open>lib/flagsutil\<close>, \<open>lib/netutil\<close>, \<open>pkg/config\<close>), the components that \<open>pkg/server\<close> opens, and the order of all this in
  \<open>cmd/root.go\<close> and \<open>lib/startup\<close>, up to the cleanup functions that run at its end. Command line parser, viper, drivers
  and operating system are parameters.
\<close>

section \<open>Directories (lib/system)\<close>

record directory =
  d_rootDir :: string
  d_etcDir :: string
  d_appDir :: string
  d_usrDir :: string
  d_varDir :: string
  d_logDir :: string
  d_boxDir :: string
  d_execDir :: string

text \<open>\<open>LoadRuntime\<close> for what \<open>os.Executable\<close> and \<open>filepath.Abs\<close> give; the process's numbers and the host's name are left
  out.\<close>

definition LoadRuntime :: "(goerr + string) \<Rightarrow> (string \<Rightarrow> goerr + string) \<Rightarrow> goerr + directory" where
  "LoadRuntime executable absolute =
     (case executable of
        Inl e \<Rightarrow> Inl e
      | Inr p \<Rightarrow>
          (case absolute p of
             Inl e \<Rightarrow> Inl e
           | Inr executePath \<Rightarrow>
               (let execDir = Dir executePath;
                    root = (if HasSuffix execDir ''/bin'' then Dir execDir else execDir)
                in Inr \<lparr>d_rootDir = root, d_etcDir = join_path [root, ''/etc''], d_appDir = join_path [root, ''/app''],
                        d_usrDir = join_path [root, ''/usr''], d_varDir = join_path [root, ''/var''],
                        d_logDir = join_path [root, ''/log''], d_boxDir = join_path [root, ''/box''], d_execDir = execDir\<rparr>)))"

section \<open>Addresses (lib/netutil)\<close>

record netaddr =
  na_IPNet :: bool
  na_Loopback :: bool
  na_To4 :: bool
  na_To16 :: bool
  na_text :: string

record interface =
  if_Name :: string
  if_Up :: bool
  if_Addrs :: "goerr + netaddr list"

datatype IPType = IPV4 | IPV6

definition wanted_addr :: "IPType \<Rightarrow> netaddr \<Rightarrow> bool" where
  "wanted_addr it a \<longleftrightarrow> na_IPNet a \<and> \<not> na_Loopback a \<and> (case it of IPV4 \<Rightarrow> na_To4 a | IPV6 \<Rightarrow> na_To16 a)"

fun first_ip :: "IPType \<Rightarrow> interface list \<Rightarrow> string option" where
  "first_ip it [] = None"
| "first_ip it (i # is) =
     (if if_Up i \<and> \<not> HasPrefix (if_Name i) ''lo'' \<and> \<not> HasPrefix (if_Name i) ''docker'' \<and> \<not> HasPrefix (if_Name i) ''virbr''
      then case if_Addrs i of
             Inl e \<Rightarrow> first_ip it is
           | Inr addrs \<Rightarrow> (case find (wanted_addr it) addrs of Some a \<Rightarrow> Some (na_text a) | None \<Rightarrow> first_ip it is)
      else first_ip it is)"

definition getInterfaceIPFirst :: "(goerr + interface list) \<Rightarrow> IPType \<Rightarrow> goerr + string" where
  "getInterfaceIPFirst inters it =
     (case inters of
        Inl e \<Rightarrow> Inl e
      | Inr is \<Rightarrow> (case first_ip it is of Some a \<Rightarrow> Inr a | None \<Rightarrow> Inl (Errorf ''panic: unable to get first ip'')))"

record NetConfig =
  nc_AccessIP :: string
  nc_BindIP :: string
  nc_BindPort :: int

record network =
  nw_accessIP :: string
  nw_bindIP :: string

definition ResetSystem :: "(goerr + interface list) \<Rightarrow> NetConfig \<Rightarrow> network" where
  "ResetSystem inters c =
     (let bind = (if nc_BindIP c \<noteq> [] then nc_BindIP c else ''0.0.0.0'') in
      \<lparr>nw_accessIP =
         (if nc_AccessIP c \<noteq> [] then nc_AccessIP c
          else if bind = ''0.0.0.0''
          then case getInterfaceIPFirst inters IPV4 of Inl e \<Rightarrow> ''0.0.0.0'' | Inr ip \<Rightarrow> ip
          else bind),
       nw_bindIP = bind\<rparr>)"

section \<open>Command line and configuration (lib/flagsutil, lib/log, lib/opentrace, pkg/config)\<close>

record Flags =
  fg_ConfigFile :: string
  fg_Daemon :: bool
  fg_EnablePprof :: bool
  fg_PprofAddr :: string
  fg_DisableStdlog :: bool
  fg_Version :: bool

text \<open>\<open>flagsutil.Opts\<close> before the command line is parsed.\<close>

definition Opts :: Flags where
  "Opts = \<lparr>fg_ConfigFile = [], fg_Daemon = False, fg_EnablePprof = False, fg_PprofAddr = [], fg_DisableStdlog = False, fg_Version = False\<rparr>"

record LogSettings =
  ls_Level :: string
  ls_DisableStdlog :: bool

definition log_VerifyConfig :: "LogSettings \<Rightarrow> goerr option" where
  "log_VerifyConfig c =
     (if ls_Level c \<in> {''debug'', ''warn'', ''info'', ''error''} then None
      else Some (Errorf (''log.level has wrong value, level: '' @ ls_Level c)))"

record TraceConfig =
  tc_Enable :: bool
  tc_DSN :: string
  tc_ConnectTimeout :: int

definition opentrace_VerifyConfig :: "TraceConfig \<Rightarrow> goerr option" where
  "opentrace_VerifyConfig c =
     (if \<not> tc_Enable c then None
      else first_error [(tc_DSN c = [], ''otel.dsn has no value''), (tc_ConnectTimeout c \<le> 0, ''otel.connect_timeout has no value'')])"

text \<open>The configuration of \<open>personal-core\<close>; that of \<open>personal-auth\<close> has the settings of the service besides.\<close>

record CoreConfig =
  cc_Network :: NetConfig
  cc_Log :: LogSettings
  cc_MySQL :: MySQLConfig
  cc_Redis :: RedisConfig
  cc_Etcd :: EtcdConfig
  cc_Opentrace :: TraceConfig

definition second :: int where "second = 1000000000"

definition core_DefaultConfig :: CoreConfig where
  "core_DefaultConfig =
     \<lparr>cc_Network = \<lparr>nc_AccessIP = [], nc_BindIP = ''0.0.0.0'', nc_BindPort = 50002\<rparr>,
      cc_Log = \<lparr>ls_Level = ''info'', ls_DisableStdlog = False\<rparr>,
      cc_MySQL = \<lparr>my_StartupRetryPeriod = 3 * second, my_StartupRetryTimes = 3, my_ConnectTimeout = 10 * second,
        my_DSN = ''root:root@tcp(127.0.0.1:3306)/personal_core?charset=utf8mb4&parseTime=True&loc=Local'', my_MinOpen = 3, my_MaxOpen = 10,
        my_MaxLifetime = 300 * second\<rparr>,
      cc_Redis = \<lparr>re_DSN = ''redis://127.0.0.1:6379/1'', re_ConnectTimeout = 10 * second, re_StartupRetryTimes = 3,
        re_StartupRetryPeriod = 3 * second\<rparr>,
      cc_Etcd = \<lparr>et_Endpoints = [''127.0.0.1:2379''], et_ConnectTimeout = 10 * second, et_StartupRetryTimes = 3,
        et_StartupRetryPeriod = 3 * second\<rparr>,
      cc_Opentrace = \<lparr>tc_Enable = False, tc_DSN = [], tc_ConnectTimeout = 10 * second\<rparr>\<rparr>"

definition ApplyOpts :: "Flags \<Rightarrow> ('a CoreConfig_scheme) \<Rightarrow> ('a CoreConfig_scheme)" where
  "ApplyOpts opts c = c\<lparr>cc_Log := (cc_Log c)\<lparr>ls_DisableStdlog := fg_DisableStdlog opts\<rparr>\<rparr>"

text \<open>The file system (whether a path is a directory) and viper: reading a file, and unmarshalling it over a configuration.\<close>

record 'cfg config_env =
  cv_Stat :: "string \<Rightarrow> bool option"
  cv_ReadInConfig :: "string \<Rightarrow> goerr option"
  cv_Unmarshal :: "string \<Rightarrow> 'cfg \<Rightarrow> goerr + 'cfg"
  cv_Interfaces :: "goerr + interface list"

definition findConfigFile :: "(string \<Rightarrow> bool option) \<Rightarrow> string \<Rightarrow> string \<Rightarrow> goerr + string" where
  "findConfigFile stat etcDir path =
     (case find (\<lambda>p. stat p = Some False) [path, join_path [etcDir, ''config.toml'']] of
        Some p \<Rightarrow> Inr p
      | None \<Rightarrow> Inl (Errorf ''not found config file''))"

text \<open>The three applications read their configurations in the same way: \<open>apply\<close> is the application's \<open>ApplyOpts\<close>, \<open>net\<close> its
  network settings.\<close>

definition read_config ::
  "(Flags \<Rightarrow> 'cfg \<Rightarrow> 'cfg) \<Rightarrow> ('cfg \<Rightarrow> NetConfig) \<Rightarrow> 'cfg config_env \<Rightarrow> string \<Rightarrow> 'cfg \<Rightarrow> Flags \<Rightarrow> goerr + ('cfg \<times> network)" where
  "read_config apply net env etcDir deflt opts =
     (case findConfigFile (cv_Stat env) etcDir (fg_ConfigFile opts) of
        Inl e \<Rightarrow> Inl e
      | Inr configFile \<Rightarrow>
          (case cv_ReadInConfig env configFile of
             Some e \<Rightarrow> Inl e
           | None \<Rightarrow>
               (case cv_Unmarshal env configFile deflt of
                  Inl e \<Rightarrow> Inl e
                | Inr cfg \<Rightarrow> Inr (apply opts cfg, ResetSystem (cv_Interfaces env) (net cfg)))))"

definition ReadConfigFromFile ::
  "'a CoreConfig_scheme config_env \<Rightarrow> string \<Rightarrow> 'a CoreConfig_scheme \<Rightarrow> Flags \<Rightarrow> goerr + ('a CoreConfig_scheme \<times> network)" where
  "ReadConfigFromFile = read_config ApplyOpts cc_Network"

text \<open>The first signal other than \<open>SIGHUP\<close> ends the wait of \<open>WaitForSigterm\<close>.\<close>

datatype signal = SIGINT | SIGQUIT | SIGTERM | SIGHUP

fun WaitForSigterm :: "signal list \<Rightarrow> signal option" where
  "WaitForSigterm [] = None"
| "WaitForSigterm (sig # sigs) = (if sig = SIGHUP then WaitForSigterm sigs else Some sig)"

section \<open>Package variables and components (lib/db/mysql, lib/redis, lib/etcd, lib/opentrace, pkg/server)\<close>

text \<open>The package variables \<open>mysql.DB\<close>, \<open>redis.Client\<close> and \<open>etcd.Client\<close>, and the world the drivers work on.\<close>

record ('p, 'c, 'e, 's) globals =
  g_DB :: "'p sql_pool option"
  g_Redis :: "'c option"
  g_Etcd :: "'e option"
  g_world :: 's

record 'g process =
  pr_state :: 'g
  pr_cleanups :: "'g cleanup list"

definition on_world ::
  "('s \<Rightarrow> goerr option \<times> 's) \<Rightarrow> ('p, 'c, 'e, 's, 'z) globals_scheme \<Rightarrow> goerr option \<times> ('p, 'c, 'e, 's, 'z) globals_scheme" where
  "on_world f g = (case f (g_world g) of (e, s) \<Rightarrow> (e, g\<lparr>g_world := s\<rparr>))"

record ('p, 'o, 'c, 'e, 'cfg, 's) boot_env =
  bv_sql :: "('p, 's) sql_driver"
  bv_sqlClose :: "'p sql_pool \<Rightarrow> 's \<Rightarrow> goerr option \<times> 's"
  bv_redis :: "('o, 'c, 's) redis_driver"
  bv_redisClose :: "'c \<Rightarrow> 's \<Rightarrow> goerr option \<times> 's"
  bv_etcd :: "('e, 's) etcd_driver"
  bv_sleep :: "int \<Rightarrow> 's \<Rightarrow> 's"
  bv_WriteEmbedFS :: "string \<Rightarrow> 's \<Rightarrow> goerr option \<times> 's"
  bv_migration :: "'s migration_env"
  bv_NewTraceProvider :: "TraceConfig \<Rightarrow> 's \<Rightarrow> (goerr + ('s \<Rightarrow> goerr option \<times> 's)) \<times> 's"
  bv_Error :: "goerr \<Rightarrow> string"
  bv_log :: log_env
  bv_Sync :: "Logger \<Rightarrow> 's \<Rightarrow> goerr option \<times> 's"
  bv_dirs :: directory
  bv_config :: "'cfg config_env"
  bv_Listen :: "string \<Rightarrow> 's \<Rightarrow> goerr option \<times> 's"
  bv_Register :: "'e \<Rightarrow> string \<Rightarrow> int \<Rightarrow> int \<Rightarrow> 's \<Rightarrow> goerr option \<times> 's"
  bv_Stop :: "'s \<Rightarrow> goerr option \<times> 's"
  bv_Parse :: "string list \<Rightarrow> int + Flags"
  bv_Background :: "string list \<Rightarrow> 's \<Rightarrow> goerr option \<times> 's"
  bv_serving :: "'s \<Rightarrow> 's"

text \<open>Closing: \<open>mysql\<close> keeps its variable when \<open>Close\<close> fails, \<open>redis\<close> keeps it always, \<open>etcd\<close> resets it always.\<close>

definition CloseMySQL ::
  "('p sql_pool \<Rightarrow> 's \<Rightarrow> goerr option \<times> 's) \<Rightarrow> ('p, 'c, 'e, 's) globals \<Rightarrow> goerr option \<times> ('p, 'c, 'e, 's) globals" where
  "CloseMySQL close g =
     (case g_DB g of
        None \<Rightarrow> (None, g)
      | Some p \<Rightarrow>
          (case close p (g_world g) of
             (Some e, s) \<Rightarrow> (Some e, g\<lparr>g_world := s\<rparr>)
           | (None, s) \<Rightarrow> (None, g\<lparr>g_DB := None, g_world := s\<rparr>)))"

definition CloseRedis ::
  "('c \<Rightarrow> 's \<Rightarrow> goerr option \<times> 's) \<Rightarrow> ('p, 'c, 'e, 's) globals \<Rightarrow> goerr option \<times> ('p, 'c, 'e, 's) globals" where
  "CloseRedis close g = (case g_Redis g of None \<Rightarrow> (None, g) | Some c \<Rightarrow> on_world (close c) g)"

definition CloseEtcd ::
  "('e \<Rightarrow> 's \<Rightarrow> goerr option \<times> 's) \<Rightarrow> ('p, 'c, 'e, 's, 'z) globals_scheme \<Rightarrow> goerr option \<times> ('p, 'c, 'e, 's, 'z) globals_scheme" where
  "CloseEtcd close g =
     (case g_Etcd g of
        None \<Rightarrow> (None, g)
      | Some c \<Rightarrow> (case close c (g_world g) of (e, s) \<Rightarrow> (e, g\<lparr>g_Etcd := None, g_world := s\<rparr>)))"

type_synonym 'g initializer = "'g \<Rightarrow> ((goerr + 'g cleanup) \<times> 'g) option"

definition InitMySQL :: "('p, 'o, 'c, 'e, 'cfg, 's) boot_env \<Rightarrow> MySQLConfig \<Rightarrow> ('p, 'c, 'e, 's) globals initializer" where
  "InitMySQL env c g =
     (case mysql_tryConnect (bv_sql env) (bv_sleep env) c (g_world g) of
        None \<Rightarrow> None
      | Some (Inl e, s) \<Rightarrow> Some (Inl e, g\<lparr>g_world := s\<rparr>)
      | Some (Inr pool, s) \<Rightarrow> Some (Inr (Some (CloseMySQL (bv_sqlClose env))), g\<lparr>g_DB := Some pool, g_world := s\<rparr>))"

definition InitRedis :: "('p, 'o, 'c, 'e, 'cfg, 's) boot_env \<Rightarrow> RedisConfig \<Rightarrow> ('p, 'c, 'e, 's) globals initializer" where
  "InitRedis env c g =
     (case redis_tryConnect (bv_redis env) (bv_sleep env) c (g_world g) of
        None \<Rightarrow> None
      | Some (Inl e, s) \<Rightarrow> Some (Inl e, g\<lparr>g_world := s\<rparr>)
      | Some (Inr client, s) \<Rightarrow> Some (Inr (Some (CloseRedis (bv_redisClose env))), g\<lparr>g_Redis := Some client, g_world := s\<rparr>))"

definition InitEtcd :: "('p, 'o, 'c, 'e, 'cfg, 's) boot_env \<Rightarrow> EtcdConfig \<Rightarrow> ('p, 'c, 'e, 's, 'z) globals_scheme initializer" where
  "InitEtcd env c g =
     (case etcd_tryConnect (bv_etcd env) (bv_sleep env) c (g_world g) of
        None \<Rightarrow> None
      | Some (Inl e, s) \<Rightarrow> Some (Inl e, g\<lparr>g_world := s\<rparr>)
      | Some (Inr client, s) \<Rightarrow> Some (Inr (Some (CloseEtcd (ed_Close (bv_etcd env)))), g\<lparr>g_Etcd := Some client, g_world := s\<rparr>))"

definition InitTraceProvider :: "('p, 'o, 'c, 'e, 'cfg, 's) boot_env \<Rightarrow> TraceConfig \<Rightarrow> ('p, 'c, 'e, 's, 'z) globals_scheme initializer" where
  "InitTraceProvider env c g =
     (if \<not> tc_Enable c then Some (Inr (Some (on_world (\<lambda>s. (None, s)))), g)
      else case bv_NewTraceProvider env c (g_world g) of
        (Inl e, s) \<Rightarrow> Some (Inl e, g\<lparr>g_world := s\<rparr>)
      | (Inr shutdown, s) \<Rightarrow> Some (Inr (Some (on_world shutdown)), g\<lparr>g_world := s\<rparr>))"

definition initComponent ::
  "(goerr \<Rightarrow> string) \<Rightarrow> string \<Rightarrow> 'g initializer \<Rightarrow> 'g process \<Rightarrow> (goerr option \<times> 'g process) option" where
  "initComponent err name fn p =
     (case fn (pr_state p) of
        None \<Rightarrow> None
      | Some (Inl e, g) \<Rightarrow> Some (Some (Errorf (''init '' @ name @ '' failure: '' @ err e)), p\<lparr>pr_state := g\<rparr>)
      | Some (Inr close, g) \<Rightarrow>
          Some (None, p\<lparr>pr_state := g,
                        pr_cleanups := (if close = None then pr_cleanups p else RegisterCleanupFuncs [close] (pr_cleanups p))\<rparr>))"

fun initComponents ::
  "(goerr \<Rightarrow> string) \<Rightarrow> (string \<times> 'g initializer) list \<Rightarrow> 'g process \<Rightarrow> (goerr option \<times> 'g process) option" where
  "initComponents err [] p = Some (None, p)"
| "initComponents err ((name, fn) # cs) p =
     (case initComponent err name fn p of
        None \<Rightarrow> None
      | Some (Some e, p1) \<Rightarrow> Some (Some e, p1)
      | Some (None, p1) \<Rightarrow> initComponents err cs p1)"

definition initSchema :: "('p, 'o, 'c, 'e, 'cfg, 's) boot_env \<Rightarrow> MySQLConfig \<Rightarrow> 's \<Rightarrow> goerr option \<times> 's" where
  "initSchema env c s =
     (case Migrate (bv_migration env) (my_DSN c) (join_path [d_usrDir (bv_dirs env), ''init-sql'']) s of
        (Some e, s1) \<Rightarrow> (Some (Errorf (''migrate schema failure: '' @ bv_Error env e)), s1)
      | (None, s1) \<Rightarrow> (None, s1))"

text \<open>The head of \<open>New\<close> of \<open>personal-core\<close> and \<open>personal-auth\<close>: scripts, schema, and the components, which differ in the
  last one only.\<close>

definition open_stores ::
  "('p, 'o, 'c, 'e, 'cfg, 's) boot_env \<Rightarrow> 'a CoreConfig_scheme \<Rightarrow> (string \<times> ('p, 'c, 'e, 's) globals initializer) list \<Rightarrow>
     ('p, 'c, 'e, 's) globals process \<Rightarrow> (goerr option \<times> ('p, 'c, 'e, 's) globals process) option" where
  "open_stores env cfg further p =
     (case on_world (bv_WriteEmbedFS env (d_usrDir (bv_dirs env))) (pr_state p) of
        (Some e, g) \<Rightarrow> Some (Some (Errorf (''write embedded scripts to disk failure: '' @ bv_Error env e)), p\<lparr>pr_state := g\<rparr>)
      | (None, g) \<Rightarrow>
          (case on_world (initSchema env (cc_MySQL cfg)) g of
             (Some e, g1) \<Rightarrow> Some (Some (Errorf (''init schema failure: '' @ bv_Error env e)), p\<lparr>pr_state := g1\<rparr>)
           | (None, g1) \<Rightarrow>
               initComponents (bv_Error env)
                 ([(''mysql'', InitMySQL env (cc_MySQL cfg)), (''redis'', InitRedis env (cc_Redis cfg)),
                   (''etcd'', InitEtcd env (cc_Etcd cfg))] @ further) (p\<lparr>pr_state := g1\<rparr>)))"

definition core_New ::
  "('p, 'o, 'c, 'e, 'cfg, 's) boot_env \<Rightarrow> 'a CoreConfig_scheme \<Rightarrow> ('p, 'c, 'e, 's) globals process \<Rightarrow>
     (goerr option \<times> ('p, 'c, 'e, 's) globals process) option" where
  "core_New env cfg p =
     open_stores env cfg
       [(''opentrace'', \<lambda>g. if \<not> tc_Enable (cc_Opentrace cfg) then Some (Inr None, g) else InitTraceProvider env (cc_Opentrace cfg) g)] p"

text \<open>\<open>NewAuth\<close> of \<open>personal-auth\<close> refuses an empty signing key.\<close>

definition auth_New ::
  "('p, 'o, 'c, 'e, 'cfg, 's) boot_env \<Rightarrow> string \<Rightarrow> 'a CoreConfig_scheme \<Rightarrow> ('p, 'c, 'e, 's) globals process \<Rightarrow>
     (goerr option \<times> ('p, 'c, 'e, 's) globals process) option" where
  "auth_New env signingKey cfg p =
     (case open_stores env cfg [(''opentrace'', InitTraceProvider env (cc_Opentrace cfg))] p of
        None \<Rightarrow> None
      | Some (Some e, p1) \<Rightarrow> Some (Some e, p1)
      | Some (None, p1) \<Rightarrow>
          Some (if signingKey = []
                then Some (Errorf ''init auth service failure: rpc error: code = InvalidArgument desc = signing_key is required'')
                else None, p1))"

section \<open>Serving (lib/grpc/server/grpc.go)\<close>

text \<open>\<open>net.JoinHostPort\<close>: brackets around an IPv6 address.\<close>

definition JoinHostPort :: "string \<Rightarrow> string \<Rightarrow> string" where
  "JoinHostPort host port = (if CHR '':'' \<in> set host then ''['' @ host @ '']:'' @ port else host @ '':'' @ port)"

definition register_cleanup :: "'g cleanup \<Rightarrow> 'g process \<Rightarrow> 'g process" where
  "register_cleanup f p = p\<lparr>pr_cleanups := RegisterCleanupFuncs [f] (pr_cleanups p)\<rparr>"

text \<open>The access log, the listener, and the registration in etcd when there is a client.\<close>

definition GRPC_Serve ::
  "('p, 'o, 'c, 'e, 'cfg, 's) boot_env \<Rightarrow> network \<Rightarrow> 'a CoreConfig_scheme \<Rightarrow> ('p, 'c, 'e, 's) globals process \<Rightarrow>
     goerr option \<times> ('p, 'c, 'e, 's) globals process" where
  "GRPC_Serve env nw cfg p =
     (case InitLogger (bv_log env)
             (service_log (ls_Level (cc_Log cfg)) (join_path [d_logDir (bv_dirs env), ''access.log'']) (ls_DisableStdlog (cc_Log cfg))) of
        Inl e \<Rightarrow> (Some (Errorf (''init middleware log failure, nest error: '' @ bv_Error env e)), p)
      | Inr lg \<Rightarrow>
          (let p1 = register_cleanup (Some (on_world (bv_Sync env lg))) p in
           case on_world (bv_Listen env (JoinHostPort (nc_BindIP (cc_Network cfg)) (itoa (nc_BindPort (cc_Network cfg))))) (pr_state p1) of
             (Some e, g) \<Rightarrow> (Some e, p1\<lparr>pr_state := g\<rparr>)
           | (None, g) \<Rightarrow>
               (case g_Etcd g of
                  None \<Rightarrow> (None, p1\<lparr>pr_state := g\<rparr>)
                | Some client \<Rightarrow>
                    (case on_world (bv_Register env client (nw_accessIP nw) (nc_BindPort (cc_Network cfg)) 10) g of
                       (e, g1) \<Rightarrow> (e, p1\<lparr>pr_state := g1\<rparr>)))))"

section \<open>Running (cmd/root.go, lib/startup)\<close>

datatype ending = Exit int | Return "goerr option"

definition finish :: "goerr option \<Rightarrow> 'g process \<Rightarrow> ending \<times> 'g" where
  "finish e p = (Return e, snd (RunCleanupFuncs (pr_cleanups p) (pr_state p)))"

text \<open>The common tail, from the process's logger to the deferred cleanup functions, for a server that is made by \<open>new\<close>,
  serves by \<open>serve\<close> and is stopped by \<open>stop\<close>.\<close>

definition run_app ::
  "('p, 'o, 'c, 'e, 'cfg, 's) boot_env \<Rightarrow> string \<Rightarrow> LogSettings \<Rightarrow>
     (('p, 'c, 'e, 's, 'z) globals_scheme process \<Rightarrow> (goerr option \<times> ('p, 'c, 'e, 's, 'z) globals_scheme process) option) \<Rightarrow>
     (('p, 'c, 'e, 's, 'z) globals_scheme process \<Rightarrow> goerr option \<times> ('p, 'c, 'e, 's, 'z) globals_scheme process) \<Rightarrow>
     ('s \<Rightarrow> goerr option \<times> 's) \<Rightarrow> ('p, 'c, 'e, 's, 'z) globals_scheme process \<Rightarrow>
     (ending \<times> ('p, 'c, 'e, 's, 'z) globals_scheme) option" where
  "run_app env kind lg new serve stop p =
     (case InitLogger (bv_log env)
             (service_log (ls_Level lg) (join_path [d_logDir (bv_dirs env), ''data.log'']) (ls_DisableStdlog lg)) of
        Inl e \<Rightarrow> Some (finish (Some (Errorf (''init global log failure, nest error: '' @ bv_Error env e))) p)
      | Inr logger \<Rightarrow>
          (case new (register_cleanup (Some (on_world (bv_Sync env logger))) p) of
             None \<Rightarrow> None
           | Some (Some e, p1) \<Rightarrow> Some (finish (Some (Errorf (''create '' @ kind @ ''server failure: '' @ bv_Error env e))) p1)
           | Some (None, p1) \<Rightarrow>
               (case serve p1 of
                  (Some e, p2) \<Rightarrow> Some (finish (Some (Errorf (''start '' @ kind @ ''server failure: '' @ bv_Error env e))) p2)
                | (None, p2) \<Rightarrow>
                    (let p3 = register_cleanup (Some (on_world stop)) p2 in
                     Some (finish None (p3\<lparr>pr_state := (pr_state p3)\<lparr>g_world := bv_serving env (g_world (pr_state p3))\<rparr>\<rparr>))))))"

definition run_server ::
  "('p, 'o, 'c, 'e, 'cfg, 's) boot_env \<Rightarrow> string \<Rightarrow> (network \<times> 'a CoreConfig_scheme) \<Rightarrow>
     (('p, 'c, 'e, 's) globals process \<Rightarrow> (goerr option \<times> ('p, 'c, 'e, 's) globals process) option) \<Rightarrow>
     ('p, 'c, 'e, 's) globals process \<Rightarrow> (ending \<times> ('p, 'c, 'e, 's) globals) option" where
  "run_server env kind nwcfg new p =
     (case nwcfg of (nw, cfg) \<Rightarrow> run_app env kind (cc_Log cfg) new (GRPC_Serve env nw cfg) (bv_Stop env) p)"

text \<open>What both entry points do with the parsed flags before they serve.\<close>

definition with_flags ::
  "('p, 'o, 'c, 'e, 'cfg, 's) boot_env \<Rightarrow> string list \<Rightarrow> ('p, 'c, 'e, 's, 'z) globals_scheme process \<Rightarrow>
     (Flags \<Rightarrow> (ending \<times> ('p, 'c, 'e, 's, 'z) globals_scheme) option) \<Rightarrow> (ending \<times> ('p, 'c, 'e, 's, 'z) globals_scheme) option" where
  "with_flags env args p serve =
     (case bv_Parse env args of
        Inl n \<Rightarrow> Some (Exit n, pr_state p)
      | Inr opts \<Rightarrow>
          if fg_Version opts then Some (Return None, pr_state p)
          else if fg_Daemon opts
          then case on_world (bv_Background env args) (pr_state p) of
                 (Some e, g) \<Rightarrow> Some (Return (Some (Errorf (''run daemon failure: '' @ bv_Error env e))), g)
               | (None, g) \<Rightarrow> Some (Return None, g)
          else serve opts)"

text \<open>\<open>personal-core\<close> parses the command line and reads its configuration with the flags.\<close>

definition core_Run ::
  "('p, 'o, 'c, 'e, CoreConfig, 's) boot_env \<Rightarrow> string list \<Rightarrow> ('p, 'c, 'e, 's) globals process \<Rightarrow>
     (ending \<times> ('p, 'c, 'e, 's) globals) option" where
  "core_Run env args p =
     with_flags env args p
       (\<lambda>opts. case ReadConfigFromFile (bv_config env) (d_etcDir (bv_dirs env)) core_DefaultConfig opts of
          Inl e \<Rightarrow> Some (finish (Some (Errorf (''load config failure: '' @ bv_Error env e))) p)
        | Inr (cfg, nw) \<Rightarrow> run_server env ''grpc '' (nw, cfg) (core_New env cfg) p)"

text \<open>\<open>personal-auth\<close> reads its configuration first, with \<open>flagsutil.Opts\<close> as it is before any parsing. The signing key is
  the one field of its own settings that matters here.\<close>

record AuthSrvConfig = CoreConfig +
  ac_SigningKey :: string

definition auth_Run ::
  "('p, 'o, 'c, 'e, AuthSrvConfig, 's) boot_env \<Rightarrow> AuthSrvConfig \<Rightarrow> string list \<Rightarrow> ('p, 'c, 'e, 's) globals process \<Rightarrow>
     (ending \<times> ('p, 'c, 'e, 's) globals) option" where
  "auth_Run env deflt args p =
     (case ReadConfigFromFile (bv_config env) (d_etcDir (bv_dirs env)) deflt Opts of
        Inl e \<Rightarrow> Some (Return (Some e), pr_state p)
      | Inr (cfg, nw) \<Rightarrow>
          with_flags env args p (\<lambda>opts. run_server env [] (nw, cfg) (auth_New env (ac_SigningKey cfg) cfg) p))"

end
