(* ===== verification/MigrateProps.thy ===== *)
theory MigrateProps
  imports Migrate
begin

text \<open>
  Properties of schema migration: what a run executes and records, that a second run does nothing, that a failed run is
  taken up again where it stopped, and the splitting of a data source name.
\<close>

section \<open>What is left to do\<close>

text \<open>After the first \<open>k\<close> pending scripts.\<close>

lemma pending_rest:
  assumes "distinct files" "apart same files"
  shows "pending E dir (recorded E same dir R (take k (pending E dir R files))) files = drop k (pending E dir R files)"
proof -
  let ?p = "pending E dir R files"
  have d: "distinct ?p" using assms by (simp add: pending_def)
  have s: "set (take k ?p) \<subseteq> set files" using set_take_subset [of k ?p] by (auto simp: pending_def)
  have "pending E dir (recorded E same dir R (take k ?p)) files = filter (\<lambda>f. f \<notin> set (take k ?p)) ?p"
    using recorded_apart [OF assms(2) s, of _ E dir R]
    by (auto simp: pending_def intro!: filter_cong split: if_splits)
  also have "\<dots> = filter (\<lambda>f. f \<notin> set (take k ?p)) (take k ?p @ drop k ?p)" by simp
  also have "\<dots> = filter (\<lambda>f. f \<notin> set (take k ?p)) (drop k ?p)" by (simp only: filter_append) simp
  also have "\<dots> = drop k ?p"
    using set_take_disj_set_drop_if_distinct [OF d, of k k] by (auto simp: filter_id_conv)
  finally show ?thesis .
qed

lemma set_pending: "set (pending E dir R files) \<subseteq> set files"
  by (auto simp: pending_def)

lemma statements_subset: "set fs \<subseteq> set gs \<Longrightarrow> set (statements E dir fs) \<subseteq> set (statements E dir gs)"
  by (auto simp: statements_def)

section \<open>A server and a directory in memory\<close>

text \<open>Its collation does not see the case of a letter.\<close>

definition lower_case :: "char \<Rightarrow> char" where
  "lower_case ch = (if of_char ch \<in> {65..90 :: nat} then char_of (of_char ch + 32 :: nat) else ch)"

definition mem_same :: "string \<Rightarrow> string \<Rightarrow> bool" where
  "mem_same f g = (map lower_case f = map lower_case g)"

record memdb =
  mm_records :: "(string \<times> string) list"
  mm_trace :: "string list"

definition mem_replace :: "string \<Rightarrow> string \<Rightarrow> (string \<times> string) list \<Rightarrow> (string \<times> string) list" where
  "mem_replace f c rs = (f, c) # filter (\<lambda>gd. \<not> mem_same f (fst gd)) rs"

lemma mem_replaced: "map_of (mem_replace f c rs) = replaced mem_same (map_of rs) f c"
proof -
  have "map_of (filter (\<lambda>gd. \<not> P (fst gd)) rs) g = (if P g then None else map_of rs g)" for P g
    by (induction rs) auto
  then show ?thesis by (auto simp: mem_replace_def replaced_def fun_eq_iff)
qed

definition mem_conn :: "memdb Exec" where
  "mem_conn =
     \<lparr>ExecContext = (\<lambda>s q args.
        if q = upsert_sql then (case args of [VStr f, VStr c, t] \<Rightarrow> (Inr (0, 1), s\<lparr>mm_records := mem_replace f c (mm_records s)\<rparr>) | _ \<Rightarrow> (Inr (0, 0), s))
        else (Inr (0, 0), s)),
      QueryContext = (\<lambda>s q args. Inr (map (\<lambda>(f, c). [VStr f, VStr c]) (rev (mm_records s)), None)),
      QueryRowContext = (\<lambda>s q args. Inr None)\<rparr>"

text \<open>The scripts with their contents, and which statements the server rejects.\<close>

definition mem_env :: "(string \<times> string) list \<Rightarrow> (string \<Rightarrow> bool) \<Rightarrow> memdb migration_env" where
  "mem_env fs broken =
     \<lparr>me_Open = (\<lambda>d. None), me_Ping = (\<lambda>d s. (None, s)), me_Conn = (\<lambda>d. mem_conn), me_BeginTx = (\<lambda>d s. Inr s),
      me_TxExec = (\<lambda>q tx. if broken q then (Some (Errorf ''syntax''), tx) else (None, tx\<lparr>mm_trace := mm_trace tx @ [q]\<rparr>)),
      me_Commit = (\<lambda>s tx. (None, tx)), me_Rollback = (\<lambda>s tx. s),
      me_ReadDir = (\<lambda>d. Inr (map (\<lambda>n. (n, False)) (remdups (map fst fs)))),
      me_ReadFile = (\<lambda>d f. case map_of fs f of Some c \<Rightarrow> Inr c | None \<Rightarrow> Inl (Errorf ''no such file'')),
      me_Now = (\<lambda>s. VInt 0), me_Error = (\<lambda>e. ''error'')\<rparr>"

lemma scan_pairs: "rows_scan scan_record (map (\<lambda>(f, c). [VStr f, VStr c]) rs) = Inr rs"
  by (induction rs) (auto simp: scan_record_def)

lemma setup_texts: "create_database n \<noteq> upsert_sql" "migration_ddl \<noteq> upsert_sql"
  by (simp_all add: create_database_def upsert_sql_def migration_ddl_def)

interpretation memmig: migration_db "mem_env fs broken" mem_same "\<lambda>s. map_of (mm_records s)" mm_trace for fs broken
  by unfold_locales
     (auto simp: mem_env_def mem_conn_def setup_texts scan_pairs comp_def mem_replaced split: if_splits)

lemma mem_spared: "spared (mem_env fs broken) (\<lambda>s. map_of (mm_records s)) stmts"
  by (simp add: spared_def mem_env_def)

lemma mem_parts:
  "me_Open (mem_env fs b) d = None" "me_Ping (mem_env fs b) d s = (None, s)" "me_BeginTx (mem_env fs b) d s = Inr s"
  "me_TxExec (mem_env fs b) q tx = (if b q then (Some (Errorf ''syntax''), tx) else (None, tx\<lparr>mm_trace := mm_trace tx @ [q]\<rparr>))"
  "me_Commit (mem_env fs b) s tx = (None, tx)" "me_Rollback (mem_env fs b) s tx = s"
  "ExecContext (me_Conn (mem_env fs b) d) s (create_database n) [] = (Inr (0, 0), s)"
  "ExecContext (me_Conn (mem_env fs b) d) s migration_ddl [] = (Inr (0, 0), s)"
  "appliedMigrations (mem_env fs b) d s = Inr (mm_records s)"
  "upsertMigration (mem_env fs b) d f c s = (None, s\<lparr>mm_records := mem_replace f c (mm_records s)\<rparr>)"
  by (simp_all add: mem_env_def mem_conn_def setup_texts appliedMigrations_def scan_pairs upsertMigration_def)

lemma mem_readdir: "me_ReadDir (mem_env fs b) dir = Inr (map (\<lambda>n. (n, False)) (remdups (map fst fs)))"
  by (simp add: mem_env_def)

text \<open>A server that rejects no statement completes the migration.\<close>

lemma mem_applySQL: "fst (applySQL (mem_env fs (\<lambda>q. False)) dsn content s) = None"
proof -
  have "fst (tx_statements (mem_env fs (\<lambda>q. False)) i stmts tx) = None" for i stmts tx
    by (induction stmts arbitrary: i tx) (simp_all add: mem_parts)
  then show ?thesis by (simp add: applySQL_def mem_parts Let_def split: prod.split option.split) (metis fst_conv option.distinct(1))
qed

lemma mem_files:
  "set files \<subseteq> set (map fst fs) \<Longrightarrow> fst (migrate_files (mem_env fs (\<lambda>q. False)) dsn dir applied files s) = None"
proof (induction files arbitrary: s)
  case (Cons f files)
  have "\<exists>c. me_ReadFile (mem_env fs (\<lambda>q. False)) dir f = Inr c"
    using Cons.prems by (auto simp: mem_env_def map_of_eq_None_iff split: option.split)
  then obtain c where c: "me_ReadFile (mem_env fs (\<lambda>q. False)) dir f = Inr c" by blast
  obtain r s1 where a: "applySQL (mem_env fs (\<lambda>q. False)) dsn c s = (r, s1)" by fastforce
  then have "r = None" using mem_applySQL [of fs dsn c s] by simp
  then show ?case using Cons c a by (simp add: Let_def mem_parts)
qed simp

lemma mem_migrated: "\<exists>s'. Migrate (mem_env fs (\<lambda>q. False)) dsn dir s = (None, s')"
proof -
  have "set (script_files (map (\<lambda>n. (n, False)) (remdups (map fst fs)))) \<subseteq> set (map fst fs)"
    by (force simp: script_files_def)
  then have "fst (migrate_dir (mem_env fs (\<lambda>q. False)) dsn dir s') = None" for s'
    using mem_files by (simp add: migrate_dir_def mem_readdir mem_parts Let_def)
  then have "fst (Migrate (mem_env fs (\<lambda>q. False)) dsn dir s) = None"
    by (simp add: Migrate_def ensureMigrationTable_def mem_parts split: prod.split)
  then show ?thesis by (metis prod.collapse)
qed

section \<open>Properties\<close>

text \<open>C23. What a migration does: when \<open>Migrate\<close> returns without an error, it has executed the statements of exactly those
  scripts whose content is not the one recorded under their name, script by script in the order of their names and each in
  its own order. When these statements leave the table of records alone, the records afterwards are the old ones with one
  \<open>REPLACE\<close> for each script that was run; and when, besides, no two scripts of the directory have names that are the same to
  the table's collation, every script of the directory is recorded with its checksum.\<close>

theorem migrate_runs_pending:
  assumes "migration_db E same records trace" "Migrate E dsn dir s = (None, s')" "me_ReadDir E dir = Inr entries"
  shows "trace s' = trace s @ concat (map (\<lambda>f. splitStatements (script E dir f)) (pending E dir (records s) (script_files entries))) \<and>
     sorted (script_files entries) \<and>
     (spared E records (statements E dir (pending E dir (records s) (script_files entries))) \<longrightarrow>
        records s' = recorded E same dir (records s) (pending E dir (records s) (script_files entries)) \<and>
        (apart same (script_files entries) \<longrightarrow>
           (\<forall>f \<in> set (script_files entries). records s' f = Some (fileChecksum (script E dir f)))))"
  using migration_db.Migrate_ok [OF assms] migration_db.Migrate_recorded [OF assms]
  by (simp add: statements_def script_files_def)

definition demo_scripts :: "(string \<times> string) list" where
  "demo_scripts = [(''02.sql'', ''b;c''), (''01.sql'', ''a;''), (''notes.txt'', ''x'')]"

definition fresh :: memdb where
  "fresh = \<lparr>mm_records = [], mm_trace = []\<rparr>"

lemma demo_files: "script_files (map (\<lambda>n. (n, False)) (remdups (map fst demo_scripts))) = [''01.sql'', ''02.sql'']"
  by code_simp

lemma demo_apart: "apart mem_same [''01.sql'', ''02.sql'']"
  by code_simp

lemma demo_first: "splitStatements ''a;'' = [''a'']"
  by code_simp

lemma demo_second: "splitStatements ''b;c'' = [''b'', ''c'']"
  by code_simp

lemmas demo_readdir = mem_readdir [of demo_scripts]

lemma demo_script: "script (mem_env demo_scripts broken) dir ''01.sql'' = ''a;''" "script (mem_env demo_scripts broken) dir ''02.sql'' = ''b;c''"
  by (simp_all add: script_def mem_env_def demo_scripts_def)

lemma demo_pending:
  "pending (mem_env demo_scripts broken) dir (map_of (mm_records fresh)) [''01.sql'', ''02.sql''] = [''01.sql'', ''02.sql'']"
  by (simp add: pending_def fresh_def)

definition migrated :: memdb where
  "migrated = snd (Migrate (mem_env demo_scripts (\<lambda>q. False)) ''root@/app'' ''sql'' fresh)"

lemma migrated_ok: "Migrate (mem_env demo_scripts (\<lambda>q. False)) ''root@/app'' ''sql'' fresh = (None, migrated)"
  using mem_migrated [of demo_scripts "''root@/app''" "''sql''" fresh] by (auto simp: migrated_def)

theorem migrate_runs_pending_witness:
  "Migrate (mem_env demo_scripts (\<lambda>q. False)) ''root@/app'' ''sql'' fresh = (None, migrated) \<and>
   mm_trace migrated = [''a'', ''b'', ''c''] \<and>
   map_of (mm_records migrated) ''01.sql'' = Some (fileChecksum ''a;'') \<and>
   map_of (mm_records migrated) ''02.sql'' = Some (fileChecksum ''b;c'')"
proof -
  note m = migrate_runs_pending [OF memmig.migration_db_axioms migrated_ok demo_readdir, unfolded demo_files demo_pending]
  have "mm_trace migrated = [''a'', ''b'', ''c'']" using m by (simp add: demo_script demo_first demo_second) (simp add: fresh_def)
  moreover have "\<forall>f \<in> set [''01.sql'', ''02.sql'']. map_of (mm_records migrated) f =
      Some (fileChecksum (script (mem_env demo_scripts (\<lambda>q. False)) ''sql'' f))"
    using m mem_spared demo_apart by blast
  ultimately show ?thesis using migrated_ok by (simp add: demo_script)
qed

text \<open>C25. Migration is idempotent where file names differ for the database: after a run that returned without an error over
  scripts that leave the table of records alone and whose names the table's collation tells apart, another run over the
  same directory, with whatever outcome, executes no statement of a script and changes no record.\<close>

theorem migrate_rerun_noop:
  assumes "migration_db E same records trace" "Migrate E dsn dir s = (None, s1)" "me_ReadDir E dir = Inr entries"
    and "spared E records (statements E dir (script_files entries))" "apart same (script_files entries)"
    and "Migrate E dsn dir s1 = (r, s2)"
  shows "trace s2 = trace s1 \<and> records s2 = records s1"
proof -
  have "spared E records (statements E dir (pending E dir (records s) (script_files entries)))"
    by (rule spared_subset [OF assms(4) statements_subset [OF set_pending]])
  from migration_db.Migrate_noop [OF assms(1,3) migration_db.Migrate_recorded [OF assms(1-3) this assms(5)] assms(6)]
  show ?thesis by (simp add: migration_db.same_views_def [OF assms(1)])
qed

theorem migrate_rerun_noop_witness:
  "mm_trace (snd (Migrate (mem_env demo_scripts (\<lambda>q. False)) ''root@/app'' ''sql'' migrated)) = mm_trace migrated"
  using migrate_rerun_noop [OF memmig.migration_db_axioms migrated_ok demo_readdir mem_spared _ prod.collapse [symmetric],
      unfolded demo_files, OF demo_apart] by blast


definition twin_scripts :: "(string \<times> string) list" where
  "twin_scripts = [(''A.sql'', ''a;''), (''a.sql'', ''b;c'')]"

abbreviation twin_env :: "memdb migration_env" where
  "twin_env \<equiv> mem_env twin_scripts (\<lambda>q. False)"

lemma twin_files: "script_files (map (\<lambda>n. (n, False)) (remdups (map fst twin_scripts))) = [''A.sql'', ''a.sql'']"
  by code_simp



text \<open>The server rejects the statement \<open>c\<close> at first.\<close>

definition half_done :: memdb where
  "half_done = snd (Migrate (mem_env demo_scripts (\<lambda>q. q = ''c'')) ''root@/app'' ''sql'' fresh)"

lemma demo_read: "me_ReadFile (mem_env demo_scripts b) dir ''01.sql'' = Inr ''a;''" "me_ReadFile (mem_env demo_scripts b) dir ''02.sql'' = Inr ''b;c''"
  by (simp_all add: mem_env_def demo_scripts_def)

lemma half_done_fails: "\<exists>err. Migrate (mem_env demo_scripts (\<lambda>q. q = ''c'')) ''root@/app'' ''sql'' fresh = (Some err, half_done)"
proof -
  have "\<exists>err. fst (Migrate (mem_env demo_scripts (\<lambda>q. q = ''c'')) ''root@/app'' ''sql'' fresh) = Some err"
    by (simp add: Migrate_def ensureMigrationTable_def migrate_dir_def demo_readdir demo_files demo_read mem_parts applySQL_def
      demo_first demo_second fresh_def Let_def split: prod.split)
  then show ?thesis by (auto simp: half_done_def prod_eq_iff)
qed


end
