(* ===== verification/ProcessProps.thy ===== *)
theory ProcessProps
  imports Process MigrateProps
begin

text \<open>
  What the life of a process comes to: where a binary finds its files, what the command line does, that start-up ends,
  and that whatever was opened is closed, after the service has stopped, however far start-up got.
\<close>

section \<open>Directories\<close>

text \<open>A binary in a \<open>bin\<close> directory has its other directories beside it, any other binary below its own.\<close>

lemma HasSuffix_app: "HasSuffix (s @ t) t"
  by (simp add: HasSuffix_def)

lemma LoadRuntime_bin:
  assumes "\<forall>x \<in> set segs. plain_seg x" "segs \<noteq> []" "plain_seg name"
  shows "LoadRuntime (Inr p) (\<lambda>_. Inr (abs_path (segs @ [''bin'', name]))) =
     Inr \<lparr>d_rootDir = abs_path segs, d_etcDir = abs_path (segs @ [''etc'']), d_appDir = abs_path (segs @ [''app'']),
          d_usrDir = abs_path (segs @ [''usr'']), d_varDir = abs_path (segs @ [''var'']), d_logDir = abs_path (segs @ [''log'']),
          d_boxDir = abs_path (segs @ [''box'']), d_execDir = abs_path (segs @ [''bin''])\<rparr>"
proof -
  have n: "plain_seg ''bin''" "plain_seg ''etc''" "plain_seg ''app''" "plain_seg ''usr''" "plain_seg ''var''" "plain_seg ''log''" "plain_seg ''box''"
    by (simp_all add: plain_seg_def slash_def)
  have "Dir (abs_path ((segs @ [''bin'']) @ [name])) = abs_path (segs @ [''bin''])"
    using assms n by (intro Dir_abs_path) auto
  moreover have "HasSuffix (abs_path (segs @ [''bin''])) ''/bin''"
    using assms(2) HasSuffix_app [of "slash # Join segs [slash]" "''/bin''"] by (simp add: abs_path_def Join_snoc slash_def)
  moreover have "Dir (abs_path (segs @ [''bin''])) = abs_path segs" using assms n by (intro Dir_abs_path) auto
  moreover have "join_path [abs_path segs, CHR ''/'' # x] = abs_path (segs @ [x])" if "plain_seg x" for x
    using join_path_abs(1) [OF assms(1) that] by (simp add: slash_def)
  ultimately show ?thesis using n by (simp add: LoadRuntime_def)
qed

section \<open>Start-up ends\<close>

definition retries_ok :: "'a CoreConfig_scheme \<Rightarrow> bool" where
  "retries_ok cfg \<longleftrightarrow> my_StartupRetryTimes (cc_MySQL cfg) < 2 ^ 63 - 1 \<and> re_StartupRetryTimes (cc_Redis cfg) < 2 ^ 63 - 1 \<and>
     et_StartupRetryTimes (cc_Etcd cfg) < 2 ^ 63 - 1"

lemma connect_loop_returns: "retry < 2 ^ 63 - 1 \<Longrightarrow> \<exists>r s'. connect_loop build sleep retry 1 s = Some (r, s')"
  using connect_loop_attempts [of 1 retry "nat (retry - 1)" build sleep s] by (cases "attempts build sleep (nat (retry - 1)) s") simp

lemma mysql_returns: "my_StartupRetryTimes c < 2 ^ 63 - 1 \<Longrightarrow> \<exists>r s'. mysql_tryConnect d sleep c s = Some (r, s')"
  unfolding mysql_tryConnect_def by (rule connect_loop_returns)

lemma redis_returns: "re_StartupRetryTimes c < 2 ^ 63 - 1 \<Longrightarrow> \<exists>r s'. redis_tryConnect d sleep c s = Some (r, s')"
  unfolding redis_tryConnect_def by (rule connect_loop_returns)

lemma etcd_returns: "et_StartupRetryTimes c < 2 ^ 63 - 1 \<Longrightarrow> \<exists>r s'. etcd_tryConnect d sleep c s = Some (r, s')"
proof -
  assume c: "et_StartupRetryTimes c < 2 ^ 63 - 1"
  obtain r s1 where n: "ed_New d (et_Endpoints c) (et_ConnectTimeout c) s = (r, s1)" by fastforce
  show ?thesis
  proof (cases r)
    case (Inr client)
    let ?b = "\<lambda>t. case statusClient d client (et_ConnectTimeout c) t of (None, t1) \<Rightarrow> (Inr client, t1) | (Some e, t1) \<Rightarrow> (Inl e, t1)"
    obtain r' s2 where "connect_loop ?b (sleep (et_StartupRetryPeriod c)) (et_StartupRetryTimes c) 1 s1 = Some (r', s2)"
      using connect_loop_returns [OF c, where build = ?b and sleep = "sleep (et_StartupRetryPeriod c)" and s = s1] by blast
    then show ?thesis using n Inr by (cases r') (simp_all add: etcd_tryConnect_def)
  qed (simp add: etcd_tryConnect_def n)
qed

section \<open>What is opened is closed\<close>

lemma on_world_keeps:
  "g_DB (snd (on_world f g)) = g_DB g" "g_Redis (snd (on_world f g)) = g_Redis g" "g_Etcd (snd (on_world f g)) = g_Etcd g"
  by (auto simp: on_world_def split: prod.split)

lemma on_world_stores:
  "on_world f g = (e, g') \<Longrightarrow> g_DB g' = g_DB g \<and> g_Redis g' = g_Redis g \<and> g_Etcd g' = g_Etcd g"
  using on_world_keeps [of f g] by simp

lemma register_cleanup_simps [simp]:
  "pr_state (register_cleanup f p) = pr_state p" "pr_cleanups (register_cleanup f p) = pr_cleanups p @ [f]"
  by (simp_all add: register_cleanup_def RegisterCleanupFuncs_def)

text \<open>\<open>shutdown\<close>: what tracing hands over, a function that does nothing or the one the provider made. The closing functions of the stores that are open, in the order the stores were opened, and the list of cleanup
  functions of a process: those of the loggers \<open>lgs\<close> come before them, the shutdown \<open>trs\<close> of the traces and the loggers \<open>accs\<close>
  of the access log after them.\<close>

definition closers :: "('p, 'o, 'c, 'e, 'cfg, 's) boot_env \<Rightarrow> ('p, 'c, 'e, 's) globals \<Rightarrow> ('p, 'c, 'e, 's) globals cleanup list" where
  "closers env g =
     (if g_DB g = None then [] else [Some (CloseMySQL (bv_sqlClose env))]) @
     (if g_Redis g = None then [] else [Some (CloseRedis (bv_redisClose env))]) @
     (if g_Etcd g = None then [] else [Some (CloseEtcd (ed_Close (bv_etcd env)))])"

abbreviation worldly :: "('s \<Rightarrow> goerr option \<times> 's) list \<Rightarrow> ('p, 'c, 'e, 's) globals cleanup list" where
  "worldly fs \<equiv> map (\<lambda>f. Some (on_world f)) fs"

definition shutdown :: "('p, 'o, 'c, 'e, 'cfg, 's) boot_env \<Rightarrow> ('s \<Rightarrow> goerr option \<times> 's) \<Rightarrow> bool" where
  "shutdown env f \<longleftrightarrow> f = (\<lambda>s. (None, s)) \<or> (\<exists>c s s'. bv_NewTraceProvider env c s = (Inr f, s'))"

definition shaped ::
  "('p, 'o, 'c, 'e, 'cfg, 's) boot_env \<Rightarrow> Logger list \<Rightarrow> ('s \<Rightarrow> goerr option \<times> 's) list \<Rightarrow> Logger list \<Rightarrow>
     ('p, 'c, 'e, 's) globals process \<Rightarrow> bool" where
  "shaped env lgs trs accs p \<longleftrightarrow>
     pr_cleanups p = worldly (map (bv_Sync env) lgs) @ closers env (pr_state p) @ worldly trs @ worldly (map (bv_Sync env) accs) \<and>
     length lgs \<le> 1 \<and> length trs \<le> 1 \<and> length accs \<le> 1 \<and> (\<forall>f \<in> set trs. shutdown env f)"

definition same_stores :: "('p, 'c, 'e, 's) globals \<Rightarrow> ('p, 'c, 'e, 's) globals \<Rightarrow> bool" where
  "same_stores g g' \<longleftrightarrow> g_DB g' = g_DB g \<and> g_Redis g' = g_Redis g \<and> g_Etcd g' = g_Etcd g"

lemma shaped_state: "shaped env lgs trs accs p \<Longrightarrow> same_stores (pr_state p) g \<Longrightarrow> shaped env lgs trs accs (p\<lparr>pr_state := g\<rparr>)"
  by (simp add: shaped_def closers_def same_stores_def)

definition none_open :: "('p, 'c, 'e, 's) globals \<Rightarrow> bool" where
  "none_open g \<longleftrightarrow> g_DB g = None \<and> g_Redis g = None \<and> g_Etcd g = None"

definition all_open :: "('p, 'c, 'e, 's) globals \<Rightarrow> bool" where
  "all_open g \<longleftrightarrow> g_DB g \<noteq> None \<and> g_Redis g \<noteq> None \<and> g_Etcd g \<noteq> None"

text \<open>The last component, tracing, leaves the stores as they are and registers at most its shutdown.\<close>

definition tracing :: "('p, 'o, 'c, 'e, 'cfg, 's) boot_env \<Rightarrow> ('p, 'c, 'e, 's) globals initializer \<Rightarrow> bool" where
  "tracing env fn \<longleftrightarrow> (\<forall>g. \<exists>r g'. fn g = Some (r, g') \<and> same_stores g g' \<and>
     (case r of Inl e \<Rightarrow> True | Inr close \<Rightarrow> close = None \<or> (\<exists>f. close = Some (on_world f) \<and> shutdown env f)))"

lemma tracing_provider:
  "tracing env (InitTraceProvider env c)" "tracing env (\<lambda>g. if \<not> tc_Enable c then Some (Inr None, g) else InitTraceProvider env c g)"
  by (auto simp: tracing_def InitTraceProvider_def same_stores_def shutdown_def split: prod.split sum.split)

lemma trace_shaped:
  assumes "tracing env fn" "shaped env lgs [] [] p" "all_open (pr_state p)"
  shows "\<exists>e p1 trs. initComponents err [(name, fn)] p = Some (e, p1) \<and> shaped env lgs trs [] p1 \<and> all_open (pr_state p1)"
proof -
  obtain r g where f: "fn (pr_state p) = Some (r, g)" "same_stores (pr_state p) g"
    "case r of Inl e \<Rightarrow> True | Inr close \<Rightarrow> close = None \<or> (\<exists>f. close = Some (on_world f) \<and> shutdown env f)"
    using assms(1) unfolding tracing_def by blast
  have g: "all_open g" using f(2) assms(3) by (simp add: all_open_def same_stores_def)
  have c: "shaped env lgs [] [] (p\<lparr>pr_state := g\<rparr>)" by (rule shaped_state [OF assms(2) f(2)])
  show ?thesis
  proof (cases r)
    case (Inl e)
    then show ?thesis using f(1) g c by (auto simp: initComponent_def)
  next
    case (Inr close)
    show ?thesis
    proof (cases close)
      case None
      then show ?thesis using Inr f(1) g c by (auto simp: initComponent_def)
    next
      case (Some h)
      then obtain w where "close = Some (on_world w)" "shutdown env w" using f(3) Inr by auto
      then have "shaped env lgs [w] [] (p\<lparr>pr_state := g, pr_cleanups := RegisterCleanupFuncs [close] (pr_cleanups p)\<rparr>)"
        using c by (simp add: shaped_def RegisterCleanupFuncs_def)
      then show ?thesis using Some Inr f(1) g by (auto simp: initComponent_def)
    qed
  qed
qed

text \<open>One store after the other: a failure leaves the stores before it open.\<close>

lemma stores_shaped:
  assumes ok: "retries_ok cfg" and tr: "tracing env trace" and p: "shaped env lgs [] [] p" "none_open (pr_state p)"
  shows "\<exists>e p1 trs. initComponents err
     [(''mysql'', InitMySQL env (cc_MySQL cfg)), (''redis'', InitRedis env (cc_Redis cfg)), (''etcd'', InitEtcd env (cc_Etcd cfg)),
      (''opentrace'', trace)] p = Some (e, p1) \<and> shaped env lgs trs [] p1 \<and> (e = None \<longrightarrow> all_open (pr_state p1))"
proof -
  have c: "pr_cleanups p = worldly (map (bv_Sync env) lgs)" "length lgs \<le> 1" and
      n: "g_DB (pr_state p) = None" "g_Redis (pr_state p) = None" "g_Etcd (pr_state p) = None"
    using p by (auto simp: shaped_def closers_def none_open_def)
  obtain r1 s1 where m: "mysql_tryConnect (bv_sql env) (bv_sleep env) (cc_MySQL cfg) (g_world (pr_state p)) = Some (r1, s1)"
    using mysql_returns [of "cc_MySQL cfg" "bv_sql env" "bv_sleep env"] ok by (fastforce simp: retries_ok_def)
  show ?thesis
  proof (cases r1)
    case (Inl e)
    then show ?thesis using m n c
      by (simp add: initComponent_def InitMySQL_def shaped_def closers_def)
  next
    case (Inr pool)
    obtain r2 s2 where rd: "redis_tryConnect (bv_redis env) (bv_sleep env) (cc_Redis cfg) s1 = Some (r2, s2)"
      using redis_returns [of "cc_Redis cfg" "bv_redis env" "bv_sleep env"] ok by (fastforce simp: retries_ok_def)
    show ?thesis
    proof (cases r2)
      case (Inl e)
      then show ?thesis using m n c Inr rd
        by (simp add: initComponent_def InitMySQL_def InitRedis_def shaped_def closers_def RegisterCleanupFuncs_def)
    next
      case (Inr client)
      obtain r3 s3 where ec: "etcd_tryConnect (bv_etcd env) (bv_sleep env) (cc_Etcd cfg) s2 = Some (r3, s3)"
        using etcd_returns [of "cc_Etcd cfg" "bv_etcd env" "bv_sleep env"] ok by (fastforce simp: retries_ok_def)
      show ?thesis
      proof (cases r3)
        case (Inl e)
        then show ?thesis using m n c \<open>r1 = Inr pool\<close> rd Inr ec
          by (simp add: initComponent_def InitMySQL_def InitRedis_def InitEtcd_def shaped_def closers_def RegisterCleanupFuncs_def)
      next
        case (Inr eclient)
        let ?p = "p\<lparr>pr_state := (pr_state p)\<lparr>g_DB := Some pool, g_Redis := Some client, g_Etcd := Some eclient, g_world := s3\<rparr>,
          pr_cleanups := worldly (map (bv_Sync env) lgs) @ [Some (CloseMySQL (bv_sqlClose env)), Some (CloseRedis (bv_redisClose env)),
            Some (CloseEtcd (ed_Close (bv_etcd env)))]\<rparr>"
        have "shaped env lgs [] [] ?p" "all_open (pr_state ?p)" using c(2) by (simp_all add: shaped_def closers_def all_open_def)
        note t = trace_shaped [OF tr this, of err "''opentrace''"]
        have "initComponents err [(''mysql'', InitMySQL env (cc_MySQL cfg)), (''redis'', InitRedis env (cc_Redis cfg)),
            (''etcd'', InitEtcd env (cc_Etcd cfg)), (''opentrace'', trace)] p = initComponents err [(''opentrace'', trace)] ?p"
          using m n c \<open>r1 = Inr pool\<close> rd \<open>r2 = Inr client\<close> ec Inr
          by (simp add: initComponent_def InitMySQL_def InitRedis_def InitEtcd_def RegisterCleanupFuncs_def del: initComponents.simps(2))
             (simp add: initComponent_def InitMySQL_def InitRedis_def InitEtcd_def RegisterCleanupFuncs_def)
        then show ?thesis using t by metis
      qed
    qed
  qed
qed

lemma open_stores_shaped:
  assumes "retries_ok cfg" "tracing env trace" "shaped env lgs [] [] p" "none_open (pr_state p)"
  shows "\<exists>e p1 trs. open_stores env cfg [(''opentrace'', trace)] p = Some (e, p1) \<and> shaped env lgs trs [] p1 \<and>
     (e = None \<longrightarrow> all_open (pr_state p1))"
proof -
  obtain e g where w: "on_world (bv_WriteEmbedFS env (d_usrDir (bv_dirs env))) (pr_state p) = (e, g)" by fastforce
  obtain e1 g1 where m: "on_world (initSchema env (cc_MySQL cfg)) g = (e1, g1)" by fastforce
  have s: "same_stores (pr_state p) g" "same_stores (pr_state p) g1"
    using on_world_stores [OF w] on_world_stores [OF m] by (simp_all add: same_stores_def)
  note c = shaped_state [OF assms(3) s(1)] shaped_state [OF assms(3) s(2)]
  have n: "none_open (pr_state (p\<lparr>pr_state := g1\<rparr>))" using s(2) assms(4) by (simp add: same_stores_def none_open_def)
  show ?thesis
  proof (cases "e = None \<and> e1 = None")
    case True
    then show ?thesis using stores_shaped [OF assms(1,2) c(2) n, of "bv_Error env"] w m by (simp add: open_stores_def)
  next
    case False
    then show ?thesis using w m c by (cases e; cases e1) (auto simp: open_stores_def)
  qed
qed

definition server_new ::
  "('p, 'o, 'c, 'e, 'cfg, 's) boot_env \<Rightarrow>
     (('p, 'c, 'e, 's) globals process \<Rightarrow> (goerr option \<times> ('p, 'c, 'e, 's) globals process) option) \<Rightarrow> bool" where
  "server_new env new \<longleftrightarrow> (\<forall>lgs p. shaped env lgs [] [] p \<and> none_open (pr_state p) \<longrightarrow>
     (\<exists>e p1 trs. new p = Some (e, p1) \<and> shaped env lgs trs [] p1 \<and> (e = None \<longrightarrow> all_open (pr_state p1))))"

lemma core_New_server: "retries_ok cfg \<Longrightarrow> server_new env (core_New env cfg)"
  unfolding server_new_def core_New_def using open_stores_shaped [OF _ tracing_provider(2)] by blast

lemma auth_New_server: "retries_ok cfg \<Longrightarrow> server_new env (auth_New env key cfg)"
  unfolding server_new_def
proof (intro allI impI)
  fix lgs p assume a: "retries_ok cfg" "shaped env lgs [] [] p \<and> none_open (pr_state p)"
  obtain e p1 trs where o: "open_stores env cfg [(''opentrace'', InitTraceProvider env (cc_Opentrace cfg))] p = Some (e, p1)"
      "shaped env lgs trs [] p1" "e = None \<longrightarrow> all_open (pr_state p1)"
    using open_stores_shaped [OF a(1) tracing_provider(1) a(2) [THEN conjunct1] a(2) [THEN conjunct2], of "cc_Opentrace cfg"] by blast
  then show "\<exists>e p1 trs. auth_New env key cfg p = Some (e, p1) \<and> shaped env lgs trs [] p1 \<and> (e = None \<longrightarrow> all_open (pr_state p1))"
    by (cases e) (auto simp: auth_New_def)
qed

section \<open>Serving and the end\<close>

lemma GRPC_Serve_shaped:
  assumes "shaped env lgs trs [] p" "all_open (pr_state p)"
  shows "\<exists>e p2 accs. GRPC_Serve env nw cfg p = (e, p2) \<and> shaped env lgs trs accs p2 \<and> all_open (pr_state p2) \<and> (e = None \<longrightarrow> accs \<noteq> [])"
proof (cases "InitLogger (bv_log env)
    (service_log (ls_Level (cc_Log cfg)) (join_path [d_logDir (bv_dirs env), ''access.log'']) (ls_DisableStdlog (cc_Log cfg)))")
  case (Inr lg)
  let ?p = "register_cleanup (Some (on_world (bv_Sync env lg))) p"
  have c: "shaped env lgs trs [lg] ?p" using assms(1) by (simp add: shaped_def)
  obtain e g where l: "on_world (bv_Listen env (JoinHostPort (nc_BindIP (cc_Network cfg)) (itoa (nc_BindPort (cc_Network cfg))))) (pr_state ?p) = (e, g)"
    by fastforce
  note g = on_world_stores [OF l]
  obtain client where cl: "g_Etcd g = Some client" using g assms(2) by (auto simp: all_open_def)
  obtain e1 g1 where r: "on_world (bv_Register env client (nw_accessIP nw) (nc_BindPort (cc_Network cfg)) 10) g = (e1, g1)" by fastforce
  have "shaped env lgs trs [lg] (?p\<lparr>pr_state := g\<rparr>)" "shaped env lgs trs [lg] (?p\<lparr>pr_state := g1\<rparr>)"
    using g on_world_stores [OF r] by (auto intro!: shaped_state [OF c] simp: same_stores_def)
  moreover have "all_open g" "all_open g1" using g on_world_stores [OF r] assms(2) by (auto simp: all_open_def)
  ultimately show ?thesis using Inr l cl r by (cases e) (fastforce simp: GRPC_Serve_def Let_def)+
qed (use assms in \<open>auto simp: GRPC_Serve_def\<close>)

lemma run_server_shaped:
  assumes new: "server_new env new" and p: "pr_cleanups p = []" "none_open (pr_state p)"
  shows "\<exists>e p2 p3 lgs trs accs. run_server env kind (nw, cfg) new p = Some (finish e p2) \<and> shaped env lgs trs accs p3 \<and>
     pr_state p2 = pr_state p3 \<and>
     pr_cleanups p2 = pr_cleanups p3 @ worldly (if e = None then [bv_Stop env] else []) \<and>
     (e = None \<longrightarrow> all_open (pr_state p2) \<and> lgs \<noteq> [] \<and> accs \<noteq> [])"
proof (cases "InitLogger (bv_log env)
    (service_log (ls_Level (cc_Log cfg)) (join_path [d_logDir (bv_dirs env), ''data.log'']) (ls_DisableStdlog (cc_Log cfg)))")
  case (Inl e)
  have "shaped env [] [] [] p" using p by (simp add: shaped_def closers_def none_open_def)
  then show ?thesis using Inl by (fastforce simp: run_server_def run_app_def)
next
  case (Inr lg)
  let ?p = "register_cleanup (Some (on_world (bv_Sync env lg))) p"
  have "shaped env [lg] [] [] ?p" "none_open (pr_state ?p)" using p by (simp_all add: shaped_def closers_def none_open_def)
  then obtain e p1 trs where n: "new ?p = Some (e, p1)" "shaped env [lg] trs [] p1" "e = None \<longrightarrow> all_open (pr_state p1)"
    using new unfolding server_new_def by blast
  show ?thesis
  proof (cases e)
    case (Some x)
    then show ?thesis using Inr n by (fastforce simp: run_server_def run_app_def)
  next
    case None
    obtain e2 p2 accs where s: "GRPC_Serve env nw cfg p1 = (e2, p2)" "shaped env [lg] trs accs p2" "all_open (pr_state p2)" "e2 = None \<longrightarrow> accs \<noteq> []"
      using GRPC_Serve_shaped [OF n(2)] n(3) None by blast
    show ?thesis
    proof (cases e2)
      case (Some x)
      then show ?thesis using Inr n(1) None s by (fastforce simp: run_server_def run_app_def)
    next
      case serving: None
      let ?g = "(pr_state p2)\<lparr>g_world := bv_serving env (g_world (pr_state p2))\<rparr>"
      let ?p4 = "(register_cleanup (Some (on_world (bv_Stop env))) p2)\<lparr>pr_state := ?g\<rparr>"
      have "run_server env kind (nw, cfg) new p = Some (finish None ?p4)"
        using Inr n(1) None s(1) serving by (simp add: run_server_def run_app_def Let_def)
      moreover have "shaped env [lg] trs accs (p2\<lparr>pr_state := ?g\<rparr>)" by (rule shaped_state [OF s(2)]) (simp add: same_stores_def)
      moreover have "all_open (pr_state ?p4)" using s(3) by (simp add: all_open_def)
      ultimately show ?thesis using s(4) serving
        by (intro exI [of _ None] exI [of _ ?p4] exI [of _ "p2\<lparr>pr_state := ?g\<rparr>"] exI [of _ "[lg]"] exI [of _ trs] exI [of _ accs]) simp
    qed
  qed
qed

text \<open>Running the cleanup functions, seen from the world.\<close>

definition run_all :: "('s \<Rightarrow> goerr option \<times> 's) list \<Rightarrow> 's \<Rightarrow> 's" where
  "run_all fs s = foldl (\<lambda>s f. snd (f s)) s fs"

definition closing :: "('c \<Rightarrow> 's \<Rightarrow> goerr option \<times> 's) \<Rightarrow> 'c option \<Rightarrow> ('s \<Rightarrow> goerr option \<times> 's) list" where
  "closing close store = (case store of None \<Rightarrow> [] | Some c \<Rightarrow> [close c])"

lemma run_all_simps [simp]: "run_all [] s = s" "run_all (f # fs) s = run_all fs (snd (f s))"
    "run_all (fs @ gs) s = run_all gs (run_all fs s)"
  by (simp_all add: run_all_def)

lemma run_from_step: "snd (run_from (f # fs) g) = snd (run_from fs (case f of None \<Rightarrow> g | Some h \<Rightarrow> snd (h g)))"
  by (auto split: option.split prod.split)

lemma run_from_append: "snd (run_from (xs @ ys) g) = snd (run_from ys (snd (run_from xs g)))"
  by (induction xs arbitrary: g) (simp_all add: run_from_step del: run_from.simps(2))

lemma run_worldly: "snd (run_from (worldly fs) g) = g\<lparr>g_world := run_all fs (g_world g)\<rparr>"
  by (induction fs arbitrary: g) (simp_all add: run_from_step on_world_def split_beta del: run_from.simps(2))

lemma run_closers:
  "same_stores g g' \<Longrightarrow>
   g_world (snd (run_from (rev (closers env g)) g')) =
     run_all (closing (ed_Close (bv_etcd env)) (g_Etcd g) @ closing (bv_redisClose env) (g_Redis g) @ closing (bv_sqlClose env) (g_DB g))
       (g_world g') \<and>
   g_Etcd (snd (run_from (rev (closers env g)) g')) = None"
  by (cases "g_DB g"; cases "g_Redis g"; cases "g_Etcd g")
     (auto simp: closers_def closing_def same_stores_def CloseMySQL_def CloseRedis_def CloseEtcd_def on_world_def run_from_step
       split: prod.split option.split simp del: run_from.simps(2))

lemma rev_short: "length xs \<le> 1 \<Longrightarrow> rev xs = xs"
  by (cases xs) simp_all

lemma finish_world:
  assumes "shaped env lgs trs accs p3" "pr_state p2 = pr_state p3"
    and "pr_cleanups p2 = pr_cleanups p3 @ worldly (if e = None then [stop] else [])"
  shows "g_world (snd (finish e p2)) =
     run_all ((if e = None then [stop] else []) @ map (bv_Sync env) accs @ trs @
         closing (ed_Close (bv_etcd env)) (g_Etcd (pr_state p2)) @ closing (bv_redisClose env) (g_Redis (pr_state p2)) @
         closing (bv_sqlClose env) (g_DB (pr_state p2)) @ map (bv_Sync env) lgs) (g_world (pr_state p2)) \<and>
     g_Etcd (snd (finish e p2)) = None"
proof -
  let ?first = "(if e = None then [stop] else []) @ map (bv_Sync env) accs @ trs"
  let ?g = "(pr_state p2)\<lparr>g_world := run_all ?first (g_world (pr_state p2))\<rparr>"
  have sh: "length lgs \<le> 1" "length trs \<le> 1" "length accs \<le> 1" using assms(1) by (auto simp: shaped_def)
  have "rev (pr_cleanups p2) = worldly ?first @ rev (closers env (pr_state p2)) @ worldly (map (bv_Sync env) lgs)"
    using assms sh by (simp add: shaped_def rev_map [symmetric] rev_short)
  then have f: "snd (finish e p2) =
      snd (run_from (worldly (map (bv_Sync env) lgs)) (snd (run_from (rev (closers env (pr_state p2))) ?g)))"
    by (simp only: finish_def RunCleanupFuncs_def snd_conv run_from_append run_worldly)
  have "same_stores (pr_state p2) ?g" by (simp add: same_stores_def)
  from run_closers [OF this, of env] show ?thesis unfolding f run_worldly by simp
qed

section \<open>Properties\<close>

definition fresh_process :: "'s \<Rightarrow> ('p, 'c, 'e, 's) globals process" where
  "fresh_process s = \<lparr>pr_state = \<lparr>g_DB = None, g_Redis = None, g_Etcd = None, g_world = s\<rparr>, pr_cleanups = []\<rparr>"


text \<open>A service whose Redis never answers; its database and etcd are up.\<close>

definition demo_boot :: "(unit, unit, unit, unit, AuthSrvConfig, memdb) boot_env" where
  "demo_boot = \<lparr>
     bv_sql = \<lparr>sd_Open = (\<lambda>dsn. Inr ()), sd_Ping = (\<lambda>p t s. (None, s))\<rparr>,
     bv_sqlClose = (\<lambda>p s. (None, s)),
     bv_redis = \<lparr>rd_ParseURL = (\<lambda>u. Inr ()), rd_NewClient = (\<lambda>x. ()), rd_Ping = (\<lambda>c t s. (Some (Errorf ''refused''), s)), rd_Close = (\<lambda>c s. s)\<rparr>,
     bv_redisClose = (\<lambda>c s. (None, s)),
     bv_etcd = \<lparr>ed_New = (\<lambda>es t s. (Inr (), s)), ed_Endpoints = (\<lambda>c. [''127.0.0.1:2379'']), ed_Status = (\<lambda>c e t s. (None, s)),
       ed_Close = (\<lambda>c s. (None, s))\<rparr>,
     bv_sleep = (\<lambda>t s. s), bv_WriteEmbedFS = (\<lambda>d s. (None, s)), bv_migration = mem_env [] (\<lambda>q. True),
     bv_NewTraceProvider = (\<lambda>c s. (Inl (Errorf ''no collector''), s)), bv_Error = (\<lambda>e. ''error''),
     bv_log = \<lparr>lv_Stat = (\<lambda>p. None), lv_Open = (\<lambda>p. None), lv_Level = (\<lambda>l. Inr 0), lv_Register = None\<rparr>,
     bv_Sync = (\<lambda>l s. (None, s)),
     bv_dirs = \<lparr>d_rootDir = ''/srv'', d_etcDir = ''/srv/etc'', d_appDir = ''/srv/app'', d_usrDir = ''/srv/usr'', d_varDir = ''/srv/var'',
       d_logDir = ''/srv/log'', d_boxDir = ''/srv/box'', d_execDir = ''/srv/bin''\<rparr>,
     bv_config = \<lparr>cv_Stat = (\<lambda>p. Some False), cv_ReadInConfig = (\<lambda>p. None), cv_Unmarshal = (\<lambda>p c. Inr c), cv_Interfaces = Inr []\<rparr>,
     bv_Listen = (\<lambda>a s. (None, s)), bv_Register = (\<lambda>c h p t s. (None, s)), bv_Stop = (\<lambda>s. (None, s)),
     bv_Parse = (\<lambda>args. Inr (Opts\<lparr>fg_ConfigFile := (if args = [] then [] else hd args), fg_DisableStdlog := (1 < length args)\<rparr>)),
     bv_Background = (\<lambda>args s. (None, s)), bv_serving = (\<lambda>s. s)\<rparr>"

definition demo_net :: network where
  "demo_net = \<lparr>nw_accessIP = ''10.0.0.8'', nw_bindIP = ''0.0.0.0''\<rparr>"


text \<open>The flags of \<open>personal-auth\<close> come too late. Its entry point reads the configuration before the command line is
  parsed, so that two command lines that differ in the configuration file and in \<open>--disable-stdlog\<close> do exactly the same,
  and standard output is never disabled; \<open>personal-core\<close> parses first, and the same flag reaches its configuration.
  (The entry point of \<open>personal-api\<close> is that of \<open>personal-auth\<close>.)\<close>

theorem auth_ignores_flags:
  assumes "bv_Parse env args = Inr opts" "bv_Parse env args' = Inr opts'"
    and "fg_Version opts = fg_Version opts'" "\<not> fg_Daemon opts" "\<not> fg_Daemon opts'"
  shows "auth_Run env deflt args p = auth_Run env deflt args' p \<and>
     (\<forall>cfg nw. ReadConfigFromFile (bv_config env) etcDir deflt Opts = Inr (cfg, nw) \<longrightarrow> \<not> ls_DisableStdlog (cc_Log cfg)) \<and>
     (\<forall>cfg nw. ReadConfigFromFile (bv_config env) etcDir deflt opts = Inr (cfg, nw) \<longrightarrow>
        ls_DisableStdlog (cc_Log cfg) = fg_DisableStdlog opts)"
  using assms
  by (auto simp: auth_Run_def with_flags_def ReadConfigFromFile_def read_config_def ApplyOpts_def Opts_def split: sum.splits option.splits)

text \<open>With and without a configuration file and \<open>--disable-stdlog\<close>.\<close>

definition demo_auth :: AuthSrvConfig where
  "demo_auth = CoreConfig.extend core_DefaultConfig (AuthSrvConfig.fields ''secret'')"

theorem auth_ignores_flags_witness:
  "auth_Run demo_boot demo_auth [''/tmp/other.toml'', ''--disable-stdlog''] (fresh_process fresh) =
   auth_Run demo_boot demo_auth [] (fresh_process fresh)"
proof -
  let ?o = "Opts\<lparr>fg_ConfigFile := ''/tmp/other.toml'', fg_DisableStdlog := True\<rparr>"
  have "bv_Parse demo_boot [''/tmp/other.toml'', ''--disable-stdlog''] = Inr ?o" "bv_Parse demo_boot [] = Inr Opts"
    by (simp_all add: demo_boot_def Opts_def)
  from auth_ignores_flags [OF this, of demo_auth "fresh_process fresh"] show ?thesis by (simp add: Opts_def)
qed

end
