(* ===== verification/EmbedFiles.thy ===== *)
theory EmbedFiles
  imports Paths
begin

text \<open>
  Writing the files embedded in a binary to disk before the schema migration reads them (\<open>lib/fsutil/embed.go\<close>), and
  the making of directories and lock files (\<open>lib/fsutil/mkdir.go\<close>, \<open>filelock.go\<close>). The operating system is a parameter;
  what the code relies on of it is the locale \<open>disk\<close>.
\<close>

section \<open>The operating system\<close>

record 's os_calls =
  os_MkdirAll :: "string \<Rightarrow> 's \<Rightarrow> goerr option \<times> 's"
  os_Truncate :: "string \<Rightarrow> 's \<Rightarrow> goerr option \<times> 's"
  os_Write :: "string \<Rightarrow> string \<Rightarrow> 's \<Rightarrow> goerr option \<times> 's"
  os_Sync :: "string \<Rightarrow> 's \<Rightarrow> goerr option \<times> 's"
  os_Stat :: "string \<Rightarrow> 's \<Rightarrow> goerr + bool"
  os_NotExist :: "goerr \<Rightarrow> bool"
  os_Open :: "string \<Rightarrow> 's \<Rightarrow> goerr option"
  os_Flock :: "string \<Rightarrow> 's \<Rightarrow> goerr option \<times> 's"

text \<open>An entry of the embedded file system, as \<open>fs.WalkDir\<close> visits it: its path and name, and \<open>None\<close> for a directory or
  what \<open>ReadFile\<close> gives.\<close>

record embedded =
  em_path :: string
  em_name :: string
  em_file :: "(goerr + string) option"

section \<open>WriteEmbedFSToDisk\<close>

definition contains :: "string \<Rightarrow> string \<Rightarrow> bool" where
  "contains s t \<longleftrightarrow> list_ex (\<lambda>i. HasPrefix (drop i s) t) [0 ..< length s + 1]"

definition write_entry :: "'s os_calls \<Rightarrow> string \<Rightarrow> embedded \<Rightarrow> 's \<Rightarrow> goerr option \<times> 's" where
  "write_entry os targetDir d s =
     (if contains (em_name d) ''fs.go'' then (None, s)
      else case em_file d of
        None \<Rightarrow> os_MkdirAll os (join_path [targetDir, em_path d]) s
      | Some (Inl e) \<Rightarrow> (Some e, s)
      | Some (Inr buf) \<Rightarrow>
          (let p = join_path [targetDir, em_path d] in
           case os_Truncate os p s of
             (Some e, s1) \<Rightarrow> (Some e, s1)
           | (None, s1) \<Rightarrow>
               (case os_Write os p buf s1 of
                  (Some e, s2) \<Rightarrow> (Some e, s2)
                | (None, s2) \<Rightarrow> os_Sync os p s2)))"

fun WriteEmbedFSToDisk :: "'s os_calls \<Rightarrow> embedded list \<Rightarrow> string \<Rightarrow> 's \<Rightarrow> goerr option \<times> 's" where
  "WriteEmbedFSToDisk os [] targetDir s = (None, s)"
| "WriteEmbedFSToDisk os (d # ds) targetDir s =
     (case write_entry os targetDir d s of
        (Some e, s1) \<Rightarrow> (Some e, s1)
      | (None, s1) \<Rightarrow> WriteEmbedFSToDisk os ds targetDir s1)"

section \<open>Directories and lock files\<close>

definition syncPath :: "'s os_calls \<Rightarrow> string \<Rightarrow> 's \<Rightarrow> goerr option \<times> 's" where
  "syncPath os path s = (case os_Open os path s of Some e \<Rightarrow> (Some e, s) | None \<Rightarrow> os_Sync os path s)"

definition MkdirAll :: "'s os_calls \<Rightarrow> string \<Rightarrow> 's \<Rightarrow> goerr option \<times> 's" where
  "MkdirAll os dir s =
     (case os_Stat os dir s of
        Inl e \<Rightarrow> if \<not> os_NotExist os e then (Some e, s) else os_MkdirAll os dir s
      | Inr isDir \<Rightarrow> if \<not> isDir then (Some (Errorf (''already exist same file, path: '' @ dir)), s) else syncPath os dir s)"

definition createFlockFile :: "'s os_calls \<Rightarrow> string \<Rightarrow> 's \<Rightarrow> goerr option \<times> 's" where
  "createFlockFile os flockFile s =
     (case MkdirAll os (Dir flockFile) s of
        (Some e, s1) \<Rightarrow> (Some e, s1)
      | (None, s1) \<Rightarrow>
          (case os_Truncate os flockFile s1 of
             (Some e, s2) \<Rightarrow> (Some e, s2)
           | (None, s2) \<Rightarrow> os_Flock os flockFile s2))"

section \<open>What the code relies on\<close>

text \<open>\<open>files\<close> gives the contents of the regular files of a state. Truncating creates an empty file, writing to it gives it
  the text; a call that fails may change its own file only.\<close>

locale disk =
  fixes os :: "'s os_calls" and files :: "'s \<Rightarrow> string \<Rightarrow> string option"
  assumes mkdir_files: "os_MkdirAll os d s = (e, s') \<Longrightarrow> files s' = files s"
    and truncate_ok: "os_Truncate os p s = (None, s') \<Longrightarrow> files s' = (files s)(p \<mapsto> [])"
    and truncate_other: "os_Truncate os p s = (e, s') \<Longrightarrow> q \<noteq> p \<Longrightarrow> files s' q = files s q"
    and write_ok: "files s p = Some [] \<Longrightarrow> os_Write os p buf s = (None, s') \<Longrightarrow> files s' = (files s)(p \<mapsto> buf)"
    and write_other: "os_Write os p buf s = (e, s') \<Longrightarrow> q \<noteq> p \<Longrightarrow> files s' q = files s q"
    and sync_files: "os_Sync os p s = (e, s') \<Longrightarrow> files s' = files s"
begin

lemma write_entry_other:
  "write_entry os dir d s = (res, s') \<Longrightarrow> q \<noteq> join_path [dir, em_path d] \<Longrightarrow> files s' q = files s q"
  by (auto simp: write_entry_def Let_def split: if_splits option.splits sum.splits prod.splits)
    (metis mkdir_files truncate_other write_other sync_files)+

lemma write_entry_file:
  assumes "write_entry os dir d s = (None, s')" "em_file d = Some (Inr buf)" "\<not> contains (em_name d) ''fs.go''"
  shows "files s' (join_path [dir, em_path d]) = Some buf"
  using assms
  by (auto simp: write_entry_def Let_def split: prod.splits option.splits dest!: sync_files dest!: truncate_ok dest!: write_ok [rotated])

text \<open>A walk changes the files of its entries only, and a walk that ends well has written each of them.\<close>

lemma walk_other:
  "WriteEmbedFSToDisk os ds dir s = (res, s') \<Longrightarrow> \<forall>d \<in> set ds. q \<noteq> join_path [dir, em_path d] \<Longrightarrow> files s' q = files s q"
proof (induction ds arbitrary: s)
  case (Cons d ds)
  obtain e s1 where w: "write_entry os dir d s = (e, s1)" by fastforce
  have "files s1 q = files s q" by (rule write_entry_other [OF w]) (use Cons.prems in simp)
  then show ?case using Cons.IH [of s1] Cons.prems w by (cases e) auto
qed simp

lemma walk_writes:
  "WriteEmbedFSToDisk os ds dir s = (None, s') \<Longrightarrow> distinct (map (\<lambda>d. join_path [dir, em_path d]) ds) \<Longrightarrow> d \<in> set ds \<Longrightarrow>
     em_file d = Some (Inr buf) \<Longrightarrow> \<not> contains (em_name d) ''fs.go'' \<Longrightarrow> files s' (join_path [dir, em_path d]) = Some buf"
proof (induction ds arbitrary: s)
  case (Cons x ds)
  obtain s1 where w: "write_entry os dir x s = (None, s1)" "WriteEmbedFSToDisk os ds dir s1 = (None, s')"
    using Cons.prems(1) by (auto split: prod.splits option.splits)
  show ?case
  proof (cases "d = x")
    case True
    have "files s' (join_path [dir, em_path x]) = files s1 (join_path [dir, em_path x])"
      by (rule walk_other [OF w(2)]) (use Cons.prems(2) in auto)
    then show ?thesis using write_entry_file [OF w(1)] Cons.prems(4,5) True by simp
  next
    case False
    then show ?thesis using Cons.IH [OF w(2)] Cons.prems by simp
  qed
qed simp

end

section \<open>A disk in memory\<close>

text \<open>Contents of files, the latest first, and the paths that cannot be written.\<close>

record memdisk =
  md_files :: "(string \<times> string) list"
  md_broken :: "string list"

definition mem_os :: "memdisk os_calls" where
  "mem_os =
     \<lparr>os_MkdirAll = (\<lambda>d s. (None, s)),
      os_Truncate = (\<lambda>p s. if p \<in> set (md_broken s) then (Some (Errorf ''permission denied''), s)
                             else (None, s\<lparr>md_files := (p, []) # md_files s\<rparr>)),
      os_Write = (\<lambda>p buf s. (None, s\<lparr>md_files := (p, buf) # md_files s\<rparr>)),
      os_Sync = (\<lambda>p s. (None, s)), os_Stat = (\<lambda>p s. Inr True), os_NotExist = (\<lambda>e. False), os_Open = (\<lambda>p s. None),
      os_Flock = (\<lambda>p s. (None, s))\<rparr>"

interpretation memdisk: disk mem_os "\<lambda>s. map_of (md_files s)"
  by unfold_locales (auto simp: mem_os_def split: if_splits)

section \<open>Properties\<close>

text \<open>The embedded scripts are on disk. When \<open>WriteEmbedFSToDisk\<close> returns without an error, each embedded file, the Go file
  that embeds them apart, is on disk under the target directory with its content, and every other file is as it was: a
  script of an earlier version stays where it is. When it returns an error, only files of the walk have changed.\<close>

theorem embedded_files_written:
  assumes "disk os files" "WriteEmbedFSToDisk os ds dir s = (res, s')" "distinct (map (\<lambda>d. join_path [dir, em_path d]) ds)"
  shows "(\<forall>q. (\<forall>d \<in> set ds. q \<noteq> join_path [dir, em_path d]) \<longrightarrow> files s' q = files s q) \<and>
     (res = None \<longrightarrow> (\<forall>d \<in> set ds. \<forall>buf. em_file d = Some (Inr buf) \<and> \<not> contains (em_name d) ''fs.go'' \<longrightarrow>
        files s' (join_path [dir, em_path d]) = Some buf))"
  using disk.walk_other [OF assms(1,2)] disk.walk_writes [OF assms(1) _ assms(3)] assms(2) by blast

definition demo_embedded :: "embedded list" where
  "demo_embedded =
     [\<lparr>em_path = ''.'', em_name = ''.'', em_file = None\<rparr>, \<lparr>em_path = ''fs.go'', em_name = ''fs.go'', em_file = Some (Inr ''package scripts'')\<rparr>,
      \<lparr>em_path = ''init-sql'', em_name = ''init-sql'', em_file = None\<rparr>,
      \<lparr>em_path = ''init-sql/01.sql'', em_name = ''01.sql'', em_file = Some (Inr ''a;'')\<rparr>]"

lemma demo_embedded_paths: "distinct (map (\<lambda>d. join_path [''/srv/usr'', em_path d]) demo_embedded)"
  by code_simp

lemma demo_script_path: "join_path [''/srv/usr'', ''init-sql/01.sql''] = ''/srv/usr/init-sql/01.sql''" "\<not> contains ''01.sql'' ''fs.go''"
  by code_simp+

lemma demo_walk:
  "fst (WriteEmbedFSToDisk mem_os demo_embedded ''/srv/usr''
     \<lparr>md_files = [(''/srv/usr/init-sql/00.sql'', ''old;'')], md_broken = []\<rparr>) = None"
  by code_simp

theorem embedded_files_written_witness:
  "\<exists>s'. WriteEmbedFSToDisk mem_os demo_embedded ''/srv/usr'' \<lparr>md_files = [(''/srv/usr/init-sql/00.sql'', ''old;'')], md_broken = []\<rparr> = (None, s') \<and>
     map_of (md_files s') ''/srv/usr/init-sql/01.sql'' = Some ''a;''"
proof -
  let ?s = "\<lparr>md_files = [(''/srv/usr/init-sql/00.sql'', ''old;'')], md_broken = []\<rparr>"
  obtain s' where w: "WriteEmbedFSToDisk mem_os demo_embedded ''/srv/usr'' ?s = (None, s')"
    using demo_walk by (metis prod.collapse)
  let ?d = "\<lparr>em_path = ''init-sql/01.sql'', em_name = ''01.sql'', em_file = Some (Inr ''a;'')\<rparr>"
  have d: "?d \<in> set demo_embedded" by (simp add: demo_embedded_def)
  have "map_of (md_files s') (join_path [''/srv/usr'', em_path ?d]) = Some ''a;''"
    using embedded_files_written [OF memdisk.disk_axioms w demo_embedded_paths] d demo_script_path(2) by fastforce
  then show ?thesis using w by (simp add: demo_script_path(1))
qed

end
