(* ===== verification/EmbedMigrate.thy ===== *)
theory EmbedMigrate
  imports EmbedFiles MigrateProps
begin

text \<open>
  The first two steps of a service's \<open>New\<close> together: the scripts embedded in the binary are written to disk, and the
  migration runs over the directory they are in.
\<close>

section \<open>The directory that the migration reads\<close>

text \<open>The migration's view of a directory is the disk's after the scripts were written.\<close>

definition reads_disk :: "'s migration_env \<Rightarrow> string \<Rightarrow> (string \<Rightarrow> string option) \<Rightarrow> bool" where
  "reads_disk E dir on_disk \<longleftrightarrow>
     (\<exists>entries. me_ReadDir E dir = Inr entries \<and>
        (\<forall>f. (f, False) \<in> set entries \<longleftrightarrow> plain_seg f \<and> on_disk (join_path [dir, f]) \<noteq> None)) \<and>
     (\<forall>f c. plain_seg f \<and> on_disk (join_path [dir, f]) = Some c \<longrightarrow> me_ReadFile E dir f = Inr c)"

lemma reads_disk_script: "reads_disk E dir on_disk \<Longrightarrow> plain_seg f \<Longrightarrow> on_disk (join_path [dir, f]) = Some c \<Longrightarrow> script E dir f = c"
  by (simp add: reads_disk_def script_def)

section \<open>Properties\<close>

text \<open>C34. After start-up the schema is that of the binary. When the embedded files were written and the migration that
  follows returns without an error, then of every script embedded in the directory whose content was not recorded under its
  name, all statements have been executed, in their order; and when the pending scripts leave the table of records alone and
  the names in the directory are different to that table's collation, every such script is recorded with the checksum of its
  embedded content. A script that an earlier version left in the directory is treated in the same way, with the content it
  has on disk.\<close>

theorem embedded_scripts_migrated:
  assumes disk: "disk os files" and mig: "migration_db E same records trace"
    and written: "WriteEmbedFSToDisk os ds usr t = (None, t1)" and paths: "distinct (map (\<lambda>d. join_path [usr, em_path d]) ds)"
    and run: "Migrate E dsn dir s1 = (None, s2)" and reads: "reads_disk E dir (files t1)"
    and f: "plain_seg f" "HasSuffix f ''.sql''"
    and c: "(\<exists>d \<in> set ds. em_file d = Some (Inr c) \<and> \<not> contains (em_name d) ''fs.go'' \<and> join_path [usr, em_path d] = join_path [dir, f]) \<or>
            (\<forall>d \<in> set ds. join_path [dir, f] \<noteq> join_path [usr, em_path d]) \<and> files t (join_path [dir, f]) = Some c"
  shows "(records s1 f \<noteq> Some (fileChecksum c) \<longrightarrow> (\<exists>before after. trace s2 = trace s1 @ before @ splitStatements c @ after)) \<and>
     (\<forall>entries. me_ReadDir E dir = Inr entries \<and> apart same (script_files entries) \<and>
        spared E records (statements E dir (pending E dir (records s1) (script_files entries))) \<longrightarrow>
        records s2 f = Some (fileChecksum c))"
proof -
  have there: "files t1 (join_path [dir, f]) = Some c"
    using c disk.walk_writes [OF disk written paths] disk.walk_other [OF disk written] by metis
  obtain entries where e: "me_ReadDir E dir = Inr entries"
    and l: "(f, False) \<in> set entries" using reads f there unfolding reads_disk_def by blast
  have fs: "f \<in> set (script_files entries)" using l f(2) by (force simp: script_files_def)
  have sc: "script E dir f = c" by (rule reads_disk_script [OF reads f(1) there])
  have "\<exists>before after. trace s2 = trace s1 @ before @ splitStatements c @ after" if "records s1 f \<noteq> Some (fileChecksum c)"
  proof -
    have "f \<in> set (pending E dir (records s1) (script_files entries))" using fs sc that by (simp add: pending_def)
    then obtain xs ys where "pending E dir (records s1) (script_files entries) = xs @ f # ys" by (meson split_list)
    then have "trace s2 = trace s1 @ statements E dir xs @ splitStatements c @ statements E dir ys"
      using migration_db.Migrate_ok(1) [OF mig run e] sc by (simp add: statements_def)
    then show ?thesis by blast
  qed
  then show ?thesis using migration_db.Migrate_recorded [OF mig run e] fs sc e by auto
qed

text \<open>A new binary over the directory of an old one.\<close>

definition old_disk :: memdisk where
  "old_disk = \<lparr>md_files = [(''/srv/usr/init-sql/00.sql'', ''old;'')], md_broken = []\<rparr>"

definition new_disk :: memdisk where
  "new_disk = snd (WriteEmbedFSToDisk mem_os demo_embedded ''/srv/usr'' old_disk)"

lemma new_disk_files: "md_files new_disk =
   [(''/srv/usr/init-sql/01.sql'', ''a;''), (''/srv/usr/init-sql/01.sql'', []), (''/srv/usr/init-sql/00.sql'', ''old;'')]"
  by code_simp

lemma new_disk_written: "WriteEmbedFSToDisk mem_os demo_embedded ''/srv/usr'' old_disk = (None, new_disk)"
  using demo_walk by (simp add: new_disk_def old_disk_def prod_eq_iff)

abbreviation disk_env :: "memdb migration_env" where
  "disk_env \<equiv> mem_env [(''00.sql'', ''old;''), (''01.sql'', ''a;'')] (\<lambda>q. False)"

lemma sql_dir: "''/srv/usr/init-sql'' = abs_path [''srv'', ''usr'', ''init-sql'']" "\<forall>x \<in> set [''srv'', ''usr'', ''init-sql'']. plain_seg x"
  by code_simp+

lemma plain_scripts: "plain_seg ''00.sql''" "plain_seg ''01.sql''"
  by code_simp+

lemma in_sql_dir: "plain_seg f \<Longrightarrow> join_path [''/srv/usr/init-sql'', f] = ''/srv/usr/init-sql/'' @ f"
  unfolding sql_dir(1) by (subst join_path_abs(2) [OF sql_dir(2)]) (simp_all add: abs_path_def slash_def)

lemma disk_env_reads: "reads_disk disk_env ''/srv/usr/init-sql'' (map_of (md_files new_disk))"
  using plain_scripts
  by (auto simp: reads_disk_def mem_env_def in_sql_dir new_disk_files split: if_splits)

definition upgraded :: memdb where
  "upgraded = snd (Migrate disk_env ''root@/app'' ''/srv/usr/init-sql'' fresh)"

lemma upgraded_ok: "Migrate disk_env ''root@/app'' ''/srv/usr/init-sql'' fresh = (None, upgraded)"
  using mem_migrated [of "[(''00.sql'', ''old;''), (''01.sql'', ''a;'')]" "''root@/app''" "''/srv/usr/init-sql''" fresh]
  by (auto simp: upgraded_def)

theorem embedded_scripts_migrated_witness:
  "map_of (mm_records upgraded) ''01.sql'' = Some (fileChecksum ''a;'') \<and>
   (\<exists>before after. mm_trace upgraded = before @ [''a''] @ after)"
proof -
  have d: "(\<exists>d \<in> set demo_embedded. em_file d = Some (Inr ''a;'') \<and> \<not> contains (em_name d) ''fs.go'' \<and>
      join_path [''/srv/usr'', em_path d] = join_path [''/srv/usr/init-sql'', ''01.sql''])"
    unfolding in_sql_dir [OF plain_scripts(2)] using demo_script_path by (auto simp: demo_embedded_def)
  have fs: "script_files (map (\<lambda>n. (n, False)) (remdups (map fst [(''00.sql'', ''old;''), (''01.sql'', ''a;'')]))) = [''00.sql'', ''01.sql'']"
    by code_simp
  have ap: "apart mem_same [''00.sql'', ''01.sql'']" by code_simp
  have "(map_of (mm_records fresh) ''01.sql'' \<noteq> Some (fileChecksum ''a;'') \<longrightarrow>
       (\<exists>before after. mm_trace upgraded = mm_trace fresh @ before @ splitStatements ''a;'' @ after)) \<and>
     (\<forall>entries. me_ReadDir disk_env ''/srv/usr/init-sql'' = Inr entries \<and> apart mem_same (script_files entries) \<and>
        spared disk_env (\<lambda>s. map_of (mm_records s)) (statements disk_env ''/srv/usr/init-sql''
          (pending disk_env ''/srv/usr/init-sql'' (map_of (mm_records fresh)) (script_files entries))) \<longrightarrow>
        map_of (mm_records upgraded) ''01.sql'' = Some (fileChecksum ''a;''))"
    by (rule embedded_scripts_migrated [OF memdisk.disk_axioms memmig.migration_db_axioms new_disk_written demo_embedded_paths
          upgraded_ok disk_env_reads plain_scripts(2) _ disjI1 [OF d]])
      (simp add: HasSuffix_def)
  then show ?thesis using fs ap mem_spared by (auto simp: fresh_def demo_first mem_readdir)
qed

end
