(* ===== verification/Daemon.thy ===== *)
theory Daemon
  imports Paths
begin

text \<open>
  Running a service in the background (\<open>lib/procutil/background.go\<close>): the parent starts the child, hands it a random key
  and a port on its standard input, and reports it as running when the key comes back on that port, which the child
  sends when it serves. The operating system and the JSON library are parameters; what happens to the parent while it
  waits is a list of events.
\<close>

section \<open>The parent\<close>

record BootInfo =
  bi_ChallengeKey :: string
  bi_ListenPort :: int

definition pingbackHost :: string where "pingbackHost = ''127.0.0.1''"

record daemon_env =
  dv_Port :: "goerr + int"
  dv_Listen :: "string \<Rightarrow> goerr option"
  dv_StdinPipe :: "goerr option"
  dv_Rand :: "goerr + string"
  dv_Marshal :: "BootInfo \<Rightarrow> goerr + string"
  dv_Start :: "string \<Rightarrow> string list \<Rightarrow> goerr option"
  dv_Error :: "goerr \<Rightarrow> string"

text \<open>A connection with what reading it gives, a failure to accept one, the end of the child. \<open>log.Fatalf\<close> ends the parent
  with status 1.\<close>

datatype parent_event = Accepted "goerr + string" | AcceptFailed goerr | Exited "goerr option"

datatype parent_end = Running | BackgroundError goerr | Fatal string | Waiting

text \<open>The connection is read to its end or to 32 bytes.\<close>

definition handlePingbackConn :: "(goerr + string) \<Rightarrow> string \<Rightarrow> goerr option" where
  "handlePingbackConn conn expect =
     (case conn of
        Inl e \<Rightarrow> Some e
      | Inr bytes \<Rightarrow> if take 32 bytes \<noteq> expect then Some (Errorf ''wrong challenge key'') else None)"

fun await_pingback :: "daemon_env \<Rightarrow> string \<Rightarrow> parent_event list \<Rightarrow> parent_end" where
  "await_pingback env key [] = Waiting"
| "await_pingback env key (ev # evs) =
     (case ev of
        Accepted conn \<Rightarrow>
          (case handlePingbackConn conn key of
             None \<Rightarrow> Running
           | Some e \<Rightarrow> Fatal (''[F] Parse pingback data failure, nest error: '' @ dv_Error env e))
      | AcceptFailed e \<Rightarrow> Fatal (''[F] Accept tcp data failure, nest error: '' @ dv_Error env e)
      | Exited e \<Rightarrow>
          BackgroundError (Errorf (''process exited with error: '' @ (case e of None \<Rightarrow> ''<nil>'' | Some x \<Rightarrow> dv_Error env x))))"

text \<open>The result, and what the child gets: its arguments and its standard input.\<close>

definition RunAppInBackground ::
  "daemon_env \<Rightarrow> string list \<Rightarrow> parent_event list \<Rightarrow> parent_end \<times> (string list \<times> string) option" where
  "RunAppInBackground env args evs =
     (if length args < 2 then (BackgroundError (Errorf ''panic: invalid os.Args format''), None)
      else case dv_Port env of
        Inl e \<Rightarrow> (BackgroundError (Errorf (''generate available port failure, nest error: '' @ dv_Error env e)), None)
      | Inr port \<Rightarrow>
          (let address = pingbackHost @ '':'' @ itoa port in
           case dv_Listen env address of
             Some e \<Rightarrow> (BackgroundError (Errorf (''listen '' @ address @ '' failure, nest error: '' @ dv_Error env e)), None)
           | None \<Rightarrow>
               (case dv_StdinPipe env of
                  Some e \<Rightarrow> (BackgroundError e, None)
                | None \<Rightarrow>
                    (case dv_Rand env of
                       Inl e \<Rightarrow> (BackgroundError e, None)
                     | Inr key \<Rightarrow>
                         (case dv_Marshal env \<lparr>bi_ChallengeKey = key, bi_ListenPort = port\<rparr> of
                            Inl e \<Rightarrow> (Fatal (''[F] Marshal boot-info failure, nest error: '' @ dv_Error env e), None)
                          | Inr buf \<Rightarrow>
                              (case dv_Start env (hd args) [''--disable-stdlog''] of
                                 Some e \<Rightarrow> (BackgroundError e, None)
                               | None \<Rightarrow> (await_pingback env key evs, Some ([''--disable-stdlog''], buf))))))))"

section \<open>The child\<close>

text \<open>Standard input: its \<open>Stat\<close> (whether it is a named pipe) and its contents. \<open>Dial\<close> and \<open>Write\<close> may fail.\<close>

record child_env =
  ch_Stat :: "goerr + bool"
  ch_ReadAll :: "goerr + string"
  ch_Unmarshal :: "string \<Rightarrow> goerr + BootInfo"
  ch_Dial :: "string \<Rightarrow> goerr option"
  ch_Write :: "string \<Rightarrow> goerr option"
  ch_Error :: "goerr \<Rightarrow> string"

text \<open>The error, and what was sent to which address.\<close>

definition StopDaemon :: "child_env \<Rightarrow> goerr option \<times> (string \<times> string) option" where
  "StopDaemon env =
     (case ch_Stat env of
        Inl e \<Rightarrow> (Some e, None)
      | Inr pipe \<Rightarrow>
          if \<not> pipe then (Some (Errorf ''panic: unknown pipe''), None)
          else case ch_ReadAll env of
            Inl e \<Rightarrow> (Some e, None)
          | Inr confirmation \<Rightarrow>
              (if confirmation = [] then (None, None)
               else case ch_Unmarshal env confirmation of
                 Inl e \<Rightarrow> (Some e, None)
               | Inr bi \<Rightarrow>
                   (let address = pingbackHost @ '':'' @ itoa (bi_ListenPort bi) in
                    case ch_Dial env address of
                      Some e \<Rightarrow> (Some (Errorf (''dialing confirmation address: '' @ ch_Error env e)), None)
                    | None \<Rightarrow>
                        (case ch_Write env (bi_ChallengeKey bi) of
                           Some e \<Rightarrow>
                             (Some (Errorf (''writing confirmation bytes to '' @ address @ '', nest error: '' @ ch_Error env e)), None)
                         | None \<Rightarrow> (None, Some (address, bi_ChallengeKey bi))))))"

section \<open>Properties\<close>

text \<open>The parent reports a running service only to the holder of its key. \<open>RunAppInBackground\<close> reports the child as running
  exactly when the first thing that happens while it waits is a connection that brings the 32 random bytes it wrote to the
  child's standard input; the child's own message is such a connection, on the address on which the parent listens.
  Whatever the arguments of the parent, the child is started with \<open>--disable-stdlog\<close> alone.\<close>

theorem daemon_handshake:
  assumes "dv_Rand env = Inr key" "length key = 32" "dv_Port env = Inr port"
    and "RunAppInBackground env args evs = (res, Some (child_args, stdin))"
    and "dv_Marshal env \<lparr>bi_ChallengeKey = key, bi_ListenPort = port\<rparr> = Inr buf"
    and "ch_Unmarshal ch buf = Inr \<lparr>bi_ChallengeKey = key, bi_ListenPort = port\<rparr>" "buf \<noteq> []"
    and "ch_Stat ch = Inr True" "ch_ReadAll ch = Inr stdin" "StopDaemon ch = (None, sent)"
  shows "(res = Running \<longleftrightarrow> (\<exists>bytes rest. evs = Accepted (Inr bytes) # rest \<and> take 32 bytes = key)) \<and>
     sent = Some (pingbackHost @ '':'' @ itoa port, key) \<and>
     (\<forall>rest. evs = Accepted (Inr (snd (the sent))) # rest \<longrightarrow> res = Running) \<and>
     child_args = [''--disable-stdlog'']"
proof -
  have r: "res = await_pingback env key evs" "stdin = buf" "child_args = [''--disable-stdlog'']"
    using assms(1,3,4,5) by (auto simp: RunAppInBackground_def Let_def split: if_splits option.splits)
  have s: "sent = Some (pingbackHost @ '':'' @ itoa port, key)"
    using assms(6-10) r(2) by (auto simp: StopDaemon_def Let_def split: option.splits)
  have "res = Running \<longleftrightarrow> (\<exists>bytes rest. evs = Accepted (Inr bytes) # rest \<and> take 32 bytes = key)"
    unfolding r(1)
    by (cases evs) (auto simp: handlePingbackConn_def split: parent_event.split sum.split option.split)
  then show ?thesis using s r(3) assms(2) by auto
qed

text \<open>A parent and its child.\<close>

definition demo_key :: string where "demo_key = replicate 32 (CHR ''k'')"

definition demo_parent :: daemon_env where
  "demo_parent = \<lparr>dv_Port = Inr 4040, dv_Listen = (\<lambda>a. None), dv_StdinPipe = None, dv_Rand = Inr demo_key,
     dv_Marshal = (\<lambda>bi. Inr (bi_ChallengeKey bi @ itoa (bi_ListenPort bi))), dv_Start = (\<lambda>n as. None), dv_Error = (\<lambda>e. ''error'')\<rparr>"

definition demo_child :: child_env where
  "demo_child = \<lparr>ch_Stat = Inr True, ch_ReadAll = Inr (demo_key @ itoa 4040),
     ch_Unmarshal = (\<lambda>s. Inr \<lparr>bi_ChallengeKey = take 32 s, bi_ListenPort = 4040\<rparr>), ch_Dial = (\<lambda>a. None), ch_Write = (\<lambda>b. None),
     ch_Error = (\<lambda>e. ''error'')\<rparr>"

theorem daemon_handshake_witness:
  "fst (RunAppInBackground demo_parent [''personal-core'', ''-d''] [Accepted (Inr demo_key), Exited None]) = Running \<and>
   snd (StopDaemon demo_child) = Some (pingbackHost @ '':'' @ itoa 4040, demo_key)"
proof -
  let ?evs = "[Accepted (Inr demo_key), Exited None]"
  have k: "length demo_key = 32" "demo_key \<noteq> []" by (simp_all add: demo_key_def)
  obtain res where r: "RunAppInBackground demo_parent [''personal-core'', ''-d''] ?evs = (res, Some ([''--disable-stdlog''], demo_key @ itoa 4040))"
    by (simp add: RunAppInBackground_def demo_parent_def Let_def)
  obtain sent where s: "StopDaemon demo_child = (None, sent)"
    using k by (simp add: StopDaemon_def demo_child_def Let_def)
  have "(res = Running \<longleftrightarrow> (\<exists>bytes rest. ?evs = Accepted (Inr bytes) # rest \<and> take 32 bytes = demo_key)) \<and>
     sent = Some (pingbackHost @ '':'' @ itoa 4040, demo_key) \<and>
     (\<forall>rest. ?evs = Accepted (Inr (snd (the sent))) # rest \<longrightarrow> res = Running) \<and> [''--disable-stdlog''] = [''--disable-stdlog'']"
    by (rule daemon_handshake [OF _ k(1) _ r, where ch = demo_child and buf = "demo_key @ itoa 4040"])
      (use k s in \<open>simp_all add: demo_parent_def demo_child_def\<close>)
  then show ?thesis using r s by simp
qed

end
