(* ===== verification/GatewayBoot.thy ===== *)
theory GatewayBoot
  imports ProcessProps
begin

text \<open>
  The life of the gateway's process (\<open>apps/personal-api/pkg/server\<close>, \<open>pkg/provider\<close>, \<open>pkg/config\<close>, \<open>cmd/root.go\<close>,
  \<open>lib/http/server\<close>, and the package variables of \<open>lib/minio\<close>): what it opens, serves and closes.
\<close>

section \<open>Configuration (pkg/config)\<close>

record ServiceConfig =
  sv_AuthServiceTarget :: string
  sv_CoreServiceTarget :: string
  sv_SigningKey :: string

record ApiConfig =
  pc_Network :: NetConfig
  pc_Log :: LogSettings
  pc_Etcd :: EtcdConfig
  pc_Opentrace :: TraceConfig
  pc_MinIO :: MinIOConfig
  pc_Service :: ServiceConfig

definition api_DefaultConfig :: ApiConfig where
  "api_DefaultConfig =
     \<lparr>pc_Network = \<lparr>nc_AccessIP = [], nc_BindIP = ''0.0.0.0'', nc_BindPort = 8080\<rparr>,
      pc_Log = \<lparr>ls_Level = ''info'', ls_DisableStdlog = False\<rparr>,
      pc_Etcd = \<lparr>et_Endpoints = [''127.0.0.1:2379''], et_ConnectTimeout = 10 * second, et_StartupRetryTimes = 3,
        et_StartupRetryPeriod = 3 * second\<rparr>,
      pc_Opentrace = \<lparr>tc_Enable = False, tc_DSN = [], tc_ConnectTimeout = 10 * second\<rparr>,
      pc_MinIO = \<lparr>mi_Endpoint = ''127.0.0.1:9000'', mi_AccessKey = ''minioadmin'', mi_SecretKey = ''minioadmin'', mi_UseSSL = False,
        mi_Bucket = ''profiles'', mi_PublicEndpoint = [], mi_ConnectTimeout = 10 * second, mi_StartupRetryTimes = 3,
        mi_StartupRetryPeriod = 3 * second\<rparr>,
      pc_Service = \<lparr>sv_AuthServiceTarget = ''etcd:///grpclb/personal-auth'', sv_CoreServiceTarget = ''etcd:///grpclb/personal-core'',
        sv_SigningKey = []\<rparr>\<rparr>"

definition api_ApplyOpts :: "Flags \<Rightarrow> ApiConfig \<Rightarrow> ApiConfig" where
  "api_ApplyOpts opts c = c\<lparr>pc_Log := (pc_Log c)\<lparr>ls_DisableStdlog := fg_DisableStdlog opts\<rparr>\<rparr>"

definition api_ReadConfigFromFile :: "ApiConfig config_env \<Rightarrow> string \<Rightarrow> Flags \<Rightarrow> goerr + (ApiConfig \<times> network)" where
  "api_ReadConfigFromFile env etcDir opts = read_config api_ApplyOpts pc_Network env etcDir api_DefaultConfig opts"

section \<open>Package variables (lib/minio, lib/http/middleware)\<close>

record 'm minio_vars =
  mv_Client :: "'m option"
  mv_Bucket :: string
  mv_EndpointURL :: "string option"
  mv_PublicEndpoint :: string

record ('p, 'c, 'e, 's, 'm) api_globals = "('p, 'c, 'e, 's) globals" +
  g_MinIO :: "'m minio_vars"
  g_SigningKey :: string

text \<open>The object store's driver with the URL of a client, the environment, and gRPC connections.\<close>

record ('m, 'conn, 's) api_env =
  av_minio :: "('m, 's) minio_driver"
  av_EndpointURL :: "'m \<Rightarrow> string"
  av_Getenv :: "string \<Rightarrow> string"
  av_NewClient :: "string \<Rightarrow> 's \<Rightarrow> (goerr + 'conn) \<times> 's"
  av_CloseConn :: "'conn \<Rightarrow> 's \<Rightarrow> goerr option \<times> 's"
  av_Shutdown :: "'s \<Rightarrow> goerr option \<times> 's"

definition no_minio :: "'m minio_vars" where
  "no_minio = \<lparr>mv_Client = None, mv_Bucket = [], mv_EndpointURL = None, mv_PublicEndpoint = []\<rparr>"

definition CloseMinIO :: "('p, 'c, 'e, 's, 'm) api_globals \<Rightarrow> goerr option \<times> ('p, 'c, 'e, 's, 'm) api_globals" where
  "CloseMinIO g = (None, g\<lparr>g_MinIO := no_minio\<rparr>)"

definition InitMinIO ::
  "(int \<Rightarrow> 's \<Rightarrow> 's) \<Rightarrow> ('m, 'conn, 's) api_env \<Rightarrow> MinIOConfig \<Rightarrow> ('p, 'c, 'e, 's, 'm) api_globals initializer" where
  "InitMinIO sleep av c g =
     (case minio_tryConnect (av_minio av) sleep c (g_world g) of
        None \<Rightarrow> None
      | Some (Inl e, s) \<Rightarrow> Some (Inl e, g\<lparr>g_world := s\<rparr>)
      | Some (Inr client, s) \<Rightarrow>
          (let env = av_Getenv av ''MINIO_PUBLIC_ENDPOINT'' in
           Some (Inr (Some CloseMinIO),
             g\<lparr>g_MinIO := \<lparr>mv_Client = Some client, mv_Bucket = mi_Bucket c, mv_EndpointURL = Some (av_EndpointURL av client),
                            mv_PublicEndpoint = (if env \<noteq> [] then env else mi_PublicEndpoint c)\<rparr>, g_world := s\<rparr>)))"

section \<open>Providers (pkg/provider)\<close>

text \<open>One of the five connections; its closing function is registered at once.\<close>

definition dial :: "(goerr \<Rightarrow> string) \<Rightarrow> ('m, 'conn, 's) api_env \<Rightarrow> string \<Rightarrow> string \<Rightarrow>
    ('p, 'c, 'e, 's, 'm) api_globals process \<Rightarrow> goerr option \<times> ('p, 'c, 'e, 's, 'm) api_globals process" where
  "dial err av service target p =
     (case av_NewClient av target (g_world (pr_state p)) of
        (Inl e, s) \<Rightarrow> (Some (Errorf (''dial '' @ service @ '' service failure: '' @ err e)), p\<lparr>pr_state := (pr_state p)\<lparr>g_world := s\<rparr>\<rparr>)
      | (Inr conn, s) \<Rightarrow>
          (None, register_cleanup (Some (on_world (av_CloseConn av conn))) (p\<lparr>pr_state := (pr_state p)\<lparr>g_world := s\<rparr>\<rparr>)))"

fun dial_all :: "(goerr \<Rightarrow> string) \<Rightarrow> ('m, 'conn, 's) api_env \<Rightarrow> (string \<times> string) list \<Rightarrow>
    ('p, 'c, 'e, 's, 'm) api_globals process \<Rightarrow> goerr option \<times> ('p, 'c, 'e, 's, 'm) api_globals process" where
  "dial_all err av [] p = (None, p)"
| "dial_all err av ((service, target) # ts) p =
     (case dial err av service target p of
        (Some e, p1) \<Rightarrow> (Some e, p1)
      | (None, p1) \<Rightarrow> dial_all err av ts p1)"

definition provider_Init :: "(goerr \<Rightarrow> string) \<Rightarrow> ('m, 'conn, 's) api_env \<Rightarrow> ServiceConfig \<Rightarrow>
    ('p, 'c, 'e, 's, 'm) api_globals process \<Rightarrow> goerr option \<times> ('p, 'c, 'e, 's, 'm) api_globals process" where
  "provider_Init err av cfg p =
     dial_all err av ((''auth'', sv_AuthServiceTarget cfg) # replicate 4 (''core'', sv_CoreServiceTarget cfg)) p"

section \<open>New and Serve (pkg/server, lib/http/server)\<close>

definition api_New ::
  "('p, 'o, 'c, 'e, 'cfg, 's) boot_env \<Rightarrow> ('m, 'conn, 's) api_env \<Rightarrow> ApiConfig \<Rightarrow> ('p, 'c, 'e, 's, 'm) api_globals process \<Rightarrow>
     (goerr option \<times> ('p, 'c, 'e, 's, 'm) api_globals process) option" where
  "api_New env av cfg p =
     (let p0 = p\<lparr>pr_state := (pr_state p)\<lparr>g_SigningKey := sv_SigningKey (pc_Service cfg)\<rparr>\<rparr> in
      case initComponents (bv_Error env)
             [(''etcd'', InitEtcd env (pc_Etcd cfg)),
              (''opentrace'', \<lambda>g. if \<not> tc_Enable (pc_Opentrace cfg) then Some (Inr None, g)
                              else InitTraceProvider env (pc_Opentrace cfg) g),
              (''minio'', InitMinIO (bv_sleep env) av (pc_MinIO cfg))] p0 of
        None \<Rightarrow> None
      | Some (Some e, p1) \<Rightarrow> Some (Some e, p1)
      | Some (None, p1) \<Rightarrow> Some (provider_Init (bv_Error env) av (pc_Service cfg) p1))"

text \<open>\<open>Serve\<close> returns once the access log is open; the listener runs beside it, and when it fails the process ends by
  \<open>zlog.Fatal\<close>, without any cleanup.\<close>

definition HTTP_Serve ::
  "('p, 'o, 'c, 'e, 'cfg, 's) boot_env \<Rightarrow> LogSettings \<Rightarrow> ('p, 'c, 'e, 's, 'm) api_globals process \<Rightarrow>
     goerr option \<times> ('p, 'c, 'e, 's, 'm) api_globals process" where
  "HTTP_Serve env settings p =
     (case InitLogger (bv_log env)
             (service_log (ls_Level settings) (join_path [d_logDir (bv_dirs env), ''access.log'']) (ls_DisableStdlog settings)) of
        Inl e \<Rightarrow> (Some (Errorf (''init middleware log failure, nest error: '' @ bv_Error env e)), p)
      | Inr logger \<Rightarrow> (None, register_cleanup (Some (on_world (bv_Sync env logger))) p))"

definition api_Run ::
  "('p, 'o, 'c, 'e, ApiConfig, 's) boot_env \<Rightarrow> ('m, 'conn, 's) api_env \<Rightarrow> string list \<Rightarrow> ('p, 'c, 'e, 's, 'm) api_globals process \<Rightarrow>
     (ending \<times> ('p, 'c, 'e, 's, 'm) api_globals) option" where
  "api_Run env av args p =
     (case api_ReadConfigFromFile (bv_config env) (d_etcDir (bv_dirs env)) Opts of
        Inl e \<Rightarrow> Some (Return (Some e), pr_state p)
      | Inr (cfg, nw) \<Rightarrow>
          with_flags env args p
            (\<lambda>opts. run_app env [] (pc_Log cfg) (api_New env av cfg) (HTTP_Serve env (pc_Log cfg)) (av_Shutdown av) p))"

section \<open>What is opened is closed\<close>

text \<open>As for the other services: a cleanup function opens nothing, and what is open has its closing function registered.\<close>

definition api_tame :: "('p, 'c, 'e, 's, 'm) api_globals cleanup \<Rightarrow> bool" where
  "api_tame f \<longleftrightarrow> (\<forall>h g. f = Some h \<longrightarrow>
     (g_Etcd g = None \<longrightarrow> g_Etcd (snd (h g)) = None) \<and> (g_MinIO g = no_minio \<longrightarrow> g_MinIO (snd (h g)) = no_minio))"

definition api_covered :: "('p, 'o, 'c, 'e, 'cfg, 's) boot_env \<Rightarrow> ('p, 'c, 'e, 's, 'm) api_globals process \<Rightarrow> bool" where
  "api_covered env p \<longleftrightarrow>
     (g_Etcd (pr_state p) \<noteq> None \<longrightarrow> Some (CloseEtcd (ed_Close (bv_etcd env))) \<in> set (pr_cleanups p)) \<and>
     (g_MinIO (pr_state p) \<noteq> no_minio \<longrightarrow> Some CloseMinIO \<in> set (pr_cleanups p)) \<and>
     (\<forall>f \<in> set (pr_cleanups p). api_tame f)"

lemma api_on_world:
  "g_Etcd (snd (on_world f g)) = g_Etcd g" "g_MinIO (snd (on_world f g)) = g_MinIO g"
  by (auto simp: on_world_def split: prod.split)

lemma api_tame_closers [simp]: "api_tame (Some (on_world f))" "api_tame (Some (CloseEtcd d))" "api_tame (Some CloseMinIO)" "api_tame None"
  by (auto simp: api_tame_def api_on_world CloseEtcd_def CloseMinIO_def split: option.split prod.split)

lemma api_covered_cleanup [simp]: "api_covered env p \<Longrightarrow> api_covered env (register_cleanup (Some (on_world f)) p)"
  by (auto simp: api_covered_def register_cleanup_def RegisterCleanupFuncs_def)

lemma api_covered_state:
  "api_covered env p \<Longrightarrow> g_Etcd g = g_Etcd (pr_state p) \<Longrightarrow> g_MinIO g = g_MinIO (pr_state p) \<Longrightarrow> api_covered env (p\<lparr>pr_state := g\<rparr>)"
  by (simp add: api_covered_def)

definition api_reaches ::
  "('p, 'o, 'c, 'e, 'cfg, 's) boot_env \<Rightarrow> (goerr option \<times> ('p, 'c, 'e, 's, 'm) api_globals process) option \<Rightarrow> bool" where
  "api_reaches env res \<longleftrightarrow> (\<exists>e p1. res = Some (e, p1) \<and> api_covered env p1 \<and>
     (e = None \<longrightarrow> g_Etcd (pr_state p1) \<noteq> None \<and> mv_Client (g_MinIO (pr_state p1)) \<noteq> None))"

definition api_step ::
  "('p, 'o, 'c, 'e, 'cfg, 's) boot_env \<Rightarrow> ('p, 'c, 'e, 's, 'm) api_globals \<Rightarrow> goerr + ('p, 'c, 'e, 's, 'm) api_globals cleanup \<Rightarrow>
     ('p, 'c, 'e, 's, 'm) api_globals \<Rightarrow> bool" where
  "api_step env g r g' \<longleftrightarrow>
     (g_Etcd g' = g_Etcd g \<or> g_Etcd g' \<noteq> None \<and> r = Inr (Some (CloseEtcd (ed_Close (bv_etcd env))))) \<and>
     (g_MinIO g' = g_MinIO g \<or> r = Inr (Some CloseMinIO)) \<and>
     (case r of Inl e \<Rightarrow> True | Inr f \<Rightarrow> api_tame f)"

lemma api_etcd_step:
  fixes g :: "('p, 'c, 'e, 's, 'm) api_globals"
  assumes "et_StartupRetryTimes c < 2 ^ 63 - 1"
  shows "\<exists>r g'. InitEtcd env c g = Some (r, g') \<and> api_step env g r g' \<and> (isl r \<or> g_Etcd g' \<noteq> None)"
proof -
  obtain r s where "etcd_tryConnect (bv_etcd env) (bv_sleep env) c (g_world g) = Some (r, s)"
    using etcd_returns [OF assms, where d = "bv_etcd env" and sleep = "bv_sleep env" and s = "g_world g"] by blast
  then show ?thesis by (cases r) (simp_all add: InitEtcd_def api_step_def)
qed

lemma api_trace_step:
  fixes g :: "('p, 'c, 'e, 's, 'm) api_globals"
  shows "\<exists>r g'. (if \<not> tc_Enable c then Some (Inr None, g) else InitTraceProvider env c g) = Some (r, g') \<and> api_step env g r g' \<and>
     g_Etcd g' = g_Etcd g"
  by (auto simp: InitTraceProvider_def api_step_def split: prod.split sum.split)

lemma api_minio_step:
  assumes "mi_StartupRetryTimes c < 2 ^ 63 - 1"
  shows "\<exists>r g'. InitMinIO sleep av c g = Some (r, g') \<and> api_step env g r g' \<and> g_Etcd g' = g_Etcd g \<and>
     (isl r \<or> mv_Client (g_MinIO g') \<noteq> None)"
proof -
  obtain r s where "minio_tryConnect (av_minio av) sleep c (g_world g) = Some (r, s)"
    using connect_loop_returns [OF assms, where build = "buildMinIO (av_minio av) c" and sleep = "sleep (mi_StartupRetryPeriod c)" and s = "g_world g"]
    unfolding minio_tryConnect_def by blast
  then show ?thesis by (cases r) (simp_all add: InitMinIO_def api_step_def Let_def)
qed

text \<open>One component of a list.\<close>

lemma api_component:
  assumes f: "fn (pr_state p) = Some (r, g')" and st: "api_step env (pr_state p) r g'" and cov: "api_covered env p"
  shows "\<exists>p1. pr_state p1 = g' \<and> api_covered env p1 \<and>
     (if isl r then \<exists>e. initComponents err ((name, fn) # cs) p = Some (Some e, p1)
      else initComponents err ((name, fn) # cs) p = initComponents err cs p1)"
proof (cases r)
  case (Inl e)
  then show ?thesis using f st cov by (intro exI [of _ "p\<lparr>pr_state := g'\<rparr>"]) (auto simp: initComponent_def api_step_def api_covered_def)
next
  case (Inr close)
  let ?p = "p\<lparr>pr_state := g', pr_cleanups := (if close = None then pr_cleanups p else RegisterCleanupFuncs [close] (pr_cleanups p))\<rparr>"
  have "api_covered env ?p" using st cov Inr by (auto simp: api_step_def api_covered_def RegisterCleanupFuncs_def)
  then show ?thesis using f Inr by (intro exI [of _ ?p]) (simp add: initComponent_def)
qed

lemma dial_all_covered:
  "api_covered env p \<Longrightarrow> dial_all err av ts p = (e, p1) \<Longrightarrow>
     api_covered env p1 \<and> g_Etcd (pr_state p1) = g_Etcd (pr_state p) \<and> g_MinIO (pr_state p1) = g_MinIO (pr_state p)"
proof (induction ts arbitrary: p)
  case (Cons t ts)
  obtain service target where t: "t = (service, target)" by (cases t)
  obtain e2 p2 where d: "dial err av service target p = (e2, p2)" by fastforce
  have c: "api_covered env p2 \<and> g_Etcd (pr_state p2) = g_Etcd (pr_state p) \<and> g_MinIO (pr_state p2) = g_MinIO (pr_state p)"
    using d Cons.prems(1) by (auto simp: dial_def api_covered_state split: prod.splits sum.splits)
  show ?case
  proof (cases e2)
    case None
    then have "dial_all err av ts p2 = (e, p1)" using Cons.prems(2) d t by simp
    then show ?thesis using Cons.IH [of p2] c by simp
  qed (use Cons.prems(2) c d t in auto)
qed simp

lemma api_New_reaches:
  assumes "et_StartupRetryTimes (pc_Etcd cfg) < 2 ^ 63 - 1" "mi_StartupRetryTimes (pc_MinIO cfg) < 2 ^ 63 - 1" "api_covered env p"
  shows "api_reaches env (api_New env av cfg p)"
proof -
  let ?p0 = "p\<lparr>pr_state := (pr_state p)\<lparr>g_SigningKey := sv_SigningKey (pc_Service cfg)\<rparr>\<rparr>"
  let ?trace = "\<lambda>g. if \<not> tc_Enable (pc_Opentrace cfg) then Some (Inr None, g) else InitTraceProvider env (pc_Opentrace cfg) g"
  let ?minio = "InitMinIO (bv_sleep env) av (pc_MinIO cfg)"
  have c0: "api_covered env ?p0" by (rule api_covered_state [OF assms(3)]) simp_all
  obtain r1 g1 where s1: "InitEtcd env (pc_Etcd cfg) (pr_state ?p0) = Some (r1, g1)" "api_step env (pr_state ?p0) r1 g1" "isl r1 \<or> g_Etcd g1 \<noteq> None"
    using api_etcd_step [OF assms(1), of env "pr_state ?p0"] by blast
  obtain p1 where p1: "pr_state p1 = g1" "api_covered env p1"
    "if isl r1 then \<exists>e. initComponents (bv_Error env) [(''etcd'', InitEtcd env (pc_Etcd cfg)), (''opentrace'', ?trace), (''minio'', ?minio)] ?p0 = Some (Some e, p1)
     else initComponents (bv_Error env) [(''etcd'', InitEtcd env (pc_Etcd cfg)), (''opentrace'', ?trace), (''minio'', ?minio)] ?p0 =
       initComponents (bv_Error env) [(''opentrace'', ?trace), (''minio'', ?minio)] p1"
    using api_component [where fn = "InitEtcd env (pc_Etcd cfg)" and p = ?p0, OF s1(1,2) c0] by blast
  obtain r2 g2 where s2: "?trace (pr_state p1) = Some (r2, g2)" "api_step env (pr_state p1) r2 g2" "g_Etcd g2 = g_Etcd (pr_state p1)"
    using api_trace_step [of "pc_Opentrace cfg" "pr_state p1" env] by blast
  obtain p2 where p2: "pr_state p2 = g2" "api_covered env p2"
    "if isl r2 then \<exists>e. initComponents (bv_Error env) [(''opentrace'', ?trace), (''minio'', ?minio)] p1 = Some (Some e, p2)
     else initComponents (bv_Error env) [(''opentrace'', ?trace), (''minio'', ?minio)] p1 = initComponents (bv_Error env) [(''minio'', ?minio)] p2"
    using api_component [where fn = ?trace and p = p1, OF s2(1,2) p1(2)] by blast
  obtain r3 g3 where s3: "?minio (pr_state p2) = Some (r3, g3)" "api_step env (pr_state p2) r3 g3" "g_Etcd g3 = g_Etcd (pr_state p2)"
    "isl r3 \<or> mv_Client (g_MinIO g3) \<noteq> None"
    using api_minio_step [OF assms(2), of "bv_sleep env" av "pr_state p2" env] by blast
  obtain p3 where p3: "pr_state p3 = g3" "api_covered env p3"
    "if isl r3 then \<exists>e. initComponents (bv_Error env) [(''minio'', ?minio)] p2 = Some (Some e, p3)
     else initComponents (bv_Error env) [(''minio'', ?minio)] p2 = Some (None, p3)"
    using api_component [where fn = ?minio and p = p2 and cs = "[]" and err = "bv_Error env" and name = "''minio''", OF s3(1,2) p2(2)]
    unfolding initComponents.simps(1) by blast
  obtain e p4 where d: "provider_Init (bv_Error env) av (pc_Service cfg) p3 = (e, p4)" by fastforce
  note d4 = dial_all_covered [OF p3(2) d [unfolded provider_Init_def]]
  have n: "api_New env av cfg p =
      (case initComponents (bv_Error env) [(''etcd'', InitEtcd env (pc_Etcd cfg)), (''opentrace'', ?trace), (''minio'', ?minio)] ?p0 of
         None \<Rightarrow> None | Some (Some e, p1) \<Rightarrow> Some (Some e, p1)
       | Some (None, p1) \<Rightarrow> Some (provider_Init (bv_Error env) av (pc_Service cfg) p1))"
    by (simp add: api_New_def Let_def)
  consider "isl r1" | "\<not> isl r1" "isl r2" | "\<not> isl r1" "\<not> isl r2" "isl r3" | "\<not> isl r1" "\<not> isl r2" "\<not> isl r3" by blast
  then show ?thesis
  proof cases
    case 1
    then obtain x where "initComponents (bv_Error env) [(''etcd'', InitEtcd env (pc_Etcd cfg)), (''opentrace'', ?trace), (''minio'', ?minio)] ?p0 = Some (Some x, p1)"
      using p1(3) by auto
    then show ?thesis using p1(2) unfolding n api_reaches_def by simp
  next
    case 2
    then obtain x where "initComponents (bv_Error env) [(''etcd'', InitEtcd env (pc_Etcd cfg)), (''opentrace'', ?trace), (''minio'', ?minio)] ?p0 = Some (Some x, p2)"
      using p1(3) p2(3) by auto
    then show ?thesis using p2(2) unfolding n api_reaches_def by simp
  next
    case 3
    then obtain x where "initComponents (bv_Error env) [(''etcd'', InitEtcd env (pc_Etcd cfg)), (''opentrace'', ?trace), (''minio'', ?minio)] ?p0 = Some (Some x, p3)"
      using p1(3) p2(3) p3(3) by auto
    then show ?thesis using p3(2) unfolding n api_reaches_def by simp
  next
    case 4
    then have "initComponents (bv_Error env) [(''etcd'', InitEtcd env (pc_Etcd cfg)), (''opentrace'', ?trace), (''minio'', ?minio)] ?p0 = Some (None, p3)"
      using p1(3) p2(3) p3(3) by auto
    then have "api_New env av cfg p = Some (e, p4)" unfolding n by (simp add: d)
    moreover have "g_Etcd (pr_state p4) \<noteq> None" using 4(1) s1(3) s2(3) s3(3) d4 p1(1) p2(1) p3(1) by simp
    moreover have "mv_Client (g_MinIO (pr_state p4)) \<noteq> None" using 4(3) s3(4) d4 p3(1) by simp
    ultimately show ?thesis using d4 unfolding api_reaches_def by blast
  qed
qed

section \<open>The end of the process\<close>

lemma HTTP_Serve_covered:
  assumes "api_covered env p"
  shows "\<exists>e p1. HTTP_Serve env settings p = (e, p1) \<and> api_covered env p1 \<and> pr_state p1 = pr_state p"
  using assms by (auto simp: HTTP_Serve_def split: sum.split)

lemma api_run_ends:
  assumes new: "\<And>q. api_covered env q \<Longrightarrow> api_reaches env (new q)" and cov: "api_covered env p"
  shows "\<exists>e p2. run_app env kind settings new (HTTP_Serve env settings) stop p = Some (finish e p2) \<and> api_covered env p2 \<and>
     (e = None \<longrightarrow> (\<exists>cs. pr_cleanups p2 = cs @ [Some (on_world stop)]) \<and> g_Etcd (pr_state p2) \<noteq> None \<and>
        mv_Client (g_MinIO (pr_state p2)) \<noteq> None)"
proof (cases "InitLogger (bv_log env) (service_log (ls_Level settings) (join_path [d_logDir (bv_dirs env), ''data.log'']) (ls_DisableStdlog settings))")
  case (Inl e)
  then show ?thesis using cov by (auto simp: run_app_def)
next
  case (Inr lg)
  let ?p = "register_cleanup (Some (on_world (bv_Sync env lg))) p"
  have "api_reaches env (new ?p)" by (rule new) (simp add: cov)
  then obtain e p1 where n: "new ?p = Some (e, p1)" "api_covered env p1"
    "e = None \<longrightarrow> g_Etcd (pr_state p1) \<noteq> None \<and> mv_Client (g_MinIO (pr_state p1)) \<noteq> None"
    by (auto simp: api_reaches_def)
  show ?thesis
  proof (cases e)
    case (Some x)
    then show ?thesis using Inr n by (auto simp: run_app_def)
  next
    case None
    obtain e2 p2 where s: "HTTP_Serve env settings p1 = (e2, p2)" "api_covered env p2" "pr_state p2 = pr_state p1"
      using HTTP_Serve_covered [OF n(2)] by blast
    let ?p3 = "register_cleanup (Some (on_world stop)) p2"
    obtain p4 where p4: "p4 = ?p3\<lparr>pr_state := (pr_state ?p3)\<lparr>g_world := bv_serving env (g_world (pr_state ?p3))\<rparr>\<rparr>" by blast
    have "api_covered env p4" unfolding p4 using s(2) by (intro api_covered_state) simp_all
    moreover have "g_Etcd (pr_state p4) \<noteq> None \<and> mv_Client (g_MinIO (pr_state p4)) \<noteq> None" using s(3) n(3) None by (simp add: p4)
    moreover have "pr_cleanups p4 = pr_cleanups p2 @ [Some (on_world stop)]"
      by (simp add: p4 register_cleanup_def RegisterCleanupFuncs_def)
    moreover have "e2 = None \<Longrightarrow> run_app env kind settings new (HTTP_Serve env settings) stop p = Some (finish None p4)"
      using Inr n(1) None s(1) by (simp add: run_app_def Let_def p4)
    moreover have "e2 = Some x \<Longrightarrow> run_app env kind settings new (HTTP_Serve env settings) stop p =
        Some (finish (Some (Errorf (''start '' @ kind @ ''server failure: '' @ bv_Error env x))) p2)" for x
      using Inr n(1) None s(1) by (simp add: run_app_def)
    ultimately show ?thesis using s(2) by (cases e2) blast+
  qed
qed

text \<open>A function that keeps both stores closed, run over a list, and one that closes a store, somewhere in the list.\<close>

lemma api_run_from_none:
  "\<forall>f \<in> set fs. api_tame f \<Longrightarrow>
     (g_Etcd g = None \<longrightarrow> g_Etcd (snd (run_from fs g)) = None) \<and> (g_MinIO g = no_minio \<longrightarrow> g_MinIO (snd (run_from fs g)) = no_minio)"
proof (induction fs arbitrary: g)
  case (Cons f fs)
  have "(g_Etcd g = None \<longrightarrow> g_Etcd (case f of None \<Rightarrow> g | Some h \<Rightarrow> snd (h g)) = None) \<and>
      (g_MinIO g = no_minio \<longrightarrow> g_MinIO (case f of None \<Rightarrow> g | Some h \<Rightarrow> snd (h g)) = no_minio)"
    using Cons.prems by (auto simp: api_tame_def split: option.split)
  then show ?case using Cons.IH Cons.prems unfolding run_from_step by simp
qed simp

lemma api_run_from_closes:
  assumes "Some h \<in> set fs" "\<forall>f \<in> set fs. api_tame f"
  shows "(\<forall>g. g_Etcd (snd (h g)) = None) \<Longrightarrow> g_Etcd (snd (run_from fs g)) = None"
    and "(\<forall>g. g_MinIO (snd (h g)) = no_minio) \<Longrightarrow> g_MinIO (snd (run_from fs g)) = no_minio"
proof -
  obtain xs ys where fs: "fs = xs @ Some h # ys" using assms(1) by (auto simp: in_set_conv_decomp)
  have r: "snd (run_from fs g) = snd (run_from ys (snd (h (snd (run_from xs g)))))"
    by (simp add: fs run_from_append run_from_step del: run_from.simps(2))
  show "(\<forall>g. g_Etcd (snd (h g)) = None) \<Longrightarrow> g_Etcd (snd (run_from fs g)) = None"
    and "(\<forall>g. g_MinIO (snd (h g)) = no_minio) \<Longrightarrow> g_MinIO (snd (run_from fs g)) = no_minio"
    unfolding r using api_run_from_none [of ys] assms(2) fs by auto
qed

lemma api_finish_closes:
  assumes "api_covered env p"
  shows "g_Etcd (snd (finish e p)) = None \<and> g_MinIO (snd (finish e p)) = no_minio"
proof -
  have t: "\<forall>f \<in> set (rev (pr_cleanups p)). api_tame f" using assms by (simp add: api_covered_def)
  have m: "g_MinIO (snd (CloseMinIO g)) = no_minio" for g :: "('a, 'c, 'd, 'f, 'g) api_globals" by (simp add: CloseMinIO_def)
  have c: "g_Etcd (snd (CloseEtcd (ed_Close (bv_etcd env)) g)) = None" for g
    by (simp add: CloseEtcd_def split: option.split prod.split)
  have "g_Etcd (snd (run_from (rev (pr_cleanups p)) (pr_state p))) = None"
    using assms api_run_from_closes(1) [OF _ t] api_run_from_none [OF t] c unfolding api_covered_def set_rev by blast
  moreover have "g_MinIO (snd (run_from (rev (pr_cleanups p)) (pr_state p))) = no_minio"
    using assms api_run_from_closes(2) [OF _ t] api_run_from_none [OF t] m unfolding api_covered_def set_rev by blast
  ultimately show ?thesis by (simp add: finish_def RunCleanupFuncs_def)
qed

definition fresh_gateway :: "'s \<Rightarrow> ('p, 'c, 'e, 's, 'm) api_globals process" where
  "fresh_gateway s = \<lparr>pr_state = \<lparr>g_DB = None, g_Redis = None, g_Etcd = None, g_world = s, g_MinIO = no_minio, g_SigningKey = []\<rparr>,
     pr_cleanups = []\<rparr>"

text \<open>The gateway, too, closes what it opened: its start-up ends, each store it opened has its closing function registered,
  and at its end the etcd client and all four variables of the object store are cleared. When it did serve, with both stores
  open, the function that shuts the server down is the first to run.\<close>

theorem gateway_cleans_up:
  assumes "et_StartupRetryTimes (pc_Etcd cfg) < 2 ^ 63 - 1" "mi_StartupRetryTimes (pc_MinIO cfg) < 2 ^ 63 - 1"
  shows "\<exists>e p2. run_app env [] (pc_Log cfg) (api_New env av cfg) (HTTP_Serve env (pc_Log cfg)) (av_Shutdown av) (fresh_gateway s) =
       Some (finish e p2) \<and> api_covered env p2 \<and>
     (e = None \<longrightarrow> (\<exists>cs. pr_cleanups p2 = cs @ [Some (on_world (av_Shutdown av))]) \<and> g_Etcd (pr_state p2) \<noteq> None \<and>
        mv_Client (g_MinIO (pr_state p2)) \<noteq> None) \<and>
     g_Etcd (snd (finish e p2)) = None \<and> g_MinIO (snd (finish e p2)) = no_minio"
proof -
  have "api_covered env (fresh_gateway s)" by (simp add: api_covered_def fresh_gateway_def)
  then show ?thesis
    using api_run_ends [of env "api_New env av cfg" "fresh_gateway s" "[]" "pc_Log cfg" "av_Shutdown av"]
      api_New_reaches [OF assms] api_finish_closes by blast
qed

end
