(* ===== verification/ConfigText.thy ===== *)
theory ConfigText
  imports GatewayBoot EmbedMigrate Auth
begin

text \<open>
  The texts that start-up writes to the log (\<open>startup.Run\<close>): the configuration (\<open>Config.String\<close> of the three
  applications), the system (\<open>system.String\<close>) and the time the process has run (\<open>timeutil.FormatDuration\<close>). The values are
  modelled as the trees that are handed to the JSON library, whose \<open>Marshal\<close> is a parameter.
\<close>

section \<open>Durations\<close>

text \<open>\<open>time.Duration.String\<close>. \<open>fmtFrac\<close> writes \<open>v mod 10 ^ prec\<close> as a fraction without trailing zeros.\<close>

definition fmtFrac :: "nat \<Rightarrow> nat \<Rightarrow> string" where
  "fmtFrac v prec =
     (let ds = rev (dropWhile (\<lambda>c. c = CHR ''0'') (rev (pad0 prec (int (v mod 10 ^ prec)))))
      in if v mod 10 ^ prec = 0 then [] else CHR ''.'' # ds)"

definition micro :: string where "micro = [CHR 0xC2, CHR 0xB5]"

definition duration_String :: "int \<Rightarrow> string" where
  "duration_String d =
     (let u = nat \<bar>d\<bar>; secs = u div 10 ^ 9 in
      if u = 0 then ''0s''
      else (if d < 0 then ''-'' else []) @
        (if u < 10 ^ 3 then nat_str u @ ''ns''
         else if u < 10 ^ 6 then nat_str (u div 10 ^ 3) @ fmtFrac u 3 @ micro @ ''s''
         else if u < 10 ^ 9 then nat_str (u div 10 ^ 6) @ fmtFrac u 6 @ ''ms''
         else (if secs div 3600 > 0 then nat_str (secs div 3600) @ ''h'' else []) @
              (if secs div 60 > 0 then nat_str (secs div 60 mod 60) @ ''m'' else []) @
              nat_str (secs mod 60) @ fmtFrac u 9 @ ''s''))"

text \<open>\<open>FormatDuration\<close>. \<open>Hours\<close>, \<open>Minutes\<close> and \<open>Seconds\<close> are floats; up to \<open>2 ^ 12\<close> hours their comparisons and their
  integer parts are those of the exact quotients, which stand here.\<close>

definition zh_day :: string where "zh_day = [CHR 0xE5, CHR 0xA4, CHR 0xA9]"
definition zh_hour :: string where "zh_hour = [CHR 0xE5, CHR 0xB0, CHR 0x8F, CHR 0xE6, CHR 0x97, CHR 0xB6]"
definition zh_minute :: string where "zh_minute = [CHR 0xE5, CHR 0x88, CHR 0x86, CHR 0xE9, CHR 0x92, CHR 0x9F]"
definition zh_second :: string where "zh_second = [CHR 0xE7, CHR 0xA7, CHR 0x92]"

definition quot_down :: "int \<Rightarrow> int \<Rightarrow> int" where
  "quot_down d unit = (if d \<ge> 0 then d div unit else - ((- d) div unit))"

definition duration_parts :: "int \<Rightarrow> int \<times> int \<times> int \<times> int" where
  "duration_parts d =
     (let h = quot_down d (3600 * second); m = quot_down d (60 * second); s = quot_down d second in
      if d > 23 * (3600 * second)
      then let day = h div 24; hour = h mod 24; minute = m - (day * 24 + hour) * 60
           in (day, hour, minute, s - ((day * 24 + hour) * 60 + minute) * 60)
      else if d > 59 * (60 * second)
      then let hour = m div 60; minute = m mod 60 in (0, hour, minute, s - (hour * 60 + minute) * 60)
      else if d > 59 * second then (0, 0, s div 60, s mod 60)
      else (0, 0, 0, s))"

definition FormatDuration :: "int \<Rightarrow> string" where
  "FormatDuration d =
     (case duration_parts d of (day, hour, minute, sec) \<Rightarrow>
        (let buf = (if day > 0 then itoa day @ zh_day else []) @ (if hour > 0 then itoa hour @ zh_hour else []) @
                   (if minute > 0 then itoa minute @ zh_minute else []) @ (if sec > 0 then itoa sec @ zh_second else [])
         in if buf = [] then ''0'' @ zh_second else buf))"

text \<open>The parts are those of the calendar: they add up to the whole seconds of the duration, each within its unit.\<close>

lemma duration_parts_split:
  assumes "0 \<le> d"
  shows "\<exists>day hour m s. s = d div second \<and> m = s div 60 \<and> day * 24 + hour = m div 60 \<and> 0 \<le> hour \<and> hour < 24 \<and> 0 \<le> day \<and>
     duration_parts d = (day, hour, m mod 60, s mod 60)"
proof -
  define s where "s = d div second"
  define h where "h = s div 60 div 60"
  have q: "quot_down d (3600 * second) = h" "quot_down d (60 * second) = s div 60" "quot_down d second = s"
    using assms by (simp_all add: quot_down_def s_def h_def zdiv_zmult2_eq [symmetric] second_def)
  have "s * second \<le> d" using div_mult_mod_eq [of d second] pos_mod_sign [of second d] unfolding s_def by (simp add: second_def)
  then have b: "\<not> d > 23 * (3600 * second) \<Longrightarrow> s \<le> 82800" "\<not> d > 59 * (60 * second) \<Longrightarrow> s \<le> 3540" "\<not> d > 59 * second \<Longrightarrow> s \<le> 59"
    unfolding second_def by linarith+
  have "0 \<le> s" using assms by (simp add: s_def second_def pos_imp_zdiv_nonneg_iff)
  then have c: "0 \<le> s" "0 \<le> h" "s \<le> 82800 \<Longrightarrow> h < 24" "s \<le> 3540 \<Longrightarrow> s div 60 < 60"
    using zdiv_mono1 [of s 82800 3600] zdiv_mono1 [of s 3540 60]
    by (simp_all add: h_def zdiv_zmult2_eq [symmetric] pos_imp_zdiv_nonneg_iff)
  note r = div_mult_mod_eq minus_div_mult_eq_mod
  have ex: ?thesis if "duration_parts d = (day, hour, s div 60 mod 60, s mod 60)" "day * 24 + hour = h" "0 \<le> hour" "hour < 24" "0 \<le> day"
    for day hour using that unfolding s_def h_def by blast
  show ?thesis
  proof (cases "d > 23 * (3600 * second)")
    case True
    then have "duration_parts d = (h div 24, h mod 24, s div 60 mod 60, s mod 60)"
      by (simp only: duration_parts_def Let_def q if_True r h_def)
    then show ?thesis by (rule ex) (use c(2) in \<open>simp_all add: pos_imp_zdiv_nonneg_iff\<close>)
  next
    case short: False
    have "duration_parts d = (0, h, s div 60 mod 60, s mod 60)"
    proof (cases "d > 59 * (60 * second)")
      case True
      then show ?thesis using short by (simp only: duration_parts_def Let_def q if_True if_False r h_def)
    next
      case False
      then show ?thesis using short b c by (auto simp: duration_parts_def Let_def q h_def)
    qed
    then show ?thesis by (rule ex) (use b(1) short c in simp_all)
  qed
qed

lemma duration_parts_exact:
  assumes "0 \<le> d" "duration_parts d = (day, hour, minute, sec)"
  shows "day * 86400 + hour * 3600 + minute * 60 + sec = d div second \<and> 0 \<le> day \<and>
     0 \<le> hour \<and> hour < 24 \<and> 0 \<le> minute \<and> minute < 60 \<and> 0 \<le> sec \<and> sec < 60"
proof -
  obtain m s where p: "s = d div second" "m = s div 60" "day * 24 + hour = m div 60" "0 \<le> hour" "hour < 24" "0 \<le> day"
    "minute = m mod 60" "sec = s mod 60"
    using duration_parts_split [OF assms(1)] assms(2) by auto
  have "s = m * 60 + s mod 60" "m = (m div 60) * 60 + m mod 60" unfolding p(2) by (simp_all only: div_mult_mod_eq)
  then have "day * 86400 + hour * 3600 + minute * 60 + sec = s" using p(3,7,8) by linarith
  moreover have "0 \<le> minute" "minute < 60" "0 \<le> sec" "sec < 60" unfolding p(7,8) by (simp_all only: pos_mod_sign pos_mod_bound zero_less_numeral)
  ultimately show ?thesis using p(4-6) unfolding p(1) by blast
qed

section \<open>JSON trees\<close>

text \<open>What the code hands to \<open>jsoniter\<close>: Go maps, whose keys it sorts, and structs, whose fields keep their order and have
  the names of their \<open>json\<close> tags; a \<open>time.Duration\<close> in a struct is a number. An error of \<open>Marshal\<close> is dropped with the text
  of a nil slice, so \<open>marshal\<close> is total.\<close>

datatype json = JStr string | JInt int | JBool bool | JList "json list" | JMap "(string \<times> json) list" | JStruct "(string \<times> json) list"

definition NetConfig_json :: "NetConfig \<Rightarrow> json" where
  "NetConfig_json c = JStruct [(''access_ip'', JStr (nc_AccessIP c)), (''bind_ip'', JStr (nc_BindIP c)), (''bind_port'', JInt (nc_BindPort c))]"

definition LogSettings_json :: "LogSettings \<Rightarrow> json" where
  "LogSettings_json c = JStruct [(''level'', JStr (ls_Level c)), (''disable_stdlog'', JBool (ls_DisableStdlog c))]"

definition mysql_entry :: "MySQLConfig \<Rightarrow> string \<times> json" where
  "mysql_entry c = (''mysql'', JMap
     [(''dsn'', JStr (my_DSN c)), (''min_open'', JInt (my_MinOpen c)), (''max_open'', JInt (my_MaxOpen c)),
      (''max_lifetime'', JStr (duration_String (my_MaxLifetime c))),
      (''connect_timeout'', JStr (duration_String (my_ConnectTimeout c))), (''startup_retry_times'', JInt (my_StartupRetryTimes c)),
      (''startup_retry_period'', JStr (duration_String (my_StartupRetryPeriod c)))])"

definition redis_entry :: "RedisConfig \<Rightarrow> string \<times> json" where
  "redis_entry c = (''redis'', JMap
     [(''dsn'', JStr (re_DSN c)), (''connect_timeout'', JStr (duration_String (re_ConnectTimeout c))),
      (''startup_retry_times'', JInt (re_StartupRetryTimes c)),
      (''startup_retry_period'', JStr (duration_String (re_StartupRetryPeriod c)))])"

definition etcd_entry :: "EtcdConfig \<Rightarrow> string \<times> json" where
  "etcd_entry c = (''etcd'', JMap
     [(''endpoints'', JList (map JStr (et_Endpoints c))), (''connect_timeout'', JStr (duration_String (et_ConnectTimeout c))),
      (''startup_retry_times'', JInt (et_StartupRetryTimes c)),
      (''startup_retry_period'', JStr (duration_String (et_StartupRetryPeriod c)))])"

definition opentrace_entry :: "TraceConfig \<Rightarrow> string \<times> json" where
  "opentrace_entry c = (''opentrace'', JMap
     [(''enable'', JBool (tc_Enable c)), (''dsn'', JStr (tc_DSN c)), (''connect_timeout'', JStr (duration_String (tc_ConnectTimeout c)))])"

section \<open>personal-core and personal-auth\<close>

definition core_entries :: "'a CoreConfig_scheme \<Rightarrow> (string \<times> json) list" where
  "core_entries c =
     [(''network'', NetConfig_json (cc_Network c)), (''log'', LogSettings_json (cc_Log c)), mysql_entry (cc_MySQL c),
      redis_entry (cc_Redis c), etcd_entry (cc_Etcd c), opentrace_entry (cc_Opentrace c)]"

definition core_Config_String :: "(json \<Rightarrow> string) \<Rightarrow> CoreConfig \<Rightarrow> string" where
  "core_Config_String marshal c = marshal (JMap (core_entries c))"

text \<open>The settings of the auth service, with their key in a parameter.\<close>

definition auth_settings :: "AuthConfig \<Rightarrow> string \<Rightarrow> json" where
  "auth_settings a key = JMap
     [(''access_token_expire'', JStr (duration_String (AccessTokenExpire a))),
      (''refresh_token_expire'', JStr (duration_String (RefreshTokenExpire a))), (''signing_key'', JStr key),
      (''max_login_attempts'', JInt (MaxLoginAttempts a)), (''login_lock_duration'', JStr (duration_String (LoginLockDuration a))),
      (''max_ip_login_attempts'', JInt (MaxIPLoginAttempts a)),
      (''ip_login_lock_duration'', JStr (duration_String (IPLoginLockDuration a)))]"

definition AuthConfig_String :: "(json \<Rightarrow> string) \<Rightarrow> AuthConfig \<Rightarrow> string" where
  "AuthConfig_String marshal a = marshal (auth_settings a ''***'')"

definition auth_Config_String :: "(json \<Rightarrow> string) \<Rightarrow> CoreConfig \<Rightarrow> AuthConfig \<Rightarrow> string" where
  "auth_Config_String marshal c a = marshal (JMap (core_entries c @ [(''auth'', auth_settings a (cfg_SigningKey a))]))"

definition auth_DefaultConfig :: "CoreConfig \<times> AuthConfig" where
  "auth_DefaultConfig =
     (\<lparr>cc_Network = \<lparr>nc_AccessIP = [], nc_BindIP = ''0.0.0.0'', nc_BindPort = 50001\<rparr>,
       cc_Log = \<lparr>ls_Level = ''info'', ls_DisableStdlog = False\<rparr>,
       cc_MySQL = \<lparr>my_StartupRetryPeriod = 3 * second, my_StartupRetryTimes = 3, my_ConnectTimeout = 10 * second,
         my_DSN = ''root:root@tcp(127.0.0.1:3306)/personal_auth?charset=utf8mb4&parseTime=True&loc=Local'', my_MinOpen = 3, my_MaxOpen = 10,
         my_MaxLifetime = 300 * second\<rparr>,
       cc_Redis = \<lparr>re_DSN = ''redis://127.0.0.1:6379/0'', re_ConnectTimeout = 10 * second, re_StartupRetryTimes = 3,
         re_StartupRetryPeriod = 3 * second\<rparr>,
       cc_Etcd = \<lparr>et_Endpoints = [''127.0.0.1:2379''], et_ConnectTimeout = 10 * second, et_StartupRetryTimes = 3,
         et_StartupRetryPeriod = 3 * second\<rparr>,
       cc_Opentrace = \<lparr>tc_Enable = False, tc_DSN = [], tc_ConnectTimeout = 10 * second\<rparr>\<rparr>,
      \<lparr>AccessTokenExpire = 3600 * second, RefreshTokenExpire = 7 * 24 * 3600 * second, cfg_SigningKey = [], MaxLoginAttempts = 5,
       LoginLockDuration = 2 * 60 * second, MaxIPLoginAttempts = 20, IPLoginLockDuration = 60 * second\<rparr>)"

section \<open>personal-api\<close>

definition service_settings :: "ServiceConfig \<Rightarrow> string \<Rightarrow> (string \<times> json) list" where
  "service_settings c key =
     [(''auth_service_target'', JStr (sv_AuthServiceTarget c)), (''core_service_target'', JStr (sv_CoreServiceTarget c)), (''signing_key'', JStr key)]"

definition ServiceConfig_String :: "(json \<Rightarrow> string) \<Rightarrow> ServiceConfig \<Rightarrow> string" where
  "ServiceConfig_String marshal c = marshal (JMap (service_settings c ''***''))"

text \<open>The service settings go into the map as a struct, so that the library writes their fields and not their \<open>String\<close>.\<close>

definition api_Config_String :: "(json \<Rightarrow> string) \<Rightarrow> ApiConfig \<Rightarrow> string" where
  "api_Config_String marshal c = marshal (JMap
     [(''network'', NetConfig_json (pc_Network c)), (''log'', LogSettings_json (pc_Log c)), etcd_entry (pc_Etcd c),
      opentrace_entry (pc_Opentrace c), (''service'', JStruct (service_settings (pc_Service c) (sv_SigningKey (pc_Service c))))])"

section \<open>The system (lib/system)\<close>

record process_info =
  ps_name :: string
  ps_args :: "string list"
  ps_pid :: int
  ps_ppid :: int

definition system_String :: "(json \<Rightarrow> string) \<Rightarrow> string \<Rightarrow> network \<Rightarrow> process_info \<Rightarrow> directory \<Rightarrow> string" where
  "system_String marshal hostname n p d = marshal (JMap
     [(''machine'', JStruct [(''hostname'', JStr hostname)]),
      (''network'', JStruct [(''access_ip'', JStr (nw_accessIP n)), (''bind_ip'', JStr (nw_bindIP n))]),
      (''process'', JStruct [(''name'', JStr (ps_name p)), (''args'', JList (map JStr (ps_args p))), (''pid'', JInt (ps_pid p)),
        (''ppid'', JInt (ps_ppid p))]),
      (''directory'', JStruct [(''root_dir'', JStr (d_rootDir d)), (''app_dir'', JStr (d_appDir d)), (''usr_dir'', JStr (d_usrDir d)),
        (''var_dir'', JStr (d_varDir d)), (''log_dir'', JStr (d_logDir d)), (''box_dir'', JStr (d_boxDir d)),
        (''exec_dir'', JStr (d_execDir d))])])"

section \<open>What the log gives away\<close>

text \<open>The methods \<open>String\<close> of the settings mask the signing key; the texts that start-up logs do not use them. With a
  library whose texts tell trees apart, the logged text of the auth service and that of the gateway determine the key,
  while the masked texts are the same for all keys.\<close>

theorem config_text_shows_key:
  assumes "inj marshal"
  shows "(auth_Config_String marshal c (a\<lparr>cfg_SigningKey := k1\<rparr>) = auth_Config_String marshal c (a\<lparr>cfg_SigningKey := k2\<rparr>) \<longleftrightarrow> k1 = k2) \<and>
     (api_Config_String marshal (g\<lparr>pc_Service := (pc_Service g)\<lparr>sv_SigningKey := k1\<rparr>\<rparr>) =
      api_Config_String marshal (g\<lparr>pc_Service := (pc_Service g)\<lparr>sv_SigningKey := k2\<rparr>\<rparr>) \<longleftrightarrow> k1 = k2) \<and>
     AuthConfig_String marshal (a\<lparr>cfg_SigningKey := k1\<rparr>) = AuthConfig_String marshal (a\<lparr>cfg_SigningKey := k2\<rparr>) \<and>
     ServiceConfig_String marshal ((pc_Service g)\<lparr>sv_SigningKey := k1\<rparr>) =
     ServiceConfig_String marshal ((pc_Service g)\<lparr>sv_SigningKey := k2\<rparr>)"
  using assms
  by (simp add: auth_Config_String_def api_Config_String_def AuthConfig_String_def ServiceConfig_String_def auth_settings_def
      service_settings_def core_entries_def inj_eq)

end
