(* ===== verification/NodeId.thy ===== *)
theory NodeId
  imports ProcessProps Auth
begin

text \<open>
  What happens before the entry point of a service: the number of the snowflake node (\<open>lib/snowflake/id.go\<close>), from the
  environment, and \<open>main\<close>. And what the ids of accounts are: texts of one length that read back.
\<close>

section \<open>The node\<close>

definition machineID :: "(string \<Rightarrow> string) \<Rightarrow> int" where
  "machineID getenv =
     (let v = getenv ''SNOWFLAKE_MACHINE_ID'' in
      if v \<noteq> []
      then case parse_int v of
             Some n \<Rightarrow> (if 0 \<le> n \<and> n \<le> 1023 then n else 1)
           | None \<Rightarrow> 1
      else 1)"

text \<open>\<open>init\<close> panics when the library refuses the number; \<open>NewNode\<close> is a parameter.\<close>

definition snowflake_init :: "(int \<Rightarrow> goerr + 'node) \<Rightarrow> (string \<Rightarrow> string) \<Rightarrow> 'node option" where
  "snowflake_init NewNode getenv = (case NewNode (machineID getenv) of Inl e \<Rightarrow> None | Inr node \<Rightarrow> Some node)"

text \<open>The library accepts the numbers of ten bits, so that no environment keeps a service from starting.\<close>

lemma snowflake_starts:
  assumes "\<forall>n. 0 \<le> n \<and> n \<le> 1023 \<longrightarrow> (\<exists>node. NewNode n = Inr node)"
  shows "\<exists>node. snowflake_init NewNode getenv = Some node"
proof -
  have "0 \<le> machineID getenv \<and> machineID getenv \<le> 1023" by (auto simp: machineID_def Let_def split: option.split)
  then obtain node where "NewNode (machineID getenv) = Inr node" using assms by blast
  then show ?thesis by (simp add: snowflake_init_def)
qed

section \<open>main\<close>

text \<open>The exit status and what goes to standard error. The programs differ in the texts of their messages.\<close>

definition service_main :: "string \<Rightarrow> string \<Rightarrow> (goerr \<Rightarrow> string) \<Rightarrow> (goerr + directory) \<Rightarrow> (directory \<Rightarrow> goerr option) \<Rightarrow> int \<times> string" where
  "service_main loadText runText err runtime run =
     (case runtime of
        Inl e \<Rightarrow> (1, loadText @ err e @ [char_of (10 :: nat)])
      | Inr d \<Rightarrow>
          (case run d of
             Some e \<Rightarrow> (1, runText @ err e @ [char_of (10 :: nat)])
           | None \<Rightarrow> (0, [])))"

definition auth_main :: "(goerr \<Rightarrow> string) \<Rightarrow> (goerr + directory) \<Rightarrow> (directory \<Rightarrow> goerr option) \<Rightarrow> int \<times> string" where
  "auth_main = service_main ''[Fatal] load runtime failure: '' ''[Fatal] run app failure: ''"

definition api_main :: "(goerr \<Rightarrow> string) \<Rightarrow> (goerr + directory) \<Rightarrow> (directory \<Rightarrow> goerr option) \<Rightarrow> int \<times> string" where
  "api_main = service_main ''load runtime failure: '' []"

section \<open>Ids\<close>

lemma num_of_filled: "num_of (replicate n (CHR ''0'') @ s) = num_of s"
  by (induction n) (simp_all add: num_of_def)

lemma GenerateID_num: "0 \<le> n \<Longrightarrow> num_of (GenerateID n) = nat n"
  by (simp add: GenerateID_def Let_def itoa_def num_of_filled)

lemma GenerateID_length: "0 \<le> n \<Longrightarrow> n < 2 ^ 63 \<Longrightarrow> length (GenerateID n) = 19"
proof -
  assume n: "0 \<le> n" "n < 2 ^ 63"
  have "length (nat_str (nat n)) \<le> 19" by (rule length_nat_str) (use n in simp_all)
  then show ?thesis using n by (auto simp: GenerateID_def Let_def itoa_def limiterLength_def)
qed

text \<open>The texts of the ids that a node generates, positive 64-bit numbers, have nineteen digits, read back, and are different
  for different ids: two accounts share a text only when they share the id.\<close>

theorem account_ids_distinct:
  assumes "0 \<le> a" "a < 2 ^ 63" "0 \<le> b" "b < 2 ^ 63"
  shows "length (GenerateID a) = 19 \<and> int (num_of (GenerateID a)) = a \<and> (GenerateID a = GenerateID b \<longleftrightarrow> a = b)"
  using assms GenerateID_num [of a] GenerateID_num [of b] GenerateID_length [of a] by auto

theorem account_ids_distinct_witness:
  "GenerateID 4096 \<noteq> GenerateID 8192 \<and> length (GenerateID 4096) = 19"
  using account_ids_distinct [of 4096 8192] by simp

end
