(* ===== verification/Spec2Isabelle.thy ===== *)
theory Spec2Isabelle
  imports CoreRun SqlProps CategoryProps SessionProps AuthLocks ApiAuthRun ApiAvatar Routes Discovery GrpcMiddleware RequestTraces GlobalLog
    ProcessProps EmbedMigrate Daemon GatewayBoot ConfigText NodeId
begin

text \<open>
  \<^bold>\<open>A verification library for personal-service.\<close>

  \<^bold>\<open>The program.\<close> Three Go services. \<open>personal-api\<close> is the HTTP gateway: a JWT middleware
  (\<open>lib/http/middleware/jwt.go\<close>) in front of handlers (\<open>apps/personal-api/pkg/handler\<close>) that call gRPC clients
  (\<open>pkg/service\<close>). \<open>personal-auth\<close> (\<open>apps/personal-auth\<close>) keeps accounts in MySQL and sessions and login locks in
  Redis (\<open>lib/auth/statetoken.go\<close>) and issues tokens (\<open>lib/auth/jwt.go\<close>). \<open>personal-core\<close> (\<open>apps/personal-core\<close>) keeps
  cash flow, balance sheet, portfolio and profile of each account in MySQL through the builder of \<open>lib/sqlutil\<close>; the
  account of a call travels in the gRPC metadata.

  \<^bold>\<open>Theories and sources.\<close>

  \<^item> \<open>Prelude\<close>: shared types (errors, statuses, results), Go's string and integer functions, lemmas on lists and maps.
  \<^item> \<open>SqlUtil\<close>: the statement builder (\<open>lib/sqlutil\<close>). \<open>SqlSem\<close>: the meaning of its statements on tables of rows.
    \<open>SqlRoundtrip\<close>, \<open>SqlReader\<close>, \<open>SqlProps\<close>: the texts parse back, carry one placeholder per argument and no values; the
    reader of \<open>SqlReader\<close> covers every condition, connective and clause of a query that the builder can print.
  \<^item> \<open>Money\<close>: cents and yuan. \<open>MySql\<close>: the contract of the server (locale \<open>mysql\<close>) and the steps that the model layer
    makes. A statement takes effect as a whole or not at all; an error can be reported in both cases, as the answer to an
    executed statement can be lost. \<open>Entity\<close>: what every core table has in common. \<open>CashFlow\<close>, \<open>BalanceSheet\<close>, \<open>Portfolio\<close>, \<open>Profile\<close>: model layer
    and handlers of each service (\<open>pkg/model\<close>, \<open>pkg/service\<close>), every method. \<open>RefDb\<close>: a server that fulfils the contract.
    \<open>CoreRun\<close>: the method dispatcher and account interceptor of \<open>pkg/server/server.go\<close>, and runs of requests.
    \<open>CashFlowProps\<close>, \<open>CashFlowEdits\<close>, \<open>CategoryProps\<close>: listings, paging, edits, cascades.
  \<^item> \<open>Redis\<close>: the contract of Redis (locale \<open>redis\<close>) and an implementation in memory. \<open>Sha256\<close>: digests and hex.
    \<open>StateToken\<close>: all of \<open>lib/auth/statetoken.go\<close>. \<open>Sessions\<close>, \<open>SessionProps\<close>: runs of session calls, the session limit,
    rotation and revocation.
  \<^item> \<open>Jwt\<close>: \<open>lib/auth/jwt.go\<close> over the library (locale \<open>jwt\<close>). \<open>AuthModel\<close>: \<open>personal-auth/pkg/model\<close>. \<open>Auth\<close>: the nine
    handlers of \<open>pkg/service/auth.go\<close>. \<open>AuthStore\<close> (locale \<open>auth_store\<close>: the database with transactions), \<open>AuthRules\<close>
    (locale \<open>auth_world\<close>: the handlers on it), \<open>AuthProps\<close>, \<open>AuthLocks\<close> (locale \<open>reliable_redis\<close>): registration, login,
    passwords, deletion, tokens, lock-out.
  \<^item> \<open>Gateway\<close>: the JWT middleware. \<open>ApiCore\<close>, \<open>ApiAuth\<close>, \<open>ApiAvatar\<close> (locale \<open>object_store\<close>): messages, client services
    and handlers of \<open>personal-api\<close>. \<open>Routes\<close> (locale \<open>echo_router\<close>): the table of routes that the handler files register and
    the paths that need no token. \<open>ApiRun\<close>, \<open>ApiProps\<close>, \<open>ApiAuthRun\<close>: the gateway on top of the two services over a
    network that may lose calls.
  \<^item> \<open>Paths\<close>: path functions of Go's library. \<open>Migrate\<close> (locale \<open>migration_db\<close>), \<open>MigrateProps\<close>: the schema migration of
    \<open>lib/sqlutil/api_migrate.go\<close>. The contract has the collation of the record table's key as a parameter (\<open>same\<close>: names
    that are one key to it), and lets the statements of scripts touch that table; the theorems say where they need names
    to be \<open>apart\<close> for it and the table to be \<open>spared\<close>. \<open>EmbedFiles\<close> (locale \<open>disk\<close>), \<open>EmbedMigrate\<close>: the embedded scripts, written to disk by
    \<open>lib/fsutil\<close> and then migrated.
  \<^item> \<open>Startup\<close>: configurations, retry loops and cleanup functions (\<open>lib/db/mysql\<close>, \<open>lib/redis\<close>, \<open>lib/minio\<close>,
    \<open>lib/finalizer\<close>). \<open>Registration\<close> (locale \<open>etcd_lease\<close>): the etcd connection, registration and its keep-alive loop
    (\<open>lib/etcd\<close>) and the server's \<open>Stop\<close>. \<open>Discovery\<close>: the resolver of \<open>lib/grpc/lb\<close>. \<open>GrpcMiddleware\<close>: the interceptors of
    \<open>lib/grpc/middleware\<close>; \<open>RequestTraces\<close>: its tracing interceptors and the gateway's access log. \<open>LogText\<close>: the text
    encoder of \<open>lib/zlog\<close>; \<open>LogSetup\<close>: its sinks, lock and core; \<open>GlobalLog\<close>: its package variables and logging functions.
    \<open>Process\<close>, \<open>ProcessProps\<close>: directories, flags, configuration, the components of \<open>pkg/server\<close> and the entry points
    \<open>cmd/root.go\<close> with \<open>lib/startup\<close>; \<open>GatewayBoot\<close>: the same for the gateway, with \<open>lib/http/server\<close> and the variables of
    \<open>lib/minio\<close>; \<open>Daemon\<close>: parent and child of \<open>lib/procutil/background.go\<close>; \<open>ConfigText\<close>: the texts that start-up logs; \<open>NodeId\<close>: \<open>main\<close>
    and the snowflake node (\<open>lib/snowflake\<close>).

  \<^bold>\<open>How state and operations correspond.\<close> A handler is a function of the context, the request and the state of its
  store, and returns the answer with the new state. An error is a value: a Go error (\<open>goerr\<close>), a gRPC status, an HTTP
  answer; a panic is \<open>None\<close>. Database, Redis, JWT library, PBKDF2, object store, drivers, clock and randomness are
  parameters; what the code relies on of them is stated in the locales above, each interpreted on a concrete
  implementation that the witnesses run. Machine integers are \<open>int\<close> with the conversions \<open>int32_conv\<close> and \<open>int64_conv\<close>
  written where the source converts or can wrap; strings are byte lists.

  \<^bold>\<open>What the lemmas show.\<close> For \<open>personal-core\<close>: isolation of accounts, atomicity of failed requests (no change, or one
  statement whose answer was lost) and finality of deletion over arbitrary runs; exactness of listings, paging, read-back of edits, cascades. For sessions: the limit of
  live sessions, single use of refresh tokens, revocation. For \<open>personal-auth\<close>: soundness of login, registration as all
  or nothing, replacement of passwords, deletion of accounts, lock-out. For the gateway: refinement of the core service
  by its 27 core endpoints, payloads included, isolation by token, the routes that need no token, transparent refresh,
  answer shapes, cookie lifetimes, what an avatar upload removes. For the migration: exactly the changed
  scripts run, in order; a second run does nothing; a failed run is taken up by the next where it stopped; names that
  differ only in case replace each other's record. For processes: start-up ends,
  and what was opened is closed, after the service has stopped, for all three services, for the two gRPC services with the
  exact order of every step; the schema is that of the
  embedded scripts; a daemon's parent reports success only to the holder of its key. For discovery: a lost registration is restored, the
  resolver follows the store. For the gRPC chain: answers pass unchanged, one log line each. For the log: an entry is one
  line, and string fields read back.
  Several theorems state behaviour that is surely not meant (dead sessions, lock-outs, removed pictures); they are
  listed as findings beside the library.

  \<^bold>\<open>Bounds.\<close> No model of the code needs fuel (the reader of \<open>SqlReader\<close>, which is not the program's, is given twice the
  number of tokens, which is proved to be enough). The retry loops are partial functions in the option type and are proved to return;
  all other recursion is structural or has a measure.

  \<^bold>\<open>Not modelled, and why.\<close> Generated gRPC code and the registration of services with grpc-go have no logic of their own;
  the exporter of traces, profiling, the free port and the coloured status lines of a daemon are calls of the operating
  system or of libraries; reading of TOML is the library viper's, parsing of flags that of go-flags, routing echo's, the
  JSON texts those of jsoniter and zap. \<open>timeutil.Duration\<close>, the \<open>String\<close> methods of single store configurations and
  \<open>netutil.Config.VerifyConfig\<close> are called by nothing; the logger for tests serves tests. The hours, minutes and seconds of
  \<open>FormatDuration\<close> are exact quotients, which its floats are for less than \<open>2 ^ 12\<close> hours. The web front end is not Go.
  Nothing else of the program's own logic is left out.
\<close>

end
